(* ===== verification/Prelude.thy ===== *)
theory Prelude
  imports Main "HOL-Library.AList"
begin

text \<open>
  What the components share: actions over an explicit state that can raise (the handlers of the
  server run one after another over one database transaction), the rules that carry an invariant
  through a composed action, Python dictionaries as association lists in insertion order, and a few
  facts on lists. The collection \<open>keeps_rules\<close> holds the preservation lemmas of the components.
\<close>

named_theorems keeps_rules \<open>an action keeps a predicate of the state\<close>
named_theorems act_defs \<open>definitions of the primitive actions\<close>

section \<open>Actions that pass a state and may raise\<close>

text \<open>
  An action takes the state and returns either an exception (\<open>Inl\<close>) or a value (\<open>Inr\<close>), with the
  state at that point. Raising does not undo anything by itself: undoing is what the end of the
  transaction does.
\<close>

type_synonym ('s, 'e, 'a) act = "'s \<Rightarrow> ('e + 'a) \<times> 's"

definition ret :: "'a \<Rightarrow> ('s, 'e, 'a) act" where
  "ret x = (\<lambda>s. (Inr x, s))"

definition raising :: "'e \<Rightarrow> ('s, 'e, 'a) act" where
  "raising e = (\<lambda>s. (Inl e, s))"

definition and_then :: "('s, 'e, 'a) act \<Rightarrow> ('a \<Rightarrow> ('s, 'e, 'b) act) \<Rightarrow> ('s, 'e, 'b) act" where
  "and_then m f = (\<lambda>s. case m s of (Inl e, s') \<Rightarrow> (Inl e, s') | (Inr x, s') \<Rightarrow> f x s')"

definition seq :: "('s, 'e, 'a) act \<Rightarrow> ('s, 'e, 'b) act \<Rightarrow> ('s, 'e, 'b) act" where
  "seq m n = and_then m (\<lambda>_. n)"

definition reading :: "('s \<Rightarrow> 'a) \<Rightarrow> ('s, 'e, 'a) act" where
  "reading f = (\<lambda>s. (Inr (f s), s))"

definition changing :: "('s \<Rightarrow> 's) \<Rightarrow> ('s, 'e, unit) act" where
  "changing f = (\<lambda>s. (Inr (), f s))"

definition lifting :: "'e + 'a \<Rightarrow> ('s, 'e, 'a) act" where
  "lifting r = (\<lambda>s. (r, s))"

definition unless_raise :: "bool \<Rightarrow> 'e \<Rightarrow> ('s, 'e, unit) act" where
  "unless_raise b e = (if b then ret () else raising e)"

primrec for_each :: "'x list \<Rightarrow> ('x \<Rightarrow> ('s, 'e, unit) act) \<Rightarrow> ('s, 'e, unit) act" where
  "for_each [] f = ret ()"
| "for_each (x # xs) f = seq (f x) (for_each xs f)"

primrec map_act :: "('x \<Rightarrow> ('s, 'e, 'a) act) \<Rightarrow> 'x list \<Rightarrow> ('s, 'e, 'a list) act" where
  "map_act f [] = ret []"
| "map_act f (x # xs) = and_then (f x) (\<lambda>y. and_then (map_act f xs) (\<lambda>ys. ret (y # ys)))"

lemmas [act_defs] = ret_def raising_def and_then_def seq_def reading_def changing_def lifting_def
  unless_raise_def

lemma and_then_Inr:
  "and_then m f s = (Inr y, t) \<longleftrightarrow> (\<exists>x u. m s = (Inr x, u) \<and> f x u = (Inr y, t))"
  by (auto simp: and_then_def split: prod.splits sum.splits)

lemma seq_Inr:
  "seq m n s = (Inr y, t) \<longleftrightarrow> (\<exists>x u. m s = (Inr x, u) \<and> n u = (Inr y, t))"
  by (auto simp: seq_def and_then_Inr)

lemma ret_Inr: "ret x s = (Inr y, t) \<longleftrightarrow> y = x \<and> t = s"
  by (auto simp: ret_def)

lemma raising_Inr: "raising e s = (Inr y, t) \<longleftrightarrow> False"
  by (auto simp: raising_def)

lemma reading_Inr: "reading f s = (Inr y, t) \<longleftrightarrow> y = f s \<and> t = s"
  by (auto simp: reading_def)

lemma changing_Inr: "changing f s = (Inr y, t) \<longleftrightarrow> t = f s"
  by (auto simp: changing_def)

lemma lifting_Inr: "lifting r s = (Inr y, t) \<longleftrightarrow> r = Inr y \<and> t = s"
  by (auto simp: lifting_def)

lemma unless_raise_Inr: "unless_raise b e s = (Inr y, t) \<longleftrightarrow> b \<and> t = s"
  by (auto simp: unless_raise_def ret_def raising_def)

lemmas act_Inr = and_then_Inr seq_Inr ret_Inr raising_Inr reading_Inr changing_Inr lifting_Inr
  unless_raise_Inr

section \<open>Preservation of a predicate of the state\<close>

text \<open>
  An action keeps \<open>P\<close> when \<open>P\<close> holds afterwards whether it returned or raised.
\<close>

definition keeps :: "('s \<Rightarrow> bool) \<Rightarrow> ('s, 'e, 'a) act \<Rightarrow> bool" where
  "keeps P m \<longleftrightarrow> (\<forall>s. P s \<longrightarrow> P (snd (m s)))"

lemma keepsI: "(\<And>s. P s \<Longrightarrow> P (snd (m s))) \<Longrightarrow> keeps P m"
  by (simp add: keeps_def)

lemma keepsD: "keeps P m \<Longrightarrow> m s = (r, t) \<Longrightarrow> P s \<Longrightarrow> P t"
  by (auto simp: keeps_def dest!: spec [of _ s])

lemma same_state: "(\<And>P. keeps P m) \<Longrightarrow> m w = (r, w') \<Longrightarrow> w' = w"
  using keepsD [of "\<lambda>v. v = w" m w r w'] by auto

text \<open>A step that only reads leaves the state to the next one.\<close>

lemma and_then_read:
  assumes "\<And>P. keeps P m"
  shows "and_then m f w = (Inr y, w') \<longleftrightarrow> (\<exists>x. m w = (Inr x, w) \<and> f x w = (Inr y, w'))"
  using same_state [OF assms] unfolding act_Inr by fast

lemma keeps_ret [keeps_rules, intro]: "keeps P (ret x)"
  by (simp add: keeps_def ret_def)

lemma keeps_raising [keeps_rules, intro]: "keeps P (raising e)"
  by (simp add: keeps_def raising_def)

lemma keeps_reading [keeps_rules, intro]: "keeps P (reading f)"
  by (simp add: keeps_def reading_def)

lemma keeps_lifting [keeps_rules, intro]: "keeps P (lifting r)"
  by (simp add: keeps_def lifting_def)

lemma keeps_unless_raise [keeps_rules, intro]: "keeps P (unless_raise b e)"
  by (simp add: unless_raise_def keeps_ret keeps_raising)

lemma keeps_changing: "(\<And>s. P s \<Longrightarrow> P (f s)) \<Longrightarrow> keeps P (changing f)"
  by (simp add: keeps_def changing_def)

lemma keeps_and_then [keeps_rules, intro]:
  "keeps P m \<Longrightarrow> (\<And>x. keeps P (f x)) \<Longrightarrow> keeps P (and_then m f)"
  unfolding keeps_def and_then_def by (auto split: prod.splits sum.splits)

lemma keeps_seq [keeps_rules, intro]: "keeps P m \<Longrightarrow> keeps P n \<Longrightarrow> keeps P (seq m n)"
  by (simp add: seq_def keeps_and_then)

lemma keeps_for_each [keeps_rules, intro]: "(\<And>x. keeps P (f x)) \<Longrightarrow> keeps P (for_each xs f)"
  by (induction xs) (auto simp: keeps_ret keeps_seq)

lemma keeps_map_act [keeps_rules, intro]: "(\<And>x. keeps P (f x)) \<Longrightarrow> keeps P (map_act f xs)"
  by (induction xs) (auto simp: keeps_ret keeps_and_then)

lemma keeps_if [keeps_rules, intro]: "keeps P m \<Longrightarrow> keeps P n \<Longrightarrow> keeps P (if b then m else n)"
  by simp

lemma keeps_option [keeps_rules, intro]:
  "keeps P m \<Longrightarrow> (\<And>x. keeps P (f x)) \<Longrightarrow> keeps P (case y of None \<Rightarrow> m | Some x \<Rightarrow> f x)"
  by (cases y) simp_all

section \<open>Dictionaries in insertion order\<close>

text \<open>
  \<open>AList.update\<close> is Python's item assignment: an existing key keeps its place, a new one goes to the
  end. \<open>dict_of ks f\<close> is the comprehension \<open>{k: f(k) for k in ks}\<close>.
\<close>

definition dict_of :: "'k list \<Rightarrow> ('k \<Rightarrow> 'v) \<Rightarrow> ('k \<times> 'v) list" where
  "dict_of ks f = fold (\<lambda>k d. AList.update k (f k) d) ks []"

lemma map_of_fold_update:
  "map_of (fold (\<lambda>k d. AList.update k (f k) d) ks d) x =
    (if x \<in> set ks then Some (f x) else map_of d x)"
  by (induction ks arbitrary: d) (auto simp: update_conv)

lemma map_of_dict_of: "map_of (dict_of ks f) x = (if x \<in> set ks then Some (f x) else None)"
  by (simp add: dict_of_def map_of_fold_update)

lemma map_of_map_snd: "map_of (map (\<lambda>(k, v). (k, f v)) d) x = map_option f (map_of d x)"
  by (induction d) auto

lemma dom_map_of_keys: "dom (map_of d) = fst ` set d"
  by (simp add: dom_map_of_conv_image_fst)

text \<open>\<open>d.update(e)\<close>, and the comprehension \<open>{key(r): value(r) for r in rows}\<close> over rows.\<close>

definition dict_merge :: "('k \<times> 'v) list \<Rightarrow> ('k \<times> 'v) list \<Rightarrow> ('k \<times> 'v) list" where
  "dict_merge d e = fold (\<lambda>(k, v) d. AList.update k v d) e d"

definition dict_rows :: "('r \<Rightarrow> 'k) \<Rightarrow> ('r \<Rightarrow> 'v) \<Rightarrow> 'r list \<Rightarrow> ('k \<times> 'v) list" where
  "dict_rows key value rows = fold (\<lambda>r. AList.update (key r) (value r)) rows []"

lemma map_of_dict_merge:
  "map_of (dict_merge d e) x = (case map_of (rev e) x of None \<Rightarrow> map_of d x | Some v \<Rightarrow> Some v)"
  unfolding dict_merge_def
  by (induction e arbitrary: d) (auto simp: update_conv' map_add_def split: option.splits)

lemma distinct_dict_merge: "distinct (map fst d) \<Longrightarrow> distinct (map fst (dict_merge d e))"
  unfolding dict_merge_def by (induction e arbitrary: d) (auto simp: distinct_update)

lemma dict_rows_snoc: "dict_rows key value (rows @ [r]) = AList.update (key r) (value r) (dict_rows key value rows)"
  by (simp add: dict_rows_def)

lemma update_new: "k \<notin> fst ` set d \<Longrightarrow> AList.update k v d = d @ [(k, v)]"
  by (induction d) auto

lemma dict_rows_distinct:
  "distinct (map key rows) \<Longrightarrow> dict_rows key value rows = map (\<lambda>r. (key r, value r)) rows"
proof (induction rows rule: rev_induct)
  case (snoc r rows)
  then show ?case by (auto simp: dict_rows_snoc update_new image_image)
qed (simp add: dict_rows_def)

definition get_or :: "('k \<times> 'v) list \<Rightarrow> 'k \<Rightarrow> 'v \<Rightarrow> 'v" where
  "get_or d k v = (case map_of d k of None \<Rightarrow> v | Some w \<Rightarrow> w)"

section \<open>Lists\<close>

lemma list_ex_set: "list_ex P xs \<longleftrightarrow> (\<exists>x\<in>set xs. P x)"
  by (simp add: list_ex_iff)

lemma filter_eq_Nil: "filter P xs = [] \<longleftrightarrow> (\<forall>x\<in>set xs. \<not> P x)"
  by (induction xs) auto

text \<open>The option that an optional field of a request or of a filter leaves open when it is absent.\<close>

definition opt_all :: "('a \<Rightarrow> bool) \<Rightarrow> 'a option \<Rightarrow> bool" where
  "opt_all P x = (case x of None \<Rightarrow> True | Some y \<Rightarrow> P y)"

lemma opt_all_simps [simp]: "opt_all P None" "opt_all P (Some y) = P y"
  by (simp_all add: opt_all_def)

lemma opt_all_iff: "opt_all P x \<longleftrightarrow> (\<forall>y. x = Some y \<longrightarrow> P y)"
  by (cases x) simp_all

section \<open>Joining and splitting\<close>

text \<open>\<open>sep.join(parts)\<close>, and \<open>s.split(c)\<close> for one character.\<close>

fun join_with :: "'a list \<Rightarrow> 'a list list \<Rightarrow> 'a list" where
  "join_with sep [] = []"
| "join_with sep [x] = x"
| "join_with sep (x # xs) = x @ sep @ join_with sep xs"

fun split_on :: "'a \<Rightarrow> 'a list \<Rightarrow> 'a list list" where
  "split_on d [] = [[]]"
| "split_on d (c # cs) =
    (if c = d then [] # split_on d cs else case split_on d cs of [] \<Rightarrow> [[c]] | x # xs \<Rightarrow> (c # x) # xs)"

lemma split_on_absent: "d \<notin> set s \<Longrightarrow> split_on d s = [s]"
  by (induction s) auto

lemma split_on_append: "d \<notin> set s \<Longrightarrow> split_on d (s @ d # t) = s # split_on d t"
  by (induction s) auto

lemma split_join: "l \<noteq> [] \<Longrightarrow> \<forall>s\<in>set l. d \<notin> set s \<Longrightarrow> split_on d (join_with [d] l) = l"
  by (induction "[d]" l rule: join_with.induct) (simp_all add: split_on_absent split_on_append)

text \<open>\<open>s.endswith(e)\<close>\<close>

definition ends_with :: "string \<Rightarrow> string \<Rightarrow> bool" where
  "ends_with s e \<longleftrightarrow> length e \<le> length s \<and> drop (length s - length e) s = e"

end
