(* ===== verification/Grant_Model.thy ===== *)
theory Grant_Model
  imports Prelude
begin

text \<open>
  \<open>api/model/grant.py\<close>: the grants that roles and boundaries hold. Every class with a \<open>filter\<close> and
  a \<open>permission\<close> is an instance of one record; the tagged union \<open>Grant\<close> is a datatype with one
  constructor per class. In every permission \<open>None\<close> stands for all the possible values.
  Serializing to the JSON columns and back (pydantic) is the identity here: a row holds grants.
\<close>

section \<open>Filters and permissions\<close>

record id_filter =
  f_id :: "int option"

type_synonym boundary_filter = id_filter
type_synonym tag_filter = id_filter
type_synonym role_filter = id_filter
type_synonym tenant_filter = id_filter
type_synonym auth_filter = id_filter
type_synonym bastion_filter = id_filter

record triplet_filter =
  tf_id :: "int option"
  tf_tag_id_list :: "int list option"
  tf_boundary_id_list :: "int list option"

record live_filter =
  lf_tag_id_list :: "int list option"

record crd_permission =
  p_create :: bool
  p_read :: bool
  p_delete :: bool

type_synonym tag_permission = crd_permission

record boundary_update_permission =
  bu_name :: bool
  bu_description :: bool
  bu_ceiling_list :: bool
  bu_denied_list :: bool

record boundary_permission = crd_permission +
  bp_update :: "boundary_update_permission option"

record role_update_permission =
  ru_name :: bool
  ru_description :: bool
  ru_grant_list :: bool
  ru_member_list :: bool

record role_permission = crd_permission +
  rp_update :: "role_update_permission option"

record identity_create_permission =
  ic_allowed :: bool
  ic_allowed_tag_id_list :: "int list option"
  ic_required_boundary_id_list :: "int list option"

record identity_update_permission =
  iu_name :: bool
  iu_unix_username :: bool

record identity_permission =
  ip_create :: "identity_create_permission option"
  ip_read :: bool
  ip_update :: "identity_update_permission option"
  ip_delete :: bool
  ip_add_tag_id_list :: "int list option"
  ip_del_tag_id_list :: "int list option"
  ip_invite_list :: "string list option"

datatype ssh_capability =
    SHELL
  | PTY
  | USER_RC
  | AGENT_FORWARDING
  | X11_FORWARDING
  | PORT_FORWARDING

record ssh_permission =
  username_list :: "string list option"
  capability_list :: "ssh_capability list option"
  command_list :: "string list option"
  max_session_ttl_s :: "int option"

text \<open>What the field constraint and the validator \<open>_reject_empty\<close> let through.\<close>

definition ssh_permission_valid :: "ssh_permission \<Rightarrow> bool" where
  "ssh_permission_valid p \<longleftrightarrow>
    (case max_session_ttl_s p of None \<Rightarrow> True | Some t \<Rightarrow> 0 < t) \<and>
    \<not> (capability_list p = Some [] \<and> command_list p = Some [])"

record tenant_update_permission =
  tu_display_name :: bool
  tu_is_enabled :: bool
  tu_audit_retention_days :: bool
  tu_activity_retention_days :: bool
  tu_retention_purge_enabled :: bool

record tenant_permission =
  tp_create :: bool
  tp_read :: bool
  tp_delete :: bool
  tp_update :: "tenant_update_permission option"

record auth_update_permission =
  au_name :: bool
  au_description :: bool
  au_is_enabled :: bool
  au_config :: bool

record auth_permission = crd_permission +
  ap_update :: "auth_update_permission option"

record bastion_update_permission =
  bau_url :: bool
  bau_ssh_proxy_jump :: bool
  bau_tag_list :: bool

record bastion_permission = crd_permission +
  bap_update :: "bastion_update_permission option"

record audit_log_permission =
  alp_read :: bool

record live_permission =
  lp_read :: bool
  lp_terminate :: bool

section \<open>Grants\<close>

record ('f, 'p) grant_body =
  g_filter :: 'f
  g_permission :: 'p

type_synonym boundary_grant = "(boundary_filter, boundary_permission) grant_body"
type_synonym tag_grant = "(tag_filter, tag_permission) grant_body"
type_synonym role_grant = "(role_filter, role_permission) grant_body"
type_synonym identity_grant = "(triplet_filter, identity_permission) grant_body"
type_synonym ssh_grant = "(triplet_filter, ssh_permission) grant_body"
type_synonym tenant_grant = "(tenant_filter, tenant_permission) grant_body"
type_synonym auth_grant = "(auth_filter, auth_permission) grant_body"
type_synonym bastion_grant = "(bastion_filter, bastion_permission) grant_body"
type_synonym audit_log_grant = "(unit, audit_log_permission) grant_body"
type_synonym live_grant = "(live_filter, live_permission) grant_body"

datatype grant =
    BoundaryGrant boundary_grant
  | TagGrant tag_grant
  | RoleGrant role_grant
  | IdentityGrant identity_grant
  | SSHGrant ssh_grant
  | TenantGrant tenant_grant
  | AuthGrant auth_grant
  | BastionGrant bastion_grant
  | AuditLogGrant audit_log_grant
  | LiveGrant live_grant

text \<open>\<open>isinstance(g, cls)\<close>, with the object at that class when it is one.\<close>

fun as_boundary :: "grant \<Rightarrow> boundary_grant option" where
  "as_boundary (BoundaryGrant g) = Some g"
| "as_boundary _ = None"

fun as_tag :: "grant \<Rightarrow> tag_grant option" where
  "as_tag (TagGrant g) = Some g"
| "as_tag _ = None"

fun as_role :: "grant \<Rightarrow> role_grant option" where
  "as_role (RoleGrant g) = Some g"
| "as_role _ = None"

fun as_identity :: "grant \<Rightarrow> identity_grant option" where
  "as_identity (IdentityGrant g) = Some g"
| "as_identity _ = None"

fun as_ssh :: "grant \<Rightarrow> ssh_grant option" where
  "as_ssh (SSHGrant g) = Some g"
| "as_ssh _ = None"

fun as_tenant :: "grant \<Rightarrow> tenant_grant option" where
  "as_tenant (TenantGrant g) = Some g"
| "as_tenant _ = None"

fun as_auth :: "grant \<Rightarrow> auth_grant option" where
  "as_auth (AuthGrant g) = Some g"
| "as_auth _ = None"

fun as_bastion :: "grant \<Rightarrow> bastion_grant option" where
  "as_bastion (BastionGrant g) = Some g"
| "as_bastion _ = None"

fun as_audit_log :: "grant \<Rightarrow> audit_log_grant option" where
  "as_audit_log (AuditLogGrant g) = Some g"
| "as_audit_log _ = None"

fun as_live :: "grant \<Rightarrow> live_grant option" where
  "as_live (LiveGrant g) = Some g"
| "as_live _ = None"

text \<open>\<open>isinstance(g, TripletGrant)\<close>: the two classes that inherit its filter.\<close>

fun as_triplet :: "grant \<Rightarrow> triplet_filter option" where
  "as_triplet (IdentityGrant g) = Some (g_filter g)"
| "as_triplet (SSHGrant g) = Some (g_filter g)"
| "as_triplet _ = None"

section \<open>The object ids that grants name\<close>

record ref_ids =
  ref_tag :: "int set"
  ref_identity :: "int set"
  ref_boundary :: "int set"
  ref_role :: "int set"
  ref_bastion :: "int set"
  ref_auth :: "int set"
  ref_tenant :: "int set"
  uses_self :: bool

definition no_refs :: ref_ids where
  "no_refs = \<lparr>ref_tag = {}, ref_identity = {}, ref_boundary = {}, ref_role = {}, ref_bastion = {},
    ref_auth = {}, ref_tenant = {}, uses_self = False\<rparr>"

definition add_id :: "int option \<Rightarrow> int set \<Rightarrow> int set" where
  "add_id i ids = (case i of None \<Rightarrow> ids | Some n \<Rightarrow> insert n ids)"

definition add_list :: "int list option \<Rightarrow> int set \<Rightarrow> int set" where
  "add_list l ids = ids \<union> set (case l of None \<Rightarrow> [] | Some xs \<Rightarrow> xs)"

definition add_triplet :: "triplet_filter \<Rightarrow> ref_ids \<Rightarrow> ref_ids" where
  "add_triplet f r = r
    \<lparr>ref_identity := add_id (tf_id f) (ref_identity r),
     ref_tag := add_list (tf_tag_id_list f) (ref_tag r),
     ref_boundary := add_list (tf_boundary_id_list f) (ref_boundary r)\<rparr>"

definition add_identity_permission :: "identity_permission \<Rightarrow> ref_ids \<Rightarrow> ref_ids" where
  "add_identity_permission p r =
    (let r = r\<lparr>ref_tag := add_list (ip_add_tag_id_list p) (ref_tag r)\<rparr>;
         r = r\<lparr>ref_tag := add_list (ip_del_tag_id_list p) (ref_tag r)\<rparr>
     in case ip_create p of
          None \<Rightarrow> r
        | Some c \<Rightarrow> r
            \<lparr>ref_tag := add_list (ic_allowed_tag_id_list c) (ref_tag r),
             ref_boundary := add_list (ic_required_boundary_id_list c) (ref_boundary r)\<rparr>)"

definition self_entry :: string where
  "self_entry = ''{self}''"

fun add_refs :: "grant \<Rightarrow> ref_ids \<Rightarrow> ref_ids" where
  "add_refs (TagGrant g) r = r\<lparr>ref_tag := add_id (f_id (g_filter g)) (ref_tag r)\<rparr>"
| "add_refs (RoleGrant g) r = r\<lparr>ref_role := add_id (f_id (g_filter g)) (ref_role r)\<rparr>"
| "add_refs (BoundaryGrant g) r = r\<lparr>ref_boundary := add_id (f_id (g_filter g)) (ref_boundary r)\<rparr>"
| "add_refs (BastionGrant g) r = r\<lparr>ref_bastion := add_id (f_id (g_filter g)) (ref_bastion r)\<rparr>"
| "add_refs (AuthGrant g) r = r\<lparr>ref_auth := add_id (f_id (g_filter g)) (ref_auth r)\<rparr>"
| "add_refs (TenantGrant g) r = r\<lparr>ref_tenant := add_id (f_id (g_filter g)) (ref_tenant r)\<rparr>"
| "add_refs (AuditLogGrant g) r = r"
| "add_refs (LiveGrant g) r = r\<lparr>ref_tag := add_list (lf_tag_id_list (g_filter g)) (ref_tag r)\<rparr>"
| "add_refs (IdentityGrant g) r =
     add_identity_permission (g_permission g) (add_triplet (g_filter g) r)"
| "add_refs (SSHGrant g) r =
     (let r = add_triplet (g_filter g) r
      in if (case username_list (g_permission g) of None \<Rightarrow> False | Some us \<Rightarrow> self_entry \<in> set us)
         then r\<lparr>uses_self := True\<rparr> else r)"

definition referenced_ids :: "grant list \<Rightarrow> ref_ids" where
  "referenced_ids grant_list = fold add_refs grant_list no_refs"

text \<open>
  The loop only adds, so what it collects from a list is the union of what it collects from each
  grant: the reference set of a grant on its own is \<open>referenced_ids [g]\<close>.
\<close>

lemma ref_tag_add_refs: "ref_tag (add_refs g r) = ref_tag r \<union> ref_tag (add_refs g no_refs)"
  by (cases g) (auto simp: add_id_def add_list_def add_triplet_def add_identity_permission_def
      no_refs_def Let_def split: option.splits)

lemma ref_identity_add_refs:
  "ref_identity (add_refs g r) = ref_identity r \<union> ref_identity (add_refs g no_refs)"
  by (cases g) (auto simp: add_id_def add_list_def add_triplet_def add_identity_permission_def
      no_refs_def Let_def split: option.splits)

lemma ref_boundary_add_refs:
  "ref_boundary (add_refs g r) = ref_boundary r \<union> ref_boundary (add_refs g no_refs)"
  by (cases g) (auto simp: add_id_def add_list_def add_triplet_def add_identity_permission_def
      no_refs_def Let_def split: option.splits)

lemma ref_bastion_add_refs:
  "ref_bastion (add_refs g r) = ref_bastion r \<union> ref_bastion (add_refs g no_refs)"
  by (cases g) (auto simp: add_id_def add_list_def add_triplet_def add_identity_permission_def
      no_refs_def Let_def split: option.splits)

lemma fold_add_refs:
  "ref_tag (fold add_refs gs r) = ref_tag r \<union> (\<Union>g\<in>set gs. ref_tag (add_refs g no_refs))"
  "ref_identity (fold add_refs gs r) =
    ref_identity r \<union> (\<Union>g\<in>set gs. ref_identity (add_refs g no_refs))"
  "ref_boundary (fold add_refs gs r) =
    ref_boundary r \<union> (\<Union>g\<in>set gs. ref_boundary (add_refs g no_refs))"
  "ref_bastion (fold add_refs gs r) =
    ref_bastion r \<union> (\<Union>g\<in>set gs. ref_bastion (add_refs g no_refs))"
proof (induction gs arbitrary: r)
  case Nil
  { case 1 show ?case by simp next case 2 show ?case by simp
  next case 3 show ?case by simp next case 4 show ?case by simp }
next
  case (Cons g gs)
  { case 1 show ?case using Cons.IH(1) [of "add_refs g r"] ref_tag_add_refs [of g r] by auto
  next
    case 2 show ?case
      using Cons.IH(2) [of "add_refs g r"] ref_identity_add_refs [of g r] by auto
  next
    case 3 show ?case
      using Cons.IH(3) [of "add_refs g r"] ref_boundary_add_refs [of g r] by auto
  next
    case 4 show ?case
      using Cons.IH(4) [of "add_refs g r"] ref_bastion_add_refs [of g r] by auto }
qed

lemma ref_referenced_ids:
  "ref_tag (referenced_ids gs) = (\<Union>g\<in>set gs. ref_tag (add_refs g no_refs))"
  "ref_identity (referenced_ids gs) = (\<Union>g\<in>set gs. ref_identity (add_refs g no_refs))"
  "ref_boundary (referenced_ids gs) = (\<Union>g\<in>set gs. ref_boundary (add_refs g no_refs))"
  "ref_bastion (referenced_ids gs) = (\<Union>g\<in>set gs. ref_bastion (add_refs g no_refs))"
  by (simp_all add: referenced_ids_def fold_add_refs no_refs_def)

end
