(* ===== verification/Responses.thy ===== *)
theory Responses
  imports Prelude
begin

text \<open>
  \<open>api/responses.py\<close>: the problem documents that reject a request, and the exceptions a handler can
  end with. A \<open>ProblemHTTPException\<close> is \<open>Http\<close>; the other constructors are the exceptions of Python
  and of SQLAlchemy that the handlers raise or let through (the server answers 500 to those that
  reach it). The field \<open>instance\<close> is used by the debug page only.
\<close>

record problem =
  status_code :: int
  problem_type :: string
  title :: "string option"
  detail :: "string option"

datatype exn =
    Http problem
  | AssertionError
  | IntegrityError string string \<comment> \<open>the table and the column of the violated unique constraint\<close>
  | ValueError
  | KeyError
  | IndexError
  | TypeError
  | UnknownConnection

definition about_blank :: string where
  "about_blank = ''about:blank''"

definition problem_response :: "int \<Rightarrow> string \<Rightarrow> string option \<Rightarrow> string option \<Rightarrow> problem" where
  "problem_response code ty t d =
    \<lparr>status_code = code, problem_type = ty, title = t, detail = d\<rparr>"

definition not_found :: "string \<Rightarrow> exn" where
  "not_found t = Http (problem_response 404 about_blank (Some t) None)"

text \<open>\<open>can_read\<close> is the value of the callback, which reads the database only.\<close>

definition forbidden_or_not_found :: "bool \<Rightarrow> string \<Rightarrow> string \<Rightarrow> string option \<Rightarrow> exn" where
  "forbidden_or_not_found can_read t not_found_title d =
    (if \<not> can_read then not_found not_found_title
     else Http (problem_response 403 about_blank (Some t) d))"

lemma forbidden_or_not_found_hidden:
  "forbidden_or_not_found False t nf d = not_found nf"
  by (simp add: forbidden_or_not_found_def)

end
