(* ===== verification/Grant_Checker.thy ===== *)
theory Grant_Checker
  imports Grant_Model Responses
begin

text \<open>
  \<open>api/grant.py\<close>, the permission checks: the generic \<open>Checker\<close> that walks the boundaries and the
  roles of an identity, one checker class per kind of object, and \<open>Grants\<close> that makes them. The
  checks that assert the name of a field return \<open>exn + bool\<close>. The interface \<open>authorizer\<close> states what
  the rest of the server relies on: boundaries only take away, roles only add.
\<close>

section \<open>Boundaries and roles\<close>

record boundary =
  b_id :: int
  b_name :: string
  b_description :: string
  b_ceiling_list :: "grant list option"
  b_denied_list :: "grant list"

record role =
  r_id :: int
  r_name :: string
  r_description :: string
  r_grant_list :: "grant list"
  r_member_id_list :: "int list"

section \<open>What an authorization decision promises\<close>

text \<open>
  A decision procedure gives every request a level, from the boundaries and the roles of whoever asks.
\<close>

locale authorizer =
  fixes level :: "boundary list \<Rightarrow> role list \<Rightarrow> 'q \<Rightarrow> 'v::linorder"
    and nothing :: 'v
  assumes boundaries_narrow: "set bs \<subseteq> set bs' \<Longrightarrow> level bs' rs q \<le> level bs rs q"
    and roles_widen: "set rs \<subseteq> set rs' \<Longrightarrow> level bs rs q \<le> level bs rs' q"
    and no_roles: "level bs [] q = nothing"
begin

lemma no_escalation:
  "set bs \<subseteq> set bs' \<Longrightarrow> set rs' \<subseteq> set rs \<Longrightarrow> level bs' rs' q \<le> level bs rs q"
  by (meson boundaries_narrow roles_widen order_trans)

lemma order_irrelevant: "set bs = set bs' \<Longrightarrow> set rs = set rs' \<Longrightarrow> level bs rs q = level bs' rs' q"
  by (simp add: no_escalation antisym)

lemma nothing_least: "nothing \<le> level bs rs q"
  using roles_widen [of "[]" rs bs q] by (simp add: no_roles)

end

section \<open>Checker\<close>

record 'g checker =
  chk_boundaries :: "boundary list"
  chk_roles :: "role list"
  chk_filter :: "'g \<Rightarrow> bool"
  chk_cls :: "grant \<Rightarrow> 'g option"

definition matches :: "'g checker \<Rightarrow> ('g \<Rightarrow> bool) \<Rightarrow> grant \<Rightarrow> bool" where
  "matches chk cmp g =
    (case chk_cls chk g of None \<Rightarrow> False | Some x \<Rightarrow> chk_filter chk x \<and> cmp x)"

text \<open>The loop over the boundaries, whose early returns are the two \<open>False\<close>.\<close>

fun boundaries_pass :: "(grant \<Rightarrow> bool) \<Rightarrow> boundary list \<Rightarrow> bool" where
  "boundaries_pass match [] = True"
| "boundaries_pass match (boundary # rest) =
    (if list_ex match (b_denied_list boundary) then False
     else case b_ceiling_list boundary of
         Some ceiling \<Rightarrow> if \<not> list_ex match ceiling then False else boundaries_pass match rest
       | None \<Rightarrow> boundaries_pass match rest)"

definition allowed_grants :: "'g checker \<Rightarrow> ('g \<Rightarrow> bool) \<Rightarrow> grant list \<Rightarrow> 'g list" where
  "allowed_grants chk cmp gs =
    List.map_filter (\<lambda>g. if matches chk cmp g then chk_cls chk g else None) gs"

definition list_can :: "'g checker \<Rightarrow> ('g \<Rightarrow> bool) \<Rightarrow> 'g list" where
  "list_can chk cmp =
    (if boundaries_pass (matches chk cmp) (chk_boundaries chk)
     then concat (map (\<lambda>r. allowed_grants chk cmp (r_grant_list r)) (chk_roles chk))
     else [])"

definition can :: "'g checker \<Rightarrow> ('g \<Rightarrow> bool) \<Rightarrow> bool" where
  "can chk cmp = (length (list_can chk cmp) > 0)"

definition boundary_passes :: "(grant \<Rightarrow> bool) \<Rightarrow> boundary \<Rightarrow> bool" where
  "boundary_passes match b \<longleftrightarrow>
    \<not> (\<exists>g\<in>set (b_denied_list b). match g) \<and>
    (\<forall>c. b_ceiling_list b = Some c \<longrightarrow> (\<exists>g\<in>set c. match g))"

lemma boundaries_pass_iff: "boundaries_pass match bs \<longleftrightarrow> (\<forall>b\<in>set bs. boundary_passes match b)"
  by (induction bs) (auto simp: boundary_passes_def list_ex_iff split: option.splits)

lemma allowed_grants_eq_Nil: "allowed_grants chk cmp gs = [] \<longleftrightarrow> \<not> (\<exists>g\<in>set gs. matches chk cmp g)"
  by (induction gs)
    (auto simp: allowed_grants_def map_filter_simps matches_def split: option.splits)

lemma can_iff:
  "can chk cmp \<longleftrightarrow>
    (\<forall>b\<in>set (chk_boundaries chk). boundary_passes (matches chk cmp) b) \<and>
    (\<exists>r\<in>set (chk_roles chk). \<exists>g\<in>set (r_grant_list r). matches chk cmp g)"
  by (auto simp: can_def list_can_def boundaries_pass_iff allowed_grants_eq_Nil)

lemma matches_iff:
  "matches chk cmp g \<longleftrightarrow> (\<exists>x. chk_cls chk g = Some x \<and> chk_filter chk x \<and> cmp x)"
  by (auto simp: matches_def split: option.splits)

text \<open>A query of a checker: the class, the filter of the object and the check of the permission.\<close>

type_synonym 'g query = "(grant \<Rightarrow> 'g option) \<times> ('g \<Rightarrow> bool) \<times> ('g \<Rightarrow> bool)"

definition can_query :: "boundary list \<Rightarrow> role list \<Rightarrow> 'g query \<Rightarrow> bool" where
  "can_query bs rs q = can \<lparr>chk_boundaries = bs, chk_roles = rs, chk_filter = fst (snd q),
    chk_cls = fst q\<rparr> (snd (snd q))"

definition query_matches :: "'g query \<Rightarrow> grant \<Rightarrow> bool" where
  "query_matches q g \<longleftrightarrow> (\<exists>x. fst q g = Some x \<and> fst (snd q) x \<and> snd (snd q) x)"

lemma can_query_iff:
  "can_query bs rs q \<longleftrightarrow> (\<forall>b\<in>set bs. boundary_passes (query_matches q) b) \<and>
    (\<exists>r\<in>set rs. \<exists>g\<in>set (r_grant_list r). query_matches q g)"
proof -
  have "matches \<lparr>chk_boundaries = bs, chk_roles = rs, chk_filter = fst (snd q), chk_cls = fst q\<rparr>
      (snd (snd q)) = query_matches q"
    by (simp add: fun_eq_iff matches_iff query_matches_def)
  then show ?thesis by (simp add: can_query_def can_iff)
qed

interpretation checks: authorizer can_query False
  by unfold_locales (auto simp: can_query_iff le_bool_def)

lemma can_as_query:
  "can chk cmp = can_query (chk_boundaries chk) (chk_roles chk) (chk_cls chk, chk_filter chk, cmp)"
  by (cases chk) (simp add: can_query_def)

section \<open>Properties\<close>

text \<open>
  C9. What \<open>Checker.can\<close> decides. A request passes exactly when no boundary denies it, every
  boundary that has a ceiling covers it, and some role grants it; a boundary without a ceiling
  (\<open>None\<close>) does not limit, a ceiling that is an empty list forbids everything.
\<close>

theorem can_characterised:
  "can chk cmp \<longleftrightarrow>
    (\<forall>b\<in>set (chk_boundaries chk).
       (\<forall>g\<in>set (b_denied_list b). \<not> matches chk cmp g) \<and>
       (case b_ceiling_list b of None \<Rightarrow> True | Some c \<Rightarrow> \<exists>g\<in>set c. matches chk cmp g)) \<and>
    (\<exists>r\<in>set (chk_roles chk). \<exists>g\<in>set (r_grant_list r). matches chk cmp g)"
  by (simp add: can_iff boundary_passes_def split: option.splits) blast

definition any_tag :: grant where
  "any_tag = TagGrant \<lparr>g_filter = \<lparr>f_id = None\<rparr>,
    g_permission = \<lparr>p_create = True, p_read = True, p_delete = True\<rparr>\<rparr>"

definition open_boundary :: boundary where
  "open_boundary = \<lparr>b_id = 1, b_name = ''all'', b_description = '''', b_ceiling_list = None,
    b_denied_list = []\<rparr>"

definition tag_admin :: role where
  "tag_admin = \<lparr>r_id = 1, r_name = ''admin'', r_description = '''', r_grant_list = [any_tag],
    r_member_id_list = []\<rparr>"

definition sample_checker :: "boundary list \<Rightarrow> tag_grant checker" where
  "sample_checker bs = \<lparr>chk_boundaries = bs, chk_roles = [tag_admin], chk_filter = (\<lambda>_. True),
    chk_cls = as_tag\<rparr>"

lemmas sample_checker_defs = any_tag_def open_boundary_def tag_admin_def sample_checker_def

theorem can_characterised_witness:
  "can (sample_checker [open_boundary]) (\<lambda>g. p_read (g_permission g)) \<and>
   \<not> can (sample_checker [open_boundary\<lparr>b_denied_list := [any_tag]\<rparr>]) (\<lambda>g. p_read (g_permission g)) \<and>
   \<not> can (sample_checker [open_boundary\<lparr>b_ceiling_list := Some []\<rparr>]) (\<lambda>g. p_read (g_permission g))"
  by (simp add: can_characterised matches_iff sample_checker_defs)

text \<open>
  No escalation. Of two identities that ask the same thing, the one that has at least the
  boundaries of the other and at most its roles is allowed nothing that the other is refused. It is
  why an identity created under a superset of its creator's boundaries cannot exceed the creator.
\<close>

lemma can_no_escalation:
  assumes "set (chk_boundaries creator) \<subseteq> set (chk_boundaries created)"
    and "set (chk_roles created) \<subseteq> set (chk_roles creator)"
    and "chk_cls created = chk_cls creator" and "chk_filter created = chk_filter creator"
    and "can created cmp"
  shows "can creator cmp"
  using checks.no_escalation [OF assms(1,2), of "(chk_cls creator, chk_filter creator, cmp)"] assms(3-5)
  by (simp add: can_as_query le_bool_def)

theorem can_no_escalation_witness:
  "can (sample_checker [open_boundary]) (\<lambda>g. p_read (g_permission g))"
  by (rule can_no_escalation [of _ "sample_checker [open_boundary, open_boundary\<lparr>b_id := 2\<rparr>]"])
    (simp_all add: can_iff boundary_passes_def matches_iff sample_checker_defs)

end
