(* ===== verification/Checkers.thy ===== *)
theory Checkers
  imports Grant_Checker
begin

text \<open>
  \<open>api/grant.py\<close>, one checker per class of object, and the factory \<open>Grants\<close>. A constructor here is
  the constructor of the class (the closure \<open>cmp\<close> is the filter of the checker); the methods take the
  checker. \<open>can_update\<close> asserts that the field exists: the list of the assertion and the attribute
  that \<open>getattr\<close> reads are one association list.
\<close>

definition id_cmp :: "int option \<Rightarrow> (id_filter, 'p) grant_body \<Rightarrow> bool" where
  "id_cmp i g = (if f_id (g_filter g) \<noteq> None \<and> f_id (g_filter g) \<noteq> i then False else True)"

definition update_check ::
    "('u option) \<Rightarrow> ('u \<Rightarrow> bool) \<Rightarrow> bool" where
  "update_check u get = (case u of None \<Rightarrow> True | Some u \<Rightarrow> get u)"

section \<open>TagChecker\<close>

definition TagChecker :: "boundary list \<Rightarrow> role list \<Rightarrow> int option \<Rightarrow> tag_grant checker" where
  "TagChecker boundaries roles tag_id = \<lparr>chk_boundaries = boundaries, chk_roles = roles,
    chk_filter = id_cmp tag_id, chk_cls = as_tag\<rparr>"

definition tag_can_create :: "tag_grant checker \<Rightarrow> bool" where
  "tag_can_create chk = can chk (\<lambda>g. p_create (g_permission g))"

definition tag_can_read :: "tag_grant checker \<Rightarrow> bool" where
  "tag_can_read chk = can chk (\<lambda>g. p_read (g_permission g))"

definition tag_can_delete :: "tag_grant checker \<Rightarrow> bool" where
  "tag_can_delete chk = can chk (\<lambda>g. p_delete (g_permission g))"

section \<open>BoundaryChecker\<close>

definition BoundaryChecker :: "boundary list \<Rightarrow> role list \<Rightarrow> int option \<Rightarrow> boundary_grant checker" where
  "BoundaryChecker boundaries roles boundary_id = \<lparr>chk_boundaries = boundaries, chk_roles = roles,
    chk_filter = id_cmp boundary_id, chk_cls = as_boundary\<rparr>"

definition boundary_can_create :: "boundary_grant checker \<Rightarrow> bool" where
  "boundary_can_create chk = can chk (\<lambda>g. p_create (g_permission g))"

definition boundary_can_read :: "boundary_grant checker \<Rightarrow> bool" where
  "boundary_can_read chk = can chk (\<lambda>g. p_read (g_permission g))"

definition boundary_can_delete :: "boundary_grant checker \<Rightarrow> bool" where
  "boundary_can_delete chk = can chk (\<lambda>g. p_delete (g_permission g))"

definition boundary_update_fields :: "(string \<times> (boundary_update_permission \<Rightarrow> bool)) list" where
  "boundary_update_fields =
    [(''name'', bu_name),
     (''description'', bu_description),
     (''denied_list'', bu_denied_list),
     (''ceiling_list'', bu_ceiling_list)]"

definition boundary_can_update :: "boundary_grant checker \<Rightarrow> string \<Rightarrow> exn + bool" where
  "boundary_can_update chk field =
    (case map_of boundary_update_fields field of
       None \<Rightarrow> Inl AssertionError
     | Some get \<Rightarrow> Inr (can chk (\<lambda>g. update_check (bp_update (g_permission g)) get)))"

section \<open>RoleChecker\<close>

definition RoleChecker :: "boundary list \<Rightarrow> role list \<Rightarrow> int option \<Rightarrow> role_grant checker" where
  "RoleChecker boundaries roles role_id = \<lparr>chk_boundaries = boundaries, chk_roles = roles,
    chk_filter = id_cmp role_id, chk_cls = as_role\<rparr>"

definition role_can_create :: "role_grant checker \<Rightarrow> bool" where
  "role_can_create chk = can chk (\<lambda>g. p_create (g_permission g))"

definition role_can_read :: "role_grant checker \<Rightarrow> bool" where
  "role_can_read chk = can chk (\<lambda>g. p_read (g_permission g))"

definition role_can_delete :: "role_grant checker \<Rightarrow> bool" where
  "role_can_delete chk = can chk (\<lambda>g. p_delete (g_permission g))"

definition role_update_fields :: "(string \<times> (role_update_permission \<Rightarrow> bool)) list" where
  "role_update_fields =
    [(''name'', ru_name),
     (''description'', ru_description),
     (''member_list'', ru_member_list),
     (''grant_list'', ru_grant_list)]"

definition role_can_update :: "role_grant checker \<Rightarrow> string \<Rightarrow> exn + bool" where
  "role_can_update chk field =
    (case map_of role_update_fields field of
       None \<Rightarrow> Inl AssertionError
     | Some get \<Rightarrow> Inr (can chk (\<lambda>g. update_check (rp_update (g_permission g)) get)))"

section \<open>IdentityChecker\<close>

definition identity_cmp ::
    "int option \<Rightarrow> int list option \<Rightarrow> int list option \<Rightarrow> identity_grant \<Rightarrow> bool" where
  "identity_cmp identity_id tag_id_list boundary_id_list g =
    (if tf_id (g_filter g) \<noteq> None \<and> tf_id (g_filter g) \<noteq> identity_id then False
     else if (case tf_tag_id_list (g_filter g) of
                None \<Rightarrow> False
              | Some wanted \<Rightarrow>
                  (case tag_id_list of
                     None \<Rightarrow> True
                   | Some tags \<Rightarrow>
                       length wanted = 0 \<or> \<not> list_all (\<lambda>t. t \<in> set tags) wanted)) then False
     else if (case tf_boundary_id_list (g_filter g) of
                None \<Rightarrow> False
              | Some wanted \<Rightarrow>
                  (case boundary_id_list of
                     None \<Rightarrow> True
                   | Some bounds \<Rightarrow> \<not> list_all (\<lambda>b. b \<in> set bounds) wanted)) then False
     else True)"

definition IdentityChecker ::
    "boundary list \<Rightarrow> role list \<Rightarrow> int option \<Rightarrow> int list option \<Rightarrow> int list option \<Rightarrow> identity_grant checker" where
  "IdentityChecker boundaries roles identity_id tag_id_list boundary_id_list =
    \<lparr>chk_boundaries = boundaries, chk_roles = roles,
     chk_filter = identity_cmp identity_id tag_id_list boundary_id_list, chk_cls = as_identity\<rparr>"

definition create_check :: "int list \<Rightarrow> int list \<Rightarrow> identity_grant \<Rightarrow> bool" where
  "create_check tag_id_list boundary_id_list g =
    (case ip_create (g_permission g) of
       None \<Rightarrow> True
     | Some c \<Rightarrow>
         if \<not> ic_allowed c then False
         else if (case ic_allowed_tag_id_list c of None \<Rightarrow> False
                  | Some tags \<Rightarrow> \<not> list_all (\<lambda>t. t \<in> set tags) tag_id_list) then False
         else if (case ic_required_boundary_id_list c of None \<Rightarrow> False
                  | Some bounds \<Rightarrow> \<not> list_all (\<lambda>b. b \<in> set boundary_id_list) bounds) then False
         else True)"

definition identity_can_create :: "identity_grant checker \<Rightarrow> int list \<Rightarrow> int list \<Rightarrow> bool" where
  "identity_can_create chk tag_id_list boundary_id_list =
    can chk (create_check tag_id_list boundary_id_list)"

definition identity_can_read :: "identity_grant checker \<Rightarrow> bool" where
  "identity_can_read chk = can chk (\<lambda>g. ip_read (g_permission g))"

definition identity_update_fields :: "(string \<times> (identity_update_permission \<Rightarrow> bool)) list" where
  "identity_update_fields = [(''name'', iu_name), (''unix_username'', iu_unix_username)]"

definition identity_can_update :: "identity_grant checker \<Rightarrow> string \<Rightarrow> exn + bool" where
  "identity_can_update chk field =
    (case map_of identity_update_fields field of
       None \<Rightarrow> Inl AssertionError
     | Some get \<Rightarrow> Inr (can chk (\<lambda>g. update_check (ip_update (g_permission g)) get)))"

definition identity_can_delete :: "identity_grant checker \<Rightarrow> bool" where
  "identity_can_delete chk = can chk (\<lambda>g. ip_delete (g_permission g))"

definition identity_can_add_tag :: "identity_grant checker \<Rightarrow> int \<Rightarrow> bool" where
  "identity_can_add_tag chk tag_id = can chk (\<lambda>g.
    case ip_add_tag_id_list (g_permission g) of None \<Rightarrow> True | Some l \<Rightarrow> tag_id \<in> set l)"

definition identity_can_del_tag :: "identity_grant checker \<Rightarrow> int \<Rightarrow> bool" where
  "identity_can_del_tag chk tag_id = can chk (\<lambda>g.
    case ip_del_tag_id_list (g_permission g) of None \<Rightarrow> True | Some l \<Rightarrow> tag_id \<in> set l)"

definition identity_can_invite :: "identity_grant checker \<Rightarrow> string \<Rightarrow> bool" where
  "identity_can_invite chk delivery = can chk (\<lambda>g.
    case ip_invite_list (g_permission g) of None \<Rightarrow> True | Some l \<Rightarrow> delivery \<in> set l)"

section \<open>TenantChecker\<close>

definition TenantChecker :: "boundary list \<Rightarrow> role list \<Rightarrow> int option \<Rightarrow> tenant_grant checker" where
  "TenantChecker boundaries roles tenant_id = \<lparr>chk_boundaries = boundaries, chk_roles = roles,
    chk_filter = id_cmp tenant_id, chk_cls = as_tenant\<rparr>"

definition tenant_can_create :: "tenant_grant checker \<Rightarrow> bool" where
  "tenant_can_create chk = can chk (\<lambda>g. tp_create (g_permission g))"

definition tenant_can_read :: "tenant_grant checker \<Rightarrow> bool" where
  "tenant_can_read chk = can chk (\<lambda>g. tp_read (g_permission g))"

definition tenant_can_delete :: "tenant_grant checker \<Rightarrow> bool" where
  "tenant_can_delete chk = can chk (\<lambda>g. tp_delete (g_permission g))"

definition tenant_update_fields :: "(string \<times> (tenant_update_permission \<Rightarrow> bool)) list" where
  "tenant_update_fields =
    [(''display_name'', tu_display_name),
     (''is_enabled'', tu_is_enabled),
     (''audit_retention_days'', tu_audit_retention_days),
     (''activity_retention_days'', tu_activity_retention_days),
     (''retention_purge_enabled'', tu_retention_purge_enabled)]"

definition tenant_can_update :: "tenant_grant checker \<Rightarrow> string \<Rightarrow> exn + bool" where
  "tenant_can_update chk field =
    (case map_of tenant_update_fields field of
       None \<Rightarrow> Inl AssertionError
     | Some get \<Rightarrow> Inr (can chk (\<lambda>g. update_check (tp_update (g_permission g)) get)))"

section \<open>AuthChecker\<close>

definition AuthChecker :: "boundary list \<Rightarrow> role list \<Rightarrow> int option \<Rightarrow> auth_grant checker" where
  "AuthChecker boundaries roles auth_id = \<lparr>chk_boundaries = boundaries, chk_roles = roles,
    chk_filter = id_cmp auth_id, chk_cls = as_auth\<rparr>"

definition auth_can_create :: "auth_grant checker \<Rightarrow> bool" where
  "auth_can_create chk = can chk (\<lambda>g. p_create (g_permission g))"

definition auth_can_read :: "auth_grant checker \<Rightarrow> bool" where
  "auth_can_read chk = can chk (\<lambda>g. p_read (g_permission g))"

definition auth_can_delete :: "auth_grant checker \<Rightarrow> bool" where
  "auth_can_delete chk = can chk (\<lambda>g. p_delete (g_permission g))"

definition auth_update_fields :: "(string \<times> (auth_update_permission \<Rightarrow> bool)) list" where
  "auth_update_fields =
    [(''name'', au_name),
     (''description'', au_description),
     (''is_enabled'', au_is_enabled),
     (''config'', au_config)]"

definition auth_can_update :: "auth_grant checker \<Rightarrow> string \<Rightarrow> exn + bool" where
  "auth_can_update chk field =
    (case map_of auth_update_fields field of
       None \<Rightarrow> Inl AssertionError
     | Some get \<Rightarrow> Inr (can chk (\<lambda>g. update_check (ap_update (g_permission g)) get)))"

section \<open>BastionChecker\<close>

definition BastionChecker :: "boundary list \<Rightarrow> role list \<Rightarrow> int option \<Rightarrow> bastion_grant checker" where
  "BastionChecker boundaries roles bastion_id = \<lparr>chk_boundaries = boundaries, chk_roles = roles,
    chk_filter = id_cmp bastion_id, chk_cls = as_bastion\<rparr>"

definition bastion_can_create :: "bastion_grant checker \<Rightarrow> bool" where
  "bastion_can_create chk = can chk (\<lambda>g. p_create (g_permission g))"

definition bastion_can_read :: "bastion_grant checker \<Rightarrow> bool" where
  "bastion_can_read chk = can chk (\<lambda>g. p_read (g_permission g))"

definition bastion_can_delete :: "bastion_grant checker \<Rightarrow> bool" where
  "bastion_can_delete chk = can chk (\<lambda>g. p_delete (g_permission g))"

definition bastion_update_fields :: "(string \<times> (bastion_update_permission \<Rightarrow> bool)) list" where
  "bastion_update_fields =
    [(''url'', bau_url),
     (''ssh_proxy_jump'', bau_ssh_proxy_jump),
     (''tag_list'', bau_tag_list)]"

definition bastion_can_update :: "bastion_grant checker \<Rightarrow> string \<Rightarrow> exn + bool" where
  "bastion_can_update chk field =
    (case map_of bastion_update_fields field of
       None \<Rightarrow> Inl AssertionError
     | Some get \<Rightarrow> Inr (can chk (\<lambda>g. update_check (bap_update (g_permission g)) get)))"

section \<open>AuditLogChecker and LiveChecker\<close>

definition AuditLogChecker :: "boundary list \<Rightarrow> role list \<Rightarrow> audit_log_grant checker" where
  "AuditLogChecker boundaries roles = \<lparr>chk_boundaries = boundaries, chk_roles = roles,
    chk_filter = (\<lambda>g. True), chk_cls = as_audit_log\<rparr>"

definition audit_log_can_read :: "audit_log_grant checker \<Rightarrow> bool" where
  "audit_log_can_read chk = can chk (\<lambda>g. alp_read (g_permission g))"

definition live_cmp :: "int list option \<Rightarrow> live_grant \<Rightarrow> bool" where
  "live_cmp tag_id_list g =
    (case lf_tag_id_list (g_filter g) of
       None \<Rightarrow> True
     | Some wanted \<Rightarrow>
         (case tag_id_list of
            None \<Rightarrow> False
          | Some tags \<Rightarrow> if length wanted = 0 then False else list_all (\<lambda>t. t \<in> set tags) wanted))"

definition LiveChecker :: "boundary list \<Rightarrow> role list \<Rightarrow> int list option \<Rightarrow> live_grant checker" where
  "LiveChecker boundaries roles tag_id_list = \<lparr>chk_boundaries = boundaries, chk_roles = roles,
    chk_filter = live_cmp tag_id_list, chk_cls = as_live\<rparr>"

definition live_can_read :: "live_grant checker \<Rightarrow> bool" where
  "live_can_read chk = can chk (\<lambda>g. lp_read (g_permission g))"

definition live_can_terminate :: "live_grant checker \<Rightarrow> bool" where
  "live_can_terminate chk = can chk (\<lambda>g. lp_terminate (g_permission g))"

section \<open>Grants\<close>

record grants =
  gr_boundaries :: "boundary list"
  gr_roles :: "role list"

definition grants_boundary :: "grants \<Rightarrow> int option \<Rightarrow> boundary_grant checker" where
  "grants_boundary gr boundary_id = BoundaryChecker (gr_boundaries gr) (gr_roles gr) boundary_id"

definition grants_tag :: "grants \<Rightarrow> int option \<Rightarrow> tag_grant checker" where
  "grants_tag gr tag_id = TagChecker (gr_boundaries gr) (gr_roles gr) tag_id"

definition grants_role :: "grants \<Rightarrow> int option \<Rightarrow> role_grant checker" where
  "grants_role gr role_id = RoleChecker (gr_boundaries gr) (gr_roles gr) role_id"

definition grants_tenant :: "grants \<Rightarrow> int option \<Rightarrow> tenant_grant checker" where
  "grants_tenant gr tenant_id = TenantChecker (gr_boundaries gr) (gr_roles gr) tenant_id"

definition grants_auth :: "grants \<Rightarrow> int option \<Rightarrow> auth_grant checker" where
  "grants_auth gr auth_id = AuthChecker (gr_boundaries gr) (gr_roles gr) auth_id"

definition grants_bastion :: "grants \<Rightarrow> int option \<Rightarrow> bastion_grant checker" where
  "grants_bastion gr bastion_id = BastionChecker (gr_boundaries gr) (gr_roles gr) bastion_id"

definition grants_identity ::
    "grants \<Rightarrow> int option \<Rightarrow> int list option \<Rightarrow> int list option \<Rightarrow> identity_grant checker" where
  "grants_identity gr identity_id tag_id_list boundary_id_list =
    IdentityChecker (gr_boundaries gr) (gr_roles gr) identity_id tag_id_list boundary_id_list"

definition grants_audit_log :: "grants \<Rightarrow> audit_log_grant checker" where
  "grants_audit_log gr = AuditLogChecker (gr_boundaries gr) (gr_roles gr)"

definition grants_live :: "grants \<Rightarrow> int list option \<Rightarrow> live_grant checker" where
  "grants_live gr tag_id_list = LiveChecker (gr_boundaries gr) (gr_roles gr) tag_id_list"

definition live_read_somewhere :: "grants \<Rightarrow> bool" where
  "live_read_somewhere gr = list_ex (\<lambda>r. list_ex (\<lambda>g.
    case as_live g of None \<Rightarrow> False | Some l \<Rightarrow> lp_read (g_permission l)) (r_grant_list r)) (gr_roles gr)"

section \<open>Properties\<close>

lemma can_role_grant:
  "can chk cmp \<Longrightarrow> \<exists>r\<in>set (chk_roles chk). \<exists>g\<in>set (r_grant_list r). \<exists>x.
    chk_cls chk g = Some x \<and> chk_filter chk x \<and> cmp x"
  by (auto simp: can_iff matches_iff)

lemma can_ceiling_grant:
  "can chk cmp \<Longrightarrow> b \<in> set (chk_boundaries chk) \<Longrightarrow> b_ceiling_list b = Some c \<Longrightarrow>
    \<exists>g\<in>set c. \<exists>x. chk_cls chk g = Some x \<and> chk_filter chk x \<and> cmp x"
  by (auto simp: can_iff matches_iff boundary_passes_def)

lemma as_identity_eq: "as_identity g = Some x \<longleftrightarrow> g = IdentityGrant x"
  by (cases g) auto

definition create_limits :: "identity_grant \<Rightarrow> int list \<Rightarrow> int list \<Rightarrow> bool" where
  "create_limits g tags bounds \<longleftrightarrow>
    opt_all (\<lambda>c. ic_allowed c \<and>
      opt_all (\<lambda>l. set tags \<subseteq> set l) (ic_allowed_tag_id_list c) \<and>
      opt_all (\<lambda>l. set l \<subseteq> set bounds) (ic_required_boundary_id_list c)) (ip_create (g_permission g))"

lemma create_check_limits: "create_check tags bounds g = create_limits g tags bounds"
  by (auto simp: create_check_def create_limits_def list_all_iff split: option.splits if_splits)

text \<open>
  Creating an identity never grants more than the creator may hand out: the tags given are among
  the tags that one of the role's identity grants allows and the boundaries given include those it
  requires, and the same holds for some grant of the ceiling of every boundary that has one.
\<close>

lemma identity_create_bounded:
  assumes "identity_can_create (grants_identity gr identity_id its ibs) tags bounds"
  shows "(\<exists>r\<in>set (gr_roles gr). \<exists>g. IdentityGrant g \<in> set (r_grant_list r) \<and>
            identity_cmp identity_id its ibs g \<and> create_limits g tags bounds) \<and>
         (\<forall>b\<in>set (gr_boundaries gr). \<forall>c. b_ceiling_list b = Some c \<longrightarrow>
            (\<exists>g. IdentityGrant g \<in> set c \<and> identity_cmp identity_id its ibs g \<and>
              create_limits g tags bounds))"
proof -
  let ?c = "grants_identity gr identity_id its ibs"
  have c: "chk_cls ?c = as_identity" "chk_filter ?c = identity_cmp identity_id its ibs"
    "chk_roles ?c = gr_roles gr" "chk_boundaries ?c = gr_boundaries gr"
    by (simp_all add: grants_identity_def IdentityChecker_def)
  have can: "can ?c (create_check tags bounds)" using assms by (simp add: identity_can_create_def)
  show ?thesis
    using can_role_grant [OF can] can_ceiling_grant [OF can]
    by (fastforce simp: c as_identity_eq create_check_limits)
qed

definition sample_creator :: grant where
  "sample_creator = IdentityGrant
    \<lparr>g_filter = \<lparr>tf_id = None, tf_tag_id_list = None, tf_boundary_id_list = None\<rparr>,
     g_permission = \<lparr>ip_create = Some \<lparr>ic_allowed = True, ic_allowed_tag_id_list = Some [1, 2],
         ic_required_boundary_id_list = Some [7]\<rparr>, ip_read = True, ip_update = None,
       ip_delete = False, ip_add_tag_id_list = None, ip_del_tag_id_list = None,
       ip_invite_list = None\<rparr>\<rparr>"

definition sample_grants :: grants where
  "sample_grants = \<lparr>gr_boundaries = [open_boundary],
    gr_roles = [tag_admin\<lparr>r_grant_list := [sample_creator]\<rparr>]\<rparr>"

lemmas sample_grants_defs = sample_grants_def sample_creator_def sample_checker_defs

theorem identity_create_bounded_witness:
  "\<exists>r\<in>set (gr_roles sample_grants). \<exists>g. IdentityGrant g \<in> set (r_grant_list r) \<and>
    identity_cmp None None None g \<and> create_limits g [1] [7, 8]"
proof -
  have "identity_can_create (grants_identity sample_grants None None None) [1] [7, 8]"
    by (simp add: identity_can_create_def can_iff grants_identity_def IdentityChecker_def
        boundary_passes_def matches_iff create_check_def identity_cmp_def sample_grants_defs)
  from identity_create_bounded [OF this] show ?thesis by blast
qed

text \<open>
  An object filter that is an empty tag list selects nothing, for identities and for live
  sessions alike, while an empty boundary list selects every identity whose boundaries are known:
  the two lists of a triplet do not read the same way.
\<close>

theorem empty_lists_in_filters:
  "(tf_tag_id_list (g_filter g) = Some [] \<longrightarrow> \<not> identity_cmp i its ibs g) \<and>
   (lf_tag_id_list (g_filter l) = Some [] \<longrightarrow> \<not> live_cmp its l) \<and>
   (g_filter g = \<lparr>tf_id = None, tf_tag_id_list = None, tf_boundary_id_list = Some []\<rparr> \<longrightarrow>
      identity_cmp i its (Some bs) g \<and> \<not> identity_cmp i its None g)"
  by (auto simp: identity_cmp_def live_cmp_def split: option.splits)

theorem empty_lists_in_filters_witness:
  "\<not> live_cmp (Some [1]) \<lparr>g_filter = \<lparr>lf_tag_id_list = Some []\<rparr>,
      g_permission = \<lparr>lp_read = True, lp_terminate = True\<rparr>\<rparr>"
  using empty_lists_in_filters [where l = "\<lparr>g_filter = \<lparr>lf_tag_id_list = Some []\<rparr>,
      g_permission = \<lparr>lp_read = True, lp_terminate = True\<rparr>\<rparr>"] by simp

text \<open>
  The test that live endpoints make before they look at any session refuses nobody who could
  read one: whatever tags a session has, if reading it is allowed then \<open>live_read_somewhere\<close> is true.
\<close>

theorem live_read_somewhere_complete:
  assumes "live_can_read (grants_live gr tags)"
  shows "live_read_somewhere gr"
proof -
  obtain r g x where "r \<in> set (gr_roles gr)" "g \<in> set (r_grant_list r)" "as_live g = Some x"
      "lp_read (g_permission x)"
    using can_role_grant [OF assms [unfolded live_can_read_def]]
    by (auto simp: grants_live_def LiveChecker_def)
  then show ?thesis by (auto simp: live_read_somewhere_def list_ex_iff intro!: bexI [of _ r] bexI [of _ g])
qed

definition live_reader :: role where
  "live_reader = tag_admin\<lparr>r_grant_list := [LiveGrant \<lparr>g_filter = \<lparr>lf_tag_id_list = Some [3]\<rparr>,
    g_permission = \<lparr>lp_read = True, lp_terminate = False\<rparr>\<rparr>]\<rparr>"

theorem live_read_somewhere_complete_witness:
  "live_read_somewhere \<lparr>gr_boundaries = [open_boundary], gr_roles = [live_reader]\<rparr>"
  by (rule live_read_somewhere_complete [of _ "Some [3, 4]"])
    (simp add: live_can_read_def can_iff grants_live_def LiveChecker_def boundary_passes_def
      matches_iff live_cmp_def live_reader_def sample_checker_defs)

end
