(* ===== verification/Ssh_Decision.thy ===== *)
theory Ssh_Decision
  imports Grant_Checker
begin

text \<open>
  \<open>api/grant.py\<close>, the SSH decision: from the boundaries and roles of the caller and the host asked
  for, which capabilities and which commands one username may use, and for how long. The code keeps
  a dictionary of bounds per capability, a dictionary per command with a default for the commands it
  does not name, and updates both grant by grant. The specification is the lattice \<open>allowance\<close>: what
  the roles give is a maximum, every ceiling and every deny is a minimum. \<open>Ssh_Allowance\<close> shows that the
  dictionaries compute it, for every capability and every command.
\<close>

section \<open>Triplets, usernames and bounds\<close>

definition triplet_match :: "triplet_filter \<Rightarrow> int \<Rightarrow> int list \<Rightarrow> int list \<Rightarrow> bool" where
  "triplet_match f identity_id tag_id_list boundary_id_list =
    (if tf_id f \<noteq> None \<and> tf_id f \<noteq> Some identity_id then False
     else if (case tf_tag_id_list f of None \<Rightarrow> False
              | Some wanted \<Rightarrow> length wanted = 0 \<or> \<not> list_all (\<lambda>t. t \<in> set tag_id_list) wanted) then False
     else if (case tf_boundary_id_list f of None \<Rightarrow> False
              | Some wanted \<Rightarrow> \<not> list_all (\<lambda>b. b \<in> set boundary_id_list) wanted) then False
     else True)"

definition resolve_username :: "string \<Rightarrow> string option \<Rightarrow> string option" where
  "resolve_username entry unix_username = (if entry = self_entry then unix_username else Some entry)"

definition all_ssh_capabilities :: "ssh_capability list" where
  "all_ssh_capabilities = [SHELL, PTY, USER_RC, AGENT_FORWARDING, X11_FORWARDING, PORT_FORWARDING]"

instantiation ssh_capability :: enum
begin

definition enum_ssh_capability :: "ssh_capability list" where
  "enum_ssh_capability = all_ssh_capabilities"

definition enum_all_ssh_capability :: "(ssh_capability \<Rightarrow> bool) \<Rightarrow> bool" where
  "enum_all_ssh_capability P = list_all P all_ssh_capabilities"

definition enum_ex_ssh_capability :: "(ssh_capability \<Rightarrow> bool) \<Rightarrow> bool" where
  "enum_ex_ssh_capability P = list_ex P all_ssh_capabilities"

instance
proof
  have all: "UNIV = set all_ssh_capabilities"
    by (auto simp: all_ssh_capabilities_def intro: ssh_capability.exhaust)
  show "(UNIV :: ssh_capability set) = set enum_class.enum" by (simp add: enum_ssh_capability_def all)
  show "distinct (enum_class.enum :: ssh_capability list)"
    by (simp add: enum_ssh_capability_def all_ssh_capabilities_def)
  show "enum_class.enum_all P \<longleftrightarrow> Ball (UNIV :: ssh_capability set) P" for P
    using all by (auto simp: enum_all_ssh_capability_def list_all_iff)
  show "enum_class.enum_ex P \<longleftrightarrow> Bex (UNIV :: ssh_capability set) P" for P
    using all by (auto simp: enum_ex_ssh_capability_def list_ex_iff)
qed

end

definition ssh_grants :: "grant list \<Rightarrow> ssh_grant list" where
  "ssh_grants grant_list = List.map_filter as_ssh grant_list"

text \<open>A \<open>frozenset\<close> is a list without repetition; nothing depends on its order.\<close>

definition capabilities_of :: "ssh_permission \<Rightarrow> ssh_capability list" where
  "capabilities_of p = (case capability_list p of
     None \<Rightarrow> all_ssh_capabilities | Some l \<Rightarrow> remdups l)"

definition covers_username :: "ssh_permission \<Rightarrow> string \<Rightarrow> string option \<Rightarrow> bool" where
  "covers_username p username unix_username =
    (case username_list p of
       None \<Rightarrow> True
     | Some l \<Rightarrow> username \<in> set (List.map_filter (\<lambda>e. resolve_username e unix_username) l))"

definition covers_unnamed_username :: "ssh_permission \<Rightarrow> bool" where
  "covers_unnamed_username p \<longleftrightarrow> username_list p = None"

definition ttl_max :: "int option \<Rightarrow> int option \<Rightarrow> int option" where
  "ttl_max a b = (case a of None \<Rightarrow> None | Some x \<Rightarrow>
    (case b of None \<Rightarrow> None | Some y \<Rightarrow> Some (max x y)))"

definition ttl_min :: "int option \<Rightarrow> int option \<Rightarrow> int option" where
  "ttl_min a b = (case a of None \<Rightarrow> b | Some x \<Rightarrow>
    (case b of None \<Rightarrow> a | Some y \<Rightarrow> Some (min x y)))"

definition deadline :: "int \<Rightarrow> int option list \<Rightarrow> int option" where
  "deadline now ttl_list =
    (let bounded = List.map_filter (\<lambda>t. t) ttl_list
     in if bounded = [] then None else Some (now + fold min (tl bounded) (hd bounded)))"

section \<open>CapabilityTtl\<close>

type_synonym capability_ttl = "ssh_capability \<rightharpoonup> int option"

definition allow_capability :: "int option \<Rightarrow> ssh_capability \<Rightarrow> capability_ttl \<Rightarrow> capability_ttl" where
  "allow_capability t c ttl =
    ttl(c \<mapsto> (case ttl c of None \<Rightarrow> t | Some u \<Rightarrow> ttl_max u t))"

definition capability_allowed_by :: "ssh_permission list \<Rightarrow> capability_ttl" where
  "capability_allowed_by permissions =
    fold (\<lambda>p ttl. fold (allow_capability (max_session_ttl_s p)) (capabilities_of p) ttl)
      permissions Map.empty"

definition capability_intersect :: "capability_ttl \<Rightarrow> capability_ttl \<Rightarrow> capability_ttl" where
  "capability_intersect self ceiling =
    (\<lambda>c. case self c of None \<Rightarrow> None
      | Some ttl \<Rightarrow> (case ceiling c of None \<Rightarrow> None | Some bound \<Rightarrow> Some (ttl_min ttl bound)))"

definition deny_capability :: "int option \<Rightarrow> ssh_capability \<Rightarrow> capability_ttl \<Rightarrow> capability_ttl" where
  "deny_capability t c ttl = (case t of
     None \<Rightarrow> ttl(c := None)
   | Some n \<Rightarrow> (case ttl c of None \<Rightarrow> ttl | Some u \<Rightarrow> ttl(c \<mapsto> ttl_min u (Some n))))"

definition capability_subtract :: "capability_ttl \<Rightarrow> ssh_permission list \<Rightarrow> capability_ttl" where
  "capability_subtract self permissions =
    fold (\<lambda>p ttl. fold (deny_capability (max_session_ttl_s p))
        (filter (\<lambda>c. ttl c \<noteq> None) (capabilities_of p)) ttl)
      permissions self"

section \<open>SSHCommandPermissions\<close>

datatype ssh_command_allowed = SSHCommandAllowed (allowed_ttl: "int option")

definition covered_union ::
    "ssh_command_allowed option \<Rightarrow> ssh_command_allowed option \<Rightarrow> ssh_command_allowed option" where
  "covered_union a b = (case a of None \<Rightarrow> b | Some x \<Rightarrow>
    (case b of None \<Rightarrow> a | Some y \<Rightarrow> Some (SSHCommandAllowed (ttl_max (allowed_ttl x) (allowed_ttl y)))))"

definition covered_intersection ::
    "ssh_command_allowed option \<Rightarrow> ssh_command_allowed option \<Rightarrow> ssh_command_allowed option" where
  "covered_intersection a b = (case a of None \<Rightarrow> None | Some x \<Rightarrow>
    (case b of None \<Rightarrow> None
     | Some y \<Rightarrow> Some (SSHCommandAllowed (ttl_min (allowed_ttl x) (allowed_ttl y)))))"

definition covered_deny ::
    "ssh_command_allowed option \<Rightarrow> int option \<Rightarrow> ssh_command_allowed option" where
  "covered_deny a t = (case a of None \<Rightarrow> None | Some x \<Rightarrow>
    (case t of None \<Rightarrow> None | Some n \<Rightarrow> Some (SSHCommandAllowed (ttl_min (allowed_ttl x) (Some n)))))"

type_synonym named_commands = "(string \<times> ssh_command_allowed option) list"

record ssh_command_permissions =
  scp_named :: named_commands
  scp_other :: "ssh_command_allowed option"

definition map_values :: "('v \<Rightarrow> 'w) \<Rightarrow> ('k \<times> 'v) list \<Rightarrow> ('k \<times> 'w) list" where
  "map_values f d = map (\<lambda>(k, v). (k, f v)) d"

fun allow_commands ::
    "ssh_permission \<Rightarrow> named_commands \<times> ssh_command_allowed option
      \<Rightarrow> named_commands \<times> ssh_command_allowed option" where
  "allow_commands p (named, other) =
    (let allowed = Some (SSHCommandAllowed (max_session_ttl_s p))
     in case command_list p of
          None \<Rightarrow> (map_values (\<lambda>a. covered_union a allowed) named, covered_union other allowed)
        | Some commands \<Rightarrow>
            (fold (\<lambda>command named.
                AList.update command (covered_union (get_or named command other) allowed) named)
              commands named, other))"

definition command_allowed_by :: "ssh_permission list \<Rightarrow> ssh_command_permissions" where
  "command_allowed_by permissions =
    (let (named, other) = fold allow_commands permissions ([], None)
     in \<lparr>scp_named = named, scp_other = other\<rparr>)"

definition command_permits :: "ssh_command_permissions \<Rightarrow> string \<Rightarrow> ssh_command_allowed option" where
  "command_permits self command = get_or (scp_named self) command (scp_other self)"

definition command_intersect ::
    "ssh_command_permissions \<Rightarrow> ssh_command_permissions \<Rightarrow> ssh_command_permissions" where
  "command_intersect self ceiling =
    (let named = dict_of (map fst (scp_named self) @ map fst (scp_named ceiling))
           (\<lambda>c. covered_intersection (command_permits self c) (command_permits ceiling c))
     in \<lparr>scp_named = named, scp_other = covered_intersection (scp_other self) (scp_other ceiling)\<rparr>)"

fun deny_commands ::
    "ssh_permission \<Rightarrow> named_commands \<times> ssh_command_allowed option
      \<Rightarrow> named_commands \<times> ssh_command_allowed option" where
  "deny_commands p (named, other) =
    (case command_list p of
       None \<Rightarrow> (map_values (\<lambda>a. covered_deny a (max_session_ttl_s p)) named,
                covered_deny other (max_session_ttl_s p))
     | Some commands \<Rightarrow>
         (fold (\<lambda>command named.
             AList.update command (covered_deny (get_or named command other) (max_session_ttl_s p)) named)
           commands named, other))"

definition command_subtract ::
    "ssh_command_permissions \<Rightarrow> ssh_permission list \<Rightarrow> ssh_command_permissions" where
  "command_subtract self permissions =
    (let (named, other) = fold deny_commands permissions (scp_named self, scp_other self)
     in \<lparr>scp_named = named, scp_other = other\<rparr>)"

definition command_candidates :: "ssh_command_permissions \<Rightarrow> string list \<times> bool" where
  "command_candidates self =
    (map fst (filter (\<lambda>(c, a). a \<noteq> None) (scp_named self)), scp_other self \<noteq> None)"

section \<open>SSHChecker\<close>

record ssh_decision =
  sd_commands :: ssh_command_permissions
  sd_capability_ttl :: capability_ttl

definition sd_capabilities :: "ssh_decision \<Rightarrow> ssh_capability set" where
  "sd_capabilities d = dom (sd_capability_ttl d)"

record ssh_checker =
  sc_granted :: "ssh_grant list"
  sc_ceilings :: "ssh_grant list list"
  sc_denied :: "ssh_grant list"

definition ssh_matching :: "int \<Rightarrow> int list \<Rightarrow> int list \<Rightarrow> grant list \<Rightarrow> ssh_grant list" where
  "ssh_matching identity_id tag_id_list boundary_id_list grant_list =
    filter (\<lambda>g. triplet_match (g_filter g) identity_id tag_id_list boundary_id_list)
      (ssh_grants grant_list)"

definition SSHChecker ::
    "boundary list \<Rightarrow> role list \<Rightarrow> int \<Rightarrow> int list \<Rightarrow> int list \<Rightarrow> ssh_checker" where
  "SSHChecker boundaries roles identity_id tag_id_list boundary_id_list =
    (let matching = ssh_matching identity_id tag_id_list boundary_id_list
     in \<lparr>sc_granted = concat (map (\<lambda>r. matching (r_grant_list r)) roles),
         sc_ceilings = map matching (List.map_filter b_ceiling_list boundaries),
         sc_denied = concat (map (\<lambda>b. matching (b_denied_list b)) boundaries)\<rparr>)"

definition covering :: "ssh_grant list \<Rightarrow> (ssh_permission \<Rightarrow> bool) \<Rightarrow> ssh_permission list" where
  "covering grants covers = filter covers (map g_permission grants)"

definition decide_covering :: "ssh_checker \<Rightarrow> (ssh_permission \<Rightarrow> bool) \<Rightarrow> ssh_decision" where
  "decide_covering self covers =
    (let granted = covering (sc_granted self) covers;
         ttl_by_cap = capability_allowed_by granted;
         commands = command_allowed_by granted;
         (ttl_by_cap, commands) = fold (\<lambda>ceiling (t, c).
             (let covered = covering ceiling covers
              in (capability_intersect t (capability_allowed_by covered),
                  command_intersect c (command_allowed_by covered))))
           (sc_ceilings self) (ttl_by_cap, commands);
         denied = covering (sc_denied self) covers
     in \<lparr>sd_commands = command_subtract commands denied,
         sd_capability_ttl = capability_subtract ttl_by_cap denied\<rparr>)"

definition ssh_decide :: "ssh_checker \<Rightarrow> string \<Rightarrow> string option \<Rightarrow> ssh_decision" where
  "ssh_decide self username unix_username =
    decide_covering self (\<lambda>p. covers_username p username unix_username)"

fun add_candidate :: "string option \<Rightarrow> string \<Rightarrow> string list \<Rightarrow> string list" where
  "add_candidate unix_username entry usernames =
    (case resolve_username entry unix_username of
       None \<Rightarrow> usernames
     | Some r \<Rightarrow> if r \<notin> set usernames then usernames @ [r] else usernames)"

fun add_candidates ::
    "string option \<Rightarrow> ssh_grant \<Rightarrow> string list \<times> bool \<Rightarrow> string list \<times> bool" where
  "add_candidates unix_username g (usernames, wildcard) =
    (case username_list (g_permission g) of
       None \<Rightarrow> (usernames, True)
     | Some l \<Rightarrow> (fold (add_candidate unix_username) l usernames, wildcard))"

definition candidate_usernames :: "ssh_checker \<Rightarrow> string option \<Rightarrow> string list \<times> bool" where
  "candidate_usernames self unix_username =
    fold (add_candidates unix_username) (sc_granted self) ([], False)"

definition list_decisions :: "ssh_checker \<Rightarrow> string option \<Rightarrow> (string option \<times> ssh_decision) list" where
  "list_decisions self unix_username =
    (let (usernames, wildcard) = candidate_usernames self unix_username;
         output = map (\<lambda>u. (Some u, ssh_decide self u unix_username)) usernames
     in if wildcard then output @ [(None, decide_covering self covers_unnamed_username)] else output)"

end
