(* ===== verification/Ssh_Allowance.thy ===== *)
theory Ssh_Allowance
  imports Ssh_Decision
begin

text \<open>
  The specification of the SSH decision and the proof that \<open>Ssh_Decision\<close> implements it. An
  \<open>allowance\<close> is what a caller may do with one capability or one command: nothing, a session of
  bounded length, or a session without bound; they are linearly ordered. Roles give the maximum of
  their grants; each boundary caps it by the maximum of its ceiling and by the minimum its denied
  entries leave.
\<close>

section \<open>Allowances\<close>

datatype allowance = Denied | Until int | Unbounded

instantiation allowance :: linorder
begin

fun less_eq_allowance :: "allowance \<Rightarrow> allowance \<Rightarrow> bool" where
  "Denied \<le> b \<longleftrightarrow> True"
| "Until m \<le> Denied \<longleftrightarrow> False"
| "Until m \<le> Until n \<longleftrightarrow> m \<le> n"
| "Until m \<le> Unbounded \<longleftrightarrow> True"
| "Unbounded \<le> b \<longleftrightarrow> b = Unbounded"

definition less_allowance :: "allowance \<Rightarrow> allowance \<Rightarrow> bool" where
  "a < b \<longleftrightarrow> a \<le> b \<and> \<not> b \<le> (a :: allowance)"

instance
proof
  fix a b c :: allowance
  show "a < b \<longleftrightarrow> a \<le> b \<and> \<not> b \<le> a" by (rule less_allowance_def)
  show "a \<le> a" by (cases a) simp_all
  show "a \<le> b \<Longrightarrow> b \<le> c \<Longrightarrow> a \<le> c" by (cases a; cases b; cases c) simp_all
  show "a \<le> b \<Longrightarrow> b \<le> a \<Longrightarrow> a = b" by (cases a; cases b) simp_all
  show "a \<le> b \<or> b \<le> a" by (cases a; cases b) auto
qed

end

lemma Denied_least [simp]: "min Denied a = Denied" "min a Denied = Denied" "max Denied a = a"
  "max a Denied = a" "a \<le> Denied \<longleftrightarrow> a = Denied"
  by (cases a; simp add: min_def max_def)+

lemma Unbounded_greatest [simp]: "min Unbounded a = a" "min a Unbounded = a" "a \<le> Unbounded"
  "max Unbounded a = Unbounded" "max a Unbounded = Unbounded"
  by (cases a; simp add: min_def max_def)+

fun bound :: "int option \<Rightarrow> allowance" where
  "bound None = Unbounded"
| "bound (Some t) = Until t"

fun deny_bound :: "int option \<Rightarrow> allowance" where
  "deny_bound None = Denied"
| "deny_bound (Some t) = Until t"

definition level :: "int option option \<Rightarrow> allowance" where
  "level a = (case a of None \<Rightarrow> Denied | Some t \<Rightarrow> bound t)"

definition command_level :: "ssh_command_allowed option \<Rightarrow> allowance" where
  "command_level a = level (map_option allowed_ttl a)"

lemma level_simps [simp]: "level None = Denied" "level (Some t) = bound t"
  by (simp_all add: level_def)

lemma command_level_simps [simp]:
  "command_level None = Denied" "command_level (Some a) = bound (allowed_ttl a)"
  by (simp_all add: command_level_def)

lemma bound_not_Denied [simp]: "bound t \<noteq> Denied"
  by (cases t) simp_all

lemma level_Denied_iff [simp]: "level a = Denied \<longleftrightarrow> a = None"
  by (cases a) simp_all

lemma command_level_Denied_iff [simp]: "command_level a = Denied \<longleftrightarrow> a = None"
  by (cases a) simp_all

lemma bound_ttl_max [simp]: "bound (ttl_max a b) = max (bound a) (bound b)"
  by (cases a; cases b) (simp_all add: ttl_max_def max_def)

lemma bound_ttl_min [simp]: "bound (ttl_min a b) = min (bound a) (bound b)"
  by (cases a; cases b) (simp_all add: ttl_min_def min_def)

lemma command_level_union [simp]:
  "command_level (covered_union a b) = max (command_level a) (command_level b)"
  by (cases a; cases b) (simp_all add: covered_union_def)

lemma command_level_intersection [simp]:
  "command_level (covered_intersection a b) = min (command_level a) (command_level b)"
  by (cases a; cases b) (simp_all add: covered_intersection_def)

lemma command_level_deny [simp]:
  "command_level (covered_deny a t) = min (command_level a) (deny_bound t)"
  by (cases a; cases t) (simp_all add: covered_deny_def)

section \<open>Maxima and minima over lists of permissions\<close>

primrec max_ttl :: "(ssh_permission \<Rightarrow> bool) \<Rightarrow> ssh_permission list \<Rightarrow> allowance" where
  "max_ttl hits [] = Denied"
| "max_ttl hits (p # ps) =
    (if hits p then max (bound (max_session_ttl_s p)) (max_ttl hits ps) else max_ttl hits ps)"

primrec min_ttl :: "(ssh_permission \<Rightarrow> bool) \<Rightarrow> ssh_permission list \<Rightarrow> allowance" where
  "min_ttl hits [] = Unbounded"
| "min_ttl hits (p # ps) =
    (if hits p then min (deny_bound (max_session_ttl_s p)) (min_ttl hits ps) else min_ttl hits ps)"

lemma max_ttl_le_iff:
  "max_ttl hits ps \<le> a \<longleftrightarrow> (\<forall>p\<in>set ps. hits p \<longrightarrow> bound (max_session_ttl_s p) \<le> a)"
  by (induction ps) (auto simp: max_def)

lemma le_min_ttl_iff:
  "a \<le> min_ttl hits ps \<longleftrightarrow> (\<forall>p\<in>set ps. hits p \<longrightarrow> a \<le> deny_bound (max_session_ttl_s p))"
  by (induction ps) auto

section \<open>Capabilities\<close>

definition has_capability :: "ssh_capability \<Rightarrow> ssh_permission \<Rightarrow> bool" where
  "has_capability c p \<longleftrightarrow> (case capability_list p of None \<Rightarrow> True | Some l \<Rightarrow> c \<in> set l)"

lemma set_capabilities_of: "c \<in> set (capabilities_of p) \<longleftrightarrow> has_capability c p"
  by (cases c) (auto simp: capabilities_of_def has_capability_def all_ssh_capabilities_def
      split: option.splits)

lemma level_allow_capability:
  "level (allow_capability t d ttl c) = (if c = d then max (level (ttl c)) (bound t) else level (ttl c))"
  by (auto simp: allow_capability_def split: option.splits)

lemma level_fold_allow_capability:
  "level (fold (allow_capability t) cs ttl c) =
    (if c \<in> set cs then max (level (ttl c)) (bound t) else level (ttl c))"
  by (induction cs arbitrary: ttl) (auto simp: level_allow_capability max.assoc)

lemma level_capability_fold:
  "level (fold (\<lambda>p ttl. fold (allow_capability (max_session_ttl_s p)) (capabilities_of p) ttl) ps ttl c)
    = max (level (ttl c)) (max_ttl (has_capability c) ps)"
  by (induction ps arbitrary: ttl)
    (auto simp: level_fold_allow_capability set_capabilities_of max.assoc)

lemma level_capability_allowed_by:
  "level (capability_allowed_by ps c) = max_ttl (has_capability c) ps"
  by (simp add: capability_allowed_by_def level_capability_fold)

lemma level_capability_intersect:
  "level (capability_intersect a b c) = min (level (a c)) (level (b c))"
  by (auto simp: capability_intersect_def split: option.splits)

lemma level_deny_capability:
  "level (deny_capability t d ttl c) =
    (if c = d then min (level (ttl c)) (deny_bound t) else level (ttl c))"
  by (auto simp: deny_capability_def split: option.splits)

lemma level_fold_deny_capability:
  "level (fold (deny_capability t) cs ttl c) =
    (if c \<in> set cs then min (level (ttl c)) (deny_bound t) else level (ttl c))"
  by (induction cs arbitrary: ttl) (auto simp: level_deny_capability min.assoc)

lemma level_capability_subtract:
  "level (capability_subtract ttl ps c) = min (level (ttl c)) (min_ttl (has_capability c) ps)"
proof (induction ps arbitrary: ttl)
  case (Cons p ps)
  have "level (fold (deny_capability (max_session_ttl_s p))
      (filter (\<lambda>c. ttl c \<noteq> None) (capabilities_of p)) ttl c) =
    (if has_capability c p then min (level (ttl c)) (deny_bound (max_session_ttl_s p))
     else level (ttl c))"
    by (auto simp: level_fold_deny_capability set_capabilities_of)
  then show ?case
    using Cons.IH by (auto simp: capability_subtract_def min.assoc)
qed (simp add: capability_subtract_def)

section \<open>Commands\<close>

definition names_command :: "string \<Rightarrow> ssh_permission \<Rightarrow> bool" where
  "names_command c p \<longleftrightarrow> (case command_list p of None \<Rightarrow> True | Some l \<Rightarrow> c \<in> set l)"

lemma get_or_map_values: "get_or (map_values f d) k (f v) = f (get_or d k v)"
  by (simp add: get_or_def map_values_def map_of_map_snd split: option.splits)

lemma get_or_Nil: "get_or [] c w = w"
  by (simp add: get_or_def)

lemma get_or_update: "get_or (AList.update k v d) c w = (if c = k then v else get_or d c w)"
  by (simp add: get_or_def update_conv')

lemma level_fold_update_commands:
  assumes "\<And>a. command_level (f a) = op (command_level a) b"
    and "\<And>x. op (op x b) b = (op x b :: allowance)"
  shows "command_level (get_or
      (fold (\<lambda>k d. AList.update k (f (get_or d k other)) d) cs named) c other) =
    (if c \<in> set cs then op (command_level (get_or named c other)) b
     else command_level (get_or named c other))"
  by (induction cs arbitrary: named) (auto simp: get_or_update assms)

definition pair_permits :: "named_commands \<times> ssh_command_allowed option \<Rightarrow> string \<Rightarrow> allowance" where
  "pair_permits s c = command_level (get_or (fst s) c (snd s))"

lemma pair_permits_allow:
  "pair_permits (allow_commands p s) c =
    (if names_command c p then max (pair_permits s c) (bound (max_session_ttl_s p))
     else pair_permits s c)"
proof (cases s)
  case (Pair named other)
  let ?a = "Some (SSHCommandAllowed (max_session_ttl_s p))"
  show ?thesis
  proof (cases "command_list p")
    case None
    then show ?thesis
      using get_or_map_values [of "\<lambda>a. covered_union a ?a" named c other]
      by (simp add: Pair pair_permits_def names_command_def Let_def)
  next
    case (Some cs)
    then show ?thesis
      using level_fold_update_commands [of "\<lambda>a. covered_union a ?a" max "bound (max_session_ttl_s p)"
          other cs named c]
      by (simp add: Pair pair_permits_def names_command_def Let_def max.assoc)
  qed
qed

lemma pair_permits_deny:
  "pair_permits (deny_commands p s) c =
    (if names_command c p then min (pair_permits s c) (deny_bound (max_session_ttl_s p))
     else pair_permits s c)"
proof (cases s)
  case (Pair named other)
  show ?thesis
  proof (cases "command_list p")
    case None
    then show ?thesis
      using get_or_map_values [of "\<lambda>a. covered_deny a (max_session_ttl_s p)" named c other]
      by (simp add: Pair pair_permits_def names_command_def Let_def)
  next
    case (Some cs)
    then show ?thesis
      using level_fold_update_commands [of "\<lambda>a. covered_deny a (max_session_ttl_s p)" min
          "deny_bound (max_session_ttl_s p)" other cs named c]
      by (simp add: Pair pair_permits_def names_command_def Let_def min.assoc)
  qed
qed

lemma pair_permits_fold_allow:
  "pair_permits (fold allow_commands ps s) c = max (pair_permits s c) (max_ttl (names_command c) ps)"
  by (induction ps arbitrary: s) (auto simp: pair_permits_allow max.assoc)

lemma pair_permits_fold_deny:
  "pair_permits (fold deny_commands ps s) c = min (pair_permits s c) (min_ttl (names_command c) ps)"
  by (induction ps arbitrary: s) (auto simp: pair_permits_deny min.assoc)

lemma command_permits_allowed_by:
  "command_level (command_permits (command_allowed_by ps) c) = max_ttl (names_command c) ps"
  using pair_permits_fold_allow [of ps "([], None)" c]
  by (simp add: command_allowed_by_def command_permits_def pair_permits_def get_or_Nil case_prod_beta)

lemma command_permits_subtract:
  "command_level (command_permits (command_subtract s ps) c) =
    min (command_level (command_permits s c)) (min_ttl (names_command c) ps)"
  using pair_permits_fold_deny [of ps "(scp_named s, scp_other s)" c]
  by (simp add: command_subtract_def command_permits_def pair_permits_def case_prod_beta)

lemma command_permits_intersect:
  "command_level (command_permits (command_intersect a b) c) =
    min (command_level (command_permits a c)) (command_level (command_permits b c))"
proof (cases "c \<in> set (map fst (scp_named a) @ map fst (scp_named b))")
  case True
  then show ?thesis
    by (auto simp: command_permits_def command_intersect_def get_or_def map_of_dict_of)
next
  case False
  then have "map_of (scp_named a) c = None" "map_of (scp_named b) c = None"
    by (simp_all add: map_of_eq_None_iff)
  then show ?thesis
    using False by (simp add: command_permits_def command_intersect_def get_or_def map_of_dict_of)
qed

section \<open>The specification\<close>

text \<open>
  A query names the host (its id, tags and boundaries), which entries reach the username, and which
  entries are about the capability or command asked for.
\<close>

record ssh_query =
  q_host :: int
  q_tags :: "int list"
  q_bounds :: "int list"
  q_covers :: "ssh_permission \<Rightarrow> bool"
  q_hits :: "ssh_permission \<Rightarrow> bool"

definition reach :: "ssh_query \<Rightarrow> grant list \<Rightarrow> ssh_permission set" where
  "reach q gs = {g_permission g | g. SSHGrant g \<in> set gs \<and>
    triplet_match (g_filter g) (q_host q) (q_tags q) (q_bounds q) \<and>
    q_covers q (g_permission g) \<and> q_hits q (g_permission g)}"

definition granted_by :: "ssh_query \<Rightarrow> grant list \<Rightarrow> allowance" where
  "granted_by q gs = Max (insert Denied ((\<lambda>p. bound (max_session_ttl_s p)) ` reach q gs))"

definition left_by :: "ssh_query \<Rightarrow> grant list \<Rightarrow> allowance" where
  "left_by q gs = Min (insert Unbounded ((\<lambda>p. deny_bound (max_session_ttl_s p)) ` reach q gs))"

definition boundary_cap :: "ssh_query \<Rightarrow> boundary \<Rightarrow> allowance" where
  "boundary_cap q b =
    min (case b_ceiling_list b of None \<Rightarrow> Unbounded | Some c \<Rightarrow> granted_by q c)
        (left_by q (b_denied_list b))"

definition ssh_spec :: "boundary list \<Rightarrow> role list \<Rightarrow> ssh_query \<Rightarrow> allowance" where
  "ssh_spec bs rs q =
    min (Max (insert Denied ((\<lambda>r. granted_by q (r_grant_list r)) ` set rs)))
        (Min (insert Unbounded (boundary_cap q ` set bs)))"

definition hit_perms :: "ssh_query \<Rightarrow> grant list \<Rightarrow> ssh_permission list" where
  "hit_perms q gs = covering (ssh_matching (q_host q) (q_tags q) (q_bounds q) gs) (q_covers q)"

lemma as_ssh_eq: "as_ssh g = Some x \<longleftrightarrow> g = SSHGrant x"
  by (cases g) auto

lemma reach_hit_perms: "reach q gs = {p \<in> set (hit_perms q gs). q_hits q p}"
  by (auto simp: reach_def hit_perms_def covering_def ssh_matching_def ssh_grants_def
      List.map_filter_def as_ssh_eq image_iff) (metis as_ssh.simps(1) option.sel option.distinct(1))+

lemma finite_reach [simp]: "finite (reach q gs)"
  by (simp add: reach_hit_perms)

lemma max_ttl_hit_perms: "max_ttl (q_hits q) (hit_perms q gs) = granted_by q gs"
proof (rule antisym)
  show "max_ttl (q_hits q) (hit_perms q gs) \<le> granted_by q gs"
    unfolding max_ttl_le_iff granted_by_def by (auto simp: reach_hit_perms intro!: Max_ge)
  show "granted_by q gs \<le> max_ttl (q_hits q) (hit_perms q gs)"
    unfolding granted_by_def using max_ttl_le_iff [of "q_hits q" "hit_perms q gs"]
    by (auto simp: reach_hit_perms less_eq_allowance.simps(1))
qed

lemma min_ttl_hit_perms: "min_ttl (q_hits q) (hit_perms q gs) = left_by q gs"
proof (rule antisym)
  show "left_by q gs \<le> min_ttl (q_hits q) (hit_perms q gs)"
    unfolding le_min_ttl_iff left_by_def by (auto simp: reach_hit_perms intro!: Min_le)
  show "min_ttl (q_hits q) (hit_perms q gs) \<le> left_by q gs"
    unfolding left_by_def using le_min_ttl_iff [of _ "q_hits q" "hit_perms q gs"]
    by (auto simp: reach_hit_perms)
qed

section \<open>The decision implements the specification\<close>

lemma eq_by_lower_bounds: "(\<And>x. x \<le> a \<longleftrightarrow> x \<le> b) \<Longrightarrow> a = (b :: 'a::order)"
  by (meson order.refl antisym)

lemma max_ttl_concat_map:
  "max_ttl hits (concat (map f xs)) = Max (insert Denied ((\<lambda>x. max_ttl hits (f x)) ` set xs))"
proof (rule antisym)
  show "max_ttl hits (concat (map f xs)) \<le> Max (insert Denied ((\<lambda>x. max_ttl hits (f x)) ` set xs))"
    unfolding max_ttl_le_iff
  proof safe
    fix p assume p: "p \<in> set (concat (map f xs))" "hits p"
    then obtain x where x: "x \<in> set xs" "p \<in> set (f x)" by auto
    have "bound (max_session_ttl_s p) \<le> max_ttl hits (f x)"
      using x p max_ttl_le_iff [of hits "f x"] by blast
    also have "\<dots> \<le> Max (insert Denied ((\<lambda>x. max_ttl hits (f x)) ` set xs))"
      using x by (intro Max_ge) auto
    finally show "bound (max_session_ttl_s p) \<le> \<dots>" .
  qed
  show "Max (insert Denied ((\<lambda>x. max_ttl hits (f x)) ` set xs)) \<le> max_ttl hits (concat (map f xs))"
  proof -
    have "max_ttl hits (f x) \<le> max_ttl hits (concat (map f xs))" if x: "x \<in> set xs" for x
      using max_ttl_le_iff [of hits "concat (map f xs)" "max_ttl hits (concat (map f xs))"] x
      unfolding max_ttl_le_iff [of hits "f x"] by auto
    then show ?thesis by auto
  qed
qed

lemma le_min_ttl_concat_map:
  "a \<le> min_ttl hits (concat (map f xs)) \<longleftrightarrow> (\<forall>x\<in>set xs. a \<le> min_ttl hits (f x))"
  by (auto simp: le_min_ttl_iff)

lemma covering_concat_map:
  "covering (concat (map f xs)) covers = concat (map (\<lambda>x. covering (f x) covers) xs)"
  by (induction xs) (simp_all add: covering_def)

lemma ceilings_fold:
  assumes "\<And>a b. lev (f a b) = min (lev a) (lev b)"
  shows "x \<le> lev (fold (\<lambda>g a. f a (h g)) gs a) \<longleftrightarrow> x \<le> lev a \<and> (\<forall>g\<in>set gs. x \<le> (lev (h g) :: allowance))"
  by (induction gs arbitrary: a) (auto simp: assms)

lemma decide_ceilings:
  "fold (\<lambda>ceiling (t, c).
      (let covered = covering ceiling covers
       in (capability_intersect t (capability_allowed_by covered),
           command_intersect c (command_allowed_by covered)))) gs (t0, c0) =
   (fold (\<lambda>g t. capability_intersect t (capability_allowed_by (covering g covers))) gs t0,
    fold (\<lambda>g c. command_intersect c (command_allowed_by (covering g covers))) gs c0)"
  by (induction gs arbitrary: t0 c0) (simp_all add: Let_def)

lemma set_map_filter: "set (List.map_filter f xs) = {y. \<exists>x\<in>set xs. f x = Some y}"
  by (force simp: List.map_filter_def)

lemma spec_le_iff:
  "x \<le> ssh_spec bs rs q \<longleftrightarrow>
    x \<le> Max (insert Denied ((\<lambda>r. granted_by q (r_grant_list r)) ` set rs)) \<and>
    (\<forall>b\<in>set bs. (\<forall>c. b_ceiling_list b = Some c \<longrightarrow> x \<le> granted_by q c) \<and>
      x \<le> left_by q (b_denied_list b))"
  by (auto simp: ssh_spec_def boundary_cap_def split: option.splits)

lemma checker_meets_spec:
  fixes q bs rs
  defines "chk \<equiv> SSHChecker bs rs (q_host q) (q_tags q) (q_bounds q)"
  shows "x \<le> min (max_ttl (q_hits q) (covering (sc_granted chk) (q_covers q)))
        (min_ttl (q_hits q) (covering (sc_denied chk) (q_covers q))) \<and>
      (\<forall>g\<in>set (sc_ceilings chk). x \<le> max_ttl (q_hits q) (covering g (q_covers q))) \<longleftrightarrow>
    x \<le> ssh_spec bs rs q"
proof -
  let ?m = "ssh_matching (q_host q) (q_tags q) (q_bounds q)"
  have g: "max_ttl (q_hits q) (covering (sc_granted chk) (q_covers q)) =
      Max (insert Denied ((\<lambda>r. granted_by q (r_grant_list r)) ` set rs))"
    by (simp add: chk_def SSHChecker_def covering_concat_map max_ttl_concat_map
        max_ttl_hit_perms [unfolded hit_perms_def] Let_def)
  have d: "x \<le> min_ttl (q_hits q) (covering (sc_denied chk) (q_covers q)) \<longleftrightarrow>
      (\<forall>b\<in>set bs. x \<le> left_by q (b_denied_list b))"
    by (simp add: chk_def SSHChecker_def covering_concat_map le_min_ttl_concat_map
        min_ttl_hit_perms [unfolded hit_perms_def] Let_def)
  have c: "(\<forall>g\<in>set (sc_ceilings chk). x \<le> max_ttl (q_hits q) (covering g (q_covers q))) \<longleftrightarrow>
      (\<forall>b\<in>set bs. \<forall>c. b_ceiling_list b = Some c \<longrightarrow> x \<le> granted_by q c)"
    by (auto simp: chk_def SSHChecker_def set_map_filter max_ttl_hit_perms [unfolded hit_perms_def]
        Let_def)
  show ?thesis unfolding spec_le_iff g [symmetric] by (auto simp: c d)
qed

lemma capability_decision_le_iff:
  "x \<le> level (sd_capability_ttl (decide_covering chk covers) c) \<longleftrightarrow>
    x \<le> min (max_ttl (has_capability c) (covering (sc_granted chk) covers))
      (min_ttl (has_capability c) (covering (sc_denied chk) covers)) \<and>
    (\<forall>g\<in>set (sc_ceilings chk). x \<le> max_ttl (has_capability c) (covering g covers))"
  unfolding decide_covering_def decide_ceilings
  using ceilings_fold [of "\<lambda>t. level (t c)" capability_intersect x
      "\<lambda>g. capability_allowed_by (covering g covers)"]
  by (auto simp: Let_def level_capability_subtract level_capability_intersect
      level_capability_allowed_by decide_ceilings)

lemma command_decision_le_iff:
  "x \<le> command_level (command_permits (sd_commands (decide_covering chk covers)) c) \<longleftrightarrow>
    x \<le> min (max_ttl (names_command c) (covering (sc_granted chk) covers))
      (min_ttl (names_command c) (covering (sc_denied chk) covers)) \<and>
    (\<forall>g\<in>set (sc_ceilings chk). x \<le> max_ttl (names_command c) (covering g covers))"
  unfolding decide_covering_def decide_ceilings
  using ceilings_fold [of "\<lambda>t. command_level (command_permits t c)" command_intersect x
      "\<lambda>g. command_allowed_by (covering g covers)"]
  by (auto simp: Let_def command_permits_subtract command_permits_intersect
      command_permits_allowed_by decide_ceilings)

section \<open>More boundaries narrow, more roles widen\<close>

lemma spec_mono_boundaries: "set bs \<subseteq> set bs' \<Longrightarrow> ssh_spec bs' rs q \<le> ssh_spec bs rs q"
  unfolding spec_le_iff [of "ssh_spec bs' rs q"]
  using spec_le_iff [of "ssh_spec bs' rs q" bs' rs q] by auto

lemma spec_mono_roles:
  assumes "set rs \<subseteq> set rs'"
  shows "ssh_spec bs rs q \<le> ssh_spec bs rs' q"
proof -
  let ?M = "\<lambda>rs. Max (insert Denied ((\<lambda>r. granted_by q (r_grant_list r)) ` set rs))"
  have "?M rs \<le> ?M rs'" using assms by (intro Max_mono) auto
  moreover have "ssh_spec bs rs q \<le> ?M rs" by (simp add: ssh_spec_def)
  ultimately have "ssh_spec bs rs q \<le> ?M rs'" by (rule order_trans [rotated])
  then show ?thesis
    unfolding spec_le_iff [of "ssh_spec bs rs q"]
    using spec_le_iff [of "ssh_spec bs rs q" bs rs q] by auto
qed

definition capability_level ::
    "boundary list \<Rightarrow> role list \<Rightarrow> (int \<times> int list \<times> int list \<times> string \<times> string option \<times> ssh_capability)
      \<Rightarrow> allowance" where
  "capability_level bs rs = (\<lambda>(host, tags, bounds, username, unix_username, c).
    level (sd_capability_ttl (ssh_decide (SSHChecker bs rs host tags bounds) username unix_username) c))"

definition command_line_level ::
    "boundary list \<Rightarrow> role list \<Rightarrow> (int \<times> int list \<times> int list \<times> string \<times> string option \<times> string)
      \<Rightarrow> allowance" where
  "command_line_level bs rs = (\<lambda>(host, tags, bounds, username, unix_username, c).
    command_level (command_permits
      (sd_commands (ssh_decide (SSHChecker bs rs host tags bounds) username unix_username)) c))"

definition username_query ::
    "int \<Rightarrow> int list \<Rightarrow> int list \<Rightarrow> string \<Rightarrow> string option \<Rightarrow> (ssh_permission \<Rightarrow> bool) \<Rightarrow> ssh_query" where
  "username_query host tags bounds username unix_username hits =
    \<lparr>q_host = host, q_tags = tags, q_bounds = bounds,
     q_covers = (\<lambda>p. covers_username p username unix_username), q_hits = hits\<rparr>"

lemma capability_level_spec:
  "capability_level bs rs (host, tags, bounds, u, ux, c) =
    ssh_spec bs rs (username_query host tags bounds u ux (has_capability c))"
proof (rule eq_by_lower_bounds)
  fix x
  show "x \<le> capability_level bs rs (host, tags, bounds, u, ux, c) \<longleftrightarrow>
    x \<le> ssh_spec bs rs (username_query host tags bounds u ux (has_capability c))"
    unfolding capability_level_def prod.case ssh_decide_def capability_decision_le_iff
      checker_meets_spec [symmetric] by (simp only: username_query_def ssh_query.simps)
qed

lemma command_line_level_spec:
  "command_line_level bs rs (host, tags, bounds, u, ux, c) =
    ssh_spec bs rs (username_query host tags bounds u ux (names_command c))"
proof (rule eq_by_lower_bounds)
  fix x
  show "x \<le> command_line_level bs rs (host, tags, bounds, u, ux, c) \<longleftrightarrow>
    x \<le> ssh_spec bs rs (username_query host tags bounds u ux (names_command c))"
    unfolding command_line_level_def prod.case ssh_decide_def command_decision_le_iff
      checker_meets_spec [symmetric] by (simp only: username_query_def ssh_query.simps)
qed

lemma spec_no_roles: "ssh_spec bs [] q = Denied"
  by (simp add: ssh_spec_def)

interpretation ssh_capabilities: authorizer capability_level Denied
  by unfold_locales (simp_all add: split_paired_all capability_level_spec spec_mono_boundaries
      spec_mono_roles spec_no_roles)

interpretation ssh_commands: authorizer command_line_level Denied
  by unfold_locales (simp_all add: split_paired_all command_line_level_spec spec_mono_boundaries
      spec_mono_roles spec_no_roles)

section \<open>Properties\<close>

text \<open>
  C1. The dictionary of capabilities computes the specification. For every username and capability
  the bound that \<open>decide\<close> reports is the largest that the covering role grants give, cut down by the
  largest that each boundary's ceiling covers and by every denied entry: a denied entry without a
  bound takes the capability away, one with a bound leaves sessions up to it.
\<close>

theorem ssh_decide_capabilities_refine:
  "level (sd_capability_ttl
      (ssh_decide (SSHChecker bs rs host tags bounds) username unix_username) c) =
    ssh_spec bs rs (username_query host tags bounds username unix_username (has_capability c))"
  using capability_level_spec [of bs rs host tags bounds username unix_username c]
  by (simp add: capability_level_def)

text \<open>
  C14. The same for commands: the pair of a dictionary of named commands and a default, which grants
  for all commands and grants for named ones update in any order, answers for every command line what
  the specification says of the entries that name it or name none.
\<close>

theorem ssh_decide_commands_refine:
  "command_level (command_permits (sd_commands
      (ssh_decide (SSHChecker bs rs host tags bounds) username unix_username)) command) =
    ssh_spec bs rs (username_query host tags bounds username unix_username (names_command command))"
  using command_line_level_spec [of bs rs host tags bounds username unix_username command]
  by (simp add: command_line_level_def)

text \<open>
  No escalation over SSH. With at least the boundaries and at most the roles of another caller,
  on the same host, username and capability, the session allowed is never longer than the other's;
  in particular what the other is denied stays denied.
\<close>

lemma ssh_no_escalation:
  assumes "set bs \<subseteq> set bs'" and "set rs' \<subseteq> set rs"
  shows "level (sd_capability_ttl
      (ssh_decide (SSHChecker bs' rs' host tags bounds) username unix_username) c) \<le>
    level (sd_capability_ttl
      (ssh_decide (SSHChecker bs rs host tags bounds) username unix_username) c)"
  using ssh_capabilities.no_escalation [OF assms, of "(host, tags, bounds, username, unix_username, c)"]
  by (simp add: capability_level_def)

definition sample_ssh :: "string list option \<Rightarrow> ssh_capability list option \<Rightarrow> int option \<Rightarrow> grant" where
  "sample_ssh us cs t = SSHGrant
    \<lparr>g_filter = \<lparr>tf_id = None, tf_tag_id_list = None, tf_boundary_id_list = None\<rparr>,
     g_permission = \<lparr>username_list = us, capability_list = cs, command_list = Some [],
       max_session_ttl_s = t\<rparr>\<rparr>"

definition sample_role :: "grant list \<Rightarrow> role" where
  "sample_role gs = \<lparr>r_id = 1, r_name = ''ops'', r_description = '''', r_grant_list = gs,
    r_member_id_list = []\<rparr>"

definition capped :: "int option \<Rightarrow> boundary" where
  "capped t = \<lparr>b_id = 2, b_name = ''cap'', b_description = '''',
    b_ceiling_list = Some [sample_ssh None None t], b_denied_list = []\<rparr>"

lemmas ssh_sample_defs = sample_ssh_def sample_role_def capped_def

theorem ssh_no_escalation_witness:
  "level (sd_capability_ttl (ssh_decide (SSHChecker [capped (Some 60)]
      [sample_role [sample_ssh None None None]] 1 [] []) ''root'' None) SHELL) \<le>
    level (sd_capability_ttl (ssh_decide (SSHChecker []
      [sample_role [sample_ssh None None None]] 1 [] []) ''root'' None) SHELL)"
  by (rule ssh_no_escalation) simp_all

end
