(* ===== verification/Ssh_Listing.thy ===== *)
theory Ssh_Listing
  imports Ssh_Allowance
begin

text \<open>
  What the enumeration of decisions (\<open>list_decisions\<close>, behind \<open>GET /ssh/hosts\<close>) says of the decision
  for one username, and the deadline that a certificate carries.
\<close>

section \<open>Candidate usernames\<close>

definition names_user :: "string option \<Rightarrow> string \<Rightarrow> ssh_permission \<Rightarrow> bool" where
  "names_user ux u p \<longleftrightarrow>
    (\<exists>l. username_list p = Some l \<and> (\<exists>e\<in>set l. resolve_username e ux = Some u))"

lemma covers_username_iff: "covers_username p u ux \<longleftrightarrow> username_list p = None \<or> names_user ux u p"
  by (auto simp: covers_username_def names_user_def set_map_filter split: option.splits)

lemma add_candidate_fold:
  "set (fold (add_candidate ux) l us) = set us \<union> {u. \<exists>e\<in>set l. resolve_username e ux = Some u}"
  "distinct us \<Longrightarrow> distinct (fold (add_candidate ux) l us)"
  by (induction l arbitrary: us) (auto split: option.splits)

lemma add_candidates_fold:
  "set (fst (fold (add_candidates ux) gs s)) =
    set (fst s) \<union> {u. \<exists>g\<in>set gs. names_user ux u (g_permission g)} \<and>
   snd (fold (add_candidates ux) gs s) =
    (snd s \<or> (\<exists>g\<in>set gs. username_list (g_permission g) = None)) \<and>
   (distinct (fst s) \<longrightarrow> distinct (fst (fold (add_candidates ux) gs s)))"
proof (induction gs arbitrary: s)
  case (Cons g gs)
  obtain us w where s: "s = (us, w)" by (cases s)
  show ?case
    using Cons.IH [of "add_candidates ux g s"]
    by (auto simp: s names_user_def add_candidate_fold split: option.splits)
qed simp

lemma candidate_usernames_set:
  "set (fst (candidate_usernames chk ux)) = {u. \<exists>g\<in>set (sc_granted chk). names_user ux u (g_permission g)}"
  "snd (candidate_usernames chk ux) \<longleftrightarrow> (\<exists>g\<in>set (sc_granted chk). username_list (g_permission g) = None)"
  "distinct (fst (candidate_usernames chk ux))"
  using add_candidates_fold [of ux "sc_granted chk" "([], False)"]
  by (simp_all add: candidate_usernames_def)

lemma set_list_decisions:
  "(k, d) \<in> set (list_decisions chk ux) \<longleftrightarrow>
    (case k of
       Some u \<Rightarrow> u \<in> set (fst (candidate_usernames chk ux)) \<and> d = ssh_decide chk u ux
     | None \<Rightarrow> snd (candidate_usernames chk ux) \<and> d = decide_covering chk covers_unnamed_username)"
  by (auto simp: list_decisions_def Let_def case_prod_beta split: option.splits)

lemma max_ttl_Denied: "max_ttl hits ps = Denied \<longleftrightarrow> (\<forall>p\<in>set ps. \<not> hits p)"
  using max_ttl_le_iff [of hits ps Denied] by auto

lemma decided_is_granted:
  assumes "c \<in> sd_capabilities (decide_covering chk covers) \<or>
    command_permits (sd_commands (decide_covering chk covers)) cmd \<noteq> None"
  shows "\<exists>g\<in>set (sc_granted chk). covers (g_permission g)"
  using assms
proof
  let ?d = "decide_covering chk covers"
  assume "c \<in> sd_capabilities ?d"
  then have "level (sd_capability_ttl ?d c) \<noteq> Denied" by (auto simp: sd_capabilities_def)
  then have "max_ttl (has_capability c) (covering (sc_granted chk) covers) \<noteq> Denied"
    using capability_decision_le_iff [of "level (sd_capability_ttl ?d c)" chk covers c] by auto
  then show ?thesis by (auto simp: max_ttl_Denied covering_def)
next
  let ?l = "command_level (command_permits (sd_commands (decide_covering chk covers)) cmd)"
  assume "command_permits (sd_commands (decide_covering chk covers)) cmd \<noteq> None"
  then have "?l \<noteq> Denied" by auto
  then have "max_ttl (names_command cmd) (covering (sc_granted chk) covers) \<noteq> Denied"
    using command_decision_le_iff [of ?l chk covers cmd] by auto
  then show ?thesis by (auto simp: max_ttl_Denied covering_def)
qed

lemma decide_covering_cong:
  assumes "\<And>g. g \<in> set (sc_granted chk) \<union> \<Union> (set ` set (sc_ceilings chk)) \<union> set (sc_denied chk) \<Longrightarrow>
    covers (g_permission g) = covers' (g_permission g)"
  shows "decide_covering chk covers = decide_covering chk covers'"
proof -
  have eq: "covering gs covers = covering gs covers'"
    if "set gs \<subseteq> set (sc_granted chk) \<union> \<Union> (set ` set (sc_ceilings chk)) \<union> set (sc_denied chk)" for gs
  proof -
    have "covers (g_permission g) = covers' (g_permission g)" if "g \<in> set gs" for g
      using assms subsetD [OF \<open>set gs \<subseteq> _\<close> that] by blast
    then show ?thesis by (auto simp: covering_def intro!: filter_cong)
  qed
  have c: "fold (\<lambda>g t. f t (h (covering g covers))) gs a = fold (\<lambda>g t. f t (h (covering g covers'))) gs a"
    if "set gs \<subseteq> set (sc_ceilings chk)"
    for gs and f :: "'b \<Rightarrow> 'c \<Rightarrow> 'b" and h a
    using that
  proof (induction gs arbitrary: a)
    case (Cons g gs)
    then have "covering g covers = covering g covers'" by (intro eq) auto
    then show ?case using Cons by simp
  qed simp
  have "covering (sc_granted chk) covers = covering (sc_granted chk) covers'"
    "covering (sc_denied chk) covers = covering (sc_denied chk) covers'" by (intro eq; blast)+
  then show ?thesis
    unfolding decide_covering_def decide_ceilings
    by (simp add: c decide_ceilings Let_def)
qed

section \<open>Properties\<close>

text \<open>
  The enumeration is exact about what it lists and finds every username it can: a decision listed
  for a username is the decision that signing a certificate makes, no username comes twice, and a
  username that may use some capability or command and is not listed is covered by the entry for any
  other username. When no ceiling and no denied entry names it either, that entry is its decision.
\<close>

lemma list_decisions_complete:
  assumes "c \<in> sd_capabilities (ssh_decide chk u ux) \<or>
      command_permits (sd_commands (ssh_decide chk u ux)) cmd \<noteq> None"
  shows "distinct (fst (candidate_usernames chk ux)) \<and>
    ((Some u, ssh_decide chk u ux) \<in> set (list_decisions chk ux) \<or>
     (\<exists>d. (None, d) \<in> set (list_decisions chk ux) \<and>
       ((\<forall>g \<in> \<Union> (set ` set (sc_ceilings chk)) \<union> set (sc_denied chk). \<not> names_user ux u (g_permission g))
         \<longrightarrow> d = ssh_decide chk u ux)))"
proof -
  obtain g where g: "g \<in> set (sc_granted chk)" "covers_username (g_permission g) u ux"
    using decided_is_granted [OF assms [unfolded ssh_decide_def]] by blast
  have "ssh_decide chk u ux = decide_covering chk covers_unnamed_username"
    if "u \<notin> set (fst (candidate_usernames chk ux))"
      "\<forall>g \<in> \<Union> (set ` set (sc_ceilings chk)) \<union> set (sc_denied chk). \<not> names_user ux u (g_permission g)"
    unfolding ssh_decide_def using that
    by (intro decide_covering_cong)
      (auto simp: covers_username_iff covers_unnamed_username_def candidate_usernames_set)
  then show ?thesis
    using g by (auto simp: set_list_decisions candidate_usernames_set covers_username_iff)
qed

definition listing_role :: role where
  "listing_role = sample_role [sample_ssh (Some [''root'', ''{self}'']) (Some [SHELL]) (Some 60),
    sample_ssh None (Some [PTY]) None]"

definition alice_ceiling :: boundary where
  "alice_ceiling = \<lparr>b_id = 3, b_name = ''alice only'', b_description = '''',
    b_ceiling_list = Some [sample_ssh (Some [''alice'']) None None], b_denied_list = []\<rparr>"

lemmas listing_defs = listing_role_def alice_ceiling_def ssh_sample_defs SSHChecker_def
  ssh_matching_def ssh_grants_def triplet_match_def map_filter_simps Let_def

lemma listing_grants: "capability_level [] [listing_role] (1, [], [], ''root'', None, SHELL) = Until 60"
  by (simp add: capability_level_def ssh_decide_def decide_covering_def covering_def listing_defs
      covers_username_def resolve_username_def self_entry_def capability_allowed_by_def
      capability_subtract_def allow_capability_def capabilities_of_def level_def)

lemma list_decisions_complete_witness:
  "distinct (fst (candidate_usernames (SSHChecker [] [listing_role] 1 [] []) None))"
proof -
  have "SHELL \<in> sd_capabilities (ssh_decide (SSHChecker [] [listing_role] 1 [] []) ''root'' None)"
    using listing_grants by (cases "sd_capability_ttl (ssh_decide (SSHChecker [] [listing_role] 1 [] [])
      ''root'' None) SHELL") (auto simp: capability_level_def sd_capabilities_def)
  with list_decisions_complete [of SHELL "SSHChecker [] [listing_role] 1 [] []" "''root''" None "''ls''"]
  show ?thesis by simp
qed

text \<open>
  The enumeration can miss a username that may log in: a role that grants every username under
  a boundary whose ceiling names one allows exactly that username, but only role grants provide
  candidates, so the one entry listed (any other username) allows nothing.
\<close>

lemma list_decisions_misses_ceiling_username:
  "let chk = SSHChecker [alice_ceiling] [sample_role [sample_ssh None (Some [SHELL]) None]] 1 [] []
   in SHELL \<in> sd_capabilities (ssh_decide chk ''alice'' None) \<and>
      (\<exists>d. list_decisions chk None = [(None, d)] \<and> sd_capabilities d = {})"
  by (simp add: list_decisions_def candidate_usernames_def ssh_decide_def decide_covering_def
      covering_def listing_defs covers_username_def resolve_username_def self_entry_def
      capability_allowed_by_def capability_subtract_def capability_intersect_def sd_capabilities_def
      allow_capability_def capabilities_of_def all_ssh_capabilities_def covers_unnamed_username_def
      dom_def)

lemma fold_min_le: "fold min xs (a :: int) \<le> a \<and> (\<forall>x\<in>set xs. fold min xs a \<le> x) \<and>
    (fold min xs a = a \<or> fold min xs a \<in> set xs)"
  by (induction xs arbitrary: a) (auto simp: min_def; fastforce)+

lemma set_bounded: "set (List.map_filter (\<lambda>t. t) ts) = {n. Some n \<in> set ts}"
  by (auto simp: set_map_filter)

text \<open>
  The deadline of a certificate is the tightest of the bounds of what it carries: it exists as
  soon as one capability is bounded, no bounded capability outlives its bound, and it is one of them.
\<close>

lemma deadline_tightest:
  "(deadline now ttls = None \<longleftrightarrow> (\<forall>t\<in>set ttls. t = None)) \<and>
   (\<forall>d. deadline now ttls = Some d \<longrightarrow>
      Some (d - now) \<in> set ttls \<and> (\<forall>n. Some n \<in> set ttls \<longrightarrow> d \<le> now + n))"
proof -
  define xs where "xs = List.map_filter (\<lambda>t. t) ttls"
  have xs: "set xs = {n. Some n \<in> set ttls}" by (simp add: xs_def set_bounded)
  show ?thesis
  proof (cases xs)
    case Nil
    then have "\<forall>t\<in>set ttls. t = None" using xs not_None_eq by fastforce
    then show ?thesis using Nil by (auto simp: deadline_def xs_def [symmetric] Let_def)
  next
    case (Cons y ys)
    then show ?thesis
      using xs fold_min_le [of ys y] by (auto simp: deadline_def xs_def [symmetric] Let_def)
  qed
qed

lemma deadline_tightest_witness:
  "deadline 100 [None, Some 60, Some 30] = Some 130 \<and> Some (130 - 100) \<in> set [None, Some 60, Some (30::int)]"
proof -
  have "deadline 100 [None, Some 60, Some 30] = Some 130"
    by (simp add: deadline_def map_filter_simps)
  then show ?thesis using deadline_tightest [of 100 "[None, Some 60, Some 30]"] by simp
qed

end
