(* ===== verification/Unix_Account.thy ===== *)
theory Unix_Account
  imports Prelude
begin

text \<open>
  \<open>api/unix_account.py\<close>: which unix usernames an identity may be mapped to. The regular expression
  \<open>[a-z_][a-z0-9_-]{0,31}\<close> is written out as a recogniser of the whole string; \<open>str.lower\<close> is that of
  ASCII, which is all that the names compared hold once the other side has matched the pattern.
\<close>

definition DEFAULT_PRIVILEGED_USERNAMES :: "string list" where
  "DEFAULT_PRIVILEGED_USERNAMES =
    [''root'', ''deploy'', ''app'', ''ubuntu'', ''ec2-user'', ''centos'', ''debian'', ''admin'',
     ''azureuser'', ''rocky'', ''almalinux'', ''postgres'', ''mysql'', ''www-data'', ''nginx'',
     ''jenkins'', ''git'', ''nobody'', ''daemon'', ''bin'', ''sys'']"

definition is_ascii_lower :: "char \<Rightarrow> bool" where
  "is_ascii_lower c \<longleftrightarrow> 97 \<le> (of_char c :: nat) \<and> (of_char c :: nat) \<le> 122"

definition is_ascii_digit :: "char \<Rightarrow> bool" where
  "is_ascii_digit c \<longleftrightarrow> 48 \<le> (of_char c :: nat) \<and> (of_char c :: nat) \<le> 57"

definition first_char_ok :: "char \<Rightarrow> bool" where
  "first_char_ok c \<longleftrightarrow> is_ascii_lower c \<or> c = CHR ''_''"

definition next_char_ok :: "char \<Rightarrow> bool" where
  "next_char_ok c \<longleftrightarrow> is_ascii_lower c \<or> is_ascii_digit c \<or> c = CHR ''_'' \<or> c = CHR ''-''"

definition is_valid :: "string \<Rightarrow> bool" where
  "is_valid username = (case username of
     [] \<Rightarrow> False
   | c # cs \<Rightarrow> first_char_ok c \<and> length cs \<le> 31 \<and> list_all next_char_ok cs)"

definition lower_char :: "char \<Rightarrow> char" where
  "lower_char c =
    (if 65 \<le> (of_char c :: nat) \<and> (of_char c :: nat) \<le> 90 then char_of ((of_char c :: nat) + 32) else c)"

definition lower :: "string \<Rightarrow> string" where
  "lower s = map lower_char s"

definition is_privileged :: "string \<Rightarrow> string list \<Rightarrow> bool" where
  "is_privileged username privileged_usernames =
    (lower username \<in> set (map lower privileged_usernames))"

lemma lower_char_next: "next_char_ok c \<Longrightarrow> lower_char c = c"
  by (auto simp: next_char_ok_def is_ascii_lower_def is_ascii_digit_def lower_char_def)

lemma lower_valid: "is_valid u \<Longrightarrow> lower u = u"
  by (cases u) (auto simp: is_valid_def lower_def list_all_iff first_char_ok_def next_char_ok_def
      intro!: lower_char_next map_idI)

end
