(* ===== verification/Tables.thy ===== *)
theory Tables
  imports Responses
begin

text \<open>
  \<open>api/orm.py\<close>: a table is the list of its rows in the order of insertion, with the counter of the
  autoincrement primary key; a statement of the \<open>Table\<close> class is an operation on it. A table
  definition carries its unique constraints, each named by its columns. A \<open>where\<close> clause is a predicate on rows.

  \<open>orm.py\<close> only issues the statements; what they do is what SQL says of INSERT, UPDATE, DELETE and SELECT, and
  the constraints and keys are those that \<open>app_db.py\<close> declares to the database: an insert or update that violates
  a constraint raises \<open>IntegrityError\<close> and changes nothing, and a new row gets an id that no row ever had. So
  these operations are the assumed semantics of the database, not findings about the code. The interface
  \<open>id_store\<close> says what the rest relies on for object ids.
\<close>

section \<open>Tables and their definitions\<close>

record 'r table =
  tb_rows :: "'r list"
  tb_seq :: int

definition empty_table :: "'r table" where
  "empty_table = \<lparr>tb_rows = [], tb_seq = 0\<rparr>"

record ('d, 'r) table_def =
  td_name :: string
  td_get :: "'d \<Rightarrow> 'r table"
  td_upd :: "('r table \<Rightarrow> 'r table) \<Rightarrow> 'd \<Rightarrow> 'd"
  td_unique :: "(string \<times> ('r \<Rightarrow> 'r \<Rightarrow> bool)) list"

text \<open>The first constraint that a row violates against others.\<close>

definition violated :: "(string \<times> ('r \<Rightarrow> 'r \<Rightarrow> bool)) list \<Rightarrow> 'r \<Rightarrow> 'r list \<Rightarrow> string option" where
  "violated unique r others =
    map_option fst (List.find (\<lambda>u. list_ex (snd u r) others) unique)"

lemma violated_None:
  "violated u r rs = None \<longleftrightarrow> (\<forall>c\<in>set u. \<forall>r'\<in>set rs. \<not> snd c r r')"
  unfolding violated_def option.map_disc_iff find_None_iff list_ex_iff by blast

section \<open>Statements\<close>

text \<open>
  An insert gives the row the next value of the counter. A table whose primary key is not the counter
  ignores it; the counter then counts inserts and nobody reads it.
\<close>

definition insert_row :: "(int \<Rightarrow> 'r) \<Rightarrow> 'r table \<Rightarrow> int \<times> 'r table" where
  "insert_row mk t =
    (let n = tb_seq t + 1 in (n, t\<lparr>tb_rows := tb_rows t @ [mk n], tb_seq := n\<rparr>))"

definition delete_rows :: "('r \<Rightarrow> bool) \<Rightarrow> 'r table \<Rightarrow> 'r table" where
  "delete_rows p t = t\<lparr>tb_rows := filter (\<lambda>r. \<not> p r) (tb_rows t)\<rparr>"

definition update_rows :: "('r \<Rightarrow> bool) \<Rightarrow> ('r \<Rightarrow> 'r) \<Rightarrow> 'r table \<Rightarrow> 'r table" where
  "update_rows p f t = t\<lparr>tb_rows := map (\<lambda>r. if p r then f r else r) (tb_rows t)\<rparr>"

definition table_create :: "('d, 'r) table_def \<Rightarrow> (int \<Rightarrow> 'r) \<Rightarrow> ('d, exn, int) act" where
  "table_create td mk = (\<lambda>d.
    let (n, t) = insert_row mk (td_get td d)
    in case violated (td_unique td) (mk n) (tb_rows (td_get td d)) of
         Some c \<Rightarrow> (Inl (IntegrityError (td_name td) c), d)
       | None \<Rightarrow> (Inr n, td_upd td (\<lambda>_. t) d))"

definition table_create_if_absent :: "('d, 'r) table_def \<Rightarrow> (int \<Rightarrow> 'r) \<Rightarrow> ('d, exn, bool) act" where
  "table_create_if_absent td mk = (\<lambda>d. case table_create td mk d of
     (Inl _, _) \<Rightarrow> (Inr False, d) | (Inr _, d') \<Rightarrow> (Inr True, d'))"

definition table_read_all :: "('d, 'r) table_def \<Rightarrow> ('r \<Rightarrow> bool) \<Rightarrow> 'd \<Rightarrow> 'r list" where
  "table_read_all td p d = filter p (tb_rows (td_get td d))"

definition table_read_one :: "('d, 'r) table_def \<Rightarrow> ('r \<Rightarrow> bool) \<Rightarrow> 'd \<Rightarrow> 'r option" where
  "table_read_one td p d = List.find p (tb_rows (td_get td d))"

fun clashes :: "(string \<times> ('r \<Rightarrow> 'r \<Rightarrow> bool)) list \<Rightarrow> 'r list \<Rightarrow> string option" where
  "clashes unique [] = None"
| "clashes unique (r # rs) =
    (case violated unique r rs of Some c \<Rightarrow> Some c | None \<Rightarrow> clashes unique rs)"

definition table_update :: "('d, 'r) table_def \<Rightarrow> ('r \<Rightarrow> 'r) \<Rightarrow> ('r \<Rightarrow> bool) \<Rightarrow> ('d, exn, int) act" where
  "table_update td f p = (\<lambda>d.
    let t = td_get td d; t' = update_rows p f t
    in if \<not> list_ex p (tb_rows t) then (Inr 0, d)
       else case clashes (td_unique td) (tb_rows t') of
         Some c \<Rightarrow> (Inl (IntegrityError (td_name td) c), d)
       | None \<Rightarrow> (Inr (int (length (filter p (tb_rows t)))), td_upd td (\<lambda>_. t') d))"

definition table_delete :: "('d, 'r) table_def \<Rightarrow> ('r \<Rightarrow> bool) \<Rightarrow> ('d, exn, int) act" where
  "table_delete td p = (\<lambda>d.
    (Inr (int (length (filter p (tb_rows (td_get td d))))), td_upd td (delete_rows p) d))"

section \<open>Object ids\<close>

locale id_store =
  fixes ids :: "'t \<Rightarrow> int set"
    and high :: "'t \<Rightarrow> int"
    and add :: "'a \<Rightarrow> 't \<Rightarrow> int \<times> 't"
    and change :: "'p \<Rightarrow> 't \<Rightarrow> 't"
    and names_itself :: "'a \<Rightarrow> bool"
    and leaves_ids :: "'p \<Rightarrow> bool"
  assumes add_id: "names_itself a \<Longrightarrow> add a t = (n, t') \<Longrightarrow>
      n > high t \<and> ids t' = insert n (ids t) \<and> high t' \<ge> n"
    and change_ids: "leaves_ids p \<Longrightarrow> ids (change p t) \<subseteq> ids t"
    and change_high: "high (change p t) = high t"
begin

definition within :: "'t \<Rightarrow> bool" where
  "within t \<longleftrightarrow> (\<forall>i\<in>ids t. i \<le> high t)"

text \<open>A history is a list of inserts (\<open>Inl\<close>) and of other statements (\<open>Inr\<close>).\<close>

lemma play_within:
  assumes "\<forall>op\<in>set ops. case op of Inl a \<Rightarrow> names_itself a | Inr p \<Rightarrow> leaves_ids p" and "within t"
  defines "play \<equiv> fold (\<lambda>op t. case op of Inl a \<Rightarrow> snd (add a t) | Inr p \<Rightarrow> change p t)"
  shows "within (play ops t) \<and> high t \<le> high (play ops t)"
  using assms(1,2) unfolding play_def
proof (induction ops arbitrary: t)
  case (Cons op ops)
  show ?case
  proof (cases op)
    case (Inl a)
    then have "within (snd (add a t)) \<and> high t \<le> high (snd (add a t))"
      using Cons.prems add_id [of a t "fst (add a t)" "snd (add a t)"] by (auto simp: within_def)
    then show ?thesis using Cons Inl by force
  next
    case (Inr p)
    then have "within (change p t)"
      using Cons.prems change_ids [of p t] by (auto simp: within_def change_high)
    then show ?thesis using Cons Inr by (force simp: change_high)
  qed
qed simp

lemma never_reused:
  assumes "\<forall>op\<in>set ops. case op of Inl a \<Rightarrow> names_itself a | Inr p \<Rightarrow> leaves_ids p"
    and "within t" and "i \<in> ids t" and "names_itself a"
  shows "fst (add a (fold (\<lambda>op t. case op of Inl a \<Rightarrow> snd (add a t) | Inr p \<Rightarrow> change p t) ops t)) \<noteq> i"
proof -
  let ?t = "fold (\<lambda>op t. case op of Inl a \<Rightarrow> snd (add a t) | Inr p \<Rightarrow> change p t) ops t"
  have "i \<le> high ?t" using assms play_within [OF assms(1,2)] by (force simp: within_def)
  then show ?thesis
    using add_id [OF assms(4), of ?t "fst (add a ?t)" "snd (add a ?t)"] by simp
qed

end

definition table_ids :: "('r \<Rightarrow> int) \<Rightarrow> 'r table \<Rightarrow> int set" where
  "table_ids key t = key ` set (tb_rows t)"

text \<open>A statement other than an insert: a delete with its clause, or an update with its clause.\<close>

datatype 'r statement = DeleteWhere "'r \<Rightarrow> bool" | UpdateWhere "'r \<Rightarrow> bool" "'r \<Rightarrow> 'r"

primrec run_statement :: "'r statement \<Rightarrow> 'r table \<Rightarrow> 'r table" where
  "run_statement (DeleteWhere p) t = delete_rows p t"
| "run_statement (UpdateWhere p f) t = update_rows p f t"

primrec leaves_key :: "('r \<Rightarrow> int) \<Rightarrow> 'r statement \<Rightarrow> bool" where
  "leaves_key key (DeleteWhere p) \<longleftrightarrow> True"
| "leaves_key key (UpdateWhere p f) \<longleftrightarrow> (\<forall>r. key (f r) = key r)"

definition own_key :: "('r \<Rightarrow> int) \<Rightarrow> (int \<Rightarrow> 'r) \<Rightarrow> bool" where
  "own_key key mk \<longleftrightarrow> (\<forall>n. key (mk n) = n)"

interpretation stored_rows: id_store "table_ids key" tb_seq insert_row run_statement
  "own_key key" "leaves_key key" for key
proof unfold_locales
  fix a :: "int \<Rightarrow> 'a" and t :: "'a table" and n t'
  assume "own_key key a" "insert_row a t = (n, t')"
  then show "n > tb_seq t \<and> table_ids key t' = insert n (table_ids key t) \<and> tb_seq t' \<ge> n"
    by (auto simp: insert_row_def Let_def table_ids_def own_key_def)
next
  fix p :: "'a statement" and t :: "'a table"
  show "leaves_key key p \<Longrightarrow> table_ids key (run_statement p t) \<subseteq> table_ids key t"
    by (cases p) (auto simp: delete_rows_def update_rows_def table_ids_def image_iff)
  show "tb_seq (run_statement p t) = tb_seq t"
    by (cases p) (simp_all add: delete_rows_def update_rows_def)
qed

definition run_history :: "((int \<Rightarrow> 'r) + 'r statement) list \<Rightarrow> 'r table \<Rightarrow> 'r table" where
  "run_history ops t =
    fold (\<lambda>op t. case op of Inl mk \<Rightarrow> snd (insert_row mk t) | Inr p \<Rightarrow> run_statement p t) ops t"

text \<open>
  Object ids are never reused. Take a table whose ids are within its counter, as an empty one is,
  and any history of inserts, deletes and updates that leave the primary key alone: an id that the
  table once held is never given to a new row, so a grant that still names a deleted object can never
  start to match another one.
\<close>

lemma ids_never_reused:
  assumes "\<forall>op\<in>set ops. case op of Inl mk \<Rightarrow> own_key key mk | Inr p \<Rightarrow> leaves_key key p"
    and "\<forall>i\<in>table_ids key t. i \<le> tb_seq t" and "i \<in> table_ids key t" and "own_key key mk"
  shows "fst (insert_row mk (run_history ops t)) \<noteq> i"
  unfolding run_history_def
  using stored_rows.never_reused [of ops key t i mk] assms by (simp add: stored_rows.within_def)

theorem ids_never_reused_witness:
  "fst (insert_row (\<lambda>n. (n, ''c'')) (run_history [Inr (DeleteWhere (\<lambda>r. fst r = 2))]
      \<lparr>tb_rows = [(1, ''a''), (2, ''b'')], tb_seq = 2\<rparr>)) \<noteq> 2"
  by (rule ids_never_reused [where key = fst]) (simp_all add: table_ids_def own_key_def)

end
