(* ===== verification/App_Db.thy ===== *)
theory App_Db
  imports Tables Grant_Checker
begin

text \<open>
  \<open>api/app_db.py\<close>: the rows of the tenant database, one record per row class, and one table
  definition per table with its unique constraints. A JSON column that holds grants holds grants here;
  the \<open>details\<close> of an audit entry are a dictionary of values of the kinds that the code stores. Key
  material is an uninterpreted string.
\<close>

section \<open>Stored values\<close>

datatype audit_log_level = INFO | WARNING

datatype signing_key_type = HOST | USER

definition signing_key_type_value :: "signing_key_type \<Rightarrow> int" where
  "signing_key_type_value k = (case k of HOST \<Rightarrow> 1 | USER \<Rightarrow> 2)"

type_synonym jwk = string

text \<open>
  The values in the details of an audit entry. \<open>DObject\<close> is a nested dictionary, as \<open>refs\<close>, a label
  in it, or the cause; \<open>DJson\<close> is a value that is stored and never looked into.
\<close>

datatype detail =
    DNull
  | DBool bool
  | DInt int
  | DStr string
  | DInts "int list"
  | DStrs "string list"
  | DGrants "grant list"
  | DList "detail list"
  | DObject "(string \<times> detail) list"
  | DJson string

type_synonym details = "(string \<times> detail) list"

section \<open>Rows\<close>

record auth_row =
  aut_id :: "int"
  aut_name :: "string"
  aut_client_type :: "string"
  aut_description :: "string"
  aut_created_at :: "int"
  aut_is_enabled :: "bool"
  aut_type :: "string"
  aut_config :: "string"

record denylist_row =
  dl_id :: "string"
  dl_key_id :: "string"
  dl_created_at :: "int"

record account_key_row =
  ak_id :: "string"
  ak_public_key :: "jwk"
  ak_identity_id :: "int"
  ak_created_at :: "int"
  ak_is_revoked :: "bool"
  ak_revoked_at :: "int option"

record session_key_row =
  sk_id :: "string"
  sk_public_key :: "jwk"
  sk_identity_id :: "int"
  sk_created_at :: "int"
  sk_is_revoked :: "bool"
  sk_revoked_at :: "int option"
  sk_expires_at :: "int"
  sk_login_ip :: "string option"
  sk_role_id :: "int option"
  sk_logged_out_at :: "int option"

record invitation_key_row =
  iv_id :: "string"
  iv_key :: "string"
  iv_identity_id :: "int"
  iv_created_at :: "int"
  iv_revoked_at :: "int option"
  iv_accepted_at :: "int option"
  iv_expires_at :: "int"
  iv_is_revoked :: "bool"
  iv_is_accepted :: "bool"
  iv_accepted_public_key_id :: "string option"

record tag_row =
  tg_id :: "int"
  tg_name :: "string"
  tg_value :: "string"

record identity_row =
  id_id :: "int"
  id_created_by_id :: "int option"
  id_created_at :: "int"
  id_name :: "string"
  id_unix_username :: "string option"

record identity_boundary_row =
  ib_id :: "int"
  ib_identity_id :: "int"
  ib_boundary_id :: "int"

record identity_tag_row =
  it_id :: "int"
  it_identity_id :: "int"
  it_tag_id :: "int"

record role_row =
  ro_id :: "int"
  ro_name :: "string"
  ro_description :: "string"
  ro_grant_list :: "grant list"

record role_member_row =
  rm_id :: "int"
  rm_role_id :: "int"
  rm_identity_id :: "int"

record boundary_row =
  bo_id :: "int"
  bo_name :: "string"
  bo_description :: "string"
  bo_ceiling_list :: "grant list option"
  bo_denied_list :: "grant list"

record signing_key_row =
  sg_id :: "int"
  sg_type :: "int"
  sg_key :: "string"
  sg_serial_number :: "int"
  sg_valid_after :: "int"
  sg_valid_before :: "int"

record bastion_row =
  ba_id :: "int"
  ba_url :: "string"
  ba_ssh_proxy_jump :: "string option"
  ba_tag_id_list :: "int list option"
  ba_created_at :: "int"
  ba_created_by_id :: "int option"

record audit_log_row =
  al_id :: "int"
  al_at :: "int"
  al_level :: "audit_log_level"
  al_type :: "string"
  al_by_identity_id :: "int option"
  al_details :: "details"
  al_object_type :: "string"
  al_action :: "string"
  al_by_identity_name :: "string option"
  al_by_tenant_id :: "int option"
  al_by_tenant_name :: "string option"

record audit_log_ref_row =
  rf_id :: "int"
  rf_entry_id :: "int"
  rf_object_type :: "string"
  rf_object_id :: "string"
  rf_object_name :: "string option"

record audit_log_object_name_row =
  on_id :: "int"
  on_object_type :: "string"
  on_object_id :: "string"
  on_object_name :: "string"
  on_first_entry_id :: "int"

record audit_log_counter_row =
  ct_id :: "int"
  ct_value :: "int"

record oidc_key_row =
  ok_id :: int
  ok_private_key :: string
  ok_public_key :: jwk
  ok_valid_after :: int
  ok_valid_before :: int
  ok_created_at :: int

record oidc_nonce_row =
  oi_nonce :: string
  oi_expires_at :: int

record ssh_connection_row =
  sn_connection_id :: "string"
  sn_identity_id :: "int"
  sn_hostname :: "string"
  sn_deadline :: "int option"
  sn_valid_before :: "int"

record live_session_row =
  ls_id :: "string"
  ls_connection_id :: "string"
  ls_identity_id :: "int"
  ls_hostname :: "string"
  ls_kind :: "string"
  ls_session_id :: "string"
  ls_started_at :: "int"
  ls_ended_at :: "int option"
  ls_deadline :: "int option"

section \<open>The database\<close>

record app_db =
  db_auth :: "auth_row table"
  db_public_key_denylist :: "denylist_row table"
  db_identity_account_key :: "account_key_row table"
  db_identity_session_key :: "session_key_row table"
  db_identity_invitation_key :: "invitation_key_row table"
  db_tag :: "tag_row table"
  db_identity :: "identity_row table"
  db_identity_boundary :: "identity_boundary_row table"
  db_identity_tag :: "identity_tag_row table"
  db_role :: "role_row table"
  db_role_member :: "role_member_row table"
  db_boundary :: "boundary_row table"
  db_signing_key :: "signing_key_row table"
  db_bastion :: "bastion_row table"
  db_audit_log :: "audit_log_row table"
  db_audit_log_ref :: "audit_log_ref_row table"
  db_audit_log_object_name :: "audit_log_object_name_row table"
  db_audit_log_counter :: "audit_log_counter_row table"
  db_oidc_key :: "oidc_key_row table"
  db_oidc_nonce :: "oidc_nonce_row table"
  db_ssh_connection :: "ssh_connection_row table"
  db_live_session :: "live_session_row table"

section \<open>Table definitions\<close>

definition auth_table :: "(app_db, auth_row) table_def" where
  "auth_table = \<lparr>td_name = ''auth'', td_get = db_auth, td_upd = db_auth_update,
    td_unique = [(''name'', \<lambda>a b. aut_name a = aut_name b \<and> aut_client_type a = aut_client_type b)]\<rparr>"

definition public_key_denylist_table :: "(app_db, denylist_row) table_def" where
  "public_key_denylist_table = \<lparr>td_name = ''public_key_denylist'', td_get = db_public_key_denylist, td_upd = db_public_key_denylist_update,
    td_unique = [(''id'', \<lambda>a b. dl_id a = dl_id b)]\<rparr>"

definition identity_account_key_table :: "(app_db, account_key_row) table_def" where
  "identity_account_key_table = \<lparr>td_name = ''identity_account_key'', td_get = db_identity_account_key, td_upd = db_identity_account_key_update,
    td_unique = [(''id'', \<lambda>a b. ak_id a = ak_id b)]\<rparr>"

definition identity_session_key_table :: "(app_db, session_key_row) table_def" where
  "identity_session_key_table = \<lparr>td_name = ''identity_session_key'', td_get = db_identity_session_key, td_upd = db_identity_session_key_update,
    td_unique = [(''id'', \<lambda>a b. sk_id a = sk_id b)]\<rparr>"

definition identity_invitation_key_table :: "(app_db, invitation_key_row) table_def" where
  "identity_invitation_key_table = \<lparr>td_name = ''identity_invitation_key'', td_get = db_identity_invitation_key, td_upd = db_identity_invitation_key_update,
    td_unique = [(''id'', \<lambda>a b. iv_id a = iv_id b)]\<rparr>"

definition tag_table :: "(app_db, tag_row) table_def" where
  "tag_table = \<lparr>td_name = ''tag'', td_get = db_tag, td_upd = db_tag_update,
    td_unique = [(''name'', \<lambda>a b. tg_name a = tg_name b \<and> tg_value a = tg_value b)]\<rparr>"

definition identity_table :: "(app_db, identity_row) table_def" where
  "identity_table = \<lparr>td_name = ''identity'', td_get = db_identity, td_upd = db_identity_update,
    td_unique = [(''unix_username'', \<lambda>a b. id_unix_username a \<noteq> None \<and> id_unix_username a = id_unix_username b),
     (''name'', \<lambda>a b. id_name a = id_name b)]\<rparr>"

definition identity_boundary_table :: "(app_db, identity_boundary_row) table_def" where
  "identity_boundary_table = \<lparr>td_name = ''identity_boundary'', td_get = db_identity_boundary, td_upd = db_identity_boundary_update,
    td_unique = [(''identity_id'', \<lambda>a b. ib_identity_id a = ib_identity_id b \<and> ib_boundary_id a = ib_boundary_id b)]\<rparr>"

definition identity_tag_table :: "(app_db, identity_tag_row) table_def" where
  "identity_tag_table = \<lparr>td_name = ''identity_tag'', td_get = db_identity_tag, td_upd = db_identity_tag_update,
    td_unique = [(''identity_id'', \<lambda>a b. it_identity_id a = it_identity_id b \<and> it_tag_id a = it_tag_id b)]\<rparr>"

definition role_table :: "(app_db, role_row) table_def" where
  "role_table = \<lparr>td_name = ''role'', td_get = db_role, td_upd = db_role_update,
    td_unique = [(''name'', \<lambda>a b. ro_name a = ro_name b)]\<rparr>"

definition role_member_table :: "(app_db, role_member_row) table_def" where
  "role_member_table = \<lparr>td_name = ''role_member'', td_get = db_role_member, td_upd = db_role_member_update,
    td_unique = [(''role_id'', \<lambda>a b. rm_role_id a = rm_role_id b \<and> rm_identity_id a = rm_identity_id b)]\<rparr>"

definition boundary_table :: "(app_db, boundary_row) table_def" where
  "boundary_table = \<lparr>td_name = ''boundary'', td_get = db_boundary, td_upd = db_boundary_update,
    td_unique = [(''name'', \<lambda>a b. bo_name a = bo_name b)]\<rparr>"

definition signing_key_table :: "(app_db, signing_key_row) table_def" where
  "signing_key_table = \<lparr>td_name = ''signing_key'', td_get = db_signing_key, td_upd = db_signing_key_update,
    td_unique = []\<rparr>"

definition bastion_table :: "(app_db, bastion_row) table_def" where
  "bastion_table = \<lparr>td_name = ''bastion'', td_get = db_bastion, td_upd = db_bastion_update,
    td_unique = []\<rparr>"

definition audit_log_table :: "(app_db, audit_log_row) table_def" where
  "audit_log_table = \<lparr>td_name = ''audit_log'', td_get = db_audit_log, td_upd = db_audit_log_update,
    td_unique = [(''id'', \<lambda>a b. al_id a = al_id b)]\<rparr>"

definition audit_log_ref_table :: "(app_db, audit_log_ref_row) table_def" where
  "audit_log_ref_table = \<lparr>td_name = ''audit_log_ref'', td_get = db_audit_log_ref, td_upd = db_audit_log_ref_update,
    td_unique = []\<rparr>"

definition audit_log_object_name_table :: "(app_db, audit_log_object_name_row) table_def" where
  "audit_log_object_name_table = \<lparr>td_name = ''audit_log_object_name'', td_get = db_audit_log_object_name, td_upd = db_audit_log_object_name_update,
    td_unique = [(''object_name'', \<lambda>a b. on_object_type a = on_object_type b \<and> on_object_id a = on_object_id b \<and> on_object_name a = on_object_name b)]\<rparr>"

definition audit_log_counter_table :: "(app_db, audit_log_counter_row) table_def" where
  "audit_log_counter_table = \<lparr>td_name = ''audit_log_counter'', td_get = db_audit_log_counter, td_upd = db_audit_log_counter_update,
    td_unique = [(''id'', \<lambda>a b. ct_id a = ct_id b)]\<rparr>"

definition oidc_key_table :: "(app_db, oidc_key_row) table_def" where
  "oidc_key_table = \<lparr>td_name = ''oidc_key'', td_get = db_oidc_key, td_upd = db_oidc_key_update,
    td_unique = []\<rparr>"

definition oidc_nonce_table :: "(app_db, oidc_nonce_row) table_def" where
  "oidc_nonce_table = \<lparr>td_name = ''oidc_nonce'', td_get = db_oidc_nonce, td_upd = db_oidc_nonce_update,
    td_unique = [(''nonce'', \<lambda>a b. oi_nonce a = oi_nonce b)]\<rparr>"

definition ssh_connection_table :: "(app_db, ssh_connection_row) table_def" where
  "ssh_connection_table = \<lparr>td_name = ''ssh_connection'', td_get = db_ssh_connection, td_upd = db_ssh_connection_update,
    td_unique = [(''connection_id'', \<lambda>a b. sn_connection_id a = sn_connection_id b)]\<rparr>"

definition live_session_table :: "(app_db, live_session_row) table_def" where
  "live_session_table = \<lparr>td_name = ''live_session'', td_get = db_live_session, td_upd = db_live_session_update,
    td_unique = [(''id'', \<lambda>a b. ls_id a = ls_id b),
     (''connection_id'', \<lambda>a b. ls_connection_id a = ls_connection_id b \<and> ls_kind a = ls_kind b \<and> ls_session_id a = ls_session_id b)]\<rparr>"

lemmas table_defs = auth_table_def public_key_denylist_table_def identity_account_key_table_def identity_session_key_table_def identity_invitation_key_table_def tag_table_def identity_table_def identity_boundary_table_def identity_tag_table_def role_table_def role_member_table_def boundary_table_def signing_key_table_def bastion_table_def audit_log_table_def audit_log_ref_table_def audit_log_object_name_table_def audit_log_counter_table_def oidc_key_table_def oidc_nonce_table_def ssh_connection_table_def live_session_table_def

text \<open>A fresh tenant database: the migrations insert the row of the audit counter.\<close>

definition empty_db :: app_db where
  "empty_db = \<lparr>db_auth = empty_table, db_public_key_denylist = empty_table,
    db_identity_account_key = empty_table, db_identity_session_key = empty_table,
    db_identity_invitation_key = empty_table, db_tag = empty_table, db_identity = empty_table,
    db_identity_boundary = empty_table, db_identity_tag = empty_table, db_role = empty_table,
    db_role_member = empty_table, db_boundary = empty_table, db_signing_key = empty_table,
    db_bastion = empty_table, db_audit_log = empty_table, db_audit_log_ref = empty_table,
    db_audit_log_object_name = empty_table,
    db_audit_log_counter = \<lparr>tb_rows = [\<lparr>ct_id = 1, ct_value = 0\<rparr>], tb_seq = 0\<rparr>,
    db_oidc_key = empty_table, db_oidc_nonce = empty_table, db_ssh_connection = empty_table, db_live_session = empty_table\<rparr>"

end
