(* ===== verification/Audit_Types.thy ===== *)
theory Audit_Types
  imports App_Db
begin

text \<open>
  \<open>api/model/audit_types.py\<close>: every kind of entry that the audit log can hold, and the retention class
  that the joined type gives it. The two string enumerations are datatypes with their values.
\<close>

datatype object_type =
    OT_ACCOUNT_KEY
  | OT_AUTH
  | OT_BASTION
  | OT_BOUNDARY
  | OT_CERTIFICATE
  | OT_IDENTITY
  | OT_IDENTITY_INVITATION
  | OT_LIVE_SESSION
  | OT_PUBLIC_KEY
  | OT_ROLE
  | OT_SESSION
  | OT_SIGNING_KEY
  | OT_TAG
  | OT_TENANT
  | OT_UNKNOWN

fun object_type_value :: "object_type \<Rightarrow> string" where
  "object_type_value OT_ACCOUNT_KEY = ''account-key''"
| "object_type_value OT_AUTH = ''auth''"
| "object_type_value OT_BASTION = ''bastion''"
| "object_type_value OT_BOUNDARY = ''boundary''"
| "object_type_value OT_CERTIFICATE = ''certificate''"
| "object_type_value OT_IDENTITY = ''identity''"
| "object_type_value OT_IDENTITY_INVITATION = ''identity-invitation''"
| "object_type_value OT_LIVE_SESSION = ''live-session''"
| "object_type_value OT_PUBLIC_KEY = ''public-key''"
| "object_type_value OT_ROLE = ''role''"
| "object_type_value OT_SESSION = ''session''"
| "object_type_value OT_SIGNING_KEY = ''signing-key''"
| "object_type_value OT_TAG = ''tag''"
| "object_type_value OT_TENANT = ''tenant''"
| "object_type_value OT_UNKNOWN = ''unknown''"

datatype action =
    AC_ACCEPTED
  | AC_ADD_MEMBERS
  | AC_ADD_TAGS
  | AC_CREATE
  | AC_CREATE_HOST
  | AC_CREATE_USER
  | AC_DELETE
  | AC_DELETE_REFUSED
  | AC_DENYLISTED
  | AC_LOGIN
  | AC_LOGOUT
  | AC_REJECTED
  | AC_REMOVE_MEMBERS
  | AC_PURGE_EXPIRED
  | AC_REMOVE_TAGS
  | AC_SET
  | AC_SET_ROLE
  | AC_TERMINATE
  | AC_UPDATE
  | AC_UPDATE_CEILING_LIST
  | AC_UPDATE_DENIED_LIST
  | AC_UPDATE_DESCRIPTION
  | AC_UPDATE_GRANT_LIST
  | AC_UPDATE_NAME
  | AC_UPDATE_SERIAL
  | AC_UPDATE_UNIX_USERNAME
  | AC_DELETE_CASCADE
  | AC_UPDATE_UNIX_GID
  | AC_UPDATE_UNIX_UID
  | AC_UNKNOWN

fun action_value :: "action \<Rightarrow> string" where
  "action_value AC_ACCEPTED = ''accepted''"
| "action_value AC_ADD_MEMBERS = ''add-members''"
| "action_value AC_ADD_TAGS = ''add-tags''"
| "action_value AC_CREATE = ''create''"
| "action_value AC_CREATE_HOST = ''create-host''"
| "action_value AC_CREATE_USER = ''create-user''"
| "action_value AC_DELETE = ''delete''"
| "action_value AC_DELETE_REFUSED = ''delete-refused''"
| "action_value AC_DENYLISTED = ''denylisted''"
| "action_value AC_LOGIN = ''login''"
| "action_value AC_LOGOUT = ''logout''"
| "action_value AC_REJECTED = ''rejected''"
| "action_value AC_REMOVE_MEMBERS = ''remove-members''"
| "action_value AC_PURGE_EXPIRED = ''purge-expired''"
| "action_value AC_REMOVE_TAGS = ''remove-tags''"
| "action_value AC_SET = ''set''"
| "action_value AC_SET_ROLE = ''set-role''"
| "action_value AC_TERMINATE = ''terminate''"
| "action_value AC_UPDATE = ''update''"
| "action_value AC_UPDATE_CEILING_LIST = ''update-ceiling-list''"
| "action_value AC_UPDATE_DENIED_LIST = ''update-denied-list''"
| "action_value AC_UPDATE_DESCRIPTION = ''update-description''"
| "action_value AC_UPDATE_GRANT_LIST = ''update-grant-list''"
| "action_value AC_UPDATE_NAME = ''update-name''"
| "action_value AC_UPDATE_SERIAL = ''update-serial''"
| "action_value AC_UPDATE_UNIX_USERNAME = ''update-unix-username''"
| "action_value AC_DELETE_CASCADE = ''delete-cascade''"
| "action_value AC_UPDATE_UNIX_GID = ''update-unix-gid''"
| "action_value AC_UPDATE_UNIX_UID = ''update-unix-uid''"
| "action_value AC_UNKNOWN = ''unknown''"

record audit_type =
  at_object_type :: object_type
  at_action :: action
  at_level :: audit_log_level
  at_target_key :: "string option"
  at_names_object :: bool

definition audit_type_string :: "audit_type \<Rightarrow> string" where
  "audit_type_string t = object_type_value (at_object_type t) @ ''-'' @ action_value (at_action t)"

text \<open>The constructor with its defaults.\<close>

definition AuditType :: "object_type \<Rightarrow> action \<Rightarrow> audit_type" where
  "AuditType ot ac = \<lparr>at_object_type = ot, at_action = ac, at_level = INFO,
    at_target_key = Some ''id'', at_names_object = False\<rparr>"

definition IDENTITY_CREATE :: audit_type where
  "IDENTITY_CREATE = (AuditType OT_IDENTITY AC_CREATE)\<lparr>at_names_object := True\<rparr>"

definition IDENTITY_DELETE :: audit_type where
  "IDENTITY_DELETE = AuditType OT_IDENTITY AC_DELETE"

definition IDENTITY_UPDATE_NAME :: audit_type where
  "IDENTITY_UPDATE_NAME = (AuditType OT_IDENTITY AC_UPDATE_NAME)\<lparr>at_names_object := True\<rparr>"

definition IDENTITY_UPDATE_UNIX_USERNAME :: audit_type where
  "IDENTITY_UPDATE_UNIX_USERNAME = AuditType OT_IDENTITY AC_UPDATE_UNIX_USERNAME"

definition IDENTITY_ADD_TAGS :: audit_type where
  "IDENTITY_ADD_TAGS = AuditType OT_IDENTITY AC_ADD_TAGS"

definition IDENTITY_REMOVE_TAGS :: audit_type where
  "IDENTITY_REMOVE_TAGS = AuditType OT_IDENTITY AC_REMOVE_TAGS"

definition IDENTITY_DELETE_REFUSED :: audit_type where
  "IDENTITY_DELETE_REFUSED = (AuditType OT_IDENTITY AC_DELETE_REFUSED)\<lparr>at_level := WARNING, at_target_key := Some ''identity_id''\<rparr>"

definition IDENTITY_INVITATION_CREATE :: audit_type where
  "IDENTITY_INVITATION_CREATE = AuditType OT_IDENTITY_INVITATION AC_CREATE"

definition IDENTITY_INVITATION_ACCEPTED :: audit_type where
  "IDENTITY_INVITATION_ACCEPTED = AuditType OT_IDENTITY_INVITATION AC_ACCEPTED"

definition IDENTITY_INVITATION_REJECTED :: audit_type where
  "IDENTITY_INVITATION_REJECTED = (AuditType OT_IDENTITY_INVITATION AC_REJECTED)\<lparr>at_level := WARNING\<rparr>"

definition ROLE_CREATE :: audit_type where
  "ROLE_CREATE = (AuditType OT_ROLE AC_CREATE)\<lparr>at_names_object := True\<rparr>"

definition ROLE_DELETE :: audit_type where
  "ROLE_DELETE = AuditType OT_ROLE AC_DELETE"

definition ROLE_UPDATE_NAME :: audit_type where
  "ROLE_UPDATE_NAME = (AuditType OT_ROLE AC_UPDATE_NAME)\<lparr>at_names_object := True\<rparr>"

definition ROLE_UPDATE_DESCRIPTION :: audit_type where
  "ROLE_UPDATE_DESCRIPTION = AuditType OT_ROLE AC_UPDATE_DESCRIPTION"

definition ROLE_UPDATE_GRANT_LIST :: audit_type where
  "ROLE_UPDATE_GRANT_LIST = AuditType OT_ROLE AC_UPDATE_GRANT_LIST"

definition ROLE_ADD_MEMBERS :: audit_type where
  "ROLE_ADD_MEMBERS = AuditType OT_ROLE AC_ADD_MEMBERS"

definition ROLE_REMOVE_MEMBERS :: audit_type where
  "ROLE_REMOVE_MEMBERS = AuditType OT_ROLE AC_REMOVE_MEMBERS"

definition BOUNDARY_CREATE :: audit_type where
  "BOUNDARY_CREATE = (AuditType OT_BOUNDARY AC_CREATE)\<lparr>at_names_object := True\<rparr>"

definition BOUNDARY_DELETE :: audit_type where
  "BOUNDARY_DELETE = AuditType OT_BOUNDARY AC_DELETE"

definition BOUNDARY_UPDATE_NAME :: audit_type where
  "BOUNDARY_UPDATE_NAME = (AuditType OT_BOUNDARY AC_UPDATE_NAME)\<lparr>at_names_object := True\<rparr>"

definition BOUNDARY_UPDATE_DESCRIPTION :: audit_type where
  "BOUNDARY_UPDATE_DESCRIPTION = AuditType OT_BOUNDARY AC_UPDATE_DESCRIPTION"

definition BOUNDARY_UPDATE_CEILING_LIST :: audit_type where
  "BOUNDARY_UPDATE_CEILING_LIST = AuditType OT_BOUNDARY AC_UPDATE_CEILING_LIST"

definition BOUNDARY_UPDATE_DENIED_LIST :: audit_type where
  "BOUNDARY_UPDATE_DENIED_LIST = AuditType OT_BOUNDARY AC_UPDATE_DENIED_LIST"

definition TAG_CREATE :: audit_type where
  "TAG_CREATE = (AuditType OT_TAG AC_CREATE)\<lparr>at_names_object := True\<rparr>"

definition TAG_DELETE :: audit_type where
  "TAG_DELETE = AuditType OT_TAG AC_DELETE"

definition BASTION_CREATE :: audit_type where
  "BASTION_CREATE = (AuditType OT_BASTION AC_CREATE)\<lparr>at_names_object := True\<rparr>"

definition BASTION_UPDATE :: audit_type where
  "BASTION_UPDATE = (AuditType OT_BASTION AC_UPDATE)\<lparr>at_names_object := True\<rparr>"

definition BASTION_DELETE :: audit_type where
  "BASTION_DELETE = AuditType OT_BASTION AC_DELETE"

definition AUTH_CREATE :: audit_type where
  "AUTH_CREATE = (AuditType OT_AUTH AC_CREATE)\<lparr>at_names_object := True\<rparr>"

definition AUTH_UPDATE :: audit_type where
  "AUTH_UPDATE = (AuditType OT_AUTH AC_UPDATE)\<lparr>at_names_object := True\<rparr>"

definition AUTH_DELETE :: audit_type where
  "AUTH_DELETE = AuditType OT_AUTH AC_DELETE"

definition SESSION_LOGIN :: audit_type where
  "SESSION_LOGIN = (AuditType OT_SESSION AC_LOGIN)\<lparr>at_target_key := Some ''session_key_id''\<rparr>"

definition SESSION_LOGOUT :: audit_type where
  "SESSION_LOGOUT = (AuditType OT_SESSION AC_LOGOUT)\<lparr>at_target_key := Some ''session_key_id''\<rparr>"

definition SESSION_SET_ROLE :: audit_type where
  "SESSION_SET_ROLE = (AuditType OT_SESSION AC_SET_ROLE)\<lparr>at_target_key := Some ''session_key_id''\<rparr>"

definition SESSION_REJECTED :: audit_type where
  "SESSION_REJECTED = (AuditType OT_SESSION AC_REJECTED)\<lparr>at_level := WARNING, at_target_key := Some ''session_key_id''\<rparr>"

definition ACCOUNT_KEY_REJECTED :: audit_type where
  "ACCOUNT_KEY_REJECTED = (AuditType OT_ACCOUNT_KEY AC_REJECTED)\<lparr>at_level := WARNING, at_target_key := Some ''account_key_id''\<rparr>"

definition LIVE_SESSION_TERMINATE :: audit_type where
  "LIVE_SESSION_TERMINATE = (AuditType OT_LIVE_SESSION AC_TERMINATE)\<lparr>at_target_key := Some ''live_session_id''\<rparr>"

definition SIGNING_KEY_CREATE :: audit_type where
  "SIGNING_KEY_CREATE = (AuditType OT_SIGNING_KEY AC_CREATE)\<lparr>at_target_key := Some ''signing_key_id''\<rparr>"

definition SIGNING_KEY_UPDATE_SERIAL :: audit_type where
  "SIGNING_KEY_UPDATE_SERIAL = AuditType OT_SIGNING_KEY AC_UPDATE_SERIAL"

definition CERTIFICATE_CREATE_USER :: audit_type where
  "CERTIFICATE_CREATE_USER = (AuditType OT_CERTIFICATE AC_CREATE_USER)\<lparr>at_target_key := None\<rparr>"

definition CERTIFICATE_CREATE_HOST :: audit_type where
  "CERTIFICATE_CREATE_HOST = (AuditType OT_CERTIFICATE AC_CREATE_HOST)\<lparr>at_target_key := None\<rparr>"

definition PUBLIC_KEY_DENYLISTED :: audit_type where
  "PUBLIC_KEY_DENYLISTED = (AuditType OT_PUBLIC_KEY AC_DENYLISTED)\<lparr>at_level := WARNING, at_target_key := Some ''public_key_id''\<rparr>"

definition PUBLIC_KEY_REJECTED :: audit_type where
  "PUBLIC_KEY_REJECTED = (AuditType OT_PUBLIC_KEY AC_REJECTED)\<lparr>at_level := WARNING, at_target_key := Some ''public_key_id''\<rparr>"

definition TENANT_UPDATE :: audit_type where
  "TENANT_UPDATE = (AuditType OT_TENANT AC_UPDATE)\<lparr>at_target_key := None\<rparr>"

definition TENANT_PURGE_EXPIRED :: audit_type where
  "TENANT_PURGE_EXPIRED = (AuditType OT_TENANT AC_PURGE_EXPIRED)\<lparr>at_target_key := None\<rparr>"

datatype retention_class = AUDIT | ACTIVITY | EXEMPT

definition ACTIVITY_TYPES :: "audit_type list" where
  "ACTIVITY_TYPES =
    [SESSION_LOGIN,
     SESSION_LOGOUT,
     SESSION_SET_ROLE,
     SESSION_REJECTED,
     ACCOUNT_KEY_REJECTED,
     PUBLIC_KEY_REJECTED,
     LIVE_SESSION_TERMINATE,
     CERTIFICATE_CREATE_USER,
     CERTIFICATE_CREATE_HOST]"

definition EXEMPT_TYPES :: "audit_type list" where
  "EXEMPT_TYPES = [TENANT_UPDATE, TENANT_PURGE_EXPIRED]"

definition retention_class_of :: "string \<Rightarrow> retention_class" where
  "retention_class_of entry_type =
    (if entry_type \<in> set (map audit_type_string EXEMPT_TYPES) then EXEMPT
     else if entry_type \<in> set (map audit_type_string ACTIVITY_TYPES) then ACTIVITY
     else AUDIT)"

definition all_types :: "audit_type list" where
  "all_types =
    [IDENTITY_CREATE,
     IDENTITY_DELETE,
     IDENTITY_UPDATE_NAME,
     IDENTITY_UPDATE_UNIX_USERNAME,
     IDENTITY_ADD_TAGS,
     IDENTITY_REMOVE_TAGS,
     IDENTITY_DELETE_REFUSED,
     IDENTITY_INVITATION_CREATE,
     IDENTITY_INVITATION_ACCEPTED,
     IDENTITY_INVITATION_REJECTED,
     ROLE_CREATE,
     ROLE_DELETE,
     ROLE_UPDATE_NAME,
     ROLE_UPDATE_DESCRIPTION,
     ROLE_UPDATE_GRANT_LIST,
     ROLE_ADD_MEMBERS,
     ROLE_REMOVE_MEMBERS,
     BOUNDARY_CREATE,
     BOUNDARY_DELETE,
     BOUNDARY_UPDATE_NAME,
     BOUNDARY_UPDATE_DESCRIPTION,
     BOUNDARY_UPDATE_CEILING_LIST,
     BOUNDARY_UPDATE_DENIED_LIST,
     TAG_CREATE,
     TAG_DELETE,
     BASTION_CREATE,
     BASTION_UPDATE,
     BASTION_DELETE,
     AUTH_CREATE,
     AUTH_UPDATE,
     AUTH_DELETE,
     SESSION_LOGIN,
     SESSION_LOGOUT,
     SESSION_SET_ROLE,
     SESSION_REJECTED,
     ACCOUNT_KEY_REJECTED,
     LIVE_SESSION_TERMINATE,
     SIGNING_KEY_CREATE,
     SIGNING_KEY_UPDATE_SERIAL,
     CERTIFICATE_CREATE_USER,
     CERTIFICATE_CREATE_HOST,
     PUBLIC_KEY_DENYLISTED,
     PUBLIC_KEY_REJECTED,
     TENANT_UPDATE,
     TENANT_PURGE_EXPIRED]"

lemmas audit_type_defs = AuditType_def IDENTITY_CREATE_def IDENTITY_DELETE_def IDENTITY_UPDATE_NAME_def IDENTITY_UPDATE_UNIX_USERNAME_def IDENTITY_ADD_TAGS_def IDENTITY_REMOVE_TAGS_def IDENTITY_DELETE_REFUSED_def IDENTITY_INVITATION_CREATE_def IDENTITY_INVITATION_ACCEPTED_def IDENTITY_INVITATION_REJECTED_def ROLE_CREATE_def ROLE_DELETE_def ROLE_UPDATE_NAME_def ROLE_UPDATE_DESCRIPTION_def ROLE_UPDATE_GRANT_LIST_def ROLE_ADD_MEMBERS_def ROLE_REMOVE_MEMBERS_def BOUNDARY_CREATE_def BOUNDARY_DELETE_def BOUNDARY_UPDATE_NAME_def BOUNDARY_UPDATE_DESCRIPTION_def BOUNDARY_UPDATE_CEILING_LIST_def BOUNDARY_UPDATE_DENIED_LIST_def TAG_CREATE_def TAG_DELETE_def BASTION_CREATE_def BASTION_UPDATE_def BASTION_DELETE_def AUTH_CREATE_def AUTH_UPDATE_def AUTH_DELETE_def SESSION_LOGIN_def SESSION_LOGOUT_def SESSION_SET_ROLE_def SESSION_REJECTED_def ACCOUNT_KEY_REJECTED_def LIVE_SESSION_TERMINATE_def SIGNING_KEY_CREATE_def SIGNING_KEY_UPDATE_SERIAL_def CERTIFICATE_CREATE_USER_def CERTIFICATE_CREATE_HOST_def PUBLIC_KEY_DENYLISTED_def PUBLIC_KEY_REJECTED_def TENANT_UPDATE_def TENANT_PURGE_EXPIRED_def

definition actions_by_object_type :: "(object_type \<times> action list) list" where
  "actions_by_object_type =
    fold (\<lambda>t d. AList.update (at_object_type t) (get_or d (at_object_type t) [] @ [at_action t]) d)
      all_types []"

text \<open>
  The joined strings tell the types apart, so the retention class of a stored entry is that of the
  constant it was written with.
\<close>

lemma object_type_value_inj: "object_type_value a = object_type_value b \<longleftrightarrow> a = b"
  by (cases a; cases b; simp)

end
