(* ===== verification/Nonce_Store.thy ===== *)
theory Nonce_Store
  imports Prelude
begin

text \<open>
  \<open>NonceStore\<close> of \<open>api/signature.py\<close>: the (key, nonce) pairs of recent signatures, a dictionary in
  insertion order whose front is popped while it is expired. The lemmas follow one entry through any
  sequence of calls: it stays until the clock has passed its own expiry, whatever is inserted around
  it and in whatever order the expiries come.
\<close>

definition FRESHNESS_WINDOW_SECONDS :: int where
  "FRESHNESS_WINDOW_SECONDS = 300"

definition MAX_FUTURE_SKEW_SECONDS :: int where
  "MAX_FUTURE_SKEW_SECONDS = 30"

record nonce_store =
  ns_window_seconds :: int
  ns_started_at :: int
  ns_seen :: "((string \<times> string) \<times> int) list"

text \<open>\<open>now\<close> is the value of the clock that the constructor reads when no start is given.\<close>

definition new_nonce_store :: "int \<Rightarrow> int option \<Rightarrow> int \<Rightarrow> nonce_store" where
  "new_nonce_store window_seconds started_at now =
    \<lparr>ns_window_seconds = window_seconds,
     ns_started_at = (case started_at of Some t \<Rightarrow> t | None \<Rightarrow> now),
     ns_seen = []\<rparr>"

fun expire_seen :: "int \<Rightarrow> ((string \<times> string) \<times> int) list \<Rightarrow> ((string \<times> string) \<times> int) list" where
  "expire_seen now [] = []"
| "expire_seen now ((oldest, expiry) # rest) =
    (if expiry \<ge> now then (oldest, expiry) # rest else expire_seen now rest)"

definition check_and_add ::
    "nonce_store \<Rightarrow> string \<Rightarrow> string \<Rightarrow> int \<Rightarrow> int \<Rightarrow> bool \<times> nonce_store" where
  "check_and_add ns key_id nonce now created =
    (let ns = ns\<lparr>ns_seen := expire_seen now (ns_seen ns)\<rparr>
     in if created < ns_started_at ns then (False, ns)
        else if map_of (ns_seen ns) (key_id, nonce) \<noteq> None then (False, ns)
        else (True, ns\<lparr>ns_seen :=
               AList.update (key_id, nonce) (created + ns_window_seconds ns) (ns_seen ns)\<rparr>))"

record nonce_call =
  nc_key :: string
  nc_nonce :: string
  nc_now :: int
  nc_created :: int

definition nonce_step :: "nonce_store \<Rightarrow> nonce_call \<Rightarrow> bool \<times> nonce_store" where
  "nonce_step ns c = check_and_add ns (nc_key c) (nc_nonce c) (nc_now c) (nc_created c)"

text \<open>The answers to a sequence of calls, and the store they leave.\<close>

fun nonce_answers :: "nonce_store \<Rightarrow> nonce_call list \<Rightarrow> bool list" where
  "nonce_answers ns [] = []"
| "nonce_answers ns (c # cs) = (let (ok, ns') = nonce_step ns c in ok # nonce_answers ns' cs)"

lemma map_of_expire_seen:
  "map_of seen e = Some x \<Longrightarrow> now \<le> x \<Longrightarrow> map_of (expire_seen now seen) e = Some x"
  by (induction now seen rule: expire_seen.induct) (auto split: if_splits)

lemma expire_seen_suffix: "\<exists>dropped. seen = dropped @ expire_seen now seen \<and> (\<forall>(e, x)\<in>set dropped. x < now)"
proof (induction now seen rule: expire_seen.induct)
  case (2 now e x rest)
  show ?case
  proof (cases "x \<ge> now")
    case False
    then obtain d where "rest = d @ expire_seen now rest" "\<forall>(e, x)\<in>set d. x < now"
      using 2 by auto
    then show ?thesis using False by (intro exI [of _ "(e, x) # d"]) auto
  qed (auto intro: exI [of _ "[]"])
qed simp

lemma step_started_at [simp]: "ns_started_at (snd (nonce_step ns c)) = ns_started_at ns"
  "ns_window_seconds (snd (nonce_step ns c)) = ns_window_seconds ns"
  by (simp_all add: nonce_step_def check_and_add_def Let_def)

lemma step_keeps_entry:
  assumes "map_of (ns_seen ns) e = Some x" and "nc_now c \<le> x"
  shows "map_of (ns_seen (snd (nonce_step ns c))) e = Some x"
  using map_of_expire_seen [OF assms]
  by (auto simp: nonce_step_def check_and_add_def Let_def update_conv')

lemma step_refuses_seen:
  assumes "map_of (ns_seen ns) (nc_key c, nc_nonce c) = Some x" and "nc_now c \<le> x"
  shows "\<not> fst (nonce_step ns c)"
  using map_of_expire_seen [OF assms]
  by (auto simp: nonce_step_def check_and_add_def Let_def)

lemma step_accepts:
  assumes "fst (nonce_step ns c)"
  shows "map_of (ns_seen (snd (nonce_step ns c))) (nc_key c, nc_nonce c) =
      Some (nc_created c + ns_window_seconds ns)" and "ns_started_at ns \<le> nc_created c"
  using assms by (auto simp: nonce_step_def check_and_add_def Let_def update_conv' split: if_splits)

lemma length_nonce_answers [simp]: "length (nonce_answers ns cs) = length cs"
  by (induction cs arbitrary: ns) (auto simp: Let_def case_prod_beta)

lemma answers_after_entry:
  assumes "map_of (ns_seen ns) (k, n) = Some x" and "sorted (map nc_now cs)"
    and "j < length cs" and "nc_key (cs ! j) = k" and "nc_nonce (cs ! j) = n"
    and "nonce_answers ns cs ! j"
  shows "x < nc_now (cs ! j)"
  using assms
proof (induction cs arbitrary: ns j)
  case (Cons c cs)
  show ?case
  proof (rule ccontr)
    assume "\<not> x < nc_now ((c # cs) ! j)"
    then have le: "nc_now ((c # cs) ! j) \<le> x" by simp
    show False
    proof (cases j)
      case 0
      then show ?thesis using Cons.prems le step_refuses_seen [of ns c x] by (auto simp: Let_def case_prod_beta)
    next
      case (Suc i)
      have "nc_now c \<le> nc_now (cs ! i)" using Cons.prems Suc by simp
      then have "map_of (ns_seen (snd (nonce_step ns c))) (k, n) = Some x"
        using step_keeps_entry [of ns "(k, n)" x c] Cons.prems(1) le Suc by simp
      then show ?thesis
        using Cons.IH [of "snd (nonce_step ns c)" i] Cons.prems Suc le by (auto simp: Let_def case_prod_beta)
    qed
  qed
qed simp

text \<open>
  No replay. In any sequence of calls with a clock that does not go back, when a pair of key and
  nonce that was accepted is accepted again, the clock has passed the first signature's creation plus
  the window; so the freshness check that precedes the store rejects the first signature by then. The
  order of the expiries in the dictionary does not matter.
\<close>

lemma nonce_not_replayed:
  assumes "sorted (map nc_now cs)" and "i < j" and "j < length cs"
    and "nc_key (cs ! j) = nc_key (cs ! i)" and "nc_nonce (cs ! j) = nc_nonce (cs ! i)"
    and "nonce_answers ns cs ! i" and "nonce_answers ns cs ! j"
  shows "nc_created (cs ! i) + ns_window_seconds ns < nc_now (cs ! j)"
  using assms
proof (induction cs arbitrary: ns i j)
  case (Cons c cs)
  obtain j' where j: "j = Suc j'" using Cons.prems(2) by (cases j) auto
  show ?case
  proof (cases i)
    case 0
    have "fst (nonce_step ns c)" using Cons.prems 0 by (simp add: Let_def case_prod_beta)
    from step_accepts [OF this] show ?thesis
      using answers_after_entry [of "snd (nonce_step ns c)" "nc_key c" "nc_nonce c" _ cs j'] Cons.prems 0 j
      by (auto simp: Let_def case_prod_beta)
  next
    case (Suc i')
    then show ?thesis
      using Cons.IH [of i' j' "snd (nonce_step ns c)"] Cons.prems j by (auto simp: Let_def case_prod_beta)
  qed
qed simp

theorem nonce_not_replayed_witness:
  "nonce_answers (new_nonce_store 300 None 0)
     [\<lparr>nc_key = ''k'', nc_nonce = ''n'', nc_now = 10, nc_created = 5\<rparr>,
      \<lparr>nc_key = ''k'', nc_nonce = ''n'', nc_now = 20, nc_created = 5\<rparr>,
      \<lparr>nc_key = ''k'', nc_nonce = ''n'', nc_now = 400, nc_created = 390\<rparr>] = [True, False, True] \<and>
   (5::int) + 300 < 400"
proof -
  let ?cs = "[\<lparr>nc_key = ''k'', nc_nonce = ''n'', nc_now = 10, nc_created = 5\<rparr>,
      \<lparr>nc_key = ''k'', nc_nonce = ''n'', nc_now = 20, nc_created = 5\<rparr>,
      \<lparr>nc_key = ''k'', nc_nonce = ''n'', nc_now = 400, nc_created = 390\<rparr>]"
  have a: "nonce_answers (new_nonce_store 300 None 0) ?cs = [True, False, True]"
    by (simp add: new_nonce_store_def nonce_step_def check_and_add_def)
  then show ?thesis
    using nonce_not_replayed [of ?cs 0 2 "new_nonce_store 300 None 0"] by (simp add: new_nonce_store_def)
qed

text \<open>
  After a restart only signatures made around it can be replayed: one that the new store accepts
  was created at or after the store started, so one that the server had accepted before the restart,
  within the permitted clock skew, was created in the few seconds that the skew allows past it.
\<close>

lemma restart_replay_window:
  assumes "fst (check_and_add (new_nonce_store w None restart) key_id nonce now created)"
    and "accepted_at \<le> restart" and "created \<le> accepted_at + MAX_FUTURE_SKEW_SECONDS"
  shows "restart \<le> created \<and> created \<le> restart + MAX_FUTURE_SKEW_SECONDS"
  using assms by (auto simp: check_and_add_def new_nonce_store_def Let_def split: if_splits)

lemma restart_replay_window_witness: "(100::int) \<le> 120 \<and> (120::int) \<le> 100 + MAX_FUTURE_SKEW_SECONDS"
  by (rule restart_replay_window [of 300 100 "''k''" "''n''" 121 120 95])
    (simp_all add: check_and_add_def new_nonce_store_def MAX_FUTURE_SKEW_SECONDS_def)

end
