(* ===== verification/Decimal.thy ===== *)
theory Decimal
  imports Prelude
begin

text \<open>
  \<open>str\<close> of an integer and \<open>int\<close> of a string, as the code uses them for ids in audit entries, key ids
  and certificate principals. \<open>int\<close> reads an optional minus sign and decimal digits; the other
  spellings that Python's \<open>int\<close> accepts (blanks, underscores, a plus sign) do not occur in ids.
\<close>

definition digit_char :: "nat \<Rightarrow> char" where
  "digit_char n = char_of (n + 48)"

fun show_nat :: "nat \<Rightarrow> string" where
  "show_nat n = (if n < 10 then [digit_char n] else show_nat (n div 10) @ [digit_char (n mod 10)])"

declare show_nat.simps [simp del]

definition show_int :: "int \<Rightarrow> string" where
  "show_int i = (if i < 0 then CHR ''-'' # show_nat (nat (- i)) else show_nat (nat i))"

definition digit_value :: "char \<Rightarrow> nat option" where
  "digit_value c = (let n = of_char c :: nat in if 48 \<le> n \<and> n \<le> 57 then Some (n - 48) else None)"

fun parse_digits :: "nat \<Rightarrow> string \<Rightarrow> nat option" where
  "parse_digits acc [] = Some acc"
| "parse_digits acc (c # cs) =
    (case digit_value c of None \<Rightarrow> None | Some d \<Rightarrow> parse_digits (10 * acc + d) cs)"

definition parse_nat :: "string \<Rightarrow> nat option" where
  "parse_nat s = (if s = [] then None else parse_digits 0 s)"

definition parse_int :: "string \<Rightarrow> int option" where
  "parse_int s = (case s of
     [] \<Rightarrow> None
   | c # cs \<Rightarrow> if c = CHR ''-'' then map_option (\<lambda>n. - int n) (parse_nat cs)
               else map_option int (parse_nat s))"

lemma digit_value_char: "n < 10 \<Longrightarrow> digit_value (digit_char n) = Some n"
  by (simp add: digit_value_def digit_char_def)

lemma digit_char_eq: "c = digit_char n \<Longrightarrow> n < 10 \<Longrightarrow> (of_char c :: nat) = n + 48"
  by (simp add: digit_char_def)

lemma parse_digits_append:
  "parse_digits a (xs @ ys) = (case parse_digits a xs of None \<Rightarrow> None | Some b \<Rightarrow> parse_digits b ys)"
  by (induction a xs rule: parse_digits.induct) (auto split: option.splits)

lemma parse_show_nat: "parse_digits 0 (show_nat n) = Some n"
proof (induction n rule: show_nat.induct)
  case (1 n)
  then show ?case
    by (cases "n < 10")
      (simp_all add: show_nat.simps [of n] digit_value_char parse_digits_append)
qed

lemma show_nat_not_Nil [simp]: "show_nat n \<noteq> []"
  by (subst show_nat.simps) simp

lemma show_nat_digits: "c \<in> set (show_nat n) \<Longrightarrow> 48 \<le> (of_char c :: nat) \<and> (of_char c :: nat) \<le> 57"
proof (induction n rule: show_nat.induct)
  case (1 n)
  show ?case
  proof (cases "n < 10")
    case True
    then show ?thesis using 1 by (simp add: show_nat.simps [of n] digit_char_def)
  next
    case False
    then have "c \<in> set (show_nat (n div 10)) \<or> c = digit_char (n mod 10)"
      using 1(2) by (auto simp: show_nat.simps [of n])
    then show ?thesis using 1(1) [OF False] by (auto simp: digit_char_def)
  qed
qed

lemma show_int_chars: "c \<in> set (show_int i) \<Longrightarrow> c \<noteq> CHR ''@'' \<and> c \<noteq> CHR '':''"
  using show_nat_digits [of c] by (auto simp: show_int_def split: if_splits)

lemma parse_show_int: "parse_int (show_int i) = Some i"
proof (cases "i < 0")
  case True
  then show ?thesis by (simp add: show_int_def parse_int_def parse_nat_def parse_show_nat)
next
  case False
  obtain c cs where c: "show_nat (nat i) = c # cs" by (cases "show_nat (nat i)") auto
  then have "c \<noteq> CHR ''-''" using show_nat_digits [of c "nat i"] by auto
  then show ?thesis
    using False parse_show_nat [of "nat i"] by (simp add: show_int_def parse_int_def parse_nat_def c)
qed

lemma show_int_inj: "show_int i = show_int j \<longleftrightarrow> i = j"
  by (metis option.inject parse_show_int)

section \<open>Python's \<open>int\<close> of bytes\<close>

text \<open>
  Surrounding whitespace is ignored, a sign may come first, and an underscore may stand between digits.
\<close>

definition is_space :: "char \<Rightarrow> bool" where
  "is_space c = (let n = of_char c :: nat in n = 32 \<or> (9 \<le> n \<and> n \<le> 13) \<or> (28 \<le> n \<and> n \<le> 31))"

definition strip_spaces :: "string \<Rightarrow> string" where
  "strip_spaces s = rev (dropWhile is_space (rev (dropWhile is_space s)))"

fun underscored_digits :: "nat \<Rightarrow> bool \<Rightarrow> string \<Rightarrow> nat option" where
  "underscored_digits acc after_digit [] = (if after_digit then Some acc else None)"
| "underscored_digits acc after_digit (c # cs) =
    (if c = CHR ''_'' then (if after_digit then underscored_digits acc False cs else None)
     else case digit_value c of None \<Rightarrow> None | Some d \<Rightarrow> underscored_digits (10 * acc + d) True cs)"

definition python_int :: "string \<Rightarrow> int option" where
  "python_int s = (case strip_spaces s of
     [] \<Rightarrow> None
   | c # cs \<Rightarrow> if c = CHR ''-'' then map_option (\<lambda>n. - int n) (underscored_digits 0 False cs)
       else if c = CHR ''+'' then map_option int (underscored_digits 0 False cs)
       else map_option int (underscored_digits 0 False (c # cs)))"

lemma underscored_plain:
  "s \<noteq> [] \<or> b \<Longrightarrow> parse_digits acc s = Some n \<Longrightarrow> underscored_digits acc b s = Some n"
proof (induction acc b s rule: underscored_digits.induct)
  case (2 acc b c cs)
  then have "c \<noteq> CHR ''_''" by (auto simp: digit_value_def Let_def split: option.splits)
  then show ?case using 2 by (auto split: option.splits)
qed simp

lemma strip_no_spaces: "\<forall>c\<in>set s. \<not> is_space c \<Longrightarrow> strip_spaces s = s"
proof -
  have d: "dropWhile is_space t = t" if "\<forall>c\<in>set t. \<not> is_space c" for t using that by (cases t) auto
  show "\<forall>c\<in>set s. \<not> is_space c \<Longrightarrow> strip_spaces s = s" by (simp add: strip_spaces_def d)
qed

lemma python_int_show: "python_int (show_int i) = Some i"
proof -
  have plain: "\<not> is_space c" if "c \<in> set (show_nat n)" for c n
    using show_nat_digits [OF that] by (auto simp: is_space_def Let_def)
  have s: "strip_spaces (show_int i) = show_int i"
    by (rule strip_no_spaces) (auto simp: show_int_def plain, simp add: is_space_def)
  have u: "underscored_digits 0 False (show_nat n) = Some n" for n
    by (rule underscored_plain) (simp_all add: parse_show_nat)
  show ?thesis
  proof (cases "i < 0")
    case False
    obtain c cs where c: "show_nat (nat i) = c # cs" by (cases "show_nat (nat i)") auto
    then have "c \<noteq> CHR ''-''" "c \<noteq> CHR ''+''" using show_nat_digits [of c "nat i"] by auto
    then show ?thesis using False s u [of "nat i"] c by (simp add: python_int_def show_int_def)
  qed (use s u in \<open>simp add: python_int_def show_int_def\<close>)
qed

end
