(* ===== verification/Request.thy ===== *)
theory Request
  imports Audit_Types Nonce_Store Decimal
begin

text \<open>
  \<open>api/context.py\<close> and the transaction of \<open>api/dependencies.py\<close>: what a handler can see and change.
  The context variables are an argument of every handler; one reading of the clock and the random
  values of a request are part of it. The world is the tenant database, the work deferred to the end
  of the request, the nonce store of the process and the actions after a commit that were carried out. The audit log is the
  only user of \<open>before_commit\<close> and \<open>after_rollback\<close>, so the deferred closures are records of what they
  captured.
\<close>

section \<open>The context\<close>

record foreign_author =
  fa_tenant_id :: int
  fa_tenant_name :: string
  fa_identity_name :: "string option"

record default_bastion =
  df_url :: "string option"
  df_ssh_proxy_jump :: "string option"

record config =
  cf_base_url :: string
  cf_privileged_unix_usernames :: "string list"
  cf_email :: "string option"
  cf_session_duration_s :: int
  cf_host_key_staging_period :: int
  cf_host_key_rotation_period :: int
  cf_host_key_type :: string
  cf_host_certificate_lifetime :: int
  cf_user_key_staging_period :: int
  cf_user_key_rotation_period :: int
  cf_user_key_type :: string
  cf_user_certificate_lifetime :: int
  cf_oidc_key_grace_period :: int
  cf_oidc_key_rotation_period :: int
  cf_oidc_key_staging_period :: int
  cf_retention_min_days :: int
  cf_retention_max_days :: int
  cf_default_bastion :: "default_bastion option"

record request_ctx =
  cx_now :: int
  cx_uuid :: string
  cx_identity_id :: "int option"
  cx_active_role_id :: "int option"
  cx_session_key_id :: "string option"
  cx_tenant_id :: int
  cx_tenant_uuid :: string
  cx_config :: config
  cx_cause :: "details option"
  cx_foreign_author :: "foreign_author option"

section \<open>Deferred work\<close>

record audit_ref =
  ref_object_type :: string
  ref_object_id :: string
  ref_name :: "string option"
  ref_names_object :: bool

text \<open>What the closure \<open>insert\<close> of \<open>audit_log._write\<close> captures.\<close>

record pending_entry =
  pe_type :: audit_type
  pe_at :: int
  pe_by_identity_id :: "int option"
  pe_by_identity_name :: "string option"
  pe_details :: details
  pe_foreign_author :: "foreign_author option"
  pe_refs :: "audit_ref list"

text \<open>What the closure \<open>write\<close> of \<open>audit_log.create_after_rollback\<close> captures.\<close>

record pending_rejection =
  pr_type :: audit_type
  pr_at :: int
  pr_by_identity_id :: "int option"
  pr_details :: details
  pr_foreign_author :: "foreign_author option"

text \<open>What runs after a commit: the invitation email, and the command to a host through a bastion.\<close>

datatype effect =
    SendMail string string
  | SendToken "string list" string string

record deferred =
  df_before_commit :: "pending_entry list"
  df_after_commit :: "effect list"
  df_after_rollback :: "pending_rejection list"

definition Deferred :: deferred where
  "Deferred = \<lparr>df_before_commit = [], df_after_commit = [], df_after_rollback = []\<rparr>"

record world =
  w_db :: app_db
  w_deferred :: deferred
  w_nonces :: nonce_store
  w_outbox :: "effect list"

type_synonym 'a handler = "(world, exn, 'a) act"

definition before_commit :: "pending_entry \<Rightarrow> unit handler" where
  "before_commit e = changing (w_deferred_update (df_before_commit_update (\<lambda>l. l @ [e])))"

definition after_commit :: "effect \<Rightarrow> unit handler" where
  "after_commit e = changing (w_deferred_update (df_after_commit_update (\<lambda>l. l @ [e])))"

definition after_rollback :: "pending_rejection \<Rightarrow> unit handler" where
  "after_rollback e = changing (w_deferred_update (df_after_rollback_update (\<lambda>l. l @ [e])))"

section \<open>Statements on the tenant database\<close>

definition on_db :: "(app_db, exn, 'a) act \<Rightarrow> 'a handler" where
  "on_db m = (\<lambda>w. case m (w_db w) of (r, d) \<Rightarrow> (r, w\<lparr>w_db := d\<rparr>))"

definition reads :: "(app_db \<Rightarrow> 'a) \<Rightarrow> 'a handler" where
  "reads f = reading (\<lambda>w. f (w_db w))"

definition creates :: "(app_db, 'r) table_def \<Rightarrow> (int \<Rightarrow> 'r) \<Rightarrow> int handler" where
  "creates td mk = on_db (table_create td mk)"

definition creates_if_absent :: "(app_db, 'r) table_def \<Rightarrow> (int \<Rightarrow> 'r) \<Rightarrow> bool handler" where
  "creates_if_absent td mk = on_db (table_create_if_absent td mk)"

definition reads_all :: "(app_db, 'r) table_def \<Rightarrow> ('r \<Rightarrow> bool) \<Rightarrow> 'r list handler" where
  "reads_all td p = reads (table_read_all td p)"

definition reads_one :: "(app_db, 'r) table_def \<Rightarrow> ('r \<Rightarrow> bool) \<Rightarrow> 'r option handler" where
  "reads_one td p = reads (table_read_one td p)"

definition updates :: "(app_db, 'r) table_def \<Rightarrow> ('r \<Rightarrow> 'r) \<Rightarrow> ('r \<Rightarrow> bool) \<Rightarrow> int handler" where
  "updates td f p = on_db (table_update td f p)"

definition deletes :: "(app_db, 'r) table_def \<Rightarrow> ('r \<Rightarrow> bool) \<Rightarrow> int handler" where
  "deletes td p = on_db (table_delete td p)"

text \<open>\<open>try\<close> with one \<open>except\<close> clause: the state stays as it was when the exception was raised.\<close>

definition catching :: "'a handler \<Rightarrow> (exn \<Rightarrow> 'a handler) \<Rightarrow> 'a handler" where
  "catching m h = (\<lambda>w. case m w of (Inl e, w') \<Rightarrow> h e w' | (Inr x, w') \<Rightarrow> (Inr x, w'))"

definition ensure :: "bool \<Rightarrow> unit handler" where
  "ensure b = unless_raise b AssertionError"

text \<open>A problem response that rejects the request.\<close>

definition reject :: "int \<Rightarrow> string \<Rightarrow> string option \<Rightarrow> 'a handler" where
  "reject code t d = raising (Http (problem_response code about_blank (Some t) d))"

lemma on_db_Inr: "on_db m w = (Inr x, w') \<longleftrightarrow> (\<exists>d. m (w_db w) = (Inr x, d) \<and> w' = w\<lparr>w_db := d\<rparr>)"
  by (auto simp: on_db_def split: prod.splits)

lemma reads_run: "reads f w = (Inr (f (w_db w)), w)"
  by (simp add: reads_def reading_def)

lemma reads_all_run: "reads_all td p w = (Inr (filter p (tb_rows (td_get td (w_db w)))), w)"
  by (simp add: reads_all_def reads_run table_read_all_def)

lemma reads_one_run: "reads_one td p w = (Inr (List.find p (tb_rows (td_get td (w_db w)))), w)"
  by (simp add: reads_one_def reads_run table_read_one_def)

lemmas read_runs = reads_run reads_all_run reads_one_run

lemma keeps_reads [keeps_rules, intro]: "keeps P (reads f)" "keeps P (reads_all td p)" "keeps P (reads_one td q)"
  by (simp_all add: keeps_def read_runs)

lemma keeps_ensure [keeps_rules, intro]: "keeps P (ensure b)"
  by (simp add: ensure_def keeps_unless_raise)

lemma keeps_reject [keeps_rules, intro]: "keeps P (reject c t d)"
  by (simp add: reject_def keeps_raising)

lemma keeps_catching [keeps_rules, intro]:
  "keeps P m \<Longrightarrow> (\<And>e. keeps P (h e)) \<Longrightarrow> keeps P (catching m h)"
  unfolding keeps_def catching_def by (auto split: prod.splits sum.splits)

section \<open>A process that has just started\<close>

definition empty_world :: world where
  "empty_world = \<lparr>w_db = empty_db, w_deferred = Deferred, w_nonces = new_nonce_store 300 None 0,
    w_outbox = []\<rparr>"

definition sample_config :: config where
  "sample_config = \<lparr>cf_base_url = ''https://pf.example'', cf_privileged_unix_usernames = [''root''],
    cf_email = None, cf_session_duration_s = 3600,
    cf_host_key_staging_period = 0, cf_host_key_rotation_period = 86400, cf_host_key_type = ''ed25519'',
    cf_host_certificate_lifetime = 86400, cf_user_key_staging_period = 0, cf_user_key_rotation_period = 86400,
    cf_user_key_type = ''ed25519'', cf_user_certificate_lifetime = 60, cf_oidc_key_grace_period = 604800,
    cf_oidc_key_rotation_period = 2592000, cf_oidc_key_staging_period = 604800, cf_retention_min_days = 30,
    cf_retention_max_days = 365, cf_default_bastion = None\<rparr>"

definition sample_cx :: request_ctx where
  "sample_cx = \<lparr>cx_now = 1000, cx_uuid = ''u1'', cx_identity_id = None, cx_active_role_id = None,
    cx_session_key_id = None, cx_tenant_id = 1, cx_tenant_uuid = ''t1'', cx_config = sample_config,
    cx_cause = None, cx_foreign_author = None\<rparr>"

end
