(* ===== verification/Audit_Log.thy ===== *)
theory Audit_Log
  imports Request
begin

text \<open>
  \<open>api/model/audit_log.py\<close>, writing: the names of the objects an entry points to (\<open>refs\<close>), \<open>create\<close>
  and \<open>create_after_rollback\<close>, and the insert at the end of the transaction, which numbers the entries
  with the counter row. Then the transaction itself, \<open>tenant_context\<close> of \<open>api/dependencies.py\<close>, and
  what runs after its commit, the email of \<open>invite_endpoint\<close> and the command of \<open>terminate_endpoint\<close>.
  \<open>Audit_Numbering\<close> says how a transaction ends.
\<close>

section \<open>Naming objects\<close>

text \<open>The keyword arguments of \<open>refs\<close>.\<close>

record ref_args =
  ra_grants :: "grant list"
  ra_tags :: "int list"
  ra_identities :: "int list"
  ra_roles :: "int list"
  ra_boundaries :: "int list"
  ra_bastions :: "int list"
  ra_auths :: "int list"

definition no_args :: ref_args where
  "no_args = \<lparr>ra_grants = [], ra_tags = [], ra_identities = [], ra_roles = [], ra_boundaries = [],
    ra_bastions = [], ra_auths = []\<rparr>"

definition opt_str :: "string option \<Rightarrow> detail" where
  "opt_str s = (case s of None \<Rightarrow> DNull | Some x \<Rightarrow> DStr x)"

definition opt_int :: "int option \<Rightarrow> detail" where
  "opt_int i = (case i of None \<Rightarrow> DNull | Some x \<Rightarrow> DInt x)"

definition resolve ::
    "(app_db, 'r) table_def \<Rightarrow> ('r \<Rightarrow> int) \<Rightarrow> ('r \<Rightarrow> details) \<Rightarrow> int set \<Rightarrow> app_db \<Rightarrow> details" where
  "resolve td key label ids db =
    (if ids = {} then []
     else let labels = fold (\<lambda>r d. AList.update (key r) (label r) d)
                (table_read_all td (\<lambda>r. key r \<in> ids) db) []
          in map (\<lambda>i. (show_int i, case map_of labels i of None \<Rightarrow> DNull | Some l \<Rightarrow> DObject l))
               (sorted_list_of_set ids))"

definition refs_of :: "ref_args \<Rightarrow> app_db \<Rightarrow> details" where
  "refs_of ra db =
    (let found = referenced_ids (ra_grants ra);
         result =
          [(''tag'', resolve tag_table tg_id (\<lambda>r. [(''name'', DStr (tg_name r)), (''value'', DStr (tg_value r))])
              (ref_tag found \<union> set (ra_tags ra)) db),
           (''identity'', resolve identity_table id_id
              (\<lambda>r. [(''name'', DStr (id_name r)), (''unix_username'', opt_str (id_unix_username r))])
              (ref_identity found \<union> set (ra_identities ra)) db),
           (''role'', resolve role_table ro_id (\<lambda>r. [(''name'', DStr (ro_name r))])
              (ref_role found \<union> set (ra_roles ra)) db),
           (''boundary'', resolve boundary_table bo_id (\<lambda>r. [(''name'', DStr (bo_name r))])
              (ref_boundary found \<union> set (ra_boundaries ra)) db),
           (''bastion'', resolve bastion_table ba_id (\<lambda>r. [(''url'', DStr (ba_url r))])
              (ref_bastion found \<union> set (ra_bastions ra)) db),
           (''auth'', resolve auth_table aut_id (\<lambda>r. [(''name'', DStr (aut_name r))])
              (ref_auth found \<union> set (ra_auths ra)) db)]
     in map (\<lambda>(kind, ids). (kind, DObject ids)) (filter (\<lambda>(kind, ids). ids \<noteq> []) result))"

text \<open>\<open>_name\<close>: the name an object has now; the table that names are read from depends on its type.\<close>

definition name_by_id :: "object_type \<Rightarrow> int \<Rightarrow> app_db \<Rightarrow> string option" where
  "name_by_id ot key db = (case ot of
     OT_IDENTITY \<Rightarrow> map_option id_name (table_read_one identity_table (\<lambda>r. id_id r = key) db)
   | OT_ROLE \<Rightarrow> map_option ro_name (table_read_one role_table (\<lambda>r. ro_id r = key) db)
   | OT_BOUNDARY \<Rightarrow> map_option bo_name (table_read_one boundary_table (\<lambda>r. bo_id r = key) db)
   | OT_TAG \<Rightarrow> map_option tg_name (table_read_one tag_table (\<lambda>r. tg_id r = key) db)
   | OT_BASTION \<Rightarrow> map_option ba_url (table_read_one bastion_table (\<lambda>r. ba_id r = key) db)
   | OT_AUTH \<Rightarrow> map_option aut_name (table_read_one auth_table (\<lambda>r. aut_id r = key) db)
   | _ \<Rightarrow> None)"

definition object_name :: "object_type \<Rightarrow> string \<Rightarrow> app_db \<Rightarrow> string option" where
  "object_name ot object_id db =
    (case parse_int object_id of None \<Rightarrow> None | Some key \<Rightarrow> name_by_id ot key db)"

text \<open>
  \<open>_text\<close>: the value as a string. Only integers and strings are stored under the keys whose text is
  used; the text of a list (the old grants of an update) is computed by the code and then dropped.
\<close>

definition detail_text :: "detail \<Rightarrow> string option" where
  "detail_text v = (case v of DInt i \<Rightarrow> Some (show_int i) | DStr s \<Rightarrow> Some s | DJson s \<Rightarrow> Some s | _ \<Rightarrow> None)"

definition text_of :: "details \<Rightarrow> string \<Rightarrow> string option" where
  "text_of details key = (case map_of details key of None \<Rightarrow> None | Some v \<Rightarrow> detail_text v)"

text \<open>Python's \<open>or\<close> on optional strings: the empty string counts as absent.\<close>

definition text_or :: "string option \<Rightarrow> string option \<Rightarrow> string option" where
  "text_or a b = (case a of Some (c # cs) \<Rightarrow> a | _ \<Rightarrow> b)"

definition sub_object :: "details \<Rightarrow> string \<Rightarrow> details option" where
  "sub_object details key = (case map_of details key of Some (DObject d) \<Rightarrow> Some d | _ \<Rightarrow> None)"

definition set_default :: "'k \<Rightarrow> 'v \<Rightarrow> ('k \<times> 'v) list \<Rightarrow> ('k \<times> 'v) list" where
  "set_default k v d = (if map_of d k = None then d @ [(k, v)] else d)"

definition entry_refs :: "audit_type \<Rightarrow> details \<Rightarrow> app_db \<Rightarrow> audit_ref list" where
  "entry_refs t details db =
    (let target = (case at_target_key t of None \<Rightarrow> None | Some k \<Rightarrow> text_of details k);
         own = object_type_value (at_object_type t);
         carried = text_or (text_of details ''name'') (text_of details ''url'');
         found = (case target of None \<Rightarrow> []
           | Some i \<Rightarrow> [((own, i), text_or carried (object_name (at_object_type t) i db))]);
         named = (case target of None \<Rightarrow> []
           | Some i \<Rightarrow> if at_names_object t \<and> carried \<noteq> None then [(own, i)] else []);
         found = (case sub_object details ''cause'' of None \<Rightarrow> found
           | Some c \<Rightarrow> (case (text_of c ''type'', text_of c ''id'') of
               (Some ty, Some i) \<Rightarrow> set_default (ty, i) (text_of c ''name'') found | _ \<Rightarrow> found));
         extra = (case (target, text_of details ''old'') of
             (Some i, Some old) \<Rightarrow> if at_action t = AC_UPDATE_NAME
               then [\<lparr>ref_object_type = own, ref_object_id = i, ref_name = Some old,
                      ref_names_object = False\<rparr>] else []
           | _ \<Rightarrow> []);
         found = (case (text_of details ''owner_type'', text_of details ''owner_id'') of
             (Some ty, Some i) \<Rightarrow> set_default (ty, i) (text_of details ''owner_name'') found
           | _ \<Rightarrow> found);
         found = (case text_of details ''identity_id'' of None \<Rightarrow> found
           | Some i \<Rightarrow> set_default (object_type_value OT_IDENTITY, i) (object_name OT_IDENTITY i db) found);
         found = (case text_of details ''host_id'' of None \<Rightarrow> found
           | Some i \<Rightarrow> set_default (object_type_value OT_IDENTITY, i) (text_of details ''hostname'') found);
         refs = (case sub_object details ''refs'' of None \<Rightarrow> [] | Some r \<Rightarrow> r);
         found = fold (\<lambda>(kind, by_id) found. case by_id of
             DObject labels \<Rightarrow> fold (\<lambda>(i, label) found. set_default (kind, i)
               (case label of DObject l \<Rightarrow> text_or (text_of l ''name'') (text_of l ''url'') | _ \<Rightarrow> None)
               found) labels found
           | _ \<Rightarrow> found) refs found
     in map (\<lambda>((ty, i), name). \<lparr>ref_object_type = ty, ref_object_id = i, ref_name = name,
            ref_names_object = (ty, i) \<in> set named\<rparr>) found @ extra)"

section \<open>Writing an entry\<close>

definition make_entry ::
    "audit_type \<Rightarrow> int \<Rightarrow> int option \<Rightarrow> details \<Rightarrow> foreign_author option \<Rightarrow> app_db \<Rightarrow> exn + pending_entry" where
  "make_entry t at by_identity_id details author db =
    (if author \<noteq> None \<and> by_identity_id \<noteq> None then Inl AssertionError
     else Inr \<lparr>pe_type = t, pe_at = at, pe_by_identity_id = by_identity_id,
       pe_by_identity_name = (case author of
           Some a \<Rightarrow> fa_identity_name a
         | None \<Rightarrow> (case by_identity_id of None \<Rightarrow> None | Some i \<Rightarrow> name_by_id OT_IDENTITY i db)),
       pe_details = details, pe_foreign_author = author, pe_refs = entry_refs t details db\<rparr>)"

text \<open>The closure \<open>insert\<close>, on the database at the end of the transaction.\<close>

definition entry_row :: "pending_entry \<Rightarrow> int \<Rightarrow> audit_log_row" where
  "entry_row e n = \<lparr>al_id = n, al_at = pe_at e, al_level = at_level (pe_type e),
    al_type = audit_type_string (pe_type e), al_by_identity_id = pe_by_identity_id e,
    al_details = pe_details e, al_object_type = object_type_value (at_object_type (pe_type e)),
    al_action = action_value (at_action (pe_type e)), al_by_identity_name = pe_by_identity_name e,
    al_by_tenant_id = map_option fa_tenant_id (pe_foreign_author e),
    al_by_tenant_name = map_option fa_tenant_name (pe_foreign_author e)\<rparr>"

definition insert_ref :: "int \<Rightarrow> audit_ref \<Rightarrow> (app_db, exn, unit) act" where
  "insert_ref n ref =
    seq (table_create audit_log_ref_table (\<lambda>i. \<lparr>rf_id = i, rf_entry_id = n,
          rf_object_type = ref_object_type ref, rf_object_id = ref_object_id ref,
          rf_object_name = ref_name ref\<rparr>))
      (case ref_name ref of
         Some name \<Rightarrow> if ref_names_object ref
           then seq (table_create_if_absent audit_log_object_name_table (\<lambda>i. \<lparr>on_id = i,
                  on_object_type = ref_object_type ref, on_object_id = ref_object_id ref,
                  on_object_name = name, on_first_entry_id = n\<rparr>)) (ret ())
           else ret ()
       | None \<Rightarrow> ret ())"

definition insert_entry :: "pending_entry \<Rightarrow> (app_db, exn, unit) act" where
  "insert_entry e =
    and_then (table_update audit_log_counter_table (\<lambda>r. r\<lparr>ct_value := ct_value r + 1\<rparr>) (\<lambda>r. ct_id r = 1))
      (\<lambda>n. seq (unless_raise (n = 1) AssertionError)
        (and_then (reading (table_read_one audit_log_counter_table (\<lambda>r. ct_id r = 1)))
          (\<lambda>c. case c of
             None \<Rightarrow> raising AssertionError
           | Some counter \<Rightarrow>
               seq (table_create audit_log_table (\<lambda>_. entry_row e (ct_value counter)))
                 (for_each (pe_refs e) (insert_ref (ct_value counter))))))"

definition audit_write ::
    "audit_type \<Rightarrow> int \<Rightarrow> int option \<Rightarrow> details \<Rightarrow> foreign_author option \<Rightarrow> unit handler" where
  "audit_write t at by_identity_id details author =
    and_then (reads (make_entry t at by_identity_id details author))
      (\<lambda>r. and_then (lifting r) before_commit)"

definition audit_create :: "request_ctx \<Rightarrow> audit_type \<Rightarrow> details \<Rightarrow> details \<Rightarrow> unit handler" where
  "audit_create cx t refs details =
    (let extra = (if refs \<noteq> [] then [(''refs'', DObject refs)] else []) @
           (case cx_cause cx of None \<Rightarrow> [] | Some c \<Rightarrow> [(''cause'', DObject c)])
     in audit_write t (cx_now cx) (cx_identity_id cx) (dict_merge details extra) (cx_foreign_author cx))"

text \<open>\<open>audit_log.create(type, refs=audit_log.refs(...), **details)\<close>.\<close>

definition audit_create_refs :: "request_ctx \<Rightarrow> audit_type \<Rightarrow> ref_args \<Rightarrow> details \<Rightarrow> unit handler" where
  "audit_create_refs cx t ra details = and_then (reads (refs_of ra)) (\<lambda>r. audit_create cx t r details)"

definition create_after_rollback :: "request_ctx \<Rightarrow> audit_type \<Rightarrow> details \<Rightarrow> unit handler" where
  "create_after_rollback cx t details = after_rollback \<lparr>pr_type = t, pr_at = cx_now cx,
    pr_by_identity_id = cx_identity_id cx, pr_details = details,
    pr_foreign_author = cx_foreign_author cx\<rparr>"

text \<open>\<open>with audit_log.cause(...)\<close>: the context of the handlers inside the block.\<close>

definition with_cause ::
    "object_type \<Rightarrow> int \<Rightarrow> string option \<Rightarrow> action \<Rightarrow> request_ctx \<Rightarrow> request_ctx" where
  "with_cause ot i name ac cx = cx\<lparr>cx_cause := Some
    [(''type'', DStr (object_type_value ot)), (''id'', DStr (show_int i)), (''name'', opt_str name),
     (''action'', DStr (action_value ac))]\<rparr>"

section \<open>The transaction of a request\<close>

text \<open>Outside a request's deferred list \<open>before_commit\<close> runs the insert at once.\<close>

definition write_rejection :: "pending_rejection \<Rightarrow> (app_db, exn, unit) act" where
  "write_rejection r =
    and_then (reading (make_entry (pr_type r) (pr_at r) (pr_by_identity_id r) (pr_details r)
        (pr_foreign_author r)))
      (\<lambda>e. and_then (lifting e) insert_entry)"

definition run_after_rollback :: "pending_rejection list \<Rightarrow> app_db \<Rightarrow> app_db" where
  "run_after_rollback rs d = (case for_each rs write_rejection d of (Inr _, d') \<Rightarrow> d' | (Inl _, _) \<Rightarrow> d)"

definition roll_back :: "exn \<Rightarrow> app_db \<Rightarrow> world \<Rightarrow> world" where
  "roll_back e before w =
    w\<lparr>w_db := (case e of Http _ \<Rightarrow> run_after_rollback (df_after_rollback (w_deferred w)) before
                | _ \<Rightarrow> before),
      w_deferred := Deferred\<rparr>"

text \<open>
  What runs after the commit may fail: \<open>mailer.send\<close> with the text of its exception, \<open>visitor.send_token\<close>
  at a bastion with an exception that says that the host did not carry out the command, or with another.
\<close>

datatype bastion_reply = Carried_Out | Not_Carried_Out string | Unexpected exn

record outside =
  out_mail :: "string \<Rightarrow> string \<Rightarrow> string \<Rightarrow> string option"
  out_token :: "string \<Rightarrow> string \<Rightarrow> string \<Rightarrow> bastion_reply"

definition send_invitation :: "(string \<Rightarrow> string \<Rightarrow> string \<Rightarrow> string option) \<Rightarrow> string \<Rightarrow> string \<Rightarrow> exn + unit" where
  "send_invitation mail to url =
    (case mail to ''Your invitation'' (''Accept your invitation:\<newline>'' @ url @ ''\<newline>'') of
       None \<Rightarrow> Inr ()
     | Some text \<Rightarrow> Inl (Http (problem_response 502 about_blank
         (Some ''The invitation was created but its email could not be sent'') (Some text))))"

fun send_to_first_bastion :: "(string \<Rightarrow> bastion_reply) \<Rightarrow> string list \<Rightarrow> string list \<Rightarrow> exn + unit" where
  "send_to_first_bastion send [] errors = Inl (Http (problem_response 502 about_blank
    (Some (''Unable to end the session: '' @ (if errors = [] then ''no bastion'' else last errors))) None))"
| "send_to_first_bastion send (url # urls) errors = (case send url of
     Carried_Out \<Rightarrow> Inr ()
   | Not_Carried_Out text \<Rightarrow> send_to_first_bastion send urls (errors @ [text])
   | Unexpected e \<Rightarrow> Inl e)"

definition perform_effect :: "outside \<Rightarrow> effect \<Rightarrow> exn + unit" where
  "perform_effect out action = (case action of
     SendMail to url \<Rightarrow> send_invitation (out_mail out) to url
   | SendToken urls hostname token \<Rightarrow> send_to_first_bastion (\<lambda>url. out_token out url hostname token) urls [])"

text \<open>The actions run in order until one raises; those that returned are in \<open>w_outbox\<close>.\<close>

fun run_after_commit :: "(effect \<Rightarrow> exn + unit) \<Rightarrow> effect list \<Rightarrow> unit handler" where
  "run_after_commit perform [] w = (Inr (), w)"
| "run_after_commit perform (action # actions) w = (case perform action of
     Inl e \<Rightarrow> (Inl e, w)
   | Inr _ \<Rightarrow> run_after_commit perform actions (w\<lparr>w_outbox := w_outbox w @ [action]\<rparr>))"

text \<open>The actions after the commit are outside the \<open>try\<close>: their exceptions undo nothing.\<close>

definition tenant_context :: "(effect \<Rightarrow> exn + unit) \<Rightarrow> 'a handler \<Rightarrow> 'a handler" where
  "tenant_context perform handler = (\<lambda>w.
    case handler (w\<lparr>w_deferred := Deferred\<rparr>) of
      (Inl e, w1) \<Rightarrow> (Inl e, roll_back e (w_db w) w1)
    | (Inr x, w1) \<Rightarrow>
        (case for_each (df_before_commit (w_deferred w1)) insert_entry (w_db w1) of
           (Inl e, _) \<Rightarrow> (Inl e, roll_back e (w_db w) w1)
         | (Inr _, d) \<Rightarrow>
             (case run_after_commit perform (df_after_commit (w_deferred w1))
                 (w1\<lparr>w_db := d, w_deferred := Deferred\<rparr>) of
                (Inl e, w2) \<Rightarrow> (Inl e, w2)
              | (Inr _, w2) \<Rightarrow> (Inr x, w2))))"

end
