(* ===== verification/Audit_Numbering.thy ===== *)
theory Audit_Numbering
  imports Audit_Log
begin

text \<open>
  How a transaction ends. The counter row numbers the entries of a committed request consecutively,
  in the order the handler wrote them; writing them cannot fail once the counter exists; a request that
  fails before its commit leaves the database as it found it, except for the warnings it deferred, and one that
  fails after it is done.
\<close>

section \<open>The tables of the audit log\<close>

definition same_but_audit :: "app_db \<Rightarrow> app_db \<Rightarrow> bool" where
  "same_but_audit d d' \<longleftrightarrow>
    d' = d\<lparr>db_audit_log := db_audit_log d', db_audit_log_ref := db_audit_log_ref d',
      db_audit_log_object_name := db_audit_log_object_name d',
      db_audit_log_counter := db_audit_log_counter d'\<rparr>"

lemma same_but_audit_refl [simp]: "same_but_audit d d"
  by (simp add: same_but_audit_def)

lemma same_but_audit_trans: "same_but_audit d d' \<Longrightarrow> same_but_audit d' d'' \<Longrightarrow> same_but_audit d d''"
  unfolding same_but_audit_def by (cases d; cases d'; cases d'') simp

definition audit_ok :: "int \<Rightarrow> app_db \<Rightarrow> bool" where
  "audit_ok v d \<longleftrightarrow> tb_rows (db_audit_log_counter d) = [\<lparr>ct_id = 1, ct_value = v\<rparr>] \<and>
    (\<forall>r\<in>set (tb_rows (db_audit_log d)). al_id r \<le> v)"

primrec numbered :: "int \<Rightarrow> pending_entry list \<Rightarrow> audit_log_row list" where
  "numbered v [] = []"
| "numbered v (e # es) = entry_row e (v + 1) # numbered (v + 1) es"

lemma numbered_ids: "map al_id (numbered v es) = map (\<lambda>k. v + 1 + int k) [0..<length es]"
proof (induction es arbitrary: v)
  case (Cons e es)
  have "[0..<length (e # es)] = 0 # map Suc [0..<length es]"
    by (metis length_Cons map_Suc_upt upt_conv_Cons zero_less_Suc)
  then show ?case using Cons [of "v + 1"] by (simp add: entry_row_def o_def algebra_simps)
qed simp

section \<open>Inserting an entry\<close>

lemma insert_ref_ok:
  "\<exists>d'. insert_ref n ref d = (Inr (), d') \<and> db_audit_log d' = db_audit_log d \<and>
    db_audit_log_counter d' = db_audit_log_counter d \<and> same_but_audit d d'"
  by (auto simp: insert_ref_def seq_def and_then_def ret_def table_create_def insert_row_def Let_def
      table_create_if_absent_def audit_log_ref_table_def audit_log_object_name_table_def
      violated_def same_but_audit_def list_ex_iff split: option.splits)

lemma for_each_refs_ok:
  "\<exists>d'. for_each refs (insert_ref n) d = (Inr (), d') \<and> db_audit_log d' = db_audit_log d \<and>
    db_audit_log_counter d' = db_audit_log_counter d \<and> same_but_audit d d'"
proof (induction refs arbitrary: d)
  case (Cons r refs)
  obtain d1 where d1: "insert_ref n r d = (Inr (), d1)" "db_audit_log d1 = db_audit_log d"
      "db_audit_log_counter d1 = db_audit_log_counter d" "same_but_audit d d1"
    using insert_ref_ok by blast
  obtain d2 where "for_each refs (insert_ref n) d1 = (Inr (), d2)" "db_audit_log d2 = db_audit_log d1"
      "db_audit_log_counter d2 = db_audit_log_counter d1" "same_but_audit d1 d2"
    using Cons.IH by blast
  then show ?case using d1 by (auto simp: seq_def and_then_def intro: same_but_audit_trans)
qed (simp add: ret_def)

lemma counter_update:
  assumes "tb_rows (db_audit_log_counter d) = [\<lparr>ct_id = 1, ct_value = v\<rparr>]"
  shows "table_update audit_log_counter_table (\<lambda>r. r\<lparr>ct_value := ct_value r + 1\<rparr>) (\<lambda>r. ct_id r = 1) d =
    (Inr 1, d\<lparr>db_audit_log_counter :=
      (db_audit_log_counter d)\<lparr>tb_rows := [\<lparr>ct_id = 1, ct_value = v + 1\<rparr>]\<rparr>\<rparr>)"
  using assms by (simp add: table_update_def audit_log_counter_table_def update_rows_def violated_def Let_def)

lemma entry_create:
  assumes "\<forall>r\<in>set (tb_rows (db_audit_log d)). al_id r < n"
  shows "\<exists>t. table_create audit_log_table (\<lambda>_. entry_row e n) d =
      (Inr (tb_seq (db_audit_log d) + 1), d\<lparr>db_audit_log := t\<rparr>) \<and>
    tb_rows t = tb_rows (db_audit_log d) @ [entry_row e n]"
proof -
  have "violated (td_unique audit_log_table) (entry_row e n) (tb_rows (db_audit_log d)) = None"
    using assms by (fastforce simp: violated_None audit_log_table_def entry_row_def)
  then show ?thesis
    by (auto simp: table_create_def insert_row_def audit_log_table_def Let_def)
qed

lemma insert_entry_ok:
  assumes "audit_ok v d"
  shows "\<exists>d'. insert_entry e d = (Inr (), d') \<and> audit_ok (v + 1) d' \<and> same_but_audit d d' \<and>
    tb_rows (db_audit_log d') = tb_rows (db_audit_log d) @ [entry_row e (v + 1)]"
proof -
  let ?d1 = "d\<lparr>db_audit_log_counter :=
      (db_audit_log_counter d)\<lparr>tb_rows := [\<lparr>ct_id = 1, ct_value = v + 1\<rparr>]\<rparr>\<rparr>"
  have c: "tb_rows (db_audit_log_counter d) = [\<lparr>ct_id = 1, ct_value = v\<rparr>]"
    using assms by (simp add: audit_ok_def)
  obtain t where t: "table_create audit_log_table (\<lambda>_. entry_row e (v + 1)) ?d1 =
      (Inr (tb_seq (db_audit_log ?d1) + 1), ?d1\<lparr>db_audit_log := t\<rparr>)"
      "tb_rows t = tb_rows (db_audit_log d) @ [entry_row e (v + 1)]"
    using entry_create [of ?d1 "v + 1" e] assms by (auto simp: audit_ok_def)
  obtain d' where d': "for_each (pe_refs e) (insert_ref (v + 1)) (?d1\<lparr>db_audit_log := t\<rparr>) = (Inr (), d')"
      "db_audit_log d' = t" "tb_rows (db_audit_log_counter d') = [\<lparr>ct_id = 1, ct_value = v + 1\<rparr>]"
      "same_but_audit (?d1\<lparr>db_audit_log := t\<rparr>) d'"
    using for_each_refs_ok [of "pe_refs e" "v + 1" "?d1\<lparr>db_audit_log := t\<rparr>"] by auto
  have r: "table_read_one audit_log_counter_table (\<lambda>r. ct_id r = 1) ?d1 = Some \<lparr>ct_id = 1, ct_value = v + 1\<rparr>"
    by (simp add: table_read_one_def audit_log_counter_table_def)
  have "insert_entry e d = (Inr (), d')"
    unfolding insert_entry_def
    by (simp add: and_then_def seq_def counter_update [OF c] unless_raise_def ret_def reading_def r t(1) d'(1))
  moreover have "same_but_audit d d'"
    by (rule same_but_audit_trans [OF _ d'(4)]) (simp add: same_but_audit_def)
  moreover have "audit_ok (v + 1) d'"
    using assms d' t(2) by (auto simp: audit_ok_def entry_row_def)
  ultimately show ?thesis using d'(2) t(2) by auto
qed

lemma insert_entries_ok:
  assumes "audit_ok v d"
  shows "\<exists>d'. for_each es insert_entry d = (Inr (), d') \<and> audit_ok (v + int (length es)) d' \<and>
    same_but_audit d d' \<and> tb_rows (db_audit_log d') = tb_rows (db_audit_log d) @ numbered v es"
  using assms
proof (induction es arbitrary: v d)
  case (Cons e es)
  obtain d1 where d1: "insert_entry e d = (Inr (), d1)" "audit_ok (v + 1) d1" "same_but_audit d d1"
      "tb_rows (db_audit_log d1) = tb_rows (db_audit_log d) @ [entry_row e (v + 1)]"
    using insert_entry_ok [OF Cons.prems] by blast
  obtain d2 where "for_each es insert_entry d1 = (Inr (), d2)" "audit_ok (v + 1 + int (length es)) d2"
      "same_but_audit d1 d2" "tb_rows (db_audit_log d2) = tb_rows (db_audit_log d1) @ numbered (v + 1) es"
    using Cons.IH [OF d1(2)] by blast
  then show ?case
    using d1 by (auto simp: seq_def and_then_def algebra_simps intro: same_but_audit_trans)
qed (simp add: ret_def)

section \<open>Rejections\<close>

lemma write_rejection_ok:
  assumes "audit_ok v d" and "pr_foreign_author r = None \<or> pr_by_identity_id r = None"
  shows "\<exists>d' e. write_rejection r d = (Inr (), d') \<and> audit_ok (v + 1) d' \<and> same_but_audit d d' \<and>
    tb_rows (db_audit_log d') = tb_rows (db_audit_log d) @ [entry_row e (v + 1)] \<and>
    pe_type e = pr_type r \<and> pe_details e = pr_details r"
proof -
  obtain e where e: "make_entry (pr_type r) (pr_at r) (pr_by_identity_id r) (pr_details r)
      (pr_foreign_author r) d = Inr e" "pe_type e = pr_type r" "pe_details e = pr_details r"
    using assms(2) by (auto simp: make_entry_def)
  then show ?thesis
    using insert_entry_ok [OF assms(1), of e]
    by (auto simp: write_rejection_def and_then_def reading_def lifting_def)
qed

lemma keeps_same_but_audit:
  assumes "\<And>d. same_but_audit d (snd (m d))"
  shows "keeps (same_but_audit d0) m"
  using assms by (auto intro!: keepsI intro: same_but_audit_trans)

lemma keeps_same_insert_entry: "keeps (same_but_audit d0) (insert_entry e)"
proof -
  have 1: "keeps (same_but_audit d0) (table_update audit_log_counter_table f p)" for f p
    by (rule keeps_same_but_audit)
      (simp add: table_update_def audit_log_counter_table_def same_but_audit_def Let_def split: option.split)
  have 2: "keeps (same_but_audit d0) (table_create audit_log_table mk)" for mk
    by (rule keeps_same_but_audit)
      (simp add: table_create_def insert_row_def audit_log_table_def same_but_audit_def Let_def
        split: option.split)
  have 3: "keeps (same_but_audit d0) (for_each rs (insert_ref n))" for rs n
  proof (rule keeps_same_but_audit)
    fix d show "same_but_audit d (snd (for_each rs (insert_ref n) d))"
      using for_each_refs_ok [of rs n d] by auto
  qed
  show ?thesis unfolding insert_entry_def by (intro keeps_rules 1 2 3)
qed

lemma keeps_same_write_rejection: "keeps (same_but_audit d0) (write_rejection r)"
  unfolding write_rejection_def by (intro keeps_rules keeps_same_insert_entry)

lemma write_rejections_ok:
  assumes "audit_ok v d" and "\<forall>r\<in>set rs. pr_foreign_author r = None \<or> pr_by_identity_id r = None"
  shows "\<exists>d' es. for_each rs write_rejection d = (Inr (), d') \<and> same_but_audit d d' \<and>
    tb_rows (db_audit_log d') = tb_rows (db_audit_log d) @ numbered v es \<and>
    map pe_type es = map pr_type rs \<and> map pe_details es = map pr_details rs"
  using assms
proof (induction rs arbitrary: v d)
  case (Cons r rs)
  obtain d1 e where d1: "write_rejection r d = (Inr (), d1)" "audit_ok (v + 1) d1" "same_but_audit d d1"
      "tb_rows (db_audit_log d1) = tb_rows (db_audit_log d) @ [entry_row e (v + 1)]"
      "pe_type e = pr_type r" "pe_details e = pr_details r"
    using write_rejection_ok [OF Cons.prems(1), of r] Cons.prems(2) by auto
  obtain d2 es where "for_each rs write_rejection d1 = (Inr (), d2)" "same_but_audit d1 d2"
      "tb_rows (db_audit_log d2) = tb_rows (db_audit_log d1) @ numbered (v + 1) es"
      "map pe_type es = map pr_type rs" "map pe_details es = map pr_details rs"
    using Cons.IH [OF d1(2)] Cons.prems(2) by auto
  then show ?case
    using d1 by (intro exI [of _ d2] exI [of _ "e # es"])
      (auto simp: seq_def and_then_def intro: same_but_audit_trans)
qed (simp add: ret_def)

text \<open>
  What a request that was undone leaves: the tables it found, except for the audit log, which gains the
  warnings that were deferred if the exception is a problem response and nothing if it is another.
\<close>

definition undone :: "int \<Rightarrow> exn \<Rightarrow> pending_rejection list \<Rightarrow> app_db \<Rightarrow> app_db \<Rightarrow> bool" where
  "undone v e rs d d' \<longleftrightarrow> same_but_audit d d' \<and>
    (case e of
       Http _ \<Rightarrow> (\<exists>es. tb_rows (db_audit_log d') = tb_rows (db_audit_log d) @ numbered v es \<and>
         map pe_type es = map pr_type rs \<and> map pe_details es = map pr_details rs)
     | _ \<Rightarrow> d' = d)"

lemma roll_back_undone:
  assumes "audit_ok v d" and "\<forall>r\<in>set (df_after_rollback (w_deferred w)). pr_foreign_author r = None \<or> pr_by_identity_id r = None"
  shows "undone v e (df_after_rollback (w_deferred w)) d (w_db (roll_back e d w))" and "w_outbox (roll_back e d w) = w_outbox w"
  using write_rejections_ok [OF assms] by (auto simp: undone_def roll_back_def run_after_rollback_def split: exn.split)

section \<open>After the commit\<close>

lemma run_after_commit_outbox:
  assumes "run_after_commit perform actions w = (r, w')"
  shows "case r of Inr _ \<Rightarrow> (\<forall>a\<in>set actions. perform a = Inr ()) \<and> w' = w\<lparr>w_outbox := w_outbox w @ actions\<rparr>
    | Inl e \<Rightarrow> (\<exists>sent failed rest. actions = sent @ failed # rest \<and> (\<forall>a\<in>set sent. perform a = Inr ()) \<and>
        perform failed = Inl e \<and> w' = w\<lparr>w_outbox := w_outbox w @ sent\<rparr>)"
  using assms
proof (induction actions arbitrary: w)
  case (Cons a actions)
  show ?case
  proof (cases "perform a")
    case (Inl e)
    then have r: "r = Inl e" and w: "w' = w" using Cons.prems by simp_all
    show ?thesis
      unfolding r w sum.case by (rule exI [of _ "[]"], rule exI [of _ a], rule exI [of _ actions]) (simp add: Inl)
  next
    case (Inr u)
    note ih = Cons.IH [of "w\<lparr>w_outbox := w_outbox w @ [a]\<rparr>"]
    show ?thesis
    proof (cases r)
      case (Inl e)
      obtain sent failed rest where "actions = sent @ failed # rest" "\<forall>a\<in>set sent. perform a = Inr ()"
          "perform failed = Inl e" "w' = w\<lparr>w_outbox := (w_outbox w @ [a]) @ sent\<rparr>"
        using ih Cons.prems Inr Inl by auto
      then show ?thesis using Inr Inl by (auto intro!: exI [of _ "a # sent"])
    qed (use ih Cons.prems Inr in auto)
  qed
qed auto

section \<open>Properties\<close>

text \<open>
  Entries are numbered in commit order without holes. Whatever a handler wrote, if it returns and
  the counter stands at \<open>v\<close> with every stored id at most \<open>v\<close>, then the request commits (writing the
  entries cannot fail), the counter moves by the number of entries, and the log gains exactly those
  entries, in the order they were written, with the ids \<open>v + 1, v + 2, ...\<close>. The actions put off to the commit
  run after it, in order; whether they succeed changes nothing in the database.
\<close>

lemma committed_entries_numbered:
  assumes "handler (w\<lparr>w_deferred := Deferred\<rparr>) = (Inr x, w1)" and "audit_ok v (w_db w1)"
  shows "\<exists>w2. snd (tenant_context perform handler w) = w2 \<and>
    tb_rows (db_audit_log (w_db w2)) =
      tb_rows (db_audit_log (w_db w1)) @ numbered v (df_before_commit (w_deferred w1)) \<and>
    audit_ok (v + int (length (df_before_commit (w_deferred w1)))) (w_db w2) \<and>
    same_but_audit (w_db w1) (w_db w2) \<and>
    ((\<forall>a\<in>set (df_after_commit (w_deferred w1)). perform a = Inr ()) \<longrightarrow>
      fst (tenant_context perform handler w) = Inr x \<and> w_outbox w2 = w_outbox w1 @ df_after_commit (w_deferred w1))"
proof -
  obtain d where d: "for_each (df_before_commit (w_deferred w1)) insert_entry (w_db w1) = (Inr (), d)"
      "audit_ok (v + int (length (df_before_commit (w_deferred w1)))) d" "same_but_audit (w_db w1) d"
      "tb_rows (db_audit_log d) = tb_rows (db_audit_log (w_db w1)) @ numbered v (df_before_commit (w_deferred w1))"
    using insert_entries_ok [OF assms(2)] by blast
  obtain r w2 where r: "run_after_commit perform (df_after_commit (w_deferred w1)) (w1\<lparr>w_db := d, w_deferred := Deferred\<rparr>) = (r, w2)"
    by (rule prod.exhaust)
  have "tenant_context perform handler w = (map_sum id (\<lambda>_. x) r, w2)"
    using assms(1) d(1) r by (simp add: tenant_context_def split: sum.split)
  moreover have "w_db w2 = d" using run_after_commit_outbox [OF r] by (auto split: sum.splits)
  ultimately show ?thesis using d run_after_commit_outbox [OF r] by (auto split: sum.splits)
qed

text \<open>
  C38. A request that fails is undone, unless it was committed before it failed. If the handler raised, or
  an entry could not be written, no table of the tenant database changes except those of the audit log,
  nothing is sent, and the audit log gains exactly the warnings that were deferred, numbered on, if the exception
  is a problem response, and nothing otherwise. If the handler returned and its entries were written, then
  all that it wrote stays: the error is that of an action after the commit, the first that failed, those before it were carried
  out and those after it are not tried. So an error about an email or a command to a host does not take the
  invitation or the audit entry back.
\<close>

theorem failed_request_undone_or_committed:
  assumes "tenant_context perform handler w = (Inl e, w')" and "\<And>v. w_outbox (snd (handler v)) = w_outbox v"
    and "handler (w\<lparr>w_deferred := Deferred\<rparr>) = (result, w1)" and "audit_ok v (w_db w)"
    and "\<forall>r\<in>set (df_after_rollback (w_deferred w1)). pr_foreign_author r = None \<or> pr_by_identity_id r = None"
  shows "case result of
      Inl e' \<Rightarrow> e' = e \<and> undone v e (df_after_rollback (w_deferred w1)) (w_db w) (w_db w') \<and> w_outbox w' = w_outbox w
    | Inr _ \<Rightarrow> (case for_each (df_before_commit (w_deferred w1)) insert_entry (w_db w1) of
        (Inl e', _) \<Rightarrow> e' = e \<and> undone v e (df_after_rollback (w_deferred w1)) (w_db w) (w_db w') \<and> w_outbox w' = w_outbox w
      | (Inr _, committed) \<Rightarrow> w_db w' = committed \<and>
          (\<exists>sent failed rest. df_after_commit (w_deferred w1) = sent @ failed # rest \<and>
            (\<forall>a\<in>set sent. perform a = Inr ()) \<and> perform failed = Inl e \<and> w_outbox w' = w_outbox w @ sent))"
proof -
  have o1: "w_outbox w1 = w_outbox w" using assms(2) [of "w\<lparr>w_deferred := Deferred\<rparr>"] assms(3) by simp
  note undo = roll_back_undone [OF assms(4,5), of e]
  show ?thesis
  proof (cases result)
    case (Inl e')
    then show ?thesis using assms(1,3) undo o1 by (auto simp: tenant_context_def)
  next
    case (Inr x)
    obtain r d where d: "for_each (df_before_commit (w_deferred w1)) insert_entry (w_db w1) = (r, d)" by (rule prod.exhaust)
    show ?thesis
    proof (cases r)
      case (Inl e')
      then show ?thesis using assms(1,3) Inr d undo o1 by (auto simp: tenant_context_def)
    next
      case (Inr u)
      then have "run_after_commit perform (df_after_commit (w_deferred w1)) (w1\<lparr>w_db := d, w_deferred := Deferred\<rparr>) = (Inl e, w')"
        using assms(1,3) \<open>result = Inr x\<close> d by (auto simp: tenant_context_def split: prod.splits sum.splits)
      from run_after_commit_outbox [OF this] show ?thesis using \<open>result = Inr x\<close> Inr d o1 by auto
    qed
  qed
qed

definition two_entries :: "unit handler" where
  "two_entries = seq (audit_create sample_cx TAG_CREATE [] [(''id'', DInt 1), (''name'', DStr ''env'')])
    (audit_create sample_cx TAG_DELETE [] [(''id'', DInt 1), (''name'', DStr ''env'')])"

lemma two_entries_run:
  "\<exists>e1 e2. two_entries (empty_world\<lparr>w_deferred := Deferred\<rparr>) =
    (Inr (), empty_world\<lparr>w_deferred := Deferred\<lparr>df_before_commit := [e1, e2]\<rparr>\<rparr>)"
  by (simp add: two_entries_def audit_create_def audit_write_def before_commit_def act_defs
      reads_def make_entry_def sample_cx_def Deferred_def empty_world_def Let_def)

lemma two_entries_outbox: "w_outbox (snd (seq two_entries m v)) = w_outbox (snd (m (snd (two_entries v))))"
    "w_outbox (snd (two_entries v)) = w_outbox v"
  by (simp_all add: two_entries_def audit_create_def audit_write_def before_commit_def act_defs
      reads_def make_entry_def sample_cx_def Let_def)

lemma empty_audit_ok: "audit_ok 0 (w_db empty_world)"
  by (simp add: audit_ok_def empty_world_def empty_db_def empty_table_def)

lemma committed_entries_numbered_witness:
  "\<exists>w2. tenant_context perform two_entries empty_world = (Inr (), w2) \<and>
    map al_id (tb_rows (db_audit_log (w_db w2))) = [1, 2]"
proof -
  obtain e1 e2 where h: "two_entries (empty_world\<lparr>w_deferred := Deferred\<rparr>) =
      (Inr (), empty_world\<lparr>w_deferred := Deferred\<lparr>df_before_commit := [e1, e2]\<rparr>\<rparr>)"
    using two_entries_run by blast
  from committed_entries_numbered [of two_entries empty_world "()" _ 0 perform, OF h] empty_audit_ok show ?thesis
    by (cases "tenant_context perform two_entries empty_world")
      (auto simp: empty_world_def empty_db_def empty_table_def entry_row_def Deferred_def)
qed

text \<open>One request that raises an exception after its entries, and one whose email cannot be sent.\<close>

definition raises_late :: "unit handler" where
  "raises_late = seq two_entries (raising KeyError)"

definition mails_late :: "unit handler" where
  "mails_late = seq two_entries (after_commit (SendMail ''ann'' ''https://pf.example?invitation=k''))"

definition mail_down :: outside where
  "mail_down = \<lparr>out_mail = (\<lambda>_ _ _. Some ''down''), out_token = (\<lambda>_ _ _. Carried_Out)\<rparr>"

theorem failed_request_undone_or_committed_witness:
  "w_db (snd (tenant_context (perform_effect mail_down) raises_late empty_world)) = empty_db \<and>
    map al_id (tb_rows (db_audit_log (w_db (snd (tenant_context (perform_effect mail_down) mails_late empty_world))))) = [1, 2] \<and>
    (\<exists>p. fst (tenant_context (perform_effect mail_down) mails_late empty_world) = Inl (Http p) \<and> status_code p = 502)"
proof -
  obtain e1 e2 where h: "two_entries (empty_world\<lparr>w_deferred := Deferred\<rparr>) =
      (Inr (), empty_world\<lparr>w_deferred := Deferred\<lparr>df_before_commit := [e1, e2]\<rparr>\<rparr>)"
    using two_entries_run by blast
  let ?p = "perform_effect mail_down"
  let ?mail = "SendMail ''ann'' ''https://pf.example?invitation=k''"
  let ?w1 = "empty_world\<lparr>w_deferred := Deferred\<lparr>df_before_commit := [e1, e2], df_after_commit := [?mail]\<rparr>\<rparr>"
  have runs: "raises_late (empty_world\<lparr>w_deferred := Deferred\<rparr>) =
      (Inl KeyError, empty_world\<lparr>w_deferred := Deferred\<lparr>df_before_commit := [e1, e2]\<rparr>\<rparr>)"
    "mails_late (empty_world\<lparr>w_deferred := Deferred\<rparr>) = (Inr (), ?w1)"
    by (simp_all add: raises_late_def mails_late_def seq_def and_then_def h raising_def after_commit_def changing_def)
      (simp add: Deferred_def)
  have out: "w_outbox (snd (raises_late v)) = w_outbox v" "w_outbox (snd (mails_late v)) = w_outbox v" for v
    by (simp_all add: raises_late_def mails_late_def two_entries_outbox raising_def after_commit_def changing_def)
  obtain w' where t: "tenant_context ?p raises_late empty_world = (Inl KeyError, w')"
    by (simp add: tenant_context_def runs)
  have 1: "w_db w' = empty_db"
    using failed_request_undone_or_committed [OF t out(1) runs(1) empty_audit_ok]
    by (simp add: undone_def Deferred_def empty_world_def)
  have failed: "?p ?mail = Inl (Http (problem_response 502 about_blank
      (Some ''The invitation was created but its email could not be sent'') (Some ''down'')))"
    by (simp add: perform_effect_def send_invitation_def mail_down_def)
  obtain d where d: "for_each (df_before_commit (w_deferred ?w1)) insert_entry (w_db ?w1) = (Inr (), d)"
      "map al_id (tb_rows (db_audit_log d)) = [1, 2]"
    using insert_entries_ok [OF empty_audit_ok, of "[e1, e2]"]
    by (auto simp: empty_world_def empty_db_def empty_table_def entry_row_def)
  have "df_after_commit (w_deferred ?w1) = [?mail]" by simp
  then have m: "\<exists>w2. tenant_context ?p mails_late empty_world = (?p ?mail, w2)"
    unfolding tenant_context_def runs prod.case sum.case d(1) by (simp add: failed)
  from m obtain w2 where w2: "tenant_context ?p mails_late empty_world = (Inl (Http (problem_response 502 about_blank
      (Some ''The invitation was created but its email could not be sent'') (Some ''down''))), w2)"
    unfolding failed by blast
  have "w_db w2 = d"
    using failed_request_undone_or_committed [OF w2 out(2) runs(2) empty_audit_ok] d(1)
    by (simp add: Deferred_def)
  then show ?thesis using d(2) by (simp only: t w2 snd_conv fst_conv 1) (simp add: problem_response_def)
qed

end
