(* ===== verification/Audit_Catalogue.thy ===== *)
theory Audit_Catalogue
  imports Audit_Types
begin

text \<open>
  What the catalogue of audit types promises to the readers of the log and to the purge, by evaluation
  of the whole catalogue.
\<close>

text \<open>
  The joined \<open>type\<close> column identifies the type: no two registered types have the same string, and
  the class that retention derives from the string is exempt for the two exempt constants, activity
  for the nine activity constants and audit for every other one.
\<close>

lemma audit_types_distinct:
  "distinct (map audit_type_string all_types) \<and>
   map (retention_class_of \<circ> audit_type_string) EXEMPT_TYPES = replicate 2 EXEMPT \<and>
   map (retention_class_of \<circ> audit_type_string) ACTIVITY_TYPES = replicate 9 ACTIVITY \<and>
   map (retention_class_of \<circ> audit_type_string)
     (filter (\<lambda>t. t \<notin> set EXEMPT_TYPES \<and> t \<notin> set ACTIVITY_TYPES) all_types) = replicate 34 AUDIT"
  by code_simp

end
