(* ===== verification/Utils.thy ===== *)
theory Utils
  imports Prelude
begin

text \<open>
  \<open>api/model/utils.py\<close>: \<open>group_by\<close> sorts by the key and cuts the sorted list into runs. Looking a key
  up in the result gives the elements that have it, in their original order.
\<close>

fun group_runs :: "('a \<Rightarrow> 'k) \<Rightarrow> 'a list \<Rightarrow> ('k \<times> 'a list) list" where
  "group_runs key [] = []"
| "group_runs key (x # xs) = (case group_runs key xs of
     [] \<Rightarrow> [(key x, [x])]
   | (k, g) # rest \<Rightarrow> if key x = k then (k, x # g) # rest else (key x, [x]) # (k, g) # rest)"

definition group_by :: "('a \<Rightarrow> 'k::linorder) \<Rightarrow> 'a list \<Rightarrow> ('k \<times> 'a list) list" where
  "group_by key xs = group_runs key (sort_key key xs)"

lemma group_runs_first: "group_runs key xs = (k, g) # rest \<Longrightarrow> \<exists>y ys. xs = y # ys \<and> key y = k"
  by (cases xs) (auto split: list.splits if_splits)

lemma map_of_group_runs:
  "sorted (map key xs) \<Longrightarrow> map_of (group_runs key xs) (k::'k::linorder) =
    (if filter (\<lambda>x. key x = k) xs = [] then None else Some (filter (\<lambda>x. key x = k) xs))"
proof (induction xs arbitrary: k)
  case (Cons x xs)
  have IH: "map_of (group_runs key xs) k =
    (if filter (\<lambda>x. key x = k) xs = [] then None else Some (filter (\<lambda>x. key x = k) xs))" for k
    using Cons by simp
  show ?case
  proof (cases "group_runs key xs")
    case Nil
    then have "filter (\<lambda>x. key x = k) xs = []" using IH [of k] by (auto split: if_splits)
    then show ?thesis using Nil by auto
  next
    case runs: (Cons p rest)
    obtain k0 g where p: "p = (k0, g)" by (cases p)
    obtain y ys where y: "xs = y # ys" "key y = k0"
      using group_runs_first runs p by metis
    show ?thesis
    proof (cases "key x = k0")
      case True
      then show ?thesis using runs p IH [of k] by (auto split: if_splits)
    next
      case False
      then have "key x < k0" using Cons.prems y by auto
      then have "filter (\<lambda>z. key z = key x) xs = []" using Cons.prems y by (auto simp: filter_empty_conv)
      then show ?thesis using runs p IH [of k] False by (auto split: if_splits)
    qed
  qed
qed simp

lemma map_of_group_by:
  "map_of (group_by key xs) k =
    (if filter (\<lambda>x. key x = k) xs = [] then None else Some (filter (\<lambda>x. key x = k) xs))"
  by (simp add: group_by_def map_of_group_runs sort_key_stable)

lemma get_or_group_by:
  "get_or (map (\<lambda>(k, g). (k, map f g)) (group_by key xs)) k [] = map f (filter (\<lambda>x. key x = k) xs)"
  by (simp add: get_or_def map_of_map_snd map_of_group_by)

end
