(* ===== verification/Model_Policy.thy ===== *)
theory Model_Policy
  imports Audit_Log Utils
begin

text \<open>
  \<open>api/model/boundary.py\<close> and \<open>api/model/role.py\<close>: the policy objects of a tenant. Every operation is
  the whole function, its audit entries included. An argument that may be \<open>UNSET\<close> is an option, so the
  ceiling of an update is an option of an option: \<open>Some None\<close> removes the ceiling.
\<close>

section \<open>Boundaries\<close>

definition opt_grants :: "grant list option \<Rightarrow> detail" where
  "opt_grants l = (case l of None \<Rightarrow> DNull | Some gs \<Rightarrow> DGrants gs)"

definition or_empty :: "'a list option \<Rightarrow> 'a list" where
  "or_empty l = (case l of None \<Rightarrow> [] | Some xs \<Rightarrow> xs)"

definition boundary_create ::
    "request_ctx \<Rightarrow> string \<Rightarrow> string \<Rightarrow> grant list option \<Rightarrow> grant list \<Rightarrow> int handler" where
  "boundary_create cx name description ceiling_list denied_list =
    and_then (creates boundary_table (\<lambda>n. \<lparr>bo_id = n, bo_name = name, bo_description = description,
        bo_ceiling_list = ceiling_list, bo_denied_list = denied_list\<rparr>))
      (\<lambda>boundary_id. seq
        (audit_create_refs cx BOUNDARY_CREATE
          (no_args\<lparr>ra_grants := or_empty ceiling_list @ denied_list\<rparr>)
          [(''id'', DInt boundary_id), (''name'', DStr name), (''description'', DStr description),
           (''ceiling_list'', opt_grants ceiling_list), (''denied_list'', DGrants denied_list)])
        (ret boundary_id))"

definition boundary_from_db :: "boundary_row \<Rightarrow> boundary" where
  "boundary_from_db b = \<lparr>b_id = bo_id b, b_name = bo_name b, b_description = bo_description b,
    b_ceiling_list = bo_ceiling_list b, b_denied_list = bo_denied_list b\<rparr>"

definition boundary_delete :: "request_ctx \<Rightarrow> int \<Rightarrow> bool handler" where
  "boundary_delete cx i =
    and_then (reads_one boundary_table (\<lambda>r. bo_id r = i))
      (\<lambda>row. case row of
         None \<Rightarrow> ret False
       | Some row \<Rightarrow>
           (let boundary = boundary_from_db row
            in and_then (reads (refs_of (no_args\<lparr>ra_grants :=
                   or_empty (b_ceiling_list boundary) @ b_denied_list boundary\<rparr>)))
              (\<lambda>refs. and_then (deletes boundary_table (\<lambda>r. bo_id r = i))
                (\<lambda>n. if n = 0 then ret False
                  else seq (audit_create cx BOUNDARY_DELETE refs
                      [(''id'', DInt i), (''name'', DStr (bo_name row)),
                       (''description'', DStr (bo_description row)),
                       (''ceiling_list'', opt_grants (bo_ceiling_list row)),
                       (''denied_list'', DGrants (bo_denied_list row))])
                    (ret True)))))"

definition boundary_read_all :: "(boundary_row \<Rightarrow> bool) \<Rightarrow> app_db \<Rightarrow> boundary list" where
  "boundary_read_all p db = map boundary_from_db (table_read_all boundary_table p db)"

definition boundary_read_one :: "(boundary_row \<Rightarrow> bool) \<Rightarrow> app_db \<Rightarrow> boundary option" where
  "boundary_read_one p db = map_option boundary_from_db (table_read_one boundary_table p db)"

record boundary_fields =
  bf_name :: "string option"
  bf_description :: "string option"
  bf_ceiling_list :: "grant list option option"
  bf_denied_list :: "grant list option"

definition no_boundary_fields :: boundary_fields where
  "no_boundary_fields = \<lparr>bf_name = None, bf_description = None, bf_ceiling_list = None,
    bf_denied_list = None\<rparr>"

definition set_boundary_fields :: "boundary_fields \<Rightarrow> boundary_row \<Rightarrow> boundary_row" where
  "set_boundary_fields u r = r
    \<lparr>bo_name := (case bf_name u of None \<Rightarrow> bo_name r | Some x \<Rightarrow> x),
     bo_description := (case bf_description u of None \<Rightarrow> bo_description r | Some x \<Rightarrow> x),
     bo_ceiling_list := (case bf_ceiling_list u of None \<Rightarrow> bo_ceiling_list r | Some x \<Rightarrow> x),
     bo_denied_list := (case bf_denied_list u of None \<Rightarrow> bo_denied_list r | Some x \<Rightarrow> x)\<rparr>"

definition old_of :: "'r option \<Rightarrow> ('r \<Rightarrow> detail) \<Rightarrow> detail" where
  "old_of row f = (case row of None \<Rightarrow> DNull | Some r \<Rightarrow> f r)"

definition if_set :: "'a option \<Rightarrow> ('a \<Rightarrow> unit handler) \<Rightarrow> unit handler" where
  "if_set x f = (case x of None \<Rightarrow> ret () | Some y \<Rightarrow> f y)"

definition boundary_update :: "request_ctx \<Rightarrow> int \<Rightarrow> boundary_fields \<Rightarrow> unit handler" where
  "boundary_update cx i u =
    and_then (reads_one boundary_table (\<lambda>r. bo_id r = i)) (\<lambda>old.
      seq (if_set (bf_name u) (\<lambda>name. audit_create cx BOUNDARY_UPDATE_NAME []
        [(''id'', DInt i), (''name'', DStr name), (''old'', old_of old (\<lambda>r. DStr (bo_name r)))]))
      (seq (if_set (bf_description u) (\<lambda>d. audit_create cx BOUNDARY_UPDATE_DESCRIPTION []
        [(''id'', DInt i), (''description'', DStr d),
         (''old'', old_of old (\<lambda>r. DStr (bo_description r)))]))
      (seq (if_set (bf_ceiling_list u) (\<lambda>c. audit_create_refs cx BOUNDARY_UPDATE_CEILING_LIST
        (no_args\<lparr>ra_grants := or_empty c\<rparr>)
        [(''id'', DInt i), (''ceiling_list'', opt_grants c),
         (''old'', old_of old (\<lambda>r. opt_grants (bo_ceiling_list r)))]))
      (seq (if_set (bf_denied_list u) (\<lambda>l. audit_create_refs cx BOUNDARY_UPDATE_DENIED_LIST
        (no_args\<lparr>ra_grants := l\<rparr>)
        [(''id'', DInt i), (''denied_list'', DGrants l),
         (''old'', old_of old (\<lambda>r. DGrants (bo_denied_list r)))]))
      (if u = no_boundary_fields then ret ()
       else seq (updates boundary_table (set_boundary_fields u) (\<lambda>r. bo_id r = i)) (ret ()))))))"

section \<open>Roles\<close>

definition role_create :: "request_ctx \<Rightarrow> string \<Rightarrow> string \<Rightarrow> grant list \<Rightarrow> int handler" where
  "role_create cx name description grant_list =
    and_then (creates role_table (\<lambda>n. \<lparr>ro_id = n, ro_name = name, ro_description = description,
        ro_grant_list = grant_list\<rparr>))
      (\<lambda>role_id. seq
        (audit_create_refs cx ROLE_CREATE (no_args\<lparr>ra_grants := grant_list\<rparr>)
          [(''id'', DInt role_id), (''name'', DStr name), (''description'', DStr description),
           (''grant_list'', DGrants grant_list)])
        (ret role_id))"

definition role_delete :: "request_ctx \<Rightarrow> int \<Rightarrow> bool handler" where
  "role_delete cx i =
    and_then (reads_one role_table (\<lambda>r. ro_id r = i))
      (\<lambda>row. case row of
         None \<Rightarrow> ret False
       | Some row \<Rightarrow>
           and_then (reads (refs_of (no_args\<lparr>ra_grants := ro_grant_list row\<rparr>)))
             (\<lambda>refs. and_then (deletes role_table (\<lambda>r. ro_id r = i))
               (\<lambda>n. if n = 0 then ret False
                 else seq (audit_create cx ROLE_DELETE refs
                     [(''id'', DInt i), (''name'', DStr (ro_name row)),
                      (''description'', DStr (ro_description row)),
                      (''grant_list'', DGrants (ro_grant_list row))])
                   (ret True))))"

definition role_from_db :: "role_row \<Rightarrow> int list \<Rightarrow> role" where
  "role_from_db r members = \<lparr>r_id = ro_id r, r_name = ro_name r, r_description = ro_description r,
    r_grant_list = ro_grant_list r, r_member_id_list = members\<rparr>"

definition role_read_all :: "(role_row \<Rightarrow> bool) \<Rightarrow> app_db \<Rightarrow> role list" where
  "role_read_all p db =
    (let roles = table_read_all role_table p db;
         members = table_read_all role_member_table (\<lambda>m. rm_role_id m \<in> set (map ro_id roles)) db;
         by_role = map (\<lambda>(key, group). (key, map rm_identity_id group)) (group_by rm_role_id members)
     in map (\<lambda>r. role_from_db r (get_or by_role (ro_id r) [])) roles)"

definition role_read_one :: "int \<Rightarrow> app_db \<Rightarrow> role option" where
  "role_read_one i db =
    (let roles = role_read_all (\<lambda>r. ro_id r = i) db
     in if length roles = 0 then None else Some (roles ! 0))"

record role_fields =
  rf_new_name :: "string option"
  rf_new_description :: "string option"
  rf_new_grant_list :: "grant list option"
  rf_added :: "int list option"
  rf_deleted :: "int list option"

definition no_role_fields :: role_fields where
  "no_role_fields = \<lparr>rf_new_name = None, rf_new_description = None, rf_new_grant_list = None,
    rf_added = None, rf_deleted = None\<rparr>"

definition set_role_fields :: "role_fields \<Rightarrow> role_row \<Rightarrow> role_row" where
  "set_role_fields u r = r
    \<lparr>ro_name := (case rf_new_name u of None \<Rightarrow> ro_name r | Some x \<Rightarrow> x),
     ro_description := (case rf_new_description u of None \<Rightarrow> ro_description r | Some x \<Rightarrow> x),
     ro_grant_list := (case rf_new_grant_list u of None \<Rightarrow> ro_grant_list r | Some x \<Rightarrow> x)\<rparr>"

definition role_update :: "request_ctx \<Rightarrow> int \<Rightarrow> role_fields \<Rightarrow> unit handler" where
  "role_update cx i u =
    and_then (reads_one role_table (\<lambda>r. ro_id r = i)) (\<lambda>old.
      seq (if_set (rf_new_name u) (\<lambda>name. audit_create cx ROLE_UPDATE_NAME []
        [(''id'', DInt i), (''name'', DStr name), (''old'', old_of old (\<lambda>r. DStr (ro_name r)))]))
      (seq (if_set (rf_new_description u) (\<lambda>d. audit_create cx ROLE_UPDATE_DESCRIPTION []
        [(''id'', DInt i), (''description'', DStr d),
         (''old'', old_of old (\<lambda>r. DStr (ro_description r)))]))
      (seq (if_set (rf_new_grant_list u) (\<lambda>gs. audit_create_refs cx ROLE_UPDATE_GRANT_LIST
        (no_args\<lparr>ra_grants := gs\<rparr>)
        [(''id'', DInt i), (''grant_list'', DGrants gs),
         (''old'', old_of old (\<lambda>r. DGrants (ro_grant_list r)))]))
      (seq (if rf_new_name u \<noteq> None \<or> rf_new_description u \<noteq> None \<or> rf_new_grant_list u \<noteq> None
        then seq (updates role_table (set_role_fields u) (\<lambda>r. ro_id r = i)) (ret ()) else ret ())
      (seq (if_set (rf_added u) (\<lambda>added. if length added = 0 then ret () else
        seq (for_each added (\<lambda>member_id. seq (creates role_member_table (\<lambda>n.
            \<lparr>rm_id = n, rm_role_id = i, rm_identity_id = member_id\<rparr>)) (ret ())))
          (audit_create_refs cx ROLE_ADD_MEMBERS (no_args\<lparr>ra_identities := added\<rparr>)
            [(''id'', DInt i), (''added_member_id_list'', DInts added)])))
      (if_set (rf_deleted u) (\<lambda>deleted. if length deleted = 0 then ret () else
        seq (deletes role_member_table (\<lambda>m. rm_role_id m = i \<and> rm_identity_id m \<in> set deleted))
          (audit_create_refs cx ROLE_REMOVE_MEMBERS (no_args\<lparr>ra_identities := deleted\<rparr>)
            [(''id'', DInt i), (''deleted_member_id_list'', DInts deleted)]))))))))"

section \<open>What the operations leave alone\<close>

lemma keeps_on_db [intro]: "(\<And>d. P d \<Longrightarrow> P (snd (m d))) \<Longrightarrow> keeps (\<lambda>w. P (w_db w)) (on_db m)"
  by (auto simp: keeps_def on_db_def split: prod.splits) (metis snd_conv)

lemma keeps_db_before_commit [keeps_rules, intro]: "keeps (\<lambda>w. P (w_db w)) (before_commit e)"
  "keeps (\<lambda>w. P (w_db w)) (after_commit f)" "keeps (\<lambda>w. P (w_db w)) (after_rollback g)"
  by (simp_all add: keeps_def before_commit_def after_commit_def after_rollback_def changing_def)

lemma keeps_db_audit [keeps_rules, intro]:
  "keeps (\<lambda>w. P (w_db w)) (audit_create cx t r ds)"
  "keeps (\<lambda>w. P (w_db w)) (audit_create_refs cx t ra ds)"
  "keeps (\<lambda>w. P (w_db w)) (create_after_rollback cx t ds)"
proof -
  show 1: "keeps (\<lambda>w. P (w_db w)) (audit_create cx t r ds)" for r
    unfolding audit_create_def audit_write_def Let_def by (intro keeps_rules)
  show "keeps (\<lambda>w. P (w_db w)) (audit_create_refs cx t ra ds)"
    unfolding audit_create_refs_def by (intro keeps_rules 1)
  show "keeps (\<lambda>w. P (w_db w)) (create_after_rollback cx t ds)"
    unfolding create_after_rollback_def by (intro keeps_rules)
qed

lemma keeps_if_set [keeps_rules, intro]: "(\<And>y. keeps P (f y)) \<Longrightarrow> keeps P (if_set x f)"
  by (simp add: if_set_def keeps_ret split: option.split)

end
