(* ===== verification/Runs.thy ===== *)
theory Runs
  imports Model_Policy
begin

text \<open>
  A logic for handlers that succeed: \<open>runs m w x d\<close> says that \<open>m\<close> returns \<open>x\<close> from the world \<open>w\<close>, leaves
  the database \<open>d\<close>, and otherwise only adds to the audit entries that wait for the commit. The rules
  compose along the handlers, so the effect of an operation is that of its statements in order.
\<close>

definition only_logged :: "deferred \<Rightarrow> deferred \<Rightarrow> bool" where
  "only_logged df df' \<longleftrightarrow> df_after_commit df' = df_after_commit df \<and>
    df_after_rollback df' = df_after_rollback df \<and>
    (\<exists>es. df_before_commit df' = df_before_commit df @ es)"

definition runs :: "'a handler \<Rightarrow> world \<Rightarrow> 'a \<Rightarrow> app_db \<Rightarrow> bool" where
  "runs m w x d \<longleftrightarrow>
    (\<exists>df. m w = (Inr x, w\<lparr>w_db := d, w_deferred := df\<rparr>) \<and> only_logged (w_deferred w) df)"

definition author_ok :: "request_ctx \<Rightarrow> bool" where
  "author_ok cx \<longleftrightarrow> cx_foreign_author cx = None \<or> cx_identity_id cx = None"

lemma author_ok_cause [simp]: "author_ok (with_cause ot i n ac cx) = author_ok cx"
  by (simp add: author_ok_def with_cause_def)

lemma only_logged_refl [simp]: "only_logged df df"
  by (simp add: only_logged_def)

lemma only_logged_trans: "only_logged a b \<Longrightarrow> only_logged b c \<Longrightarrow> only_logged a c"
  by (auto simp: only_logged_def)

lemma world_same [simp]: "w\<lparr>w_db := w_db w, w_deferred := w_deferred w\<rparr> = w"
  by simp

lemma runs_ret: "runs (ret x) w x (w_db w)"
  by (auto simp: runs_def ret_def intro!: exI [of _ "w_deferred w"])

lemma runs_reads: "runs (reads f) w (f (w_db w)) (w_db w)"
  by (auto simp: runs_def reads_run intro!: exI [of _ "w_deferred w"])

lemma runs_reads_all: "runs (reads_all td p) w (table_read_all td p (w_db w)) (w_db w)"
  by (simp add: reads_all_def runs_reads)

lemma runs_reads_one: "runs (reads_one td p) w (table_read_one td p (w_db w)) (w_db w)"
  by (simp add: reads_one_def runs_reads)

lemma runs_and_then:
  assumes "runs m w x d" and "\<And>w'. w_db w' = d \<Longrightarrow> runs (f x) w' y d'"
  shows "runs (and_then m f) w y d'"
proof -
  obtain df where df: "m w = (Inr x, w\<lparr>w_db := d, w_deferred := df\<rparr>)" "only_logged (w_deferred w) df"
    using assms(1) by (auto simp: runs_def)
  obtain df' where "f x (w\<lparr>w_db := d, w_deferred := df\<rparr>) = (Inr y, w\<lparr>w_db := d', w_deferred := df'\<rparr>)"
      "only_logged df df'"
    using assms(2) [of "w\<lparr>w_db := d, w_deferred := df\<rparr>"] by (auto simp: runs_def)
  then show ?thesis using df by (auto simp: runs_def and_then_def intro: only_logged_trans)
qed

lemma runs_seq:
  "runs m w x d \<Longrightarrow> (\<And>w'. w_db w' = d \<Longrightarrow> runs n w' y d') \<Longrightarrow> runs (seq m n) w y d'"
  unfolding seq_def by (rule runs_and_then)

lemma runs_on_db: "m (w_db w) = (Inr x, d) \<Longrightarrow> runs (on_db m) w x d"
  by (auto simp: runs_def on_db_def intro!: exI [of _ "w_deferred w"])

lemma runs_before_commit: "runs (before_commit e) w () (w_db w)"
proof -
  have "before_commit e w =
    (Inr (), w\<lparr>w_db := w_db w, w_deferred := (w_deferred w)\<lparr>df_before_commit := df_before_commit (w_deferred w) @ [e]\<rparr>\<rparr>)"
    by (simp add: before_commit_def changing_def)
  then show ?thesis unfolding runs_def only_logged_def by fastforce
qed

lemma runs_lifting: "runs (lifting (Inr x)) w x (w_db w)"
  by (auto simp: runs_def lifting_def intro!: exI [of _ "w_deferred w"])

lemma runs_audit:
  assumes "author_ok cx"
  shows "runs (audit_create cx t r ds) w () (w_db w)"
proof -
  have "runs (audit_write t at (cx_identity_id cx) ds' (cx_foreign_author cx)) w () (w_db w)" for at ds'
    unfolding audit_write_def
  proof (rule runs_and_then [OF runs_reads])
    fix w' :: world assume "w_db w' = w_db w"
    moreover obtain e where "make_entry t at (cx_identity_id cx) ds' (cx_foreign_author cx) (w_db w) = Inr e"
      using assms by (auto simp: make_entry_def author_ok_def)
    ultimately show "runs (and_then (lifting (make_entry t at (cx_identity_id cx) ds'
        (cx_foreign_author cx) (w_db w))) before_commit) w' () (w_db w)"
      by (auto intro!: runs_and_then [OF runs_lifting]) (metis runs_before_commit)
  qed
  then show ?thesis by (simp add: audit_create_def Let_def)
qed

lemma runs_audit_refs: "author_ok cx \<Longrightarrow> runs (audit_create_refs cx t ra ds) w () (w_db w)"
  unfolding audit_create_refs_def by (rule runs_and_then [OF runs_reads]) (metis runs_audit)

lemma seq_ret [simp]: "seq (ret x) m = m"
  by (simp add: seq_def and_then_def ret_def)

lemma if_set_simps [simp]: "if_set None f = ret ()" "if_set (Some x) f = f x"
  by (simp_all add: if_set_def)

lemma runs_then_ret: "runs m w x d \<Longrightarrow> runs (seq m (ret y)) w y d"
  by (rule runs_seq, assumption) (metis runs_ret)

lemma runs_if_set: "(\<And>y. x = Some y \<Longrightarrow> runs (f y) w () (w_db w)) \<Longrightarrow> runs (if_set x f) w () (w_db w)"
  by (cases x) (simp_all add: runs_ret)

lemma runs_result: "runs m w x d \<Longrightarrow> \<exists>w'. m w = (Inr x, w') \<and> w_db w' = d \<and> w_outbox w' = w_outbox w"
  by (auto simp: runs_def)

section \<open>Statements\<close>

definition table_ok :: "(app_db, 'r) table_def \<Rightarrow> app_db \<Rightarrow> bool" where
  "table_ok td d \<longleftrightarrow> clashes (td_unique td) (tb_rows (td_get td d)) = None"

lemma clashes_map:
  assumes "\<And>c a b. c \<in> set u \<Longrightarrow> snd c (f a) (f b) = snd c a b"
  shows "clashes u (map f rs) = clashes u rs"
proof (induction rs)
  case (Cons r rs)
  have "violated u (f r) (map f rs) = violated u r rs"
  proof -
    have "list_ex (snd c (f r)) (map f rs) = list_ex (snd c r) rs" if "c \<in> set u" for c
      using assms [OF that] by (simp add: list_ex_iff)
    then show ?thesis
      unfolding violated_def by (intro arg_cong [where f = "map_option fst"] find_cong) auto
  qed
  then show ?case using Cons by (simp split: option.split)
qed simp

lemma update_no_clash:
  assumes "table_ok td d" and "\<And>c a b. c \<in> set (td_unique td) \<Longrightarrow>
      snd c (if p a then f a else a) (if p b then f b else b) = snd c a b"
    and "td_upd td (\<lambda>_. td_get td d) d = d"
  shows "\<exists>n. table_update td f p d = (Inr n, td_upd td (\<lambda>_. update_rows p f (td_get td d)) d)"
proof -
  have "clashes (td_unique td) (tb_rows (update_rows p f (td_get td d))) = None"
    using assms(1) clashes_map [of "td_unique td" "\<lambda>r. if p r then f r else r" "tb_rows (td_get td d)"] assms(2)
    by (simp add: update_rows_def table_ok_def)
  moreover have "update_rows p f (td_get td d) = td_get td d" if "\<not> list_ex p (tb_rows (td_get td d))"
    using that by (cases "td_get td d") (auto simp: update_rows_def list_ex_iff intro!: map_idI)
  ultimately show ?thesis using assms(3) by (auto simp: table_update_def Let_def)
qed

end
