(* ===== verification/Grant_Removal.thy ===== *)
theory Grant_Removal
  imports Runs
begin

text \<open>
  \<open>api/model/tag_grants.py\<close>, \<open>identity_grants.py\<close> and \<open>bastion_grants.py\<close>: when an object is deleted, the
  grants of every role and boundary that name it are dropped or rewritten. The three modules share
  one shape, written once over the test (\<open>names\<close>) and the rewriting of a list; each module is an
  instance. The interface \<open>grant_rewriter\<close> states what a rewriting must do, and the lemmas about
  \<open>remove\<close> are proved once from it.
\<close>

section \<open>Which grants name an object\<close>

definition filter_tags :: "grant \<Rightarrow> int list option" where
  "filter_tags g = (case as_triplet g of
     Some f \<Rightarrow> tf_tag_id_list f
   | None \<Rightarrow> (case as_live g of Some l \<Rightarrow> lf_tag_id_list (g_filter l) | None \<Rightarrow> None))"

definition filter_names :: "grant \<Rightarrow> int \<Rightarrow> bool" where
  "filter_names g tag_id = (case filter_tags g of None \<Rightarrow> False | Some l \<Rightarrow> tag_id \<in> set l)"

definition opt_names :: "int list option \<Rightarrow> int \<Rightarrow> bool" where
  "opt_names l i = (case l of None \<Rightarrow> False | Some xs \<Rightarrow> i \<in> set xs)"

definition permission_names :: "grant \<Rightarrow> int \<Rightarrow> bool" where
  "permission_names g tag_id = (case as_identity g of
     None \<Rightarrow> False
   | Some i \<Rightarrow>
       (let p = g_permission i
        in if opt_names (ip_add_tag_id_list p) tag_id then True
           else if opt_names (ip_del_tag_id_list p) tag_id then True
           else (case ip_create p of None \<Rightarrow> False
             | Some c \<Rightarrow> opt_names (ic_allowed_tag_id_list c) tag_id)))"

definition tag_object_names :: "grant \<Rightarrow> int \<Rightarrow> bool" where
  "tag_object_names g tag_id =
    (case as_tag g of None \<Rightarrow> False | Some t \<Rightarrow> f_id (g_filter t) = Some tag_id)"

definition tag_references :: "int \<Rightarrow> grant \<Rightarrow> bool" where
  "tag_references tag_id g \<longleftrightarrow> filter_names g tag_id \<or> permission_names g tag_id"

definition tag_names :: "int \<Rightarrow> grant \<Rightarrow> bool" where
  "tag_names tag_id g \<longleftrightarrow> tag_references tag_id g \<or> tag_object_names g tag_id"

definition identity_names :: "int \<Rightarrow> grant \<Rightarrow> bool" where
  "identity_names identity_id g =
    (case as_triplet g of None \<Rightarrow> False | Some f \<Rightarrow> tf_id f = Some identity_id)"

definition bastion_names :: "int \<Rightarrow> grant \<Rightarrow> bool" where
  "bastion_names bastion_id g =
    (case as_bastion g of None \<Rightarrow> False | Some b \<Rightarrow> f_id (g_filter b) = Some bastion_id)"

section \<open>Rewriting a list of grants\<close>

definition drop_id :: "int \<Rightarrow> int list option \<Rightarrow> int list option" where
  "drop_id i l = (case l of None \<Rightarrow> None
    | Some xs \<Rightarrow> if i \<in> set xs then Some (filter (\<lambda>t. t \<noteq> i) xs) else Some xs)"

definition without_tag :: "int \<Rightarrow> identity_grant \<Rightarrow> identity_grant" where
  "without_tag tag_id g =
    (let p = g_permission g
     in g\<lparr>g_permission := p
      \<lparr>ip_add_tag_id_list := drop_id tag_id (ip_add_tag_id_list p),
       ip_del_tag_id_list := drop_id tag_id (ip_del_tag_id_list p),
       ip_create := (case ip_create p of None \<Rightarrow> None
         | Some c \<Rightarrow> Some (c\<lparr>ic_allowed_tag_id_list := drop_id tag_id (ic_allowed_tag_id_list c)\<rparr>))\<rparr>\<rparr>)"

fun tag_rewrite :: "int \<Rightarrow> grant list \<Rightarrow> grant list" where
  "tag_rewrite tag_id [] = []"
| "tag_rewrite tag_id (g # gs) =
    (if filter_names g tag_id \<or> tag_object_names g tag_id then tag_rewrite tag_id gs
     else if permission_names g tag_id then
       (case as_identity g of
          Some i \<Rightarrow> IdentityGrant (without_tag tag_id i) # tag_rewrite tag_id gs
        | None \<Rightarrow> tag_rewrite tag_id gs)
     else g # tag_rewrite tag_id gs)"

definition identity_without :: "int \<Rightarrow> grant list \<Rightarrow> grant list" where
  "identity_without identity_id grants = filter (\<lambda>g. \<not> identity_names identity_id g) grants"

definition bastion_without :: "int \<Rightarrow> grant list \<Rightarrow> grant list" where
  "bastion_without bastion_id grants = filter (\<lambda>g. \<not> bastion_names bastion_id g) grants"

section \<open>Finding and removing\<close>

record owner =
  ow_type :: string
  ow_id :: int
  ow_name :: string

definition dedup :: "'a list \<Rightarrow> 'a list" where
  "dedup xs = map fst (dict_of xs (\<lambda>_. ()))"

definition find_owners :: "(grant \<Rightarrow> bool) \<Rightarrow> app_db \<Rightarrow> owner list" where
  "find_owners refers db =
    map (\<lambda>r. \<lparr>ow_type = ''role'', ow_id = r_id r, ow_name = r_name r\<rparr>)
      (filter (\<lambda>r. list_ex refers (r_grant_list r)) (role_read_all (\<lambda>_. True) db)) @
    map (\<lambda>b. \<lparr>ow_type = ''boundary'', ow_id = b_id b, ow_name = b_name b\<rparr>)
      (filter (\<lambda>b. list_ex refers (b_denied_list b @ or_empty (b_ceiling_list b)))
        (boundary_read_all (\<lambda>_. True) db))"

definition remove_from_role ::
    "request_ctx \<Rightarrow> (grant \<Rightarrow> bool) \<Rightarrow> (grant list \<Rightarrow> grant list) \<Rightarrow> role \<Rightarrow> owner list handler" where
  "remove_from_role cx names rewrite r =
    (if filter names (r_grant_list r) = [] then ret []
     else seq (role_update cx (r_id r)
         (no_role_fields\<lparr>rf_new_grant_list := Some (rewrite (r_grant_list r))\<rparr>))
       (ret [\<lparr>ow_type = ''role'', ow_id = r_id r, ow_name = r_name r\<rparr>]))"

definition remove_from_boundary ::
    "request_ctx \<Rightarrow> (grant \<Rightarrow> bool) \<Rightarrow> (grant list \<Rightarrow> grant list) \<Rightarrow> boundary \<Rightarrow> owner list handler" where
  "remove_from_boundary cx names rewrite b =
    (let denied_hit = filter names (b_denied_list b) \<noteq> [];
         ceiling_hit = filter names (or_empty (b_ceiling_list b)) \<noteq> [];
         owner = \<lparr>ow_type = ''boundary'', ow_id = b_id b, ow_name = b_name b\<rparr>
     in if \<not> denied_hit \<and> \<not> ceiling_hit then ret []
        else seq (boundary_update cx (b_id b) (no_boundary_fields
          \<lparr>bf_denied_list := (if denied_hit then Some (rewrite (b_denied_list b)) else None),
           bf_ceiling_list := (if ceiling_hit then Some (Some (rewrite (or_empty (b_ceiling_list b))))
             else None)\<rparr>))
        (ret ((if denied_hit then [owner] else []) @ (if ceiling_hit then [owner] else []))))"

definition remove_grants ::
    "request_ctx \<Rightarrow> (grant \<Rightarrow> bool) \<Rightarrow> (grant list \<Rightarrow> grant list) \<Rightarrow> owner list handler" where
  "remove_grants cx names rewrite =
    and_then (reads (role_read_all (\<lambda>_. True))) (\<lambda>roles.
    and_then (map_act (remove_from_role cx names rewrite) roles) (\<lambda>role_changes.
    and_then (reads (boundary_read_all (\<lambda>_. True))) (\<lambda>boundaries.
    and_then (map_act (remove_from_boundary cx names rewrite) boundaries) (\<lambda>boundary_changes.
    ret (dedup (concat role_changes @ concat boundary_changes))))))"

definition tag_grants_find :: "int \<Rightarrow> app_db \<Rightarrow> owner list" where
  "tag_grants_find tag_id = find_owners (tag_references tag_id)"

definition tag_grants_remove :: "request_ctx \<Rightarrow> int \<Rightarrow> owner list handler" where
  "tag_grants_remove cx tag_id = remove_grants cx (tag_names tag_id) (tag_rewrite tag_id)"

definition identity_grants_find :: "int \<Rightarrow> app_db \<Rightarrow> owner list" where
  "identity_grants_find identity_id = find_owners (identity_names identity_id)"

definition identity_grants_remove :: "request_ctx \<Rightarrow> int \<Rightarrow> owner list handler" where
  "identity_grants_remove cx identity_id =
    remove_grants cx (identity_names identity_id) (identity_without identity_id)"

definition bastion_grants_find :: "int \<Rightarrow> app_db \<Rightarrow> owner list" where
  "bastion_grants_find bastion_id = find_owners (bastion_names bastion_id)"

definition bastion_grants_remove :: "request_ctx \<Rightarrow> int \<Rightarrow> owner list handler" where
  "bastion_grants_remove cx bastion_id =
    remove_grants cx (bastion_names bastion_id) (bastion_without bastion_id)"

section \<open>What removing does to the rows\<close>

definition rewritten_role :: "(grant \<Rightarrow> bool) \<Rightarrow> (grant list \<Rightarrow> grant list) \<Rightarrow> role_row \<Rightarrow> role_row" where
  "rewritten_role names rewrite r =
    (if list_ex names (ro_grant_list r) then r\<lparr>ro_grant_list := rewrite (ro_grant_list r)\<rparr> else r)"

definition rewritten_boundary ::
    "(grant \<Rightarrow> bool) \<Rightarrow> (grant list \<Rightarrow> grant list) \<Rightarrow> boundary_row \<Rightarrow> boundary_row" where
  "rewritten_boundary names rewrite b = b
    \<lparr>bo_denied_list := (if list_ex names (bo_denied_list b) then rewrite (bo_denied_list b)
       else bo_denied_list b),
     bo_ceiling_list := (case bo_ceiling_list b of None \<Rightarrow> None
       | Some c \<Rightarrow> Some (if list_ex names c then rewrite c else c))\<rparr>"

definition policy_ok :: "app_db \<Rightarrow> bool" where
  "policy_ok d \<longleftrightarrow> table_ok role_table d \<and> table_ok boundary_table d \<and>
    distinct (map ro_id (tb_rows (db_role d))) \<and> distinct (map bo_id (tb_rows (db_boundary d)))"

definition map_rows :: "('r \<Rightarrow> 'r) \<Rightarrow> 'r table \<Rightarrow> 'r table" where
  "map_rows f t = t\<lparr>tb_rows := map f (tb_rows t)\<rparr>"

lemma update_rows_map: "update_rows p f t = map_rows (\<lambda>r. if p r then f r else r) t"
  by (simp add: update_rows_def map_rows_def)

lemma map_rows_map_rows: "map_rows f (map_rows g t) = map_rows (f \<circ> g) t"
  by (simp add: map_rows_def)

lemma filter_eq_Nil_list_ex: "filter p xs = [] \<longleftrightarrow> \<not> list_ex p xs"
  by (induction xs) auto

lemma runs_role_grants:
  assumes "author_ok cx" and "table_ok role_table (w_db w)"
  shows "runs (role_update cx i (no_role_fields\<lparr>rf_new_grant_list := Some gs\<rparr>)) w ()
    ((w_db w)\<lparr>db_role := update_rows (\<lambda>r. ro_id r = i) (ro_grant_list_update (\<lambda>_. gs)) (db_role (w_db w))\<rparr>)"
proof -
  let ?u = "no_role_fields\<lparr>rf_new_grant_list := Some gs\<rparr>"
  have f: "set_role_fields ?u = ro_grant_list_update (\<lambda>_. gs)"
    by (simp add: fun_eq_iff set_role_fields_def no_role_fields_def)
  have "\<exists>n. table_update role_table (set_role_fields ?u) (\<lambda>r. ro_id r = i) (w_db w) =
    (Inr n, td_upd role_table (\<lambda>_. update_rows (\<lambda>r. ro_id r = i) (set_role_fields ?u)
      (td_get role_table (w_db w))) (w_db w))"
    by (rule update_no_clash [OF assms(2)]) (auto simp: role_table_def f)
  then obtain n where n: "table_update role_table (set_role_fields ?u) (\<lambda>r. ro_id r = i) (w_db w) =
    (Inr n, (w_db w)\<lparr>db_role := update_rows (\<lambda>r. ro_id r = i) (ro_grant_list_update (\<lambda>_. gs)) (db_role (w_db w))\<rparr>)"
    by (auto simp: role_table_def f)
  have s: "rf_new_name ?u = None" "rf_new_description ?u = None" "rf_added ?u = None"
    "rf_deleted ?u = None" "rf_new_grant_list ?u = Some gs" by (simp_all add: no_role_fields_def)
  show ?thesis
    unfolding role_update_def s if_set_simps seq_ret
    by (rule runs_and_then [OF runs_reads_one], rule runs_seq [OF runs_audit_refs [OF assms(1)]])
      (simp, rule runs_then_ret, rule runs_then_ret, unfold updates_def, rule runs_on_db, simp add: n)
qed

lemma table_ok_map:
  "(\<And>row. ro_name (f row) = ro_name row) \<Longrightarrow>
    table_ok role_table (d\<lparr>db_role := map_rows f (db_role d)\<rparr>) = table_ok role_table d"
  "(\<And>row. bo_name (g row) = bo_name row) \<Longrightarrow>
    table_ok boundary_table (d\<lparr>db_boundary := map_rows g (db_boundary d)\<rparr>) = table_ok boundary_table d"
proof -
  show "table_ok role_table (d\<lparr>db_role := map_rows f (db_role d)\<rparr>) = table_ok role_table d"
    if "\<And>row. ro_name (f row) = ro_name row"
    using clashes_map [of "td_unique role_table" f "tb_rows (db_role d)"] that
    by (simp add: table_ok_def role_table_def map_rows_def)
  show "table_ok boundary_table (d\<lparr>db_boundary := map_rows g (db_boundary d)\<rparr>) = table_ok boundary_table d"
    if "\<And>row. bo_name (g row) = bo_name row"
    using clashes_map [of "td_unique boundary_table" g "tb_rows (db_boundary d)"] that
    by (simp add: table_ok_def boundary_table_def map_rows_def)
qed

lemma map_rows_cong: "(\<And>r. r \<in> set (tb_rows t) \<Longrightarrow> f r = g r) \<Longrightarrow> map_rows f t = map_rows g t"
  by (simp add: map_rows_def)

lemma map_rows_id: "(\<And>r. r \<in> set (tb_rows t) \<Longrightarrow> f r = r) \<Longrightarrow> map_rows f t = t"
  by (cases t) (simp add: map_rows_def map_idI)

definition role_owners :: "(grant \<Rightarrow> bool) \<Rightarrow> role \<Rightarrow> owner list" where
  "role_owners names r = (if list_ex names (r_grant_list r)
    then [\<lparr>ow_type = ''role'', ow_id = r_id r, ow_name = r_name r\<rparr>] else [])"

lemma rewritten_role_name [simp]: "ro_name (rewritten_role n rw r) = ro_name r" "ro_id (rewritten_role n rw r) = ro_id r"
  by (simp_all add: rewritten_role_def)

lemma runs_remove_from_role:
  assumes "author_ok cx" and "table_ok role_table (w_db w)"
    and "\<forall>row\<in>set (tb_rows (db_role (w_db w))). ro_id row = r_id r \<longrightarrow> ro_grant_list row = r_grant_list r"
  shows "runs (remove_from_role cx names rewrite r) w (role_owners names r)
    ((w_db w)\<lparr>db_role := map_rows (\<lambda>row. if ro_id row = r_id r then rewritten_role names rewrite row else row)
      (db_role (w_db w))\<rparr>)"
proof (cases "list_ex names (r_grant_list r)")
  case True
  have "update_rows (\<lambda>row. ro_id row = r_id r) (ro_grant_list_update (\<lambda>_. rewrite (r_grant_list r))) (db_role (w_db w)) =
    map_rows (\<lambda>row. if ro_id row = r_id r then rewritten_role names rewrite row else row) (db_role (w_db w))"
    unfolding update_rows_map using assms(3) True by (auto intro!: map_rows_cong simp: rewritten_role_def)
  then show ?thesis
    using True runs_role_grants [OF assms(1,2), of "r_id r" "rewrite (r_grant_list r)"]
    by (simp add: remove_from_role_def filter_eq_Nil_list_ex role_owners_def runs_then_ret)
next
  case False
  then have "map_rows (\<lambda>row. if ro_id row = r_id r then rewritten_role names rewrite row else row)
      (db_role (w_db w)) = db_role (w_db w)"
    using assms(3) by (intro map_rows_id) (auto simp: rewritten_role_def)
  then show ?thesis
    using False runs_ret [of "[]" w] by (simp add: remove_from_role_def filter_eq_Nil_list_ex role_owners_def)
qed

lemma runs_remove_from_roles:
  assumes "author_ok cx" and "table_ok role_table (w_db w)" and "distinct (map r_id rs)"
    and "\<forall>r\<in>set rs. \<forall>row\<in>set (tb_rows (db_role (w_db w))). ro_id row = r_id r \<longrightarrow> ro_grant_list row = r_grant_list r"
  shows "runs (map_act (remove_from_role cx names rewrite) rs) w (map (role_owners names) rs)
    ((w_db w)\<lparr>db_role := map_rows (\<lambda>row. if ro_id row \<in> r_id ` set rs then rewritten_role names rewrite row else row)
      (db_role (w_db w))\<rparr>)"
  using assms(2-4)
proof (induction rs arbitrary: w)
  case Nil
  then show ?case using runs_ret [of "[]" w] by (simp add: map_rows_id)
next
  case (Cons r rs)
  let ?f = "\<lambda>row. if ro_id row = r_id r then rewritten_role names rewrite row else row"
  let ?g = "\<lambda>row. if ro_id row \<in> r_id ` set rs then rewritten_role names rewrite row else row"
  let ?d1 = "(w_db w)\<lparr>db_role := map_rows ?f (db_role (w_db w))\<rparr>"
  have fst: "runs (remove_from_role cx names rewrite r) w (role_owners names r) ?d1"
    using runs_remove_from_role [OF assms(1) Cons.prems(1)] Cons.prems(3) by simp
  have gf: "map_rows ?g (map_rows ?f (db_role (w_db w))) =
      map_rows (\<lambda>row. if ro_id row \<in> r_id ` set (r # rs) then rewritten_role names rewrite row else row)
        (db_role (w_db w))"
    unfolding map_rows_map_rows using Cons.prems(2) by (intro map_rows_cong) auto
  show ?case
    unfolding map_act.simps list.map
  proof (rule runs_and_then [OF fst])
    fix w1 :: world assume w1: "w_db w1 = ?d1"
    have "runs (map_act (remove_from_role cx names rewrite) rs) w1 (map (role_owners names) rs)
        ((w_db w1)\<lparr>db_role := map_rows ?g (db_role (w_db w1))\<rparr>)"
      using Cons.prems by (intro Cons.IH) (auto simp: w1 table_ok_map, auto simp: map_rows_def split: if_splits)
    then have "runs (map_act (remove_from_role cx names rewrite) rs) w1 (map (role_owners names) rs)
        ((w_db w)\<lparr>db_role := map_rows (\<lambda>row. if ro_id row \<in> r_id ` set (r # rs)
          then rewritten_role names rewrite row else row) (db_role (w_db w))\<rparr>)"
      using gf by (simp add: w1)
    then show "runs (and_then (map_act (remove_from_role cx names rewrite) rs)
        (\<lambda>ys. ret (role_owners names r # ys))) w1 (role_owners names r # map (role_owners names) rs)
        ((w_db w)\<lparr>db_role := map_rows (\<lambda>row. if ro_id row \<in> r_id ` set (r # rs)
          then rewritten_role names rewrite row else row) (db_role (w_db w))\<rparr>)"
      by (rule runs_and_then) (metis runs_ret)
  qed
qed

definition boundary_owners :: "(grant \<Rightarrow> bool) \<Rightarrow> boundary \<Rightarrow> owner list" where
  "boundary_owners names b =
    (let owner = \<lparr>ow_type = ''boundary'', ow_id = b_id b, ow_name = b_name b\<rparr>
     in (if list_ex names (b_denied_list b) then [owner] else []) @
        (if list_ex names (or_empty (b_ceiling_list b)) then [owner] else []))"

lemma runs_boundary_lists:
  assumes "author_ok cx" and "table_ok boundary_table (w_db w)"
    and "bf_name u = None" "bf_description u = None" and "u \<noteq> no_boundary_fields"
  shows "runs (boundary_update cx i u) w ()
    ((w_db w)\<lparr>db_boundary := update_rows (\<lambda>r. bo_id r = i) (set_boundary_fields u) (db_boundary (w_db w))\<rparr>)"
proof -
  have "\<exists>n. table_update boundary_table (set_boundary_fields u) (\<lambda>r. bo_id r = i) (w_db w) =
    (Inr n, td_upd boundary_table (\<lambda>_. update_rows (\<lambda>r. bo_id r = i) (set_boundary_fields u)
      (td_get boundary_table (w_db w))) (w_db w))"
    by (rule update_no_clash [OF assms(2)]) (auto simp: boundary_table_def set_boundary_fields_def assms(3))
  then obtain n where n: "table_update boundary_table (set_boundary_fields u) (\<lambda>r. bo_id r = i) (w_db w) =
    (Inr n, (w_db w)\<lparr>db_boundary := update_rows (\<lambda>r. bo_id r = i) (set_boundary_fields u) (db_boundary (w_db w))\<rparr>)"
    by (auto simp: boundary_table_def)
  have last: "runs (seq (updates boundary_table (set_boundary_fields u) (\<lambda>r. bo_id r = i)) (ret ())) v ()
    ((w_db w)\<lparr>db_boundary := update_rows (\<lambda>r. bo_id r = i) (set_boundary_fields u) (db_boundary (w_db w))\<rparr>)"
    if "w_db v = w_db w" for v :: world
    by (rule runs_then_ret, unfold updates_def, rule runs_on_db) (simp add: n that)
  show ?thesis
    unfolding boundary_update_def assms(3,4) if_set_simps seq_ret
    apply (rule runs_and_then [OF runs_reads_one])
    apply (rule runs_seq [OF runs_if_set [OF runs_audit_refs [OF assms(1)]]])
    apply (rule runs_seq [OF runs_if_set [OF runs_audit_refs [OF assms(1)]]])
    using assms(5) by (simp add: last)
qed

lemma rewritten_boundary_keys [simp]: "bo_name (rewritten_boundary n rw b) = bo_name b"
  "bo_id (rewritten_boundary n rw b) = bo_id b"
  by (simp_all add: rewritten_boundary_def)

lemma rewritten_boundary_unhit:
  "\<not> list_ex names (bo_denied_list b) \<Longrightarrow> \<not> list_ex names (or_empty (bo_ceiling_list b)) \<Longrightarrow>
    rewritten_boundary names rw b = b"
  by (cases b) (simp add: rewritten_boundary_def or_empty_def split: option.splits)

lemma runs_remove_from_boundary:
  assumes "author_ok cx" and "table_ok boundary_table (w_db w)"
    and "\<forall>row\<in>set (tb_rows (db_boundary (w_db w))). bo_id row = b_id b \<longrightarrow>
      bo_denied_list row = b_denied_list b \<and> bo_ceiling_list row = b_ceiling_list b"
  shows "runs (remove_from_boundary cx names rewrite b) w (boundary_owners names b)
    ((w_db w)\<lparr>db_boundary := map_rows (\<lambda>row. if bo_id row = b_id b then rewritten_boundary names rewrite row else row)
      (db_boundary (w_db w))\<rparr>)"
proof (cases "list_ex names (b_denied_list b) \<or> list_ex names (or_empty (b_ceiling_list b))")
  case True
  let ?u = "no_boundary_fields
        \<lparr>bf_denied_list := (if list_ex names (b_denied_list b) then Some (rewrite (b_denied_list b)) else None),
         bf_ceiling_list := (if list_ex names (or_empty (b_ceiling_list b))
           then Some (Some (rewrite (or_empty (b_ceiling_list b)))) else None)\<rparr>"
  have "update_rows (\<lambda>row. bo_id row = b_id b) (set_boundary_fields ?u) (db_boundary (w_db w)) =
    map_rows (\<lambda>row. if bo_id row = b_id b then rewritten_boundary names rewrite row else row) (db_boundary (w_db w))"
    unfolding update_rows_map
  proof (rule map_rows_cong)
    fix row assume "row \<in> set (tb_rows (db_boundary (w_db w)))"
    then show "(if bo_id row = b_id b then set_boundary_fields ?u row else row) =
      (if bo_id row = b_id b then rewritten_boundary names rewrite row else row)"
      using assms(3) by (cases "b_ceiling_list b")
        (auto simp: set_boundary_fields_def rewritten_boundary_def no_boundary_fields_def or_empty_def)
  qed
  moreover have "?u \<noteq> no_boundary_fields" using True by (auto simp: no_boundary_fields_def)
  ultimately have "runs (boundary_update cx (b_id b) ?u) w ()
    ((w_db w)\<lparr>db_boundary := map_rows (\<lambda>row. if bo_id row = b_id b then rewritten_boundary names rewrite row else row)
      (db_boundary (w_db w))\<rparr>)"
    using runs_boundary_lists [OF assms(1,2), of ?u "b_id b"] by (simp add: no_boundary_fields_def)
  then show ?thesis
    using True by (auto simp: remove_from_boundary_def filter_eq_Nil_list_ex boundary_owners_def Let_def runs_then_ret)
next
  case False
  then have "map_rows (\<lambda>row. if bo_id row = b_id b then rewritten_boundary names rewrite row else row)
      (db_boundary (w_db w)) = db_boundary (w_db w)"
    using assms(3) by (intro map_rows_id) (auto simp: rewritten_boundary_unhit)
  then show ?thesis
    using False runs_ret [of "[]" w]
    by (simp add: remove_from_boundary_def filter_eq_Nil_list_ex boundary_owners_def)
qed

lemma runs_remove_from_boundaries:
  assumes "author_ok cx" and "table_ok boundary_table (w_db w)" and "distinct (map b_id bs)"
    and "\<forall>b\<in>set bs. \<forall>row\<in>set (tb_rows (db_boundary (w_db w))). bo_id row = b_id b \<longrightarrow>
      bo_denied_list row = b_denied_list b \<and> bo_ceiling_list row = b_ceiling_list b"
  shows "runs (map_act (remove_from_boundary cx names rewrite) bs) w (map (boundary_owners names) bs)
    ((w_db w)\<lparr>db_boundary := map_rows (\<lambda>row. if bo_id row \<in> b_id ` set bs then rewritten_boundary names rewrite row else row)
      (db_boundary (w_db w))\<rparr>)"
  using assms(2-4)
proof (induction bs arbitrary: w)
  case Nil
  then show ?case using runs_ret [of "[]" w] by (simp add: map_rows_id)
next
  case (Cons b bs)
  let ?f = "\<lambda>row. if bo_id row = b_id b then rewritten_boundary names rewrite row else row"
  let ?g = "\<lambda>row. if bo_id row \<in> b_id ` set bs then rewritten_boundary names rewrite row else row"
  let ?h = "\<lambda>row. if bo_id row \<in> b_id ` set (b # bs) then rewritten_boundary names rewrite row else row"
  let ?d1 = "(w_db w)\<lparr>db_boundary := map_rows ?f (db_boundary (w_db w))\<rparr>"
  have fst: "runs (remove_from_boundary cx names rewrite b) w (boundary_owners names b) ?d1"
    using runs_remove_from_boundary [OF assms(1) Cons.prems(1)] Cons.prems(3) by simp
  have gf: "map_rows ?g (map_rows ?f (db_boundary (w_db w))) = map_rows ?h (db_boundary (w_db w))"
    unfolding map_rows_map_rows using Cons.prems(2) by (intro map_rows_cong) auto
  show ?case
    unfolding map_act.simps list.map
  proof (rule runs_and_then [OF fst])
    fix w1 :: world assume w1: "w_db w1 = ?d1"
    have "runs (map_act (remove_from_boundary cx names rewrite) bs) w1 (map (boundary_owners names) bs)
        ((w_db w1)\<lparr>db_boundary := map_rows ?g (db_boundary (w_db w1))\<rparr>)"
      using Cons.prems by (intro Cons.IH) (auto simp: w1 table_ok_map, auto simp: map_rows_def split: if_splits)
    then have "runs (map_act (remove_from_boundary cx names rewrite) bs) w1 (map (boundary_owners names) bs)
        ((w_db w)\<lparr>db_boundary := map_rows ?h (db_boundary (w_db w))\<rparr>)"
      using gf by (simp add: w1)
    then show "runs (and_then (map_act (remove_from_boundary cx names rewrite) bs)
        (\<lambda>ys. ret (boundary_owners names b # ys))) w1 (boundary_owners names b # map (boundary_owners names) bs)
        ((w_db w)\<lparr>db_boundary := map_rows ?h (db_boundary (w_db w))\<rparr>)"
      by (rule runs_and_then) (metis runs_ret)
  qed
qed

section \<open>Remove\<close>

definition removed_db :: "(grant \<Rightarrow> bool) \<Rightarrow> (grant list \<Rightarrow> grant list) \<Rightarrow> app_db \<Rightarrow> app_db" where
  "removed_db names rewrite d = d
    \<lparr>db_role := map_rows (rewritten_role names rewrite) (db_role d),
     db_boundary := map_rows (rewritten_boundary names rewrite) (db_boundary d)\<rparr>"

definition removed_owners :: "(grant \<Rightarrow> bool) \<Rightarrow> app_db \<Rightarrow> owner list" where
  "removed_owners names d =
    dedup (concat (map (role_owners names) (role_read_all (\<lambda>_. True) d)) @
      concat (map (boundary_owners names) (boundary_read_all (\<lambda>_. True) d)))"

lemma role_read_all_ids: "map r_id (role_read_all p d) = map ro_id (table_read_all role_table p d)"
  by (simp add: role_read_all_def role_from_db_def o_def Let_def)

lemma role_read_all_grants:
  assumes "distinct (map ro_id (tb_rows (db_role d)))" and "r \<in> set (role_read_all p d)"
    and "row \<in> set (tb_rows (db_role d))" and "ro_id row = r_id r"
  shows "ro_grant_list row = r_grant_list r"
proof -
  obtain row' where "row' \<in> set (tb_rows (db_role d))" "ro_id row' = r_id r" "ro_grant_list row' = r_grant_list r"
    using assms(2) by (auto simp: role_read_all_def role_from_db_def table_read_all_def role_table_def Let_def)
  then show ?thesis using assms by (metis distinct_map inj_onD)
qed

lemma boundary_read_all_lists:
  assumes "distinct (map bo_id (tb_rows (db_boundary d)))" and "b \<in> set (boundary_read_all p d)"
    and "row \<in> set (tb_rows (db_boundary d))" and "bo_id row = b_id b"
  shows "bo_denied_list row = b_denied_list b \<and> bo_ceiling_list row = b_ceiling_list b"
proof -
  obtain row' where "row' \<in> set (tb_rows (db_boundary d))" "boundary_from_db row' = b"
    using assms(2) by (auto simp: boundary_read_all_def table_read_all_def boundary_table_def)
  moreover from this have "row' = row"
    using assms by (auto simp: boundary_from_db_def distinct_map dest: inj_onD)
  ultimately show ?thesis by (auto simp: boundary_from_db_def)
qed

lemma runs_remove_grants:
  assumes "author_ok cx" and "policy_ok (w_db w)"
  shows "runs (remove_grants cx names rewrite) w (removed_owners names (w_db w))
    (removed_db names rewrite (w_db w))"
proof -
  let ?d = "w_db w"
  let ?rs = "role_read_all (\<lambda>_. True) ?d" and ?bs = "boundary_read_all (\<lambda>_. True) ?d"
  have ids: "r_id ` set ?rs = ro_id ` set (tb_rows (db_role ?d))" "distinct (map r_id ?rs)"
    using assms(2) role_read_all_ids [of "\<lambda>_. True" ?d]
    by (auto simp: policy_ok_def table_read_all_def role_table_def simp flip: set_map)
  have bids: "b_id ` set ?bs = bo_id ` set (tb_rows (db_boundary ?d))" "distinct (map b_id ?bs)"
    using assms(2) by (auto simp: policy_ok_def boundary_read_all_def boundary_from_db_def
        table_read_all_def boundary_table_def o_def image_image)
  let ?d1 = "?d\<lparr>db_role := map_rows (rewritten_role names rewrite) (db_role ?d)\<rparr>"
  have roles: "runs (map_act (remove_from_role cx names rewrite) ?rs) v (map (role_owners names) ?rs) ?d1"
    if v: "w_db v = ?d" for v :: world
  proof -
    have "map_rows (\<lambda>row. if ro_id row \<in> r_id ` set ?rs then rewritten_role names rewrite row else row) (db_role ?d)
      = map_rows (rewritten_role names rewrite) (db_role ?d)"
      by (rule map_rows_cong) (simp add: ids(1))
    then show ?thesis
      using runs_remove_from_roles [OF assms(1), of v ?rs names rewrite] assms(2) ids(2) role_read_all_grants
      by (auto simp: v policy_ok_def)
  qed
  have b1: "boundary_read_all (\<lambda>_. True) ?d1 = ?bs"
    by (simp add: boundary_read_all_def table_read_all_def boundary_table_def)
  have bounds: "runs (map_act (remove_from_boundary cx names rewrite) ?bs) v (map (boundary_owners names) ?bs)
      (removed_db names rewrite ?d)" if v: "w_db v = ?d1" for v :: world
  proof -
    have "map_rows (\<lambda>row. if bo_id row \<in> b_id ` set ?bs then rewritten_boundary names rewrite row else row) (db_boundary ?d)
      = map_rows (rewritten_boundary names rewrite) (db_boundary ?d)"
      by (rule map_rows_cong) (simp add: bids(1))
    moreover have "table_ok boundary_table ?d1"
      using assms(2) by (simp add: policy_ok_def table_ok_def boundary_table_def)
    ultimately show ?thesis
      using runs_remove_from_boundaries [OF assms(1), of v ?bs names rewrite] assms(2) bids(2)
        boundary_read_all_lists by (auto simp: v policy_ok_def removed_db_def)
  qed
  have last: "runs (and_then (reads (boundary_read_all (\<lambda>_. True))) (\<lambda>boundaries.
      and_then (map_act (remove_from_boundary cx names rewrite) boundaries) (\<lambda>bc.
        ret (dedup (concat (map (role_owners names) ?rs) @ concat bc))))) v (removed_owners names ?d)
      (removed_db names rewrite ?d)" if v: "w_db v = ?d1" for v :: world
  proof (rule runs_and_then [OF runs_reads])
    fix v' :: world assume "w_db v' = w_db v"
    then have "w_db v' = ?d1" using v by simp
    then show "runs (and_then (map_act (remove_from_boundary cx names rewrite)
        (boundary_read_all (\<lambda>_. True) (w_db v))) (\<lambda>bc.
        ret (dedup (concat (map (role_owners names) ?rs) @ concat bc)))) v' (removed_owners names ?d)
      (removed_db names rewrite ?d)"
      unfolding v b1 by (rule runs_and_then [OF bounds]) (metis runs_ret removed_owners_def)
  qed
  show ?thesis
    unfolding remove_grants_def
    by (rule runs_and_then [OF runs_reads], rule runs_and_then [OF roles], assumption, rule last)
qed

end
