(* ===== verification/Grant_Removal_Safety.thy ===== *)
theory Grant_Removal_Safety
  imports Grant_Removal Checkers Ssh_Listing Audit_Numbering
begin

text \<open>
  What removing the grants of a deleted object guarantees: nothing that remains names the object, in
  the sense of the collector \<open>referenced_ids\<close>; a ceiling stays a ceiling; and no decision about another
  object changes, for the permission checks and for SSH.
\<close>

section \<open>The contract of a rewriting\<close>

locale grant_rewriter =
  fixes names :: "int \<Rightarrow> grant \<Rightarrow> bool"
    and rewrite :: "int \<Rightarrow> grant list \<Rightarrow> grant list"
  assumes gone: "g \<in> set (rewrite i gs) \<Longrightarrow> \<not> names i g"
    and untouched: "\<not> names i g \<Longrightarrow> g \<in> set gs \<Longrightarrow> g \<in> set (rewrite i gs)"
begin

lemma roles_clean:
  assumes "row \<in> set (tb_rows (db_role (removed_db (names i) (rewrite i) d)))" and "g \<in> set (ro_grant_list row)"
  shows "\<not> names i g"
  using assms gone by (auto simp: removed_db_def map_rows_def rewritten_role_def list_ex_iff split: if_splits)

lemma boundaries_clean:
  assumes "row \<in> set (tb_rows (db_boundary (removed_db (names i) (rewrite i) d)))"
    and "g \<in> set (bo_denied_list row @ or_empty (bo_ceiling_list row))"
  shows "\<not> names i g"
  using assms gone
  by (auto simp: removed_db_def map_rows_def rewritten_boundary_def list_ex_iff or_empty_def
      split: if_splits option.splits)

lemma ceilings_kept:
  "map (\<lambda>b. bo_ceiling_list b = None) (tb_rows (db_boundary (removed_db (names i) (rewrite i) d))) =
   map (\<lambda>b. bo_ceiling_list b = None) (tb_rows (db_boundary d))"
  by (simp add: removed_db_def map_rows_def rewritten_boundary_def split: option.splits)

lemma roles_keep_others:
  assumes "row \<in> set (tb_rows (db_role d))" and "g \<in> set (ro_grant_list row)" and "\<not> names i g"
  shows "g \<in> set (ro_grant_list (rewritten_role (names i) (rewrite i) row))"
  using assms untouched by (simp add: rewritten_role_def)

end

section \<open>The three rewritings keep it\<close>

lemma opt_names_drop: "\<not> opt_names (drop_id i l) i"
  by (simp add: opt_names_def drop_id_def split: option.splits)

lemma without_tag_clean: "\<not> permission_names (IdentityGrant (without_tag i g)) i"
  using opt_names_drop [of i]
  by (auto simp: permission_names_def without_tag_def Let_def split: option.splits)

lemma without_tag_filter: "filter_names (IdentityGrant (without_tag i g)) j = filter_names (IdentityGrant g) j"
  by (simp add: filter_names_def filter_tags_def without_tag_def Let_def)

lemma tag_object_names_identity: "\<not> tag_object_names (IdentityGrant g) i"
  by (simp add: tag_object_names_def)

lemma tag_rewrite_gone: "g \<in> set (tag_rewrite i gs) \<Longrightarrow> \<not> tag_names i g"
proof (induction i gs rule: tag_rewrite.induct)
  case (2 i h gs)
  show ?case
  proof (cases "filter_names h i \<or> tag_object_names h i")
    case False
    show ?thesis
    proof (cases "permission_names h i")
      case True
      then obtain k where k: "h = IdentityGrant k"
        by (auto simp: permission_names_def split: option.splits) (metis as_identity_eq)
      have "\<not> tag_names i (IdentityGrant (without_tag i k))"
        using False k without_tag_clean [of i k] without_tag_filter [of i k i]
          tag_object_names_identity [of "without_tag i k" i]
        by (simp add: tag_names_def tag_references_def)
      then show ?thesis using 2 False True k by auto
    next
      case perm: False
      then have "\<not> tag_names i h" using False by (simp add: tag_names_def tag_references_def)
      then show ?thesis using 2 False perm by auto
    qed
  qed (use 2 in simp)
qed simp

lemma tag_rewrite_untouched: "\<not> tag_names i g \<Longrightarrow> g \<in> set gs \<Longrightarrow> g \<in> set (tag_rewrite i gs)"
  by (induction i gs rule: tag_rewrite.induct)
    (auto simp: tag_names_def tag_references_def split: option.splits)

interpretation tag_rewriting: grant_rewriter tag_names tag_rewrite
  by unfold_locales (auto simp: tag_rewrite_gone tag_rewrite_untouched)

interpretation identity_rewriting: grant_rewriter identity_names identity_without
  by unfold_locales (auto simp: identity_without_def)

interpretation bastion_rewriting: grant_rewriter bastion_names bastion_without
  by unfold_locales (auto simp: bastion_without_def)

section \<open>The tests agree with the collector of references\<close>

lemma opt_names_iff: "opt_names l i \<longleftrightarrow> i \<in> add_list l {}"
  by (simp add: opt_names_def add_list_def split: option.splits)

lemma tag_names_iff: "tag_names i g \<longleftrightarrow> i \<in> ref_tag (add_refs g no_refs)"
  by (cases g) (auto simp: tag_names_def tag_references_def filter_names_def filter_tags_def
      permission_names_def tag_object_names_def add_triplet_def add_identity_permission_def no_refs_def
      add_id_def add_list_def opt_names_def Let_def split: option.splits)

lemma identity_names_iff: "identity_names i g \<longleftrightarrow> i \<in> ref_identity (add_refs g no_refs)"
  by (cases g) (auto simp: identity_names_def add_triplet_def add_identity_permission_def no_refs_def
      add_id_def Let_def split: option.splits)

lemma bastion_names_iff: "bastion_names i g \<longleftrightarrow> i \<in> ref_bastion (add_refs g no_refs)"
  by (cases g) (auto simp: bastion_names_def add_triplet_def add_identity_permission_def no_refs_def
      add_id_def Let_def split: option.splits)

definition policy_grants :: "app_db \<Rightarrow> grant list" where
  "policy_grants d = concat (map ro_grant_list (tb_rows (db_role d))) @
    concat (map (\<lambda>b. bo_denied_list b @ or_empty (bo_ceiling_list b)) (tb_rows (db_boundary d)))"

lemma policy_grants_clean:
  assumes "\<And>row g. row \<in> set (tb_rows (db_role d)) \<Longrightarrow> g \<in> set (ro_grant_list row) \<Longrightarrow> P g"
    and "\<And>row g. row \<in> set (tb_rows (db_boundary d)) \<Longrightarrow>
      g \<in> set (bo_denied_list row @ or_empty (bo_ceiling_list row)) \<Longrightarrow> P g"
  shows "\<forall>g\<in>set (policy_grants d). P g"
  using assms by (fastforce simp: policy_grants_def)

section \<open>Decisions about other objects\<close>

definition rewrite_boundary :: "(grant list \<Rightarrow> grant list) \<Rightarrow> boundary \<Rightarrow> boundary" where
  "rewrite_boundary rw b = b\<lparr>b_denied_list := rw (b_denied_list b),
    b_ceiling_list := map_option rw (b_ceiling_list b)\<rparr>"

definition rewrite_role :: "(grant list \<Rightarrow> grant list) \<Rightarrow> role \<Rightarrow> role" where
  "rewrite_role rw r = r\<lparr>r_grant_list := rw (r_grant_list r)\<rparr>"

definition rewrite_grants :: "(grant list \<Rightarrow> grant list) \<Rightarrow> grants \<Rightarrow> grants" where
  "rewrite_grants rw gr = \<lparr>gr_boundaries = map (rewrite_boundary rw) (gr_boundaries gr),
    gr_roles = map (rewrite_role rw) (gr_roles gr)\<rparr>"

lemma can_rewritten:
  assumes "\<And>gs. (\<exists>g\<in>set (rw gs). matches chk cmp g) \<longleftrightarrow> (\<exists>g\<in>set gs. matches chk cmp g)"
  shows "can (chk\<lparr>chk_boundaries := map (rewrite_boundary rw) bs, chk_roles := map (rewrite_role rw) rs\<rparr>) cmp
    = can (chk\<lparr>chk_boundaries := bs, chk_roles := rs\<rparr>) cmp"
proof -
  have m: "matches (chk\<lparr>chk_boundaries := x, chk_roles := y\<rparr>) cmp = matches chk cmp" for x y
    by (simp add: fun_eq_iff matches_iff)
  have "boundary_passes (matches chk cmp) (rewrite_boundary rw b) = boundary_passes (matches chk cmp) b" for b
    using assms by (auto simp: boundary_passes_def rewrite_boundary_def)
  then show ?thesis using assms by (simp add: can_iff m rewrite_role_def)
qed

definition blind :: "int \<Rightarrow> (identity_grant \<Rightarrow> bool) \<Rightarrow> bool" where
  "blind tag_id cmp \<longleftrightarrow> (\<forall>g. cmp (without_tag tag_id g) = cmp g)"

lemma permission_names_identity: "permission_names h i \<Longrightarrow> \<exists>k. h = IdentityGrant k"
  by (cases h) (auto simp: permission_names_def)

lemma tag_rewrite_matches:
  assumes "\<And>g. filter_names g i \<or> tag_object_names g i \<Longrightarrow> \<not> m g"
    and "\<And>g. m (IdentityGrant (without_tag i g)) = m (IdentityGrant g)"
  shows "(\<exists>g\<in>set (tag_rewrite i gs). m g) \<longleftrightarrow> (\<exists>g\<in>set gs. m g)"
proof (induction gs)
  case (Cons h gs)
  then show ?case
  proof (cases "permission_names h i")
    case True
    then obtain k where "h = IdentityGrant k" using permission_names_identity by blast
    then show ?thesis using True Cons assms by (auto simp: tag_object_names_identity)
  next
    case False
    then show ?thesis using Cons assms(1) by auto
  qed
qed simp

lemma identity_checker_rewritten:
  assumes "\<And>gs. (\<exists>g\<in>set (rw gs). matches (grants_identity gr i its ibs) cmp g) \<longleftrightarrow>
    (\<exists>g\<in>set gs. matches (grants_identity gr i its ibs) cmp g)"
  shows "can (grants_identity (rewrite_grants rw gr) i its ibs) cmp = can (grants_identity gr i its ibs) cmp"
  using can_rewritten [OF assms, of "gr_roles gr" "gr_boundaries gr"]
  by (simp add: grants_identity_def IdentityChecker_def rewrite_grants_def)

lemma live_checker_rewritten:
  assumes "\<And>gs. (\<exists>g\<in>set (rw gs). matches (grants_live gr its) cmp g) \<longleftrightarrow>
    (\<exists>g\<in>set gs. matches (grants_live gr its) cmp g)"
  shows "can (grants_live (rewrite_grants rw gr) its) cmp = can (grants_live gr its) cmp"
  using can_rewritten [OF assms, of "gr_roles gr" "gr_boundaries gr"]
  by (simp add: grants_live_def LiveChecker_def rewrite_grants_def)

lemma ssh_spec_rewritten:
  assumes "\<And>gs. reach q (rw gs) = reach q gs"
  shows "ssh_spec (map (rewrite_boundary rw) bs) (map (rewrite_role rw) rs) q = ssh_spec bs rs q"
proof -
  have g: "granted_by q (rw gs) = granted_by q gs" "left_by q (rw gs) = left_by q gs" for gs
    by (simp_all add: granted_by_def left_by_def assms)
  have "boundary_cap q (rewrite_boundary rw b) = boundary_cap q b" for b
    by (simp add: boundary_cap_def rewrite_boundary_def g split: option.split)
  then show ?thesis by (simp add: ssh_spec_def image_image rewrite_role_def g)
qed

lemma without_tag_cmp: "identity_cmp i its ibs (without_tag t g) = identity_cmp i its ibs g"
  by (simp add: identity_cmp_def without_tag_def Let_def)

lemma identity_cmp_lacks_tag:
  "filter_names (IdentityGrant g) t \<Longrightarrow> (\<forall>ts. its = Some ts \<longrightarrow> t \<notin> set ts) \<Longrightarrow> \<not> identity_cmp i its ibs g"
  by (auto simp: filter_names_def filter_tags_def identity_cmp_def list_all_iff split: option.splits)

lemma list_all_drop: "i \<notin> set xs \<Longrightarrow>
    (case drop_id i l of None \<Rightarrow> False | Some ys \<Rightarrow> \<not> list_all (\<lambda>t. t \<in> set ys) xs) =
    (case l of None \<Rightarrow> False | Some ys \<Rightarrow> \<not> list_all (\<lambda>t. t \<in> set ys) xs)"
  by (cases l) (auto simp: drop_id_def list_all_iff)

lemma blind_checks:
  "blind i (\<lambda>g. ip_read (g_permission g))" "blind i (\<lambda>g. ip_delete (g_permission g))"
  "blind i (\<lambda>g. update_check (ip_update (g_permission g)) get)"
  "blind i (\<lambda>g. case ip_invite_list (g_permission g) of None \<Rightarrow> True | Some l \<Rightarrow> delivery \<in> set l)"
  "t \<noteq> i \<Longrightarrow> blind i (\<lambda>g. case ip_add_tag_id_list (g_permission g) of None \<Rightarrow> True | Some l \<Rightarrow> t \<in> set l)"
  "t \<noteq> i \<Longrightarrow> blind i (\<lambda>g. case ip_del_tag_id_list (g_permission g) of None \<Rightarrow> True | Some l \<Rightarrow> t \<in> set l)"
  "i \<notin> set tags \<Longrightarrow> blind i (create_check tags bounds)"
  by (auto simp: blind_def without_tag_def Let_def drop_id_def create_check_def list_all_iff
      split: option.splits)

lemma as_live_eq: "as_live g = Some x \<longleftrightarrow> g = LiveGrant x"
  by (cases g) auto

section \<open>Properties\<close>

text \<open>
  C35. Deleting an object leaves no grant that names it. Each of the three removals succeeds whenever
  the ids and the unique names of the stored roles and boundaries are in order, and then no grant of
  any role or boundary names the object anywhere that the collector of references looks. A boundary
  keeps a ceiling exactly when it had one: a ceiling that loses its last grant becomes the empty list.
\<close>

theorem removal_leaves_no_reference:
  assumes "author_ok cx" and "policy_ok (w_db w)"
  shows "(\<exists>owners w'. tag_grants_remove cx i w = (Inr owners, w') \<and>
      (\<forall>g\<in>set (policy_grants (w_db w')). i \<notin> ref_tag (referenced_ids [g])) \<and>
      map (\<lambda>b. bo_ceiling_list b = None) (tb_rows (db_boundary (w_db w'))) =
        map (\<lambda>b. bo_ceiling_list b = None) (tb_rows (db_boundary (w_db w)))) \<and>
    (\<exists>owners w'. identity_grants_remove cx i w = (Inr owners, w') \<and>
      (\<forall>g\<in>set (policy_grants (w_db w')). i \<notin> ref_identity (referenced_ids [g])) \<and>
      map (\<lambda>b. bo_ceiling_list b = None) (tb_rows (db_boundary (w_db w'))) =
        map (\<lambda>b. bo_ceiling_list b = None) (tb_rows (db_boundary (w_db w)))) \<and>
    (\<exists>owners w'. bastion_grants_remove cx i w = (Inr owners, w') \<and>
      (\<forall>g\<in>set (policy_grants (w_db w')). i \<notin> ref_bastion (referenced_ids [g])) \<and>
      map (\<lambda>b. bo_ceiling_list b = None) (tb_rows (db_boundary (w_db w'))) =
        map (\<lambda>b. bo_ceiling_list b = None) (tb_rows (db_boundary (w_db w))))"
proof -
  have t: "\<exists>w'. tag_grants_remove cx i w = (Inr (removed_owners (tag_names i) (w_db w)), w') \<and>
      w_db w' = removed_db (tag_names i) (tag_rewrite i) (w_db w)"
    using runs_result [OF runs_remove_grants [OF assms, of "tag_names i" "tag_rewrite i"]]
    by (auto simp: tag_grants_remove_def)
  have n: "\<exists>w'. identity_grants_remove cx i w = (Inr (removed_owners (identity_names i) (w_db w)), w') \<and>
      w_db w' = removed_db (identity_names i) (identity_without i) (w_db w)"
    using runs_result [OF runs_remove_grants [OF assms, of "identity_names i" "identity_without i"]]
    by (auto simp: identity_grants_remove_def)
  have b: "\<exists>w'. bastion_grants_remove cx i w = (Inr (removed_owners (bastion_names i) (w_db w)), w') \<and>
      w_db w' = removed_db (bastion_names i) (bastion_without i) (w_db w)"
    using runs_result [OF runs_remove_grants [OF assms, of "bastion_names i" "bastion_without i"]]
    by (auto simp: bastion_grants_remove_def)
  have tc: "\<forall>g\<in>set (policy_grants (removed_db (tag_names i) (tag_rewrite i) d)). i \<notin> ref_tag (referenced_ids [g])" for d
  proof -
    have "\<forall>g\<in>set (policy_grants (removed_db (tag_names i) (tag_rewrite i) d)). \<not> tag_names i g"
      by (rule policy_grants_clean) (blast dest: tag_rewriting.roles_clean tag_rewriting.boundaries_clean)+
    then show ?thesis by (simp add: tag_names_iff ref_referenced_ids)
  qed
  have nc: "\<forall>g\<in>set (policy_grants (removed_db (identity_names i) (identity_without i) d)). i \<notin> ref_identity (referenced_ids [g])" for d
  proof -
    have "\<forall>g\<in>set (policy_grants (removed_db (identity_names i) (identity_without i) d)). \<not> identity_names i g"
      by (rule policy_grants_clean) (blast dest: identity_rewriting.roles_clean identity_rewriting.boundaries_clean)+
    then show ?thesis by (simp add: identity_names_iff ref_referenced_ids)
  qed
  have bc: "\<forall>g\<in>set (policy_grants (removed_db (bastion_names i) (bastion_without i) d)). i \<notin> ref_bastion (referenced_ids [g])" for d
  proof -
    have "\<forall>g\<in>set (policy_grants (removed_db (bastion_names i) (bastion_without i) d)). \<not> bastion_names i g"
      by (rule policy_grants_clean) (blast dest: bastion_rewriting.roles_clean bastion_rewriting.boundaries_clean)+
    then show ?thesis by (simp add: bastion_names_iff ref_referenced_ids)
  qed
  show ?thesis
    using t n b tc nc bc tag_rewriting.ceilings_kept identity_rewriting.ceilings_kept
      bastion_rewriting.ceilings_kept by metis
qed

text \<open>
  Deleting an identity changes nobody else's access: with every grant that names it dropped from
  all roles and boundaries, each check on another identity and each SSH decision on another host
  comes out as before.
\<close>

lemma identity_removal_neutral:
  assumes "j \<noteq> i"
  shows "can (grants_identity (rewrite_grants (identity_without i) gr) (Some j) its ibs) cmp =
      can (grants_identity gr (Some j) its ibs) cmp \<and>
    capability_level (map (rewrite_boundary (identity_without i)) bs) (map (rewrite_role (identity_without i)) rs)
        (j, tags, bounds, username, unix_username, c) =
      capability_level bs rs (j, tags, bounds, username, unix_username, c) \<and>
    command_line_level (map (rewrite_boundary (identity_without i)) bs) (map (rewrite_role (identity_without i)) rs)
        (j, tags, bounds, username, unix_username, command) =
      command_line_level bs rs (j, tags, bounds, username, unix_username, command)"
proof -
  have m: "(\<exists>g\<in>set (identity_without i gs). matches (grants_identity gr (Some j) its ibs) cmp g) \<longleftrightarrow>
      (\<exists>g\<in>set gs. matches (grants_identity gr (Some j) its ibs) cmp g)" for gs
    using assms by (auto simp: identity_without_def matches_iff grants_identity_def IdentityChecker_def
        as_identity_eq identity_names_def identity_cmp_def)
  have r: "reach q (identity_without i gs) = reach q gs" if "q_host q = j" for q gs
    using assms that by (auto simp: reach_def identity_without_def identity_names_def triplet_match_def)
  show ?thesis
    using identity_checker_rewritten [OF m] ssh_spec_rewritten [OF r]
    by (simp add: capability_level_spec command_line_level_spec username_query_def)
qed

definition grant_on :: "int \<Rightarrow> grant" where
  "grant_on i = IdentityGrant \<lparr>g_filter = \<lparr>tf_id = Some i, tf_tag_id_list = None, tf_boundary_id_list = None\<rparr>,
     g_permission = \<lparr>ip_create = None, ip_read = True, ip_update = None, ip_delete = True,
       ip_add_tag_id_list = None, ip_del_tag_id_list = None, ip_invite_list = None\<rparr>\<rparr>"

definition two_grants :: grants where
  "two_grants = \<lparr>gr_boundaries = [open_boundary], gr_roles = [tag_admin\<lparr>r_grant_list := [grant_on 1, grant_on 2]\<rparr>]\<rparr>"

theorem identity_removal_neutral_witness:
  "can (grants_identity (rewrite_grants (identity_without 1) two_grants) (Some 2) None None)
    (\<lambda>g. ip_read (g_permission g))"
proof -
  have "can (grants_identity two_grants (Some 2) None None) (\<lambda>g. ip_read (g_permission g))"
    by (simp add: can_iff grants_identity_def IdentityChecker_def boundary_passes_def matches_iff
        identity_cmp_def two_grants_def grant_on_def sample_checker_defs)
  then show ?thesis
    using identity_removal_neutral [of 2 1 two_grants None None "\<lambda>g. ip_read (g_permission g)"] by simp
qed

text \<open>
  Deleting a tag changes no decision about anything that lacks the tag: after the rewriting, every
  check on an identity without the tag that is not about handing out that tag, every SSH decision on
  a host without it and every check on a live session of such a host comes out as before. Grants that
  required the tag could not match there, and emptying an allow-list of it takes nothing else away.
\<close>

lemma tag_removal_neutral:
  assumes "\<forall>ts. its = Some ts \<longrightarrow> i \<notin> set ts" and "blind i cmp" and "i \<notin> set tags"
  shows "can (grants_identity (rewrite_grants (tag_rewrite i) gr) j its ibs) cmp =
      can (grants_identity gr j its ibs) cmp \<and>
    can (grants_live (rewrite_grants (tag_rewrite i) gr) (Some tags)) check =
      can (grants_live gr (Some tags)) check \<and>
    capability_level (map (rewrite_boundary (tag_rewrite i)) bs) (map (rewrite_role (tag_rewrite i)) rs)
        (host, tags, bounds, username, unix_username, c) =
      capability_level bs rs (host, tags, bounds, username, unix_username, c) \<and>
    command_line_level (map (rewrite_boundary (tag_rewrite i)) bs) (map (rewrite_role (tag_rewrite i)) rs)
        (host, tags, bounds, username, unix_username, command) =
      command_line_level bs rs (host, tags, bounds, username, unix_username, command)"
proof -
  have m: "(\<exists>g\<in>set (tag_rewrite i gs). matches (grants_identity gr j its ibs) cmp g) \<longleftrightarrow>
      (\<exists>g\<in>set gs. matches (grants_identity gr j its ibs) cmp g)" for gs
    using assms(1,2) identity_cmp_lacks_tag
    by (intro tag_rewrite_matches) (auto simp: matches_iff grants_identity_def IdentityChecker_def
        as_identity_eq without_tag_cmp blind_def tag_object_names_def)
  have l: "(\<exists>g\<in>set (tag_rewrite i gs). matches (grants_live gr (Some tags)) check g) \<longleftrightarrow>
      (\<exists>g\<in>set gs. matches (grants_live gr (Some tags)) check g)" for gs
    using assms(3)
    by (intro tag_rewrite_matches) (auto simp: matches_iff grants_live_def LiveChecker_def as_live_eq
        filter_names_def filter_tags_def live_cmp_def tag_object_names_def list_all_iff split: option.splits)
  have r: "reach q (tag_rewrite i gs) = reach q gs" if q: "q_tags q = tags" for q gs
  proof -
    have "(\<exists>g\<in>set (tag_rewrite i gs). \<exists>s. g = SSHGrant s \<and> p = g_permission s \<and>
          triplet_match (g_filter s) (q_host q) (q_tags q) (q_bounds q) \<and>
          q_covers q (g_permission s) \<and> q_hits q (g_permission s)) \<longleftrightarrow>
        (\<exists>g\<in>set gs. \<exists>s. g = SSHGrant s \<and> p = g_permission s \<and>
          triplet_match (g_filter s) (q_host q) (q_tags q) (q_bounds q) \<and>
          q_covers q (g_permission s) \<and> q_hits q (g_permission s))" for p
      using assms(3) q
      by (intro tag_rewrite_matches) (auto simp: filter_names_def filter_tags_def triplet_match_def
          tag_object_names_def list_all_iff split: option.splits)
    then show ?thesis unfolding reach_def by blast
  qed
  show ?thesis
    using identity_checker_rewritten [OF m] live_checker_rewritten [OF l] ssh_spec_rewritten [OF r]
    by (simp add: capability_level_spec command_line_level_spec username_query_def)
qed

lemma tag_removal_neutral_witness:
  "can (grants_identity (rewrite_grants (tag_rewrite 5) two_grants) (Some 2) (Some [4]) None)
    (\<lambda>g. ip_read (g_permission g))"
proof -
  have "can (grants_identity two_grants (Some 2) (Some [4]) None) (\<lambda>g. ip_read (g_permission g))"
    by (simp add: can_iff grants_identity_def IdentityChecker_def boundary_passes_def matches_iff
        identity_cmp_def two_grants_def grant_on_def sample_checker_defs)
  then show ?thesis
    using tag_removal_neutral [of "Some [4]" 5 "\<lambda>g. ip_read (g_permission g)" "[4]" two_grants "Some 2" None]
    by (simp add: blind_checks)
qed

definition role_row_1 :: role_row where
  "role_row_1 = \<lparr>ro_id = 1, ro_name = ''ops'', ro_description = '''', ro_grant_list = [grant_on 1, grant_on 2]\<rparr>"

definition boundary_row_1 :: boundary_row where
  "boundary_row_1 = \<lparr>bo_id = 1, bo_name = ''all'', bo_description = '''', bo_ceiling_list = Some [grant_on 2],
    bo_denied_list = []\<rparr>"

definition policy_world :: world where
  "policy_world = empty_world\<lparr>w_db := empty_db\<lparr>db_role := \<lparr>tb_rows = [role_row_1], tb_seq = 1\<rparr>,
    db_boundary := \<lparr>tb_rows = [boundary_row_1], tb_seq = 1\<rparr>\<rparr>\<rparr>"

theorem removal_leaves_no_reference_witness:
  "\<exists>owners w'. identity_grants_remove sample_cx 2 policy_world = (Inr owners, w') \<and>
    (\<forall>g\<in>set (policy_grants (w_db w')). 2 \<notin> ref_identity (referenced_ids [g]))"
proof -
  have "author_ok sample_cx" by (simp add: author_ok_def sample_cx_def)
  moreover have "policy_ok (w_db policy_world)"
    by (simp add: policy_ok_def table_ok_def role_table_def boundary_table_def policy_world_def
        role_row_1_def boundary_row_1_def violated_def)
  ultimately show ?thesis using removal_leaves_no_reference by blast
qed

end
