(* ===== verification/Converters.thy ===== *)
theory Converters
  imports Grant_Model App_Db
begin

text \<open>
  \<open>api/schemas/grant.py\<close> and the grants of \<open>api/converters.py\<close>: what a client sees of a grant names
  objects where the stored grant holds their ids. A \<open>GrantConverter\<close> remembers the names and ids it
  has looked up; it is the state of a conversion, and the database is an argument.
\<close>

section \<open>The grants of the API\<close>

text \<open>
  A class that has the same fields in \<open>schemas/grant.py\<close> and in \<open>model/grant.py\<close> is a synonym here;
  converting one copies its fields.
\<close>

type_synonym s_boundary_update_permission = boundary_update_permission
type_synonym s_boundary_permission = boundary_permission
type_synonym s_tag_permission = tag_permission
type_synonym s_role_update_permission = role_update_permission
type_synonym s_role_permission = role_permission
type_synonym s_identity_update_permission = identity_update_permission
type_synonym s_ssh_capability = ssh_capability
type_synonym s_ssh_permission = ssh_permission
type_synonym s_tenant_update_permission = tenant_update_permission
type_synonym s_tenant_permission = tenant_permission
type_synonym s_tenant_filter = tenant_filter
type_synonym s_auth_update_permission = auth_update_permission
type_synonym s_auth_permission = auth_permission
type_synonym s_bastion_filter = bastion_filter
type_synonym s_bastion_update_permission = bastion_update_permission
type_synonym s_bastion_permission = bastion_permission
type_synonym s_audit_log_permission = audit_log_permission
type_synonym s_live_permission = live_permission

record tag_name_value =
  tnv_name :: string
  tnv_value :: string

record name_filter =
  fn_name :: "string option"

record s_tag_filter =
  fn_name_value :: "tag_name_value option"

record s_triplet_filter =
  stf_name :: "string option"
  stf_tag_list :: "tag_name_value list option"
  stf_boundary_list :: "string list option"

record s_live_filter =
  slf_tag_list :: "tag_name_value list option"

record s_identity_create_permission =
  sic_allowed :: bool
  sic_allowed_tag_list :: "tag_name_value list option"
  sic_required_boundary_list :: "string list option"

record s_identity_permission =
  sip_create :: "s_identity_create_permission option"
  sip_read :: bool
  sip_update :: "identity_update_permission option"
  sip_delete :: bool
  sip_add_tag_list :: "tag_name_value list option"
  sip_del_tag_list :: "tag_name_value list option"
  sip_invite_list :: "string list option"

type_synonym s_boundary_grant = "(name_filter, s_boundary_permission) grant_body"
type_synonym s_tag_grant = "(s_tag_filter, s_tag_permission) grant_body"
type_synonym s_role_grant = "(name_filter, s_role_permission) grant_body"
type_synonym s_identity_grant = "(s_triplet_filter, s_identity_permission) grant_body"
type_synonym s_ssh_grant = "(s_triplet_filter, s_ssh_permission) grant_body"
type_synonym s_tenant_grant = "(s_tenant_filter, s_tenant_permission) grant_body"
type_synonym s_auth_grant = "(name_filter, s_auth_permission) grant_body"
type_synonym s_bastion_grant = "(s_bastion_filter, s_bastion_permission) grant_body"
type_synonym s_audit_log_grant = "(unit, s_audit_log_permission) grant_body"
type_synonym s_live_grant = "(s_live_filter, s_live_permission) grant_body"

datatype s_grant =
    SBoundaryGrant s_boundary_grant
  | STagGrant s_tag_grant
  | SRoleGrant s_role_grant
  | SIdentityGrant s_identity_grant
  | SSSHGrant s_ssh_grant
  | STenantGrant s_tenant_grant
  | SAuthGrant s_auth_grant
  | SBastionGrant s_bastion_grant
  | SAuditLogGrant s_audit_log_grant
  | SLiveGrant s_live_grant
  | InvalidGrant

section \<open>The converter and its caches\<close>

record converter =
  cv_from_tag :: "(tag_name_value \<times> int) list"
  cv_from_boundary :: "(string \<times> int) list"
  cv_from_role :: "(string \<times> int) list"
  cv_from_identity :: "(string \<times> int) list"
  cv_from_auth :: "(string \<times> int) list"
  cv_to_tag :: "(int \<times> tag_name_value) list"
  cv_to_boundary :: "(int \<times> string) list"
  cv_to_role :: "(int \<times> string) list"
  cv_to_identity :: "(int \<times> string) list"
  cv_to_auth :: "(int \<times> string) list"

definition GrantConverter :: converter where
  "GrantConverter = \<lparr>cv_from_tag = [], cv_from_boundary = [], cv_from_role = [], cv_from_identity = [],
    cv_from_auth = [], cv_to_tag = [], cv_to_boundary = [], cv_to_role = [], cv_to_identity = [],
    cv_to_auth = []\<rparr>"

type_synonym 'a conversion = "(converter, exn, 'a) act"

definition return_none_if_none :: "('t \<Rightarrow> 'r conversion) \<Rightarrow> 't option \<Rightarrow> 'r option conversion" where
  "return_none_if_none f arg =
    (case arg of None \<Rightarrow> ret None | Some x \<Rightarrow> and_then (f x) (\<lambda>y. ret (Some y)))"

text \<open>
  The decorator \<open>cache_list\<close> on one cache: \<open>f\<close> looks the missing items up and returns a dictionary,
  so that an item that is missing twice makes the two lengths differ.
\<close>

definition cached :: "('t list \<Rightarrow> exn + ('t \<times> 'r) list) \<Rightarrow> 't list \<Rightarrow> ('t \<times> 'r) list \<Rightarrow>
    (exn + 'r list) \<times> ('t \<times> 'r) list" where
  "cached f items cache =
    (let missing = filter (\<lambda>i. map_of cache i = None) items;
         answer = (\<lambda>cache. if list_ex (\<lambda>i. map_of cache i = None) items then Inl KeyError
                           else Inr (map (\<lambda>i. the (map_of cache i)) items))
     in if missing = [] then (answer cache, cache)
        else case f missing of
          Inl e \<Rightarrow> (Inl e, cache)
        | Inr got \<Rightarrow> if length got \<noteq> length missing then (Inl ValueError, cache)
            else (answer (dict_merge cache got), dict_merge cache got))"

definition cache_list :: "(converter \<Rightarrow> ('t \<times> 'r) list) \<Rightarrow>
    ((('t \<times> 'r) list \<Rightarrow> ('t \<times> 'r) list) \<Rightarrow> converter \<Rightarrow> converter) \<Rightarrow>
    ('t list \<Rightarrow> exn + ('t \<times> 'r) list) \<Rightarrow> 't list \<Rightarrow> 'r list conversion" where
  "cache_list get upd f items = (\<lambda>c. case cached f items (get c) of (r, cache) \<Rightarrow> (r, upd (\<lambda>_. cache) c))"

text \<open>The last two lines of the methods that convert one item.\<close>

definition single :: "'r list option \<Rightarrow> 'r conversion" where
  "single l = (case l of Some [x] \<Rightarrow> ret x | _ \<Rightarrow> raising AssertionError)"

definition tag_name_value_of :: "tag_row \<Rightarrow> tag_name_value" where
  "tag_name_value_of t = \<lparr>tnv_name = tg_name t, tnv_value = tg_value t\<rparr>"

text \<open>The loop of \<open>from_tag_list\<close>.\<close>

fun read_tags_loop :: "app_db \<Rightarrow> tag_name_value list \<Rightarrow> (tag_name_value \<times> int) list \<Rightarrow>
    exn + (tag_name_value \<times> int) list" where
  "read_tags_loop db [] retval = Inr retval"
| "read_tags_loop db (tag # tags) retval =
    (case table_read_one tag_table (\<lambda>r. tg_name r = tnv_name tag \<and> tg_value r = tnv_value tag) db of
       None \<Rightarrow> Inl ValueError
     | Some t \<Rightarrow> read_tags_loop db tags (AList.update tag (tg_id t) retval))"

definition read_tags :: "app_db \<Rightarrow> tag_name_value list \<Rightarrow> exn + (tag_name_value \<times> int) list" where
  "read_tags db tags = read_tags_loop db tags []"

definition from_tag_list :: "app_db \<Rightarrow> tag_name_value list option \<Rightarrow> int list option conversion" where
  "from_tag_list db = return_none_if_none
    (cache_list cv_from_tag cv_from_tag_update
      (read_tags db))"

definition from_tag :: "app_db \<Rightarrow> tag_name_value option \<Rightarrow> int option conversion" where
  "from_tag db = return_none_if_none (\<lambda>x. and_then (from_tag_list db (Some [x])) single)"

definition from_boundary_list :: "app_db \<Rightarrow> string list option \<Rightarrow> int list option conversion" where
  "from_boundary_list db = return_none_if_none
    (cache_list cv_from_boundary cv_from_boundary_update
      (\<lambda>names. Inr (dict_rows bo_name bo_id (table_read_all boundary_table (\<lambda>r. bo_name r \<in> set names) db))))"

definition from_boundary :: "app_db \<Rightarrow> string option \<Rightarrow> int option conversion" where
  "from_boundary db = return_none_if_none (\<lambda>x. and_then (from_boundary_list db (Some [x])) single)"

definition from_role_list :: "app_db \<Rightarrow> string list option \<Rightarrow> int list option conversion" where
  "from_role_list db = return_none_if_none
    (cache_list cv_from_role cv_from_role_update
      (\<lambda>names. Inr (dict_rows ro_name ro_id (table_read_all role_table (\<lambda>r. ro_name r \<in> set names) db))))"

definition from_role :: "app_db \<Rightarrow> string option \<Rightarrow> int option conversion" where
  "from_role db = return_none_if_none (\<lambda>x. and_then (from_role_list db (Some [x])) single)"

definition from_identity_list :: "app_db \<Rightarrow> string list option \<Rightarrow> int list option conversion" where
  "from_identity_list db = return_none_if_none
    (cache_list cv_from_identity cv_from_identity_update
      (\<lambda>names. Inr (dict_rows id_name id_id (table_read_all identity_table (\<lambda>r. id_name r \<in> set names) db))))"

definition from_identity :: "app_db \<Rightarrow> string option \<Rightarrow> int option conversion" where
  "from_identity db = return_none_if_none (\<lambda>x. and_then (from_identity_list db (Some [x])) single)"

definition from_auth_list :: "app_db \<Rightarrow> string list option \<Rightarrow> int list option conversion" where
  "from_auth_list db = return_none_if_none
    (cache_list cv_from_auth cv_from_auth_update
      (\<lambda>names. Inr (dict_rows aut_name aut_id (table_read_all auth_table (\<lambda>r. aut_name r \<in> set names) db))))"

definition from_auth :: "app_db \<Rightarrow> string option \<Rightarrow> int option conversion" where
  "from_auth db = return_none_if_none (\<lambda>x. and_then (from_auth_list db (Some [x])) single)"

definition to_tag_list :: "app_db \<Rightarrow> int list option \<Rightarrow> tag_name_value list option conversion" where
  "to_tag_list db = return_none_if_none
    (cache_list cv_to_tag cv_to_tag_update
      (\<lambda>ids. Inr (dict_rows tg_id tag_name_value_of (table_read_all tag_table (\<lambda>r. tg_id r \<in> set ids) db))))"

definition to_tag :: "app_db \<Rightarrow> int option \<Rightarrow> tag_name_value option conversion" where
  "to_tag db = return_none_if_none (\<lambda>x. and_then (to_tag_list db (Some [x])) single)"

definition to_boundary_list :: "app_db \<Rightarrow> int list option \<Rightarrow> string list option conversion" where
  "to_boundary_list db = return_none_if_none
    (cache_list cv_to_boundary cv_to_boundary_update
      (\<lambda>ids. Inr (dict_rows bo_id bo_name (table_read_all boundary_table (\<lambda>r. bo_id r \<in> set ids) db))))"

definition to_boundary :: "app_db \<Rightarrow> int option \<Rightarrow> string option conversion" where
  "to_boundary db = return_none_if_none (\<lambda>x. and_then (to_boundary_list db (Some [x])) single)"

definition to_role_list :: "app_db \<Rightarrow> int list option \<Rightarrow> string list option conversion" where
  "to_role_list db = return_none_if_none
    (cache_list cv_to_role cv_to_role_update
      (\<lambda>ids. Inr (dict_rows ro_id ro_name (table_read_all role_table (\<lambda>r. ro_id r \<in> set ids) db))))"

definition to_role :: "app_db \<Rightarrow> int option \<Rightarrow> string option conversion" where
  "to_role db = return_none_if_none (\<lambda>x. and_then (to_role_list db (Some [x])) single)"

definition to_identity_list :: "app_db \<Rightarrow> int list option \<Rightarrow> string list option conversion" where
  "to_identity_list db = return_none_if_none
    (cache_list cv_to_identity cv_to_identity_update
      (\<lambda>ids. Inr (dict_rows id_id id_name (table_read_all identity_table (\<lambda>r. id_id r \<in> set ids) db))))"

definition to_identity :: "app_db \<Rightarrow> int option \<Rightarrow> string option conversion" where
  "to_identity db = return_none_if_none (\<lambda>x. and_then (to_identity_list db (Some [x])) single)"

definition to_auth_list :: "app_db \<Rightarrow> int list option \<Rightarrow> string list option conversion" where
  "to_auth_list db = return_none_if_none
    (cache_list cv_to_auth cv_to_auth_update
      (\<lambda>ids. Inr (dict_rows aut_id aut_name (table_read_all auth_table (\<lambda>r. aut_id r \<in> set ids) db))))"

definition to_auth :: "app_db \<Rightarrow> int option \<Rightarrow> string option conversion" where
  "to_auth db = return_none_if_none (\<lambda>x. and_then (to_auth_list db (Some [x])) single)"

section \<open>From stored grants to the grants of the API\<close>

definition to_triplet :: "app_db \<Rightarrow> triplet_filter \<Rightarrow> s_triplet_filter conversion" where
  "to_triplet db f = and_then (to_identity db (tf_id f)) (\<lambda>name.
    and_then (to_tag_list db (tf_tag_id_list f)) (\<lambda>tags.
    and_then (to_boundary_list db (tf_boundary_id_list f)) (\<lambda>boundaries.
    ret \<lparr>stf_name = name, stf_tag_list = tags, stf_boundary_list = boundaries\<rparr>)))"

definition to_create :: "app_db \<Rightarrow> identity_create_permission \<Rightarrow> s_identity_create_permission conversion" where
  "to_create db p = and_then (to_tag_list db (ic_allowed_tag_id_list p)) (\<lambda>tags.
    and_then (to_boundary_list db (ic_required_boundary_id_list p)) (\<lambda>boundaries.
    ret \<lparr>sic_allowed = ic_allowed p, sic_allowed_tag_list = tags, sic_required_boundary_list = boundaries\<rparr>))"

definition to_identity_permission :: "app_db \<Rightarrow> identity_permission \<Rightarrow> s_identity_permission conversion" where
  "to_identity_permission db p =
    and_then (return_none_if_none (to_create db) (ip_create p)) (\<lambda>create.
    and_then (to_tag_list db (ip_add_tag_id_list p)) (\<lambda>add.
    and_then (to_tag_list db (ip_del_tag_id_list p)) (\<lambda>del.
    ret \<lparr>sip_create = create, sip_read = ip_read p, sip_update = ip_update p, sip_delete = ip_delete p,
      sip_add_tag_list = add, sip_del_tag_list = del, sip_invite_list = ip_invite_list p\<rparr>)))"

text \<open>The constructor of \<open>SSHPermission\<close>: pydantic's validation error is a \<open>ValueError\<close>.\<close>

definition checked_ssh_permission :: "ssh_permission \<Rightarrow> ssh_permission conversion" where
  "checked_ssh_permission p = (if ssh_permission_valid p then ret p else raising ValueError)"

fun to_schema :: "app_db \<Rightarrow> grant \<Rightarrow> s_grant conversion" where
  "to_schema db (TagGrant g) = and_then (to_tag db (f_id (g_filter g))) (\<lambda>t.
     ret (STagGrant \<lparr>g_filter = \<lparr>fn_name_value = t\<rparr>, g_permission = g_permission g\<rparr>))"
| "to_schema db (BoundaryGrant g) = and_then (to_boundary db (f_id (g_filter g))) (\<lambda>n.
     ret (SBoundaryGrant \<lparr>g_filter = \<lparr>fn_name = n\<rparr>, g_permission = g_permission g\<rparr>))"
| "to_schema db (RoleGrant g) = and_then (to_role db (f_id (g_filter g))) (\<lambda>n.
     ret (SRoleGrant \<lparr>g_filter = \<lparr>fn_name = n\<rparr>, g_permission = g_permission g\<rparr>))"
| "to_schema db (IdentityGrant g) = and_then (to_triplet db (g_filter g)) (\<lambda>f.
     and_then (to_identity_permission db (g_permission g)) (\<lambda>p.
     ret (SIdentityGrant \<lparr>g_filter = f, g_permission = p\<rparr>)))"
| "to_schema db (SSHGrant g) = and_then (to_triplet db (g_filter g)) (\<lambda>f.
     and_then (checked_ssh_permission (g_permission g)) (\<lambda>p.
     ret (SSSHGrant \<lparr>g_filter = f, g_permission = p\<rparr>)))"
| "to_schema db (TenantGrant g) = ret (STenantGrant g)"
| "to_schema db (AuthGrant g) = and_then (to_auth db (f_id (g_filter g))) (\<lambda>n.
     ret (SAuthGrant \<lparr>g_filter = \<lparr>fn_name = n\<rparr>, g_permission = g_permission g\<rparr>))"
| "to_schema db (BastionGrant g) = ret (SBastionGrant g)"
| "to_schema db (AuditLogGrant g) = ret (SAuditLogGrant g)"
| "to_schema db (LiveGrant g) = and_then (to_tag_list db (lf_tag_id_list (g_filter g))) (\<lambda>tags.
     ret (SLiveGrant \<lparr>g_filter = \<lparr>slf_tag_list = tags\<rparr>, g_permission = g_permission g\<rparr>))"

definition grant_to_schema :: "app_db \<Rightarrow> grant \<Rightarrow> s_grant conversion" where
  "grant_to_schema db g = (\<lambda>c. case to_schema db g c of
     (Inl ValueError, c') \<Rightarrow> (Inr InvalidGrant, c') | (r, c') \<Rightarrow> (r, c'))"

section \<open>From the grants of the API to stored grants\<close>

definition from_triplet :: "app_db \<Rightarrow> s_triplet_filter \<Rightarrow> triplet_filter conversion" where
  "from_triplet db f = and_then (from_identity db (stf_name f)) (\<lambda>i.
    and_then (from_tag_list db (stf_tag_list f)) (\<lambda>tags.
    and_then (from_boundary_list db (stf_boundary_list f)) (\<lambda>boundaries.
    ret \<lparr>tf_id = i, tf_tag_id_list = tags, tf_boundary_id_list = boundaries\<rparr>)))"

definition from_create :: "app_db \<Rightarrow> s_identity_create_permission \<Rightarrow> identity_create_permission conversion" where
  "from_create db p = and_then (from_tag_list db (sic_allowed_tag_list p)) (\<lambda>tags.
    and_then (from_boundary_list db (sic_required_boundary_list p)) (\<lambda>boundaries.
    ret \<lparr>ic_allowed = sic_allowed p, ic_allowed_tag_id_list = tags, ic_required_boundary_id_list = boundaries\<rparr>))"

definition from_identity_permission :: "app_db \<Rightarrow> s_identity_permission \<Rightarrow> identity_permission conversion" where
  "from_identity_permission db p =
    and_then (return_none_if_none (from_create db) (sip_create p)) (\<lambda>create.
    and_then (from_tag_list db (sip_add_tag_list p)) (\<lambda>add.
    and_then (from_tag_list db (sip_del_tag_list p)) (\<lambda>del.
    ret \<lparr>ip_create = create, ip_read = sip_read p, ip_update = sip_update p, ip_delete = sip_delete p,
      ip_add_tag_id_list = add, ip_del_tag_id_list = del, ip_invite_list = sip_invite_list p\<rparr>)))"

fun from_schema :: "app_db \<Rightarrow> s_grant \<Rightarrow> grant conversion" where
  "from_schema db InvalidGrant = raising ValueError"
| "from_schema db (STagGrant g) = and_then (from_tag db (fn_name_value (g_filter g))) (\<lambda>i.
     ret (TagGrant \<lparr>g_filter = \<lparr>f_id = i\<rparr>, g_permission = g_permission g\<rparr>))"
| "from_schema db (SBoundaryGrant g) = and_then (from_boundary db (fn_name (g_filter g))) (\<lambda>i.
     ret (BoundaryGrant \<lparr>g_filter = \<lparr>f_id = i\<rparr>, g_permission = g_permission g\<rparr>))"
| "from_schema db (SRoleGrant g) = and_then (from_role db (fn_name (g_filter g))) (\<lambda>i.
     ret (RoleGrant \<lparr>g_filter = \<lparr>f_id = i\<rparr>, g_permission = g_permission g\<rparr>))"
| "from_schema db (SIdentityGrant g) = and_then (from_triplet db (g_filter g)) (\<lambda>f.
     and_then (from_identity_permission db (g_permission g)) (\<lambda>p.
     ret (IdentityGrant \<lparr>g_filter = f, g_permission = p\<rparr>)))"
| "from_schema db (SSSHGrant g) = and_then (from_triplet db (g_filter g)) (\<lambda>f.
     and_then (checked_ssh_permission (g_permission g)) (\<lambda>p.
     ret (SSHGrant \<lparr>g_filter = f, g_permission = p\<rparr>)))"
| "from_schema db (STenantGrant g) = ret (TenantGrant g)"
| "from_schema db (SAuthGrant g) = and_then (from_auth db (fn_name (g_filter g))) (\<lambda>i.
     ret (AuthGrant \<lparr>g_filter = \<lparr>f_id = i\<rparr>, g_permission = g_permission g\<rparr>))"
| "from_schema db (SBastionGrant g) = ret (BastionGrant g)"
| "from_schema db (SAuditLogGrant g) = ret (AuditLogGrant g)"
| "from_schema db (SLiveGrant g) = and_then (from_tag_list db (slf_tag_list (g_filter g))) (\<lambda>tags.
     ret (LiveGrant \<lparr>g_filter = \<lparr>lf_tag_id_list = tags\<rparr>, g_permission = g_permission g\<rparr>))"

definition grant_from_schema :: "app_db \<Rightarrow> s_grant \<Rightarrow> grant conversion" where
  "grant_from_schema db g = (\<lambda>c. case from_schema db g c of
     (Inl ValueError, c') \<Rightarrow>
       (Inl (Http (problem_response 400 about_blank (Some ''Grant specification is invalid'') None)), c')
   | (r, c') \<Rightarrow> (r, c'))"

section \<open>Objects that hold grants or tags\<close>

definition grants_to_schema :: "app_db \<Rightarrow> grant list \<Rightarrow> s_grant list conversion" where
  "grants_to_schema db = map_act (grant_to_schema db)"

definition grants_from_schema :: "app_db \<Rightarrow> s_grant list \<Rightarrow> grant list conversion" where
  "grants_from_schema db = map_act (grant_from_schema db)"

end
