(* ===== verification/Converter_Roundtrip.thy ===== *)
theory Converter_Roundtrip
  imports Converters
begin

text \<open>
  What a client reads of a list of grants it can write back unchanged, caches and all. The interface
  \<open>two_way\<close> states what a pair of lookups promises when the ids and the names of a table are unique;
  the lemma proved over it says that converting names is the inverse of converting ids, each with its
  own cache. It is interpreted on the five pairs of methods.
\<close>

section \<open>The two lookups of a table\<close>

locale two_way =
  fixes pairs :: "'d \<Rightarrow> ('t \<times> 'r) set"
    and ok :: "'d \<Rightarrow> bool"
    and to_names :: "'d \<Rightarrow> 't list \<Rightarrow> exn + ('t \<times> 'r) list"
    and from_names :: "'d \<Rightarrow> 'r list \<Rightarrow> exn + ('r \<times> 't) list"
  assumes bijective: "ok d \<Longrightarrow> (x, y) \<in> pairs d \<Longrightarrow> (x', y') \<in> pairs d \<Longrightarrow> x = x' \<longleftrightarrow> y = y'"
    and to_found: "ok d \<Longrightarrow> to_names d xs = Inr got \<Longrightarrow> length got = length xs \<Longrightarrow>
      distinct xs \<and> distinct (map fst got) \<and> fst ` set got = set xs \<and> set got \<subseteq> pairs d"
    and from_total: "ok d \<Longrightarrow> distinct ys \<Longrightarrow> set ys \<subseteq> snd ` pairs d \<Longrightarrow>
      \<exists>got. from_names d ys = Inr got \<and> length got = length ys \<and> distinct (map fst got) \<and>
        fst ` set got = set ys \<and> set got \<subseteq> {(y, x). (x, y) \<in> pairs d}"
begin

definition linked :: "'d \<Rightarrow> ('t \<times> 'r) list \<Rightarrow> ('r \<times> 't) list \<Rightarrow> bool" where
  "linked d ct cf \<longleftrightarrow> (\<forall>x y. map_of ct x = Some y \<longleftrightarrow> map_of cf y = Some x) \<and>
    (\<forall>x y. map_of ct x = Some y \<longrightarrow> (x, y) \<in> pairs d)"

lemma linked_empty: "linked d [] []"
  by (simp add: linked_def)

lemma map_of_merged:
  assumes "distinct (map fst got)" and "\<forall>x\<in>fst ` set got. map_of c x = None"
  shows "map_of (dict_merge c got) x = Some y \<longleftrightarrow> map_of c x = Some y \<or> (x, y) \<in> set got"
proof -
  have "map_of (rev got) x = map_of got x"
    using assms(1) by (metis distinct_map map_of_inject_set set_rev rev_map distinct_rev)
  moreover have "map_of got x = Some y \<longleftrightarrow> (x, y) \<in> set got"
    using assms(1) by (simp add: map_of_eq_Some_iff)
  moreover have "map_of got x = None \<longleftrightarrow> x \<notin> fst ` set got" by (simp add: map_of_eq_None_iff)
  ultimately show ?thesis
    using assms(2) by (auto simp: map_of_dict_merge image_iff split: option.splits)
qed

lemma linked_merge:
  assumes "ok d" and "linked d ct cf"
    and got: "distinct (map fst got)" "\<forall>x\<in>fst ` set got. map_of ct x = None" "set got \<subseteq> pairs d"
    and got': "distinct (map fst got')" "fst ` set got' = snd ` set got" "set got' \<subseteq> {(y, x). (x, y) \<in> pairs d}"
  shows "linked d (dict_merge ct got) (dict_merge cf got')"
proof -
  have swap: "(y, x) \<in> set got' \<longleftrightarrow> (x, y) \<in> set got" for x y
  proof
    assume *: "(y, x) \<in> set got'"
    then have "y \<in> snd ` set got" using got'(2) by force
    then obtain x' where x': "(x', y) \<in> set got" by auto
    then have "x' = x" using bijective [OF assms(1), of x' y x y] * got(3) got'(3) by auto
    then show "(x, y) \<in> set got" using x' by simp
  next
    assume *: "(x, y) \<in> set got"
    then have "y \<in> fst ` set got'" using got'(2) by force
    then obtain x' where x': "(y, x') \<in> set got'" by auto
    then have "x' = x" using bijective [OF assms(1), of x' y x y] * got(3) got'(3) by auto
    then show "(y, x) \<in> set got'" using x' by simp
  qed
  have new: "\<forall>y\<in>fst ` set got'. map_of cf y = None"
  proof (intro ballI, rule ccontr)
    fix y assume "y \<in> fst ` set got'" and "map_of cf y \<noteq> None"
    then obtain x x' where *: "(x, y) \<in> set got" "map_of ct x' = Some y" "(x', y) \<in> pairs d"
      using got'(2) assms(2) by (auto simp: linked_def)
    then have "x = x'" using bijective [OF assms(1), of x y x' y] got(3) by auto
    then show False using * got(2) by force
  qed
  show ?thesis
    using assms(2) swap got(3)
    by (auto simp: linked_def map_of_merged [OF got(1,2)] map_of_merged [OF got'(1) new])
qed

lemma linked_lookup:
  assumes "linked d ct cf" and "\<forall>x\<in>set xs. map_of ct x \<noteq> None"
  shows "map (\<lambda>y. the (map_of cf y)) (map (\<lambda>x. the (map_of ct x)) xs) = xs"
    and "\<forall>y\<in>set (map (\<lambda>x. the (map_of ct x)) xs). map_of cf y \<noteq> None"
proof -
  have inverse: "map_of cf (the (map_of ct x)) = Some x" if "x \<in> set xs" for x
    using that assms unfolding linked_def by (metis option.exhaust_sel)
  show "map (\<lambda>y. the (map_of cf y)) (map (\<lambda>x. the (map_of ct x)) xs) = xs"
    using inverse by (auto intro!: map_idI)
  show "\<forall>y\<in>set (map (\<lambda>x. the (map_of ct x)) xs). map_of cf y \<noteq> None"
    using inverse by simp
qed

lemma to_from:
  assumes "ok d" and "linked d ct cf" and "cached (to_names d) xs ct = (Inr ys, ct')"
  shows "\<exists>cf'. cached (from_names d) ys cf = (Inr xs, cf') \<and> linked d ct' cf'"
proof -
  define mx where "mx = filter (\<lambda>x. map_of ct x = None) xs"
  have ys: "ys = map (\<lambda>x. the (map_of ct' x)) xs" and in': "\<forall>x\<in>set xs. map_of ct' x \<noteq> None"
    using assms(3) by (auto simp: cached_def Let_def list_ex_iff split: if_splits sum.splits)
  show ?thesis
  proof (cases "mx = []")
    case True
    then have [simp]: "ct' = ct" using assms(3) by (auto simp: cached_def Let_def mx_def split: if_splits)
    show ?thesis
      using linked_lookup [OF assms(2), of xs] in' assms(2) ys
      by (auto simp: cached_def Let_def list_ex_iff filter_empty_conv)
  next
    case False
    then obtain got where g: "to_names d mx = Inr got" "length got = length mx" "ct' = dict_merge ct got"
      using assms(3) by (auto simp: cached_def Let_def mx_def [symmetric] split: if_splits sum.splits)
    note got = to_found [OF assms(1) g(1,2)]
    have fresh: "\<forall>x\<in>fst ` set got. map_of ct x = None" using got by (auto simp: mx_def)
    have val: "map_of ct' x = Some y \<longleftrightarrow> map_of ct x = Some y \<or> (x, y) \<in> set got" for x y
      unfolding g(3) using map_of_merged [of got ct] got fresh by blast
    define my where "my = map (\<lambda>x. the (map_of ct' x)) mx"
    have my_in: "(x, the (map_of ct' x)) \<in> set got" if "x \<in> set mx" for x
    proof -
      have "x \<in> set xs" "map_of ct x = None" using that by (auto simp: mx_def)
      then show ?thesis using in' val [of x "the (map_of ct' x)"] by auto
    qed
    have my_got: "set my = snd ` set got"
    proof -
      have "snd ` set got = (\<lambda>x. the (map_of ct' x)) ` fst ` set got"
        using val by (force simp: image_image intro!: image_cong)
      then show ?thesis using got by (simp add: my_def)
    qed
    have inj: "inj_on (\<lambda>x. the (map_of ct' x)) (set mx)"
      using my_in got bijective [OF assms(1)] by (intro inj_onI) (metis subsetD)
    have missing: "filter (\<lambda>y. map_of cf y = None) ys = my"
    proof -
      have "map_of cf (the (map_of ct' x)) = None \<longleftrightarrow> map_of ct x = None" if "x \<in> set xs" for x
      proof (cases "map_of ct x")
        case None
        then have "x \<in> set mx" using that by (simp add: mx_def)
        then have "(x, the (map_of ct' x)) \<in> pairs d" using my_in got by blast
        then show ?thesis using None assms(2) bijective [OF assms(1)] unfolding linked_def
          by (metis option.exhaust option.distinct(1))
      next
        case (Some y)
        then show ?thesis using val [of x y] assms(2) by (auto simp: linked_def)
      qed
      then have "filter (\<lambda>x. map_of cf (the (map_of ct' x)) = None) xs = mx"
        unfolding mx_def by (intro filter_cong) auto
      then show ?thesis by (simp add: ys my_def filter_map o_def)
    qed
    have "distinct my" using got inj by (simp add: my_def distinct_map)
    moreover have "set my \<subseteq> snd ` pairs d" using my_got got by auto
    ultimately obtain got' where got': "from_names d my = Inr got'" "length got' = length my"
        "distinct (map fst got')" "fst ` set got' = set my" "set got' \<subseteq> {(y, x). (x, y) \<in> pairs d}"
      using from_total [OF assms(1)] by blast
    have linked': "linked d ct' (dict_merge cf got')"
      unfolding g(3) using linked_merge [OF assms(1,2) _ fresh _ got'(3) _ got'(5)] got got'(4) my_got by blast
    have "my \<noteq> []" using False by (simp add: my_def)
    then show ?thesis
      using linked_lookup [OF linked' in'] linked' missing got'(1,2)
      by (auto simp: cached_def Let_def list_ex_iff ys)
  qed
qed

end

section \<open>Tables with unique ids and names\<close>

lemma keyed_subset:
  assumes "distinct (map fst got)" and "fst ` set got \<subseteq> set xs" and "length got = length xs"
  shows "distinct xs \<and> fst ` set got = set xs"
proof -
  have *: "card (fst ` set got) = length xs"
    using assms(1,3) distinct_card [of "map fst got"] by simp
  then have "fst ` set got = set xs"
    using assms(2) card_length [of xs] by (intro card_seteq) auto
  then show ?thesis using * by (simp add: card_distinct)
qed

lemma keyed_length:
  assumes "distinct (map fst got)" and "fst ` set got = set ys" and "distinct ys"
  shows "length got = length ys"
  using assms distinct_card [of "map fst got"] distinct_card [of ys] by simp

lemma dict_rows_found:
  fixes val and xs
  assumes "distinct (map key rows)"
  defines "got \<equiv> dict_rows key val (filter (\<lambda>r. key r \<in> set xs) rows)"
  shows "distinct (map fst got)" and "fst ` set got = set xs \<inter> key ` set rows"
    and "set got \<subseteq> (\<lambda>r. (key r, val r)) ` set rows"
proof -
  have "distinct (map key (filter (\<lambda>r. key r \<in> set xs) rows))" using assms(1) distinct_map_filter by blast
  then have "got = map (\<lambda>r. (key r, val r)) (filter (\<lambda>r. key r \<in> set xs) rows)"
    unfolding got_def by (rule dict_rows_distinct)
  then show "distinct (map fst got)" and "fst ` set got = set xs \<inter> key ` set rows"
    and "set got \<subseteq> (\<lambda>r. (key r, val r)) ` set rows"
    using assms(1) by (auto simp: o_def distinct_map_filter image_iff)
qed

text \<open>What the tables promise: ids are primary keys and names are unique.\<close>

definition named_ok :: "('r \<Rightarrow> int) \<Rightarrow> ('r \<Rightarrow> 'n) \<Rightarrow> 'r list \<Rightarrow> bool" where
  "named_ok key name rows \<longleftrightarrow> distinct (map key rows) \<and> distinct (map name rows)"

lemma rows_two_way:
  assumes "\<And>d ys. distinct (map name (rows d)) \<Longrightarrow> distinct ys \<Longrightarrow> set ys \<subseteq> name ` set (rows d) \<Longrightarrow>
      \<exists>got. from_names d ys = Inr got \<and> distinct (map fst got) \<and> fst ` set got = set ys \<and>
        set got \<subseteq> (\<lambda>r. (name r, key r)) ` set (rows d)"
    and "\<And>d xs. to_names d xs = Inr (dict_rows key name (filter (\<lambda>r. key r \<in> set xs) (rows d)))"
  shows "two_way (\<lambda>d. (\<lambda>r. (key r, name r)) ` set (rows d)) (\<lambda>d. named_ok key name (rows d)) to_names from_names"
proof
  show "named_ok key name (rows d) \<Longrightarrow> (x, y) \<in> (\<lambda>r. (key r, name r)) ` set (rows d) \<Longrightarrow>
      (x', y') \<in> (\<lambda>r. (key r, name r)) ` set (rows d) \<Longrightarrow> (x = x') = (y = y')" for d x y x' y'
    by (auto simp: named_ok_def distinct_map inj_on_def)
  show "distinct xs \<and> distinct (map fst got) \<and> fst ` set got = set xs \<and>
      set got \<subseteq> (\<lambda>r. (key r, name r)) ` set (rows d)"
    if "named_ok key name (rows d)" and "to_names d xs = Inr got" and "length got = length xs" for d xs got
    using that dict_rows_found [of key "rows d" name xs] keyed_subset [of got xs] assms(2) [of d xs]
    by (auto simp: named_ok_def)
  show "\<exists>got. from_names d ys = Inr got \<and> length got = length ys \<and> distinct (map fst got) \<and>
      fst ` set got = set ys \<and> set got \<subseteq> {(y, x). (x, y) \<in> (\<lambda>r. (key r, name r)) ` set (rows d)}"
    if *: "named_ok key name (rows d)" and ys: "distinct ys"
      and sub: "set ys \<subseteq> snd ` (\<lambda>r. (key r, name r)) ` set (rows d)" for d ys
  proof -
    obtain got where "from_names d ys = Inr got \<and> distinct (map fst got) \<and> fst ` set got = set ys \<and>
        set got \<subseteq> (\<lambda>r. (name r, key r)) ` set (rows d)"
      using assms(1) [of d ys] * ys sub by (auto simp: named_ok_def image_image)
    then show ?thesis using keyed_length [of got ys] ys by auto
  qed
qed

lemma names_found:
  "distinct (map name rows) \<Longrightarrow> set ys \<subseteq> name ` set rows \<Longrightarrow>
    \<exists>got. Inr (dict_rows name key (filter (\<lambda>r. name r \<in> set ys) rows)) = Inr got \<and> distinct (map fst got) \<and>
      fst ` set got = set ys \<and> set got \<subseteq> (\<lambda>r. (name r, key r)) ` set rows"
  using dict_rows_found [of name rows key ys] by (auto simp: Int_absorb2)

lemma find_tag:
  "List.find (\<lambda>r. tg_name r = tnv_name t \<and> tg_value r = tnv_value t) rows =
    List.find (\<lambda>r. tag_name_value_of r = t) rows"
  by (intro find_cong) (auto simp: tag_name_value_of_def)

lemma read_tags_found:
  assumes "distinct (map fst retval @ ys)" and "set ys \<subseteq> tag_name_value_of ` set (tb_rows (db_tag d))"
  shows "\<exists>got. read_tags_loop d ys retval = Inr (retval @ got) \<and> map fst got = ys \<and>
    set got \<subseteq> (\<lambda>r. (tag_name_value_of r, tg_id r)) ` set (tb_rows (db_tag d))"
  using assms
proof (induction ys arbitrary: retval)
  case (Cons y ys)
  obtain r where r: "List.find (\<lambda>r. tag_name_value_of r = y) (tb_rows (db_tag d)) = Some r"
    using Cons.prems(2) find_None_iff [of "\<lambda>r. tag_name_value_of r = y"] by fastforce
  then have "tag_name_value_of r = y" "r \<in> set (tb_rows (db_tag d))"
    by (auto simp: find_Some_iff)
  moreover have "AList.update y (tg_id r) retval = retval @ [(y, tg_id r)]"
    using Cons.prems(1) by (intro update_new) auto
  ultimately show ?case
    using Cons.IH [of "retval @ [(y, tg_id r)]"] Cons.prems r
    by (force simp: table_read_one_def tag_table_def find_tag)
qed simp

interpretation tags: two_way "\<lambda>d. (\<lambda>r. (tg_id r, tag_name_value_of r)) ` set (tb_rows (db_tag d))"
  "\<lambda>d. named_ok tg_id tag_name_value_of (tb_rows (db_tag d))"
  "\<lambda>d ids. Inr (dict_rows tg_id tag_name_value_of (table_read_all tag_table (\<lambda>r. tg_id r \<in> set ids) d))"
  read_tags
proof (rule rows_two_way)
  fix d :: app_db and ys
  assume "distinct ys" and "set ys \<subseteq> tag_name_value_of ` set (tb_rows (db_tag d))"
  then obtain got where "read_tags d ys = Inr got" and keys: "map fst got = ys"
      and "set got \<subseteq> (\<lambda>r. (tag_name_value_of r, tg_id r)) ` set (tb_rows (db_tag d))"
    using read_tags_found [of "[]" ys d] by (auto simp: read_tags_def)
  moreover have "distinct (map fst got)" and "fst ` set got = set ys"
    using keys \<open>distinct ys\<close> by (auto simp flip: set_map)
  ultimately show "\<exists>got. read_tags d ys = Inr got \<and> distinct (map fst got) \<and> fst ` set got = set ys \<and>
      set got \<subseteq> (\<lambda>r. (tag_name_value_of r, tg_id r)) ` set (tb_rows (db_tag d))"
    by blast
qed (simp add: table_read_all_def tag_table_def)

interpretation boundaries: two_way "\<lambda>d. (\<lambda>r. (bo_id r, bo_name r)) ` set (tb_rows (db_boundary d))"
  "\<lambda>d. named_ok bo_id bo_name (tb_rows (db_boundary d))"
  "\<lambda>d ids. Inr (dict_rows bo_id bo_name (table_read_all boundary_table (\<lambda>r. bo_id r \<in> set ids) d))"
  "\<lambda>d names. Inr (dict_rows bo_name bo_id (table_read_all boundary_table (\<lambda>r. bo_name r \<in> set names) d))"
  by (rule rows_two_way) (unfold table_read_all_def boundary_table_def table_def.select_convs, rule names_found, assumption+, rule refl)

interpretation roles: two_way "\<lambda>d. (\<lambda>r. (ro_id r, ro_name r)) ` set (tb_rows (db_role d))"
  "\<lambda>d. named_ok ro_id ro_name (tb_rows (db_role d))"
  "\<lambda>d ids. Inr (dict_rows ro_id ro_name (table_read_all role_table (\<lambda>r. ro_id r \<in> set ids) d))"
  "\<lambda>d names. Inr (dict_rows ro_name ro_id (table_read_all role_table (\<lambda>r. ro_name r \<in> set names) d))"
  by (rule rows_two_way) (unfold table_read_all_def role_table_def table_def.select_convs, rule names_found, assumption+, rule refl)

interpretation identities: two_way "\<lambda>d. (\<lambda>r. (id_id r, id_name r)) ` set (tb_rows (db_identity d))"
  "\<lambda>d. named_ok id_id id_name (tb_rows (db_identity d))"
  "\<lambda>d ids. Inr (dict_rows id_id id_name (table_read_all identity_table (\<lambda>r. id_id r \<in> set ids) d))"
  "\<lambda>d names. Inr (dict_rows id_name id_id (table_read_all identity_table (\<lambda>r. id_name r \<in> set names) d))"
  by (rule rows_two_way) (unfold table_read_all_def identity_table_def table_def.select_convs, rule names_found, assumption+, rule refl)

interpretation auths: two_way "\<lambda>d. (\<lambda>r. (aut_id r, aut_name r)) ` set (tb_rows (db_auth d))"
  "\<lambda>d. named_ok aut_id aut_name (tb_rows (db_auth d))"
  "\<lambda>d ids. Inr (dict_rows aut_id aut_name (table_read_all auth_table (\<lambda>r. aut_id r \<in> set ids) d))"
  "\<lambda>d names. Inr (dict_rows aut_name aut_id (table_read_all auth_table (\<lambda>r. aut_name r \<in> set names) d))"
  by (rule rows_two_way) (unfold table_read_all_def auth_table_def table_def.select_convs, rule names_found, assumption+, rule refl)

section \<open>Whole conversions\<close>

definition names_ok :: "app_db \<Rightarrow> bool" where
  "names_ok db \<longleftrightarrow> named_ok tg_id tag_name_value_of (tb_rows (db_tag db)) \<and>
    named_ok bo_id bo_name (tb_rows (db_boundary db)) \<and> named_ok ro_id ro_name (tb_rows (db_role db)) \<and>
    named_ok id_id id_name (tb_rows (db_identity db)) \<and> named_ok aut_id aut_name (tb_rows (db_auth db))"

definition mirrored :: "app_db \<Rightarrow> converter \<Rightarrow> converter \<Rightarrow> bool" where
  "mirrored db c c' \<longleftrightarrow> tags.linked db (cv_to_tag c) (cv_from_tag c') \<and>
    boundaries.linked db (cv_to_boundary c) (cv_from_boundary c') \<and>
    roles.linked db (cv_to_role c) (cv_from_role c') \<and>
    identities.linked db (cv_to_identity c) (cv_from_identity c') \<and>
    auths.linked db (cv_to_auth c) (cv_from_auth c')"

lemma mirrored_start: "mirrored db GrantConverter GrantConverter"
  by (simp add: mirrored_def GrantConverter_def tags.linked_empty boundaries.linked_empty
      roles.linked_empty identities.linked_empty auths.linked_empty)

text \<open>
  \<open>g\<close> takes \<open>f\<close>'s results back to its arguments, in converters whose caches correspond.
\<close>

definition takes_back :: "app_db \<Rightarrow> ('x \<Rightarrow> 'y conversion) \<Rightarrow> ('y \<Rightarrow> 'x conversion) \<Rightarrow> bool" where
  "takes_back db f g \<longleftrightarrow> (\<forall>x y c c' d. mirrored db c c' \<longrightarrow> f x c = (Inr y, d) \<longrightarrow>
    (\<exists>d'. g y c' = (Inr x, d') \<and> mirrored db d d'))"

lemma takes_backI:
  "(\<And>x y c c' d. mirrored db c c' \<Longrightarrow> f x c = (Inr y, d) \<Longrightarrow> \<exists>d'. g y c' = (Inr x, d') \<and> mirrored db d d') \<Longrightarrow>
    takes_back db f g"
  by (simp add: takes_back_def)

lemma takes_backD:
  "takes_back db f g \<Longrightarrow> f x c = (Inr y, d) \<Longrightarrow> mirrored db c c' \<Longrightarrow>
    \<exists>d'. g y c' = (Inr x, d') \<and> mirrored db d d'"
  by (simp add: takes_back_def)

lemma return_none_Inr:
  "return_none_if_none f x c = (Inr y, d) \<longleftrightarrow>
    (case x of None \<Rightarrow> y = None \<and> d = c | Some a \<Rightarrow> \<exists>b. f a c = (Inr b, d) \<and> y = Some b)"
  by (auto simp: return_none_if_none_def act_Inr split: option.splits)

lemma takes_back_optional:
  assumes "takes_back db f g"
  shows "takes_back db (return_none_if_none f) (return_none_if_none g)"
  using assms unfolding takes_back_def return_none_Inr by (fastforce split: option.splits)

lemma takes_back_map:
  assumes "takes_back db f g"
  shows "takes_back db (map_act f) (map_act g)"
proof (rule takes_backI)
  fix xs ys c c' d
  assume "mirrored db c c'" and "map_act f xs c = (Inr ys, d)"
  then show "\<exists>d'. map_act g ys c' = (Inr xs, d') \<and> mirrored db d d'"
  proof (induction xs arbitrary: ys c c')
    case (Cons x xs)
    then obtain y zs e where "f x c = (Inr y, e)" "map_act f xs e = (Inr zs, d)" "ys = y # zs"
      by (auto simp: act_Inr)
    then show ?case
      using takes_backD [OF assms _ Cons.prems(1)] Cons.IH by (fastforce simp: act_Inr)
  qed (simp add: act_Inr)
qed

text \<open>One item: the list of one item, taken apart.\<close>

lemma takes_back_single:
  assumes "takes_back db f g" and "f' = return_none_if_none (\<lambda>x. and_then (f (Some [x])) single)"
    and "g' = return_none_if_none (\<lambda>y. and_then (g (Some [y])) single)"
    and "\<And>x l c d. f (Some [x]) c = (Inr l, d) \<Longrightarrow> \<exists>z. l = Some [z]"
  shows "takes_back db f' g'"
  unfolding assms(2,3)
proof (rule takes_back_optional, rule takes_backI)
  fix x y c c' d
  assume *: "mirrored db c c'" and "and_then (f (Some [x])) single c = (Inr y, d)"
  then have "f (Some [x]) c = (Inr (Some [y]), d)"
    using assms(4) by (fastforce simp: act_Inr single_def ret_def)
  then show "\<exists>d'. and_then (g (Some [y])) single c' = (Inr x, d') \<and> mirrored db d d'"
    using takes_backD [OF assms(1) _ *] by (fastforce simp: act_Inr single_def ret_def)
qed

lemma cached_one: "fst (cached f [x] c) = Inr l \<Longrightarrow> \<exists>z. l = [z]"
  by (auto simp: cached_def Let_def split: if_splits sum.splits)

lemma list_of_one:
  "return_none_if_none (cache_list get upd f) (Some [x]) c = (Inr l, d) \<Longrightarrow> \<exists>z. l = Some [z]"
  using cached_one [of f x "get c"]
  by (auto simp: return_none_if_none_def act_Inr cache_list_def split: prod.splits)

named_theorems back_rules \<open>conversions that take each other's results back\<close>

lemma tag_list_back [back_rules]: "names_ok db \<Longrightarrow> takes_back db (to_tag_list db) (from_tag_list db)"
  unfolding to_tag_list_def from_tag_list_def names_ok_def
  by (rule takes_back_optional, rule takes_backI)
    (auto simp: cache_list_def mirrored_def split: prod.splits dest!: tags.to_from)

lemma tag_back [back_rules]: "names_ok db \<Longrightarrow> takes_back db (to_tag db) (from_tag db)"
  by (rule takes_back_single [OF tag_list_back to_tag_def from_tag_def])
    (simp_all add: to_tag_list_def list_of_one)

lemma boundary_list_back [back_rules]: "names_ok db \<Longrightarrow> takes_back db (to_boundary_list db) (from_boundary_list db)"
  unfolding to_boundary_list_def from_boundary_list_def names_ok_def
  by (rule takes_back_optional, rule takes_backI)
    (auto simp: cache_list_def mirrored_def split: prod.splits dest!: boundaries.to_from)

lemma boundary_back [back_rules]: "names_ok db \<Longrightarrow> takes_back db (to_boundary db) (from_boundary db)"
  by (rule takes_back_single [OF boundary_list_back to_boundary_def from_boundary_def])
    (simp_all add: to_boundary_list_def list_of_one)

lemma role_list_back [back_rules]: "names_ok db \<Longrightarrow> takes_back db (to_role_list db) (from_role_list db)"
  unfolding to_role_list_def from_role_list_def names_ok_def
  by (rule takes_back_optional, rule takes_backI)
    (auto simp: cache_list_def mirrored_def split: prod.splits dest!: roles.to_from)

lemma role_back [back_rules]: "names_ok db \<Longrightarrow> takes_back db (to_role db) (from_role db)"
  by (rule takes_back_single [OF role_list_back to_role_def from_role_def])
    (simp_all add: to_role_list_def list_of_one)

lemma identity_list_back [back_rules]: "names_ok db \<Longrightarrow> takes_back db (to_identity_list db) (from_identity_list db)"
  unfolding to_identity_list_def from_identity_list_def names_ok_def
  by (rule takes_back_optional, rule takes_backI)
    (auto simp: cache_list_def mirrored_def split: prod.splits dest!: identities.to_from)

lemma identity_back [back_rules]: "names_ok db \<Longrightarrow> takes_back db (to_identity db) (from_identity db)"
  by (rule takes_back_single [OF identity_list_back to_identity_def from_identity_def])
    (simp_all add: to_identity_list_def list_of_one)

lemma auth_list_back [back_rules]: "names_ok db \<Longrightarrow> takes_back db (to_auth_list db) (from_auth_list db)"
  unfolding to_auth_list_def from_auth_list_def names_ok_def
  by (rule takes_back_optional, rule takes_backI)
    (auto simp: cache_list_def mirrored_def split: prod.splits dest!: auths.to_from)

lemma auth_back [back_rules]: "names_ok db \<Longrightarrow> takes_back db (to_auth db) (from_auth db)"
  by (rule takes_back_single [OF auth_list_back to_auth_def from_auth_def])
    (simp_all add: to_auth_list_def list_of_one)

lemma checked_ssh_permission_back [back_rules]:
  "takes_back db checked_ssh_permission checked_ssh_permission"
  by (auto simp: takes_back_def checked_ssh_permission_def act_Inr split: if_splits)

lemma triplet_back [back_rules]: "names_ok db \<Longrightarrow> takes_back db (to_triplet db) (from_triplet db)"
proof (rule takes_backI)
  fix f sf c c' d
  assume ok: "names_ok db" and m: "mirrored db c c'" and "to_triplet db f c = (Inr sf, d)"
  then obtain c1 c2 where 1: "to_identity db (tf_id f) c = (Inr (stf_name sf), c1)"
      and 2: "to_tag_list db (tf_tag_id_list f) c1 = (Inr (stf_tag_list sf), c2)"
      and 3: "to_boundary_list db (tf_boundary_id_list f) c2 = (Inr (stf_boundary_list sf), d)"
    by (auto simp: to_triplet_def act_Inr)
  obtain d1 where d1: "from_identity db (stf_name sf) c' = (Inr (tf_id f), d1)" "mirrored db c1 d1"
    using takes_backD [OF identity_back [OF ok] 1 m] by blast
  obtain d2 where d2: "from_tag_list db (stf_tag_list sf) d1 = (Inr (tf_tag_id_list f), d2)" "mirrored db c2 d2"
    using takes_backD [OF tag_list_back [OF ok] 2 d1(2)] by blast
  obtain d3 where "from_boundary_list db (stf_boundary_list sf) d2 = (Inr (tf_boundary_id_list f), d3)"
      "mirrored db d d3"
    using takes_backD [OF boundary_list_back [OF ok] 3 d2(2)] by blast
  then show "\<exists>d'. from_triplet db sf c' = (Inr f, d') \<and> mirrored db d d'"
    using d1 d2 by (auto simp: from_triplet_def act_Inr)
qed

lemma create_back [back_rules]: "names_ok db \<Longrightarrow> takes_back db (to_create db) (from_create db)"
proof (rule takes_backI)
  fix p sp c c' d
  assume ok: "names_ok db" and m: "mirrored db c c'" and "to_create db p c = (Inr sp, d)"
  then obtain c1 where 1: "to_tag_list db (ic_allowed_tag_id_list p) c = (Inr (sic_allowed_tag_list sp), c1)"
      and 2: "to_boundary_list db (ic_required_boundary_id_list p) c1 = (Inr (sic_required_boundary_list sp), d)"
      and 3: "sic_allowed sp = ic_allowed p"
    by (auto simp: to_create_def act_Inr)
  obtain d1 where d1: "from_tag_list db (sic_allowed_tag_list sp) c' = (Inr (ic_allowed_tag_id_list p), d1)"
      "mirrored db c1 d1"
    using takes_backD [OF tag_list_back [OF ok] 1 m] by blast
  obtain d2 where "from_boundary_list db (sic_required_boundary_list sp) d1 = (Inr (ic_required_boundary_id_list p), d2)"
      "mirrored db d d2"
    using takes_backD [OF boundary_list_back [OF ok] 2 d1(2)] by blast
  then show "\<exists>d'. from_create db sp c' = (Inr p, d') \<and> mirrored db d d'"
    using d1 3 by (auto simp: from_create_def act_Inr)
qed

lemma identity_permission_back [back_rules]:
  "names_ok db \<Longrightarrow> takes_back db (to_identity_permission db) (from_identity_permission db)"
proof (rule takes_backI)
  fix p sp c c' d
  assume ok: "names_ok db" and m: "mirrored db c c'" and "to_identity_permission db p c = (Inr sp, d)"
  then obtain c1 c2 where 1: "return_none_if_none (to_create db) (ip_create p) c = (Inr (sip_create sp), c1)"
      and 2: "to_tag_list db (ip_add_tag_id_list p) c1 = (Inr (sip_add_tag_list sp), c2)"
      and 3: "to_tag_list db (ip_del_tag_id_list p) c2 = (Inr (sip_del_tag_list sp), d)"
      and 4: "sip_read sp = ip_read p" "sip_update sp = ip_update p" "sip_delete sp = ip_delete p"
        "sip_invite_list sp = ip_invite_list p"
    by (auto simp: to_identity_permission_def act_Inr)
  obtain d1 where d1: "return_none_if_none (from_create db) (sip_create sp) c' = (Inr (ip_create p), d1)"
      "mirrored db c1 d1"
    using takes_backD [OF takes_back_optional [OF create_back [OF ok]] 1 m] by blast
  obtain d2 where d2: "from_tag_list db (sip_add_tag_list sp) d1 = (Inr (ip_add_tag_id_list p), d2)" "mirrored db c2 d2"
    using takes_backD [OF tag_list_back [OF ok] 2 d1(2)] by blast
  obtain d3 where "from_tag_list db (sip_del_tag_list sp) d2 = (Inr (ip_del_tag_id_list p), d3)" "mirrored db d d3"
    using takes_backD [OF tag_list_back [OF ok] 3 d2(2)] by blast
  then show "\<exists>d'. from_identity_permission db sp c' = (Inr p, d') \<and> mirrored db d d'"
    using d1 d2 4 by (auto simp: from_identity_permission_def act_Inr)
qed

lemma schema_back: "names_ok db \<Longrightarrow> takes_back db (to_schema db) (from_schema db)"
proof (rule takes_backI)
  fix g s c c' d
  assume ok: "names_ok db" and m: "mirrored db c c'" and run: "to_schema db g c = (Inr s, d)"
  show "\<exists>d'. from_schema db s c' = (Inr g, d') \<and> mirrored db d d'"
  proof (cases g)
    case (TagGrant b) then show ?thesis
      using run takes_backD [OF tag_back [OF ok] _ m] by (fastforce simp: act_Inr)
  next
    case (BoundaryGrant b) then show ?thesis
      using run takes_backD [OF boundary_back [OF ok] _ m] by (fastforce simp: act_Inr)
  next
    case (RoleGrant b) then show ?thesis
      using run takes_backD [OF role_back [OF ok] _ m] by (fastforce simp: act_Inr)
  next
    case (AuthGrant b) then show ?thesis
      using run takes_backD [OF auth_back [OF ok] _ m] by (fastforce simp: act_Inr)
  next
    case (LiveGrant b) then show ?thesis
      using run takes_backD [OF tag_list_back [OF ok] _ m] by (fastforce simp: act_Inr)
  next
    case (IdentityGrant b)
    then obtain f p c1 where "s = SIdentityGrant \<lparr>g_filter = f, g_permission = p\<rparr>"
        and 1: "to_triplet db (g_filter b) c = (Inr f, c1)" and 2: "to_identity_permission db (g_permission b) c1 = (Inr p, d)"
      using run by (auto simp: act_Inr)
    then show ?thesis
      using IdentityGrant takes_backD [OF triplet_back [OF ok] 1 m] takes_backD [OF identity_permission_back [OF ok] 2]
      by (fastforce simp: act_Inr)
  next
    case (SSHGrant b)
    then obtain f p c1 where "s = SSSHGrant \<lparr>g_filter = f, g_permission = p\<rparr>"
        and 1: "to_triplet db (g_filter b) c = (Inr f, c1)" and 2: "checked_ssh_permission (g_permission b) c1 = (Inr p, d)"
      using run by (auto simp: act_Inr)
    then show ?thesis
      using SSHGrant takes_backD [OF triplet_back [OF ok] 1 m] takes_backD [OF checked_ssh_permission_back 2]
      by (fastforce simp: act_Inr)
  qed (use run m in \<open>auto simp: act_Inr\<close>)
qed

lemma to_schema_valid: "to_schema db g c = (Inr s, d) \<Longrightarrow> s \<noteq> InvalidGrant"
  by (cases g) (auto simp: act_Inr)

lemma grant_to_schema_Inr:
  "grant_to_schema db g c = (Inr s, d) \<Longrightarrow> s \<noteq> InvalidGrant \<Longrightarrow> to_schema db g c = (Inr s, d)"
  by (auto simp: grant_to_schema_def split: prod.splits sum.splits exn.splits)

lemma grants_to_schema_Inr:
  "grants_to_schema db gs c = (Inr ss, d) \<Longrightarrow> InvalidGrant \<notin> set ss \<Longrightarrow>
    map_act (to_schema db) gs c = (Inr ss, d)"
  unfolding grants_to_schema_def
  by (induction gs arbitrary: ss c) (force simp: act_Inr dest: grant_to_schema_Inr)+

lemma grants_from_schema_Inr:
  "map_act (from_schema db) ss c = (Inr gs, d) \<Longrightarrow> grants_from_schema db ss c = (Inr gs, d)"
  unfolding grants_from_schema_def
  by (induction ss arbitrary: gs c) (force simp: act_Inr grant_from_schema_def)+

text \<open>
  What a client reads it can write back. A list of stored grants that a fresh converter shows
  with no invalid entry, read while the ids and the names of the five tables are unique, is
  what a fresh converter makes of the list shown: the same grants in the same order, with the same
  ids, whatever the caches of the two converters held along the way.
\<close>

lemma shown_grants_write_back:
  assumes "names_ok db" and "grants_to_schema db gs GrantConverter = (Inr ss, c)"
    and "InvalidGrant \<notin> set ss"
  shows "\<exists>c'. grants_from_schema db ss GrantConverter = (Inr gs, c')"
  using takes_backD [OF takes_back_map [OF schema_back [OF assms(1)]]
      grants_to_schema_Inr [OF assms(2,3)] mirrored_start]
  by (auto dest: grants_from_schema_Inr)

definition converter_db :: app_db where
  "converter_db = empty_db\<lparr>
    db_tag := \<lparr>tb_rows = [\<lparr>tg_id = 1, tg_name = ''env'', tg_value = ''prod''\<rparr>,
      \<lparr>tg_id = 2, tg_name = ''env'', tg_value = ''dev''\<rparr>], tb_seq = 2\<rparr>,
    db_boundary := \<lparr>tb_rows = [\<lparr>bo_id = 7, bo_name = ''all'', bo_description = '''',
      bo_ceiling_list = None, bo_denied_list = []\<rparr>], tb_seq = 7\<rparr>\<rparr>"

definition live_on :: "int list \<Rightarrow> grant" where
  "live_on tags = LiveGrant \<lparr>g_filter = \<lparr>lf_tag_id_list = Some tags\<rparr>,
    g_permission = \<lparr>lp_read = True, lp_terminate = False\<rparr>\<rparr>"

definition shown_live_on :: "tag_name_value list \<Rightarrow> s_grant" where
  "shown_live_on tags = SLiveGrant \<lparr>g_filter = \<lparr>slf_tag_list = Some tags\<rparr>,
    g_permission = \<lparr>lp_read = True, lp_terminate = False\<rparr>\<rparr>"

definition prod_tag :: tag_name_value where
  "prod_tag = \<lparr>tnv_name = ''env'', tnv_value = ''prod''\<rparr>"

definition dev_tag :: tag_name_value where
  "dev_tag = \<lparr>tnv_name = ''env'', tnv_value = ''dev''\<rparr>"

lemmas converter_eval = converter_db_def live_on_def shown_live_on_def prod_tag_def dev_tag_def
  empty_db_def empty_table_def GrantConverter_def grants_to_schema_def grants_from_schema_def
  grant_to_schema_def grant_from_schema_def act_defs return_none_if_none_def cache_list_def cached_def
  to_tag_list_def from_tag_list_def table_read_all_def table_read_one_def tag_table_def dict_rows_def
  dict_merge_def tag_name_value_of_def read_tags_def Let_def

lemma shown_grants_write_back_witness:
  "\<exists>c'. grants_from_schema converter_db [shown_live_on [dev_tag, prod_tag], shown_live_on [prod_tag]]
    GrantConverter = (Inr [live_on [2, 1], live_on [1]], c')"
proof -
  have ok: "names_ok converter_db"
    by (simp add: names_ok_def named_ok_def converter_db_def empty_db_def empty_table_def tag_name_value_of_def)
  have shown: "\<exists>c. grants_to_schema converter_db [live_on [2, 1], live_on [1]] GrantConverter =
      (Inr [shown_live_on [dev_tag, prod_tag], shown_live_on [prod_tag]], c)"
    by (simp add: converter_eval)
  then obtain c where "grants_to_schema converter_db [live_on [2, 1], live_on [1]] GrantConverter =
      (Inr [shown_live_on [dev_tag, prod_tag], shown_live_on [prod_tag]], c)" by blast
  from shown_grants_write_back [OF ok this] show ?thesis by (simp add: shown_live_on_def)
qed

text \<open>
  Whether a list that repeats a tag is accepted depends on what the converter saw before it: alone
  it is refused as an invalid grant, after a grant that names the tag once it is stored with the
  repetition. A stored grant with the repetition, shown by a fresh converter, is an invalid grant.
\<close>

lemma repeated_tag_depends_on_cache:
  "(\<exists>c. grants_from_schema converter_db [shown_live_on [prod_tag, prod_tag]] GrantConverter =
      (Inl (Http (problem_response 400 about_blank (Some ''Grant specification is invalid'') None)), c)) \<and>
   (\<exists>c. grants_from_schema converter_db [shown_live_on [prod_tag], shown_live_on [prod_tag, prod_tag]]
      GrantConverter = (Inr [live_on [1], live_on [1, 1]], c)) \<and>
   (\<exists>c. grants_to_schema converter_db [live_on [1, 1]] GrantConverter = (Inr [InvalidGrant], c))"
  by (simp add: converter_eval)

end
