(* ===== verification/Model_Identity.thy ===== *)
theory Model_Identity
  imports Runs
begin

text \<open>
  \<open>api/model/identity.py\<close>: identities with their tags and boundaries, read from three tables. Reading
  an identity that has no boundary is a \<open>KeyError\<close>, as in the code. Deleting one collects what is lost
  (\<open>deletion_snapshot\<close>) and removes its rows from eight tables.
\<close>

definition FOUNDING_ID :: int where
  "FOUNDING_ID = 1"

record identity =
  i_id :: int
  i_name :: string
  i_tag_id_list :: "int list"
  i_boundary_id_list :: "int list"
  i_unix_username :: "string option"

section \<open>Reading\<close>

text \<open>The keyword arguments of \<open>read_all\<close>.\<close>

record identity_query =
  iq_id :: "int list option"
  iq_name :: "string option"
  iq_tag_id :: "int option"
  iq_tag_name :: "string option"
  iq_boundary_id :: "int option"
  iq_boundary_name :: "string option"

definition any_identity :: identity_query where
  "any_identity = \<lparr>iq_id = None, iq_name = None, iq_tag_id = None, iq_tag_name = None,
    iq_boundary_id = None, iq_boundary_name = None\<rparr>"

definition by_id :: "int \<Rightarrow> identity_query" where
  "by_id i = any_identity\<lparr>iq_id := Some [i]\<rparr>"

definition id_filters :: "identity_query \<Rightarrow> app_db \<Rightarrow> int list list" where
  "id_filters q db =
    (case iq_id q of None \<Rightarrow> [] | Some ids \<Rightarrow> [ids]) @
    (case iq_tag_id q of None \<Rightarrow> []
     | Some t \<Rightarrow> [map it_identity_id (table_read_all identity_tag_table (\<lambda>r. it_tag_id r = t) db)]) @
    (case iq_tag_name q of None \<Rightarrow> []
     | Some n \<Rightarrow>
        (let tag_ids = map tg_id (table_read_all tag_table (\<lambda>r. tg_name r = n) db)
         in [map it_identity_id (table_read_all identity_tag_table (\<lambda>r. it_tag_id r \<in> set tag_ids) db)])) @
    (case iq_boundary_id q of None \<Rightarrow> []
     | Some b \<Rightarrow> [map ib_identity_id (table_read_all identity_boundary_table (\<lambda>r. ib_boundary_id r = b) db)]) @
    (case iq_boundary_name q of None \<Rightarrow> []
     | Some n \<Rightarrow>
        (let boundary_ids = map bo_id (table_read_all boundary_table (\<lambda>r. bo_name r = n) db)
         in [map ib_identity_id
              (table_read_all identity_boundary_table (\<lambda>r. ib_boundary_id r \<in> set boundary_ids) db)]))"

definition id_wanted :: "int list list \<Rightarrow> int \<Rightarrow> bool" where
  "id_wanted filters i = (case filters of
     [] \<Rightarrow> True | f # fs \<Rightarrow> i \<in> fold (\<lambda>g s. s \<inter> set g) fs (set f))"

definition identity_of_row ::
    "(int \<times> int list) list \<Rightarrow> (int \<times> int list) list \<Rightarrow> identity_row \<Rightarrow> exn + identity" where
  "identity_of_row tags boundaries r = (case map_of boundaries (id_id r) of
     None \<Rightarrow> Inl KeyError
   | Some bs \<Rightarrow> Inr \<lparr>i_id = id_id r, i_name = id_name r, i_tag_id_list = get_or tags (id_id r) [],
       i_boundary_id_list = bs, i_unix_username = id_unix_username r\<rparr>)"

fun collect :: "('a \<Rightarrow> 'e + 'b) \<Rightarrow> 'a list \<Rightarrow> 'e + 'b list" where
  "collect f [] = Inr []"
| "collect f (x # xs) = (case f x of Inl e \<Rightarrow> Inl e
    | Inr y \<Rightarrow> (case collect f xs of Inl e \<Rightarrow> Inl e | Inr ys \<Rightarrow> Inr (y # ys)))"

definition identities_of :: "identity_query \<Rightarrow> app_db \<Rightarrow> exn + identity list" where
  "identities_of q db =
    (let filters = id_filters q db;
         identities = table_read_all identity_table (\<lambda>r. id_wanted filters (id_id r) \<and>
           (case iq_name q of None \<Rightarrow> True | Some n \<Rightarrow> id_name r = n)) db;
         identity_ids = map id_id identities;
         tags = map (\<lambda>(k, group). (k, map it_tag_id group)) (group_by it_identity_id
           (table_read_all identity_tag_table (\<lambda>r. it_identity_id r \<in> set identity_ids) db));
         boundaries = map (\<lambda>(k, group). (k, map ib_boundary_id group)) (group_by ib_identity_id
           (table_read_all identity_boundary_table (\<lambda>r. ib_identity_id r \<in> set identity_ids) db))
     in collect (identity_of_row tags boundaries) identities)"

definition identity_read_all :: "identity_query \<Rightarrow> identity list handler" where
  "identity_read_all q = and_then (reads (identities_of q)) lifting"

definition identity_read_one :: "identity_query \<Rightarrow> identity option handler" where
  "identity_read_one q = and_then (identity_read_all q)
    (\<lambda>identities. ret (if length identities = 0 then None else Some (identities ! 0)))"

text \<open>\<open>read_one(id=ctx.identity_id)\<close>: with no identity in the context it makes a set of \<open>None\<close>.\<close>

definition identity_read_self :: "request_ctx \<Rightarrow> identity option handler" where
  "identity_read_self cx = (case cx_identity_id cx of
     None \<Rightarrow> raising TypeError | Some me \<Rightarrow> identity_read_one (by_id me))"

section \<open>Creating and updating\<close>

definition identity_create ::
    "request_ctx \<Rightarrow> string \<Rightarrow> int list \<Rightarrow> int list \<Rightarrow> string option \<Rightarrow> int handler" where
  "identity_create cx name boundary_id_list tag_id_list unix_username =
    and_then (creates identity_table (\<lambda>n. \<lparr>id_id = n, id_created_by_id = None, id_created_at = cx_now cx,
        id_name = name, id_unix_username = unix_username\<rparr>)) (\<lambda>identity_id.
      seq (for_each boundary_id_list (\<lambda>b. seq (creates identity_boundary_table
        (\<lambda>n. \<lparr>ib_id = n, ib_identity_id = identity_id, ib_boundary_id = b\<rparr>)) (ret ())))
      (seq (for_each tag_id_list (\<lambda>t. seq (creates identity_tag_table
        (\<lambda>n. \<lparr>it_id = n, it_identity_id = identity_id, it_tag_id = t\<rparr>)) (ret ())))
      (seq (audit_create_refs cx IDENTITY_CREATE
          (no_args\<lparr>ra_tags := tag_id_list, ra_boundaries := boundary_id_list\<rparr>)
          [(''id'', DInt identity_id), (''name'', DStr name),
           (''boundary_id_list'', DInts boundary_id_list), (''tag_id_list'', DInts tag_id_list),
           (''unix_username'', opt_str unix_username)])
        (ret identity_id))))"

record identity_fields =
  if_name :: "string option"
  if_added :: "int list option"
  if_deleted :: "int list option"
  if_unix_username :: "string option option"

definition no_identity_fields :: identity_fields where
  "no_identity_fields = \<lparr>if_name = None, if_added = None, if_deleted = None, if_unix_username = None\<rparr>"

definition set_identity_fields :: "identity_fields \<Rightarrow> identity_row \<Rightarrow> identity_row" where
  "set_identity_fields u r = r
    \<lparr>id_name := (case if_name u of None \<Rightarrow> id_name r | Some x \<Rightarrow> x),
     id_unix_username := (case if_unix_username u of None \<Rightarrow> id_unix_username r | Some x \<Rightarrow> x)\<rparr>"

definition identity_update :: "request_ctx \<Rightarrow> int \<Rightarrow> identity_fields \<Rightarrow> unit handler" where
  "identity_update cx i u =
    and_then (reads_one identity_table (\<lambda>r. id_id r = i)) (\<lambda>old.
      seq (if_set (if_name u) (\<lambda>name. audit_create cx IDENTITY_UPDATE_NAME []
        [(''id'', DInt i), (''name'', DStr name), (''old'', old_of old (\<lambda>r. DStr (id_name r)))]))
      (seq (if_set (if_unix_username u) (\<lambda>x. audit_create cx IDENTITY_UPDATE_UNIX_USERNAME []
        [(''id'', DInt i), (''unix_username'', opt_str x),
         (''old'', old_of old (\<lambda>r. opt_str (id_unix_username r)))]))
      (seq (if if_name u \<noteq> None \<or> if_unix_username u \<noteq> None
        then seq (updates identity_table (set_identity_fields u) (\<lambda>r. id_id r = i)) (ret ()) else ret ())
      (seq (if_set (if_added u) (\<lambda>added. if length added = 0 then ret () else
        seq (for_each added (\<lambda>t. seq (creates identity_tag_table
            (\<lambda>n. \<lparr>it_id = n, it_identity_id = i, it_tag_id = t\<rparr>)) (ret ())))
          (audit_create_refs cx IDENTITY_ADD_TAGS (no_args\<lparr>ra_tags := added\<rparr>)
            [(''id'', DInt i), (''added_tag_id_list'', DInts added)])))
      (if_set (if_deleted u) (\<lambda>deleted. if length deleted = 0 then ret () else
        seq (deletes identity_tag_table (\<lambda>r. it_identity_id r = i \<and> it_tag_id r \<in> set deleted))
          (audit_create_refs cx IDENTITY_REMOVE_TAGS (no_args\<lparr>ra_tags := deleted\<rparr>)
            [(''id'', DInt i), (''deleted_tag_id_list'', DInts deleted)])))))))"

section \<open>Deleting\<close>

definition AUDIT_LIVE_SESSIONS :: nat where
  "AUDIT_LIVE_SESSIONS = 50"

definition live_sessions_of :: "int \<Rightarrow> int \<Rightarrow> app_db \<Rightarrow> session_key_row list" where
  "live_sessions_of now i db =
    sort_key (\<lambda>s. - sk_created_at s)
      (filter (\<lambda>s. \<not> sk_is_revoked s \<and> sk_logged_out_at s = None \<and> sk_expires_at s > now)
        (table_read_all identity_session_key_table (\<lambda>r. sk_identity_id r = i) db))"

definition identity_roles :: "int \<Rightarrow> app_db \<Rightarrow> int list" where
  "identity_roles i db =
    sort (map rm_role_id (table_read_all role_member_table (\<lambda>r. rm_identity_id r = i) db))"

definition deletion_snapshot :: "int \<Rightarrow> identity \<Rightarrow> app_db \<Rightarrow> details" where
  "deletion_snapshot now identity db =
    (let i = i_id identity;
         sessions = table_read_all identity_session_key_table (\<lambda>r. sk_identity_id r = i) db;
         live = live_sessions_of now i db;
         invitations = table_read_all identity_invitation_key_table (\<lambda>r. iv_identity_id r = i) db;
         connections = table_read_all ssh_connection_table (\<lambda>r. sn_identity_id r = i) db
     in [(''name'', DStr (i_name identity)), (''unix_username'', opt_str (i_unix_username identity)),
         (''tag_id_list'', DInts (i_tag_id_list identity)),
         (''boundary_id_list'', DInts (i_boundary_id_list identity)),
         (''role_id_list'', DInts (identity_roles i db)),
         (''account_keys'', DList (map (\<lambda>k. DObject [(''id'', DStr (ak_id k)), (''is_revoked'', DBool (ak_is_revoked k))])
            (table_read_all identity_account_key_table (\<lambda>r. ak_identity_id r = i) db))),
         (''pending_invitations'', DList (map (\<lambda>v. DObject [(''id'', DStr (iv_id v)), (''expires_at'', DInt (iv_expires_at v))])
            (filter (\<lambda>v. \<not> iv_is_accepted v \<and> \<not> iv_is_revoked v \<and> iv_expires_at v > now) invitations))),
         (''session_count'', DInt (int (length sessions))),
         (''last_session_created_at'', (case map sk_created_at sessions of [] \<Rightarrow> DNull
            | x # xs \<Rightarrow> DInt (fold max xs x))),
         (''live_sessions'', DList (map (\<lambda>s. DObject [(''id'', DStr (sk_id s)), (''created_at'', DInt (sk_created_at s)),
             (''expires_at'', DInt (sk_expires_at s)), (''login_ip'', opt_str (sk_login_ip s)),
             (''role_id'', opt_int (sk_role_id s))]) (take AUDIT_LIVE_SESSIONS live))),
         (''live_sessions_truncated'', DInt (max 0 (int (length live) - int AUDIT_LIVE_SESSIONS))),
         (''valid_ssh_connections'', DList (map (\<lambda>c. DObject [(''connection_id'', DStr (sn_connection_id c)),
             (''hostname'', DStr (sn_hostname c)), (''deadline'', opt_int (sn_deadline c)),
             (''valid_before'', DInt (sn_valid_before c))])
            (filter (\<lambda>c. sn_valid_before c > now) connections)))])"

text \<open>The role ids that the entry names: a live session without a role, or with role 0, adds none.\<close>

definition snapshot_roles :: "int \<Rightarrow> int \<Rightarrow> app_db \<Rightarrow> int list" where
  "snapshot_roles now i db = identity_roles i db @
    filter (\<lambda>r. r \<noteq> 0) (List.map_filter sk_role_id (take AUDIT_LIVE_SESSIONS (live_sessions_of now i db)))"

definition identity_delete :: "request_ctx \<Rightarrow> int \<Rightarrow> unit handler" where
  "identity_delete cx i =
    and_then (identity_read_one (by_id i)) (\<lambda>identity. case identity of
      None \<Rightarrow> raising AssertionError
    | Some identity \<Rightarrow>
        and_then (reads (deletion_snapshot (cx_now cx) identity)) (\<lambda>snapshot.
        and_then (reads (snapshot_roles (cx_now cx) i)) (\<lambda>roles.
          seq (deletes identity_boundary_table (\<lambda>r. ib_identity_id r = i))
          (seq (deletes identity_tag_table (\<lambda>r. it_identity_id r = i))
          (seq (deletes identity_account_key_table (\<lambda>r. ak_identity_id r = i))
          (seq (deletes identity_session_key_table (\<lambda>r. sk_identity_id r = i))
          (seq (deletes identity_invitation_key_table (\<lambda>r. iv_identity_id r = i))
          (seq (deletes role_member_table (\<lambda>r. rm_identity_id r = i))
          (seq (deletes ssh_connection_table (\<lambda>r. sn_identity_id r = i))
          (seq (deletes identity_table (\<lambda>r. id_id r = i))
            (audit_create_refs cx IDENTITY_DELETE
              (no_args\<lparr>ra_tags := i_tag_id_list identity, ra_boundaries := i_boundary_id_list identity,
                ra_roles := roles\<rparr>)
              ((''id'', DInt i) # snapshot)))))))))))) "

end
