(* ===== verification/Model_Bastion.thy ===== *)
theory Model_Bastion
  imports Model_Identity
begin

text \<open>
  \<open>api/model/bastion.py\<close>: bastions and which of them an identity sees. The tokens that the module signs
  are in \<open>Bastion_Tokens\<close>; who may get one is in the endpoints.
\<close>

record bastion =
  bas_id :: int
  bas_tag_id_list :: "int list option"
  bas_url :: string
  bas_created_at :: int
  bas_ssh_proxy_jump :: "string option"
  bas_created_by_id :: "int option"

definition opt_ints :: "int list option \<Rightarrow> detail" where
  "opt_ints l = (case l of None \<Rightarrow> DNull | Some xs \<Rightarrow> DInts xs)"

definition bastion_create :: "request_ctx \<Rightarrow> string \<Rightarrow> string option \<Rightarrow> int list option \<Rightarrow> int handler" where
  "bastion_create cx url ssh_proxy_jump tag_id_list =
    and_then (creates bastion_table (\<lambda>n. \<lparr>ba_id = n, ba_url = url, ba_ssh_proxy_jump = ssh_proxy_jump,
        ba_tag_id_list = tag_id_list, ba_created_at = cx_now cx, ba_created_by_id = cx_identity_id cx\<rparr>))
      (\<lambda>bastion_id. seq (audit_create_refs cx BASTION_CREATE (no_args\<lparr>ra_tags := or_empty tag_id_list\<rparr>)
          [(''id'', DInt bastion_id), (''url'', DStr url), (''ssh_proxy_jump'', opt_str ssh_proxy_jump),
           (''tag_id_list'', opt_ints tag_id_list)])
        (ret bastion_id))"

definition bastion_of_row :: "bastion_row \<Rightarrow> bastion" where
  "bastion_of_row b = \<lparr>bas_id = ba_id b, bas_tag_id_list = ba_tag_id_list b, bas_url = ba_url b,
    bas_created_at = ba_created_at b, bas_ssh_proxy_jump = ba_ssh_proxy_jump b,
    bas_created_by_id = ba_created_by_id b\<rparr>"

text \<open>The query is a list of ids and a creator, each of which may be absent.\<close>

definition bastion_read_all :: "int list option \<Rightarrow> int option \<Rightarrow> app_db \<Rightarrow> bastion list" where
  "bastion_read_all ids created_by_id db = map bastion_of_row
    (table_read_all bastion_table (\<lambda>r.
      (case ids of None \<Rightarrow> True | Some l \<Rightarrow> ba_id r \<in> set l) \<and>
      (case created_by_id of None \<Rightarrow> True | Some c \<Rightarrow> ba_created_by_id r = Some c)) db)"

definition bastion_read_one :: "int \<Rightarrow> app_db \<Rightarrow> bastion option" where
  "bastion_read_one i db =
    (let bastions = bastion_read_all (Some [i]) None db
     in if length bastions = 0 then None else Some (bastions ! 0))"

record bastion_fields =
  baf_url :: "string option"
  baf_ssh_proxy_jump :: "string option option"
  baf_tag_id_list :: "int list option option"

definition no_bastion_fields :: bastion_fields where
  "no_bastion_fields = \<lparr>baf_url = None, baf_ssh_proxy_jump = None, baf_tag_id_list = None\<rparr>"

definition set_bastion_fields :: "bastion_fields \<Rightarrow> bastion_row \<Rightarrow> bastion_row" where
  "set_bastion_fields u r = r
    \<lparr>ba_url := (case baf_url u of None \<Rightarrow> ba_url r | Some x \<Rightarrow> x),
     ba_ssh_proxy_jump := (case baf_ssh_proxy_jump u of None \<Rightarrow> ba_ssh_proxy_jump r | Some x \<Rightarrow> x),
     ba_tag_id_list := (case baf_tag_id_list u of None \<Rightarrow> ba_tag_id_list r | Some x \<Rightarrow> x)\<rparr>"

definition bastion_update :: "request_ctx \<Rightarrow> int \<Rightarrow> bastion_fields \<Rightarrow> unit handler" where
  "bastion_update cx i u =
    (if u = no_bastion_fields then ret ()
     else seq (audit_create_refs cx BASTION_UPDATE
         (no_args\<lparr>ra_tags := (case baf_tag_id_list u of None \<Rightarrow> [] | Some l \<Rightarrow> or_empty l)\<rparr>)
         ((''id'', DInt i) #
          (case baf_url u of None \<Rightarrow> [] | Some x \<Rightarrow> [(''url'', DStr x)]) @
          (case baf_ssh_proxy_jump u of None \<Rightarrow> [] | Some x \<Rightarrow> [(''ssh_proxy_jump'', opt_str x)]) @
          (case baf_tag_id_list u of None \<Rightarrow> [] | Some x \<Rightarrow> [(''tag_id_list'', opt_ints x)])))
       (seq (updates bastion_table (set_bastion_fields u) (\<lambda>r. ba_id r = i)) (ret ())))"

definition bastion_delete :: "request_ctx \<Rightarrow> int \<Rightarrow> bool handler" where
  "bastion_delete cx i =
    and_then (reads_one bastion_table (\<lambda>r. ba_id r = i)) (\<lambda>row. case row of
      None \<Rightarrow> ret False
    | Some row \<Rightarrow>
        and_then (deletes bastion_table (\<lambda>r. ba_id r = i)) (\<lambda>n.
          if n = 0 then ret False
          else seq (audit_create_refs cx BASTION_DELETE (no_args\<lparr>ra_tags := or_empty (ba_tag_id_list row)\<rparr>)
              [(''id'', DInt i), (''url'', DStr (ba_url row)),
               (''ssh_proxy_jump'', opt_str (ba_ssh_proxy_jump row)),
               (''tag_id_list'', opt_ints (ba_tag_id_list row))])
            (ret True)))"

definition remove_tag_step :: "request_ctx \<Rightarrow> int \<Rightarrow> bastion \<Rightarrow> int list handler" where
  "remove_tag_step cx tag_id b = (case bas_tag_id_list b of
     None \<Rightarrow> ret []
   | Some tags \<Rightarrow> if tag_id \<notin> set tags then ret []
     else let remaining = filter (\<lambda>t. t \<noteq> tag_id) tags
          in seq (bastion_update cx (bas_id b) (no_bastion_fields\<lparr>baf_tag_id_list :=
               Some (if remaining \<noteq> [] then Some remaining else None)\<rparr>))
             (ret [bas_id b]))"

definition bastion_remove_tag :: "request_ctx \<Rightarrow> int \<Rightarrow> int list handler" where
  "bastion_remove_tag cx tag_id =
    and_then (reads (bastion_read_all None None)) (\<lambda>bastions.
      and_then (map_act (remove_tag_step cx tag_id) bastions) (\<lambda>changed. ret (concat changed)))"

text \<open>Which bastions a caller with these tags sees.\<close>

definition bastion_matches :: "int list \<Rightarrow> bastion \<Rightarrow> bool" where
  "bastion_matches tags b = (case bas_tag_id_list b of
     None \<Rightarrow> True
   | Some l \<Rightarrow> if length l = 0 then False else list_ex (\<lambda>t. t \<in> set tags) l)"

definition bastion_read_matching :: "request_ctx \<Rightarrow> bastion list handler" where
  "bastion_read_matching cx =
    and_then (identity_read_self cx) (\<lambda>caller. case caller of
       None \<Rightarrow> ret []
     | Some caller \<Rightarrow>
         and_then (reads (bastion_read_all None None))
           (\<lambda>bastions. ret (filter (bastion_matches (i_tag_id_list caller)) bastions)))"

end
