(* ===== verification/Endpoint_Base.thy ===== *)
theory Endpoint_Base
  imports Model_Bastion Converters Checkers
begin

text \<open>
  What the endpoints share: the factory of \<open>Grants\<close>, the loop that checks the fields of a PATCH, the
  grant converter inside a handler, and what is shown of roles, boundaries and bastions.
\<close>

section \<open>The caller's grants\<close>

text \<open>
  \<open>Grants.create\<close>. A session that has not set its role has none of its identity's roles; a session
  that has set it keeps it whether or not the identity is still a member.
\<close>

definition grants_create :: "request_ctx \<Rightarrow> grants handler" where
  "grants_create cx =
    and_then (reads_one identity_table (\<lambda>r. cx_identity_id cx = Some (id_id r))) (\<lambda>identity. case identity of
      None \<Rightarrow> raising AssertionError
    | Some identity \<Rightarrow>
        and_then (reads_all identity_boundary_table (\<lambda>r. ib_identity_id r = id_id identity)) (\<lambda>ibs.
        seq (ensure (length ibs > 0))
        (and_then (reads (boundary_read_all (\<lambda>r. bo_id r \<in> set (map ib_boundary_id ibs)))) (\<lambda>boundaries.
          case cx_active_role_id cx of
            None \<Rightarrow> ret \<lparr>gr_boundaries = boundaries, gr_roles = []\<rparr>
          | Some role_id \<Rightarrow> and_then (reads (role_read_all (\<lambda>r. ro_id r = role_id)))
              (\<lambda>roles. ret \<lparr>gr_boundaries = boundaries, gr_roles = roles\<rparr>)))))"

section \<open>Checks on the fields of a request\<close>

text \<open>
  A request lists the fields it set (\<open>model_fields_set\<close>, in the order the set is walked in); the value
  of a field that is not in the list is not looked at.
\<close>

definition check_fields ::
    "string list \<Rightarrow> (string \<Rightarrow> exn + bool) \<Rightarrow> (string \<Rightarrow> exn) \<Rightarrow> unit handler" where
  "check_fields names can_update refusal = for_each names (\<lambda>field.
    and_then (lifting (can_update field)) (\<lambda>ok. unless_raise ok (refusal field)))"

text \<open>The value of a field, when the request sets it.\<close>

definition when_set :: "string list \<Rightarrow> string \<Rightarrow> 'a \<Rightarrow> 'a option" where
  "when_set names field x = (if field \<in> set names then Some x else None)"

section \<open>Converting inside a handler\<close>

definition converting :: "(app_db \<Rightarrow> 'a conversion) \<Rightarrow> converter \<Rightarrow> ('a \<times> converter) handler" where
  "converting m cv = (\<lambda>w. case m (w_db w) cv of
     (Inl e, _) \<Rightarrow> (Inl e, w) | (Inr x, cv') \<Rightarrow> (Inr (x, cv'), w))"

lemma keeps_converting [keeps_rules, intro]: "keeps P (converting m cv)"
  by (auto simp: keeps_def converting_def split: prod.splits sum.splits)

section \<open>What is shown of objects\<close>

record s_boundary =
  sb_id :: int
  sb_name :: string
  sb_description :: string
  sb_ceiling_list :: "s_grant list option"
  sb_denied_list :: "s_grant list"

definition boundary_to_schema :: "boundary \<Rightarrow> app_db \<Rightarrow> s_boundary conversion" where
  "boundary_to_schema b db =
    and_then (return_none_if_none (grants_to_schema db) (b_ceiling_list b)) (\<lambda>ceiling.
    and_then (grants_to_schema db (b_denied_list b)) (\<lambda>denied.
    ret \<lparr>sb_id = b_id b, sb_name = b_name b, sb_description = b_description b,
      sb_ceiling_list = ceiling, sb_denied_list = denied\<rparr>))"

record s_role =
  sr_id :: int
  sr_name :: string
  sr_description :: string
  sr_grant_list :: "s_grant list"
  sr_member_list :: "(int \<times> string) list"

definition role_to_schema :: "role \<Rightarrow> app_db \<Rightarrow> s_role conversion" where
  "role_to_schema r db =
    (let members = table_read_all identity_table (\<lambda>i. id_id i \<in> set (r_member_id_list r)) db
     in and_then (grants_to_schema db (r_grant_list r)) (\<lambda>grant_list.
       ret \<lparr>sr_id = r_id r, sr_name = r_name r, sr_description = r_description r,
         sr_grant_list = grant_list, sr_member_list = map (\<lambda>m. (id_id m, id_name m)) members\<rparr>))"

record s_bastion =
  sba_id :: int
  sba_url :: string
  sba_ssh_proxy_jump :: "string option"
  sba_tag_list :: "tag_name_value list option"

definition bastion_to_schema :: "bastion \<Rightarrow> app_db \<Rightarrow> s_bastion conversion" where
  "bastion_to_schema b db = and_then (to_tag_list db (bas_tag_id_list b)) (\<lambda>tags.
    ret \<lparr>sba_id = bas_id b, sba_url = bas_url b, sba_ssh_proxy_jump = bas_ssh_proxy_jump b,
      sba_tag_list = tags\<rparr>)"

definition bastion_list_to_schema :: "bastion list \<Rightarrow> app_db \<Rightarrow> s_bastion list conversion" where
  "bastion_list_to_schema bs db = map_act (\<lambda>b. bastion_to_schema b db) bs"

definition show_one :: "('x \<Rightarrow> app_db \<Rightarrow> 'y conversion) \<Rightarrow> 'x \<Rightarrow> converter \<Rightarrow> 'y handler" where
  "show_one f x cv = and_then (converting (f x) cv) (\<lambda>(y, _). ret y)"

definition show_all :: "('x \<Rightarrow> app_db \<Rightarrow> 'y conversion) \<Rightarrow> 'x list \<Rightarrow> converter \<Rightarrow> 'y list handler" where
  "show_all f xs cv = and_then (converting (\<lambda>db. map_act (\<lambda>x. f x db) xs) cv) (\<lambda>(ys, _). ret ys)"

end
