(* ===== verification/Policy_Endpoints.thy ===== *)
theory Policy_Endpoints
  imports Endpoint_Base Grant_Removal
begin

text \<open>
  \<open>api/endpoints/boundary.py\<close>, \<open>role.py\<close> and \<open>tag.py\<close>. Each endpoint is a handler: the value is the
  body of the response (unit for a 204), the exception what the request is rejected with. A request
  has passed its schema: the validators that refuse explicit nulls have run, so a field that is set
  and must not be null carries a value.
\<close>

section \<open>Boundaries\<close>

definition boundary_list_endpoint ::
    "request_ctx \<Rightarrow> int option \<Rightarrow> string option \<Rightarrow> s_boundary list handler" where
  "boundary_list_endpoint cx i name =
    and_then (reads (boundary_read_all (\<lambda>r. opt_all (\<lambda>x. bo_id r = x) i \<and> opt_all (\<lambda>x. bo_name r = x) name)))
      (\<lambda>boundaries. and_then (grants_create cx) (\<lambda>grants.
        show_all boundary_to_schema
          (filter (\<lambda>b. boundary_can_read (grants_boundary grants (Some (b_id b)))) boundaries) GrantConverter))"

definition boundary_create_endpoint :: "request_ctx \<Rightarrow> string \<Rightarrow> string \<Rightarrow> s_boundary handler" where
  "boundary_create_endpoint cx name description =
    and_then (grants_create cx) (\<lambda>grants.
      if \<not> boundary_can_create (grants_boundary grants None)
      then reject 403 ''Not allowed to create boundary'' None
      else and_then (catching (boundary_create cx name description None [])
          (\<lambda>e. case e of IntegrityError _ _ \<Rightarrow>
              reject 400 ''Boundary already exists. Name must be unique.'' (Some name) | _ \<Rightarrow> raising e))
        (\<lambda>boundary_id. and_then (reads (boundary_read_one (\<lambda>r. bo_id r = boundary_id))) (\<lambda>boundary.
          case boundary of None \<Rightarrow> raising AssertionError
          | Some b \<Rightarrow> show_one boundary_to_schema b GrantConverter)))"

definition boundary_missing :: string where
  "boundary_missing = ''Boundary does not exist''"

definition boundary_delete_endpoint :: "request_ctx \<Rightarrow> int \<Rightarrow> unit handler" where
  "boundary_delete_endpoint cx boundary_id =
    and_then (reads (boundary_read_one (\<lambda>r. bo_id r = boundary_id))) (\<lambda>boundary. case boundary of
      None \<Rightarrow> raising (not_found boundary_missing)
    | Some boundary \<Rightarrow>
        and_then (grants_create cx) (\<lambda>grants.
          let chk = grants_boundary grants (Some (b_id boundary)) in
          if \<not> boundary_can_delete chk
          then raising (forbidden_or_not_found (boundary_can_read chk) ''Not allowed to delete boundary''
            boundary_missing None)
          else and_then (reads_one identity_boundary_table (\<lambda>r. ib_boundary_id r = b_id boundary)) (\<lambda>identity.
            if identity \<noteq> None then reject 400 ''Boundary is still in use'' None
            else and_then (boundary_delete cx (b_id boundary))
              (\<lambda>ok. if \<not> ok then raising (not_found boundary_missing) else ret ()))))"

record boundary_update_request =
  bur_fields :: "string list"
  bur_name :: string
  bur_description :: string
  bur_ceiling_list :: "s_grant list option"
  bur_denied_list :: "s_grant list"

text \<open>\<open>[converters.grant_from_schema(converter, g) for g in ...]\<close> for a field that may not be set.\<close>

definition read_grants ::
    "s_grant list option \<Rightarrow> converter \<Rightarrow> (grant list option \<times> converter) handler" where
  "read_grants l cv = (case l of
     None \<Rightarrow> ret (None, cv)
   | Some gs \<Rightarrow> and_then (converting (\<lambda>db. grants_from_schema db gs) cv) (\<lambda>(x, cv). ret (Some x, cv)))"

definition boundary_update_as ::
    "request_ctx \<Rightarrow> identity \<Rightarrow> int \<Rightarrow> boundary_update_request \<Rightarrow> s_boundary handler" where
  "boundary_update_as cx identity boundary_id data =
    and_then (reads (boundary_read_one (\<lambda>r. bo_id r = boundary_id))) (\<lambda>boundary. case boundary of
      None \<Rightarrow> raising (not_found boundary_missing)
    | Some boundary \<Rightarrow>
    and_then (grants_create cx) (\<lambda>grants.
      let chk = grants_boundary grants (Some (b_id boundary));
          names = bur_fields data;
          denied = when_set names ''denied_list'' (bur_denied_list data);
          ceiling = when_set names ''ceiling_list'' (bur_ceiling_list data);
          own = boundary_id \<in> set (i_boundary_id_list identity)
      in seq (check_fields names (boundary_can_update chk) (\<lambda>field.
          forbidden_or_not_found (boundary_can_read chk) ''Not allowed to update boundary field''
            boundary_missing (Some field)))
        (seq (if denied \<noteq> None \<and> own
          then reject 403 ''Not allowed to update denied list on boundary that applies to self'' None else ret ())
        (and_then (read_grants denied GrantConverter) (\<lambda>(new_denied, cv).
        seq (if ceiling \<noteq> None \<and> own
          then reject 403 ''Not allowed to update ceiling list on boundary that applies to self'' None else ret ())
        (and_then (read_grants (case ceiling of None \<Rightarrow> None | Some c \<Rightarrow> c) cv) (\<lambda>(new_ceiling, cv).
        seq (boundary_update cx boundary_id
            \<lparr>bf_name = when_set names ''name'' (bur_name data),
             bf_description = when_set names ''description'' (bur_description data),
             bf_ceiling_list = (case ceiling of None \<Rightarrow> None | Some _ \<Rightarrow> Some new_ceiling),
             bf_denied_list = new_denied\<rparr>)
        (and_then (reads (boundary_read_one (\<lambda>r. bo_id r = boundary_id))) (\<lambda>boundary. case boundary of
            None \<Rightarrow> raising AssertionError
          | Some b \<Rightarrow> show_one boundary_to_schema b cv)))))))))"

text \<open>The endpoint, which first reads who the caller is.\<close>

definition boundary_update_endpoint ::
    "request_ctx \<Rightarrow> int \<Rightarrow> boundary_update_request \<Rightarrow> s_boundary handler" where
  "boundary_update_endpoint cx boundary_id data =
    and_then (identity_read_self cx) (\<lambda>identity. case identity of
      None \<Rightarrow> raising AssertionError
    | Some identity \<Rightarrow> boundary_update_as cx identity boundary_id data)"

section \<open>Roles\<close>

definition role_list_endpoint :: "request_ctx \<Rightarrow> string option \<Rightarrow> int option \<Rightarrow> s_role list handler" where
  "role_list_endpoint cx name i =
    and_then (grants_create cx) (\<lambda>grants.
    and_then (reads (role_read_all (\<lambda>r. opt_all (\<lambda>x. ro_name r = x) name \<and> opt_all (\<lambda>x. ro_id r = x) i)))
      (\<lambda>roles. show_all role_to_schema
        (filter (\<lambda>r. role_can_read (grants_role grants (Some (r_id r)))) roles) GrantConverter))"

definition role_create_endpoint :: "request_ctx \<Rightarrow> string \<Rightarrow> string \<Rightarrow> s_role handler" where
  "role_create_endpoint cx name description =
    and_then (grants_create cx) (\<lambda>grants.
      if \<not> role_can_create (grants_role grants None)
      then reject 403 ''Not allowed to create role'' None
      else and_then (catching (role_create cx name description [])
          (\<lambda>e. case e of IntegrityError _ _ \<Rightarrow>
              reject 400 ''Role already exists. Name must be unique.'' (Some name) | _ \<Rightarrow> raising e))
        (\<lambda>role_id. and_then (reads (role_read_one role_id)) (\<lambda>role.
          case role of None \<Rightarrow> raising AssertionError
          | Some r \<Rightarrow> show_one role_to_schema r GrantConverter)))"

definition role_missing :: string where
  "role_missing = ''Role not found''"

definition role_delete_endpoint :: "request_ctx \<Rightarrow> int \<Rightarrow> unit handler" where
  "role_delete_endpoint cx role_id =
    and_then (reads (role_read_one role_id)) (\<lambda>role. case role of
      None \<Rightarrow> raising (not_found role_missing)
    | Some role \<Rightarrow>
        and_then (grants_create cx) (\<lambda>grants.
          let chk = grants_role grants (Some (r_id role)) in
          if \<not> role_can_delete chk
          then raising (forbidden_or_not_found (role_can_read chk) ''Not allowed to delete role''
            role_missing None)
          else and_then (reads_one role_member_table (\<lambda>r. rm_role_id r = r_id role)) (\<lambda>member.
            if member \<noteq> None then reject 400 ''Role is still in use'' None
            else and_then (role_delete cx (r_id role))
              (\<lambda>ok. if \<not> ok then raising (not_found role_missing) else ret ()))))"

record role_update_request =
  rur_fields :: "string list"
  rur_name :: string
  rur_description :: string
  rur_grant_list :: "s_grant list"
  rur_member_list :: "string list"

text \<open>
  The members to add and to delete, in the order of the ids (the code walks sets of integers). \<open>None\<close>
  when the request does not set the members.
\<close>

definition member_changes ::
    "request_ctx \<Rightarrow> role \<Rightarrow> string list option \<Rightarrow> (int list \<times> int list) option handler" where
  "member_changes cx role member_list = (case member_list of
     None \<Rightarrow> ret None
   | Some wanted \<Rightarrow>
       and_then (reads_all identity_table (\<lambda>r. id_name r \<in> set wanted)) (\<lambda>members.
         let member_by_name = dict_rows id_name id_id members;
             unresolved = filter (\<lambda>n. map_of member_by_name n = None) wanted;
             new = set (map (\<lambda>n. the (map_of member_by_name n)) wanted);
             current = set (r_member_id_list role);
             deleted = sorted_list_of_set (current - new);
             added = sorted_list_of_set (new - current)
         in if length unresolved > 0
            then reject 400 ''Unable to resolve members'' (Some (join_with '', '' unresolved))
            else if cx_active_role_id cx = Some (r_id role) \<and>
                (case cx_identity_id cx of None \<Rightarrow> False | Some me \<Rightarrow> me \<in> set deleted)
            then reject 403 ''Not allowed to remove self from active session role'' None
            else ret (Some (added, deleted))))"

definition grant_changes ::
    "request_ctx \<Rightarrow> role \<Rightarrow> s_grant list option \<Rightarrow> converter \<Rightarrow> (grant list option \<times> converter) handler" where
  "grant_changes cx role grant_list cv =
    and_then (read_grants grant_list cv) (\<lambda>(new, cv). case new of
      None \<Rightarrow> ret (None, cv)
    | Some new_grant_list \<Rightarrow>
        if cx_active_role_id cx = Some (r_id role) \<and> list_ex (\<lambda>g. g \<notin> set new_grant_list) (r_grant_list role)
        then reject 403 ''Not allowed to remove grants from the active session role'' None
        else ret (Some new_grant_list, cv))"

definition changed_value :: "string list \<Rightarrow> string \<Rightarrow> 'a \<Rightarrow> 'a \<Rightarrow> 'a option" where
  "changed_value names field x old = (if field \<in> set names \<and> x \<noteq> old then Some x else None)"

definition role_update_endpoint :: "request_ctx \<Rightarrow> int \<Rightarrow> role_update_request \<Rightarrow> s_role handler" where
  "role_update_endpoint cx role_id data =
    and_then (reads (role_read_one role_id)) (\<lambda>role. case role of
      None \<Rightarrow> raising (not_found role_missing)
    | Some role \<Rightarrow>
    and_then (grants_create cx) (\<lambda>grants.
      let chk = grants_role grants (Some (r_id role));
          names = rur_fields data
      in seq (check_fields names (role_can_update chk) (\<lambda>field.
          forbidden_or_not_found (role_can_read chk) ''Not allowed to update role field''
            role_missing (Some field)))
        (and_then (grant_changes cx role (when_set names ''grant_list'' (rur_grant_list data)) GrantConverter)
          (\<lambda>(new_grants, cv).
        and_then (member_changes cx role (when_set names ''member_list'' (rur_member_list data))) (\<lambda>members.
        seq (role_update cx (r_id role)
            \<lparr>rf_new_name = changed_value names ''name'' (rur_name data) (r_name role),
             rf_new_description = changed_value names ''description'' (rur_description data) (r_description role),
             rf_new_grant_list = new_grants,
             rf_added = map_option fst members,
             rf_deleted = map_option snd members\<rparr>)
        (and_then (reads (role_read_one role_id)) (\<lambda>role. case role of
            None \<Rightarrow> raising AssertionError
          | Some r \<Rightarrow> show_one role_to_schema r cv)))))))"

section \<open>Tags\<close>

definition tag_list_endpoint ::
    "request_ctx \<Rightarrow> int option \<Rightarrow> string option \<Rightarrow> string option \<Rightarrow> tag_row list handler" where
  "tag_list_endpoint cx i name v =
    and_then (grants_create cx) (\<lambda>grants.
    and_then (reads_all tag_table (\<lambda>r. opt_all (\<lambda>x. tg_id r = x) i \<and> opt_all (\<lambda>x. tg_name r = x) name \<and>
        opt_all (\<lambda>x. tg_value r = x) v))
      (\<lambda>tags. ret (filter (\<lambda>t. tag_can_read (grants_tag grants (Some (tg_id t)))) tags)))"

definition tag_create_endpoint :: "request_ctx \<Rightarrow> string \<Rightarrow> string \<Rightarrow> tag_row handler" where
  "tag_create_endpoint cx name v =
    and_then (grants_create cx) (\<lambda>grants.
      if \<not> tag_can_create (grants_tag grants None)
      then reject 403 ''Not allowed to create tag'' None
      else and_then (catching (creates tag_table (\<lambda>n. \<lparr>tg_id = n, tg_name = name, tg_value = v\<rparr>))
          (\<lambda>e. case e of IntegrityError _ _ \<Rightarrow> reject 400 ''Tag already exists'' None | _ \<Rightarrow> raising e))
        (\<lambda>tag_id. seq (audit_create cx TAG_CREATE []
            [(''id'', DInt tag_id), (''name'', DStr name), (''value'', DStr v)])
          (and_then (reads_one tag_table (\<lambda>r. tg_id r = tag_id)) (\<lambda>tag.
            case tag of None \<Rightarrow> raising AssertionError | Some t \<Rightarrow> ret t))))"

definition tag_missing :: string where
  "tag_missing = ''Tag does not exist''"

definition untag_all :: "request_ctx \<Rightarrow> int \<Rightarrow> unit handler" where
  "untag_all cx tag_id =
    and_then (reads_all identity_tag_table (\<lambda>r. it_tag_id r = tag_id)) (\<lambda>tagged.
      for_each tagged (\<lambda>t. identity_update cx (it_identity_id t) (no_identity_fields\<lparr>if_deleted := Some [tag_id]\<rparr>)))"

definition tag_delete_endpoint :: "request_ctx \<Rightarrow> int \<Rightarrow> unit handler" where
  "tag_delete_endpoint cx tag_id =
    and_then (reads_one tag_table (\<lambda>r. tg_id r = tag_id)) (\<lambda>tag. case tag of
      None \<Rightarrow> raising (not_found tag_missing)
    | Some tag \<Rightarrow>
    and_then (grants_create cx) (\<lambda>grants.
      let chk = grants_tag grants (Some (tg_id tag)) in
      if \<not> tag_can_delete chk
      then raising (forbidden_or_not_found (tag_can_read chk) ''Not allowed to delete tag'' tag_missing None)
      else and_then (reads_one identity_tag_table (\<lambda>r. it_tag_id r = tag_id)) (\<lambda>tagged.
        and_then (reads (tag_grants_find tag_id)) (\<lambda>owners.
        if tagged \<noteq> None \<and> length owners > 0 then reject 400 ''Tag is still in use'' None
        else let cause = with_cause OT_TAG (tg_id tag) (Some (tg_name tag)) AC_DELETE cx in
          seq (tag_grants_remove cause tag_id)
          (seq (bastion_remove_tag cause tag_id)
          (seq (untag_all cause tag_id)
          (seq (audit_create cx TAG_DELETE []
              [(''id'', DInt tag_id), (''name'', DStr (tg_name tag)), (''value'', DStr (tg_value tag))])
          (seq (deletes tag_table (\<lambda>r. tg_id r = tag_id)) (ret ()))))))))) "

end
