(* ===== verification/Policy_Safety.thy ===== *)
theory Policy_Safety
  imports Policy_Endpoints
begin

text \<open>
  What the endpoints on boundaries, roles and tags guarantee: objects that the caller cannot read look
  missing (unless a PATCH sets no field), nobody edits the policy that binds them, and deleting an
  object is refused while it is in use or takes every reference with it.
\<close>

section \<open>Reading changes nothing\<close>

lemma grants_create_keeps [keeps_rules]: "keeps P (grants_create cx)"
  unfolding grants_create_def by (intro keeps_rules keeps_option)

lemma identity_read_all_keeps [keeps_rules]: "keeps P (identity_read_all q)"
  unfolding identity_read_all_def by (intro keeps_rules)

lemma identity_read_one_keeps [keeps_rules]: "keeps P (identity_read_one q)"
  unfolding identity_read_one_def by (intro keeps_rules)

lemma identity_read_self_keeps [keeps_rules]: "keeps P (identity_read_self cx)"
  unfolding identity_read_self_def by (intro keeps_rules keeps_option)

lemma keeps_case_prod [keeps_rules]: "(\<And>x y. keeps P (f x y)) \<Longrightarrow> keeps P (case z of (x, y) \<Rightarrow> f x y)"
  by (cases z) simp

lemma show_one_keeps [keeps_rules]: "keeps P (show_one f x cv)"
  unfolding show_one_def by (intro keeps_rules)

lemma show_all_keeps [keeps_rules]: "keeps P (show_all f xs cv)"
  unfolding show_all_def by (intro keeps_rules)

lemma check_fields_keeps [keeps_rules]: "keeps P (check_fields names allowed refusal)"
  unfolding check_fields_def by (intro keeps_rules)

lemma read_grants_keeps [keeps_rules]: "keeps P (read_grants l cv)"
  unfolding read_grants_def by (intro keeps_rules keeps_option)

lemma grant_changes_keeps [keeps_rules]: "keeps P (grant_changes cx role l cv)"
  unfolding grant_changes_def by (intro keeps_rules keeps_option)

lemma member_changes_keeps [keeps_rules]: "keeps P (member_changes cx role l)"
  unfolding member_changes_def Let_def by (intro keeps_rules keeps_option)

lemmas reads_state = grants_create_keeps [THEN same_state] identity_read_self_keeps [THEN same_state]
  show_one_keeps [THEN same_state] check_fields_keeps [THEN same_state] read_grants_keeps [THEN same_state]
  grant_changes_keeps [THEN same_state] member_changes_keeps [THEN same_state]

lemma check_fields_refused:
  assumes "names \<noteq> []" and "\<forall>f\<in>set names. allowed f = Inr False"
  shows "check_fields names allowed refusal w = (Inl (refusal (hd names)), w)"
  using assms by (cases names) (simp_all add: check_fields_def act_defs)

lemma check_fields_ok:
  "check_fields names allowed refusal w = (Inr (), w') \<Longrightarrow> \<forall>f\<in>set names. allowed f = Inr True"
  unfolding check_fields_def by (induction names arbitrary: w) (auto simp: act_Inr)

section \<open>Objects that the caller cannot read\<close>

lemma find_absent: "(\<forall>r\<in>set xs. \<not> p r) \<Longrightarrow> List.find p xs = None"
  by (simp add: find_None_iff)

definition has_id :: "('r \<Rightarrow> int) \<Rightarrow> int \<Rightarrow> 'r table \<Rightarrow> bool" where
  "has_id key i t \<longleftrightarrow> (\<exists>r\<in>set (tb_rows t). key r = i)"

lemma boundary_lookup:
  "\<not> has_id bo_id i (db_boundary db) \<Longrightarrow> boundary_read_one (\<lambda>r. bo_id r = i) db = None"
  "boundary_read_one (\<lambda>r. bo_id r = i) db = Some b \<Longrightarrow> has_id bo_id i (db_boundary db) \<and> b_id b = i"
  by (auto simp: boundary_read_one_def table_read_one_def boundary_table_def has_id_def find_None_iff
      find_Some_iff boundary_from_db_def)

lemma role_read_all_in:
  "r \<in> set (role_read_all p db) \<Longrightarrow> \<exists>row\<in>set (tb_rows (db_role db)). p row \<and> r_id r = ro_id row"
  by (auto simp: role_read_all_def Let_def table_read_all_def role_table_def role_from_db_def)

lemma role_lookup:
  "\<not> has_id ro_id i (db_role db) \<Longrightarrow> role_read_one i db = None"
  "role_read_one i db = Some r \<Longrightarrow> has_id ro_id i (db_role db) \<and> r_id r = i"
proof -
  have in_all: "role_read_one i db = Some r \<Longrightarrow> r \<in> set (role_read_all (\<lambda>r. ro_id r = i) db)" for r
    by (auto simp: role_read_one_def Let_def split: if_splits)
  then show "role_read_one i db = Some r \<Longrightarrow> has_id ro_id i (db_role db) \<and> r_id r = i"
    using role_read_all_in [of r "\<lambda>r. ro_id r = i" db] by (auto simp: has_id_def)
  show "role_read_one i db = None" if "\<not> has_id ro_id i (db_role db)"
    using that in_all role_read_all_in [of _ "\<lambda>r. ro_id r = i" db] by (force simp: has_id_def)
qed

lemma tag_lookup:
  "\<not> has_id tg_id i (db_tag db) \<Longrightarrow> table_read_one tag_table (\<lambda>r. tg_id r = i) db = None"
  "table_read_one tag_table (\<lambda>r. tg_id r = i) db = Some t \<Longrightarrow> has_id tg_id i (db_tag db) \<and> tg_id t = i"
  by (auto simp: table_read_one_def tag_table_def has_id_def find_None_iff find_Some_iff)

text \<open>
  Boundaries, roles and tags that the caller may neither read nor change look missing. Deleting
  one, and patching one with at least one field, gives the same answer whether the object exists or
  not, and touches nothing; so these answers do not tell an outsider which ids are in use.
\<close>

lemma hidden_objects_look_missing:
  assumes "grants_create cx w = (Inr gr, w)" and "identity_read_self cx w = (Inr (Some me), w)"
    and "bur_fields bd \<noteq> []" and "rur_fields rd \<noteq> []"
    and "has_id bo_id i (db_boundary (w_db w)) \<Longrightarrow> \<not> boundary_can_read (grants_boundary gr (Some i)) \<and>
      \<not> boundary_can_delete (grants_boundary gr (Some i)) \<and>
      (\<forall>f\<in>set (bur_fields bd). boundary_can_update (grants_boundary gr (Some i)) f = Inr False)"
    and "has_id ro_id j (db_role (w_db w)) \<Longrightarrow> \<not> role_can_read (grants_role gr (Some j)) \<and>
      \<not> role_can_delete (grants_role gr (Some j)) \<and>
      (\<forall>f\<in>set (rur_fields rd). role_can_update (grants_role gr (Some j)) f = Inr False)"
    and "has_id tg_id k (db_tag (w_db w)) \<Longrightarrow> \<not> tag_can_read (grants_tag gr (Some k)) \<and>
      \<not> tag_can_delete (grants_tag gr (Some k))"
  shows "boundary_delete_endpoint cx i w = (Inl (not_found boundary_missing), w) \<and>
    boundary_update_endpoint cx i bd w = (Inl (not_found boundary_missing), w) \<and>
    role_delete_endpoint cx j w = (Inl (not_found role_missing), w) \<and>
    role_update_endpoint cx j rd w = (Inl (not_found role_missing), w) \<and>
    tag_delete_endpoint cx k w = (Inl (not_found tag_missing), w)"
proof (intro conjI)
  note run = and_then_def seq_def reads_run raising_def assms(1,2) reads_one_def
  show "boundary_delete_endpoint cx i w = (Inl (not_found boundary_missing), w)"
  proof (cases "boundary_read_one (\<lambda>r. bo_id r = i) (w_db w)")
    case (Some x)
    then show ?thesis
      using boundary_lookup(2) [OF Some] assms(5) by (simp add: boundary_delete_endpoint_def run Let_def forbidden_or_not_found_def)
  qed (simp add: boundary_delete_endpoint_def run)
  show "boundary_update_endpoint cx i bd w = (Inl (not_found boundary_missing), w)"
  proof (cases "boundary_read_one (\<lambda>r. bo_id r = i) (w_db w)")
    case (Some x)
    then show ?thesis
      using boundary_lookup(2) [OF Some] assms(5) by (simp add: boundary_update_endpoint_def boundary_update_as_def run Let_def forbidden_or_not_found_def check_fields_refused assms(3))
  qed (simp add: boundary_update_endpoint_def boundary_update_as_def run)
  show "role_delete_endpoint cx j w = (Inl (not_found role_missing), w)"
  proof (cases "role_read_one j (w_db w)")
    case (Some x)
    then show ?thesis
      using role_lookup(2) [OF Some] assms(6) by (simp add: role_delete_endpoint_def run Let_def forbidden_or_not_found_def)
  qed (simp add: role_delete_endpoint_def run)
  show "role_update_endpoint cx j rd w = (Inl (not_found role_missing), w)"
  proof (cases "role_read_one j (w_db w)")
    case (Some x)
    then show ?thesis
      using role_lookup(2) [OF Some] assms(6) by (simp add: role_update_endpoint_def run Let_def forbidden_or_not_found_def check_fields_refused assms(4))
  qed (simp add: role_update_endpoint_def run)
  show "tag_delete_endpoint cx k w = (Inl (not_found tag_missing), w)"
  proof (cases "table_read_one tag_table (\<lambda>r. tg_id r = k) (w_db w)")
    case (Some x)
    then show ?thesis
      using tag_lookup(2) [OF Some] assms(7) by (simp add: tag_delete_endpoint_def run Let_def forbidden_or_not_found_def)
  qed (simp add: tag_delete_endpoint_def run)
qed

definition site_db :: app_db where
  "site_db = empty_db\<lparr>
    db_identity := \<lparr>tb_rows = [\<lparr>id_id = 1, id_created_by_id = None, id_created_at = 0, id_name = ''ann'',
      id_unix_username = Some ''ann''\<rparr>], tb_seq = 1\<rparr>,
    db_boundary := \<lparr>tb_rows = [\<lparr>bo_id = 1, bo_name = ''all'', bo_description = '''', bo_ceiling_list = None,
      bo_denied_list = []\<rparr>, \<lparr>bo_id = 2, bo_name = ''secret'', bo_description = ''x'', bo_ceiling_list = Some [],
      bo_denied_list = []\<rparr>], tb_seq = 2\<rparr>,
    db_identity_boundary := \<lparr>tb_rows = [\<lparr>ib_id = 1, ib_identity_id = 1, ib_boundary_id = 1\<rparr>], tb_seq = 1\<rparr>,
    db_role := \<lparr>tb_rows = [\<lparr>ro_id = 1, ro_name = ''admin'', ro_description = '''',
      ro_grant_list = [any_tag]\<rparr>], tb_seq = 1\<rparr>,
    db_role_member := \<lparr>tb_rows = [\<lparr>rm_id = 1, rm_role_id = 1, rm_identity_id = 1\<rparr>], tb_seq = 1\<rparr>,
    db_tag := \<lparr>tb_rows = [\<lparr>tg_id = 1, tg_name = ''env'', tg_value = ''prod''\<rparr>], tb_seq = 1\<rparr>\<rparr>"

definition site_world :: world where
  "site_world = empty_world\<lparr>w_db := site_db\<rparr>"

definition ann :: request_ctx where
  "ann = sample_cx\<lparr>cx_identity_id := Some 1\<rparr>"

definition ann_admin :: request_ctx where
  "ann_admin = ann\<lparr>cx_active_role_id := Some 1\<rparr>"

lemmas site_defs = site_world_def site_db_def empty_world_def empty_db_def empty_table_def ann_admin_def
  ann_def sample_cx_def

lemmas table_defs_simp = table_read_one_def table_read_all_def identity_table_def boundary_table_def
  identity_boundary_table_def identity_tag_table_def role_table_def role_member_table_def tag_table_def
  bastion_table_def

definition ann_boundary :: boundary where
  "ann_boundary = \<lparr>b_id = 1, b_name = ''all'', b_description = '''', b_ceiling_list = None, b_denied_list = []\<rparr>"

lemma ann_grants: "grants_create ann site_world = (Inr \<lparr>gr_boundaries = [ann_boundary], gr_roles = []\<rparr>, site_world)"
  by (simp add: grants_create_def act_defs reads_one_def reads_all_def reads_def ensure_def site_defs
      table_defs_simp boundary_read_all_def boundary_from_db_def ann_boundary_def)

definition ann_identity :: identity where
  "ann_identity = \<lparr>i_id = 1, i_name = ''ann'', i_tag_id_list = [], i_boundary_id_list = [1],
    i_unix_username = Some ''ann''\<rparr>"

lemma ann_self: "identity_read_self ann site_world = (Inr (Some ann_identity), site_world)"
  by (simp add: identity_read_self_def identity_read_one_def identity_read_all_def identities_of_def
      id_filters_def id_wanted_def by_id_def any_identity_def act_defs reads_def site_defs table_defs_simp
      identity_of_row_def group_by_def get_or_def ann_identity_def image_iff)

definition rename_request :: boundary_update_request where
  "rename_request = \<lparr>bur_fields = [''name''], bur_name = ''x'', bur_description = '''',
    bur_ceiling_list = None, bur_denied_list = []\<rparr>"

definition rename_role_request :: role_update_request where
  "rename_role_request = \<lparr>rur_fields = [''name''], rur_name = ''x'', rur_description = '''',
    rur_grant_list = [], rur_member_list = []\<rparr>"

lemmas checker_simps = can_iff matches_iff boundary_passes_def grants_boundary_def BoundaryChecker_def
  grants_role_def RoleChecker_def grants_tag_def TagChecker_def boundary_can_read_def boundary_can_delete_def
  boundary_can_update_def boundary_update_fields_def role_can_read_def role_can_delete_def role_can_update_def
  role_update_fields_def tag_can_read_def tag_can_delete_def

lemma hidden_objects_look_missing_witness:
  "boundary_update_endpoint ann 2 rename_request site_world = (Inl (not_found boundary_missing), site_world) \<and>
   tag_delete_endpoint ann 1 site_world = (Inl (not_found tag_missing), site_world)"
  using hidden_objects_look_missing [OF ann_grants ann_self, of rename_request rename_role_request 2 1 1]
  by (simp add: rename_request_def rename_role_request_def checker_simps)

section \<open>Nobody edits the policy that binds them\<close>

lemma collect_Inr: "collect f xs = Inr ys \<Longrightarrow> y \<in> set ys \<Longrightarrow> \<exists>x\<in>set xs. f x = Inr y"
  by (induction xs arbitrary: ys) (auto split: sum.splits)

lemma id_wanted_by_id: "id_wanted (id_filters (by_id i) db) j \<longleftrightarrow> j = i"
  by (simp add: id_wanted_def id_filters_def by_id_def any_identity_def)

lemma no_name_by_id: "iq_name (by_id i) = None"
  by (simp add: by_id_def any_identity_def)

lemma read_identities: "table_read_all identity_table p db = filter p (tb_rows (db_identity db))"
  by (simp add: table_read_all_def identity_table_def)

lemma identity_read_one_in:
  assumes "identity_read_one (by_id i) w = (Inr (Some me), w')"
  shows "i_id me = i" and "set (i_boundary_id_list me) =
    ib_boundary_id ` {r \<in> set (tb_rows (db_identity_boundary (w_db w))). ib_identity_id r = i}"
proof -
  have "\<exists>l. identities_of (by_id i) (w_db w) = Inr l \<and> me \<in> set l"
    using assms by (auto simp: identity_read_one_def identity_read_all_def act_Inr reads_def split: if_splits)
  then obtain l where "identities_of (by_id i) (w_db w) = Inr l" "me \<in> set l" by blast
  then obtain row T B where row: "row \<in> set (tb_rows (db_identity (w_db w)))" "id_id row = i"
    and me: "identity_of_row T B row = Inr me"
    and B: "B = map (\<lambda>(k, group). (k, map ib_boundary_id group)) (group_by ib_identity_id (table_read_all identity_boundary_table
        (\<lambda>r. ib_identity_id r \<in> set (map id_id (filter (\<lambda>r. id_id r = i) (tb_rows (db_identity (w_db w)))))) (w_db w)))"
    by (auto simp: identities_of_def Let_def id_wanted_by_id no_name_by_id read_identities dest!: collect_Inr)
  show "i_id me = i" using me row(2) by (auto simp: identity_of_row_def split: option.splits)
  show "set (i_boundary_id_list me) =
    ib_boundary_id ` {r \<in> set (tb_rows (db_identity_boundary (w_db w))). ib_identity_id r = i}"
    using me row by (auto simp: B identity_of_row_def map_of_map_snd map_of_group_by table_read_all_def
        identity_boundary_table_def split: option.splits if_splits)
qed

lemma keeps_update:
  assumes "\<And>d. P d \<Longrightarrow> P (td_upd td (\<lambda>_. update_rows p f (td_get td d)) d)"
  shows "keeps (\<lambda>w. P (w_db w)) (updates td f p)"
  unfolding updates_def using assms
  by (intro keeps_on_db) (auto simp: table_update_def Let_def split: option.split)

definition boundary_policy :: "app_db \<Rightarrow> (int \<times> grant list option \<times> grant list) list" where
  "boundary_policy db = map (\<lambda>r. (bo_id r, bo_ceiling_list r, bo_denied_list r)) (tb_rows (db_boundary db))"

lemma boundary_update_keeps_policy:
  assumes "bf_ceiling_list u = None" and "bf_denied_list u = None"
  shows "keeps (\<lambda>w. boundary_policy (w_db w) = X) (boundary_update cx i u)"
proof -
  have "keeps (\<lambda>w. boundary_policy (w_db w) = X) (updates boundary_table (set_boundary_fields u) (\<lambda>r. bo_id r = i))"
    by (rule keeps_update) (auto simp: boundary_policy_def boundary_table_def update_rows_def set_boundary_fields_def assms
        o_def cong: if_cong intro!: arg_cong2 [where f = map])
  then show ?thesis
    unfolding boundary_update_def by (intro keeps_rules)
qed

lemma and_then_ret [simp]: "and_then (ret x) f = f x"
  by (simp add: and_then_def ret_def)

lemma and_then_reject [simp]: "and_then (reject c t d) f = reject c t d" "seq (reject c t d) m = reject c t d"
  by (simp_all add: seq_def and_then_def reject_def raising_def)

lemma read_grants_None [simp]: "read_grants None cv = ret (None, cv)"
  by (simp add: read_grants_def)

lemma own_update_keeps:
  assumes own: "i \<in> set (i_boundary_id_list me)"
  shows "keeps (\<lambda>w. boundary_policy (w_db w) = X) (boundary_update_as cx me i data)"
proof -
  have "when_set (bur_fields data) ''denied_list'' (bur_denied_list data) = None \<and>
      when_set (bur_fields data) ''ceiling_list'' (bur_ceiling_list data) = None \<or>
    when_set (bur_fields data) ''denied_list'' (bur_denied_list data) \<noteq> None \<or>
      when_set (bur_fields data) ''ceiling_list'' (bur_ceiling_list data) \<noteq> None" by blast
  then show ?thesis
    unfolding boundary_update_as_def
    by (intro keeps_and_then keeps_reads keeps_option keeps_raising grants_create_keeps)
      (auto simp: Let_def own intro!: keeps_rules keeps_option boundary_update_keeps_policy)
qed

text \<open>
  C10. Nobody changes the policy that binds them. Whatever the caller's grants and whatever a PATCH
  sets, the ceilings and the denied lists of all boundaries are as before when the boundary addressed
  applies to the caller; this holds at the end of the handler, whether it returned or raised.
\<close>

theorem own_boundaries_untouchable:
  assumes "boundary_update_endpoint cx i data w = (r, w')" and "cx_identity_id cx = Some me"
    and "\<exists>ib\<in>set (tb_rows (db_identity_boundary (w_db w))). ib_identity_id ib = me \<and> ib_boundary_id ib = i"
  shows "boundary_policy (w_db w') = boundary_policy (w_db w)"
proof (cases "\<exists>identity. identity_read_self cx w = (Inr (Some identity), w)")
  case True
  then obtain identity where read: "identity_read_self cx w = (Inr (Some identity), w)" by blast
  then have "i \<in> set (i_boundary_id_list identity)"
    using identity_read_one_in(2) [of me w identity w] assms(2,3) by (auto simp: identity_read_self_def)
  then show ?thesis
    using own_update_keeps [of i identity "boundary_policy (w_db w)" cx data, THEN keepsD, of w r w'] assms(1) read
    by (simp add: boundary_update_endpoint_def and_then_def)
next
  case False
  obtain q v where "identity_read_self cx w = (q, v)" by fastforce
  moreover from this have "v = w" by (rule reads_state(2))
  ultimately show ?thesis
    using False assms(1) by (auto simp: boundary_update_endpoint_def and_then_def raising_def split: sum.splits option.splits)
qed

definition self_denial :: boundary_update_request where
  "self_denial = \<lparr>bur_fields = [''denied_list''], bur_name = '''', bur_description = '''',
    bur_ceiling_list = None, bur_denied_list = []\<rparr>"

theorem own_boundaries_untouchable_witness:
  "boundary_policy (w_db (snd (boundary_update_endpoint ann 1 self_denial site_world))) = boundary_policy site_db"
  using own_boundaries_untouchable [of ann 1 self_denial site_world, OF surjective_pairing, of 1]
  by (simp add: ann_def site_world_def) (simp add: site_db_def)

section \<open>A PATCH without fields\<close>

lemma no_fields [simp]: "when_set [] f x = None" "changed_value [] f x y = None" "check_fields [] allowed refusal = ret ()"
  by (simp_all add: when_set_def changed_value_def check_fields_def)

lemma ret_run: "ret x w = (Inr x, w)"
  by (simp add: ret_def)

lemma boundary_update_nothing: "boundary_update cx i no_boundary_fields w = (Inr (), w)"
  by (simp add: boundary_update_def no_boundary_fields_def reads_one_run and_then_def ret_run)

lemma role_update_nothing:
  "role_update cx i \<lparr>rf_new_name = None, rf_new_description = None, rf_new_grant_list = None,
    rf_added = None, rf_deleted = None\<rparr> w = (Inr (), w)"
  by (simp add: role_update_def reads_one_run and_then_def ret_run)

text \<open>
  A PATCH that sets no field is not checked at all: it answers any session of the tenant with the
  whole boundary or role addressed, its grants included, exactly as reading it without a check would.
  It tells apart the ids that exist and shows what the listing hides.
\<close>

lemma empty_patch_is_unchecked_read:
  assumes "grants_create cx w = (Inr gr, w)" and "identity_read_self cx w = (Inr (Some me), w)"
    and "boundary_read_one (\<lambda>r. bo_id r = i) (w_db w) = Some b" and "role_read_one j (w_db w) = Some ro"
    and "bur_fields bd = []" and "rur_fields rd = []"
  shows "boundary_update_endpoint cx i bd w = show_one boundary_to_schema b GrantConverter w \<and>
    role_update_endpoint cx j rd w = show_one role_to_schema ro GrantConverter w"
proof
  note run = and_then_def seq_def reads_run assms(1,2)
  show "boundary_update_endpoint cx i bd w = show_one boundary_to_schema b GrantConverter w"
    using boundary_update_nothing [of cx i w]
    by (simp add: boundary_update_endpoint_def boundary_update_as_def run assms(3,5) Let_def ret_def
        no_boundary_fields_def read_grants_def)
  show "role_update_endpoint cx j rd w = show_one role_to_schema ro GrantConverter w"
    using role_update_nothing [of cx "r_id ro" w]
    by (simp add: role_update_endpoint_def run assms(4,6) Let_def ret_def grant_changes_def
        member_changes_def read_grants_def)
qed

definition empty_request :: boundary_update_request where
  "empty_request = \<lparr>bur_fields = [], bur_name = '''', bur_description = '''', bur_ceiling_list = None,
    bur_denied_list = []\<rparr>"

definition empty_role_request :: role_update_request where
  "empty_role_request = \<lparr>rur_fields = [], rur_name = '''', rur_description = '''', rur_grant_list = [],
    rur_member_list = []\<rparr>"

lemma site_role_1: "role_read_one 1 (w_db site_world) = Some \<lparr>r_id = 1, r_name = ''admin'', r_description = '''',
    r_grant_list = [any_tag], r_member_id_list = [1]\<rparr>"
  by (simp add: role_read_one_def role_read_all_def site_defs table_defs_simp role_from_db_def group_by_def get_or_def)

lemma site_boundary_2: "boundary_read_one (\<lambda>r. bo_id r = 2) (w_db site_world) = Some
    \<lparr>b_id = 2, b_name = ''secret'', b_description = ''x'', b_ceiling_list = Some [], b_denied_list = []\<rparr>"
  by (simp add: boundary_read_one_def table_defs_simp boundary_from_db_def site_defs)

theorem empty_patch_is_unchecked_read_witness:
  "boundary_list_endpoint ann None None site_world = (Inr [], site_world) \<and>
   boundary_update_endpoint ann 2 empty_request site_world =
    (Inr \<lparr>sb_id = 2, sb_name = ''secret'', sb_description = ''x'', sb_ceiling_list = Some [], sb_denied_list = []\<rparr>,
     site_world)"
proof
  show "boundary_list_endpoint ann None None site_world = (Inr [], site_world)"
    using ann_grants by (simp add: boundary_list_endpoint_def and_then_def reads_run checker_simps show_all_def
        converting_def ret_def)
  show "boundary_update_endpoint ann 2 empty_request site_world =
    (Inr \<lparr>sb_id = 2, sb_name = ''secret'', sb_description = ''x'', sb_ceiling_list = Some [], sb_denied_list = []\<rparr>,
     site_world)"
    using empty_patch_is_unchecked_read [OF ann_grants ann_self site_boundary_2 site_role_1,
        of empty_request empty_role_request]
    by (simp add: empty_request_def empty_role_request_def show_one_def converting_def boundary_to_schema_def act_defs
        return_none_if_none_def grants_to_schema_def)
qed

section \<open>The role a session uses\<close>

lemma keeps_create:
  assumes "\<And>d. P d \<Longrightarrow> P (td_upd td (\<lambda>_. snd (insert_row mk (td_get td d))) d)"
  shows "keeps (\<lambda>w. P (w_db w)) (creates td mk)"
  unfolding creates_def using assms
  by (intro keeps_on_db) (auto simp: table_create_def Let_def split: option.split prod.split, metis snd_conv)

lemma keeps_delete:
  assumes "\<And>d. P d \<Longrightarrow> P (td_upd td (delete_rows p) d)"
  shows "keeps (\<lambda>w. P (w_db w)) (deletes td p)"
  unfolding deletes_def using assms by (intro keeps_on_db) (simp add: table_delete_def)

definition still_granted :: "int \<Rightarrow> grant set \<Rightarrow> app_db \<Rightarrow> bool" where
  "still_granted j gs db \<longleftrightarrow>
    (\<exists>row\<in>set (tb_rows (db_role db)). ro_id row = j \<and> gs \<subseteq> set (ro_grant_list row))"

definition still_member :: "int \<Rightarrow> int \<Rightarrow> app_db \<Rightarrow> bool" where
  "still_member j i db \<longleftrightarrow>
    (\<exists>m\<in>set (tb_rows (db_role_member db)). rm_role_id m = j \<and> rm_identity_id m = i)"

lemma role_update_keeps_granted:
  assumes "\<And>l. rf_new_grant_list u = Some l \<Longrightarrow> gs \<subseteq> set l"
  shows "keeps (\<lambda>w. still_granted j gs (w_db w)) (role_update cx k u)"
proof -
  have "keeps (\<lambda>w. still_granted j gs (w_db w)) (updates role_table (set_role_fields u) (\<lambda>r. ro_id r = k))"
  proof (rule keeps_update)
    fix d assume "still_granted j gs d"
    then obtain row where row: "row \<in> set (tb_rows (db_role d))" "ro_id row = j" "gs \<subseteq> set (ro_grant_list row)"
      by (auto simp: still_granted_def)
    let ?row = "if ro_id row = k then set_role_fields u row else row"
    have "?row \<in> set (tb_rows (update_rows (\<lambda>r. ro_id r = k) (set_role_fields u) (db_role d)))"
      using row(1) by (auto simp: update_rows_def)
    moreover have "ro_id ?row = j \<and> gs \<subseteq> set (ro_grant_list ?row)"
      using row assms by (simp add: set_role_fields_def split: option.split)
    ultimately show "still_granted j gs (td_upd role_table (\<lambda>_. update_rows (\<lambda>r. ro_id r = k) (set_role_fields u)
        (td_get role_table d)) d)"
      by (auto simp: still_granted_def role_table_def simp del: if_split)
  qed
  moreover have "keeps (\<lambda>w. still_granted j gs (w_db w)) (creates role_member_table mk)"
    "keeps (\<lambda>w. still_granted j gs (w_db w)) (deletes role_member_table p)" for mk p
    by (rule keeps_create keeps_delete; simp add: still_granted_def role_member_table_def)+
  ultimately show ?thesis
    unfolding role_update_def by (intro keeps_rules)
qed

lemma role_update_keeps_member:
  assumes "\<And>l. rf_deleted u = Some l \<Longrightarrow> i \<notin> set l"
  shows "keeps (\<lambda>w. still_member j i (w_db w)) (role_update cx k u)"
proof -
  have upd: "keeps (\<lambda>w. still_member j i (w_db w)) (updates role_table f p)"
    "keeps (\<lambda>w. still_member j i (w_db w)) (creates role_member_table mk)" for f p mk
    by (rule keeps_update keeps_create; auto simp: still_member_def role_table_def role_member_table_def
        insert_row_def Let_def)+
  have deleted: "keeps (\<lambda>w. still_member j i (w_db w)) (if_set (rf_deleted u) (\<lambda>deleted.
      if length deleted = 0 then ret () else
        seq (deletes role_member_table (\<lambda>m. rm_role_id m = k \<and> rm_identity_id m \<in> set deleted)) (f deleted)))"
    if "\<And>l. keeps (\<lambda>w. still_member j i (w_db w)) (f l)" for f
  proof (cases "rf_deleted u")
    case (Some l)
    have "keeps (\<lambda>w. still_member j i (w_db w)) (deletes role_member_table
        (\<lambda>m. rm_role_id m = k \<and> rm_identity_id m \<in> set l))"
      by (rule keeps_delete) (use assms [OF Some] in \<open>auto simp: still_member_def role_member_table_def delete_rows_def\<close>)
    then show ?thesis using Some that by (simp add: keeps_seq keeps_ret)
  qed (simp add: keeps_ret)
  show ?thesis
    unfolding role_update_def
    by (intro keeps_and_then keeps_reads keeps_seq deleted) (intro keeps_rules upd)+
qed

lemma role_grants_row:
  assumes "role_read_one j db = Some ro"
  shows "still_granted j (set (r_grant_list ro)) db"
proof -
  have "ro \<in> set (role_read_all (\<lambda>r. ro_id r = j) db)"
    using assms by (auto simp: role_read_one_def Let_def split: if_splits)
  then show ?thesis
    by (auto simp: role_read_all_def Let_def table_read_all_def role_table_def role_from_db_def still_granted_def)
qed

text \<open>
  C11. A session does not weaken the role it acts with. When the PATCH of a role succeeds in a session
  whose active role it is, every grant the role had is still in it, and the caller is still a member
  if they were one; so the last administrator cannot lock themselves out.
\<close>

theorem active_role_protected:
  assumes "role_update_endpoint cx j data w = (Inr shown, w')"
    and "cx_active_role_id cx = Some j" and "cx_identity_id cx = Some me"
  shows "(\<exists>ro. role_read_one j (w_db w) = Some ro \<and> still_granted j (set (r_grant_list ro)) (w_db w')) \<and>
    (still_member j me (w_db w) \<longrightarrow> still_member j me (w_db w'))"
proof -
  obtain ro where ro: "role_read_one j (w_db w) = Some ro"
    using assms(1) by (cases "role_read_one j (w_db w)") (auto simp: role_update_endpoint_def act_Inr reads_run)
  then obtain gr w1 w2 ng cv w3 ms w4 w5 u where "grants_create cx w = (Inr gr, w1)"
    and "check_fields (rur_fields data) (role_can_update (grants_role gr (Some (r_id ro)))) (\<lambda>field.
          forbidden_or_not_found (role_can_read (grants_role gr (Some (r_id ro)))) ''Not allowed to update role field''
            role_missing (Some field)) w1 = (Inr (), w2)"
    and "grant_changes cx ro (when_set (rur_fields data) ''grant_list'' (rur_grant_list data)) GrantConverter w2 =
      (Inr (ng, cv), w3)"
    and "member_changes cx ro (when_set (rur_fields data) ''member_list'' (rur_member_list data)) w3 = (Inr ms, w4)"
    and "role_update cx (r_id ro) u w4 = (Inr (), w5)"
    and u: "rf_new_grant_list u = ng" "rf_deleted u = map_option snd ms"
    and shown: "and_then (reads (role_read_one j)) (\<lambda>role. case role of
            None \<Rightarrow> raising AssertionError | Some r \<Rightarrow> show_one role_to_schema r cv) w5 = (Inr shown, w')"
    using assms(1) by (fastforce simp: role_update_endpoint_def and_then_Inr seq_Inr reads_run Let_def split: prod.splits)
  moreover have "w' = w5"
    using shown by (rule same_state [rotated]) (intro keeps_rules keeps_option)
  ultimately have ng: "grant_changes cx ro (when_set (rur_fields data) ''grant_list'' (rur_grant_list data))
      GrantConverter w = (Inr (ng, cv), w)"
    and ms: "member_changes cx ro (when_set (rur_fields data) ''member_list'' (rur_member_list data)) w = (Inr ms, w)"
    and run: "role_update cx (r_id ro) u w = (Inr (), w')"
    using reads_state by metis+
  have id: "r_id ro = j" using role_lookup(2) [OF ro] by simp
  have "set (r_grant_list ro) \<subseteq> set l" if "ng = Some l" for l
    using ng that assms(2) id
    by (auto simp: grant_changes_def act_Inr reject_def raising_def ret_def list_ex_iff split: option.splits prod.splits if_splits)
  then have granted: "still_granted j (set (r_grant_list ro)) (w_db w')"
    using keepsD [OF role_update_keeps_granted run role_grants_row [OF ro]] u(1) by blast
  have kept: "me \<notin> set d" if "ms = Some (a, d)" for a d
    using ms that assms(2,3) id
    by (auto simp: member_changes_def act_Inr reject_def raising_def ret_def Let_def split: option.splits if_splits)
  have "still_member j me (w_db w')" if "still_member j me (w_db w)"
    by (rule keepsD [OF role_update_keeps_member run that]) (use u(2) kept in auto)
  show ?thesis using ro granted \<open>still_member j me (w_db w) \<Longrightarrow> still_member j me (w_db w')\<close> by blast
qed

definition manage_roles :: grant where
  "manage_roles = RoleGrant \<lparr>g_filter = \<lparr>f_id = None\<rparr>,
    g_permission = \<lparr>p_create = True, p_read = True, p_delete = True, rp_update = None\<rparr>\<rparr>"

definition manager_world :: world where
  "manager_world = site_world\<lparr>w_db := site_db\<lparr>db_role := \<lparr>tb_rows = [\<lparr>ro_id = 1, ro_name = ''admin'',
    ro_description = '''', ro_grant_list = [manage_roles]\<rparr>], tb_seq = 1\<rparr>\<rparr>\<rparr>"

definition extend_request :: role_update_request where
  "extend_request = \<lparr>rur_fields = [''grant_list'', ''member_list''], rur_name = '''', rur_description = '''',
    rur_grant_list = [SRoleGrant \<lparr>g_filter = \<lparr>fn_name = None\<rparr>,
      g_permission = \<lparr>p_create = True, p_read = True, p_delete = True, rp_update = None\<rparr>\<rparr>,
      STagGrant \<lparr>g_filter = \<lparr>fn_name_value = Some \<lparr>tnv_name = ''env'', tnv_value = ''prod''\<rparr>\<rparr>,
      g_permission = \<lparr>p_create = False, p_read = True, p_delete = False\<rparr>\<rparr>],
    rur_member_list = [''ann'']\<rparr>"

lemma extend_run: "case fst (role_update_endpoint ann_admin 1 extend_request manager_world) of
    Inr s \<Rightarrow> length (sr_grant_list s) = 2 | Inl e \<Rightarrow> False"
  by code_simp

theorem active_role_protected_witness:
  "still_granted 1 {manage_roles} (w_db (snd (role_update_endpoint ann_admin 1 extend_request manager_world))) \<and>
   still_member 1 1 (w_db (snd (role_update_endpoint ann_admin 1 extend_request manager_world)))"
proof -
  obtain s where "role_update_endpoint ann_admin 1 extend_request manager_world =
      (Inr s, snd (role_update_endpoint ann_admin 1 extend_request manager_world))"
    using extend_run by (cases "role_update_endpoint ann_admin 1 extend_request manager_world") (auto split: sum.splits)
  from active_role_protected [OF this, of 1]
  have *: "(\<exists>ro. role_read_one 1 (w_db manager_world) = Some ro \<and> still_granted 1 (set (r_grant_list ro))
      (w_db (snd (role_update_endpoint ann_admin 1 extend_request manager_world)))) \<and>
    (still_member 1 1 (w_db manager_world) \<longrightarrow>
      still_member 1 1 (w_db (snd (role_update_endpoint ann_admin 1 extend_request manager_world))))"
    by (simp add: ann_admin_def ann_def)
  moreover have "still_member 1 1 (w_db manager_world)"
    by (simp add: still_member_def manager_world_def site_db_def)
  moreover have "role_read_one 1 (w_db manager_world) = Some ro \<Longrightarrow> set (r_grant_list ro) = {manage_roles}" for ro
    by (auto simp: role_read_one_def role_read_all_def manager_world_def site_db_def table_defs_simp role_from_db_def)
  ultimately show ?thesis by metis
qed

end
