(* ===== verification/Model_Keys.thy ===== *)
theory Model_Keys
  imports Model_Bastion "HOL-Library.List_Lexorder" "HOL-Library.Char_ord"
begin

text \<open>
  \<open>api/model/identity_invitation_key.py\<close>, \<open>denylist.py\<close>, \<open>signing_key.py\<close> and \<open>live.py\<close>: the objects
  that are spent once, or counted. Keys are strings; encrypting them with the tenant's key, their
  thumbprints, reading a public key, the public half of a private key and the line that OpenSSH writes
  for it are parameters, a record \<open>crypto\<close> of functions of the libraries. A key that the code generates
  is an argument.
\<close>

record crypto =
  cr_encrypt :: "string \<Rightarrow> string"
  cr_decrypt :: "string \<Rightarrow> string"
  cr_thumbprint :: "string \<Rightarrow> string"
  cr_read_public :: "jwk \<Rightarrow> exn + jwk"
  cr_public :: "string \<Rightarrow> jwk"
  cr_openssh :: "jwk \<Rightarrow> string"

section \<open>Invitations\<close>

record invitation_key =
  ik_id :: string
  ik_key :: string
  ik_identity_id :: int
  ik_created_at :: int
  ik_expires_at :: int
  ik_is_revoked :: bool
  ik_is_accepted :: bool
  ik_revoked_at :: "int option"
  ik_accepted_at :: "int option"
  ik_accepted_public_key_id :: "string option"

definition invitation_create :: "crypto \<Rightarrow> request_ctx \<Rightarrow> string \<Rightarrow> int \<Rightarrow> int \<Rightarrow> string handler" where
  "invitation_create cr cx key identity_id expiration_delay_s =
    (let i = cr_thumbprint cr key;
         now = cx_now cx;
         expires_at = now + expiration_delay_s
     in seq (creates identity_invitation_key_table (\<lambda>_. \<lparr>iv_id = i, iv_key = cr_encrypt cr key,
          iv_identity_id = identity_id, iv_created_at = now, iv_revoked_at = None, iv_accepted_at = None,
          iv_expires_at = now + expiration_delay_s, iv_is_revoked = False, iv_is_accepted = False,
          iv_accepted_public_key_id = None\<rparr>))
        (seq (audit_create cx IDENTITY_INVITATION_CREATE []
          [(''id'', DStr i), (''identity_id'', DInt identity_id), (''expires_at'', DInt expires_at)])
        (ret i)))"

definition invitation_accept :: "request_ctx \<Rightarrow> string \<Rightarrow> string \<Rightarrow> bool handler" where
  "invitation_accept cx i public_key_id =
    and_then (reads_one identity_invitation_key_table (\<lambda>r. iv_id r = i)) (\<lambda>invitation. case invitation of
      None \<Rightarrow> ret False
    | Some invitation \<Rightarrow>
        if iv_expires_at invitation \<le> cx_now cx then ret False
        else and_then (updates identity_invitation_key_table
            (\<lambda>r. r\<lparr>iv_is_accepted := True, iv_accepted_at := Some (cx_now cx),
              iv_accepted_public_key_id := Some public_key_id\<rparr>)
            (\<lambda>r. iv_id r = iv_id invitation \<and> \<not> iv_is_accepted r \<and> \<not> iv_is_revoked r)) (\<lambda>changed.
          if changed = 0 then ret False
          else seq (audit_create cx IDENTITY_INVITATION_ACCEPTED []
              [(''id'', DStr (iv_id invitation)), (''identity_id'', DInt (iv_identity_id invitation)),
               (''public_key_id'', DStr public_key_id)])
            (ret True)))"

definition invitation_read :: "crypto \<Rightarrow> string \<Rightarrow> invitation_key option handler" where
  "invitation_read cr i =
    and_then (reads_one identity_invitation_key_table (\<lambda>r. iv_id r = i)) (\<lambda>invitation. case invitation of
      None \<Rightarrow> ret None
    | Some v \<Rightarrow>
        (let key = cr_decrypt cr (iv_key v)
         in seq (ensure (cr_thumbprint cr key = iv_id v))
          (ret (Some \<lparr>ik_id = iv_id v, ik_key = key, ik_identity_id = iv_identity_id v,
            ik_created_at = iv_created_at v, ik_expires_at = iv_expires_at v, ik_is_revoked = iv_is_revoked v,
            ik_is_accepted = iv_is_accepted v, ik_revoked_at = iv_revoked_at v,
            ik_accepted_at = iv_accepted_at v, ik_accepted_public_key_id = iv_accepted_public_key_id v\<rparr>))))"

section \<open>The denylist\<close>

definition denylist_create :: "request_ctx \<Rightarrow> string \<Rightarrow> details \<Rightarrow> unit handler" where
  "denylist_create cx key_id kwargs =
    and_then (reads_one public_key_denylist_table (\<lambda>r. dl_key_id r = key_id)) (\<lambda>entry.
      seq (if entry = None
           then seq (creates_if_absent public_key_denylist_table
             (\<lambda>_. \<lparr>dl_id = key_id, dl_key_id = key_id, dl_created_at = cx_now cx\<rparr>)) (ret ())
           else ret ())
        (audit_create cx PUBLIC_KEY_DENYLISTED [] ((''public_key_id'', DStr key_id) # kwargs)))"

definition enforce_not_denied :: "request_ctx \<Rightarrow> string \<Rightarrow> unit handler" where
  "enforce_not_denied cx key_id =
    and_then (reads_one public_key_denylist_table (\<lambda>r. dl_key_id r = key_id)) (\<lambda>entry. case entry of
      None \<Rightarrow> ret ()
    | Some _ \<Rightarrow> seq (create_after_rollback cx PUBLIC_KEY_REJECTED [(''public_key_id'', DStr key_id)])
        (reject 403 ''Unable to use key'' None))"

section \<open>Signing keys and their serial numbers\<close>

definition signing_key_type_name :: "signing_key_type \<Rightarrow> string" where
  "signing_key_type_name k = (case k of HOST \<Rightarrow> ''HOST'' | USER \<Rightarrow> ''USER'')"

definition signing_key_create ::
    "crypto \<Rightarrow> request_ctx \<Rightarrow> signing_key_type \<Rightarrow> string \<Rightarrow> string \<Rightarrow> int \<Rightarrow> int \<Rightarrow> unit handler" where
  "signing_key_create cr cx key_type crypto_key_type key valid_after valid_before =
    and_then (creates signing_key_table (\<lambda>n. \<lparr>sg_id = n, sg_type = signing_key_type_value key_type,
        sg_key = cr_encrypt cr key, sg_serial_number = 1, sg_valid_after = valid_after,
        sg_valid_before = valid_before\<rparr>)) (\<lambda>signing_key_id.
      audit_create cx SIGNING_KEY_CREATE [] [(''key_type'', DStr (signing_key_type_name key_type)),
        (''crypto_key_type'', DStr crypto_key_type), (''valid_after'', DInt valid_after),
        (''valid_before'', DInt valid_before), (''signing_key_id'', DInt signing_key_id)])"

definition signing_key_read_all :: "crypto \<Rightarrow> (signing_key_row \<Rightarrow> bool) \<Rightarrow> signing_key_row list handler" where
  "signing_key_read_all cr p = and_then (reads_all signing_key_table p)
    (\<lambda>keys. ret (map (sg_key_update (cr_decrypt cr)) keys))"

definition SERIAL_ATTEMPTS :: nat where
  "SERIAL_ATTEMPTS = 5"

text \<open>
  One turn of the loop in a single transaction: nobody moves the counter between the read and the
  update, so the update succeeds; the interleavings are in \<open>Spending\<close>.
\<close>

fun allocate_attempts :: "request_ctx \<Rightarrow> nat \<Rightarrow> int \<Rightarrow> int \<Rightarrow> int handler" where
  "allocate_attempts cx 0 i n = reject 409 ''Unable to reserve serial numbers, try again'' None"
| "allocate_attempts cx (Suc k) i n =
     and_then (reads_one signing_key_table (\<lambda>r. sg_id r = i)) (\<lambda>row. case row of
       None \<Rightarrow> raising AssertionError
     | Some row \<Rightarrow>
         (let first = sg_serial_number row
          in if n = 0 then ret first
             else and_then (updates signing_key_table (\<lambda>r. r\<lparr>sg_serial_number := first + n\<rparr>)
                 (\<lambda>r. sg_id r = i \<and> sg_serial_number r = first)) (\<lambda>changed.
               if changed = 1
               then seq (audit_create cx SIGNING_KEY_UPDATE_SERIAL []
                   [(''id'', DInt i), (''serial_number'', DInt (first + n))]) (ret first)
               else allocate_attempts cx k i n)))"

definition allocate_serial_numbers :: "request_ctx \<Rightarrow> int \<Rightarrow> int \<Rightarrow> int handler" where
  "allocate_serial_numbers cx i n = allocate_attempts cx SERIAL_ATTEMPTS i n"

section \<open>Live sessions\<close>

definition CONNECTION_RETENTION_S :: int where
  "CONNECTION_RETENTION_S = 24 * 3600"

definition live_connection :: "string \<Rightarrow> string \<Rightarrow> ssh_connection_row handler" where
  "live_connection connection_id hostname =
    and_then (reads_one ssh_connection_table (\<lambda>r. sn_connection_id r = connection_id)) (\<lambda>row. case row of
      None \<Rightarrow> raising UnknownConnection
    | Some row \<Rightarrow> if sn_hostname row \<noteq> hostname then raising UnknownConnection else ret row)"

definition live_start :: "request_ctx \<Rightarrow> string \<Rightarrow> string \<Rightarrow> string \<Rightarrow> string \<Rightarrow> int \<Rightarrow> unit handler" where
  "live_start cx connection_id hostname kind session_id at =
    and_then (live_connection connection_id hostname) (\<lambda>row.
      seq (creates_if_absent live_session_table (\<lambda>_. \<lparr>ls_id = cx_uuid cx, ls_connection_id = connection_id,
        ls_identity_id = sn_identity_id row, ls_hostname = hostname, ls_kind = kind, ls_session_id = session_id,
        ls_started_at = at, ls_ended_at = None, ls_deadline = sn_deadline row\<rparr>)) (ret ()))"

definition live_end :: "string \<Rightarrow> string \<Rightarrow> string \<Rightarrow> string \<Rightarrow> int \<Rightarrow> unit handler" where
  "live_end connection_id hostname kind session_id at =
    and_then (live_connection connection_id hostname) (\<lambda>_.
      and_then (reads_all live_session_table (\<lambda>r. ls_ended_at r = None \<and> ls_connection_id r = connection_id \<and>
          ls_kind r = kind \<and> ls_hostname r = hostname \<and> (session_id = '''' \<or> ls_session_id r = session_id)))
        (\<lambda>rows. for_each rows (\<lambda>row. seq (updates live_session_table
          (\<lambda>r. r\<lparr>ls_ended_at := Some (max at (ls_started_at row))\<rparr>)
          (\<lambda>r. ls_id r = ls_id row \<and> ls_ended_at r = None)) (ret ()))))"

definition live_read_one :: "string \<Rightarrow> app_db \<Rightarrow> live_session_row option" where
  "live_read_one i = table_read_one live_session_table (\<lambda>r. ls_id r = i)"

text \<open>Sorted by the time they started, then by id, the latest first.\<close>

definition live_read_all :: "string option \<Rightarrow> int option \<Rightarrow> bool option \<Rightarrow> app_db \<Rightarrow> live_session_row list" where
  "live_read_all hostname identity_id active db =
    rev (sort_key ls_started_at (sort_key ls_id
      (table_read_all live_session_table (\<lambda>r. opt_all (\<lambda>h. ls_hostname r = h) hostname \<and>
        opt_all (\<lambda>i. ls_identity_id r = i) identity_id \<and>
        (case active of None \<Rightarrow> True | Some True \<Rightarrow> ls_ended_at r = None
         | Some False \<Rightarrow> ls_ended_at r \<noteq> None)) db)))"

end
