(* ===== verification/Identity_Endpoints.thy ===== *)
theory Identity_Endpoints
  imports Endpoint_Base Model_Keys Grant_Removal Unix_Account
begin

text \<open>
  \<open>api/endpoints/identity.py\<close>: the endpoints on identities, with the parts of \<open>schemas/identity.py\<close>
  and \<open>converters.py\<close> they use. Signing a bastion token is a parameter (\<open>jwt\<close>), as are the keys and the
  generated invitation key.
\<close>

section \<open>What is shown of an identity\<close>

record s_identity =
  si_id :: int
  si_name :: string
  si_tags :: "tag_row list"
  si_boundaries :: "(int \<times> string) list"
  si_unix_username :: "string option"

definition lookup_all :: "('k \<times> 'v) list \<Rightarrow> 'k list \<Rightarrow> exn + 'v list" where
  "lookup_all d = collect (\<lambda>k. case map_of d k of None \<Rightarrow> Inl KeyError | Some v \<Rightarrow> Inr v)"

definition show_identity :: "(int \<times> tag_row) list \<Rightarrow> (int \<times> int \<times> string) list \<Rightarrow> identity \<Rightarrow> exn + s_identity" where
  "show_identity tag_by_id boundary_by_id i =
    (case lookup_all tag_by_id (i_tag_id_list i) of Inl e \<Rightarrow> Inl e
     | Inr tags \<Rightarrow> (case lookup_all boundary_by_id (i_boundary_id_list i) of Inl e \<Rightarrow> Inl e
       | Inr boundaries \<Rightarrow> Inr \<lparr>si_id = i_id i, si_name = i_name i, si_tags = tags,
           si_boundaries = boundaries, si_unix_username = i_unix_username i\<rparr>))"

definition identity_list_to_schema :: "identity list \<Rightarrow> s_identity list handler" where
  "identity_list_to_schema identities =
    and_then (reads_all tag_table (\<lambda>t. tg_id t \<in> set (concat (map i_tag_id_list identities)))) (\<lambda>tags.
    and_then (reads_all boundary_table (\<lambda>b. bo_id b \<in> set (concat (map i_boundary_id_list identities)))) (\<lambda>boundaries.
      lifting (collect (show_identity (dict_rows tg_id id tags)
        (dict_rows bo_id (\<lambda>b. (bo_id b, bo_name b)) boundaries)) identities)))"

definition identity_to_schema :: "identity \<Rightarrow> s_identity handler" where
  "identity_to_schema identity = and_then (identity_list_to_schema [identity])
    (\<lambda>l. case l of [] \<Rightarrow> raising IndexError | x # _ \<Rightarrow> ret x)"

section \<open>Reading identities\<close>

definition checker_of :: "grants \<Rightarrow> identity \<Rightarrow> identity_grant checker" where
  "checker_of grants i = grants_identity grants (Some (i_id i)) (Some (i_tag_id_list i)) (Some (i_boundary_id_list i))"

definition identity_list_endpoint :: "request_ctx \<Rightarrow> identity_query \<Rightarrow> s_identity list handler" where
  "identity_list_endpoint cx query =
    and_then (grants_create cx) (\<lambda>grants.
    and_then (identity_read_all query) (\<lambda>identities.
      identity_list_to_schema (filter (\<lambda>i. identity_can_read (checker_of grants i)) identities)))"

definition read_self_endpoint :: "request_ctx \<Rightarrow> (s_identity \<times> (int \<times> string) option) handler" where
  "read_self_endpoint cx = (case cx_identity_id cx of
     None \<Rightarrow> raising AssertionError
   | Some identity_id \<Rightarrow>
     and_then (identity_read_one (by_id identity_id)) (\<lambda>identity. case identity of
       None \<Rightarrow> raising AssertionError
     | Some identity \<Rightarrow>
       and_then (case cx_active_role_id cx of None \<Rightarrow> ret None
         | Some role_id \<Rightarrow> and_then (reads (role_read_one role_id))
             (\<lambda>role. ret (map_option (\<lambda>r. (r_id r, r_name r)) role))) (\<lambda>active_role.
         and_then (identity_to_schema identity) (\<lambda>s. ret (s, active_role)))))"

definition read_self_bastions_endpoint :: "request_ctx \<Rightarrow> s_bastion list handler" where
  "read_self_bastions_endpoint cx =
    and_then (bastion_read_matching cx) (\<lambda>bastions. show_all bastion_to_schema bastions GrantConverter)"

datatype token_purpose = Connect | Register

text \<open>\<open>jwt\<close> signs a token with a host name, a purpose and the two optional claims.\<close>

definition read_self_token_endpoint ::
    "(string \<Rightarrow> token_purpose \<Rightarrow> int option \<Rightarrow> string option \<Rightarrow> 'token handler) \<Rightarrow> request_ctx \<Rightarrow>
      string \<Rightarrow> string \<Rightarrow> token_purpose \<Rightarrow> string option \<Rightarrow> 'token handler" where
  "read_self_token_endpoint jwt cx service hostname purpose connection_id =
    (if service \<noteq> ''bastion'' then raising (Http (problem_response 403 about_blank None None))
     else case purpose of
       Connect \<Rightarrow> (case connection_id of
         None \<Rightarrow> reject 400 ''connection_id required'' None
       | Some c \<Rightarrow>
           and_then (reads_one ssh_connection_table (\<lambda>r. sn_connection_id r = c)) (\<lambda>row. case row of
             None \<Rightarrow> reject 403 ''Forbidden'' None
           | Some row \<Rightarrow>
               if Some (sn_identity_id row) \<noteq> cx_identity_id cx \<or> sn_hostname row \<noteq> hostname \<or>
                  sn_valid_before row < cx_now cx
               then reject 403 ''Forbidden'' None
               else jwt hostname Connect (sn_deadline row) (Some (sn_connection_id row))))
     | Register \<Rightarrow>
         and_then (identity_read_self cx) (\<lambda>caller. case caller of
           None \<Rightarrow> raising AssertionError
         | Some caller \<Rightarrow> if i_name caller \<noteq> hostname then reject 403 ''Forbidden'' None
             else jwt hostname Register None None))"

section \<open>Names in requests\<close>

definition invalid_fields :: "'a handler" where
  "invalid_fields = reject 400 ''Request contains invalid fields'' None"

definition read_boundary_ids :: "int list \<Rightarrow> string list \<Rightarrow> int list handler" where
  "read_boundary_ids ids names =
    and_then (reads_all boundary_table (\<lambda>b. bo_name b \<in> set names)) (\<lambda>boundaries.
      if length boundaries \<noteq> length names then invalid_fields
      else ret (map bo_id boundaries @ ids))"

definition read_tag_ids :: "int list \<Rightarrow> tag_name_value list \<Rightarrow> int list handler" where
  "read_tag_ids ids names =
    seq (if ids \<noteq> []
         then and_then (reads_all tag_table (\<lambda>t. tg_id t \<in> set ids)) (\<lambda>existing.
           if set ids - set (map tg_id existing) \<noteq> {} then invalid_fields else ret ())
         else ret ())
    (and_then (map_act (\<lambda>tag. and_then
        (reads_one tag_table (\<lambda>r. tg_name r = tnv_name tag \<and> tg_value r = tnv_value tag))
        (\<lambda>t. case t of None \<Rightarrow> invalid_fields | Some t \<Rightarrow> ret (tg_id t))) names) (\<lambda>id_list.
      if length id_list \<noteq> length names then invalid_fields
      else let all_ids = id_list @ ids
           in if \<not> distinct all_ids then invalid_fields else ret all_ids))"

section \<open>Creating\<close>

definition identity_uniqueness_conflict :: "exn \<Rightarrow> string \<Rightarrow> string option \<Rightarrow> exn" where
  "identity_uniqueness_conflict exc name unix_username = (case exc of
     IntegrityError t c \<Rightarrow>
       if t = ''identity'' \<and> c = ''unix_username''
       then Http (problem_response 400 about_blank
         (Some ''Identity already exists. \"unix_username\" must be unique.'') unix_username)
       else if t = ''identity'' \<and> c = ''name''
       then Http (problem_response 400 about_blank
         (Some ''Identity already exists. \"name\" must be unique.'') (Some name))
       else exc
   | _ \<Rightarrow> exc)"

text \<open>The two checks on a new Unix username.\<close>

definition check_unix_username :: "request_ctx \<Rightarrow> string option \<Rightarrow> unit handler" where
  "check_unix_username cx unix_username = (case unix_username of
     None \<Rightarrow> ret ()
   | Some u \<Rightarrow>
       if \<not> is_valid u then reject 400 ''Invalid unix_username'' (Some u)
       else if is_privileged u (cf_privileged_unix_usernames (cx_config cx))
       then reject 400 ''Not allowed to use a privileged unix_username'' (Some u)
       else ret ())"

record identity_create_request =
  icr_name :: string
  icr_tag_id_list :: "int list"
  icr_tag_name_value_list :: "tag_name_value list"
  icr_boundary_id_list :: "int list"
  icr_boundary_name_list :: "string list"
  icr_unix_username :: "string option"

definition identity_create_endpoint :: "request_ctx \<Rightarrow> identity_create_request \<Rightarrow> s_identity handler" where
  "identity_create_endpoint cx data =
    and_then (read_boundary_ids (icr_boundary_id_list data) (icr_boundary_name_list data)) (\<lambda>additional.
    and_then (read_tag_ids (icr_tag_id_list data) (icr_tag_name_value_list data)) (\<lambda>tag_ids.
    and_then (grants_create cx) (\<lambda>grants.
      if \<not> identity_can_create (grants_identity grants None None None) tag_ids additional
      then reject 403 ''Not allowed to create identity'' None
      else and_then (identity_read_self cx) (\<lambda>identity. case identity of
        None \<Rightarrow> raising AssertionError
      | Some identity \<Rightarrow>
          (let boundary_ids = i_boundary_id_list identity @ additional
           in if \<not> distinct boundary_ids then invalid_fields
              else seq (check_unix_username cx (icr_unix_username data))
                (and_then (catching
                    (identity_create cx (icr_name data) boundary_ids tag_ids (icr_unix_username data))
                    (\<lambda>e. raising (identity_uniqueness_conflict e (icr_name data) (icr_unix_username data))))
                  (\<lambda>identity_id. and_then (identity_read_one (by_id identity_id)) (\<lambda>identity. case identity of
                     None \<Rightarrow> raising AssertionError
                   | Some identity \<Rightarrow> identity_to_schema identity))))))))"

section \<open>Deleting\<close>

definition identity_missing :: string where
  "identity_missing = ''Identity not found''"

definition refuse_delete :: "request_ctx \<Rightarrow> int \<Rightarrow> string \<Rightarrow> string \<Rightarrow> 'a handler" where
  "refuse_delete cx identity_id reason t =
    seq (create_after_rollback cx IDENTITY_DELETE_REFUSED
        [(''identity_id'', DInt identity_id), (''reason'', DStr reason)])
      (reject 400 t None)"

definition can_read_identity :: "request_ctx \<Rightarrow> grants \<Rightarrow> identity \<Rightarrow> bool" where
  "can_read_identity cx grants identity \<longleftrightarrow>
    Some (i_id identity) = cx_identity_id cx \<or> identity_can_read (checker_of grants identity)"

definition identity_delete_endpoint :: "request_ctx \<Rightarrow> int \<Rightarrow> unit handler" where
  "identity_delete_endpoint cx identity_id =
    and_then (identity_read_one (by_id identity_id)) (\<lambda>identity. case identity of
      None \<Rightarrow> raising (not_found identity_missing)
    | Some identity \<Rightarrow>
        if cx_identity_id cx = Some identity_id
        then refuse_delete cx identity_id ''self'' ''You cannot delete yourself''
        else and_then (grants_create cx) (\<lambda>grants.
          if \<not> identity_can_delete (checker_of grants identity)
          then raising (forbidden_or_not_found (can_read_identity cx grants identity)
            ''Not allowed to delete identity'' identity_missing None)
          else if identity_id = FOUNDING_ID
          then refuse_delete cx identity_id ''founding'' ''The founding identity of the tenant cannot be deleted''
          else seq (identity_grants_remove
              (with_cause OT_IDENTITY (i_id identity) (Some (i_name identity)) AC_DELETE cx) (i_id identity))
            (identity_delete cx (i_id identity))))"

section \<open>Updating\<close>

datatype tag_operation =
    TagAdd "int list" "tag_name_value list"
  | TagDel "int list" "tag_name_value list"
  | TagSet "int list" "tag_name_value list"

record identity_update_request =
  iur_fields :: "string list"
  iur_name :: string
  iur_tags :: "tag_operation list"
  iur_unix_username :: "string option"

definition forbidden_tag :: "bool \<Rightarrow> exn" where
  "forbidden_tag can_read = forbidden_or_not_found can_read ''Not allowed to update tag'' identity_missing None"

definition check_add_tags :: "identity_grant checker \<Rightarrow> bool \<Rightarrow> int list \<Rightarrow> unit handler" where
  "check_add_tags chk can_read tags =
    for_each tags (\<lambda>t. unless_raise (identity_can_add_tag chk t) (forbidden_tag can_read))"

definition check_del_tags :: "identity_grant checker \<Rightarrow> bool \<Rightarrow> int list \<Rightarrow> unit handler" where
  "check_del_tags chk can_read tags =
    for_each tags (\<lambda>t. unless_raise (identity_can_del_tag chk t) (forbidden_tag can_read))"

text \<open>The lists made from sets of ids are in the order of the ids.\<close>

definition check_set_tags ::
    "identity_grant checker \<Rightarrow> bool \<Rightarrow> int list \<Rightarrow> int set \<Rightarrow> (int list \<times> int list) handler" where
  "check_set_tags chk can_read current new =
    (let added = sorted_list_of_set (new - set current);
         deleted = sorted_list_of_set (set current - new)
     in seq (check_add_tags chk can_read added)
       (seq (check_del_tags chk can_read deleted) (ret (added, deleted))))"

primrec apply_tag_operation ::
    "identity_grant checker \<Rightarrow> bool \<Rightarrow> int list \<Rightarrow> tag_operation \<Rightarrow> int set \<Rightarrow> int set handler" where
  "apply_tag_operation chk can_read current (TagSet ids names) new =
    and_then (read_tag_ids ids names) (\<lambda>tags.
      seq (check_set_tags chk can_read current (set tags)) (ret (set tags)))"
| "apply_tag_operation chk can_read current (TagAdd ids names) new =
    and_then (read_tag_ids ids names) (\<lambda>tags.
      seq (check_add_tags chk can_read tags) (ret (new \<union> set tags)))"
| "apply_tag_operation chk can_read current (TagDel ids names) new =
    and_then (read_tag_ids ids names) (\<lambda>tags.
      seq (check_del_tags chk can_read tags) (ret (new - set tags)))"

primrec apply_tag_operations ::
    "identity_grant checker \<Rightarrow> bool \<Rightarrow> int list \<Rightarrow> tag_operation list \<Rightarrow> int set \<Rightarrow> int set handler" where
  "apply_tag_operations chk can_read current [] new = ret new"
| "apply_tag_operations chk can_read current (op # ops) new =
    and_then (apply_tag_operation chk can_read current op new)
      (apply_tag_operations chk can_read current ops)"

text \<open>The tags to add and to delete; \<open>None\<close> when the request does not set the tags.\<close>

definition tag_changes ::
    "identity_grant checker \<Rightarrow> bool \<Rightarrow> int list \<Rightarrow> tag_operation list option \<Rightarrow> (int list \<times> int list) option handler" where
  "tag_changes chk can_read current ops = (case ops of
     None \<Rightarrow> ret None
   | Some ops \<Rightarrow> and_then (apply_tag_operations chk can_read current ops (set current)) (\<lambda>new.
       and_then (check_set_tags chk can_read current new) (\<lambda>changes. ret (Some changes))))"

definition check_identity_field ::
    "string list \<Rightarrow> identity_grant checker \<Rightarrow> bool \<Rightarrow> string \<Rightarrow> unit handler" where
  "check_identity_field names chk can_read field =
    (if field \<in> set names
     then and_then (lifting (identity_can_update chk field)) (\<lambda>ok. unless_raise ok
       (forbidden_or_not_found can_read ''Not allowed to update identity field'' identity_missing (Some field)))
     else ret ())"

definition identity_update_endpoint ::
    "request_ctx \<Rightarrow> int \<Rightarrow> identity_update_request \<Rightarrow> s_identity handler" where
  "identity_update_endpoint cx identity_id data =
    and_then (identity_read_one (by_id identity_id)) (\<lambda>identity. case identity of
      None \<Rightarrow> raising (not_found identity_missing)
    | Some identity \<Rightarrow>
        and_then (grants_create cx) (\<lambda>grants.
          let chk = checker_of grants identity;
              can_read = can_read_identity cx grants identity;
              names = iur_fields data;
              username = when_set names ''unix_username'' (iur_unix_username data)
          in seq (check_identity_field names chk can_read ''name'')
            (seq (check_identity_field names chk can_read ''unix_username'')
            (seq (check_unix_username cx (case username of None \<Rightarrow> None | Some u \<Rightarrow> u))
            (and_then (tag_changes chk can_read (i_tag_id_list identity) (when_set names ''tags'' (iur_tags data)))
              (\<lambda>changes.
            seq (catching (identity_update cx identity_id
                \<lparr>if_name = when_set names ''name'' (iur_name data), if_added = map_option fst changes,
                 if_deleted = map_option snd changes, if_unix_username = username\<rparr>)
                (\<lambda>e. raising (identity_uniqueness_conflict e
                  (if ''name'' \<in> set names then iur_name data else i_name identity)
                  (if ''unix_username'' \<in> set names then iur_unix_username data else None))))
            (and_then (identity_read_one (by_id identity_id)) (\<lambda>identity. case identity of
                None \<Rightarrow> raising AssertionError
              | Some identity \<Rightarrow> identity_to_schema identity))))))))"

section \<open>Inviting\<close>

datatype invite_delivery = Manual | Email

definition delivery_name :: "invite_delivery \<Rightarrow> string" where
  "delivery_name d = (case d of Manual \<Rightarrow> ''manual'' | Email \<Rightarrow> ''email'')"

text \<open>
  The answer is the key for a manual delivery; the email leaves after the commit, and its failure is
  the mailer's.
\<close>

definition invite_endpoint ::
    "crypto \<Rightarrow> request_ctx \<Rightarrow> string \<Rightarrow> int \<Rightarrow> invite_delivery \<Rightarrow> string option handler" where
  "invite_endpoint cr cx new_key identity_id delivery =
    and_then (identity_read_one (by_id identity_id)) (\<lambda>identity. case identity of
      None \<Rightarrow> raising (not_found identity_missing)
    | Some identity \<Rightarrow>
        and_then (grants_create cx) (\<lambda>grants.
          if \<not> identity_can_invite (checker_of grants identity) (delivery_name delivery)
          then raising (forbidden_or_not_found (can_read_identity cx grants identity)
            ''Not allowed to invite identity'' identity_missing (Some (delivery_name delivery)))
          else and_then (invitation_create cr cx new_key (i_id identity) 600) (\<lambda>i.
            and_then (invitation_read cr i) (\<lambda>invitation. case invitation of
              None \<Rightarrow> raising AssertionError
            | Some invitation \<Rightarrow>
                (case delivery of
                   Manual \<Rightarrow> ret (Some (ik_key invitation))
                 | Email \<Rightarrow>
                     (case cf_email (cx_config cx) of
                        None \<Rightarrow> reject 500 ''Email not configured'' (Some '''')
                      | Some _ \<Rightarrow> seq (after_commit (SendMail (i_name identity)
                          (cf_base_url (cx_config cx) @ ''?invitation='' @ ik_key invitation)))
                          (ret None)))))))"

end
