(* ===== verification/Session_Endpoints.thy ===== *)
theory Session_Endpoints
  imports Identity_Endpoints
begin

text \<open>
  \<open>api/endpoints/session.py\<close>, \<open>bastion.py\<close> and \<open>live.py\<close>: the session of the caller, the bastions, and the
  registry of live sessions with the reports of the hosts. Signing a token is a parameter, as in
  \<open>Identity_Endpoints\<close>; the command to a host leaves after the commit as an effect.
\<close>

section \<open>The caller's session\<close>

definition update_session_self :: "request_ctx \<Rightarrow> int \<Rightarrow> unit handler" where
  "update_session_self cx role_id =
    (if cx_active_role_id cx \<noteq> None
     then raising (Http (problem_response 409 ''Session role already set'' None None))
     else and_then (reads_one role_member_table
         (\<lambda>r. rm_role_id r = role_id \<and> cx_identity_id cx = Some (rm_identity_id r))) (\<lambda>member.
       if member = None
       then raising (Http (problem_response 403 ''Identity is not a member of this role'' None None))
       else and_then (updates identity_session_key_table (\<lambda>r. r\<lparr>sk_role_id := Some role_id\<rparr>)
           (\<lambda>r. cx_session_key_id cx = Some (sk_id r) \<and> sk_role_id r = None)) (\<lambda>changed.
         if changed = 0
         then raising (Http (problem_response 409 ''Session role already set'' None None))
         else audit_create_refs cx SESSION_SET_ROLE (no_args\<lparr>ra_roles := [role_id]\<rparr>)
           [(''session_key_id'', opt_str (cx_session_key_id cx)), (''role_id'', DInt role_id)])))"

definition logout_session_self :: "request_ctx \<Rightarrow> unit handler" where
  "logout_session_self cx =
    and_then (updates identity_session_key_table (\<lambda>r. r\<lparr>sk_logged_out_at := Some (cx_now cx)\<rparr>)
        (\<lambda>r. cx_session_key_id cx = Some (sk_id r) \<and> sk_logged_out_at r = None)) (\<lambda>updated.
      if updated > 0
      then audit_create cx SESSION_LOGOUT [] [(''session_key_id'', opt_str (cx_session_key_id cx))]
      else ret ())"

section \<open>Bastions\<close>

definition bastion_tag_ids :: "int list \<Rightarrow> tag_name_value list \<Rightarrow> int list handler" where
  "bastion_tag_ids ids names =
    and_then (map_act (\<lambda>tag. and_then
        (reads_one tag_table (\<lambda>r. tg_name r = tnv_name tag \<and> tg_value r = tnv_value tag))
        (\<lambda>t. case t of None \<Rightarrow> reject 400 ''Request contains invalid field'' None | Some t \<Rightarrow> ret (tg_id t))) names)
      (\<lambda>id_list. ret (id_list @ ids))"

definition bastion_list_endpoint :: "request_ctx \<Rightarrow> int option \<Rightarrow> s_bastion list handler" where
  "bastion_list_endpoint cx i =
    and_then (reads (bastion_read_all (map_option (\<lambda>x. [x]) i) None)) (\<lambda>bastions.
    and_then (grants_create cx) (\<lambda>grants.
      show_all bastion_to_schema
        (filter (\<lambda>b. bastion_can_read (grants_bastion grants (Some (bas_id b)))) bastions) GrantConverter))"

record bastion_create_request =
  bcr_url :: string
  bcr_ssh_proxy_jump :: "string option"
  bcr_tag_id_list :: "int list option"
  bcr_tag_name_value_list :: "tag_name_value list"

definition show_bastion :: "int \<Rightarrow> s_bastion handler" where
  "show_bastion bastion_id = and_then (reads (bastion_read_one bastion_id)) (\<lambda>bastion. case bastion of
     None \<Rightarrow> raising AssertionError | Some b \<Rightarrow> show_one bastion_to_schema b GrantConverter)"

definition bastion_create_endpoint :: "request_ctx \<Rightarrow> bastion_create_request \<Rightarrow> s_bastion handler" where
  "bastion_create_endpoint cx data =
    and_then (grants_create cx) (\<lambda>grants.
      if \<not> bastion_can_create (grants_bastion grants None)
      then reject 403 ''Not allowed to create bastion'' None
      else and_then (if bcr_tag_id_list data \<noteq> None \<or> length (bcr_tag_name_value_list data) > 0
          then and_then (bastion_tag_ids (or_empty (bcr_tag_id_list data)) (bcr_tag_name_value_list data))
            (\<lambda>l. ret (Some l))
          else ret None) (\<lambda>tag_ids.
        and_then (bastion_create cx (bcr_url data) (bcr_ssh_proxy_jump data) tag_ids) show_bastion))"

text \<open>
  The URL of an update may be null: the database then refuses the update, after the audit entry was
  put off to a commit that does not come.
\<close>

record bastion_update_request =
  buq_fields :: "string list"
  buq_url :: "string option"
  buq_ssh_proxy_jump :: "string option"
  buq_tag_id_list :: "int list option"
  buq_tag_name_value_list :: "tag_name_value list option"

definition bastion_missing :: string where
  "bastion_missing = ''Bastion not found''"

definition checked_field :: "string \<Rightarrow> string" where
  "checked_field field =
    (if field = ''tag_id_list'' \<or> field = ''tag_name_value_list'' then ''tag_list'' else field)"

definition new_bastion_tags :: "bastion_update_request \<Rightarrow> int list option option handler" where
  "new_bastion_tags data =
    (if ''tag_id_list'' \<notin> set (buq_fields data) \<and> ''tag_name_value_list'' \<notin> set (buq_fields data) then ret None
     else if buq_tag_id_list data = None \<and> buq_tag_name_value_list data = None then ret (Some None)
     else and_then (bastion_tag_ids (or_empty (buq_tag_id_list data))
         (case buq_tag_name_value_list data of None \<Rightarrow> [] | Some l \<Rightarrow> l)) (\<lambda>l. ret (Some (Some l))))"

definition bastion_update_endpoint :: "request_ctx \<Rightarrow> int \<Rightarrow> bastion_update_request \<Rightarrow> s_bastion handler" where
  "bastion_update_endpoint cx bastion_id data =
    and_then (reads (bastion_read_one bastion_id)) (\<lambda>bastion. case bastion of
      None \<Rightarrow> raising (not_found bastion_missing)
    | Some bastion \<Rightarrow>
    and_then (grants_create cx) (\<lambda>grants.
      let chk = grants_bastion grants (Some (bas_id bastion));
          names = buq_fields data;
          url = when_set names ''url'' (buq_url data)
      in seq (check_fields names (\<lambda>field. bastion_can_update chk (checked_field field)) (\<lambda>field.
          forbidden_or_not_found (bastion_can_read chk) ''Not allowed to update bastion field''
            bastion_missing (Some field)))
        (and_then (new_bastion_tags data) (\<lambda>tags.
        if url = Some None then raising (IntegrityError ''bastion'' ''url'')
        else seq (bastion_update cx bastion_id
            \<lparr>baf_url = (case url of None \<Rightarrow> None | Some u \<Rightarrow> u),
             baf_ssh_proxy_jump = when_set names ''ssh_proxy_jump'' (buq_ssh_proxy_jump data),
             baf_tag_id_list = tags\<rparr>)
          (show_bastion bastion_id)))))"

definition bastion_delete_endpoint :: "request_ctx \<Rightarrow> int \<Rightarrow> unit handler" where
  "bastion_delete_endpoint cx bastion_id =
    and_then (reads (bastion_read_one bastion_id)) (\<lambda>bastion. case bastion of
      None \<Rightarrow> raising (not_found bastion_missing)
    | Some bastion \<Rightarrow>
    and_then (grants_create cx) (\<lambda>grants.
      let chk = grants_bastion grants (Some (bas_id bastion)) in
      if \<not> bastion_can_delete chk
      then raising (forbidden_or_not_found (bastion_can_read chk) ''Not allowed to delete bastion''
        bastion_missing None)
      else seq (bastion_grants_remove
            (with_cause OT_BASTION (bas_id bastion) (Some (bas_url bastion)) AC_DELETE cx) bastion_id)
        (and_then (bastion_delete cx bastion_id)
          (\<lambda>ok. if \<not> ok then raising (not_found bastion_missing) else ret ()))))"

section \<open>Live sessions\<close>

text \<open>\<open>_host_tags().get(hostname, [])\<close>: the tags of the identity named like the host.\<close>

definition tags_of_host :: "(string \<times> int list) list \<Rightarrow> string \<Rightarrow> int list" where
  "tags_of_host d hostname = (case map_of d hostname of None \<Rightarrow> [] | Some tags \<Rightarrow> tags)"

definition host_tags :: "(string \<times> int list) list handler" where
  "host_tags = and_then (identity_read_all any_identity)
    (\<lambda>identities. ret (dict_rows i_name i_tag_id_list identities))"

definition live_list_endpoint ::
    "request_ctx \<Rightarrow> string option \<Rightarrow> int option \<Rightarrow> bool option \<Rightarrow> live_session_row list handler" where
  "live_list_endpoint cx hostname identity_id active =
    and_then (grants_create cx) (\<lambda>grants.
      if \<not> live_read_somewhere grants then reject 403 ''Not allowed to read live sessions'' None
      else and_then host_tags (\<lambda>d. and_then (reads (live_read_all hostname identity_id active)) (\<lambda>rows.
        ret (filter (\<lambda>r. live_can_read (grants_live grants (Some (tags_of_host d (ls_hostname r))))) rows))))"

definition live_missing :: exn where
  "live_missing = Http (problem_response 404 about_blank (Some ''Live session does not exist'') None)"

definition terminate_endpoint :: "(string \<Rightarrow> string \<Rightarrow> string handler) \<Rightarrow> request_ctx \<Rightarrow> string \<Rightarrow> unit handler" where
  "terminate_endpoint jwt cx i =
    and_then (grants_create cx) (\<lambda>grants.
    and_then (reads (live_read_one i)) (\<lambda>row. case row of
      None \<Rightarrow> raising live_missing
    | Some row \<Rightarrow>
    and_then host_tags (\<lambda>d.
      let live = grants_live grants (Some (tags_of_host d (ls_hostname row)))
      in if ls_ended_at row \<noteq> None \<or> \<not> live_can_read live then raising live_missing
         else if \<not> live_can_terminate live then reject 403 ''Not allowed to end live sessions'' None
         else and_then (jwt (ls_hostname row) (ls_connection_id row)) (\<lambda>token.
           and_then (reads (bastion_read_all None None)) (\<lambda>bastions.
           seq (audit_create cx LIVE_SESSION_TERMINATE []
               [(''live_session_id'', DStr (ls_id row)), (''connection_id'', DStr (ls_connection_id row)),
                (''hostname'', DStr (ls_hostname row)), (''kind'', DStr (ls_kind row)),
                (''session_id'', DStr (ls_session_id row))])
             (after_commit (SendToken (map bas_url bastions) (ls_hostname row) token)))))))"

section \<open>Reports of hosts\<close>

definition caller_hostname :: "request_ctx \<Rightarrow> string handler" where
  "caller_hostname cx = and_then (identity_read_self cx) (\<lambda>caller. case caller of
     None \<Rightarrow> raising AssertionError | Some caller \<Rightarrow> ret (i_name caller))"

record live_report =
  lr_connection_id :: string
  lr_kind :: string
  lr_session_id :: string
  lr_at :: int

definition refuse_unknown :: "unit handler \<Rightarrow> unit handler" where
  "refuse_unknown m = catching m (\<lambda>e. case e of
     UnknownConnection \<Rightarrow> reject 403 ''Forbidden'' None | _ \<Rightarrow> raising e)"

definition start_endpoint :: "request_ctx \<Rightarrow> live_report \<Rightarrow> unit handler" where
  "start_endpoint cx data = refuse_unknown (and_then (caller_hostname cx) (\<lambda>hostname.
     live_start cx (lr_connection_id data) hostname (lr_kind data) (lr_session_id data)
       (min (lr_at data) (cx_now cx))))"

definition end_endpoint :: "request_ctx \<Rightarrow> live_report \<Rightarrow> unit handler" where
  "end_endpoint cx data = refuse_unknown (and_then (caller_hostname cx) (\<lambda>hostname.
     live_end (lr_connection_id data) hostname (lr_kind data) (lr_session_id data)
       (min (lr_at data) (cx_now cx))))"

end
