(* ===== verification/Ssh_Cert.thy ===== *)
theory Ssh_Cert
  imports Decimal
begin

text \<open>
  \<open>ssh/cert.py\<close>: the certificate that the library signs, with the options and extensions that the code
  adds to it and reads back. Strings stand for their UTF-8 bytes, so encoding and decoding are the
  identity; of the library the model takes that a certificate gives back the fields it was built with
  (the record \<open>cert\<close>; the signature itself is the library's). Its lemmas show the round trip: what the
  properties of a certificate report is what it was created with, an absent flag being reported as false.
\<close>

datatype cert_role = CERT_USER | CERT_HOST

record critical_options =
  co_force_command :: "string option"
  co_source_address :: "string list option"
  co_verify_required :: "bool option"

definition CriticalOptions :: critical_options where
  "CriticalOptions = \<lparr>co_force_command = None, co_source_address = None, co_verify_required = None\<rparr>"

record extensions =
  ex_no_touch_required :: "bool option"
  ex_permit_agent_forwarding :: "bool option"
  ex_permit_port_forwarding :: "bool option"
  ex_permit_pty :: "bool option"
  ex_permit_user_rc :: "bool option"
  ex_permit_x11_forwarding :: "bool option"
  ex_session_deadline :: "int option"
  ex_connection_id :: "string option"

definition Extensions :: extensions where
  "Extensions = \<lparr>ex_no_touch_required = None, ex_permit_agent_forwarding = None,
    ex_permit_port_forwarding = None, ex_permit_pty = None, ex_permit_user_rc = None,
    ex_permit_x11_forwarding = None, ex_session_deadline = None, ex_connection_id = None\<rparr>"

text \<open>The certificate of the library: \<open>'k\<close> is the type of its keys.\<close>

record 'k cert =
  ce_public_key :: 'k
  ce_serial :: int
  ce_type :: cert_role
  ce_key_id :: string
  ce_valid_principals :: "string list"
  ce_valid_after :: int
  ce_valid_before :: int
  ce_critical_options :: "(string \<times> string) list"
  ce_extensions :: "(string \<times> string) list"
  ce_signer :: 'k

section \<open>Reading options\<close>

definition flag_set :: "(string \<times> string) list \<Rightarrow> string \<Rightarrow> bool option" where
  "flag_set options name = Some (map_of options name = Some '''')"

definition cert_critical_options :: "'k cert \<Rightarrow> critical_options" where
  "cert_critical_options c =
    (let d = ce_critical_options c
     in \<lparr>co_force_command = map_of d ''force-command'',
         co_source_address = map_option (split_on CHR '','') (map_of d ''source-address''),
         co_verify_required = flag_set d ''verify-required''\<rparr>)"

text \<open>A deadline that is not a number is ignored.\<close>

definition cert_extensions :: "'k cert \<Rightarrow> extensions" where
  "cert_extensions c =
    (let e = ce_extensions c
     in \<lparr>ex_no_touch_required = flag_set e ''no-touch-required'',
         ex_permit_agent_forwarding = flag_set e ''permit-agent-forwarding'',
         ex_permit_port_forwarding = flag_set e ''permit-port-forwarding'',
         ex_permit_pty = flag_set e ''permit-pty'',
         ex_permit_user_rc = flag_set e ''permit-user-rc'',
         ex_permit_x11_forwarding = flag_set e ''permit-X11-forwarding'',
         ex_session_deadline = (case map_of e ''pf-session-deadline@provablyfine.net'' of
           None \<Rightarrow> None | Some raw \<Rightarrow> python_int raw),
         ex_connection_id = map_of e ''pf-connection-id@provablyfine.net''\<rparr>)"

definition cert_is_valid :: "int \<Rightarrow> 'k cert \<Rightarrow> bool" where
  "cert_is_valid now c \<longleftrightarrow> \<not> (now < ce_valid_after c \<or> now > ce_valid_before c)"

section \<open>Creating certificates\<close>

definition option_entry :: "string \<Rightarrow> ('a \<Rightarrow> string) \<Rightarrow> 'a option \<Rightarrow> (string \<times> string) list" where
  "option_entry name encode x = (case x of None \<Rightarrow> [] | Some v \<Rightarrow> [(name, encode v)])"

definition flag_entry :: "string \<Rightarrow> bool option \<Rightarrow> (string \<times> string) list" where
  "flag_entry name x = (if x = Some True then [(name, '''')] else [])"

definition create_host ::
    "'k \<Rightarrow> int \<Rightarrow> string \<Rightarrow> string list \<Rightarrow> int \<Rightarrow> int \<Rightarrow> 'k \<Rightarrow> 'k cert" where
  "create_host public_key serial_number identifier principals valid_after valid_before signer =
    \<lparr>ce_public_key = public_key, ce_serial = serial_number, ce_type = CERT_HOST, ce_key_id = identifier,
     ce_valid_principals = principals, ce_valid_after = valid_after, ce_valid_before = valid_before,
     ce_critical_options = [], ce_extensions = [], ce_signer = signer\<rparr>"

definition create_user ::
    "'k \<Rightarrow> int \<Rightarrow> string \<Rightarrow> string list \<Rightarrow> int \<Rightarrow> int \<Rightarrow> critical_options \<Rightarrow> extensions \<Rightarrow> 'k \<Rightarrow> 'k cert" where
  "create_user public_key serial_number identifier principals valid_after valid_before co ex signer =
    \<lparr>ce_public_key = public_key, ce_serial = serial_number, ce_type = CERT_USER, ce_key_id = identifier,
     ce_valid_principals = principals, ce_valid_after = valid_after, ce_valid_before = valid_before,
     ce_critical_options =
       option_entry ''force-command'' id (co_force_command co) @
       option_entry ''source-address'' (join_with '','') (co_source_address co) @
       flag_entry ''verify-required'' (co_verify_required co),
     ce_extensions =
       flag_entry ''no-touch-required'' (ex_no_touch_required ex) @
       flag_entry ''permit-agent-forwarding'' (ex_permit_agent_forwarding ex) @
       flag_entry ''permit-port-forwarding'' (ex_permit_port_forwarding ex) @
       flag_entry ''permit-pty'' (ex_permit_pty ex) @
       flag_entry ''permit-user-rc'' (ex_permit_user_rc ex) @
       flag_entry ''permit-X11-forwarding'' (ex_permit_x11_forwarding ex) @
       option_entry ''pf-session-deadline@provablyfine.net'' show_int (ex_session_deadline ex) @
       option_entry ''pf-connection-id@provablyfine.net'' id (ex_connection_id ex),
     ce_signer = signer\<rparr>"

section \<open>The round trip\<close>

lemma map_of_flag_entry:
  "map_of (flag_entry n x @ rest) k = (if k = n \<and> x = Some True then Some '''' else map_of rest k)"
  by (simp add: flag_entry_def)

lemma map_of_option_entry:
  "map_of (option_entry n f x @ rest) k = (if k = n \<and> x \<noteq> None then Some (f (the x)) else map_of rest k)"
  by (auto simp: option_entry_def split: option.splits)

lemma map_of_last_entries:
  "map_of (flag_entry n x) k = (if k = n \<and> x = Some True then Some '''' else None)"
  "map_of (option_entry n f y) k = (if k = n \<and> y \<noteq> None then Some (f (the y)) else None)"
  using map_of_flag_entry [of n x "[]" k] map_of_option_entry [of n f y "[]" k] by simp_all

lemmas entries = map_of_flag_entry map_of_option_entry map_of_last_entries flag_set_def

text \<open>An absent flag and a false one are the same to a certificate.\<close>

definition flag_of :: "bool option \<Rightarrow> bool option" where
  "flag_of x = Some (x = Some True)"

lemma created_cert_reads:
  assumes "case co_source_address co of None \<Rightarrow> True | Some l \<Rightarrow> l \<noteq> [] \<and> (\<forall>s\<in>set l. CHR '','' \<notin> set s)"
  shows "cert_extensions (create_user k n i ps va vb co ex sg) = ex
      \<lparr>ex_no_touch_required := flag_of (ex_no_touch_required ex),
       ex_permit_agent_forwarding := flag_of (ex_permit_agent_forwarding ex),
       ex_permit_port_forwarding := flag_of (ex_permit_port_forwarding ex),
       ex_permit_pty := flag_of (ex_permit_pty ex),
       ex_permit_user_rc := flag_of (ex_permit_user_rc ex),
       ex_permit_x11_forwarding := flag_of (ex_permit_x11_forwarding ex)\<rparr> \<and>
    cert_critical_options (create_user k n i ps va vb co ex sg) =
      co\<lparr>co_verify_required := flag_of (co_verify_required co)\<rparr>"
proof (intro conjI)
  show "cert_extensions (create_user k n i ps va vb co ex sg) = ex
      \<lparr>ex_no_touch_required := flag_of (ex_no_touch_required ex),
       ex_permit_agent_forwarding := flag_of (ex_permit_agent_forwarding ex),
       ex_permit_port_forwarding := flag_of (ex_permit_port_forwarding ex),
       ex_permit_pty := flag_of (ex_permit_pty ex),
       ex_permit_user_rc := flag_of (ex_permit_user_rc ex),
       ex_permit_x11_forwarding := flag_of (ex_permit_x11_forwarding ex)\<rparr>"
    by (cases ex) (simp add: create_user_def cert_extensions_def Let_def entries flag_of_def python_int_show
        del: map_of_append split: option.split)
  show "cert_critical_options (create_user k n i ps va vb co ex sg) =
      co\<lparr>co_verify_required := flag_of (co_verify_required co)\<rparr>"
    using assms
    by (cases co) (auto simp: create_user_def cert_critical_options_def Let_def entries flag_of_def split_join
        simp del: map_of_append split: option.splits)
qed

text \<open>
  What a user certificate says is what the server decided. The properties of a certificate created
  with given critical options and extensions report the same forced command, source addresses, flags,
  session deadline and connection id: in particular the deadline that the host enforces is exactly the
  one recorded at signing time, and no flag is set that was not asked for. An absent flag reads as
  false, and a list of source addresses must be non-empty and have no comma in an address (a list
  \<open>[]\<close> would read back as \<open>['''']\<close>).
\<close>

lemma certificate_reads_back:
  assumes "case co_source_address co of None \<Rightarrow> True | Some l \<Rightarrow> l \<noteq> [] \<and> (\<forall>s\<in>set l. CHR '','' \<notin> set s)"
  shows "cert_extensions (create_user k n i ps va vb co ex sg) = ex
      \<lparr>ex_no_touch_required := flag_of (ex_no_touch_required ex),
       ex_permit_agent_forwarding := flag_of (ex_permit_agent_forwarding ex),
       ex_permit_port_forwarding := flag_of (ex_permit_port_forwarding ex),
       ex_permit_pty := flag_of (ex_permit_pty ex),
       ex_permit_user_rc := flag_of (ex_permit_user_rc ex),
       ex_permit_x11_forwarding := flag_of (ex_permit_x11_forwarding ex)\<rparr> \<and>
    cert_critical_options (create_user k n i ps va vb co ex sg) =
      co\<lparr>co_verify_required := flag_of (co_verify_required co)\<rparr>"
  by (rule created_cert_reads [OF assms])

lemma certificate_reads_back_witness:
  "cert_extensions (create_user ''k'' 7 ''3:ann'' [''root@5''] 0 60 CriticalOptions
      (Extensions\<lparr>ex_permit_pty := Some True, ex_session_deadline := Some 90\<rparr>) ''ca'') =
    \<lparr>ex_no_touch_required = Some False, ex_permit_agent_forwarding = Some False,
     ex_permit_port_forwarding = Some False, ex_permit_pty = Some True, ex_permit_user_rc = Some False,
     ex_permit_x11_forwarding = Some False, ex_session_deadline = Some 90, ex_connection_id = None\<rparr>"
  using certificate_reads_back [of CriticalOptions "''k''" 7 "''3:ann''" "[''root@5'']" 0 60
      "Extensions\<lparr>ex_permit_pty := Some True, ex_session_deadline := Some 90\<rparr>" "''ca''"]
  by (simp add: CriticalOptions_def Extensions_def flag_of_def)

end
