(* ===== verification/Certificate_Endpoints.thy ===== *)
theory Certificate_Endpoints
  imports Session_Endpoints Ssh_Cert Ssh_Listing
begin

text \<open>
  \<open>api/endpoints/ssh.py\<close>: signing host and user certificates, the hosts a caller can reach, and the
  trusted keys. The connection id is the random value of the request; keys are those of \<open>Model_Keys\<close>.
\<close>

section \<open>Signing keys in force\<close>

definition read_current ::
    "crypto \<Rightarrow> request_ctx \<Rightarrow> signing_key_type \<Rightarrow> int \<Rightarrow> signing_key_row list handler" where
  "read_current cr cx k staging_period = signing_key_read_all cr (\<lambda>r.
    sg_valid_after r \<le> cx_now cx - staging_period \<and> sg_valid_before r > cx_now cx \<and>
    sg_type r = signing_key_type_value k)"

definition first_signer :: "signing_key_row list \<Rightarrow> signing_key_row handler" where
  "first_signer signers = (case signers of [] \<Rightarrow> raising IndexError | s # _ \<Rightarrow> ret s)"

text \<open>\<open>f"{ctx.identity_id}:{caller.name}"\<close>.\<close>

definition cert_identifier :: "request_ctx \<Rightarrow> identity \<Rightarrow> string" where
  "cert_identifier cx caller =
    (case cx_identity_id cx of None \<Rightarrow> ''None'' | Some i \<Rightarrow> show_int i) @ CHR '':'' # i_name caller"

section \<open>Host certificates\<close>

fun host_certificates ::
    "crypto \<Rightarrow> request_ctx \<Rightarrow> identity \<Rightarrow> signing_key_row \<Rightarrow> int \<Rightarrow> jwk list \<Rightarrow> jwk cert list handler" where
  "host_certificates cr cx caller signer serial_number [] = ret []"
| "host_certificates cr cx caller signer serial_number (key # keys) =
    and_then (lifting (cr_read_public cr key)) (\<lambda>public_key.
    and_then (host_certificates cr cx caller signer (serial_number + 1) keys) (\<lambda>certificates.
      ret (create_host public_key serial_number (cert_identifier cx caller) [i_name caller]
        (cx_now cx - 10) (cx_now cx + cf_host_certificate_lifetime (cx_config cx)) (sg_key signer)
        # certificates)))"

definition sign_host_certificate :: "crypto \<Rightarrow> request_ctx \<Rightarrow> jwk list \<Rightarrow> jwk cert list handler" where
  "sign_host_certificate cr cx public_keys =
    and_then (identity_read_self cx) (\<lambda>caller. case caller of None \<Rightarrow> raising AssertionError
    | Some caller \<Rightarrow>
    and_then (read_current cr cx signing_key_type.HOST (cf_host_key_staging_period (cx_config cx))) (\<lambda>signers.
    and_then (first_signer signers) (\<lambda>signer.
    and_then (allocate_serial_numbers cx (sg_id signer) (int (length public_keys))) (\<lambda>serial_number.
    and_then (host_certificates cr cx caller signer serial_number public_keys) (\<lambda>certificates.
    seq (for_each certificates (\<lambda>c. audit_create cx CERTIFICATE_CREATE_HOST []
        [(''signing_key_id'', DInt (sg_id signer)), (''public_key'', DJson (ce_public_key c)),
         (''identifier'', DStr (ce_key_id c)), (''serial_number'', DInt (ce_serial c)),
         (''principals'', DStrs (ce_valid_principals c)), (''valid_after'', DInt (ce_valid_after c)),
         (''valid_before'', DInt (ce_valid_before c))]))
      (ret certificates))))))"

section \<open>What a user certificate permits\<close>

datatype ssh_action = Action_Shell | Action_Port_Forwarding | Action_Command

definition forbidden :: exn where
  "forbidden = Http (problem_response 403 about_blank (Some ''Forbidden'') None)"

definition shell_capabilities :: "ssh_decision \<Rightarrow> ssh_capability list" where
  "shell_capabilities decision = SHELL # filter (\<lambda>c. c \<in> sd_capabilities decision)
    [PTY, USER_RC, PORT_FORWARDING, X11_FORWARDING, AGENT_FORWARDING]"

definition ttl_of :: "ssh_decision \<Rightarrow> ssh_capability \<Rightarrow> int option" where
  "ttl_of decision c = the (sd_capability_ttl decision c)"

definition shell_terms :: "int \<Rightarrow> string \<Rightarrow> ssh_decision \<Rightarrow> exn + critical_options \<times> extensions" where
  "shell_terms now connection_id decision =
    (if SHELL \<notin> sd_capabilities decision then Inl forbidden
     else let permits = (\<lambda>c. Some (c \<in> sd_capabilities decision))
          in Inr (CriticalOptions, Extensions
            \<lparr>ex_permit_pty := permits PTY, ex_permit_user_rc := permits USER_RC,
             ex_permit_port_forwarding := permits PORT_FORWARDING,
             ex_permit_x11_forwarding := permits X11_FORWARDING,
             ex_permit_agent_forwarding := permits AGENT_FORWARDING,
             ex_session_deadline := deadline now (map (ttl_of decision) (shell_capabilities decision)),
             ex_connection_id := Some connection_id\<rparr>))"

text \<open>No flag but one is permitted.\<close>

definition only_forwarding :: "bool \<Rightarrow> int option \<Rightarrow> string \<Rightarrow> extensions" where
  "only_forwarding port_forwarding session_deadline connection_id = Extensions
    \<lparr>ex_permit_pty := Some False, ex_permit_user_rc := Some False,
     ex_permit_port_forwarding := Some port_forwarding, ex_permit_x11_forwarding := Some False,
     ex_permit_agent_forwarding := Some False, ex_session_deadline := session_deadline,
     ex_connection_id := Some connection_id\<rparr>"

definition port_forwarding_terms ::
    "int \<Rightarrow> string \<Rightarrow> ssh_decision \<Rightarrow> exn + critical_options \<times> extensions" where
  "port_forwarding_terms now connection_id decision =
    (if PORT_FORWARDING \<notin> sd_capabilities decision then Inl forbidden
     else Inr (CriticalOptions,
       only_forwarding True (deadline now [ttl_of decision PORT_FORWARDING]) connection_id))"

definition command_terms ::
    "int \<Rightarrow> string \<Rightarrow> string option \<Rightarrow> ssh_decision \<Rightarrow> exn + critical_options \<times> extensions" where
  "command_terms now connection_id command decision = (case command of
     None \<Rightarrow> Inl (Http (problem_response 400 about_blank (Some ''command required for action=command'') None))
   | Some command \<Rightarrow> (case command_permits (sd_commands decision) command of
       None \<Rightarrow> Inl forbidden
     | Some a \<Rightarrow> Inr (CriticalOptions\<lparr>co_force_command := Some command\<rparr>,
         only_forwarding False (deadline now [allowed_ttl a]) connection_id)))"

definition certificate_terms ::
    "int \<Rightarrow> string \<Rightarrow> ssh_action \<Rightarrow> string option \<Rightarrow> ssh_decision \<Rightarrow> exn + critical_options \<times> extensions" where
  "certificate_terms now connection_id action command decision = (case action of
     Action_Shell \<Rightarrow> shell_terms now connection_id decision
   | Action_Port_Forwarding \<Rightarrow> port_forwarding_terms now connection_id decision
   | Action_Command \<Rightarrow> command_terms now connection_id command decision)"

section \<open>User certificates\<close>

record user_certificate_request =
  ucr_hostname :: string
  ucr_username :: string
  ucr_public_key :: jwk
  ucr_action :: ssh_action
  ucr_command :: "string option"

record user_certificate_response =
  ucs_certificates :: "jwk cert list"
  ucs_connection_id :: string
  ucs_bastion_list :: "s_bastion list"
  ucs_ip_address_list :: "string list"

text \<open>The username, an at sign and the id of the host.\<close>

definition user_principal :: "string \<Rightarrow> int \<Rightarrow> string" where
  "user_principal username host_id = username @ CHR ''@'' # show_int host_id"

definition opt_bool :: "bool option \<Rightarrow> detail" where
  "opt_bool b = (case b of None \<Rightarrow> DNull | Some x \<Rightarrow> DBool x)"

definition extensions_details :: "extensions \<Rightarrow> details" where
  "extensions_details e =
    [(''no_touch_required'', opt_bool (ex_no_touch_required e)),
     (''permit_agent_forwarding'', opt_bool (ex_permit_agent_forwarding e)),
     (''permit_port_forwarding'', opt_bool (ex_permit_port_forwarding e)),
     (''permit_pty'', opt_bool (ex_permit_pty e)),
     (''permit_user_rc'', opt_bool (ex_permit_user_rc e)),
     (''permit_x11_forwarding'', opt_bool (ex_permit_x11_forwarding e)),
     (''session_deadline'', opt_int (ex_session_deadline e)),
     (''connection_id'', opt_str (ex_connection_id e))]"

definition critical_options_details :: "critical_options \<Rightarrow> details" where
  "critical_options_details c =
    [(''force_command'', opt_str (co_force_command c)),
     (''source_address'', (case co_source_address c of None \<Rightarrow> DNull | Some l \<Rightarrow> DStrs l)),
     (''verify_required'', opt_bool (co_verify_required c))]"

text \<open>Expired connections are swept, then the new one is recorded with the deadline of the certificate.\<close>

definition record_connection :: "request_ctx \<Rightarrow> string \<Rightarrow> int option \<Rightarrow> unit handler" where
  "record_connection cx hostname session_deadline = (case cx_identity_id cx of
     None \<Rightarrow> raising (IntegrityError ''ssh_connection'' ''identity_id'')
   | Some me \<Rightarrow>
       seq (deletes ssh_connection_table (\<lambda>r. sn_valid_before r < cx_now cx - CONNECTION_RETENTION_S))
       (seq (creates ssh_connection_table (\<lambda>_. \<lparr>sn_connection_id = cx_uuid cx, sn_identity_id = me,
           sn_hostname = hostname, sn_deadline = session_deadline,
           sn_valid_before = cx_now cx + cf_user_certificate_lifetime (cx_config cx)\<rparr>))
         (ret ())))"

text \<open>The addresses the caller logged in from, of the sessions that still run.\<close>

definition login_addresses :: "request_ctx \<Rightarrow> app_db \<Rightarrow> string list" where
  "login_addresses cx db = List.map_filter
    (\<lambda>s. case sk_login_ip s of None \<Rightarrow> None
       | Some ip \<Rightarrow> if ip \<noteq> '''' \<and> sk_logged_out_at s = None \<and> sk_expires_at s > cx_now cx
                   then Some ip else None)
    (table_read_all identity_session_key_table
      (\<lambda>r. cx_identity_id cx = Some (sk_identity_id r) \<and> \<not> sk_is_revoked r) db)"

definition user_certificate ::
    "request_ctx \<Rightarrow> identity \<Rightarrow> identity \<Rightarrow> user_certificate_request \<Rightarrow> jwk \<Rightarrow> int \<Rightarrow>
      critical_options \<times> extensions \<Rightarrow> string \<Rightarrow> jwk cert" where
  "user_certificate cx caller host data public_key serial_number terms signer_key =
    create_user public_key serial_number (cert_identifier cx caller)
      [user_principal (ucr_username data) (i_id host)]
      (cx_now cx - 10) (cx_now cx + cf_user_certificate_lifetime (cx_config cx))
      (fst terms) (snd terms) signer_key"

definition audit_user_certificate ::
    "request_ctx \<Rightarrow> int \<Rightarrow> identity \<Rightarrow> user_certificate_request \<Rightarrow> jwk cert \<Rightarrow> unit handler" where
  "audit_user_certificate cx signing_key_id host data cert =
    audit_create cx CERTIFICATE_CREATE_USER []
      [(''signing_key_id'', DInt signing_key_id), (''host_id'', DInt (i_id host)),
       (''hostname'', DStr (i_name host)), (''username'', DStr (ucr_username data)),
       (''public_key'', DJson (ce_public_key cert)), (''serial_number'', DInt (ce_serial cert)),
       (''principals'', DStrs (ce_valid_principals cert)), (''valid_after'', DInt (ce_valid_after cert)),
       (''valid_before'', DInt (ce_valid_before cert)),
       (''extensions'', DObject (extensions_details (cert_extensions cert))),
       (''critical_options'', DObject (critical_options_details (cert_critical_options cert)))]"

definition sign_user_certificate ::
    "crypto \<Rightarrow> request_ctx \<Rightarrow> user_certificate_request \<Rightarrow> user_certificate_response handler" where
  "sign_user_certificate cr cx data =
    and_then (identity_read_self cx) (\<lambda>caller. case caller of None \<Rightarrow> raising AssertionError
    | Some caller \<Rightarrow>
    and_then (identity_read_one (any_identity\<lparr>iq_name := Some (ucr_hostname data)\<rparr>)) (\<lambda>host. case host of
      None \<Rightarrow> reject 404 ''Unknown host'' None
    | Some host \<Rightarrow>
    and_then (grants_create cx) (\<lambda>grants.
    let checker = SSHChecker (gr_boundaries grants) (gr_roles grants) (i_id host) (i_tag_id_list host)
          (i_boundary_id_list host);
        decision = ssh_decide checker (ucr_username data) (i_unix_username caller)
    in and_then (lifting (cr_read_public cr (ucr_public_key data))) (\<lambda>public_key.
    and_then (read_current cr cx signing_key_type.USER (cf_user_key_staging_period (cx_config cx))) (\<lambda>signers.
    and_then (first_signer signers) (\<lambda>signer.
    and_then (allocate_serial_numbers cx (sg_id signer) 1) (\<lambda>serial_number.
    and_then (lifting (certificate_terms (cx_now cx) (cx_uuid cx) (ucr_action data) (ucr_command data) decision))
      (\<lambda>terms.
    let cert = user_certificate cx caller host data public_key serial_number terms (sg_key signer)
    in seq (record_connection cx (ucr_hostname data) (ex_session_deadline (snd terms)))
    (seq (audit_user_certificate cx (sg_id signer) host data cert)
    (and_then (bastion_read_matching cx) (\<lambda>bastions.
    and_then (reads (login_addresses cx)) (\<lambda>addresses.
    and_then (show_all bastion_to_schema bastions GrantConverter) (\<lambda>shown.
      ret \<lparr>ucs_certificates = [cert], ucs_connection_id = cx_uuid cx, ucs_bastion_list = shown,
        ucs_ip_address_list = addresses\<rparr>)))))))))))))"

section \<open>Hosts and trusted keys\<close>

datatype entry_type = Entry_Shell | Entry_Port | Entry_Command

record host_entry =
  he_hostname :: string
  he_type :: entry_type
  he_username_list :: "string list option"
  he_command_list :: "string list option"

definition capability_entries ::
    "string \<Rightarrow> entry_type \<Rightarrow> ssh_capability \<Rightarrow> (string option \<times> ssh_decision) list \<Rightarrow> host_entry list" where
  "capability_entries hostname ty capability decisions =
    (let named = List.map_filter (\<lambda>(u, d). if capability \<in> sd_capabilities d then u else None) decisions
     in (if named \<noteq> [] then [\<lparr>he_hostname = hostname, he_type = ty, he_username_list = Some named,
           he_command_list = None\<rparr>] else []) @
        (if list_ex (\<lambda>(u, d). u = None \<and> capability \<in> sd_capabilities d) decisions
         then [\<lparr>he_hostname = hostname, he_type = ty, he_username_list = None, he_command_list = None\<rparr>]
         else []))"

definition command_entries :: "string \<Rightarrow> (string option \<times> ssh_decision) list \<Rightarrow> host_entry list" where
  "command_entries hostname decisions = concat (map (\<lambda>(username, decision).
     let (commands, any_command) = command_candidates (sd_commands decision)
     in if commands = [] \<and> \<not> any_command then []
        else [\<lparr>he_hostname = hostname, he_type = Entry_Command,
          he_username_list = map_option (\<lambda>u. [u]) username,
          he_command_list = (if any_command then None else Some commands)\<rparr>]) decisions)"

definition host_entries :: "grants \<Rightarrow> identity \<Rightarrow> identity \<Rightarrow> host_entry list" where
  "host_entries grants caller identity =
    (let checker = SSHChecker (gr_boundaries grants) (gr_roles grants) (i_id identity)
           (i_tag_id_list identity) (i_boundary_id_list identity);
         decisions = list_decisions checker (i_unix_username caller)
     in capability_entries (i_name identity) Entry_Shell SHELL decisions @
        capability_entries (i_name identity) Entry_Port PORT_FORWARDING decisions @
        command_entries (i_name identity) decisions)"

definition list_hosts :: "request_ctx \<Rightarrow> host_entry list handler" where
  "list_hosts cx =
    and_then (identity_read_self cx) (\<lambda>caller. case caller of None \<Rightarrow> raising AssertionError
    | Some caller \<Rightarrow>
    and_then (identity_read_all any_identity) (\<lambda>identities.
    and_then (grants_create cx) (\<lambda>grants.
      ret (concat (map (host_entries grants caller) identities)))))"

definition trusted_rows :: "crypto \<Rightarrow> request_ctx \<Rightarrow> signing_key_type \<Rightarrow> signing_key_row list handler" where
  "trusted_rows cr cx k = signing_key_read_all cr (\<lambda>r.
    sg_valid_before r > cx_now cx \<and> sg_type r = signing_key_type_value k)"

text \<open>The lines of the answer; the second argument is the application's list of extra keys.\<close>

definition read_user_trusted_keys :: "crypto \<Rightarrow> request_ctx \<Rightarrow> string list \<Rightarrow> string list handler" where
  "read_user_trusted_keys cr cx extra = and_then (trusted_rows cr cx signing_key_type.USER)
    (\<lambda>keys. ret (map (\<lambda>k. cr_openssh cr (cr_public cr (sg_key k))) keys @ extra))"

definition read_host_trusted_keys :: "crypto \<Rightarrow> request_ctx \<Rightarrow> string list handler" where
  "read_host_trusted_keys cr cx = and_then (trusted_rows cr cx signing_key_type.HOST)
    (\<lambda>keys. ret (map (\<lambda>k. ''@cert-authority * '' @ cr_openssh cr (cr_public cr (sg_key k))) keys))"

end
