(* ===== verification/Certificate_Safety.thy ===== *)
theory Certificate_Safety
  imports Certificate_Endpoints Policy_Safety
begin

text \<open>
  What the certificates of \<open>Certificate_Endpoints\<close> guarantee: what they permit is what the policy decided,
  for no longer than it decided (but a certificate for forwarding does not exclude commands), the principal names one username on one host, and the tokens
  for a connection carry the deadline of its certificate.
\<close>

section \<open>What a certificate permits\<close>

text \<open>The capabilities that a certificate embeds as extensions.\<close>

definition embedded :: "extensions \<Rightarrow> ssh_capability set" where
  "embedded e =
    (if ex_permit_pty e = Some True then {PTY} else {}) \<union>
    (if ex_permit_user_rc e = Some True then {USER_RC} else {}) \<union>
    (if ex_permit_port_forwarding e = Some True then {PORT_FORWARDING} else {}) \<union>
    (if ex_permit_x11_forwarding e = Some True then {X11_FORWARDING} else {}) \<union>
    (if ex_permit_agent_forwarding e = Some True then {AGENT_FORWARDING} else {})"

text \<open>The time a bound allows is over at \<open>end\<close>, if the bound is one.\<close>

definition ends_within :: "int \<Rightarrow> int option \<Rightarrow> int option \<Rightarrow> bool" where
  "ends_within now ttl end = (case ttl of None \<Rightarrow> True | Some t \<Rightarrow> (\<exists>e. end = Some e \<and> e \<le> now + t))"

lemma deadline_within: "t \<in> set ttls \<Longrightarrow> ends_within now t (deadline now ttls)"
proof (cases t)
  case (Some x)
  assume "t \<in> set ttls"
  then have x: "x \<in> set (List.map_filter (\<lambda>t. t) ttls)" using Some by (force simp: map_filter_def)
  then obtain y ys where "List.map_filter (\<lambda>t. t) ttls = y # ys" by (cases "List.map_filter (\<lambda>t. t) ttls") auto
  then show ?thesis
    using x fold_min_le [of ys y] by (auto simp: deadline_def ends_within_def Some)
qed (simp add: ends_within_def)

text \<open>
  What a certificate lets its holder do on the host. One that forces a command runs that command and
  nothing else; one that does not runs any command, so it opens a shell. Each capability comes on top.
\<close>

datatype right = Any_Command | One_Command string | Use ssh_capability

definition rights :: "critical_options \<Rightarrow> extensions \<Rightarrow> right set" where
  "rights co ex =
    insert (case co_force_command co of None \<Rightarrow> Any_Command | Some line \<Rightarrow> One_Command line) (Use ` embedded ex)"

text \<open>What the policy decided of a right: nothing if it denies it, the bound on its time if it grants it.\<close>

definition granted_capability :: "ssh_decision \<Rightarrow> ssh_capability \<Rightarrow> int option option" where
  "granted_capability d c = (if c \<in> sd_capabilities d then Some (ttl_of d c) else None)"

fun decided :: "ssh_decision \<Rightarrow> right \<Rightarrow> int option option" where
  "decided d Any_Command = granted_capability d SHELL"
| "decided d (One_Command line) = map_option allowed_ttl (command_permits (sd_commands d) line)"
| "decided d (Use c) = granted_capability d c"

definition respected :: "int \<Rightarrow> ssh_decision \<Rightarrow> extensions \<Rightarrow> right \<Rightarrow> bool" where
  "respected now d ex r \<longleftrightarrow> (\<exists>ttl. decided d r = Some ttl \<and> ends_within now ttl (ex_session_deadline ex))"

text \<open>
  What the terms of a certificate respect: every right was decided, for a time that the deadline keeps
  to. The exception is the certificate for port forwarding: it forces no command, and no decision about
  commands or the shell is asked for it.
\<close>

definition terms_respect :: "int \<Rightarrow> ssh_action \<Rightarrow> string option \<Rightarrow> ssh_decision \<Rightarrow> critical_options \<Rightarrow> extensions \<Rightarrow> bool" where
  "terms_respect now action command d co ex \<longleftrightarrow>
    (\<forall>r\<in>rights co ex. respected now d ex r \<or> (action = Action_Port_Forwarding \<and> r = Any_Command)) \<and>
    (case action of
       Action_Shell \<Rightarrow> Any_Command \<in> rights co ex
     | Action_Port_Forwarding \<Rightarrow> rights co ex = {Any_Command, Use PORT_FORWARDING}
     | Action_Command \<Rightarrow> (\<exists>line. command = Some line \<and> rights co ex = {One_Command line}))"

lemma respected_capability:
  assumes "c \<in> sd_capabilities d" and "ex_session_deadline ex = deadline now ttls" and "ttl_of d c \<in> set ttls"
  shows "respected now d ex (Use c)" and "c = SHELL \<Longrightarrow> respected now d ex Any_Command"
  using assms deadline_within [of "ttl_of d c" ttls now] by (auto simp: respected_def granted_capability_def)

lemma shell_terms_respected:
  assumes "certificate_terms now cid Action_Shell command d = Inr (co, ex)"
  shows "co_force_command co = None" and "respected now d ex Any_Command"
    and "c \<in> embedded ex \<Longrightarrow> respected now d ex (Use c)"
proof -
  have co: "co_force_command co = None" "SHELL \<in> sd_capabilities d"
    and ex: "embedded ex \<subseteq> sd_capabilities d"
    and limit: "ex_session_deadline ex = deadline now (map (ttl_of d) (shell_capabilities d))"
    using assms by (auto simp: certificate_terms_def shell_terms_def embedded_def Extensions_def
        CriticalOptions_def split: if_splits)
  show "co_force_command co = None" by (rule co(1))
  show "respected now d ex Any_Command"
    using respected_capability(2) [OF co(2) limit] by (simp add: shell_capabilities_def)
  show "respected now d ex (Use c)" if c: "c \<in> embedded ex"
  proof (rule respected_capability(1) [OF _ limit])
    show in_d: "c \<in> sd_capabilities d" using c ex by blast
    show "ttl_of d c \<in> set (map (ttl_of d) (shell_capabilities d))"
      using c in_d by (auto simp: shell_capabilities_def embedded_def split: if_splits)
  qed
qed

lemma shell_terms_bounded:
  assumes "certificate_terms now cid action command d = Inr (co, ex)" and "action = Action_Shell"
  shows "ends_within now (the (sd_capability_ttl d SHELL)) (ex_session_deadline ex)"
  using shell_terms_respected(2) [OF assms(1) [unfolded assms(2)]]
  by (auto simp: respected_def granted_capability_def ttl_of_def split: if_splits)

lemma terms_respected:
  assumes "certificate_terms now cid action command d = Inr (co, ex)"
  shows "terms_respect now action command d co ex"
proof (cases action)
  case Action_Shell
  then show ?thesis
    using shell_terms_respected [OF assms [unfolded Action_Shell]] by (auto simp: terms_respect_def rights_def)
next
  case Action_Port_Forwarding
  then show ?thesis
    using assms respected_capability(1) [of PORT_FORWARDING d ex now "[ttl_of d PORT_FORWARDING]"]
    by (auto simp: certificate_terms_def port_forwarding_terms_def terms_respect_def only_forwarding_def rights_def
        embedded_def Extensions_def CriticalOptions_def split: if_splits)
next
  case Action_Command
  then show ?thesis
    using assms deadline_within [of "allowed_ttl a" "[allowed_ttl a]" now for a]
    by (auto simp: certificate_terms_def command_terms_def terms_respect_def only_forwarding_def rights_def
        respected_def embedded_def Extensions_def CriticalOptions_def split: option.splits)
qed

lemma terms_no_addresses:
  "certificate_terms now cid action command d = Inr (co, ex) \<Longrightarrow> co_source_address co = None"
  by (auto simp: certificate_terms_def shell_terms_def port_forwarding_terms_def command_terms_def
      CriticalOptions_def split: ssh_action.splits if_splits option.splits)

lemma created_without_addresses:
  assumes "co_source_address co = None"
  shows "cert_critical_options (create_user k n i ps va vb co ex sg) =
      co\<lparr>co_verify_required := flag_of (co_verify_required co)\<rparr>"
    and "cert_extensions (create_user k n i ps va vb co ex sg) = ex
      \<lparr>ex_no_touch_required := flag_of (ex_no_touch_required ex),
       ex_permit_agent_forwarding := flag_of (ex_permit_agent_forwarding ex),
       ex_permit_port_forwarding := flag_of (ex_permit_port_forwarding ex),
       ex_permit_pty := flag_of (ex_permit_pty ex),
       ex_permit_user_rc := flag_of (ex_permit_user_rc ex),
       ex_permit_x11_forwarding := flag_of (ex_permit_x11_forwarding ex)\<rparr>"
  using created_cert_reads [of co k n i ps va vb ex sg] assms by simp_all

lemma embedded_flags: "embedded (e\<lparr>ex_no_touch_required := flag_of (ex_no_touch_required e),
    ex_permit_agent_forwarding := flag_of (ex_permit_agent_forwarding e),
    ex_permit_port_forwarding := flag_of (ex_permit_port_forwarding e),
    ex_permit_pty := flag_of (ex_permit_pty e), ex_permit_user_rc := flag_of (ex_permit_user_rc e),
    ex_permit_x11_forwarding := flag_of (ex_permit_x11_forwarding e)\<rparr>) = embedded e"
  by (simp add: embedded_def flag_of_def)

lemma terms_respect_same:
  assumes "terms_respect now action command d co ex" and "co_force_command co' = co_force_command co"
    and "embedded ex' = embedded ex" and "ex_session_deadline ex' = ex_session_deadline ex"
  shows "terms_respect now action command d co' ex'"
proof -
  have "rights co' ex' = rights co ex" "respected now d ex' = respected now d ex"
    using assms(2-4) by (simp_all add: rights_def respected_def fun_eq_iff)
  then show ?thesis using assms(1) by (cases action) (simp_all add: terms_respect_def)
qed

section \<open>The steps of signing\<close>

definition decision_for :: "grants \<Rightarrow> identity \<Rightarrow> identity \<Rightarrow> string \<Rightarrow> ssh_decision" where
  "decision_for gr caller host username = ssh_decide (SSHChecker (gr_boundaries gr) (gr_roles gr) (i_id host)
    (i_tag_id_list host) (i_boundary_id_list host)) username (i_unix_username caller)"

definition by_name :: "string \<Rightarrow> identity_query" where
  "by_name n = any_identity\<lparr>iq_name := Some n\<rparr>"

definition certified ::
    "crypto \<Rightarrow> request_ctx \<Rightarrow> user_certificate_request \<Rightarrow> world \<Rightarrow> jwk cert \<Rightarrow> bool" where
  "certified cr cx data w cert \<longleftrightarrow> (\<exists>caller host gr key n terms sg.
     identity_read_self cx w = (Inr (Some caller), w) \<and>
     identity_read_one (by_name (ucr_hostname data)) w = (Inr (Some host), w) \<and>
     grants_create cx w = (Inr gr, w) \<and>
     certificate_terms (cx_now cx) (cx_uuid cx) (ucr_action data) (ucr_command data)
       (decision_for gr caller host (ucr_username data)) = Inr terms \<and>
     cert = user_certificate cx caller host data key n terms sg)"

lemma signing_key_reads: "keeps P (signing_key_read_all cr p)"
  unfolding signing_key_read_all_def by (intro keeps_rules)

lemma read_current_keeps: "keeps P (read_current cr cx k n)"
  unfolding read_current_def by (rule signing_key_reads)

lemma first_signer_keeps: "keeps P (first_signer l)"
  by (cases l) (auto simp: first_signer_def)

lemma bastion_read_matching_keeps: "keeps P (bastion_read_matching cx)"
  unfolding bastion_read_matching_def by (intro keeps_rules keeps_option identity_read_self_keeps)

lemmas read_steps = and_then_read [OF identity_read_self_keeps] and_then_read [OF identity_read_one_keeps]
  and_then_read [OF grants_create_keeps] and_then_read [OF show_all_keeps] and_then_read [OF read_current_keeps]
  and_then_read [OF first_signer_keeps] and_then_read [OF bastion_read_matching_keeps]

lemmas other_steps = and_then_read [OF keeps_lifting] and_then_read [OF keeps_reads(1)] seq_Inr ret_Inr
  raising_Inr lifting_Inr reads_run reject_def

lemma sign_user_steps:
  assumes "sign_user_certificate cr cx data w = (Inr r, w')"
  obtains cert w1 w2 w3 sid host where "certified cr cx data w cert" and
    "record_connection cx (ucr_hostname data) (ex_session_deadline (cert_extensions cert)) w1 = (Inr (), w2)" and
    "audit_user_certificate cx sid host data cert w2 = (Inr (), w3)" and "w' = w3" and
    "ucs_certificates r = [cert]" and "ucs_connection_id r = cx_uuid cx" 
proof -
  from assms obtain caller host gr key n co ex w1 w2 w3 sid sk where steps:
    "identity_read_self cx w = (Inr (Some caller), w)"
    "identity_read_one (by_name (ucr_hostname data)) w = (Inr (Some host), w)"
    "grants_create cx w = (Inr gr, w)"
    "certificate_terms (cx_now cx) (cx_uuid cx) (ucr_action data) (ucr_command data)
       (decision_for gr caller host (ucr_username data)) = Inr (co, ex)"
    "record_connection cx (ucr_hostname data) (ex_session_deadline ex) w1 = (Inr (), w2)"
    "audit_user_certificate cx (sid) host data
      (user_certificate cx caller host data key n (co, ex) (sk)) w2 = (Inr (), w3)" "w' = w3"
    "ucs_certificates r = [user_certificate cx caller host data key n (co, ex) (sk)]"
    "ucs_connection_id r = cx_uuid cx"
    unfolding sign_user_certificate_def Let_def by_name_def [symmetric] decision_for_def [symmetric]
    by (auto simp: read_steps and_then_Inr [of "allocate_serial_numbers cx i m" for i m] other_steps split: option.splits)
  moreover have "ex_session_deadline (cert_extensions (user_certificate cx caller host data key n (co, ex) (sk))) =
      ex_session_deadline ex"
    by (simp add: user_certificate_def created_without_addresses [OF terms_no_addresses [OF steps(4)]])
  ultimately show ?thesis
    by (intro that) (auto simp: certified_def)
qed

section \<open>The recorded connection\<close>

lemma find_last: "\<forall>x\<in>set xs. \<not> p x \<Longrightarrow> p y \<Longrightarrow> List.find p (xs @ [y]) = Some y"
  by (induction xs) auto

lemma record_connection_row:
  assumes "record_connection cx h dl w = (Inr (), w')" and "cx_identity_id cx = Some me"
  shows "table_read_one ssh_connection_table (\<lambda>r. sn_connection_id r = cx_uuid cx) (w_db w') =
    Some \<lparr>sn_connection_id = cx_uuid cx, sn_identity_id = me, sn_hostname = h, sn_deadline = dl,
      sn_valid_before = cx_now cx + cf_user_certificate_lifetime (cx_config cx)\<rparr>"
  using assms
  by (auto simp: record_connection_def act_Inr deletes_def creates_def on_db_Inr table_delete_def table_create_def
      ssh_connection_table_def table_read_one_def insert_row_def Let_def violated_None
      intro!: find_last split: option.splits)

lemma connection_recorded:
  assumes "record_connection cx h dl w1 = (Inr (), w2)" and "audit_user_certificate cx sid host data cert w2 = (Inr (), w3)"
    and "cx_identity_id cx = Some me"
  shows "table_read_one ssh_connection_table (\<lambda>r. sn_connection_id r = cx_uuid cx) (w_db w3) =
    Some \<lparr>sn_connection_id = cx_uuid cx, sn_identity_id = me, sn_hostname = h, sn_deadline = dl,
      sn_valid_before = cx_now cx + cf_user_certificate_lifetime (cx_config cx)\<rparr>"
proof -
  have "w_db w3 = w_db w2"
    using keeps_db_audit [of "\<lambda>d. d = w_db w2" cx, THEN keepsD] assms(2) unfolding audit_user_certificate_def by blast
  then show ?thesis using record_connection_row [OF assms(1,3)] by simp
qed

text \<open>
  C7. A user certificate grants what the policy decided, for no longer than it decided, and the
  connection is recorded with that limit. When signing succeeds, the answer holds one certificate, made
  for the decision of the caller's grants about the host and username asked for. Everything that it
  lets its holder do (run any command, run the one command it forces, use a capability) the decision
  grants, for a time that the session deadline keeps to; a command certificate forces exactly the command
  asked for and has no capability. One right is beyond the decision, and the statement says so: a
  certificate for port forwarding has no capability but forwarding, but it forces no command, so nothing
  in it keeps its holder from running commands for which no decision was asked. The
  certificate is made out to the single principal of that username on that host and expires after the
  configured time, and the record of its connection, from which the token for the bastion is made, holds the
  caller, the host and the deadline and expiry of the certificate itself.
\<close>

theorem user_certificate_bounded:
  assumes "sign_user_certificate cr cx data w = (Inr r, w')"
  shows "\<exists>me caller host gr cert.
    cx_identity_id cx = Some me \<and>
    identity_read_self cx w = (Inr (Some caller), w) \<and>
    identity_read_one (by_name (ucr_hostname data)) w = (Inr (Some host), w) \<and>
    grants_create cx w = (Inr gr, w) \<and>
    ucs_certificates r = [cert] \<and>
    terms_respect (cx_now cx) (ucr_action data) (ucr_command data)
      (decision_for gr caller host (ucr_username data)) (cert_critical_options cert) (cert_extensions cert) \<and>
    ce_valid_principals cert = [user_principal (ucr_username data) (i_id host)] \<and>
    ce_valid_before cert = cx_now cx + cf_user_certificate_lifetime (cx_config cx) \<and>
    ex_connection_id (cert_extensions cert) = Some (ucs_connection_id r) \<and>
    table_read_one ssh_connection_table (\<lambda>row. sn_connection_id row = ucs_connection_id r) (w_db w') =
      Some \<lparr>sn_connection_id = ucs_connection_id r, sn_identity_id = me, sn_hostname = ucr_hostname data,
        sn_deadline = ex_session_deadline (cert_extensions cert), sn_valid_before = ce_valid_before cert\<rparr>"
proof -
  obtain cert w1 w2 sid host' where cert: "certified cr cx data w cert" "ucs_certificates r = [cert]"
      "ucs_connection_id r = cx_uuid cx"
      "record_connection cx (ucr_hostname data) (ex_session_deadline (cert_extensions cert)) w1 = (Inr (), w2)"
      "audit_user_certificate cx sid host' data cert w2 = (Inr (), w')"
    using sign_user_steps [OF assms] by metis
  then obtain caller host gr key n co ex sg where c: "identity_read_self cx w = (Inr (Some caller), w)"
      "identity_read_one (by_name (ucr_hostname data)) w = (Inr (Some host), w)"
      "grants_create cx w = (Inr gr, w)"
      "certificate_terms (cx_now cx) (cx_uuid cx) (ucr_action data) (ucr_command data)
        (decision_for gr caller host (ucr_username data)) = Inr (co, ex)"
      "cert = user_certificate cx caller host data key n (co, ex) sg"
    by (auto simp: certified_def)
  obtain me where me: "cx_identity_id cx = Some me"
    using c(1) by (cases "cx_identity_id cx") (auto simp: identity_read_self_def raising_def)
  note made = c(5) user_certificate_def created_without_addresses [OF terms_no_addresses [OF c(4)]]
  have "ex_connection_id ex = Some (cx_uuid cx)"
    using c(4) by (auto simp: certificate_terms_def shell_terms_def port_forwarding_terms_def command_terms_def
        only_forwarding_def split: ssh_action.splits if_splits option.splits)
  then have "ex_connection_id (cert_extensions cert) = Some (ucs_connection_id r)"
    using cert(3) by (simp add: made)
  moreover have "terms_respect (cx_now cx) (ucr_action data) (ucr_command data)
      (decision_for gr caller host (ucr_username data)) (cert_critical_options cert) (cert_extensions cert)"
    by (rule terms_respect_same [OF terms_respected [OF c(4)]]) (simp_all add: made embedded_flags)
  moreover have valid: "ce_valid_principals cert = [user_principal (ucr_username data) (i_id host)]"
      "ce_valid_before cert = cx_now cx + cf_user_certificate_lifetime (cx_config cx)"
    by (simp_all add: c(5) user_certificate_def create_user_def)
  moreover note connection_recorded [OF cert(4,5) me, folded cert(3) valid(2)]
  ultimately show ?thesis using c(1-3) me cert(2) by blast
qed

section \<open>Tokens for the connection\<close>

text \<open>
  The token for the connection of a certificate, asked for by the same identity and host before the
  certificate expires, carries the deadline that the certificate reports and its connection id, however
  late it is asked for, so reconnecting does not extend the session. Anyone else, and the same identity
  for another host or after the certificate expired, is refused.
\<close>

lemma token_mirrors_certificate:
  assumes "sign_user_certificate cr cx data w = (Inr r, w')" and "cx_identity_id cx = Some me"
    and "db_ssh_connection (w_db v) = db_ssh_connection (w_db w')"
  shows "\<exists>cert. ucs_certificates r = [cert] \<and>
    read_self_token_endpoint jwt cx' ''bastion'' hostname Connect (Some (ucs_connection_id r)) v =
      (if cx_identity_id cx' = Some me \<and> hostname = ucr_hostname data \<and> cx_now cx' \<le> ce_valid_before cert
       then jwt hostname Connect (ex_session_deadline (cert_extensions cert)) (Some (ucs_connection_id r)) v
       else (Inl forbidden, v))"
proof -
  obtain cert w1 w2 sid host where cert: "certified cr cx data w cert" "ucs_certificates r = [cert]"
      "ucs_connection_id r = cx_uuid cx"
      "record_connection cx (ucr_hostname data) (ex_session_deadline (cert_extensions cert)) w1 = (Inr (), w2)"
      "audit_user_certificate cx sid host data cert w2 = (Inr (), w')"
    using sign_user_steps [OF assms(1)] by metis
  have before: "ce_valid_before cert = cx_now cx + cf_user_certificate_lifetime (cx_config cx)"
    using cert(1) by (auto simp: certified_def user_certificate_def create_user_def)
  have "table_read_one ssh_connection_table (\<lambda>r. sn_connection_id r = cx_uuid cx) (w_db v) =
      Some \<lparr>sn_connection_id = cx_uuid cx, sn_identity_id = me, sn_hostname = ucr_hostname data,
        sn_deadline = ex_session_deadline (cert_extensions cert), sn_valid_before = ce_valid_before cert\<rparr>"
    using connection_recorded [OF cert(4,5) assms(2)] before assms(3)
    by (simp add: table_read_one_def ssh_connection_table_def)
  then show ?thesis
    using cert(2,3) by (auto simp: read_self_token_endpoint_def and_then_def reads_one_def reads_run reject_def
        raising_def forbidden_def)
qed

section \<open>Principals\<close>

lemma show_int_no_at: "CHR ''@'' \<notin> set (show_int i)"
  using show_int_chars by blast

lemma last_at: "a @ CHR ''@'' # x = b @ CHR ''@'' # y \<Longrightarrow> CHR ''@'' \<notin> set x \<Longrightarrow> CHR ''@'' \<notin> set y \<Longrightarrow> a = b \<and> x = y"
  by (auto simp: append_eq_append_conv2 Cons_eq_append_conv append_eq_Cons_conv)

text \<open>
  A principal names one username on one host: two usernames, whatever characters they have, and two
  hosts never share one. A certificate for \<open>root@5\<close> opens no other account, also when a username has an
  at sign in it.
\<close>

lemma user_principal_injective:
  "user_principal u i = user_principal v j \<longleftrightarrow> u = v \<and> i = j"
  using last_at [of u "show_int i" v "show_int j"] show_int_no_at
  by (auto simp: user_principal_def show_int_inj)

section \<open>Forwarding without a shell\<close>

text \<open>
  A certificate for port forwarding is a shell certificate without a terminal. The terms signed for
  a caller who may only forward ports are those signed for a caller who may open a shell and forward
  ports: nothing in the certificate (no forced command) tells the host that commands are not allowed.
\<close>

lemma forwarding_certificate_is_shell_certificate:
  "certificate_terms now cid Action_Port_Forwarding command
      \<lparr>sd_commands = cs, sd_capability_ttl = [PORT_FORWARDING \<mapsto> t]\<rparr> =
    certificate_terms now cid Action_Shell command
      \<lparr>sd_commands = cs, sd_capability_ttl = [SHELL \<mapsto> t, PORT_FORWARDING \<mapsto> t]\<rparr>"
proof -
  have "deadline now [t, t] = deadline now [t]" by (cases t) (simp_all add: deadline_def map_filter_simps)
  then show ?thesis
    by (simp add: certificate_terms_def port_forwarding_terms_def shell_terms_def sd_capabilities_def ttl_of_def
        shell_capabilities_def only_forwarding_def Extensions_def)
qed

section \<open>A certificate on a sample database\<close>

definition plain_crypto :: crypto where
  "plain_crypto = \<lparr>cr_encrypt = id, cr_decrypt = id, cr_thumbprint = id, cr_read_public = Inr,
    cr_public = id, cr_openssh = id\<rparr>"

definition ssh_world :: world where
  "ssh_world = site_world\<lparr>w_db := site_db\<lparr>
    db_identity := \<lparr>tb_rows = [\<lparr>id_id = 1, id_created_by_id = None, id_created_at = 0, id_name = ''ann'',
      id_unix_username = Some ''ann''\<rparr>, \<lparr>id_id = 2, id_created_by_id = None, id_created_at = 0,
      id_name = ''db1'', id_unix_username = None\<rparr>], tb_seq = 2\<rparr>,
    db_identity_boundary := \<lparr>tb_rows = [\<lparr>ib_id = 1, ib_identity_id = 1, ib_boundary_id = 1\<rparr>,
      \<lparr>ib_id = 2, ib_identity_id = 2, ib_boundary_id = 1\<rparr>], tb_seq = 2\<rparr>,
    db_role := \<lparr>tb_rows = [\<lparr>ro_id = 1, ro_name = ''ops'', ro_description = '''',
      ro_grant_list = [sample_ssh (Some [''root'']) (Some [SHELL, PTY]) (Some 60)]\<rparr>], tb_seq = 1\<rparr>,
    db_signing_key := \<lparr>tb_rows = [\<lparr>sg_id = 1, sg_type = 2, sg_key = ''ca'', sg_serial_number = 7,
      sg_valid_after = 0, sg_valid_before = 5000\<rparr>], tb_seq = 1\<rparr>\<rparr>\<rparr>"

definition shell_request :: user_certificate_request where
  "shell_request = \<lparr>ucr_hostname = ''db1'', ucr_username = ''root'', ucr_public_key = ''k'',
    ucr_action = Action_Shell, ucr_command = None\<rparr>"

lemma sample_signed:
  "\<exists>r w'. sign_user_certificate plain_crypto ann_admin shell_request ssh_world = (Inr r, w') \<and>
    ucs_connection_id r = ''u1'' \<and> map ce_serial (ucs_certificates r) = [7] \<and>
    map (\<lambda>c. ex_session_deadline (cert_extensions c)) (ucs_certificates r) = [Some 1060]"
proof -
  have "case fst (sign_user_certificate plain_crypto ann_admin shell_request ssh_world) of Inl _ \<Rightarrow> False
    | Inr r \<Rightarrow> ucs_connection_id r = ''u1'' \<and> map ce_serial (ucs_certificates r) = [7] \<and>
      map (\<lambda>c. ex_session_deadline (cert_extensions c)) (ucs_certificates r) = [Some 1060]"
    by code_simp
  moreover obtain res w' where "sign_user_certificate plain_crypto ann_admin shell_request ssh_world = (res, w')"
    by (rule prod.exhaust)
  ultimately show ?thesis by (cases res) simp_all
qed

theorem user_certificate_bounded_witness:
  "\<exists>r w' caller host gr cert.
    sign_user_certificate plain_crypto ann_admin shell_request ssh_world = (Inr r, w') \<and>
    ucs_certificates r = [cert] \<and> ex_session_deadline (cert_extensions cert) = Some 1060 \<and>
    terms_respect 1000 Action_Shell None (decision_for gr caller host ''root'')
      (cert_critical_options cert) (cert_extensions cert) \<and>
    map_option sn_deadline (table_read_one ssh_connection_table (\<lambda>row. sn_connection_id row = ''u1'') (w_db w')) =
      Some (Some 1060)"
proof -
  obtain r w' where s: "sign_user_certificate plain_crypto ann_admin shell_request ssh_world = (Inr r, w')"
      "ucs_connection_id r = ''u1''"
      "map (\<lambda>c. ex_session_deadline (cert_extensions c)) (ucs_certificates r) = [Some 1060]"
    using sample_signed by auto
  then show ?thesis
    using user_certificate_bounded [OF s(1)] by (fastforce simp: shell_request_def ann_admin_def ann_def sample_cx_def)
qed

end
