(* ===== verification/Ssh_Buffer.thy ===== *)
theory Ssh_Buffer
  imports Prelude "HOL-Library.Word"
begin

text \<open>
  \<open>ssh/buffer.py\<close>: reading and writing the values of RFC 4251. Bytes are 8-bit words. A reader is a
  buffer with a position, a writer the bytes written so far; both are states of the actions of
  \<open>Prelude\<close>. Python raises \<open>OverflowError\<close> when a number does not fit the bytes asked for.
\<close>

type_synonym byte = "8 word"

datatype ssh_error = SshError | OverflowError

unbundle bit_operations_syntax

section \<open>Numbers as bytes, most significant first\<close>

fun be_value :: "byte list \<Rightarrow> nat" where
  "be_value [] = 0"
| "be_value (b # bs) = unat b * 256 ^ length bs + be_value bs"

fun be_bytes :: "nat \<Rightarrow> nat \<Rightarrow> byte list" where
  "be_bytes 0 n = []"
| "be_bytes (Suc k) n = be_bytes k (n div 256) @ [of_nat n]"

definition high_bit :: "byte \<Rightarrow> bool" where
  "high_bit b \<longleftrightarrow> b AND 0x80 \<noteq> 0"

definition int_from_bytes :: "bool \<Rightarrow> byte list \<Rightarrow> int" where
  "int_from_bytes is_signed bs = (if is_signed \<and> bs \<noteq> [] \<and> high_bit (hd bs)
     then int (be_value bs) - 256 ^ length bs else int (be_value bs))"

definition int_to_bytes :: "bool \<Rightarrow> int \<Rightarrow> nat \<Rightarrow> ssh_error + byte list" where
  "int_to_bytes is_signed v n =
    (if is_signed then
       if - (256 ^ n) \<le> 2 * v \<and> 2 * v < 256 ^ n then Inr (be_bytes n (nat (v mod 256 ^ n))) else Inl OverflowError
     else if 0 \<le> v \<and> v < 256 ^ n then Inr (be_bytes n (nat v)) else Inl OverflowError)"

text \<open>\<open>int.bit_length\<close>.\<close>

fun nat_bits :: "nat \<Rightarrow> nat" where
  "nat_bits n = (if n = 0 then 0 else Suc (nat_bits (n div 2)))"

declare nat_bits.simps [simp del]

definition bit_length :: "int \<Rightarrow> nat" where
  "bit_length n = nat_bits (nat \<bar>n\<bar>)"

section \<open>The reader\<close>

record reader =
  rd_buffer :: "byte list"
  rd_current :: nat

type_synonym 'a reads = "(reader, ssh_error, 'a) act"

definition Reader :: "byte list \<Rightarrow> reader" where
  "Reader buffer = \<lparr>rd_buffer = buffer, rd_current = 0\<rparr>"

definition has_left :: "reader \<Rightarrow> bool" where
  "has_left r \<longleftrightarrow> rd_current r < length (rd_buffer r)"

definition read_bytes :: "nat \<Rightarrow> byte list reads" where
  "read_bytes n = (\<lambda>r.
    if rd_current r + n > length (rd_buffer r) then (Inl SshError, r)
    else (Inr (take n (drop (rd_current r) (rd_buffer r))), r\<lparr>rd_current := rd_current r + n\<rparr>))"

definition read_uint32 :: "int reads" where
  "read_uint32 = and_then (read_bytes 4) (\<lambda>buffer. ret (int_from_bytes False buffer))"

definition read_uint64 :: "int reads" where
  "read_uint64 = and_then (read_bytes 8) (\<lambda>buffer. ret (int_from_bytes False buffer))"

definition read_string :: "byte list reads" where
  "read_string = and_then read_uint32 (\<lambda>length. read_bytes (nat length))"

definition read_mpint :: "int reads" where
  "read_mpint = and_then read_string (\<lambda>buffer.
    if length buffer = 0 then ret 0 else ret (int_from_bytes True buffer))"

section \<open>The writer\<close>

type_synonym writes = "(byte list, ssh_error, unit) act"

definition write_bytes :: "byte list \<Rightarrow> writes" where
  "write_bytes buffer = changing (\<lambda>w. w @ buffer)"

definition write_int :: "bool \<Rightarrow> int \<Rightarrow> nat \<Rightarrow> writes" where
  "write_int is_signed v n = and_then (lifting (int_to_bytes is_signed v n)) write_bytes"

definition write_byte :: "int \<Rightarrow> writes" where
  "write_byte b = write_int False b 1"

definition write_uint32 :: "int \<Rightarrow> writes" where
  "write_uint32 v = write_int False v 4"

definition write_uint64 :: "int \<Rightarrow> writes" where
  "write_uint64 v = write_int False v 8"

definition write_string :: "byte list \<Rightarrow> writes" where
  "write_string buffer = seq (write_uint32 (int (length buffer))) (write_bytes buffer)"

definition write_nested_string :: "byte list \<Rightarrow> writes" where
  "write_nested_string buffer = (case write_string buffer [] of
     (Inl e, _) \<Rightarrow> raising e | (Inr _, written) \<Rightarrow> write_string written)"

definition write_mpint :: "int \<Rightarrow> writes" where
  "write_mpint n =
    (if n < 0 then
       let nbytes = (bit_length n + 7 + 1) div 8
       in and_then (lifting (int_to_bytes True n nbytes)) write_string
     else if n > 0 then
       let nbytes = (bit_length n + 7) div 8
       in and_then (lifting (int_to_bytes False n nbytes))
         (\<lambda>buffer. write_string (if high_bit (hd buffer) then 0 # buffer else buffer))
     else write_string [])"

section \<open>Bytes and numbers\<close>

lemma be_bytes_numeral: "be_bytes (numeral k) n = be_bytes (pred_numeral k) (n div 256) @ [of_nat n]"
  by (metis be_bytes.simps(2) numeral_eq_Suc)

lemma length_be_bytes [simp]: "length (be_bytes k n) = k"
  by (induction k arbitrary: n) auto

lemma be_value_append: "be_value (a @ b) = be_value a * 256 ^ length b + be_value b"
  by (induction a) (simp_all add: algebra_simps power_add)

lemma unat_byte: "unat (of_nat n :: byte) = n mod 256"
  by (simp add: unat_of_nat)

lemma be_value_bytes: "n < 256 ^ k \<Longrightarrow> be_value (be_bytes k n) = n"
proof (induction k arbitrary: n)
  case (Suc k)
  then have "n div 256 < 256 ^ k" by (simp add: less_mult_imp_div_less)
  then show ?case using Suc.IH by (simp add: be_value_append unat_byte)
qed simp

lemma be_value_less: "be_value bs < 256 ^ length bs"
proof (induction bs)
  case (Cons b bs)
  have "unat b < 256" using unsigned_less [of b, where 'a = nat] by simp
  then have "unat b * 256 ^ length bs + 256 ^ length bs \<le> 256 ^ length (b # bs)"
    by (metis add.commute mult_Suc mult_le_mono1 Suc_leI power_Suc length_Cons)
  then show ?case using Cons.IH unfolding be_value.simps by linarith
qed simp

lemma high_bit_iff: "high_bit b \<longleftrightarrow> 128 \<le> unat b"
proof -
  have "unat (b AND 0x80) = unat b AND 128" by (simp add: unsigned_and_eq)
  then have "high_bit b \<longleftrightarrow> odd (unat b div 128)"
    using and_exp_eq_0_iff_not_bit [of "unat b" 7] by (simp add: high_bit_def bit_iff_odd flip: unat_eq_0)
  moreover have "unat b div 128 = 0 \<or> unat b div 128 = 1" using unsigned_less [of b, where 'a = nat] by auto
  ultimately show ?thesis by auto
qed

lemma high_bit_value: "high_bit b \<longleftrightarrow> 128 * 256 ^ length bs \<le> be_value (b # bs)"
proof
  assume "high_bit b"
  then show "128 * 256 ^ length bs \<le> be_value (b # bs)" by (simp add: high_bit_iff trans_le_add1)
next
  assume le: "128 * 256 ^ length bs \<le> be_value (b # bs)"
  show "high_bit b"
  proof (rule ccontr)
    assume "\<not> high_bit b"
    then have "(unat b + 1) * 256 ^ length bs \<le> 128 * 256 ^ length bs" by (intro mult_le_mono1) (simp add: high_bit_iff)
    then have "unat b * 256 ^ length bs + 256 ^ length bs \<le> 128 * 256 ^ length bs"
      by (simp only: add_mult_distrib mult_1)
    then show False using le be_value_less [of bs] by (simp only: be_value.simps)
  qed
qed

lemma nat_bits_less: "n < 2 ^ nat_bits n"
  by (induction n rule: nat_bits.induct) (subst nat_bits.simps, auto)

lemma nat_bits_le: "n \<noteq> 0 \<Longrightarrow> 2 ^ nat_bits n \<le> 2 * n"
proof (induction n rule: nat_bits.induct)
  case (1 n)
  show ?case
  proof (cases "n div 2 = 0")
    case True
    then have "n = 1" using 1 by auto
    then show ?thesis by (simp add: nat_bits.simps)
  next
    case False
    then have "2 ^ nat_bits (n div 2) \<le> 2 * (n div 2)" using 1 by blast
    then show ?thesis using 1 by (subst nat_bits.simps) auto
  qed
qed

lemma be_value_Cons_0: "be_value (0 # bs) = be_value bs"
  by simp

lemma hd_bytes: "bs \<noteq> [] \<Longrightarrow> high_bit (hd bs) \<longleftrightarrow> 256 ^ length bs \<le> 2 * be_value bs"
  using high_bit_value [of "hd bs" "tl bs"] by (cases bs) auto

lemma int_to_bytes_unsigned: "0 \<le> v \<Longrightarrow> v < 256 ^ n \<Longrightarrow> int_to_bytes False v n = Inr (be_bytes n (nat v))"
  by (simp add: int_to_bytes_def)

lemma int_from_unsigned: "0 \<le> v \<Longrightarrow> v < 256 ^ n \<Longrightarrow> int_from_bytes False (be_bytes n (nat v)) = v"
  by (simp add: int_from_bytes_def be_value_bytes nat_less_iff)

text \<open>The number of bytes that \<open>write_mpint\<close> computes is enough.\<close>

lemma bit_length_bounds: "\<bar>n\<bar> < 2 ^ bit_length n" "n \<noteq> 0 \<Longrightarrow> 2 ^ bit_length n \<le> 2 * \<bar>n\<bar>"
proof -
  have "nat \<bar>n\<bar> < 2 ^ nat_bits (nat \<bar>n\<bar>)" by (rule nat_bits_less)
  then show "\<bar>n\<bar> < 2 ^ bit_length n" by (simp add: bit_length_def nat_less_iff)
  assume "n \<noteq> 0"
  then have "2 ^ nat_bits (nat \<bar>n\<bar>) \<le> 2 * nat \<bar>n\<bar>" by (intro nat_bits_le) simp
  then have "int (2 ^ nat_bits (nat \<bar>n\<bar>)) \<le> int (2 * nat \<bar>n\<bar>)" by (simp only: of_nat_le_iff)
  then show "2 ^ bit_length n \<le> 2 * \<bar>n\<bar>" by (simp add: bit_length_def)
qed

lemma power_256: "(256 :: int) ^ k = 2 ^ (8 * k)"
  by (simp add: power_mult)

lemma positive_fits: "n < 256 ^ ((bit_length n + 7) div 8)"
proof -
  have "(2 :: int) ^ bit_length n \<le> 2 ^ (8 * ((bit_length n + 7) div 8))" by (rule power_increasing) auto
  then show ?thesis using bit_length_bounds(1) [of n] unfolding power_256 by linarith
qed

lemma negative_fits: "2 * \<bar>n\<bar> < 256 ^ ((bit_length n + 8) div 8)"
proof -
  have "(2 :: int) ^ (bit_length n + 1) \<le> 2 ^ (8 * ((bit_length n + 8) div 8))" by (rule power_increasing) auto
  then show ?thesis using bit_length_bounds(1) [of n] unfolding power_256 by (simp only: power_add power_one_right)
qed

section \<open>What is written reads back\<close>

definition reads_back :: "'a reads \<Rightarrow> byte list \<Rightarrow> 'a \<Rightarrow> bool" where
  "reads_back m e x \<longleftrightarrow> (\<forall>pre post.
    m \<lparr>rd_buffer = pre @ e @ post, rd_current = length pre\<rparr> =
      (Inr x, \<lparr>rd_buffer = pre @ e @ post, rd_current = length pre + length e\<rparr>))"

lemma reads_backD:
  "reads_back m e x \<Longrightarrow> m \<lparr>rd_buffer = pre @ e @ post, rd_current = length pre\<rparr> =
      (Inr x, \<lparr>rd_buffer = pre @ e @ post, rd_current = length pre + length e\<rparr>)"
  unfolding reads_back_def by blast

lemma reads_back_ret: "reads_back (ret x) [] x"
  by (simp add: reads_back_def ret_def)

lemma reads_back_and_then:
  assumes "reads_back m e x" and "reads_back (f x) e' y"
  shows "reads_back (and_then m f) (e @ e') y"
  unfolding reads_back_def
proof (intro allI)
  fix pre post
  show "and_then m f \<lparr>rd_buffer = pre @ (e @ e') @ post, rd_current = length pre\<rparr> =
      (Inr y, \<lparr>rd_buffer = pre @ (e @ e') @ post, rd_current = length pre + length (e @ e')\<rparr>)"
    using reads_backD [OF assms(1), of pre "e' @ post"] reads_backD [OF assms(2), of "pre @ e" post]
    by (simp add: and_then_def add.assoc)
qed

lemma reads_back_bytes: "reads_back (read_bytes (length e)) e e"
  by (simp add: reads_back_def read_bytes_def)

lemma reads_back_uint:
  assumes "0 \<le> v" and "v < 256 ^ k"
  shows "reads_back (and_then (read_bytes k) (\<lambda>b. ret (int_from_bytes False b))) (be_bytes k (nat v)) v"
  using reads_back_and_then [OF reads_back_bytes [of "be_bytes k (nat v)"],
      of "\<lambda>b. ret (int_from_bytes False b)" "[]" v] reads_back_ret [of v] int_from_unsigned [OF assms] by simp

definition string_bytes :: "byte list \<Rightarrow> byte list" where
  "string_bytes b = be_bytes 4 (length b) @ b"

lemma write_string_run:
  "length b < 2 ^ 32 \<Longrightarrow> write_string b w = (Inr (), w @ string_bytes b)"
  by (simp add: write_string_def write_uint32_def write_int_def write_bytes_def string_bytes_def act_defs
      int_to_bytes_unsigned)

lemma reads_back_string:
  assumes "length b < 2 ^ 32"
  shows "reads_back read_string (string_bytes b) b"
proof -
  have "reads_back read_uint32 (be_bytes 4 (length b)) (int (length b))"
    unfolding read_uint32_def using reads_back_uint [of "int (length b)" 4] assms by simp
  then show ?thesis
    unfolding read_string_def string_bytes_def by (rule reads_back_and_then) (simp add: reads_back_bytes)
qed

definition mpint_bytes :: "int \<Rightarrow> byte list" where
  "mpint_bytes n =
    (if n < 0 then be_bytes ((bit_length n + 8) div 8) (nat (n mod 256 ^ ((bit_length n + 8) div 8)))
     else if n > 0 then
       let b = be_bytes ((bit_length n + 7) div 8) (nat n) in if high_bit (hd b) then 0 # b else b
     else [])"

lemma write_mpint_run:
  assumes "length (mpint_bytes n) < 2 ^ 32"
  shows "write_mpint n w = (Inr (), w @ string_bytes (mpint_bytes n))"
proof -
  have neg: "int_to_bytes True n ((bit_length n + 8) div 8) =
      Inr (be_bytes ((bit_length n + 8) div 8) (nat (n mod 256 ^ ((bit_length n + 8) div 8))))"
    using negative_fits [of n] by (auto simp: int_to_bytes_def)
  have pos: "int_to_bytes False n ((bit_length n + 7) div 8) = Inr (be_bytes ((bit_length n + 7) div 8) (nat n))"
    if "n > 0" using that positive_fits [of n] by (simp add: int_to_bytes_unsigned)
  show ?thesis
    using assms neg pos write_string_run [of _ w]
    by (auto simp: write_mpint_def mpint_bytes_def Let_def and_then_def lifting_def add.assoc add.commute split: if_splits)
qed

lemma mpint_reads: "int_from_bytes True (mpint_bytes n) = n"
proof (cases "n < 0")
  case True
  let ?k = "(bit_length n + 8) div 8"
  have fits: "2 * \<bar>n\<bar> < 256 ^ ?k" by (rule negative_fits)
  have m: "n mod 256 ^ ?k = n + 256 ^ ?k"
    using fits True mod_pos_pos_trivial [of "n + 256 ^ ?k" "256 ^ ?k"] by simp
  have v: "be_value (mpint_bytes n) = nat (n + 256 ^ ?k)"
    using True fits by (simp add: mpint_bytes_def m be_value_bytes nat_less_iff)
  have "mpint_bytes n \<noteq> []" using True by (simp add: mpint_bytes_def flip: length_0_conv)
  moreover have "256 ^ ?k \<le> 2 * nat (n + 256 ^ ?k)"
  proof -
    have "int (256 ^ ?k) \<le> int (2 * nat (n + 256 ^ ?k))" using fits True by simp
    then show ?thesis by (simp only: of_nat_le_iff)
  qed
  ultimately have "high_bit (hd (mpint_bytes n))"
    using True by (simp add: hd_bytes v) (simp add: mpint_bytes_def)
  then show ?thesis
    using v fits True \<open>mpint_bytes n \<noteq> []\<close> by (simp add: int_from_bytes_def) (simp add: mpint_bytes_def)
next
  case False
  let ?b = "be_bytes ((bit_length n + 7) div 8) (nat n)"
  have "int (be_value ?b) = n"
    using False positive_fits [of n] by (simp add: be_value_bytes nat_less_iff)
  then show ?thesis
    using False by (auto simp: int_from_bytes_def mpint_bytes_def Let_def high_bit_def)
qed

lemma reads_back_mpint:
  assumes "length (mpint_bytes n) < 2 ^ 32"
  shows "reads_back read_mpint (string_bytes (mpint_bytes n)) n"
proof -
  have "n = 0" if "mpint_bytes n = []" using mpint_reads [of n] that by (simp add: int_from_bytes_def)
  then have "reads_back (if length (mpint_bytes n) = 0 then ret 0 else ret (int_from_bytes True (mpint_bytes n))) [] n"
    using reads_back_ret [of n] by (auto simp: mpint_reads)
  then show ?thesis
    unfolding read_mpint_def using reads_back_and_then [OF reads_back_string [OF assms],
        of "\<lambda>b. if length b = 0 then ret 0 else ret (int_from_bytes True b)" "[]" n] by simp
qed

section \<open>Messages\<close>

text \<open>
  A format of values: how one is written, how one of a given shape is read, and the bytes between. The
  laws are all that is needed of a value for a whole message of them to read back.
\<close>

locale value_format =
  fixes put :: "'v \<Rightarrow> writes"
    and get :: "'k \<Rightarrow> 'v reads"
    and kind :: "'v \<Rightarrow> 'k"
    and bytes :: "'v \<Rightarrow> byte list"
    and fits :: "'v \<Rightarrow> bool"
  assumes writes_bytes: "fits v \<Longrightarrow> put v w = (Inr (), w @ bytes v)"
    and reads_bytes: "fits v \<Longrightarrow> reads_back (get (kind v)) (bytes v) v"
begin

lemma write_all: "\<forall>v\<in>set vs. fits v \<Longrightarrow> for_each vs put w = (Inr (), w @ concat (map bytes vs))"
  by (induction vs arbitrary: w) (simp_all add: writes_bytes act_defs)

lemma read_all: "\<forall>v\<in>set vs. fits v \<Longrightarrow> reads_back (map_act get (map kind vs)) (concat (map bytes vs)) vs"
proof (induction vs)
  case (Cons v vs)
  then have "reads_back (and_then (map_act get (map kind vs)) (\<lambda>ys. ret (v # ys))) (concat (map bytes vs)) (v # vs)"
    using reads_back_and_then [OF _ reads_back_ret, of _ _ vs] by fastforce
  then show ?case using Cons.prems by (auto intro: reads_back_and_then reads_bytes)
qed (simp add: reads_back_ret)

lemma message_reads_back:
  assumes "\<forall>v\<in>set vs. fits v"
  shows "\<exists>buffer r. for_each vs put [] = (Inr (), buffer) \<and>
    map_act get (map kind vs) (Reader buffer) = (Inr vs, r) \<and> \<not> has_left r"
  using write_all [OF assms, of "[]"] read_all [OF assms, THEN reads_backD, of "[]" "[]"]
  by (simp add: Reader_def has_left_def)

end

datatype ssh_value = Uint32 int | Uint64 int | Bytes "byte list" | Mpint int

datatype ssh_shape = Shape_Uint32 | Shape_Uint64 | Shape_String | Shape_Mpint

primrec write_value :: "ssh_value \<Rightarrow> writes" where
  "write_value (Uint32 v) = write_uint32 v"
| "write_value (Uint64 v) = write_uint64 v"
| "write_value (Bytes b) = write_string b"
| "write_value (Mpint n) = write_mpint n"

primrec read_value :: "ssh_shape \<Rightarrow> ssh_value reads" where
  "read_value Shape_Uint32 = and_then read_uint32 (\<lambda>v. ret (Uint32 v))"
| "read_value Shape_Uint64 = and_then read_uint64 (\<lambda>v. ret (Uint64 v))"
| "read_value Shape_String = and_then read_string (\<lambda>b. ret (Bytes b))"
| "read_value Shape_Mpint = and_then read_mpint (\<lambda>n. ret (Mpint n))"

primrec shape_of :: "ssh_value \<Rightarrow> ssh_shape" where
  "shape_of (Uint32 v) = Shape_Uint32"
| "shape_of (Uint64 v) = Shape_Uint64"
| "shape_of (Bytes b) = Shape_String"
| "shape_of (Mpint n) = Shape_Mpint"

primrec value_bytes :: "ssh_value \<Rightarrow> byte list" where
  "value_bytes (Uint32 v) = be_bytes 4 (nat v)"
| "value_bytes (Uint64 v) = be_bytes 8 (nat v)"
| "value_bytes (Bytes b) = string_bytes b"
| "value_bytes (Mpint n) = string_bytes (mpint_bytes n)"

primrec value_fits :: "ssh_value \<Rightarrow> bool" where
  "value_fits (Uint32 v) \<longleftrightarrow> 0 \<le> v \<and> v < 2 ^ 32"
| "value_fits (Uint64 v) \<longleftrightarrow> 0 \<le> v \<and> v < 2 ^ 64"
| "value_fits (Bytes b) \<longleftrightarrow> length b < 2 ^ 32"
| "value_fits (Mpint n) \<longleftrightarrow> length (mpint_bytes n) < 2 ^ 32"

lemma reads_back_map: "reads_back m e x \<Longrightarrow> reads_back (and_then m (\<lambda>x. ret (f x))) e (f x)"
  using reads_back_and_then [where e' = "[]" and f = "\<lambda>x. ret (f x)" and y = "f x"] by (simp add: reads_back_ret)

interpretation rfc4251: value_format write_value read_value shape_of value_bytes value_fits
proof
  fix v w assume "value_fits v"
  then show "write_value v w = (Inr (), w @ value_bytes v)"
    by (cases v) (simp_all add: write_string_run write_mpint_run write_uint32_def write_uint64_def write_int_def
        int_to_bytes_unsigned write_bytes_def act_defs)
next
  fix v assume "value_fits v"
  then show "reads_back (read_value (shape_of v)) (value_bytes v) v"
    using reads_back_uint [of _ 4] reads_back_uint [of _ 8]
    by (cases v) (auto simp: read_uint32_def read_uint64_def intro!: reads_back_map reads_back_string reads_back_mpint)
qed

text \<open>
  C36. What the SSH writer writes, the reader reads back. For every sequence of 32- and 64-bit numbers,
  strings and multiple-precision integers of either sign, writing them succeeds and reading values of
  the same kinds from the result gives the same sequence and uses up the buffer. The only limits are
  those of the format: numbers in range, and contents shorter than \<open>2 ^ 32\<close> bytes.
\<close>

theorem ssh_values_read_back:
  assumes "\<forall>v\<in>set vs. value_fits v"
  shows "\<exists>buffer r. for_each vs write_value [] = (Inr (), buffer) \<and>
    map_act read_value (map shape_of vs) (Reader buffer) = (Inr vs, r) \<and> \<not> has_left r"
  using assms by (rule rfc4251.message_reads_back)

theorem ssh_values_read_back_witness:
  "\<exists>buffer r. for_each [Uint32 7, Bytes [0x70, 0x66], Mpint (- 128), Mpint 255] write_value [] = (Inr (), buffer) \<and>
    map_act read_value [Shape_Uint32, Shape_String, Shape_Mpint, Shape_Mpint] (Reader buffer) =
      (Inr [Uint32 7, Bytes [0x70, 0x66], Mpint (- 128), Mpint 255], r) \<and> \<not> has_left r"
proof -
  have fits: "\<forall>v\<in>set [Uint32 7, Bytes [0x70, 0x66], Mpint (- 128), Mpint 255]. value_fits v"
    by (simp add: mpint_bytes_def bit_length_def nat_bits.simps Let_def)
  show ?thesis using ssh_values_read_back [OF fits] by (simp only: list.map shape_of.simps)
qed

text \<open>
  Reading never goes past the buffer and never loses bytes: a string is read only when its length
  and all its bytes are there, and then the position moves over exactly these; otherwise the reader
  raises an error, also when a length is larger than what is left.
\<close>

theorem read_string_within_buffer:
  "case read_string r of
     (Inl e, r') \<Rightarrow> e = SshError \<and> rd_buffer r' = rd_buffer r
   | (Inr b, r') \<Rightarrow> \<exists>prefix. drop (rd_current r) (rd_buffer r) = prefix @ b @ drop (rd_current r') (rd_buffer r) \<and>
       length prefix = 4 \<and> be_value prefix = length b \<and> rd_current r' = rd_current r + 4 + length b \<and>
       rd_current r' \<le> length (rd_buffer r) \<and> rd_buffer r' = rd_buffer r"
proof -
  let ?rest = "drop (rd_current r) (rd_buffer r)" and ?n = "be_value (take 4 (drop (rd_current r) (rd_buffer r)))"
  have "?rest = take 4 ?rest @ take ?n (drop 4 ?rest) @ drop ?n (drop 4 ?rest)"
    by (metis append_take_drop_id)
  then show ?thesis
    by (auto simp: read_string_def read_uint32_def read_bytes_def act_defs int_from_bytes_def add.commute
        add.left_commute intro!: exI [of _ "take 4 ?rest"])
qed

text \<open>
  RFC 4251 forbids needless leading bytes, but the byte count of a negative number is one too large at
  the powers of two that fill their bytes: -128 is written in two bytes, and one would read back.
\<close>

lemma mpint_not_minimal:
  "mpint_bytes (- 128) = [0xff, 0x80]" "int_from_bytes True [0x80] = - 128"
  by (simp_all add: mpint_bytes_def bit_length_def nat_bits.simps int_from_bytes_def high_bit_def be_bytes_numeral)

end
