(* ===== verification/Ssh_Wire.thy ===== *)
theory Ssh_Wire
  imports Ssh_Buffer
begin

text \<open>
  \<open>ssh/wire.py\<close>: the framing of the agent protocol over a stream that delivers and accepts bytes in
  pieces. The transport is a parameter: \<open>recv\<close> and \<open>send\<close> on a state \<open>'s\<close> of the connection, with the
  laws of the locales below; a list of pieces that arrive is an instance.
\<close>

definition SSH_AGENTC_REQUEST_IDENTITIES :: int where "SSH_AGENTC_REQUEST_IDENTITIES = 11"
definition SSH_AGENT_IDENTITIES_ANSWER :: int where "SSH_AGENT_IDENTITIES_ANSWER = 12"
definition SSH_AGENTC_SIGN_REQUEST :: int where "SSH_AGENTC_SIGN_REQUEST = 13"
definition SSH_AGENT_SIGN_RESPONSE :: int where "SSH_AGENT_SIGN_RESPONSE = 14"
definition SSH_AGENTC_ADD_IDENTITY :: int where "SSH_AGENTC_ADD_IDENTITY = 17"
definition SSH_AGENTC_REMOVE_IDENTITY :: int where "SSH_AGENTC_REMOVE_IDENTITY = 18"
definition SSH_AGENTC_REMOVE_ALL_IDENTITIES :: int where "SSH_AGENTC_REMOVE_ALL_IDENTITIES = 19"
definition SSH_AGENTC_ADD_ID_CONSTRAINED :: int where "SSH_AGENTC_ADD_ID_CONSTRAINED = 25"
definition SSH_AGENT_CONSTRAIN_LIFETIME :: int where "SSH_AGENT_CONSTRAIN_LIFETIME = 1"
definition SSH_AGENT_CONSTRAIN_CONFIRM :: int where "SSH_AGENT_CONSTRAIN_CONFIRM = 2"
definition SSH_AGENT_FAILURE :: int where "SSH_AGENT_FAILURE = 5"

definition MAX_MESSAGE_LENGTH :: nat where
  "MAX_MESSAGE_LENGTH = 256 * 1024"

definition RECV_CHUNK_SIZE :: nat where
  "RECV_CHUNK_SIZE = 64 * 1024"

record message =
  msg_type :: int
  msg_contents :: "byte list"

type_synonym 's receive = "nat \<Rightarrow> 's \<Rightarrow> byte list \<times> 's"
type_synonym 's transmit = "byte list \<Rightarrow> 's \<Rightarrow> nat \<times> 's"

section \<open>Receiving\<close>

text \<open>The loop of \<open>_recv_bytes\<close>; a piece that is longer than asked for ends it.\<close>

function recv_bytes :: "'s receive \<Rightarrow> nat \<Rightarrow> ('s, ssh_error, byte list) act" where
  "recv_bytes recv remaining s =
    (if remaining = 0 then (Inr [], s)
     else case recv (min remaining RECV_CHUNK_SIZE) s of (partial, s') \<Rightarrow>
       if length partial = 0 then (Inl SshError, s')
       else case recv_bytes recv (remaining - length partial) s' of
         (Inl e, s'') \<Rightarrow> (Inl e, s'')
       | (Inr rest, s'') \<Rightarrow> (Inr (partial @ rest), s''))"
  by pat_completeness auto

termination
  by (relation "measure (\<lambda>(recv, remaining, s). remaining)") auto

declare recv_bytes.simps [simp del]

definition recv_message :: "'s receive \<Rightarrow> ('s, ssh_error, message) act" where
  "recv_message recv =
    and_then (recv_bytes recv 4) (\<lambda>length.
      let length_int = be_value length
      in if length_int = 0 then raising SshError
         else if length_int > MAX_MESSAGE_LENGTH then raising SshError
         else and_then (recv_bytes recv length_int) (\<lambda>payload.
           ret \<lparr>msg_type = int (unat (hd payload)), msg_contents = tl payload\<rparr>))"

section \<open>Sending\<close>

text \<open>The loop of \<open>send_message\<close> over the bytes that are left.\<close>

function send_all :: "'s transmit \<Rightarrow> byte list \<Rightarrow> ('s, ssh_error, unit) act" where
  "send_all send data s =
    (if data = [] then (Inr (), s)
     else case send data s of (sent, s') \<Rightarrow>
       if sent = 0 then (Inl SshError, s') else send_all send (drop sent data) s')"
  by pat_completeness auto

termination
  by (relation "measure (\<lambda>(send, data, s). length data)") auto

declare send_all.simps [simp del]

definition send_message :: "'s transmit \<Rightarrow> int \<Rightarrow> byte list \<Rightarrow> ('s, ssh_error, unit) act" where
  "send_message send ty contents = (\<lambda>s.
    case seq (write_uint32 (int (length contents) + 1)) (seq (write_byte ty) (write_bytes contents)) [] of
      (Inl e, _) \<Rightarrow> (Inl e, s)
    | (Inr _, data) \<Rightarrow> send_all send data s)"

section \<open>What a transport promises\<close>

text \<open>
  A receiver has bytes that are still to come. \<open>recv\<close> returns a prefix of them that is no longer than
  asked for, and nothing only when nothing is to come.
\<close>

locale receiving =
  fixes recv :: "'s receive"
    and pending :: "'s \<Rightarrow> byte list"
  assumes recv_prefix: "recv n s = (b, s') \<Longrightarrow> pending s = b @ pending s'"
    and recv_most: "recv n s = (b, s') \<Longrightarrow> length b \<le> n"
    and recv_some: "recv n s = (b, s') \<Longrightarrow> n > 0 \<Longrightarrow> pending s \<noteq> [] \<Longrightarrow> b \<noteq> []"
begin

lemma recv_bytes_run:
  assumes "length (pending s) \<ge> n"
  shows "\<exists>s'. recv_bytes recv n s = (Inr (take n (pending s)), s') \<and> pending s' = drop n (pending s)"
  using assms
proof (induction n arbitrary: s rule: less_induct)
  case (less n)
  show ?case
  proof (cases "n = 0")
    case False
    obtain b s1 where b: "recv (min n RECV_CHUNK_SIZE) s = (b, s1)" by fastforce
    have "pending s \<noteq> []" using False less.prems by auto
    moreover have "min n RECV_CHUNK_SIZE > 0" using False by (simp add: RECV_CHUNK_SIZE_def)
    ultimately have p: "pending s = b @ pending s1" "length b \<le> n" "b \<noteq> []"
      using recv_prefix [OF b] recv_most [OF b] recv_some [OF b] by simp_all
    have "n - length b < n" "length (pending s1) \<ge> n - length b" using p less.prems False by auto
    then obtain s2 where s2: "recv_bytes recv (n - length b) s1 = (Inr (take (n - length b) (pending s1)), s2)"
        "pending s2 = drop (n - length b) (pending s1)"
      using less.IH [of "n - length b" s1] by blast
    show ?thesis
      using False p s2 by (subst recv_bytes.simps) (simp add: b)
  qed (simp add: recv_bytes.simps)
qed

lemma recv_bytes_short:
  assumes "length (pending s) < n"
  shows "\<exists>s'. recv_bytes recv n s = (Inl SshError, s')"
  using assms
proof (induction n arbitrary: s rule: less_induct)
  case (less n)
  obtain b s1 where b: "recv (min n RECV_CHUNK_SIZE) s = (b, s1)" by fastforce
  show ?case
  proof (cases "b = []")
    case False
    have "length (pending s1) < n - length b" "n - length b < n"
      using recv_prefix [OF b] less.prems False by (auto simp: less_diff_conv)
    then obtain s2 where "recv_bytes recv (n - length b) s1 = (Inl SshError, s2)"
      using less.IH [of "n - length b" s1] by blast
    then show ?thesis using less.prems False by (subst recv_bytes.simps) (simp add: b)
  qed (use less.prems in \<open>subst recv_bytes.simps, simp add: b\<close>)
qed

definition frame :: "byte list \<Rightarrow> byte list" where
  "frame payload = be_bytes 4 (length payload) @ payload"

lemma recv_frame:
  assumes "pending s = frame payload @ rest" and "payload \<noteq> []" and "length payload \<le> MAX_MESSAGE_LENGTH"
  shows "\<exists>s'. recv_message recv s =
    (Inr \<lparr>msg_type = int (unat (hd payload)), msg_contents = tl payload\<rparr>, s') \<and> pending s' = rest"
proof -
  have len: "be_value (be_bytes 4 (length payload)) = length payload"
    using assms(3) by (intro be_value_bytes) (simp add: MAX_MESSAGE_LENGTH_def)
  obtain s1 where s1: "recv_bytes recv 4 s = (Inr (be_bytes 4 (length payload)), s1)" "pending s1 = payload @ rest"
    using recv_bytes_run [of 4 s] assms(1) by (auto simp: frame_def)
  obtain s2 where "recv_bytes recv (length payload) s1 = (Inr payload, s2)" "pending s2 = rest"
    using recv_bytes_run [of "length payload" s1] s1(2) by auto
  then show ?thesis
    using assms(2,3) s1(1) by (simp add: recv_message_def and_then_def Let_def len raising_def ret_def)
qed

end

text \<open>A sender accepts a prefix of what it is given, and some of it while the peer is there.\<close>

locale sending =
  fixes send :: "'s transmit"
    and delivered :: "'s \<Rightarrow> byte list"
  assumes send_prefix: "send data s = (n, s') \<Longrightarrow> n \<le> length data \<and> delivered s' = delivered s @ take n data"
    and send_some: "send data s = (n, s') \<Longrightarrow> data \<noteq> [] \<Longrightarrow> n > 0"
begin

lemma send_all_run: "\<exists>s'. send_all send data s = (Inr (), s') \<and> delivered s' = delivered s @ data"
proof (induction "length data" arbitrary: data s rule: less_induct)
  case less
  show ?case
  proof (cases "data = []")
    case False
    obtain n s1 where n: "send data s = (n, s1)" by fastforce
    have p: "n > 0" "delivered s1 = delivered s @ take n data"
      using send_prefix [OF n] send_some [OF n False] by auto
    obtain s2 where "send_all send (drop n data) s1 = (Inr (), s2)" "delivered s2 = delivered s1 @ drop n data"
      using less [of "drop n data" s1] p False by auto
    then show ?thesis using False p by (subst send_all.simps) (simp add: n)
  qed (simp add: send_all.simps)
qed

end

section \<open>A connection that delivers in pieces\<close>

text \<open>
  A connection holds the pieces that arrive one by one, and what was handed to it; it takes at most \<open>cn_limit + 1\<close>
  bytes at a time.
\<close>

record connection =
  cn_pieces :: "byte list list"
  cn_limit :: nat
  cn_sent :: "byte list"

fun take_piece :: "nat \<Rightarrow> byte list list \<Rightarrow> byte list \<times> byte list list" where
  "take_piece n [] = ([], [])"
| "take_piece n ([] # ps) = take_piece n ps"
| "take_piece n (p # ps) = (take n p, drop n p # ps)"

definition piece_recv :: "connection receive" where
  "piece_recv n c = (case take_piece n (cn_pieces c) of (b, ps) \<Rightarrow> (b, c\<lparr>cn_pieces := ps\<rparr>))"

definition piece_send :: "connection transmit" where
  "piece_send data c =
    (let n = min (length data) (cn_limit c + 1) in (n, c\<lparr>cn_sent := cn_sent c @ take n data\<rparr>))"

lemma take_piece_prefix: "take_piece n ps = (b, ps') \<Longrightarrow> concat ps = b @ concat ps'"
  by (induction n ps rule: take_piece.induct) auto

lemma take_piece_length: "take_piece n ps = (b, ps') \<Longrightarrow> length b \<le> n"
  by (induction n ps rule: take_piece.induct) auto

lemma take_piece_some: "take_piece n ps = (b, ps') \<Longrightarrow> n > 0 \<Longrightarrow> concat ps \<noteq> [] \<Longrightarrow> b \<noteq> []"
  by (induction n ps rule: take_piece.induct) auto

interpretation pieces: receiving piece_recv "\<lambda>c. concat (cn_pieces c)"
  by unfold_locales (auto simp: piece_recv_def split: prod.splits
      dest: take_piece_prefix take_piece_length take_piece_some)

interpretation accepting: sending piece_send cn_sent
  by unfold_locales (auto simp: piece_send_def Let_def)

section \<open>Messages over a connection\<close>

lemma send_message_run:
  assumes "0 \<le> ty" "ty < 256" "length contents + 1 < 2 ^ 32"
  shows "\<exists>c'. send_message piece_send ty contents c = (Inr (), c') \<and>
    cn_sent c' = cn_sent c @ be_bytes 4 (length contents + 1) @ of_nat (nat ty) # contents"
proof -
  have "seq (write_uint32 (int (length contents) + 1)) (seq (write_byte ty) (write_bytes contents)) [] =
      (Inr (), be_bytes 4 (length contents + 1) @ of_nat (nat ty) # contents)"
    using assms by (simp add: write_uint32_def write_byte_def write_int_def write_bytes_def act_defs
        int_to_bytes_unsigned nat_add_distrib)
  then show ?thesis
    using accepting.send_all_run [of "be_bytes 4 (length contents + 1) @ of_nat (nat ty) # contents" c]
    by (auto simp: send_message_def)
qed

text \<open>
  Framing does not depend on how the stream is cut. Whatever a message holds, sending it over a
  connection that takes any number of bytes at a time succeeds, and receiving from a peer to which these
  bytes arrive in any pieces (cut in the middle of the length, empty ones in between, more than one
  frame in a piece) gives the message back and leaves exactly the bytes that follow the frame.
\<close>

lemma messages_cross_any_stream:
  assumes "0 \<le> ty" and "ty < 256" and "length contents < MAX_MESSAGE_LENGTH" and "cn_sent c = []"
  shows "\<exists>c'. send_message piece_send ty contents c = (Inr (), c') \<and>
    (\<forall>d rest. concat (cn_pieces d) = cn_sent c' @ rest \<longrightarrow>
      (\<exists>d'. recv_message piece_recv d = (Inr \<lparr>msg_type = ty, msg_contents = contents\<rparr>, d') \<and>
        concat (cn_pieces d') = rest))"
proof -
  have l: "length contents + 1 < 2 ^ 32" using assms(3) by (simp add: MAX_MESSAGE_LENGTH_def)
  obtain c' where c': "send_message piece_send ty contents c = (Inr (), c')"
      "cn_sent c' = pieces.frame (of_nat (nat ty) # contents)"
    using send_message_run [OF assms(1,2) l, of c] assms(4) by (auto simp: pieces.frame_def)
  have "int (unat (of_nat (nat ty) :: byte)) = ty" using assms(1,2) by (simp add: unsigned_of_int take_bit_int_eq_self)
  then show ?thesis
    using c' pieces.recv_frame [of _ "of_nat (nat ty) # contents"] assms(3) by fastforce
qed

lemma messages_cross_any_stream_witness:
  "\<exists>c'. send_message piece_send 13 [1, 2, 3] \<lparr>cn_pieces = [], cn_limit = 1, cn_sent = []\<rparr> = (Inr (), c') \<and>
    (\<forall>d rest. concat (cn_pieces d) = cn_sent c' @ rest \<longrightarrow>
      (\<exists>d'. recv_message piece_recv d = (Inr \<lparr>msg_type = 13, msg_contents = [1, 2, 3]\<rparr>, d') \<and>
        concat (cn_pieces d') = rest))"
  by (rule messages_cross_any_stream) (simp_all add: MAX_MESSAGE_LENGTH_def)

text \<open>
  A hostile frame is refused before its payload is read. When the length that comes first is zero
  or above the limit, or the stream ends before the length or the payload is complete, receiving
  raises an error; with a bad length exactly the four bytes of the length are used.
\<close>

lemma bad_frames_refused:
  assumes "length (concat (cn_pieces c)) < 4 \<or>
    be_value (take 4 (concat (cn_pieces c))) = 0 \<or>
    be_value (take 4 (concat (cn_pieces c))) > MAX_MESSAGE_LENGTH \<or>
    length (concat (cn_pieces c)) < 4 + be_value (take 4 (concat (cn_pieces c)))"
  shows "\<exists>c'. recv_message piece_recv c = (Inl SshError, c') \<and>
    (length (concat (cn_pieces c)) \<ge> 4 \<and>
      (be_value (take 4 (concat (cn_pieces c))) = 0 \<or> be_value (take 4 (concat (cn_pieces c))) > MAX_MESSAGE_LENGTH)
      \<longrightarrow> concat (cn_pieces c') = drop 4 (concat (cn_pieces c)))"
proof (cases "length (concat (cn_pieces c)) < 4")
  case True
  then obtain c' where "recv_bytes piece_recv 4 c = (Inl SshError, c')" using pieces.recv_bytes_short by blast
  then show ?thesis using True by (simp add: recv_message_def and_then_def)
next
  case False
  then obtain c1 where c1: "recv_bytes piece_recv 4 c = (Inr (take 4 (concat (cn_pieces c))), c1)"
      "concat (cn_pieces c1) = drop 4 (concat (cn_pieces c))"
    using pieces.recv_bytes_run [of 4 c] by auto
  let ?n = "be_value (take 4 (concat (cn_pieces c)))"
  show ?thesis
  proof (cases "?n = 0 \<or> ?n > MAX_MESSAGE_LENGTH")
    case True
    then show ?thesis using c1 by (auto simp: recv_message_def and_then_def raising_def)
  next
    case bad: False
    then have "length (concat (cn_pieces c1)) < ?n" using assms False c1(2) by auto
    then obtain c2 where "recv_bytes piece_recv ?n c1 = (Inl SshError, c2)" using pieces.recv_bytes_short by blast
    then show ?thesis using bad c1(1) by (simp add: recv_message_def and_then_def Let_def)
  qed
qed

theorem bad_frames_refused_witness:
  "\<exists>c'. recv_message piece_recv \<lparr>cn_pieces = [[0xff, 0xff], [0xff], [0xff, 1, 2]], cn_limit = 0, cn_sent = []\<rparr> =
      (Inl SshError, c') \<and> concat (cn_pieces c') = [1, 2]"
  using bad_frames_refused [of "\<lparr>cn_pieces = [[0xff, 0xff], [0xff], [0xff, 1, 2]], cn_limit = 0, cn_sent = []\<rparr>"]
  by (simp add: MAX_MESSAGE_LENGTH_def)

end
