(* ===== verification/Signature.thy ===== *)
theory Signature
  imports Model_Keys Unix_Account
begin

text \<open>
  \<open>api/signature.py\<close> and \<open>crypto_policy.py\<close>: who a request comes from. The structured-field library,
  the digest of a body and the primitives that check a signature are parameters, the record \<open>http_lib\<close>;
  the nonce store is \<open>Nonce_Store\<close>, kept in the world and untouched by a rollback. The dependencies
  \<open>verify_session\<close>, \<open>verify_account\<close> and \<open>verify_invitation\<close> return the context that the handler runs in.
\<close>

section \<open>Requests and keys\<close>

datatype key_type = ED25519 | SYMMETRIC | ECDSA_NISTP256 | ECDSA_NISTP384 | ECDSA_NISTP521 | RSA_KEY

record verifying_key =
  vk_type :: key_type
  vk_material :: string

record http_request =
  rq_method :: string
  rq_netloc :: string
  rq_url :: string
  rq_headers :: "(string \<times> string) list"
  rq_body :: string
  rq_client_host :: "string option"

text \<open>Header names are kept in lower case, as the server library does, and looked up so.\<close>

definition header_of :: "http_request \<Rightarrow> string \<Rightarrow> string option" where
  "header_of r name = map_of (rq_headers r) (lower name)"

datatype sfv_value = SfvInt int | SfvBool bool | SfvStr string | SfvBytes string | SfvOther

record inner_list =
  in_items :: "string list"
  in_params :: "(string \<times> sfv_value) list"

text \<open>The library: a parser returns its error text or the members of the dictionary, in order.\<close>

record http_lib =
  hl_parse_input :: "string \<Rightarrow> string + (string \<times> inner_list option) list"
  hl_parse_signature :: "string \<Rightarrow> string + (string \<times> sfv_value option) list"
  hl_show_inner :: "inner_list \<Rightarrow> string"
  hl_digest :: "string \<Rightarrow> string"
  hl_hmac :: "string \<Rightarrow> string \<Rightarrow> string"
  hl_ed25519 :: "string \<Rightarrow> string \<Rightarrow> string \<Rightarrow> bool"
  hl_p256 :: "string \<Rightarrow> string \<Rightarrow> string \<Rightarrow> bool"
  hl_public_key :: "jwk \<Rightarrow> exn + verifying_key"
  hl_thumbprint :: "verifying_key \<Rightarrow> string"
  hl_key_dict :: "verifying_key \<Rightarrow> jwk"

section \<open>\<open>crypto_policy\<close>\<close>

definition key_type_text :: "key_type \<Rightarrow> string" where
  "key_type_text t = (case t of ED25519 \<Rightarrow> ''KeyType.ED25519'' | SYMMETRIC \<Rightarrow> ''KeyType.SYMMETRIC''
    | ECDSA_NISTP256 \<Rightarrow> ''KeyType.ECDSA_NISTP256'' | ECDSA_NISTP384 \<Rightarrow> ''KeyType.ECDSA_NISTP384''
    | ECDSA_NISTP521 \<Rightarrow> ''KeyType.ECDSA_NISTP521'' | RSA_KEY \<Rightarrow> ''KeyType.RSA'')"

definition enforce_key_is_allowed :: "verifying_key \<Rightarrow> unit handler" where
  "enforce_key_is_allowed key =
    (if vk_type key \<noteq> ED25519
     then reject 403 ''Key type not supported'' (Some (key_type_text (vk_type key))) else ret ())"

section \<open>Reading the headers\<close>

definition bad :: "string \<Rightarrow> string option \<Rightarrow> exn" where
  "bad t d = Http (problem_response 400 about_blank (Some t) d)"

definition read_label :: "string \<times> inner_list option \<Rightarrow> exn + string \<times> string \<times> inner_list" where
  "read_label m = (case m of
     (label, None) \<Rightarrow> Inl (bad ''Invalid Signature-Input'' (Some (''Expected inner list for '' @ label)))
   | (label, Some inner) \<Rightarrow> (case map_of (in_params inner) ''keyid'' of
       None \<Rightarrow> Inl (bad ''Invalid Signature-Input'' (Some (''Missing keyid in '' @ label)))
     | Some (SfvStr keyid) \<Rightarrow> Inr (label, keyid, inner)
     | Some _ \<Rightarrow> Inl (bad ''Invalid Signature-Input'' (Some (''keyid mistyped in '' @ label)))))"

definition parse_signature_input :: "http_lib \<Rightarrow> string \<Rightarrow> exn + (string \<times> string \<times> inner_list) list" where
  "parse_signature_input hl s = (case hl_parse_input hl s of
     Inl e \<Rightarrow> Inl (bad ''Invalid Signature-Input header'' (Some e))
   | Inr d \<Rightarrow> collect read_label d)"

definition read_item :: "string \<times> sfv_value option \<Rightarrow> exn + string \<times> sfv_value" where
  "read_item m = (case m of
     (label, None) \<Rightarrow> Inl (bad ''Invalid Signature header'' (Some (''Expected item for '' @ label)))
   | (label, Some v) \<Rightarrow> Inr (label, v))"

definition parse_signature :: "http_lib \<Rightarrow> string \<Rightarrow> exn + (string \<times> sfv_value) list" where
  "parse_signature hl s = (case hl_parse_signature hl s of
     Inl e \<Rightarrow> Inl (bad ''Invalid Signature header'' (Some e))
   | Inr d \<Rightarrow> collect read_item d)"

section \<open>The signature base\<close>

definition quoted :: "string \<Rightarrow> string" where
  "quoted c = CHR 0x22 # c @ [CHR 0x22]"

definition component_value :: "http_request \<Rightarrow> string \<Rightarrow> string \<Rightarrow> exn + string" where
  "component_value r sig_params c =
    (if c = ''@method'' then Inr (rq_method r)
     else if c = ''@authority'' then Inr (rq_netloc r)
     else if c = ''@target-uri'' then Inr (rq_url r)
     else if c = ''@signature-params'' then Inr sig_params
     else case header_of r c of None \<Rightarrow> Inl KeyError | Some v \<Rightarrow> Inr v)"

definition base_line :: "http_request \<Rightarrow> string \<Rightarrow> string \<Rightarrow> exn + string" where
  "base_line r sig_params c = (case component_value r sig_params c of
     Inl e \<Rightarrow> Inl e | Inr v \<Rightarrow> Inr (quoted c @ '': '' @ v))"

definition build_signature_base :: "http_request \<Rightarrow> inner_list \<Rightarrow> string \<Rightarrow> exn + string" where
  "build_signature_base r inner sig_params = (case collect (base_line r sig_params) (in_items inner) of
     Inl e \<Rightarrow> Inl e | Inr parts \<Rightarrow> Inr (join_with [CHR 0x0A] parts))"

section \<open>Refusals that are recorded\<close>

definition REJECTION_TYPES :: "(string \<times> audit_type) list" where
  "REJECTION_TYPES = [(''session'', SESSION_REJECTED), (''account'', ACCOUNT_KEY_REJECTED),
    (''invitation'', IDENTITY_INVITATION_REJECTED)]"

text \<open>\<open>key_id.partition(":")\<close>.\<close>

definition partition_colon :: "string \<Rightarrow> string \<times> string" where
  "partition_colon s = (takeWhile (\<lambda>c. c \<noteq> CHR '':'') s, tl (dropWhile (\<lambda>c. c \<noteq> CHR '':'') s))"

definition audit_rejection :: "request_ctx \<Rightarrow> string \<Rightarrow> string \<Rightarrow> int \<Rightarrow> unit handler" where
  "audit_rejection cx key_id reason identity_id =
    (let (kind, raw_id) = partition_colon key_id
     in case map_of REJECTION_TYPES kind of
          None \<Rightarrow> raising KeyError
        | Some t \<Rightarrow> (case at_target_key t of
            None \<Rightarrow> raising AssertionError
          | Some k \<Rightarrow> create_after_rollback cx t
              (dict_merge [(k, DStr raw_id)] [(''reason'', DStr reason), (''identity_id'', DInt identity_id)])))"

definition audit_known :: "request_ctx \<Rightarrow> string \<Rightarrow> string \<Rightarrow> int option \<Rightarrow> unit handler" where
  "audit_known cx key_id reason audit_identity_id = (case audit_identity_id of
     None \<Rightarrow> ret () | Some i \<Rightarrow> audit_rejection cx key_id reason i)"

section \<open>\<open>verify\<close>\<close>

text \<open>The detail that prints the two sets of fields, in no fixed order, is left empty.\<close>

text \<open>The first part: the headers, the label and the parameters of the signature.\<close>

record found_signature =
  fs_label :: string
  fs_inner :: inner_list
  fs_nonce :: string
  fs_created :: int
  fs_items :: "(string \<times> sfv_value) list"

definition signature_params ::
    "int \<Rightarrow> string \<Rightarrow> string \<Rightarrow> inner_list \<Rightarrow> (string \<times> sfv_value) list \<Rightarrow> exn + found_signature" where
  "signature_params now key_id label inner items = (case map_of (in_params inner) ''nonce'' of
     None \<Rightarrow> Inl (bad ''Missing nonce in Signature-Input'' (Some key_id))
   | Some (SfvStr nonce) \<Rightarrow> (case map_of (in_params inner) ''created'' of
       None \<Rightarrow> Inl (bad ''Missing created in Signature-Input'' (Some key_id))
     | Some (SfvInt created) \<Rightarrow>
         if created > now + MAX_FUTURE_SKEW_SECONDS
         then Inl (bad ''Signature is too far in the future'' (Some key_id))
         else if now - created > FRESHNESS_WINDOW_SECONDS then Inl (bad ''Signature is too old'' (Some key_id))
         else Inr \<lparr>fs_label = label, fs_inner = inner, fs_nonce = nonce, fs_created = created, fs_items = items\<rparr>
     | Some _ \<Rightarrow> Inl (bad ''created mistyped in Signature-Input'' (Some key_id)))
   | Some _ \<Rightarrow> Inl (bad ''nonce mistyped in Signature-Input'' (Some key_id)))"

definition find_signature :: "http_lib \<Rightarrow> int \<Rightarrow> http_request \<Rightarrow> string \<Rightarrow> exn + found_signature" where
  "find_signature hl now r key_id = (case header_of r ''Content-Digest'' of
     None \<Rightarrow> Inl (bad ''Missing Content-Digest header'' None)
   | Some digest \<Rightarrow>
   if digest \<noteq> hl_digest hl (rq_body r) then Inl (bad ''Content hash does not match Content-Digest header'' None)
   else case header_of r ''Signature'' of
     None \<Rightarrow> Inl (bad ''Missing Signature header'' None)
   | Some signature \<Rightarrow> (case header_of r ''Signature-Input'' of
     None \<Rightarrow> Inl (bad ''Missing Signature-Input header'' None)
   | Some input \<Rightarrow> (case parse_signature_input hl input of
     Inl e \<Rightarrow> Inl e
   | Inr keyid_by_label \<Rightarrow> (case parse_signature hl signature of
     Inl e \<Rightarrow> Inl e
   | Inr items \<Rightarrow>
       (case map_of (dict_rows (\<lambda>(label, keyid, inner). keyid) (\<lambda>(label, keyid, inner). (label, inner))
           keyid_by_label) key_id of
         None \<Rightarrow> Inl (bad ''Unable to find keyid in Signature-Input'' (Some key_id))
       | Some (label, inner) \<Rightarrow> signature_params now key_id label inner items)))))"

datatype checked = Good | Bad_Signature | Wrong_Type | Unsupported

definition check_signature :: "http_lib \<Rightarrow> verifying_key \<Rightarrow> string \<Rightarrow> sfv_value \<Rightarrow> checked" where
  "check_signature hl key base sig =
    (let by = (\<lambda>ok. case sig of SfvBytes b \<Rightarrow> if ok b then Good else Bad_Signature | _ \<Rightarrow> Wrong_Type)
     in case vk_type key of
          SYMMETRIC \<Rightarrow> by (\<lambda>b. hl_hmac hl (vk_material key) base = b)
        | ED25519 \<Rightarrow> by (hl_ed25519 hl (vk_material key) base)
        | ECDSA_NISTP256 \<Rightarrow> by (hl_p256 hl (vk_material key) base)
        | _ \<Rightarrow> Unsupported)"

definition expected_covered :: "string set" where
  "expected_covered = {''@authority'', ''@method'', ''@target-uri'', ''@signature-params'', ''content-digest''}"

definition spend_nonce :: "string \<Rightarrow> string \<Rightarrow> int \<Rightarrow> int \<Rightarrow> bool handler" where
  "spend_nonce key_id nonce now created = (\<lambda>w. case check_and_add (w_nonces w) key_id nonce now created of
     (ok, ns) \<Rightarrow> (Inr ok, w\<lparr>w_nonces := ns\<rparr>))"

definition verify ::
    "http_lib \<Rightarrow> request_ctx \<Rightarrow> http_request \<Rightarrow> string \<Rightarrow> verifying_key \<Rightarrow> int option \<Rightarrow> unit handler" where
  "verify hl cx r key_id key audit_identity_id =
    and_then (lifting (find_signature hl (cx_now cx) r key_id)) (\<lambda>fs.
      case map_of (fs_items fs) (fs_label fs) of
        None \<Rightarrow> raising (bad ''Unable to find label in Signature'' (Some (fs_label fs)))
      | Some sig \<Rightarrow>
        and_then (lifting (build_signature_base r (fs_inner fs) (hl_show_inner hl (fs_inner fs)))) (\<lambda>base.
          case check_signature hl key base sig of
            Wrong_Type \<Rightarrow> raising TypeError
          | Unsupported \<Rightarrow> raising (bad ''Unsupported key type'' (Some key_id))
          | Bad_Signature \<Rightarrow> seq (audit_known cx key_id ''invalid-signature'' audit_identity_id)
              (raising (bad ''Invalid signature'' (Some key_id)))
          | Good \<Rightarrow>
              if set (in_items (fs_inner fs)) \<noteq> expected_covered
              then raising (bad ''Signature does not cover the expected fields'' (Some ''''))
              else and_then (spend_nonce key_id (fs_nonce fs) (cx_now cx) (fs_created fs)) (\<lambda>fresh.
                if fresh then ret ()
                else seq (audit_known cx key_id ''replayed'' audit_identity_id)
                  (raising (bad ''Signature nonce has already been used'' (Some key_id))))))"

section \<open>Whose key\<close>

definition unauthorized :: "string \<Rightarrow> string option \<Rightarrow> 'a handler" where
  "unauthorized t d = reject 401 t d"

definition has_prefix :: "string \<Rightarrow> string \<Rightarrow> bool" where
  "has_prefix prefix s \<longleftrightarrow> take (length prefix) s = prefix"

definition get_keyid :: "http_lib \<Rightarrow> http_request \<Rightarrow> string \<Rightarrow> string handler" where
  "get_keyid hl r prefix = (case header_of r ''Signature-Input'' of
     None \<Rightarrow> unauthorized ''Missing Signature-Input header'' None
   | Some input \<Rightarrow> and_then (lifting (parse_signature_input hl input)) (\<lambda>keyid_by_label.
       case List.find (\<lambda>(label, keyid, inner). has_prefix (prefix @ '':'') keyid) keyid_by_label of
         None \<Rightarrow> unauthorized ''Missing signature for prefix'' (Some prefix)
       | Some (label, keyid, inner) \<Rightarrow> ret (drop (length prefix + 1) keyid)))"

definition refuse_key :: "request_ctx \<Rightarrow> string \<Rightarrow> string \<Rightarrow> int \<Rightarrow> string \<Rightarrow> 'a handler" where
  "refuse_key cx key_id reason identity_id t =
    seq (audit_rejection cx key_id reason identity_id) (unauthorized t None)"

definition as_identity :: "request_ctx \<Rightarrow> int \<Rightarrow> request_ctx" where
  "as_identity cx i = cx\<lparr>cx_identity_id := Some i\<rparr>"

definition verify_invitation ::
    "crypto \<Rightarrow> http_lib \<Rightarrow> request_ctx \<Rightarrow> http_request \<Rightarrow> (request_ctx \<times> invitation_key) handler" where
  "verify_invitation cr hl cx r =
    and_then (get_keyid hl r ''invitation'') (\<lambda>key_id.
    and_then (invitation_read cr key_id) (\<lambda>invitation. case invitation of
      None \<Rightarrow> unauthorized ''Invitation does not exist'' None
    | Some invitation \<Rightarrow>
        if ik_is_revoked invitation
        then refuse_key cx (''invitation:'' @ key_id) ''revoked'' (ik_identity_id invitation) ''Invitation is revoked''
        else if ik_expires_at invitation \<le> cx_now cx
        then refuse_key cx (''invitation:'' @ key_id) ''expired'' (ik_identity_id invitation) ''Invitation is expired''
        else seq (verify hl cx r (''invitation:'' @ key_id) \<lparr>vk_type = SYMMETRIC, vk_material = ik_key invitation\<rparr>
            (Some (ik_identity_id invitation)))
          (ret (as_identity cx (ik_identity_id invitation), invitation))))"

text \<open>The checks on a stored public key, shared by accounts and sessions.\<close>

definition verify_stored_key ::
    "http_lib \<Rightarrow> request_ctx \<Rightarrow> http_request \<Rightarrow> string \<Rightarrow> string \<Rightarrow> jwk \<Rightarrow> int \<Rightarrow> unit handler" where
  "verify_stored_key hl cx r prefix key_id public_key identity_id =
    and_then (lifting (hl_public_key hl public_key)) (\<lambda>key.
    seq (enforce_key_is_allowed key)
    (seq (ensure (hl_thumbprint hl key = key_id))
    (seq (enforce_not_denied cx (hl_thumbprint hl key))
      (verify hl cx r (prefix @ key_id) key (Some identity_id)))))"

definition verify_account :: "http_lib \<Rightarrow> request_ctx \<Rightarrow> http_request \<Rightarrow> request_ctx handler" where
  "verify_account hl cx r =
    and_then (get_keyid hl r ''account'') (\<lambda>key_id.
    and_then (reads_one identity_account_key_table (\<lambda>k. ak_id k = key_id)) (\<lambda>account_key. case account_key of
      None \<Rightarrow> unauthorized ''Account does not exist'' None
    | Some account_key \<Rightarrow>
        if ak_is_revoked account_key
        then refuse_key cx (''account:'' @ key_id) ''revoked'' (ak_identity_id account_key) ''Account key is revoked''
        else seq (verify_stored_key hl cx r ''account:'' key_id (ak_public_key account_key)
            (ak_identity_id account_key))
          (ret (as_identity cx (ak_identity_id account_key)))))"

definition verify_session :: "http_lib \<Rightarrow> request_ctx \<Rightarrow> http_request \<Rightarrow> request_ctx handler" where
  "verify_session hl cx r =
    and_then (get_keyid hl r ''session'') (\<lambda>key_id.
    and_then (reads_one identity_session_key_table (\<lambda>k. sk_id k = key_id)) (\<lambda>session_key. case session_key of
      None \<Rightarrow> unauthorized ''Session does not exist'' None
    | Some session_key \<Rightarrow>
        let refuse = (\<lambda>reason t. refuse_key cx (''session:'' @ key_id) reason (sk_identity_id session_key) t)
        in if sk_is_revoked session_key then refuse ''revoked'' ''Session key is revoked''
        else if sk_logged_out_at session_key \<noteq> None then refuse ''logged-out'' ''Session key is logged out''
        else if sk_expires_at session_key \<le> cx_now cx then refuse ''expired'' ''Session key is expired''
        else seq (verify_stored_key hl cx r ''session:'' key_id (sk_public_key session_key)
            (sk_identity_id session_key))
          (ret (as_identity cx (sk_identity_id session_key)
            \<lparr>cx_active_role_id := sk_role_id session_key, cx_session_key_id := Some key_id\<rparr>))))"

end
