(* ===== verification/Auth_Http_Sig.thy ===== *)
theory Auth_Http_Sig
  imports Signature
begin

text \<open>
  \<open>api/endpoints/auth_http_sig.py\<close>: accepting an invitation and logging in. A request carries two
  signatures, one of the key that is known (of the invitation, of the account) and one of the new key.
  A problem response that is returned, not raised, commits what the request wrote.
\<close>

datatype reply = No_Content | Problem_Reply problem

definition already_accepted ::
    "http_lib \<Rightarrow> request_ctx \<Rightarrow> invitation_key \<Rightarrow> verifying_key \<Rightarrow> reply handler" where
  "already_accepted hl cx invitation account_key =
    (if ik_accepted_public_key_id invitation = Some (hl_thumbprint hl account_key) then ret No_Content
     else seq (denylist_create cx (hl_thumbprint hl account_key)
         [(''identity_invitation_id'', DStr (ik_id invitation))])
       (ret (Problem_Reply (problem_response 403 about_blank (Some ''Invitation was already accepted'') None))))"

definition store_account_key :: "http_lib \<Rightarrow> request_ctx \<Rightarrow> verifying_key \<Rightarrow> unit handler" where
  "store_account_key hl cx key = (case cx_identity_id cx of
     None \<Rightarrow> raising (IntegrityError ''identity_account_key'' ''identity_id'')
   | Some me \<Rightarrow> seq (creates identity_account_key_table (\<lambda>_. \<lparr>ak_id = hl_thumbprint hl key,
       ak_public_key = hl_key_dict hl key, ak_identity_id = me, ak_created_at = cx_now cx,
       ak_is_revoked = False, ak_revoked_at = None\<rparr>)) (ret ()))"

text \<open>The endpoint, in the context of the invitation that \<open>verify_invitation\<close> returned.\<close>

definition accept_invitation ::
    "crypto \<Rightarrow> http_lib \<Rightarrow> request_ctx \<Rightarrow> http_request \<Rightarrow> jwk \<Rightarrow> invitation_key \<Rightarrow> reply handler" where
  "accept_invitation cr hl cx r account_public_key invitation =
    and_then (lifting (hl_public_key hl account_public_key)) (\<lambda>key.
    let thumbprint = hl_thumbprint hl key in
    seq (enforce_key_is_allowed key)
    (seq (enforce_not_denied cx thumbprint)
    (seq (verify hl cx r (''account:'' @ thumbprint) key None)
    (if ik_is_accepted invitation then already_accepted hl cx invitation key
     else and_then (invitation_accept cx (ik_id invitation) thumbprint) (\<lambda>accepted.
       if \<not> accepted
       then and_then (invitation_read cr (ik_id invitation)) (\<lambda>current. case current of
           Some c \<Rightarrow> if ik_is_accepted c then already_accepted hl cx c key
             else ret (Problem_Reply (problem_response 403 about_blank (Some ''Invitation is no longer valid'') None))
         | None \<Rightarrow> ret (Problem_Reply (problem_response 403 about_blank (Some ''Invitation is no longer valid'') None)))
       else seq (store_account_key hl cx key) (ret No_Content))))))"

definition accept_invitation_endpoint ::
    "crypto \<Rightarrow> http_lib \<Rightarrow> request_ctx \<Rightarrow> http_request \<Rightarrow> jwk \<Rightarrow> reply handler" where
  "accept_invitation_endpoint cr hl cx r account_public_key =
    and_then (verify_invitation cr hl cx r) (\<lambda>(cx', invitation).
      accept_invitation cr hl cx' r account_public_key invitation)"

record login_response =
  lo_roles :: "(int \<times> string) list"
  lo_expires_at :: int

definition login_roles :: "request_ctx \<Rightarrow> app_db \<Rightarrow> (int \<times> string) list" where
  "login_roles cx db =
    (let members = table_read_all role_member_table (\<lambda>m. cx_identity_id cx = Some (rm_identity_id m)) db
     in map (\<lambda>r. (ro_id r, ro_name r)) (table_read_all role_table (\<lambda>r. ro_id r \<in> set (map rm_role_id members)) db))"

definition store_session_key :: "http_lib \<Rightarrow> request_ctx \<Rightarrow> http_request \<Rightarrow> verifying_key \<Rightarrow> unit handler" where
  "store_session_key hl cx r key = (case cx_identity_id cx of
     None \<Rightarrow> raising (IntegrityError ''identity_session_key'' ''identity_id'')
   | Some me \<Rightarrow> seq (creates identity_session_key_table (\<lambda>_. \<lparr>sk_id = hl_thumbprint hl key,
       sk_public_key = hl_key_dict hl key, sk_identity_id = me, sk_created_at = cx_now cx,
       sk_is_revoked = False, sk_revoked_at = None,
       sk_expires_at = cx_now cx + cf_session_duration_s (cx_config cx),
       sk_login_ip = rq_client_host r, sk_role_id = None, sk_logged_out_at = None\<rparr>)) (ret ()))"

definition login :: "http_lib \<Rightarrow> request_ctx \<Rightarrow> http_request \<Rightarrow> jwk \<Rightarrow> login_response handler" where
  "login hl cx r session_public_key =
    and_then (lifting (hl_public_key hl session_public_key)) (\<lambda>key.
    let thumbprint = hl_thumbprint hl key in
    seq (enforce_key_is_allowed key)
    (seq (enforce_not_denied cx thumbprint)
    (seq (verify hl cx r (''session:'' @ thumbprint) key None)
    (seq (store_session_key hl cx r key)
    (seq (audit_create cx SESSION_LOGIN []
        [(''identity_id'', opt_int (cx_identity_id cx)), (''session_key_id'', DStr thumbprint),
         (''login_ip'', opt_str (rq_client_host r)), (''method'', DStr ''http_sig'')])
    (and_then (reads (login_roles cx)) (\<lambda>roles.
      ret \<lparr>lo_roles = roles, lo_expires_at = cx_now cx + cf_session_duration_s (cx_config cx)\<rparr>)))))))"

definition login_endpoint :: "http_lib \<Rightarrow> request_ctx \<Rightarrow> http_request \<Rightarrow> jwk \<Rightarrow> login_response handler" where
  "login_endpoint hl cx r session_public_key =
    and_then (verify_account hl cx r) (\<lambda>cx'. login hl cx' r session_public_key)"

end
