(* ===== verification/Signature_Safety.thy ===== *)
theory Signature_Safety
  imports Auth_Http_Sig
begin

text \<open>
  What a verified request guarantees: the signature binds the method, the authority, the target and the
  body; a session that acts was stored, is in force and proved possession of its key; and no request is
  accepted twice.
\<close>

section \<open>The signature base\<close>

lemma collect_all2: "collect f xs = Inr ys \<Longrightarrow> list_all2 (\<lambda>x y. f x = Inr y) xs ys"
  by (induction xs arbitrary: ys) (auto split: sum.splits)

lemma all2_left: "list_all2 P xs ys \<Longrightarrow> x \<in> set xs \<Longrightarrow> \<exists>y\<in>set ys. P x y"
  by (induction rule: list_all2_induct) auto

lemma all2_right: "list_all2 P xs ys \<Longrightarrow> y \<in> set ys \<Longrightarrow> \<exists>x\<in>set xs. P x y"
  by (induction rule: list_all2_induct) auto

definition one_line :: "string \<Rightarrow> bool" where
  "one_line s \<longleftrightarrow> CHR 0x0A \<notin> set s"

text \<open>What an HTTP request and a parsed header cannot hold: line breaks in the values that are signed.\<close>

definition signable :: "http_request \<Rightarrow> string \<Rightarrow> bool" where
  "signable r sig_params \<longleftrightarrow> one_line (rq_method r) \<and> one_line (rq_netloc r) \<and> one_line (rq_url r) \<and>
    one_line sig_params \<and> (\<forall>v\<in>set_option (header_of r ''content-digest''). one_line v)"

lemma component_one_line:
  assumes "signable r p" and "c \<in> expected_covered" and "component_value r p c = Inr v"
  shows "one_line v"
  using assms by (auto simp: signable_def expected_covered_def component_value_def split: if_splits option.splits)

lemma covered_names: "c \<in> expected_covered \<Longrightarrow> CHR 0x22 \<notin> set c \<and> CHR 0x0A \<notin> set c"
  by (auto simp: expected_covered_def)

lemma quoted_same: "quoted c @ x = quoted d @ y \<Longrightarrow> CHR 0x22 \<notin> set c \<Longrightarrow> CHR 0x22 \<notin> set d \<Longrightarrow> c = d \<and> x = y"
  unfolding quoted_def by (auto simp: append_eq_append_conv2 Cons_eq_append_conv append_eq_Cons_conv)

lemma base_line_same:
  assumes "base_line r p c = Inr l" and "base_line r' p' c' = Inr l"
    and "c \<in> expected_covered" and "c' \<in> expected_covered"
  shows "c = c' \<and> component_value r p c = component_value r' p' c'"
proof -
  obtain v v' where v: "component_value r p c = Inr v" "component_value r' p' c' = Inr v'"
      "quoted c @ '': '' @ v = quoted c' @ '': '' @ v'"
    using assms(1,2) by (auto simp: base_line_def split: sum.splits)
  have "c = c' \<and> '': '' @ v = '': '' @ v'"
    using covered_names assms(3,4) by (intro quoted_same [OF v(3)]) blast+
  then show ?thesis using v by simp
qed

lemma base_lines:
  assumes "build_signature_base r i p = Inr base" and "set (in_items i) = expected_covered" and "signable r p"
  shows "list_all2 (\<lambda>c l. base_line r p c = Inr l) (in_items i) (split_on (CHR 0x0A) base)"
proof -
  obtain parts where parts: "list_all2 (\<lambda>c l. base_line r p c = Inr l) (in_items i) parts"
      "base = join_with [CHR 0x0A] parts"
    using assms(1) collect_all2 [of "base_line r p" "in_items i"]
    by (auto simp: build_signature_base_def split: sum.splits)
  have "expected_covered \<noteq> {}" by (simp add: expected_covered_def)
  then have "in_items i \<noteq> []" using assms(2) by (cases "in_items i") simp_all
  moreover have "CHR 0x0A \<notin> set l" if l: "l \<in> set parts" for l
  proof -
    obtain c where "c \<in> set (in_items i)" "base_line r p c = Inr l"
      using all2_right [OF parts(1) l] by blast
    then show ?thesis
      using assms(2) component_one_line [OF assms(3), of c] covered_names [of c]
      by (auto simp: base_line_def quoted_def one_line_def split: sum.splits)
  qed
  moreover have "parts \<noteq> [] \<longleftrightarrow> in_items i \<noteq> []" using list_all2_lengthD [OF parts(1)] by auto
  ultimately show ?thesis using parts split_join [of parts "CHR 0x0A"] by simp
qed

text \<open>
  C15. A signature binds the request. When the signature bases of two requests that cover the expected
  fields are the same text, the requests have the same method, authority, target URI and content digest
  and the same signature parameters (among them the nonce and the time), in whatever order each lists
  the fields. So a signature made for one request is worth nothing on another. Line breaks, which HTTP
  does not let into these values, are excluded.
\<close>

theorem signature_base_binds:
  assumes "build_signature_base r i p = Inr base" and "build_signature_base r' i' p' = Inr base"
    and "set (in_items i) = expected_covered" and "set (in_items i') = expected_covered"
    and "signable r p" and "signable r' p'"
  shows "rq_method r = rq_method r' \<and> rq_netloc r = rq_netloc r' \<and> rq_url r = rq_url r' \<and> p = p' \<and>
    header_of r ''content-digest'' = header_of r' ''content-digest''"
proof -
  note a = base_lines [OF assms(1,3,5)] and b = base_lines [OF assms(2,4,6)]
  have same: "component_value r p c = component_value r' p' c" if c: "c \<in> expected_covered" for c
  proof -
    obtain l where l: "l \<in> set (split_on (CHR 0x0A) base)" "base_line r p c = Inr l"
      using all2_left [OF a, of c] c unfolding assms(3) by blast
    obtain c' where "c' \<in> set (in_items i')" "base_line r' p' c' = Inr l"
      using all2_right [OF b l(1)] by blast
    then show ?thesis using base_line_same [OF l(2), of r' p' c'] c unfolding assms(4) by metis
  qed
  have vals: "component_value q x ''@method'' = Inr (rq_method q)" "component_value q x ''@authority'' = Inr (rq_netloc q)"
      "component_value q x ''@target-uri'' = Inr (rq_url q)" "component_value q x ''@signature-params'' = Inr x"
      "component_value q x ''content-digest'' = (case header_of q ''content-digest'' of
        None \<Rightarrow> Inl KeyError | Some v \<Rightarrow> Inr v)" for q x
    by (simp_all add: component_value_def)
  have names: "''@method'' \<in> expected_covered" "''@authority'' \<in> expected_covered" "''@target-uri'' \<in> expected_covered"
      "''@signature-params'' \<in> expected_covered" "''content-digest'' \<in> expected_covered"
    by (simp_all add: expected_covered_def)
  show ?thesis
    using same [OF names(1)] same [OF names(2)] same [OF names(3)] same [OF names(4)] same [OF names(5)]
    by (simp only: vals) (auto split: option.splits)
qed

section \<open>A signature that passes\<close>

text \<open>What \<open>verify\<close> has checked when it returns, apart from the nonce.\<close>

definition signed_by :: "http_lib \<Rightarrow> int \<Rightarrow> http_request \<Rightarrow> string \<Rightarrow> verifying_key \<Rightarrow> found_signature \<Rightarrow> bool" where
  "signed_by hl now r key_id key fs \<longleftrightarrow>
    find_signature hl now r key_id = Inr fs \<and>
    (\<exists>sig base. map_of (fs_items fs) (fs_label fs) = Some sig \<and>
      build_signature_base r (fs_inner fs) (hl_show_inner hl (fs_inner fs)) = Inr base \<and>
      check_signature hl key base sig = Good) \<and>
    set (in_items (fs_inner fs)) = expected_covered"

lemma audit_rejection_fails: "seq (audit_known cx k reason i) (raising e) w \<noteq> (Inr x, w')"
  by (simp add: seq_Inr raising_Inr)

definition verify_with ::
    "http_lib \<Rightarrow> request_ctx \<Rightarrow> found_signature \<Rightarrow> string \<Rightarrow> verifying_key \<Rightarrow> int option \<Rightarrow> sfv_value \<Rightarrow> string \<Rightarrow> unit handler" where
  "verify_with hl cx fs key_id key i sig base = (case check_signature hl key base sig of
          Wrong_Type \<Rightarrow> raising TypeError
        | Unsupported \<Rightarrow> raising (bad ''Unsupported key type'' (Some key_id))
        | Bad_Signature \<Rightarrow> seq (audit_known cx key_id ''invalid-signature'' i)
            (raising (bad ''Invalid signature'' (Some key_id)))
        | Good \<Rightarrow>
            if set (in_items (fs_inner fs)) \<noteq> expected_covered
            then raising (bad ''Signature does not cover the expected fields'' (Some ''''))
            else and_then (spend_nonce key_id (fs_nonce fs) (cx_now cx) (fs_created fs)) (\<lambda>fresh.
              if fresh then ret ()
              else seq (audit_known cx key_id ''replayed'' i)
                (raising (bad ''Signature nonce has already been used'' (Some key_id)))))"

lemma verify_Inr:
  "verify hl cx r key_id key i w = (Inr (), w') \<longleftrightarrow>
    (\<exists>fs. signed_by hl (cx_now cx) r key_id key fs \<and>
      (\<exists>ns. check_and_add (w_nonces w) key_id (fs_nonce fs) (cx_now cx) (fs_created fs) = (True, ns) \<and>
        w' = w\<lparr>w_nonces := ns\<rparr>))"
  (is "?L \<longleftrightarrow> ?R")
proof
  assume ?L
  then obtain fs where fs: "find_signature hl (cx_now cx) r key_id = Inr fs" and rest: "(case map_of (fs_items fs) (fs_label fs) of
        None \<Rightarrow> raising (bad ''Unable to find label in Signature'' (Some (fs_label fs)))
      | Some sig \<Rightarrow> and_then (lifting (build_signature_base r (fs_inner fs) (hl_show_inner hl (fs_inner fs))))
          (verify_with hl cx fs key_id key i sig)) w = (Inr (), w')"
    unfolding verify_def verify_with_def [abs_def] by (auto simp only: and_then_Inr lifting_Inr)
  then obtain sig base where sig: "map_of (fs_items fs) (fs_label fs) = Some sig"
      "build_signature_base r (fs_inner fs) (hl_show_inner hl (fs_inner fs)) = Inr base"
      and rest: "verify_with hl cx fs key_id key i sig base w = (Inr (), w')"
    by (cases "map_of (fs_items fs) (fs_label fs)") (auto simp: and_then_Inr lifting_Inr raising_Inr)
  have good: "check_signature hl key base sig = Good"
    using rest by (cases "check_signature hl key base sig") (auto simp: verify_with_def raising_Inr seq_Inr)
  have covered: "set (in_items (fs_inner fs)) = expected_covered"
    using rest good by (auto simp: verify_with_def raising_Inr split: if_splits)
  then show ?R
    using fs sig good rest
    by (auto simp: verify_with_def signed_by_def and_then_Inr spend_nonce_def raising_Inr seq_Inr ret_Inr
        split: prod.splits if_splits)
next
  assume ?R
  then obtain fs sig base ns where "find_signature hl (cx_now cx) r key_id = Inr fs"
      "map_of (fs_items fs) (fs_label fs) = Some sig"
      "build_signature_base r (fs_inner fs) (hl_show_inner hl (fs_inner fs)) = Inr base"
      "check_signature hl key base sig = Good" "set (in_items (fs_inner fs)) = expected_covered"
      "check_and_add (w_nonces w) key_id (fs_nonce fs) (cx_now cx) (fs_created fs) = (True, ns)" "w' = w\<lparr>w_nonces := ns\<rparr>"
    unfolding signed_by_def by blast
  then show ?L by (simp add: verify_def and_then_def lifting_def ret_def spend_nonce_def)
qed

lemma audit_known_nonces: "keeps (\<lambda>w. w_nonces w = ns) (audit_known cx k reason i)"
  by (auto simp: audit_known_def audit_rejection_def create_after_rollback_def after_rollback_def Let_def
      intro!: keeps_changing keeps_rules split: option.split prod.split)

text \<open>Whatever the outcome, the store is the old one or that of the check.\<close>

lemma verify_nonces:
  assumes "verify hl cx r key_id key i w = (res, w')"
  shows "w_nonces w' = w_nonces w \<or> (\<exists>fs. find_signature hl (cx_now cx) r key_id = Inr fs \<and>
    w_nonces w' = snd (check_and_add (w_nonces w) key_id (fs_nonce fs) (cx_now cx) (fs_created fs)))"
proof -
  have bad: "w_nonces v' = w_nonces v" if "seq (audit_known cx key_id reason i) (raising e) v = (q, v')" for reason e v q v'
    using keepsD [OF keeps_seq [OF audit_known_nonces keeps_raising] that] by simp
  show ?thesis
    using assms unfolding verify_def
    by (auto simp: and_then_def lifting_def raising_def ret_def spend_nonce_def
        split: sum.splits option.splits checked.splits if_splits prod.splits dest!: bad [unfolded raising_def])
qed

lemma signature_params_created:
  "signature_params now k label inner items = Inr fs \<Longrightarrow>
    fs_created fs \<le> now + MAX_FUTURE_SKEW_SECONDS \<and> now - fs_created fs \<le> FRESHNESS_WINDOW_SECONDS"
  by (auto simp: signature_params_def split: option.splits sfv_value.splits if_splits)

lemma find_signature_params:
  assumes "find_signature hl now r k = Inr fs"
  shows "\<exists>label inner items. signature_params now k label inner items = Inr fs \<and>
    (\<forall>now'. find_signature hl now' r k = signature_params now' k label inner items) \<and>
    header_of r ''Content-Digest'' = Some (hl_digest hl (rq_body r))"
proof -
  obtain sig input keys items label inner where
      "header_of r ''Content-Digest'' = Some (hl_digest hl (rq_body r))" "header_of r ''Signature'' = Some sig"
      "header_of r ''Signature-Input'' = Some input" "parse_signature_input hl input = Inr keys"
      "parse_signature hl sig = Inr items"
      "map_of (dict_rows (\<lambda>(label, keyid, inner). keyid) (\<lambda>(label, keyid, inner). (label, inner)) keys) k = Some (label, inner)"
      "signature_params now k label inner items = Inr fs"
    using assms unfolding find_signature_def by (auto split: option.splits if_splits sum.splits)
  then show ?thesis
    by (intro exI [of _ label] exI [of _ inner] exI [of _ items]) (simp add: find_signature_def)
qed

lemma find_signature_fresh:
  "find_signature hl now r k = Inr fs \<Longrightarrow>
    fs_created fs \<le> now + MAX_FUTURE_SKEW_SECONDS \<and> now - fs_created fs \<le> FRESHNESS_WINDOW_SECONDS"
  using find_signature_params signature_params_created by blast

lemma find_signature_same:
  assumes "find_signature hl now r k = Inr fs" and "find_signature hl now' r k = Inr fs'"
  shows "fs' = fs"
proof -
  obtain label inner items where "signature_params now k label inner items = Inr fs"
      "signature_params now' k label inner items = Inr fs'"
    using find_signature_params [OF assms(1)] assms(2) by auto
  then show ?thesis by (auto simp: signature_params_def split: option.splits sfv_value.splits if_splits)
qed

section \<open>No request is accepted twice\<close>

record verification =
  ve_cx :: request_ctx
  ve_request :: http_request
  ve_key_id :: string
  ve_key :: verifying_key
  ve_audit :: "int option"

definition run_verification :: "http_lib \<Rightarrow> verification \<Rightarrow> unit handler" where
  "run_verification hl v = verify hl (ve_cx v) (ve_request v) (ve_key_id v) (ve_key v) (ve_audit v)"

text \<open>The outcomes of a sequence of verifications by one process.\<close>

fun accepted :: "http_lib \<Rightarrow> verification list \<Rightarrow> world \<Rightarrow> bool list" where
  "accepted hl [] w = []"
| "accepted hl (v # vs) w = (case run_verification hl v w of (res, w') \<Rightarrow> (\<not> isl res) # accepted hl vs w')"

lemma seen_kept:
  assumes "map_of (ns_seen (w_nonces w)) e = Some x" and "cx_now (ve_cx v) \<le> x"
    and "run_verification hl v w = (res, w')"
  shows "map_of (ns_seen (w_nonces w')) e = Some x"
  using verify_nonces [OF assms(3) [unfolded run_verification_def]] assms(1)
    step_keeps_entry [OF assms(1), of "\<lparr>nc_key = ve_key_id v, nc_nonce = n, nc_now = cx_now (ve_cx v), nc_created = c\<rparr>" for n c]
    assms(2) by (auto simp: nonce_step_def)

lemma not_isl_unit: "\<not> isl r \<Longrightarrow> r = Inr ()"
  by (cases r) auto

lemma seen_refused:
  assumes "find_signature hl now (ve_request v) (ve_key_id v) = Inr fs"
    and "map_of (ns_seen (w_nonces w)) (ve_key_id v, fs_nonce fs) = Some (fs_created fs + FRESHNESS_WINDOW_SECONDS)"
  shows "isl (fst (run_verification hl v w))"
proof (rule ccontr)
  assume "\<not> isl (fst (run_verification hl v w))"
  then obtain w' where "run_verification hl v w = (Inr (), w')" by (cases "run_verification hl v w") (auto dest: not_isl_unit)
  then obtain fs' ns where v: "find_signature hl (cx_now (ve_cx v)) (ve_request v) (ve_key_id v) = Inr fs'"
      "check_and_add (w_nonces w) (ve_key_id v) (fs_nonce fs') (cx_now (ve_cx v)) (fs_created fs') = (True, ns)"
    by (auto simp: run_verification_def verify_Inr signed_by_def)
  have "fs' = fs" by (rule find_signature_same [OF assms(1) v(1)])
  then show False
    using v step_refuses_seen [of "w_nonces w" "\<lparr>nc_key = ve_key_id v, nc_nonce = fs_nonce fs,
        nc_now = cx_now (ve_cx v), nc_created = fs_created fs\<rparr>"] assms(2) find_signature_fresh [OF v(1)]
    by (auto simp: nonce_step_def)
qed

lemma accepted_length [simp]: "length (accepted hl vs w) = length vs"
  by (induction vs arbitrary: w) (auto split: prod.split)

lemma run_accepted: "\<not> isl (fst (run_verification hl v w)) \<Longrightarrow> \<exists>w'. run_verification hl v w = (Inr (), w')"
  by (cases "run_verification hl v w") (auto dest: not_isl_unit)

lemma accepted_run: "j < length vs \<Longrightarrow> accepted hl vs w ! j \<Longrightarrow> \<exists>u u'. run_verification hl (vs ! j) u = (Inr (), u')"
proof (induction vs arbitrary: w j)
  case (Cons v vs)
  obtain res w1 where run: "run_verification hl v w = (res, w1)" by fastforce
  show ?case
  proof (cases j)
    case 0
    then show ?thesis using Cons.prems run run_accepted [of hl v w] by auto
  next
    case (Suc i)
    then show ?thesis using Cons.IH [of i w1] Cons.prems run by auto
  qed
qed simp

lemma accepted_later:
  assumes "find_signature hl now r k = Inr fs"
    and "map_of (ns_seen (w_nonces w)) (k, fs_nonce fs) = Some (fs_created fs + FRESHNESS_WINDOW_SECONDS)"
    and "sorted (map (\<lambda>v. cx_now (ve_cx v)) vs)"
    and "j < length vs" and "ve_request (vs ! j) = r" and "ve_key_id (vs ! j) = k"
  shows "\<not> accepted hl vs w ! j"
  using assms(2-6)
proof (induction vs arbitrary: w j)
  case (Cons v vs)
  obtain res w1 where run: "run_verification hl v w = (res, w1)" by fastforce
  show ?case
  proof (cases j)
    case 0
    then have "find_signature hl now (ve_request v) (ve_key_id v) = Inr fs" using Cons.prems assms(1) by simp
    then show ?thesis using seen_refused [of hl now v fs w] Cons.prems 0 run by simp
  next
    case (Suc i)
    show ?thesis
    proof (cases "cx_now (ve_cx v) \<le> fs_created fs + FRESHNESS_WINDOW_SECONDS")
      case True
      then show ?thesis
        using Cons.IH [of w1 i] seen_kept [OF Cons.prems(1) True run] Cons.prems(2-5) Suc run by simp
    next
      case False
      have "cx_now (ve_cx v) \<le> cx_now (ve_cx (vs ! i))" using Cons.prems(2,3) Suc by simp
      then have late: "cx_now (ve_cx (vs ! i)) > fs_created fs + FRESHNESS_WINDOW_SECONDS" using False by simp
      show ?thesis
      proof
        assume "accepted hl (v # vs) w ! j"
        then have "accepted hl vs w1 ! i" using Suc run by simp
        then obtain u u' where "run_verification hl (vs ! i) u = (Inr (), u')"
          using accepted_run [of i vs hl w1] Cons.prems(3) Suc by auto
        then obtain fs' where fs': "find_signature hl (cx_now (ve_cx (vs ! i))) r k = Inr fs'"
          using Cons.prems(4,5) Suc by (auto simp: run_verification_def verify_Inr signed_by_def)
        then show False
          using find_signature_same [OF assms(1) fs'] find_signature_fresh [OF fs'] late by simp
      qed
    qed
  qed
qed simp

lemma window_seconds_kept [simp]: "ns_window_seconds (snd (check_and_add ns k n t c)) = ns_window_seconds ns"
  by (simp add: check_and_add_def Let_def)

lemma window_kept:
  "run_verification hl v w = (res, w') \<Longrightarrow> ns_window_seconds (w_nonces w') = ns_window_seconds (w_nonces w)"
proof -
  assume "run_verification hl v w = (res, w')"
  then have run: "verify hl (ve_cx v) (ve_request v) (ve_key_id v) (ve_key v) (ve_audit v) w = (res, w')"
    unfolding run_verification_def .
  show ?thesis using verify_nonces [OF run] by (elim disjE exE conjE) simp_all
qed

text \<open>
  C3. No request is accepted twice. In any sequence of verifications by one process whose clock does not
  go back, whatever keys, requests and outcomes are in between, a signed request that was accepted for a
  key is refused whenever it comes again: while its nonce is remembered it is a replay, and afterwards
  its signature is too old.
\<close>

theorem request_accepted_once:
  assumes "sorted (map (\<lambda>v. cx_now (ve_cx v)) vs)" and "i < j" and "j < length vs"
    and "ve_request (vs ! j) = ve_request (vs ! i)" and "ve_key_id (vs ! j) = ve_key_id (vs ! i)"
    and "ns_window_seconds (w_nonces w) = FRESHNESS_WINDOW_SECONDS"
    and "accepted hl vs w ! i"
  shows "\<not> accepted hl vs w ! j"
  using assms
proof (induction vs arbitrary: w i j)
  case (Cons v vs)
  obtain j' where j: "j = Suc j'" using Cons.prems(2) by (cases j) auto
  obtain res w1 where run: "run_verification hl v w = (res, w1)" by fastforce
  show ?case
  proof (cases i)
    case 0
    then have "run_verification hl v w = (Inr (), w1)" using Cons.prems(7) run run_accepted [of hl v w] by auto
    then obtain fs ns where fs: "find_signature hl (cx_now (ve_cx v)) (ve_request v) (ve_key_id v) = Inr fs"
        "check_and_add (w_nonces w) (ve_key_id v) (fs_nonce fs) (cx_now (ve_cx v)) (fs_created fs) = (True, ns)"
        "w1 = w\<lparr>w_nonces := ns\<rparr>"
      by (auto simp: run_verification_def verify_Inr signed_by_def)
    have "map_of (ns_seen (w_nonces w1)) (ve_key_id v, fs_nonce fs) = Some (fs_created fs + FRESHNESS_WINDOW_SECONDS)"
      using step_accepts(1) [of "w_nonces w" "\<lparr>nc_key = ve_key_id v, nc_nonce = fs_nonce fs,
          nc_now = cx_now (ve_cx v), nc_created = fs_created fs\<rparr>"] fs(2,3) Cons.prems(6)
      by (simp add: nonce_step_def)
    then show ?thesis
      using accepted_later [OF fs(1), of w1 vs j'] Cons.prems 0 j run by simp
  next
    case (Suc i')
    then show ?thesis
      using Cons.IH [of i' j' w1] Cons.prems j run window_kept [OF run] by simp
  qed
qed simp

section \<open>Whose session\<close>

lemma and_then_reads_one: "and_then (reads_one td p) f w = f (List.find p (tb_rows (td_get td (w_db w)))) w"
  by (simp add: and_then_def reads_one_def reads_run table_read_one_def)

lemma stored_key_Inr:
  "verify_stored_key hl cx r prefix key_id pk i w = (Inr (), w') \<longleftrightarrow>
    (\<exists>key. hl_public_key hl pk = Inr key \<and> vk_type key = ED25519 \<and> hl_thumbprint hl key = key_id \<and>
      (\<forall>d\<in>set (tb_rows (db_public_key_denylist (w_db w))). dl_key_id d \<noteq> key_id) \<and>
      verify hl cx r (prefix @ key_id) key (Some i) w = (Inr (), w'))"
  by (auto simp: verify_stored_key_def and_then_Inr lifting_Inr seq_Inr enforce_key_is_allowed_def reject_def
      raising_Inr ret_Inr ensure_def unless_raise_Inr enforce_not_denied_def reads_one_def reads_run
      table_read_one_def find_None_iff public_key_denylist_table_def split: if_splits option.splits)

text \<open>
  C2. Whose session. When \<open>verify_session\<close> lets a request in, the session table has a row with the key id
  of the signature that is neither revoked nor logged out nor expired; its key is an Ed25519 key with
  that thumbprint and not on the denylist; the request carries a fresh signature by that key over the
  method, authority, target, body digest and parameters; and the handler runs as the identity and with
  the role of that row. Only the nonce store has changed.
\<close>

theorem session_authenticated:
  assumes "verify_session hl cx r w = (Inr cx', w')"
  shows "\<exists>row key fs. row \<in> set (tb_rows (db_identity_session_key (w_db w))) \<and>
    \<not> sk_is_revoked row \<and> sk_logged_out_at row = None \<and> cx_now cx < sk_expires_at row \<and>
    hl_public_key hl (sk_public_key row) = Inr key \<and> vk_type key = ED25519 \<and> hl_thumbprint hl key = sk_id row \<and>
    (\<forall>d\<in>set (tb_rows (db_public_key_denylist (w_db w))). dl_key_id d \<noteq> sk_id row) \<and>
    signed_by hl (cx_now cx) r (''session:'' @ sk_id row) key fs \<and>
    cx' = cx\<lparr>cx_identity_id := Some (sk_identity_id row), cx_active_role_id := sk_role_id row,
      cx_session_key_id := Some (sk_id row)\<rparr> \<and>
    (\<exists>ns. w' = w\<lparr>w_nonces := ns\<rparr>)"
proof -
  have keyid: "\<And>P. keeps P (get_keyid hl r ''session'')"
    unfolding get_keyid_def unauthorized_def reject_def
    by (auto intro!: keeps_rules split: option.splits prod.splits)
  obtain k where k: "(case List.find (\<lambda>s. sk_id s = k) (tb_rows (db_identity_session_key (w_db w))) of
      None \<Rightarrow> unauthorized ''Session does not exist'' None
    | Some session_key \<Rightarrow>
        let refuse = (\<lambda>reason t. refuse_key cx (''session:'' @ k) reason (sk_identity_id session_key) t)
        in if sk_is_revoked session_key then refuse ''revoked'' ''Session key is revoked''
        else if sk_logged_out_at session_key \<noteq> None then refuse ''logged-out'' ''Session key is logged out''
        else if sk_expires_at session_key \<le> cx_now cx then refuse ''expired'' ''Session key is expired''
        else seq (verify_stored_key hl cx r ''session:'' k (sk_public_key session_key)
            (sk_identity_id session_key))
          (ret (as_identity cx (sk_identity_id session_key)
            \<lparr>cx_active_role_id := sk_role_id session_key, cx_session_key_id := Some k\<rparr>))) w = (Inr cx', w')"
    using assms unfolding verify_session_def and_then_read [OF keyid] and_then_reads_one
    by (elim exE conjE) (intro that; simp only: identity_session_key_table_def table_def.simps)
  obtain row where row: "List.find (\<lambda>s. sk_id s = k) (tb_rows (db_identity_session_key (w_db w))) = Some row"
    using k by (cases "List.find (\<lambda>s. sk_id s = k) (tb_rows (db_identity_session_key (w_db w)))")
      (auto simp: unauthorized_def reject_def raising_Inr)
  have "row \<in> set (tb_rows (db_identity_session_key (w_db w)))" "sk_id row = k"
    using row by (auto simp: find_Some_iff)
  moreover have live: "\<not> sk_is_revoked row" "sk_logged_out_at row = None" "cx_now cx < sk_expires_at row"
    using k row by (auto simp: Let_def refuse_key_def unauthorized_def reject_def seq_Inr raising_Inr split: if_splits)
  moreover have "verify_stored_key hl cx r ''session:'' k (sk_public_key row) (sk_identity_id row) w = (Inr (), w')"
      "cx' = as_identity cx (sk_identity_id row)\<lparr>cx_active_role_id := sk_role_id row, cx_session_key_id := Some k\<rparr>"
    using k row live by (simp_all add: Let_def seq_Inr ret_Inr)
  ultimately show ?thesis
    unfolding stored_key_Inr verify_Inr as_identity_def by blast
qed

section \<open>A sample\<close>

text \<open>A library in which a signature is the signed text itself, and two parsed headers.\<close>

definition sample_inner :: inner_list where
  "sample_inner = \<lparr>in_items = [''@method'', ''@authority'', ''@target-uri'', ''@signature-params'', ''content-digest''],
    in_params = [(''keyid'', SfvStr ''session:k1''), (''nonce'', SfvStr ''n1''), (''created'', SfvInt 990)]\<rparr>"

definition sample_key :: verifying_key where
  "sample_key = \<lparr>vk_type = ED25519, vk_material = ''k1''\<rparr>"

definition sample_request :: http_request where
  "sample_request = \<lparr>rq_method = ''POST'', rq_netloc = ''pf.example'', rq_url = ''https://pf.example/tag'',
    rq_headers = [(''content-digest'', ''d''), (''signature-input'', ''i''), (''signature'', ''s'')],
    rq_body = '''', rq_client_host = None\<rparr>"

definition sample_base :: string where
  "sample_base = (case build_signature_base sample_request sample_inner ''p'' of Inr b \<Rightarrow> b | Inl _ \<Rightarrow> '''')"

definition sample_lib :: http_lib where
  "sample_lib = \<lparr>hl_parse_input = (\<lambda>_. Inr [(''pf'', Some sample_inner)]),
    hl_parse_signature = (\<lambda>_. Inr [(''pf'', Some (SfvBytes sample_base))]), hl_show_inner = (\<lambda>_. ''p''),
    hl_digest = (\<lambda>_. ''d''), hl_hmac = (\<lambda>_ base. base), hl_ed25519 = (\<lambda>_ base sig. base = sig),
    hl_p256 = (\<lambda>_ base sig. base = sig), hl_public_key = (\<lambda>_. Inr sample_key), hl_thumbprint = vk_material,
    hl_key_dict = vk_material\<rparr>"

definition sample_session :: session_key_row where
  "sample_session = \<lparr>sk_id = ''k1'', sk_public_key = ''jwk'', sk_identity_id = 3, sk_created_at = 900,
    sk_is_revoked = False, sk_revoked_at = None, sk_expires_at = 2000, sk_login_ip = None, sk_role_id = Some 5,
    sk_logged_out_at = None\<rparr>"

definition session_world :: world where
  "session_world = empty_world\<lparr>w_db := empty_db\<lparr>db_identity_session_key :=
    \<lparr>tb_rows = [sample_session], tb_seq = 1\<rparr>\<rparr>\<rparr>"

definition sample_verification :: "int \<Rightarrow> verification" where
  "sample_verification now = \<lparr>ve_cx = sample_cx\<lparr>cx_now := now\<rparr>, ve_request = sample_request,
    ve_key_id = ''session:k1'', ve_key = sample_key, ve_audit = Some 3\<rparr>"

lemma sample_request_signable: "signable sample_request ''p''"
  by code_simp

lemma sample_base_built: "build_signature_base sample_request sample_inner ''p'' = Inr sample_base"
  by code_simp

lemma sample_covers: "set (in_items sample_inner) = expected_covered"
  by (auto simp: sample_inner_def expected_covered_def)

lemma proxied_base_built:
  "build_signature_base (sample_request\<lparr>rq_client_host := Some ''proxy''\<rparr>) sample_inner ''p'' = Inr sample_base \<and>
    signable (sample_request\<lparr>rq_client_host := Some ''proxy''\<rparr>) ''p''"
  by code_simp

theorem signature_base_binds_witness:
  "rq_method sample_request = rq_method (sample_request\<lparr>rq_client_host := Some ''proxy''\<rparr>) \<and>
    header_of sample_request ''content-digest'' =
      header_of (sample_request\<lparr>rq_client_host := Some ''proxy''\<rparr>) ''content-digest''"
  using signature_base_binds [OF sample_base_built _ sample_covers sample_covers sample_request_signable]
    proxied_base_built by blast

lemma sample_accepted: "accepted sample_lib (map sample_verification [1000, 1001, 2000]) session_world = [True, False, False]"
  by code_simp

theorem request_accepted_once_witness:
  "accepted sample_lib (map sample_verification [1000, 1001, 2000]) session_world = [True, False, False] \<and>
    \<not> accepted sample_lib (map sample_verification [1000, 1001, 2000]) session_world ! 1"
  using sample_accepted request_accepted_once [of "map sample_verification [1000, 1001, 2000]" 0 1 session_world sample_lib]
  by (simp add: sample_verification_def session_world_def empty_world_def new_nonce_store_def FRESHNESS_WINDOW_SECONDS_def)

lemma sample_let_in: "\<exists>w'. verify_session sample_lib sample_cx sample_request session_world =
    (Inr (sample_cx\<lparr>cx_identity_id := Some 3, cx_active_role_id := Some 5, cx_session_key_id := Some ''k1''\<rparr>), w')"
proof -
  have "fst (verify_session sample_lib sample_cx sample_request session_world) =
      Inr (sample_cx\<lparr>cx_identity_id := Some 3, cx_active_role_id := Some 5, cx_session_key_id := Some ''k1''\<rparr>)"
    by code_simp
  then show ?thesis by (metis prod.collapse)
qed

theorem session_authenticated_witness:
  "\<exists>key fs. vk_type key = ED25519 \<and> signed_by sample_lib 1000 sample_request ''session:k1'' key fs"
proof -
  obtain w' where run: "verify_session sample_lib sample_cx sample_request session_world =
      (Inr (sample_cx\<lparr>cx_identity_id := Some 3, cx_active_role_id := Some 5, cx_session_key_id := Some ''k1''\<rparr>), w')"
    using sample_let_in by blast
  show ?thesis
    using session_authenticated [OF run]
    by (auto simp: session_world_def sample_session_def sample_cx_def)
qed

end
