(* ===== verification/Spending.thy ===== *)
theory Spending
  imports Session_Endpoints
begin

text \<open>
  What concurrent requests may spend only once: an invitation, the role of a session, a serial number of
  a signing key. Each of the three operations reads a row and then changes it with an update that is
  conditional on what it read; other requests run between the two statements. Here a race is any
  interleaving of such pairs of statements with statements of other requests (with isolation level
  READ COMMITTED an update works on the last committed row and holds it until its transaction ends, so
  the statements that follow it in its transaction count as one with it; a transaction that is rolled
  back leaves no trace). The locale \<open>claiming\<close> is the contract of the conditional updates: an update
  that reports success takes what it claims out of what is free.
\<close>

section \<open>Races\<close>

datatype 'v phase = Waiting | Seen 'v | Finished 'v bool

inductive race ::
    "('op \<Rightarrow> 'db \<Rightarrow> 'v) \<Rightarrow> ('op \<Rightarrow> 'v \<Rightarrow> 'db \<Rightarrow> bool \<times> 'db) \<Rightarrow> ('db \<Rightarrow> 'db \<Rightarrow> bool) \<Rightarrow> 'op list \<Rightarrow> 'db \<Rightarrow>
      'db \<Rightarrow> 'v phase list \<Rightarrow> bool"
  for view :: "'op \<Rightarrow> 'db \<Rightarrow> 'v" and attempt :: "'op \<Rightarrow> 'v \<Rightarrow> 'db \<Rightarrow> bool \<times> 'db"
    and others :: "'db \<Rightarrow> 'db \<Rightarrow> bool" and ops :: "'op list" and db0 :: 'db where
  start: "race view attempt others ops db0 db0 (replicate (length ops) Waiting)"
| look: "race view attempt others ops db0 db ph \<Longrightarrow> j < length ops \<Longrightarrow> ph ! j = Waiting \<Longrightarrow>
    race view attempt others ops db0 db (ph[j := Seen (view (ops ! j) db)])"
| act: "race view attempt others ops db0 db ph \<Longrightarrow> j < length ops \<Longrightarrow> ph ! j = Seen v \<Longrightarrow>
    attempt (ops ! j) v db = (won, db') \<Longrightarrow> race view attempt others ops db0 db' (ph[j := Finished v won])"
| other: "race view attempt others ops db0 db ph \<Longrightarrow> others db db' \<Longrightarrow> race view attempt others ops db0 db' ph"

lemma race_length: "race view attempt others ops db0 db ph \<Longrightarrow> length ph = length ops"
  by (induction rule: race.induct) simp_all

text \<open>A value that a request acts on is one that it read.\<close>

lemma race_seen:
  assumes "race view attempt others ops db0 db ph" and "j < length ops"
    and "ph ! j = Seen v \<or> ph ! j = Finished v b"
  shows "\<exists>d. v = view (ops ! j) d"
  using assms
proof (induction arbitrary: v b rule: race.induct)
  case (look db ph i)
  then show ?case using race_length [OF look.hyps(1)] by (cases "i = j") auto
next
  case (act db ph i v' won db')
  then show ?case using race_length [OF act.hyps(1)] by (cases "i = j") auto
qed simp_all

lemma race_won:
  assumes "race view attempt others ops db0 db ph" and "j < length ops" and "ph ! j = Finished v b"
  shows "\<exists>d d'. attempt (ops ! j) v d = (b, d')"
  using assms
proof (induction arbitrary: v b rule: race.induct)
  case (look db ph i)
  then show ?case using race_length [OF look.hyps(1)] by (cases "i = j") auto
next
  case (act db ph i v' won db')
  then show ?case using race_length [OF act.hyps(1)] by (cases "i = j") auto
qed simp_all

text \<open>A scheduler: the calls whose turn it is, one statement each.\<close>

fun schedule ::
    "('op \<Rightarrow> 'db \<Rightarrow> 'v) \<Rightarrow> ('op \<Rightarrow> 'v \<Rightarrow> 'db \<Rightarrow> bool \<times> 'db) \<Rightarrow> 'op list \<Rightarrow> nat list \<Rightarrow> 'db \<times> 'v phase list \<Rightarrow>
      'db \<times> 'v phase list" where
  "schedule view attempt ops [] s = s"
| "schedule view attempt ops (j # js) (db, ph) = schedule view attempt ops js (case ph ! j of
     Waiting \<Rightarrow> (db, ph[j := Seen (view (ops ! j) db)])
   | Seen v \<Rightarrow> (let (won, db') = attempt (ops ! j) v db in (db', ph[j := Finished v won]))
   | Finished v won \<Rightarrow> (db, ph))"

lemma schedule_race:
  assumes "race view attempt others ops db0 db ph" and "\<forall>j\<in>set js. j < length ops"
    and "schedule view attempt ops js (db, ph) = (db', ph')"
  shows "race view attempt others ops db0 db' ph'"
  using assms
proof (induction js arbitrary: db ph)
  case (Cons j js)
  show ?case
  proof (cases "ph ! j")
    case Waiting
    then show ?thesis using Cons.IH [OF race.look [OF Cons.prems(1) _ Waiting]] Cons.prems(2,3) by simp
  next
    case (Seen v)
    obtain won d where run: "attempt (ops ! j) v db = (won, d)" by fastforce
    show ?thesis using Cons.IH [OF race.act [OF Cons.prems(1) _ Seen run]] Cons.prems(2,3) Seen run by simp
  next
    case Finished
    then show ?thesis using Cons.IH [OF Cons.prems(1)] Cons.prems(2,3) by simp
  qed
qed simp

locale claiming =
  fixes view :: "'op \<Rightarrow> 'db \<Rightarrow> 'v"
    and attempt :: "'op \<Rightarrow> 'v \<Rightarrow> 'db \<Rightarrow> bool \<times> 'db"
    and free :: "'db \<Rightarrow> 'c set"
    and ok :: "'db \<Rightarrow> bool"
    and claims :: "'op \<Rightarrow> 'v \<Rightarrow> 'c set"
  assumes wins: "ok db \<Longrightarrow> attempt op v db = (True, db') \<Longrightarrow>
      ok db' \<and> claims op v \<subseteq> free db \<and> free db' \<subseteq> free db - claims op v"
    and loses: "ok db \<Longrightarrow> attempt op v db = (False, db') \<Longrightarrow> ok db' \<and> free db' \<subseteq> free db"
begin

definition taken :: "'op list \<Rightarrow> 'v phase list \<Rightarrow> nat \<Rightarrow> 'c set" where
  "taken ops ph i = (case ph ! i of Finished v True \<Rightarrow> claims (ops ! i) v | _ \<Rightarrow> {})"

lemma taken_other: "i \<noteq> j \<Longrightarrow> taken ops (ph[j := p]) i = taken ops ph i"
  by (simp add: taken_def)

lemma taken_simps: "j < length ph \<Longrightarrow> taken ops (ph[j := Seen v]) j = {}"
  "j < length ph \<Longrightarrow> taken ops (ph[j := Finished v b]) j = (if b then claims (ops ! j) v else {})"
  by (simp_all add: taken_def)

text \<open>What was taken is not free, and nothing is taken twice.\<close>

lemma race_invariant:
  assumes "race view attempt others ops db0 db ph" and "ok db0"
    and "\<And>i d. i < length ops \<Longrightarrow> claims (ops ! i) (view (ops ! i) d) \<subseteq> U"
    and "\<And>d d'. ok d \<Longrightarrow> others d d' \<Longrightarrow> ok d' \<and> free d' \<inter> U \<subseteq> free d"
  shows "ok db \<and> (\<forall>i<length ops. free db \<inter> taken ops ph i = {} \<and>
    (\<forall>k<length ops. k \<noteq> i \<longrightarrow> taken ops ph i \<inter> taken ops ph k = {}))"
  using assms(1)
proof (induction rule: race.induct)
  case start
  then show ?case using assms(2) by (auto simp: taken_def)
next
  case (look db ph j)
  have len: "j < length ph" using race_length [OF look(1)] look(2) by simp
  have same: "taken ops (ph[j := Seen (view (ops ! j) db)]) i = taken ops ph i" for i
    using taken_other [of i j] taken_simps(1) [OF len] look(3) by (cases "i = j") (auto simp: taken_def)
  show ?case using look(4) by (simp add: same)
next
  case (act db ph j v won db')
  have len: "j < length ph" using race_length [OF act(1)] act(2) by simp
  have new: "taken ops (ph[j := Finished v won]) i =
      (if i = j then if won then claims (ops ! j) v else {} else taken ops ph i)" for i
    using taken_other [of i j] taken_simps(2) [OF len] by simp
  show ?case
  proof (cases won)
    case True
    then have w: "ok db'" "claims (ops ! j) v \<subseteq> free db" "free db' \<subseteq> free db - claims (ops ! j) v"
      using wins [of db "ops ! j" v db'] act(4,5) by simp_all
    show ?thesis using w act(5) True unfolding new by (auto; blast)
  next
    case False
    then have "ok db'" "free db' \<subseteq> free db" using loses [of db "ops ! j" v db'] act(4,5) by simp_all
    then show ?thesis using act(5) False unfolding new by (auto; blast)
  qed
next
  case (other db ph db')
  have "taken ops ph i \<subseteq> U" if i: "i < length ops" for i
    using assms(3) [OF i] race_seen [OF other(1) i] by (fastforce simp: taken_def split: phase.splits bool.splits)
  then show ?case using assms(4) [OF _ other(2)] other(3) by blast
qed

lemma claims_disjoint:
  assumes "race view attempt others ops db0 db ph" and "ok db0"
    and "\<And>i d. i < length ops \<Longrightarrow> claims (ops ! i) (view (ops ! i) d) \<subseteq> U"
    and "\<And>d d'. ok d \<Longrightarrow> others d d' \<Longrightarrow> ok d' \<and> free d' \<inter> U \<subseteq> free d"
    and "i < length ops" and "k < length ops" and "i \<noteq> k"
    and "ph ! i = Finished v True" and "ph ! k = Finished v' True"
  shows "claims (ops ! i) v \<inter> claims (ops ! k) v' = {}"
proof -
  have "taken ops ph i \<inter> taken ops ph k = {}"
    using race_invariant [OF assms(1-4)] assms(5-7) by metis
  then show ?thesis using assms(8,9) by (simp add: taken_def)
qed

end

text \<open>The outcome of a conditional update that looks at the number of rows it changed.\<close>

definition if_changed :: "(int \<Rightarrow> bool) \<Rightarrow> (exn + int) \<times> 'd \<Rightarrow> bool \<times> 'd" where
  "if_changed won r = (case r of (Inr n, d) \<Rightarrow> (won n, d) | (Inl _, d) \<Rightarrow> (False, d))"

lemma conditional_update:
  assumes "\<not> won 0" and "if_changed won (table_update td f p db) = (b, db')"
  shows "if b then won (int (length (filter p (tb_rows (td_get td db))))) \<and>
      db' = td_upd td (\<lambda>_. update_rows p f (td_get td db)) db
    else db' = db \<or> \<not> won (int (length (filter p (tb_rows (td_get td db))))) \<and>
      db' = td_upd td (\<lambda>_. update_rows p f (td_get td db)) db"
proof (cases "clashes (td_unique td) (tb_rows (update_rows p f (td_get td db)))")
  case None
  then show ?thesis using assms by (auto simp: if_changed_def table_update_def Let_def split: if_splits)
next
  case (Some c)
  then show ?thesis using assms by (auto simp: if_changed_def table_update_def Let_def split: if_splits)
qed

section \<open>Accepting an invitation\<close>

record accept_call =
  ac_now :: int
  ac_invitation :: string
  ac_key :: string

definition accept_look :: "accept_call \<Rightarrow> app_db \<Rightarrow> invitation_key_row option" where
  "accept_look c = table_read_one identity_invitation_key_table (\<lambda>r. iv_id r = ac_invitation c)"

definition close_invitation :: "accept_call \<Rightarrow> string \<Rightarrow> app_db \<Rightarrow> bool \<times> app_db" where
  "close_invitation c i db = if_changed (\<lambda>n. n \<noteq> 0) (table_update identity_invitation_key_table
     (\<lambda>r. r\<lparr>iv_is_accepted := True, iv_accepted_at := Some (ac_now c), iv_accepted_public_key_id := Some (ac_key c)\<rparr>)
     (\<lambda>r. iv_id r = i \<and> \<not> iv_is_accepted r \<and> \<not> iv_is_revoked r) db)"

definition accept_write :: "accept_call \<Rightarrow> invitation_key_row option \<Rightarrow> app_db \<Rightarrow> bool \<times> app_db" where
  "accept_write c v db = (case v of
     None \<Rightarrow> (False, db)
   | Some invitation \<Rightarrow>
       if iv_expires_at invitation \<le> ac_now c then (False, db)
       else close_invitation c (iv_id invitation) db)"

lemma accept_write_cases:
  "accept_write c v db = (b, db') \<Longrightarrow>
    \<not> b \<and> db' = db \<or> (\<exists>r. v = Some r \<and> close_invitation c (iv_id r) db = (b, db'))"
  by (cases v) (auto simp: accept_write_def split: if_splits)

text \<open>The ids of the invitations that can be accepted, and what a call that saw a row claims.\<close>

definition open_invitations :: "app_db \<Rightarrow> string set" where
  "open_invitations db =
    {iv_id r |r. r \<in> set (tb_rows (db_identity_invitation_key db)) \<and> \<not> iv_is_accepted r \<and> \<not> iv_is_revoked r}"

definition seen_invitation :: "accept_call \<Rightarrow> invitation_key_row option \<Rightarrow> string set" where
  "seen_invitation c v = iv_id ` set_option v"

lemma close_invitation_opens:
  assumes "close_invitation c i db = (b, db')"
  shows "open_invitations db' \<subseteq> open_invitations db - (if b then {i} else {}) \<and> (b \<longrightarrow> i \<in> open_invitations db)"
  using conditional_update [OF _ assms [unfolded close_invitation_def]]
  by (auto simp: open_invitations_def identity_invitation_key_table_def update_rows_def filter_empty_conv
      split: if_splits)

interpretation invitations: claiming accept_look accept_write open_invitations "\<lambda>_. True" seen_invitation
proof
  fix db c v db'
  assume "accept_write c v db = (True, db')"
  then show "True \<and> seen_invitation c v \<subseteq> open_invitations db \<and>
      open_invitations db' \<subseteq> open_invitations db - seen_invitation c v"
    using accept_write_cases [of c v db True db'] close_invitation_opens [of c _ db True db']
    by (fastforce simp: seen_invitation_def)
next
  fix db c v db'
  assume "accept_write c v db = (False, db')"
  then show "True \<and> open_invitations db' \<subseteq> open_invitations db"
    using accept_write_cases [of c v db False db'] close_invitation_opens [of c _ db False db'] by fastforce
qed

text \<open>The model of \<open>accept\<close> is this pair of statements, when nobody comes between them.\<close>

lemma audit_same_db: "audit_create cx t refs ds w = (r, w') \<Longrightarrow> w_db w' = w_db w"
  using keepsD [OF keeps_db_audit(1) [of "\<lambda>d. d = w_db w"]] by auto

lemma invitation_accept_is_pair:
  assumes "invitation_accept cx i k w = (Inr b, w')"
  defines "c \<equiv> \<lparr>ac_now = cx_now cx, ac_invitation = i, ac_key = k\<rparr>"
  shows "accept_write c (accept_look c (w_db w)) (w_db w) = (b, w_db w')"
proof (cases "accept_look c (w_db w)")
  case None
  then show ?thesis using assms
    by (simp add: invitation_accept_def accept_write_def accept_look_def table_read_one_def and_then_def reads_one_run
        ret_def)
next
  case (Some r)
  then show ?thesis
    using assms
    by (auto simp: invitation_accept_def accept_write_def accept_look_def table_read_one_def and_then_Inr seq_Inr
        ret_Inr reads_one_run updates_def on_db_Inr close_invitation_def if_changed_def
        split: if_splits dest!: audit_same_db)
qed

section \<open>Setting the role of a session\<close>

record role_call =
  rc_session :: "string option"
  rc_identity :: "int option"
  rc_active :: "int option"
  rc_role :: int

definition role_look :: "role_call \<Rightarrow> app_db \<Rightarrow> role_member_row option" where
  "role_look c = table_read_one role_member_table
    (\<lambda>r. rm_role_id r = rc_role c \<and> rc_identity c = Some (rm_identity_id r))"

definition role_write :: "role_call \<Rightarrow> role_member_row option \<Rightarrow> app_db \<Rightarrow> bool \<times> app_db" where
  "role_write c v db =
    (if rc_active c \<noteq> None \<or> v = None then (False, db)
     else if_changed (\<lambda>n. n \<noteq> 0) (table_update identity_session_key_table (\<lambda>r. r\<lparr>sk_role_id := Some (rc_role c)\<rparr>)
       (\<lambda>r. rc_session c = Some (sk_id r) \<and> sk_role_id r = None) db))"

definition open_sessions :: "app_db \<Rightarrow> string set" where
  "open_sessions db = {sk_id r |r. r \<in> set (tb_rows (db_identity_session_key db)) \<and> sk_role_id r = None}"

definition set_session :: "role_call \<Rightarrow> role_member_row option \<Rightarrow> string set" where
  "set_session c v = set_option (rc_session c)"

lemma role_write_opens:
  assumes "role_write c v db = (b, db')"
  shows "open_sessions db' \<subseteq> open_sessions db - (if b then set_session c v else {}) \<and>
    (b \<longrightarrow> set_session c v \<subseteq> open_sessions db)"
proof (cases "rc_active c \<noteq> None \<or> v = None")
  case False
  then have "if_changed (\<lambda>n. n \<noteq> 0) (table_update identity_session_key_table (\<lambda>r. r\<lparr>sk_role_id := Some (rc_role c)\<rparr>)
       (\<lambda>r. rc_session c = Some (sk_id r) \<and> sk_role_id r = None) db) = (b, db')"
    using assms by (auto simp: role_write_def)
  from conditional_update [OF _ this] show ?thesis
    by (auto simp: open_sessions_def set_session_def identity_session_key_table_def update_rows_def filter_empty_conv
        split: if_splits)
qed (use assms in \<open>simp add: role_write_def\<close>)

interpretation sessions: claiming role_look role_write open_sessions "\<lambda>_. True" set_session
  by unfold_locales (use role_write_opens in force)+

lemma update_session_is_pair:
  assumes "update_session_self cx role w = (Inr (), w')"
  defines "c \<equiv> \<lparr>rc_session = cx_session_key_id cx, rc_identity = cx_identity_id cx, rc_active = cx_active_role_id cx,
    rc_role = role\<rparr>"
  shows "role_write c (role_look c (w_db w)) (w_db w) = (True, w_db w')"
  using assms
  by (auto simp: update_session_self_def role_write_def role_look_def table_read_one_def and_then_Inr raising_Inr
      reads_one_run updates_def on_db_Inr if_changed_def audit_create_refs_def reads_run
      split: if_splits dest!: audit_same_db)

section \<open>Serial numbers\<close>

record serial_call =
  sc_key :: int
  sc_count :: nat

definition serial_look :: "serial_call \<Rightarrow> app_db \<Rightarrow> int option" where
  "serial_look c db = map_option sg_serial_number (table_read_one signing_key_table (\<lambda>r. sg_id r = sc_key c) db)"

definition serial_write :: "serial_call \<Rightarrow> int option \<Rightarrow> app_db \<Rightarrow> bool \<times> app_db" where
  "serial_write c v db = (case v of
     None \<Rightarrow> (False, db)
   | Some first \<Rightarrow>
       if sc_count c = 0 then (True, db)
       else if_changed (\<lambda>n. n = 1) (table_update signing_key_table
         (\<lambda>r. r\<lparr>sg_serial_number := first + int (sc_count c)\<rparr>)
         (\<lambda>r. sg_id r = sc_key c \<and> sg_serial_number r = first) db))"

definition free_serials :: "app_db \<Rightarrow> (int \<times> int) set" where
  "free_serials db = {(sg_id r, n) |r n. r \<in> set (tb_rows (db_signing_key db)) \<and> sg_serial_number r \<le> n}"

definition reserved :: "serial_call \<Rightarrow> int option \<Rightarrow> (int \<times> int) set" where
  "reserved c v = (case v of None \<Rightarrow> {} | Some first \<Rightarrow> {sc_key c} \<times> {first..<first + int (sc_count c)})"

definition one_row_per_key :: "app_db \<Rightarrow> bool" where
  "one_row_per_key db \<longleftrightarrow> distinct (map sg_id (tb_rows (db_signing_key db)))"

text \<open>The rows of the signing keys after the update.\<close>

lemma moved_serials:
  fixes i first :: int and n :: nat
  assumes "one_row_per_key db"
  defines "db' \<equiv> db_signing_key_update (\<lambda>_. update_rows (\<lambda>r. sg_id r = i \<and> sg_serial_number r = first)
      (\<lambda>r. r\<lparr>sg_serial_number := first + int n\<rparr>) (db_signing_key db)) db"
  shows "one_row_per_key db'" and "free_serials db' \<subseteq> free_serials db"
    and "r0 \<in> set (tb_rows (db_signing_key db)) \<Longrightarrow> sg_id r0 = i \<Longrightarrow> sg_serial_number r0 = first \<Longrightarrow>
      {i} \<times> {first..<first + int n} \<subseteq> free_serials db \<and> free_serials db' \<inter> {i} \<times> {first..<first + int n} = {}"
proof -
  have ids: "map sg_id (tb_rows (db_signing_key db')) = map sg_id (tb_rows (db_signing_key db))"
    by (auto simp: db'_def update_rows_def)
  then show "one_row_per_key db'" using assms(1) by (simp add: one_row_per_key_def)
  show "free_serials db' \<subseteq> free_serials db"
    by (force simp: free_serials_def db'_def update_rows_def split: if_splits)
  assume r0: "r0 \<in> set (tb_rows (db_signing_key db))" "sg_id r0 = i" "sg_serial_number r0 = first"
  have only: "sg_serial_number r = first" if "r \<in> set (tb_rows (db_signing_key db))" "sg_id r = i" for r
    using assms(1) r0 that by (auto simp: one_row_per_key_def distinct_map inj_on_def)
  have "{i} \<times> {first..<first + int n} \<subseteq> free_serials db" using r0 by (auto simp: free_serials_def)
  moreover have "\<not> (first \<le> k \<and> k < first + int n)" if k: "(i, k) \<in> free_serials db'" for k
  proof -
    obtain r' where r': "r' \<in> set (tb_rows (db_signing_key db'))" "sg_id r' = i" "sg_serial_number r' \<le> k"
      using k by (auto simp: free_serials_def)
    obtain r where r: "r \<in> set (tb_rows (db_signing_key db))"
        "r' = (if sg_id r = i \<and> sg_serial_number r = first then r\<lparr>sg_serial_number := first + int n\<rparr> else r)"
      using r'(1) by (auto simp: db'_def update_rows_def)
    then have "sg_id r = i" using r'(2) by (simp split: if_splits)
    then show ?thesis using only [OF r(1)] r(2) r'(3) by simp
  qed
  ultimately show "{i} \<times> {first..<first + int n} \<subseteq> free_serials db \<and> free_serials db' \<inter> {i} \<times> {first..<first + int n} = {}"
    by auto
qed

interpretation serials: claiming serial_look serial_write free_serials one_row_per_key reserved
proof
  fix db c v db'
  assume ok: "one_row_per_key db" and "serial_write c v db = (True, db')"
  then obtain first where v: "v = Some first" and run: "serial_write c (Some first) db = (True, db')"
    by (cases v) (auto simp: serial_write_def)
  show "one_row_per_key db' \<and> reserved c v \<subseteq> free_serials db \<and> free_serials db' \<subseteq> free_serials db - reserved c v"
  proof (cases "sc_count c = 0")
    case True
    then show ?thesis using run ok v by (simp add: serial_write_def reserved_def)
  next
    case False
    then have "if_changed (\<lambda>n. n = 1) (table_update signing_key_table
         (\<lambda>r. r\<lparr>sg_serial_number := first + int (sc_count c)\<rparr>)
         (\<lambda>r. sg_id r = sc_key c \<and> sg_serial_number r = first) db) = (True, db')"
      using run by (simp add: serial_write_def)
    from conditional_update [OF _ this]
    have len: "length (filter (\<lambda>r. sg_id r = sc_key c \<and> sg_serial_number r = first) (tb_rows (db_signing_key db))) = 1"
      and db': "db' = db_signing_key_update (\<lambda>_. update_rows (\<lambda>r. sg_id r = sc_key c \<and> sg_serial_number r = first)
        (\<lambda>r. r\<lparr>sg_serial_number := first + int (sc_count c)\<rparr>) (db_signing_key db)) db"
      by (auto simp: signing_key_table_def)
    obtain r0 where "r0 \<in> set (tb_rows (db_signing_key db))" "sg_id r0 = sc_key c" "sg_serial_number r0 = first"
      using len by (metis (mono_tags, lifting) filter_empty_conv list.size(3) zero_neq_one)
    then show ?thesis
      using moved_serials [OF ok, where i = "sc_key c" and first = first and n = "sc_count c"] v by (auto simp: db' reserved_def)
  qed
next
  fix db c v db'
  assume ok: "one_row_per_key db" and run: "serial_write c v db = (False, db')"
  then consider "db' = db" | first where "if_changed (\<lambda>n. n = 1) (table_update signing_key_table
         (\<lambda>r. r\<lparr>sg_serial_number := first + int (sc_count c)\<rparr>)
         (\<lambda>r. sg_id r = sc_key c \<and> sg_serial_number r = first) db) = (False, db')"
    unfolding serial_write_def by (cases v) (auto split: if_splits)
  then show "one_row_per_key db' \<and> free_serials db' \<subseteq> free_serials db"
  proof cases
    case 2
    from conditional_update [OF _ 2] show ?thesis
      using ok moved_serials(1,2) [OF ok, of "sc_key c" first "sc_count c"]
      by (auto simp: signing_key_table_def)
  qed (use ok in simp)
qed

lemma filter_unique: "distinct (map f xs) \<Longrightarrow> x \<in> set xs \<Longrightarrow> Q x \<Longrightarrow> filter (\<lambda>y. f y = f x \<and> Q y) xs = [x]"
  by (induction xs) (auto simp: filter_empty_conv rev_image_eqI)

lemma allocate_is_pair:
  assumes "allocate_serial_numbers cx i (int n) w = (Inr first, w')" and "one_row_per_key (w_db w)"
  defines "c \<equiv> \<lparr>sc_key = i, sc_count = n\<rparr>"
  shows "serial_look c (w_db w) = Some first \<and> serial_write c (Some first) (w_db w) = (True, w_db w')"
proof -
  obtain row where row: "List.find (\<lambda>r. sg_id r = i) (tb_rows (db_signing_key (w_db w))) = Some row"
    using assms(1)
    by (cases "List.find (\<lambda>r. sg_id r = i) (tb_rows (db_signing_key (w_db w)))")
      (auto simp: allocate_serial_numbers_def SERIAL_ATTEMPTS_def eval_nat_numeral and_then_def reads_one_run
        signing_key_table_def raising_def)
  then have mem: "row \<in> set (tb_rows (db_signing_key (w_db w)))" "sg_id row = i" by (auto simp: find_Some_iff)
  have "filter (\<lambda>r. sg_id r = i \<and> sg_serial_number r = sg_serial_number row) (tb_rows (db_signing_key (w_db w))) = [row]"
    using filter_unique [of sg_id _ row "\<lambda>r. sg_serial_number r = sg_serial_number row"] assms(2) mem
    by (simp add: one_row_per_key_def)
  moreover have "allocate_attempts cx (Suc 4) i (int n) w = (Inr first, w')"
    using assms(1) by (simp add: allocate_serial_numbers_def SERIAL_ATTEMPTS_def)
  moreover have "clashes (td_unique signing_key_table) rs = None" for rs
    by (induction rs) (simp_all add: signing_key_table_def violated_def)
  ultimately show ?thesis
    using row mem unfolding allocate_attempts.simps(2) c_def
    by (auto simp: and_then_Inr seq_Inr ret_Inr reads_one_run Let_def serial_look_def serial_write_def if_changed_def
        table_read_one_def updates_def on_db_Inr table_update_def list_ex_iff signing_key_table_def
        split: if_splits dest!: audit_same_db)
qed

section \<open>Spent once\<close>

text \<open>Other requests open nothing among \<open>U\<close> that was not open.\<close>

definition opens_nothing :: "('db \<Rightarrow> 'c set) \<Rightarrow> 'c set \<Rightarrow> 'db \<Rightarrow> 'db \<Rightarrow> bool" where
  "opens_nothing open_items U d d' \<longleftrightarrow> open_items d' \<inter> U \<subseteq> open_items d"

text \<open>
  C21. An invitation is accepted at most once. However the statements of any number of concurrent calls
  of \<open>accept\<close> and of other requests interleave, as long as the others do not reopen an invitation, two
  calls that both report success were for different invitations.
\<close>

theorem invitation_accepted_once:
  assumes "race accept_look accept_write (opens_nothing open_invitations (set (map ac_invitation calls))) calls db0 db ph"
    and "i < length calls" and "k < length calls" and "i \<noteq> k"
    and "ph ! i = Finished v True" and "ph ! k = Finished v' True"
  shows "ac_invitation (calls ! i) \<noteq> ac_invitation (calls ! k)"
proof -
  have seen: "iv_id r = ac_invitation c" if "accept_look c d = Some r" for c d r
    using that by (auto simp: accept_look_def table_read_one_def find_Some_iff)
  have within: "seen_invitation (calls ! j) (accept_look (calls ! j) d) \<subseteq> set (map ac_invitation calls)"
    if "j < length calls" for j d
    using nth_mem [OF that] by (auto simp: seen_invitation_def seen)
  have won: "seen_invitation (calls ! j) u = {ac_invitation (calls ! j)}"
    if j: "j < length calls" and u: "ph ! j = Finished u True" for j u
  proof -
    obtain d where d: "u = accept_look (calls ! j) d" using race_seen [OF assms(1) j] u by blast
    obtain r where "u = Some r" using race_won [OF assms(1) j u] by (cases u) (auto simp: accept_write_def)
    then show ?thesis using seen [of "calls ! j" d r] d by (simp add: seen_invitation_def)
  qed
  have "seen_invitation (calls ! i) v \<inter> seen_invitation (calls ! k) v' = {}"
    by (rule invitations.claims_disjoint [OF assms(1) TrueI _ _ assms(2-6)], erule within)
      (simp add: opens_nothing_def)
  then show ?thesis using won assms by auto
qed

text \<open>
  C23. The role of a session is set at most once. Of the concurrent calls of \<open>update_session_self\<close> that
  report success, no two were for the same session, whatever roles they ask for and whatever runs in
  between, as long as no other request takes a role away.
\<close>

theorem session_role_set_once:
  assumes "race role_look role_write (opens_nothing open_sessions (\<Union>c\<in>set calls. set_option (rc_session c))) calls db0 db ph"
    and "i < length calls" and "k < length calls" and "i \<noteq> k"
    and "ph ! i = Finished v True" and "ph ! k = Finished v' True"
  shows "rc_session (calls ! i) \<noteq> rc_session (calls ! k)"
proof -
  have "set_session (calls ! i) v \<inter> set_session (calls ! k) v' = {}"
    by (rule sessions.claims_disjoint [OF assms(1) _ _ _ assms(2-6),
          where U = "\<Union>c\<in>set calls. set_option (rc_session c)"])
      (use nth_mem in \<open>fastforce simp: opens_nothing_def set_session_def\<close>)+
  moreover have "rc_session (calls ! i) \<noteq> None"
    using race_won [OF assms(1,2,5)]
    by (cases "rc_session (calls ! i)") (auto simp: role_write_def if_changed_def table_update_def Let_def list_ex_iff
        split: if_splits)
  ultimately show ?thesis by (auto simp: set_session_def)
qed

text \<open>
  C22. A serial number is never handed out twice. Whatever concurrent calls reserve, each number of
  certificates and retries when another request moved the counter (a retry is one more call), the ranges
  that two successful calls return for one signing key are disjoint; other requests may add and delete
  signing keys but move no counter back.
\<close>

theorem serial_numbers_disjoint:
  assumes "race serial_look serial_write
      (\<lambda>d d'. one_row_per_key d' \<and> opens_nothing free_serials (sc_key ` set calls \<times> UNIV) d d') calls db0 db ph"
    and "one_row_per_key db0"
    and "i < length calls" and "k < length calls" and "i \<noteq> k"
    and "ph ! i = Finished (Some first) True" and "ph ! k = Finished (Some first') True"
    and "sc_key (calls ! i) = sc_key (calls ! k)"
  shows "{first..<first + int (sc_count (calls ! i))} \<inter> {first'..<first' + int (sc_count (calls ! k))} = {}"
proof -
  have within: "reserved (calls ! j) u \<subseteq> sc_key ` set calls \<times> UNIV" if "j < length calls" for j u
    using nth_mem [OF that] by (cases u) (auto simp: reserved_def)
  have "reserved (calls ! i) (Some first) \<inter> reserved (calls ! k) (Some first') = {}"
    by (rule serials.claims_disjoint [OF assms(1,2) _ _ assms(3-7), where U = "sc_key ` set calls \<times> UNIV"])
      (erule within, simp add: opens_nothing_def)
  then show ?thesis using assms(8) by (simp add: reserved_def Times_Int_Times)
qed

section \<open>Samples\<close>

definition invited :: "string \<Rightarrow> invitation_key_row" where
  "invited i = \<lparr>iv_id = i, iv_key = ''k'', iv_identity_id = 1, iv_created_at = 0, iv_revoked_at = None,
    iv_accepted_at = None, iv_expires_at = 100, iv_is_revoked = False, iv_is_accepted = False,
    iv_accepted_public_key_id = None\<rparr>"

definition spending_db :: app_db where
  "spending_db = empty_db\<lparr>db_identity_invitation_key := \<lparr>tb_rows = [invited ''a'', invited ''b''], tb_seq = 2\<rparr>,
    db_role_member := \<lparr>tb_rows = [\<lparr>rm_id = 1, rm_role_id = 5, rm_identity_id = 1\<rparr>], tb_seq = 1\<rparr>,
    db_identity_session_key := \<lparr>tb_rows = map (\<lambda>i. \<lparr>sk_id = i, sk_public_key = ''jwk'', sk_identity_id = 1,
      sk_created_at = 0, sk_is_revoked = False, sk_revoked_at = None, sk_expires_at = 100, sk_login_ip = None,
      sk_role_id = None, sk_logged_out_at = None\<rparr>) [''s'', ''t''], tb_seq = 2\<rparr>,
    db_signing_key := \<lparr>tb_rows = [\<lparr>sg_id = 1, sg_type = 2, sg_key = ''ca'', sg_serial_number = 7,
      sg_valid_after = 0, sg_valid_before = 100\<rparr>], tb_seq = 1\<rparr>\<rparr>"

definition accepting :: "accept_call list" where
  "accepting = map (\<lambda>(i, k). \<lparr>ac_now = 10, ac_invitation = i, ac_key = k\<rparr>)
    [(''a'', ''x''), (''a'', ''y''), (''b'', ''y'')]"

definition role_setting :: "role_call list" where
  "role_setting = map (\<lambda>s. \<lparr>rc_session = Some s, rc_identity = Some 1, rc_active = None, rc_role = 5\<rparr>)
    [''s'', ''s'', ''t'']"

definition signing :: "serial_call list" where
  "signing = map (\<lambda>n. \<lparr>sc_key = 1, sc_count = n\<rparr>) [3, 2, 2]"

fun outcome :: "'v phase \<Rightarrow> bool option" where
  "outcome (Finished v b) = Some b"
| "outcome _ = None"

lemma sample_accepting: "map outcome (snd (schedule accept_look accept_write accepting [0, 1, 1, 0, 2, 2]
    (spending_db, replicate 3 Waiting))) = [Some False, Some True, Some True]"
  by code_simp

lemma sample_roles: "map outcome (snd (schedule role_look role_write role_setting [0, 1, 0, 1, 2, 2]
    (spending_db, replicate 3 Waiting))) = [Some True, Some False, Some True]"
  by code_simp

lemma sample_signing: "snd (schedule serial_look serial_write signing [0, 1, 0, 1, 2, 2] (spending_db, replicate 3 Waiting)) =
    [Finished (Some 7) True, Finished (Some 7) False, Finished (Some 10) True]"
  by code_simp

lemma sample_race:
  "\<forall>j\<in>set js. j < length ops \<Longrightarrow> race view attempt others ops db
    (fst (schedule view attempt ops js (db, replicate (length ops) Waiting)))
    (snd (schedule view attempt ops js (db, replicate (length ops) Waiting)))"
  by (rule schedule_race [OF race.start]) simp_all

lemma outcome_True:
  assumes "map outcome ph = os" and "j < length os" and "os ! j = Some True"
  shows "\<exists>v. ph ! j = Finished v True"
proof -
  have "outcome (ph ! j) = Some True" using assms by auto
  then show ?thesis by (cases "ph ! j") auto
qed

theorem invitation_accepted_once_witness:
  "ac_invitation (accepting ! 1) \<noteq> ac_invitation (accepting ! 2) \<and>
    map outcome (snd (schedule accept_look accept_write accepting [0, 1, 1, 0, 2, 2] (spending_db, replicate 3 Waiting))) =
      [Some False, Some True, Some True]"
proof -
  let ?ph = "snd (schedule accept_look accept_write accepting [0, 1, 1, 0, 2, 2] (spending_db, replicate 3 Waiting))"
  have len: "length accepting = 3" by (simp add: accepting_def)
  obtain v v' where "?ph ! 1 = Finished v True" "?ph ! 2 = Finished v' True"
    using outcome_True [OF sample_accepting, of 1] outcome_True [OF sample_accepting, of 2] by auto
  then show ?thesis
    using invitation_accepted_once [OF sample_race [of "[0, 1, 1, 0, 2, 2]" accepting _ _ _ spending_db], where i = 1 and k = 2 and v = v and v' = v'] sample_accepting len
    by simp
qed

theorem session_role_set_once_witness:
  "rc_session (role_setting ! 0) \<noteq> rc_session (role_setting ! 2) \<and>
    map outcome (snd (schedule role_look role_write role_setting [0, 1, 0, 1, 2, 2] (spending_db, replicate 3 Waiting))) =
      [Some True, Some False, Some True]"
proof -
  let ?ph = "snd (schedule role_look role_write role_setting [0, 1, 0, 1, 2, 2] (spending_db, replicate 3 Waiting))"
  have len: "length role_setting = 3" by (simp add: role_setting_def)
  obtain v v' where "?ph ! 0 = Finished v True" "?ph ! 2 = Finished v' True"
    using outcome_True [OF sample_roles, of 0] outcome_True [OF sample_roles, of 2] by auto
  then show ?thesis
    using session_role_set_once [OF sample_race [of "[0, 1, 0, 1, 2, 2]" role_setting _ _ _ spending_db], where i = 0 and k = 2 and v = v and v' = v'] sample_roles len
    by simp
qed

theorem serial_numbers_disjoint_witness:
  "snd (schedule serial_look serial_write signing [0, 1, 0, 1, 2, 2] (spending_db, replicate 3 Waiting)) =
      [Finished (Some 7) True, Finished (Some 7) False, Finished (Some 10) True] \<and>
    {7..<7 + int (sc_count (signing ! 0))} \<inter> {10..<10 + int (sc_count (signing ! 2))} = {}"
proof -
  have "one_row_per_key spending_db" by (simp add: one_row_per_key_def spending_db_def)
  then show ?thesis
    using serial_numbers_disjoint [OF sample_race [of "[0, 1, 0, 1, 2, 2]" signing _ _ _ spending_db], where i = 0 and k = 2 and first = 7 and first' = 10] sample_signing
    by (simp add: signing_def)
qed

end
