(* ===== verification/Paging.thy ===== *)
theory Paging
  imports Audit_Log
begin

text \<open>
  \<open>Table.read_page\<close> of \<open>api/orm.py\<close>, and what a reader gets who asks for page after page: \<open>page_after\<close>
  is the page that the audit log cuts from the rows after a position, and \<open>all_pages\<close> the loop of the
  command line tool, which asks until a page is the last one. The n-th request sees the n-th state of
  the table, so rows may be appended between requests. The loop may go on for ever when the table grows
  faster than it is read, so it is a partial function; that it ends is a theorem.
\<close>

definition table_read_page ::
    "('d, 'r) table_def \<Rightarrow> ('r \<Rightarrow> int) \<Rightarrow> bool \<Rightarrow> nat \<Rightarrow> ('r \<Rightarrow> bool) \<Rightarrow> 'd \<Rightarrow> 'r list" where
  "table_read_page td column descending limit p db =
    take limit ((if descending then rev else id) (sort_key column (table_read_all td p db)))"

section \<open>One page\<close>

definition beyond :: "bool \<Rightarrow> int option \<Rightarrow> int \<Rightarrow> bool" where
  "beyond descending position n = (case position of
     None \<Rightarrow> True | Some p \<Rightarrow> if descending then n < p else n > p)"

text \<open>One row more than asked tells whether there is a next page; without a row the position stays.\<close>

definition page_after ::
    "('d, 'r) table_def \<Rightarrow> ('r \<Rightarrow> int) \<Rightarrow> bool \<Rightarrow> nat \<Rightarrow> ('r \<Rightarrow> bool) \<Rightarrow> int option \<Rightarrow> 'd \<Rightarrow>
      'r list \<times> int option \<times> bool" where
  "page_after td column descending limit p position db =
    (let rows = table_read_page td column descending (limit + 1)
           (\<lambda>r. p r \<and> beyond descending position (column r)) db;
         page = take limit rows
     in (page, if page \<noteq> [] then Some (column (last page)) else position, \<not> length rows > limit))"

section \<open>Page after page\<close>

text \<open>What a response holds: the rows, the cursor to continue from and whether it is the last.\<close>

partial_function (option) all_pages ::
    "(nat \<Rightarrow> 'c option \<Rightarrow> 'e + 'r list \<times> 'c \<times> bool) \<Rightarrow> nat \<Rightarrow> 'r list \<Rightarrow> 'c option \<Rightarrow> ('e + 'r list \<times> 'c) option" where
  "all_pages request n rows cursor = (case request n cursor of
     Inl e \<Rightarrow> Some (Inl e)
   | Inr response \<Rightarrow> (case response of (page, next_cursor, is_last) \<Rightarrow>
       if is_last then Some (Inr (rows @ page, next_cursor))
       else all_pages request (Suc n) (rows @ page) (Some next_cursor)))"

section \<open>Rows in the order they were written\<close>

definition increasing :: "('r \<Rightarrow> int) \<Rightarrow> 'r list \<Rightarrow> bool" where
  "increasing column rows \<longleftrightarrow> sorted_wrt (\<lambda>a b. column a < column b) rows"

definition in_order :: "bool \<Rightarrow> 'r list \<Rightarrow> 'r list" where
  "in_order descending rows = (if descending then rev rows else rows)"

lemma sort_increasing:
  assumes "increasing column rows"
  shows "sort_key column (filter p rows) = filter p rows"
proof -
  have "sorted (map column (filter p rows))"
    using assms unfolding increasing_def
    by (induction rows) auto
  then show ?thesis by (rule sort_key_id_if_sorted)
qed

lemma read_page_increasing:
  assumes "increasing column (tb_rows (td_get td db))"
  shows "table_read_page td column descending limit p db =
    take limit (in_order descending (filter p (tb_rows (td_get td db))))"
  by (simp add: table_read_page_def table_read_all_def sort_increasing [OF assms] in_order_def)

text \<open>Positions in a list that is strictly sorted in reading order.\<close>

definition ordered :: "bool \<Rightarrow> ('r \<Rightarrow> int) \<Rightarrow> 'r list \<Rightarrow> bool" where
  "ordered descending column rows \<longleftrightarrow>
    sorted_wrt (\<lambda>a b. beyond descending (Some (column a)) (column b)) rows"

lemma ordered_in_order:
  "increasing column rows \<Longrightarrow> ordered descending column (in_order descending (filter p rows))"
  by (auto simp: increasing_def ordered_def in_order_def beyond_def sorted_wrt_rev sorted_wrt_filter)

lemma beyond_trans:
  "beyond descending position m \<Longrightarrow> beyond descending (Some m) n \<Longrightarrow> beyond descending position n"
  by (auto simp: beyond_def split: option.splits if_splits)

lemma beyond_last:
  assumes "ordered descending column rows" and "n \<noteq> 0" and "rows \<noteq> []"
  shows "filter (\<lambda>r. beyond descending (Some (column (last (take n rows)))) (column r)) rows = drop n rows"
proof -
  define a where "a = take n rows"
  define b where "b = drop n rows"
  have rows: "rows = a @ b" by (simp add: a_def b_def)
  have ne: "a \<noteq> []" using assms(2,3) by (simp add: a_def)
  have parts: "a = butlast a @ [last a]" using ne by simp
  have srt: "ordered descending column ((butlast a @ [last a]) @ b)" using assms(1) rows parts by metis
  have "\<not> beyond descending (Some (column (last a))) (column r)" if "r \<in> set a" for r
  proof (cases "r = last a")
    case True
    then show ?thesis by (simp add: beyond_def)
  next
    case False
    then have "r \<in> set (butlast a)" using that parts by (metis in_set_conv_decomp insertE list.set(2) set_append
        Un_iff empty_iff list.set(1))
    then show ?thesis using srt by (auto simp: ordered_def sorted_wrt_append beyond_def split: if_splits)
  qed
  moreover have "beyond descending (Some (column (last a))) (column r)" if "r \<in> set b" for r
    using srt that by (auto simp: ordered_def sorted_wrt_append)
  ultimately show ?thesis
    unfolding a_def [symmetric] b_def [symmetric] by (subst rows) (simp add: filter_True filter_False)
qed

section \<open>Reading a log that grows\<close>

text \<open>
  The n-th request is served from \<open>dbs n\<close>: the page after the position that the cursor stands for, of the
  rows that \<open>p n\<close> selects. Rows are only appended, each with a higher number than the ones before.
\<close>

definition selected :: "('d, 'r) table_def \<Rightarrow> (nat \<Rightarrow> 'r \<Rightarrow> bool) \<Rightarrow> (nat \<Rightarrow> 'd) \<Rightarrow> nat \<Rightarrow> 'r list" where
  "selected td p dbs n = filter (p n) (tb_rows (td_get td (dbs n)))"

definition appends_only :: "('d, 'r) table_def \<Rightarrow> ('r \<Rightarrow> int) \<Rightarrow> (nat \<Rightarrow> 'r \<Rightarrow> bool) \<Rightarrow> (nat \<Rightarrow> 'd) \<Rightarrow> bool" where
  "appends_only td column p dbs \<longleftrightarrow>
    (\<forall>n. increasing column (tb_rows (td_get td (dbs n))) \<and>
      (\<exists>new. selected td p dbs (Suc n) = selected td p dbs n @ new))"

definition serves ::
    "('d, 'r) table_def \<Rightarrow> ('r \<Rightarrow> int) \<Rightarrow> bool \<Rightarrow> nat \<Rightarrow> (nat \<Rightarrow> 'r \<Rightarrow> bool) \<Rightarrow> (nat \<Rightarrow> 'd) \<Rightarrow>
      (nat \<Rightarrow> 'c option \<Rightarrow> int option \<Rightarrow> bool) \<Rightarrow> (nat \<Rightarrow> 'c option \<Rightarrow> 'e + 'r list \<times> 'c \<times> bool) \<Rightarrow> bool" where
  "serves td column descending limit p dbs stands_for request \<longleftrightarrow>
    (\<forall>n c pos page pos' is_last. stands_for n c pos \<longrightarrow>
      page_after td column descending limit (p n) pos (dbs n) = (page, pos', is_last) \<longrightarrow>
      (\<exists>c'. request n c = Inr (page, c', is_last) \<and> stands_for (Suc n) (Some c') pos'))"

definition left_over ::
    "('d, 'r) table_def \<Rightarrow> ('r \<Rightarrow> int) \<Rightarrow> bool \<Rightarrow> (nat \<Rightarrow> 'r \<Rightarrow> bool) \<Rightarrow> (nat \<Rightarrow> 'd) \<Rightarrow> nat \<Rightarrow> int option \<Rightarrow> 'r list" where
  "left_over td column descending p dbs n pos =
    filter (\<lambda>r. beyond descending pos (column r)) (in_order descending (selected td p dbs n))"

lemma page_after_left_over:
  fixes column :: "'r \<Rightarrow> int"
  assumes "appends_only td column p dbs"
  shows "page_after td column descending limit (p n) pos (dbs n) =
    (let rest = left_over td column descending p dbs n pos
     in (take limit rest, if take limit rest \<noteq> [] then Some (column (last (take limit rest))) else pos,
         length rest \<le> limit))"
proof -
  have "table_read_page td column descending (limit + 1) (\<lambda>r. p n r \<and> beyond descending pos (column r)) (dbs n) =
      take (limit + 1) (left_over td column descending p dbs n pos)"
    using assms by (simp add: read_page_increasing appends_only_def left_over_def selected_def in_order_def rev_filter
        conj_commute)
  moreover have "take limit (take (limit + 1) rs) = take limit rs" "(length (take (limit + 1) rs) > limit) = (length rs > limit)"
    for rs :: "'r list" by (simp_all add: min_def)
  ultimately show ?thesis unfolding page_after_def Let_def by (simp only: not_less)
qed

lemma left_over_next:
  assumes "appends_only td column p dbs" and "limit \<noteq> 0"
    and "left_over td column descending p dbs n pos = rest" and "rest \<noteq> []"
  shows "left_over td column descending p dbs n (Some (column (last (take limit rest)))) = drop limit rest"
proof -
  let ?all = "in_order descending (selected td p dbs n)"
  have ord: "ordered descending column rest"
    using ordered_in_order [of column _ descending "p n"] assms(1,3)
    by (auto simp: appends_only_def left_over_def selected_def ordered_def intro: sorted_wrt_filter)
  have "beyond descending pos (column (last (take limit rest)))"
  proof -
    have "last (take limit rest) \<in> set rest" using assms(2,4) in_set_takeD last_in_set take_eq_Nil by metis
    then show ?thesis unfolding assms(3) [symmetric] by (simp add: left_over_def)
  qed
  then have "left_over td column descending p dbs n (Some (column (last (take limit rest)))) =
      filter (\<lambda>r. beyond descending (Some (column (last (take limit rest)))) (column r)) rest"
    unfolding left_over_def assms(3) [unfolded left_over_def, symmetric] filter_filter
    by (intro filter_cong) (auto intro: beyond_trans)
  then show ?thesis using beyond_last [OF ord assms(2,4)] by simp
qed

text \<open>Once what is left over does not change, the rest of the pages bring exactly that.\<close>

lemma quiet_pages:
  assumes log: "appends_only td column p dbs" and "limit \<noteq> 0"
    and serve: "serves td column descending limit p dbs stands_for request"
    and "stands_for n c pos" and "\<And>n'. n' \<ge> n \<Longrightarrow> left_over td column descending p dbs n' pos = rest"
  shows "\<exists>c'. all_pages request n acc c = Some (Inr (acc @ rest, c'))"
  using assms(4,5)
proof (induction "length rest" arbitrary: rest n acc c pos rule: less_induct)
  case less
  let ?page = "take limit rest"
  let ?pos = "if ?page \<noteq> [] then Some (column (last ?page)) else pos"
  have "page_after td column descending limit (p n) pos (dbs n) = (?page, ?pos, length rest \<le> limit)"
    using page_after_left_over [OF log, of descending limit n pos] less.prems(2) [of n] by (simp add: Let_def)
  then obtain c' where req: "request n c = Inr (?page, c', length rest \<le> limit)" "stands_for (Suc n) (Some c') ?pos"
    using serve less.prems(1) unfolding serves_def by blast
  show ?case
  proof (cases "length rest \<le> limit")
    case True
    then show ?thesis using req by (subst all_pages.simps) simp
  next
    case False
    then have ne: "rest \<noteq> []" "?page \<noteq> []" using assms(2) by auto
    have "left_over td column descending p dbs n' ?pos = drop limit rest" if "n' \<ge> Suc n" for n'
      using left_over_next [OF log assms(2) less.prems(2) [of n'] ne(1)] that ne by simp
    then obtain c'' where "all_pages request (Suc n) (acc @ ?page) (Some c') = Some (Inr ((acc @ ?page) @ drop limit rest, c''))"
      using less.hyps [of "drop limit rest" "Suc n" "Some c'" ?pos "acc @ ?page"] req(2) ne(1) assms(2) by auto
    then show ?thesis using req False by (subst all_pages.simps) simp
  qed
qed

text \<open>
  A log that only grows, read page after page from the end: exactly what it held at the first request.
\<close>

lemma selected_prefix:
  "appends_only td column p dbs \<Longrightarrow> \<exists>new. selected td p dbs (n + k) = selected td p dbs n @ new"
proof (induction k)
  case (Suc k)
  then show ?case unfolding appends_only_def by (metis add_Suc_right append.assoc)
qed simp

lemma later_are_higher:
  assumes "appends_only td column p dbs" and "selected td p dbs n = old @ new" and "a \<in> set old" and "b \<in> set new"
  shows "column a < column b"
proof -
  have "increasing column (selected td p dbs n)"
    using assms(1) by (auto simp: appends_only_def selected_def increasing_def intro: sorted_wrt_filter)
  then show ?thesis using assms(2-4) by (auto simp: increasing_def sorted_wrt_append)
qed

lemma descending_unmoved:
  assumes log: "appends_only td column p dbs" and "a \<in> set (selected td p dbs 0)"
  shows "left_over td column True p dbs n (Some (column a)) = left_over td column True p dbs 0 (Some (column a))"
proof -
  obtain new where new: "selected td p dbs n = selected td p dbs 0 @ new"
    using selected_prefix [OF log, of 0 n] by auto
  have "filter (\<lambda>r. column r < column a) (rev new) = []"
    using later_are_higher [OF log new assms(2)] by (force simp: filter_empty_conv)
  then show ?thesis by (simp add: left_over_def in_order_def new beyond_def)
qed

lemma pages_from_the_end:
  assumes log: "appends_only td column p dbs" and "limit \<noteq> 0"
    and serve: "serves td column True limit p dbs stands_for request" and "stands_for 0 None None"
  shows "\<exists>c. all_pages request 0 [] None = Some (Inr (rev (selected td p dbs 0), c))"
proof -
  let ?rest = "rev (selected td p dbs 0)"
  let ?page = "take limit ?rest"
  have rest: "left_over td column True p dbs 0 None = ?rest" by (simp add: left_over_def in_order_def beyond_def)
  have "page_after td column True limit (p 0) None (dbs 0) =
      (?page, if ?page \<noteq> [] then Some (column (last ?page)) else None, length ?rest \<le> limit)"
    using page_after_left_over [OF log, of True limit 0 None] by (simp only: rest Let_def)
  then obtain c where req: "request 0 None = Inr (?page, c, length ?rest \<le> limit)"
      "stands_for 1 (Some c) (if ?page \<noteq> [] then Some (column (last ?page)) else None)"
    using serve assms(4) unfolding serves_def One_nat_def by blast
  show ?thesis
  proof (cases "length ?rest \<le> limit")
    case True
    then show ?thesis using req by (subst all_pages.simps) simp
  next
    case False
    then have ne: "?rest \<noteq> []" "?page \<noteq> []" using assms(2) by auto
    have "last ?page \<in> set (selected td p dbs 0)"
      using ne(2) in_set_takeD [of _ limit ?rest] last_in_set [of ?page] by auto
    then have "left_over td column True p dbs n (Some (column (last ?page))) = drop limit ?rest" for n
      using descending_unmoved [OF log] left_over_next [OF log assms(2) rest ne(1)] by metis
    then obtain c' where "all_pages request 1 ?page (Some c) = Some (Inr (?page @ drop limit ?rest, c'))"
      using quiet_pages [OF log assms(2) serve, of 1 "Some c" "Some (column (last ?page))" "drop limit ?rest" ?page] req(2) ne(2)
      by auto
    then show ?thesis using req False by (subst all_pages.simps) simp
  qed
qed

text \<open>
  Read from the start, the pages catch up: if the log is quiet from some request on, the loop ends with
  all that it holds at the last request.
\<close>

lemma pages_from_position:
  assumes log: "appends_only td column p dbs" and "limit \<noteq> 0"
    and serve: "serves td column False limit p dbs stands_for request"
    and quiet: "\<And>n. n \<ge> N \<Longrightarrow> selected td p dbs n = selected td p dbs N"
    and "stands_for n c pos" and "acc @ left_over td column False p dbs n pos = selected td p dbs n"
  shows "\<exists>m c'. n \<le> m \<and> all_pages request n acc c = Some (Inr (selected td p dbs m, c'))"
  using assms(5,6)
proof (induction "N - n" arbitrary: n acc c pos)
  case 0
  then have "left_over td column False p dbs n' pos = left_over td column False p dbs n pos" if "n' \<ge> n" for n'
    using quiet [of n'] quiet [of n] that by (simp add: left_over_def)
  then obtain c' where "all_pages request n acc c = Some (Inr (acc @ left_over td column False p dbs n pos, c'))"
    using quiet_pages [OF log assms(2) serve 0(2)] by blast
  then show ?case using 0(3) by auto
next
  case (Suc k)
  let ?rest = "left_over td column False p dbs n pos"
  let ?page = "take limit ?rest"
  let ?pos = "if ?page \<noteq> [] then Some (column (last ?page)) else pos"
  have "page_after td column False limit (p n) pos (dbs n) = (?page, ?pos, length ?rest \<le> limit)"
    using page_after_left_over [OF log, of False limit n pos] by (simp add: Let_def)
  then obtain c' where req: "request n c = Inr (?page, c', length ?rest \<le> limit)" "stands_for (Suc n) (Some c') ?pos"
    using serve Suc.prems(1) unfolding serves_def by blast
  show ?case
  proof (cases "length ?rest \<le> limit")
    case True
    then have "all_pages request n acc c = Some (Inr (acc @ ?rest, c'))" using req by (subst all_pages.simps) simp
    then show ?thesis using Suc.prems(2) by auto
  next
    case False
    then have ne: "?rest \<noteq> []" "?page \<noteq> []" using assms(2) by auto
    obtain new where new: "selected td p dbs (Suc n) = selected td p dbs n @ new"
      using log unfolding appends_only_def by blast
    have at: "last ?page \<in> set (selected td p dbs n)"
      using in_set_takeD [OF last_in_set [OF ne(2)]] by (simp add: left_over_def in_order_def)
    have "left_over td column False p dbs (Suc n) (Some (column (last ?page))) =
        left_over td column False p dbs n (Some (column (last ?page))) @ new"
      using later_are_higher [OF log new at] by (simp add: left_over_def in_order_def new beyond_def filter_True)
    then have next_page: "left_over td column False p dbs (Suc n) (Some (column (last ?page))) = drop limit ?rest @ new"
      by (simp only: left_over_next [OF log assms(2) refl ne(1)])
    have "(acc @ ?page) @ left_over td column False p dbs (Suc n) ?pos = acc @ (?page @ drop limit ?rest) @ new"
      using ne(2) by (simp only: next_page not_False_eq_True if_True append_assoc)
    also have "\<dots> = selected td p dbs (Suc n)"
      by (simp only: append_take_drop_id append_assoc [symmetric] Suc.prems(2) new)
    finally have whole: "(acc @ ?page) @ left_over td column False p dbs (Suc n) ?pos = selected td p dbs (Suc n)" .
    have "k = N - Suc n" using Suc.hyps(2) by simp
    from Suc.hyps(1) [OF this req(2) whole]
    obtain m c'' where "Suc n \<le> m" "all_pages request (Suc n) (acc @ ?page) (Some c') = Some (Inr (selected td p dbs m, c''))"
      by blast
    moreover have "all_pages request n acc c = all_pages request (Suc n) (acc @ ?page) (Some c')"
      using req(1) False by (subst all_pages.simps) simp
    ultimately show ?thesis using Suc_leD by metis
  qed
qed

end
