(* ===== verification/Audit_Paging.thy ===== *)
theory Audit_Paging
  imports Paging Endpoint_Base "HOL-Library.List_Lexorder" "HOL-Library.Char_ord"
begin

text \<open>
  Reading the audit log: the cursors and pages of \<open>api/model/audit_log.py\<close>, the endpoints of
  \<open>api/endpoints/audit_log.py\<close> and the loop of \<open>cli/pfa/audit_log_cli.py\<close> that follows the cursors.
  JSON, base64, SHA-256, \<open>repr\<close> and whether SQL's LIKE ignores the case of a character are the record
  \<open>audit_lib\<close> of functions; a JSON value is a \<open>detail\<close> whose numbers are integers. FastAPI checks the
  query parameters (the limit is between 1 and \<open>MAX_LIMIT\<close>) before the endpoint runs.
\<close>

record audit_lib =
  au_encode :: "detail \<Rightarrow> string"
  au_decode :: "string \<Rightarrow> detail option"
  au_digest :: "details \<Rightarrow> string"
  au_repr :: "string \<Rightarrow> string"
  au_same_char :: "char \<Rightarrow> char \<Rightarrow> bool"

datatype paging_error = InvalidCursor string | InvalidFilter string

definition DEFAULT_LIMIT :: nat where "DEFAULT_LIMIT = 100"
definition MAX_LIMIT :: nat where "MAX_LIMIT = 1000"
definition CURSOR_VERSION :: int where "CURSOR_VERSION = 1"
definition MAX_FOLLOWED_OBJECTS :: nat where "MAX_FOLLOWED_OBJECTS = 100"

section \<open>Cursors\<close>

text \<open>A Python int, which a bool is too.\<close>

fun as_int :: "detail \<Rightarrow> int option" where
  "as_int (DInt n) = Some n"
| "as_int (DBool b) = Some (if b then 1 else 0)"
| "as_int _ = None"

fun as_strings :: "detail list \<Rightarrow> string list option" where
  "as_strings [] = Some []"
| "as_strings (DStr s # ds) = map_option (\<lambda>l. s # l) (as_strings ds)"
| "as_strings (d # ds) = None"

definition cursor_payload :: "int option \<Rightarrow> bool \<Rightarrow> string \<Rightarrow> string list option \<Rightarrow> detail" where
  "cursor_payload position descending filter_key followed_ids = DObject
    ([(''v'', DInt CURSOR_VERSION), (''id'', opt_int position), (''d'', DBool descending), (''f'', DStr filter_key)] @
     (case followed_ids of None \<Rightarrow> [] | Some ids \<Rightarrow> [(''ids'', DList (map DStr ids))]))"

definition encode_cursor :: "audit_lib \<Rightarrow> int option \<Rightarrow> bool \<Rightarrow> string \<Rightarrow> string list option \<Rightarrow> string" where
  "encode_cursor al position descending filter_key followed_ids =
    au_encode al (cursor_payload position descending filter_key followed_ids)"

definition invalid_cursor :: paging_error where
  "invalid_cursor = InvalidCursor ''Invalid cursor''"

text \<open>The checks that both cursors share, after the values were found.\<close>

definition check_cursor ::
    "detail \<Rightarrow> detail \<Rightarrow> detail \<Rightarrow> detail \<Rightarrow> (paging_error + 'a) \<Rightarrow> bool \<Rightarrow> string \<Rightarrow> paging_error + int option \<times> 'a" where
  "check_cursor version position cursor_descending cursor_filter_key rest descending filter_key =
    (if as_int version \<noteq> Some CURSOR_VERSION then Inl (InvalidCursor ''Unsupported cursor version'')
     else if position \<noteq> DNull \<and> as_int position = None \<or> (case cursor_descending of DBool _ \<Rightarrow> False | _ \<Rightarrow> True)
     then Inl invalid_cursor
     else case rest of Inl e \<Rightarrow> Inl e
     | Inr ids \<Rightarrow>
         if cursor_descending \<noteq> DBool descending \<or> cursor_filter_key \<noteq> DStr filter_key
         then Inl (InvalidCursor ''Cursor does not match the requested order and filters'')
         else Inr (as_int position, ids))"

definition decode_cursor ::
    "audit_lib \<Rightarrow> string \<Rightarrow> bool \<Rightarrow> string \<Rightarrow> paging_error + int option \<times> string list option" where
  "decode_cursor al cursor descending filter_key = (case au_decode al cursor of
     Some (DObject d) \<Rightarrow> (case (map_of d ''v'', map_of d ''id'', map_of d ''d'', map_of d ''f'') of
         (Some version, Some position, Some cursor_descending, Some cursor_filter_key) \<Rightarrow>
           check_cursor version position cursor_descending cursor_filter_key
             (case map_of d ''ids'' of
                None \<Rightarrow> Inr None
              | Some DNull \<Rightarrow> Inr None
              | Some (DList l) \<Rightarrow> (case as_strings l of None \<Rightarrow> Inl invalid_cursor | Some ids \<Rightarrow> Inr (Some ids))
              | Some _ \<Rightarrow> Inl invalid_cursor)
             descending filter_key
       | _ \<Rightarrow> Inl invalid_cursor)
   | _ \<Rightarrow> Inl invalid_cursor)"

definition encode_objects_cursor :: "audit_lib \<Rightarrow> int option \<Rightarrow> bool \<Rightarrow> string \<Rightarrow> string" where
  "encode_objects_cursor al position descending filter_key = au_encode al (DObject
    ([(''v'', DInt CURSOR_VERSION), (''d'', DBool descending), (''f'', DStr filter_key)] @
     (case position of None \<Rightarrow> [] | Some p \<Rightarrow> [(''e'', DInt p)])))"

text \<open>Here the position is checked last.\<close>

definition decode_objects_cursor :: "audit_lib \<Rightarrow> string \<Rightarrow> bool \<Rightarrow> string \<Rightarrow> paging_error + int option" where
  "decode_objects_cursor al cursor descending filter_key = (case au_decode al cursor of
     Some (DObject d) \<Rightarrow> (case (map_of d ''v'', map_of d ''d'', map_of d ''f'') of
         (Some version, Some cursor_descending, Some cursor_filter_key) \<Rightarrow>
           (case check_cursor version DNull cursor_descending cursor_filter_key (Inr ()) descending filter_key of
              Inl e \<Rightarrow> Inl e
            | Inr _ \<Rightarrow> (case map_of d ''e'' of
                None \<Rightarrow> Inr None
              | Some DNull \<Rightarrow> Inr None
              | Some position \<Rightarrow> (case as_int position of None \<Rightarrow> Inl invalid_cursor | Some p \<Rightarrow> Inr (Some p))))
       | _ \<Rightarrow> Inl invalid_cursor)
   | _ \<Rightarrow> Inl invalid_cursor)"

section \<open>Filters\<close>

record audit_filters =
  fi_level :: "int option"
  fi_object_type :: "object_type list option"
  fi_action :: "action list option"
  fi_type_prefix :: "string option"
  fi_by_identity_id :: "string option"
  fi_by_tenant_id :: "int option"
  fi_start_time :: "int option"
  fi_end_time :: "int option"
  fi_ref_type :: "object_type option"
  fi_ref_id :: "string option"
  fi_ref_name :: "string option"
  fi_ref_follow :: bool

definition no_filters :: audit_filters where
  "no_filters = \<lparr>fi_level = None, fi_object_type = None, fi_action = None, fi_type_prefix = None,
    fi_by_identity_id = None, fi_by_tenant_id = None, fi_start_time = None, fi_end_time = None,
    fi_ref_type = None, fi_ref_id = None, fi_ref_name = None, fi_ref_follow = False\<rparr>"

text \<open>The digest of the filters that are given, by name; lists are sorted.\<close>

definition given :: "string \<Rightarrow> detail option \<Rightarrow> details" where
  "given name v = (case v of None \<Rightarrow> [] | Some x \<Rightarrow> [(name, x)])"

definition sorted_texts :: "string list \<Rightarrow> detail" where
  "sorted_texts l = DList (map DStr (sort l))"

definition filter_key :: "audit_lib \<Rightarrow> audit_filters \<Rightarrow> string" where
  "filter_key al fi = au_digest al
    (given ''action'' (map_option (\<lambda>l. sorted_texts (map action_value l)) (fi_action fi)) @
     given ''by_identity_id'' (map_option DStr (fi_by_identity_id fi)) @
     given ''by_tenant_id'' (map_option DInt (fi_by_tenant_id fi)) @
     given ''end_time'' (map_option DInt (fi_end_time fi)) @
     given ''level'' (map_option DInt (fi_level fi)) @
     given ''object_type'' (map_option (\<lambda>l. sorted_texts (map object_type_value l)) (fi_object_type fi)) @
     [(''ref_follow'', DBool (fi_ref_follow fi))] @
     given ''ref_id'' (map_option DStr (fi_ref_id fi)) @
     given ''ref_name'' (map_option DStr (fi_ref_name fi)) @
     given ''ref_type'' (map_option (DStr \<circ> object_type_value) (fi_ref_type fi)) @
     given ''start_time'' (map_option DInt (fi_start_time fi)) @
     given ''type_prefix'' (map_option DStr (fi_type_prefix fi)))"

definition escape_like :: "string \<Rightarrow> string" where
  "escape_like t = concat (map (\<lambda>c. if c \<in> {CHR 0x5C, CHR ''%'', CHR ''_''} then [CHR 0x5C, c] else [c]) t)"

text \<open>SQL's \<open>LIKE\<close> with a backslash as the escape character.\<close>

fun sql_like :: "(char \<Rightarrow> char \<Rightarrow> bool) \<Rightarrow> string \<Rightarrow> string \<Rightarrow> bool" where
  "sql_like same [] s \<longleftrightarrow> s = []"
| "sql_like same (p # ps) s \<longleftrightarrow>
    (if p = CHR ''%'' then sql_like same ps s \<or> (case s of [] \<Rightarrow> False | _ # s' \<Rightarrow> sql_like same (p # ps) s')
     else if p = CHR ''_'' then (case s of [] \<Rightarrow> False | _ # s' \<Rightarrow> sql_like same ps s')
     else if p = CHR 0x5C \<and> ps \<noteq> [] then (case s of [] \<Rightarrow> False | c # s' \<Rightarrow> same (hd ps) c \<and> sql_like same (tl ps) s')
     else (case s of [] \<Rightarrow> False | c # s' \<Rightarrow> same p c \<and> sql_like same ps s'))"

definition level_number :: "audit_log_level \<Rightarrow> int" where
  "level_number l = (case l of INFO \<Rightarrow> 1 | WARNING \<Rightarrow> 2)"

text \<open>The conditions on the columns of an entry. An empty list of values filters nothing.\<close>

definition column_matches :: "audit_lib \<Rightarrow> audit_filters \<Rightarrow> audit_log_row \<Rightarrow> bool" where
  "column_matches al fi r \<longleftrightarrow>
    opt_all (\<lambda>t. al_at r \<ge> t) (fi_start_time fi) \<and> opt_all (\<lambda>t. al_at r \<le> t) (fi_end_time fi) \<and>
    opt_all (\<lambda>t. sql_like (au_same_char al) (escape_like t @ ''%'') (al_type r)) (fi_type_prefix fi) \<and>
    opt_all (\<lambda>l. l = [] \<or> al_object_type r \<in> set (map object_type_value l)) (fi_object_type fi) \<and>
    opt_all (\<lambda>l. l = [] \<or> al_action r \<in> set (map action_value l)) (fi_action fi) \<and>
    opt_all (\<lambda>l. level_number (al_level r) = l) (fi_level fi) \<and>
    opt_all (\<lambda>s. map_option show_int (al_by_identity_id r) = Some s) (fi_by_identity_id fi) \<and>
    opt_all (\<lambda>i. al_by_tenant_id r = Some i) (fi_by_tenant_id fi)"

text \<open>The entry has a reference to one of the objects asked for.\<close>

definition ref_matches :: "audit_filters \<Rightarrow> string list option \<Rightarrow> audit_log_ref_row \<Rightarrow> bool" where
  "ref_matches fi followed_ids ref \<longleftrightarrow>
    opt_all (\<lambda>t. rf_object_type ref = object_type_value t) (fi_ref_type fi) \<and>
    opt_all (\<lambda>i. rf_object_id ref = i) (fi_ref_id fi) \<and>
    (fi_ref_follow fi \<or> opt_all (\<lambda>n. rf_object_name ref = Some n) (fi_ref_name fi)) \<and>
    (fi_ref_follow fi \<longrightarrow> rf_object_id ref \<in> set (case followed_ids of None \<Rightarrow> [] | Some ids \<Rightarrow> ids))"

definition entry_matches :: "audit_lib \<Rightarrow> audit_filters \<Rightarrow> string list option \<Rightarrow> app_db \<Rightarrow> audit_log_row \<Rightarrow> bool" where
  "entry_matches al fi followed_ids db r \<longleftrightarrow>
    column_matches al fi r \<and>
    (fi_ref_type fi = None \<and> fi_ref_id fi = None \<and> fi_ref_name fi = None \<or>
     list_ex (\<lambda>ref. rf_entry_id ref = al_id r \<and> ref_matches fi followed_ids ref) (tb_rows (db_audit_log_ref db)))"

section \<open>One page of entries\<close>

record audit_page =
  pg_entries :: "audit_log_row list"
  pg_refs :: "(int \<times> audit_log_ref_row list) list"
  pg_next_cursor :: string
  pg_is_last :: bool

definition objects_with_this_name :: "object_type \<Rightarrow> string \<Rightarrow> nat \<Rightarrow> app_db \<Rightarrow> string list" where
  "objects_with_this_name ref_type wanted limit db =
    sort (map on_object_id (table_read_page audit_log_object_name_table on_id False limit
      (\<lambda>r. on_object_type r = object_type_value ref_type \<and> on_object_name r = wanted) db))"

text \<open>The ids that a name stands for: found on the first page, then carried by the cursor.\<close>

definition followed_objects ::
    "audit_lib \<Rightarrow> audit_filters \<Rightarrow> bool \<Rightarrow> string list option \<Rightarrow> app_db \<Rightarrow> paging_error + string list option" where
  "followed_objects al fi first carried db =
    (if \<not> fi_ref_follow fi then Inr carried
     else case (fi_ref_type fi, fi_ref_name fi) of
       (Some ref_type, Some wanted) \<Rightarrow>
         if first
         then (let ids = objects_with_this_name ref_type wanted (MAX_FOLLOWED_OBJECTS + 1) db
               in if length ids > MAX_FOLLOWED_OBJECTS
                  then Inl (InvalidFilter (''The name '' @ au_repr al wanted @ '' was used by more than '' @
                    show_int (int MAX_FOLLOWED_OBJECTS) @ '' '' @ object_type_value ref_type @
                    '' objects. List them with the audit log objects command, and ask for one of them with ref_id''))
                  else Inr (Some ids))
         else if carried = None then Inl invalid_cursor else Inr carried
     | _ \<Rightarrow> Inl (InvalidFilter ''Following a name needs ref_type''))"

definition page_limit :: "nat \<Rightarrow> nat" where
  "page_limit limit = max 1 (min limit MAX_LIMIT)"

definition page_of_entries ::
    "audit_lib \<Rightarrow> audit_filters \<Rightarrow> bool \<Rightarrow> nat \<Rightarrow> int option \<Rightarrow> string list option \<Rightarrow> app_db \<Rightarrow> audit_page" where
  "page_of_entries al fi descending limit position followed_ids db =
    (let (rows, next_position, is_last) = page_after audit_log_table al_id descending (page_limit limit)
           (entry_matches al fi followed_ids db) position db
     in \<lparr>pg_entries = rows,
         pg_refs = map (\<lambda>i. (i, if rows = [] then [] else filter (\<lambda>ref. rf_entry_id ref = i)
           (table_read_all audit_log_ref_table (\<lambda>ref. rf_entry_id ref \<in> set (map al_id rows)) db))) (map al_id rows),
         pg_next_cursor = encode_cursor al next_position descending (filter_key al fi)
           (if fi_ref_follow fi then followed_ids else None),
         pg_is_last = is_last\<rparr>)"

definition read_page ::
    "audit_lib \<Rightarrow> audit_filters \<Rightarrow> bool \<Rightarrow> nat \<Rightarrow> string option \<Rightarrow> app_db \<Rightarrow> paging_error + audit_page" where
  "read_page al fi descending limit cursor db =
    (if fi_ref_follow fi \<and> fi_ref_name fi = None then Inl (InvalidFilter ''ref_follow needs ref_name'')
     else case (case cursor of None \<Rightarrow> Inr (None, None) | Some c \<Rightarrow> decode_cursor al c descending (filter_key al fi)) of
       Inl e \<Rightarrow> Inl e
     | Inr (position, carried) \<Rightarrow> (case followed_objects al fi (cursor = None) carried db of
         Inl e \<Rightarrow> Inl e
       | Inr followed_ids \<Rightarrow> Inr (page_of_entries al fi descending limit position followed_ids db)))"

section \<open>One page of objects\<close>

record named_object =
  no_object_type :: string
  no_object_id :: string
  no_names :: "string list"
  no_first_seen :: "int option"

record objects_page =
  op_objects :: "named_object list"
  op_next_cursor :: string
  op_is_last :: bool

text \<open>Every name of an object, in the order it got them, and when the entry that gave the first was written.\<close>

definition named_object_of :: "object_type \<Rightarrow> app_db \<Rightarrow> audit_log_object_name_row \<Rightarrow> named_object" where
  "named_object_of ref_type db r =
    (let names = sort_key on_id (table_read_all audit_log_object_name_table
           (\<lambda>n. on_object_type n = object_type_value ref_type \<and> on_object_id n = on_object_id r) db)
     in \<lparr>no_object_type = object_type_value ref_type, no_object_id = on_object_id r,
         no_names = map on_object_name names,
         no_first_seen = map_option al_at
           (table_read_one audit_log_table (\<lambda>e. al_id e = on_first_entry_id (hd names)) db)\<rparr>)"

definition objects_filter_key :: "audit_lib \<Rightarrow> object_type \<Rightarrow> string \<Rightarrow> string" where
  "objects_filter_key al ref_type wanted = au_digest al
    [(''kind'', DStr ''objects''), (''ref_name'', DStr wanted), (''ref_type'', DStr (object_type_value ref_type))]"

definition objects_with_name ::
    "audit_lib \<Rightarrow> object_type \<Rightarrow> string \<Rightarrow> bool \<Rightarrow> nat \<Rightarrow> string option \<Rightarrow> app_db \<Rightarrow> paging_error + objects_page" where
  "objects_with_name al ref_type wanted descending limit cursor db =
    (let key = objects_filter_key al ref_type wanted
     in case (case cursor of None \<Rightarrow> Inr None | Some c \<Rightarrow> decode_objects_cursor al c descending key) of
       Inl e \<Rightarrow> Inl e
     | Inr position \<Rightarrow>
         (let (rows, next_position, is_last) = page_after audit_log_object_name_table on_id descending
                (page_limit limit)
                (\<lambda>r. on_object_type r = object_type_value ref_type \<and> on_object_name r = wanted) position db
          in Inr \<lparr>op_objects = map (named_object_of ref_type db) rows,
               op_next_cursor = encode_objects_cursor al next_position descending key,
               op_is_last = is_last\<rparr>))"

section \<open>The endpoints\<close>

definition paging_problem :: "paging_error + 'a \<Rightarrow> exn + 'a" where
  "paging_problem r = (case r of
     Inl (InvalidCursor t) \<Rightarrow> Inl (Http (problem_response 400 about_blank (Some t) None))
   | Inl (InvalidFilter t) \<Rightarrow> Inl (Http (problem_response 400 about_blank (Some t) None))
   | Inr x \<Rightarrow> Inr x)"

definition may_read_audit_log :: "request_ctx \<Rightarrow> unit handler" where
  "may_read_audit_log cx = and_then (grants_create cx) (\<lambda>grants.
    if audit_log_can_read (grants_audit_log grants) then ret ()
    else reject 403 ''Not allowed to read audit log'' None)"

definition audit_types_endpoint :: "(object_type \<times> action list) list" where
  "audit_types_endpoint = sort_key (\<lambda>(t, _). object_type_value t) actions_by_object_type"

definition audit_objects_endpoint ::
    "audit_lib \<Rightarrow> request_ctx \<Rightarrow> object_type \<Rightarrow> string \<Rightarrow> bool \<Rightarrow> nat \<Rightarrow> string option \<Rightarrow> objects_page handler" where
  "audit_objects_endpoint al cx ref_type wanted descending limit cursor = seq (may_read_audit_log cx)
    (and_then (reads (objects_with_name al ref_type wanted descending limit cursor)) (\<lambda>r. lifting (paging_problem r)))"

definition audit_list_endpoint ::
    "audit_lib \<Rightarrow> request_ctx \<Rightarrow> audit_filters \<Rightarrow> bool \<Rightarrow> nat \<Rightarrow> string option \<Rightarrow> audit_page handler" where
  "audit_list_endpoint al cx fi descending limit cursor = seq (may_read_audit_log cx)
    (and_then (reads (read_page al fi descending limit cursor)) (\<lambda>r. lifting (paging_problem r)))"

section \<open>Following the cursors\<close>

text \<open>
  The loop of \<open>pfa audit-log list --all\<close>: the n-th request reaches the server in the n-th world, and
  what it cannot do anything about ends it.
\<close>

definition audit_request ::
    "audit_lib \<Rightarrow> request_ctx \<Rightarrow> audit_filters \<Rightarrow> bool \<Rightarrow> nat \<Rightarrow> (nat \<Rightarrow> world) \<Rightarrow> nat \<Rightarrow> string option \<Rightarrow>
      exn + audit_log_row list \<times> string \<times> bool" where
  "audit_request al cx fi descending limit ws n cursor =
    (case fst (audit_list_endpoint al cx fi descending limit cursor (ws n)) of
       Inl e \<Rightarrow> Inl e | Inr page \<Rightarrow> Inr (pg_entries page, pg_next_cursor page, pg_is_last page))"

definition fetch_all_entries ::
    "audit_lib \<Rightarrow> request_ctx \<Rightarrow> audit_filters \<Rightarrow> bool \<Rightarrow> nat \<Rightarrow> string option \<Rightarrow> (nat \<Rightarrow> world) \<Rightarrow>
      (exn + audit_log_row list \<times> string) option" where
  "fetch_all_entries al cx fi descending limit cursor ws =
    all_pages (audit_request al cx fi descending limit ws) 0 [] cursor"

end
