(* ===== verification/Audit_Reading.thy ===== *)
theory Audit_Reading
  imports Audit_Paging Policy_Safety
begin

text \<open>
  What a reader of the audit log gets: the prefix filter is a prefix test whatever the text holds, a
  cursor continues the query it came from and no other, and who follows the cursors of a log that others
  keep writing gets every matching entry exactly once, in order, and an end.
\<close>

section \<open>The prefix filter\<close>

lemma sql_like_rest: "sql_like same ''%'' s"
  by (induction s) simp_all

text \<open>
  C37. The type prefix of a query is taken literally. The pattern that the code builds from it matches a
  type exactly when the type begins with the text (for the database's notion of equal characters), also
  when the text holds the wild cards and the escape character of LIKE.
\<close>

theorem type_prefix_is_literal:
  "sql_like same (escape_like t @ ''%'') s = list_all2 same t (take (length t) s)"
proof (induction t arbitrary: s)
  case Nil
  show ?case using sql_like_rest [of same s] by (simp add: escape_like_def)
next
  case (Cons c t)
  have step: "escape_like (c # t) = (if c \<in> {CHR 0x5C, CHR ''%'', CHR ''_''} then [CHR 0x5C, c] else [c]) @ escape_like t"
    by (simp add: escape_like_def)
  show ?case
    using Cons.IH unfolding step by (cases s) auto
qed

section \<open>Cursors\<close>

lemma as_strings_map: "as_strings (map DStr l) = Some l"
  by (induction l) simp_all

definition decodes_back :: "audit_lib \<Rightarrow> string \<Rightarrow> string list option \<Rightarrow> bool" where
  "decodes_back al key ids \<longleftrightarrow> (\<forall>position descending.
    au_decode al (encode_cursor al position descending key ids) = Some (cursor_payload position descending key ids))"

lemma cursor_back:
  assumes "decodes_back al key ids"
  shows "decode_cursor al (encode_cursor al position descending key ids) descending key = Inr (position, ids)"
  using assms unfolding decodes_back_def
  by (cases position; cases ids)
    (simp_all add: decode_cursor_def cursor_payload_def check_cursor_def CURSOR_VERSION_def opt_int_def as_strings_map)

lemma cursor_other_query:
  assumes "decodes_back al key ids" and "descending' \<noteq> descending \<or> key' \<noteq> key"
  shows "decode_cursor al (encode_cursor al position descending key ids) descending' key' =
    Inl (InvalidCursor ''Cursor does not match the requested order and filters'')"
  using assms unfolding decodes_back_def
  by (cases position; cases ids)
    (auto simp: decode_cursor_def cursor_payload_def check_cursor_def CURSOR_VERSION_def opt_int_def as_strings_map)

definition carried :: "audit_filters \<Rightarrow> string list option \<Rightarrow> string list option" where
  "carried fi ids = (if fi_ref_follow fi then ids else None)"

section \<open>A log that is written while it is read\<close>

text \<open>
  Entries are appended with higher numbers (this is what \<open>committed_entries_numbered\<close> gives), each with
  its references.
\<close>

definition audit_log_grows :: "(nat \<Rightarrow> world) \<Rightarrow> bool" where
  "audit_log_grows ws \<longleftrightarrow> (\<forall>n.
    let db = w_db (ws n); db' = w_db (ws (Suc n))
    in increasing al_id (tb_rows (db_audit_log db)) \<and>
       (\<exists>new. tb_rows (db_audit_log db') = tb_rows (db_audit_log db) @ new) \<and>
       (\<exists>refs. tb_rows (db_audit_log_ref db') = tb_rows (db_audit_log_ref db) @ refs \<and>
         rf_entry_id ` set refs \<inter> al_id ` set (tb_rows (db_audit_log db)) = {}))"

definition matching :: "audit_lib \<Rightarrow> audit_filters \<Rightarrow> string list option \<Rightarrow> world \<Rightarrow> audit_log_row list" where
  "matching al fi ids w = filter (entry_matches al fi ids (w_db w)) (tb_rows (db_audit_log (w_db w)))"

lemma entry_matches_kept:
  assumes "audit_log_grows ws" and "r \<in> set (tb_rows (db_audit_log (w_db (ws n))))"
  shows "entry_matches al fi ids (w_db (ws (Suc n))) r = entry_matches al fi ids (w_db (ws n)) r"
proof -
  obtain refs where "tb_rows (db_audit_log_ref (w_db (ws (Suc n)))) = tb_rows (db_audit_log_ref (w_db (ws n))) @ refs"
      "rf_entry_id ` set refs \<inter> al_id ` set (tb_rows (db_audit_log (w_db (ws n)))) = {}"
    using assms(1) unfolding audit_log_grows_def Let_def by blast
  moreover have "\<not> list_ex (\<lambda>ref. rf_entry_id ref = al_id r \<and> ref_matches fi ids ref) refs"
    using calculation(2) assms(2) by (auto simp: list_ex_iff)
  ultimately show ?thesis by (auto simp: entry_matches_def)
qed

lemma matching_selected:
  "selected audit_log_table (\<lambda>n. entry_matches al fi ids (w_db (ws n))) (\<lambda>n. w_db (ws n)) n = matching al fi ids (ws n)"
  by (simp add: selected_def matching_def audit_log_table_def)

lemma audit_log_appends:
  assumes "audit_log_grows ws"
  shows "appends_only audit_log_table al_id (\<lambda>n. entry_matches al fi ids (w_db (ws n))) (\<lambda>n. w_db (ws n))"
  unfolding appends_only_def matching_selected
proof (intro allI conjI)
  fix n
  show "increasing al_id (tb_rows (td_get audit_log_table (w_db (ws n))))"
    using assms by (simp add: audit_log_grows_def Let_def audit_log_table_def)
  obtain new where "tb_rows (db_audit_log (w_db (ws (Suc n)))) = tb_rows (db_audit_log (w_db (ws n))) @ new"
    using assms unfolding audit_log_grows_def Let_def by blast
  then show "\<exists>new. matching al fi ids (ws (Suc n)) = matching al fi ids (ws n) @ new"
    using entry_matches_kept [OF assms, of _ n al fi ids] by (simp add: matching_def cong: filter_cong)
qed

definition entries_cursor ::
    "audit_lib \<Rightarrow> audit_filters \<Rightarrow> bool \<Rightarrow> string list option \<Rightarrow> nat \<Rightarrow> string option \<Rightarrow> int option \<Rightarrow> bool" where
  "entries_cursor al fi descending ids n cursor position \<longleftrightarrow>
    (if n = 0 then cursor = None \<and> position = None
     else cursor = Some (encode_cursor al position descending (filter_key al fi) (carried fi ids)))"

lemma followed_later:
  assumes "followed_objects al fi True None db0 = Inr ids"
  shows "followed_objects al fi False (carried fi ids) db = Inr ids"
  using assms by (auto simp: followed_objects_def carried_def Let_def split: if_splits option.splits)

lemma read_page_first:
  assumes "followed_objects al fi True None db = Inr ids"
  shows "read_page al fi descending limit None db = Inr (page_of_entries al fi descending limit None ids db)"
  using assms by (auto simp: read_page_def followed_objects_def split: if_splits option.splits)

lemma read_page_next:
  assumes "decodes_back al (filter_key al fi) (carried fi ids)" and "followed_objects al fi True None db0 = Inr ids"
  shows "read_page al fi descending limit (Some (encode_cursor al position descending (filter_key al fi)
      (carried fi ids))) db = Inr (page_of_entries al fi descending limit position ids db)"
proof -
  have "\<not> (fi_ref_follow fi \<and> fi_ref_name fi = None)"
    using assms(2) by (auto simp: followed_objects_def split: option.splits)
  then show ?thesis
    by (auto simp: read_page_def cursor_back [OF assms(1)] followed_later [OF assms(2)])
qed

definition always_may_read :: "request_ctx \<Rightarrow> (nat \<Rightarrow> world) \<Rightarrow> bool" where
  "always_may_read cx ws \<longleftrightarrow> (\<forall>n. \<exists>w'. may_read_audit_log cx (ws n) = (Inr (), w'))"

lemma may_read_keeps: "keeps P (may_read_audit_log cx)"
  unfolding may_read_audit_log_def reject_def by (intro keeps_rules grants_create_keeps)

lemma audit_request_page:
  assumes codec: "decodes_back al (filter_key al fi) (carried fi ids)"
    and may: "always_may_read cx ws"
    and ids: "followed_objects al fi True None (w_db (ws 0)) = Inr ids"
    and at: "entries_cursor al fi descending ids n cursor position"
  shows "\<exists>page. audit_request al cx fi descending limit ws n cursor =
      Inr (pg_entries page, pg_next_cursor page, pg_is_last page) \<and>
    page = page_of_entries al fi descending limit position ids (w_db (ws n))"
proof -
  have allowed: "may_read_audit_log cx (ws n) = (Inr (), ws n)"
    using may same_state [OF may_read_keeps] unfolding always_may_read_def by metis
  have "read_page al fi descending limit cursor (w_db (ws n)) = Inr (page_of_entries al fi descending limit position ids (w_db (ws n)))"
    using at read_page_first [OF ids] read_page_next [OF codec ids] by (auto simp: entries_cursor_def split: if_splits)
  then show ?thesis
    by (simp add: audit_request_def audit_list_endpoint_def seq_def and_then_def allowed reads_run lifting_def
        paging_problem_def)
qed

lemma audit_request_serves:
  assumes codec: "decodes_back al (filter_key al fi) (carried fi ids)"
    and may: "always_may_read cx ws"
    and ids: "followed_objects al fi True None (w_db (ws 0)) = Inr ids"
  shows "serves audit_log_table al_id descending (page_limit limit) (\<lambda>n. entry_matches al fi ids (w_db (ws n)))
    (\<lambda>n. w_db (ws n)) (entries_cursor al fi descending ids) (audit_request al cx fi descending limit ws)"
  unfolding serves_def
proof (intro allI impI)
  fix n c pos page pos' is_last
  assume "entries_cursor al fi descending ids n c pos"
    and page: "page_after audit_log_table al_id descending (page_limit limit) (entry_matches al fi ids (w_db (ws n)))
      pos (w_db (ws n)) = (page, pos', is_last)"
  then show "\<exists>c'. audit_request al cx fi descending limit ws n c = Inr (page, c', is_last) \<and>
      entries_cursor al fi descending ids (Suc n) (Some c') pos'"
    using audit_request_page [OF codec may ids, of descending n c pos limit]
    by (auto simp: page_of_entries_def page entries_cursor_def carried_def)
qed

text \<open>
  C31. Following the cursors of the audit log ends and loses nothing. A caller who may read the log asks
  for page after page while other requests keep appending entries. Newest first, the loop ends with
  exactly the matching entries that the log held at the first request; oldest first, it ends as soon as
  the log is quiet for long enough, with exactly those it held at the last request. Each entry comes once and
  in order, whatever the limit, also when the query follows the objects that had a name.
\<close>

theorem audit_log_read_completely:
  assumes codec: "decodes_back al (filter_key al fi) (carried fi ids)"
    and grows: "audit_log_grows ws"
    and may: "always_may_read cx ws"
    and ids: "followed_objects al fi True None (w_db (ws 0)) = Inr ids"
    and quiet: "\<And>n. n \<ge> N \<Longrightarrow> matching al fi ids (ws n) = matching al fi ids (ws N)"
  shows "(\<exists>c. fetch_all_entries al cx fi True limit None ws = Some (Inr (rev (matching al fi ids (ws 0)), c))) \<and>
    (\<exists>m c. fetch_all_entries al cx fi False limit None ws = Some (Inr (matching al fi ids (ws m), c)))"
proof
  have pos: "page_limit limit \<noteq> 0" by (simp add: page_limit_def)
  note log = audit_log_appends [OF grows, of al fi ids]
  note serve = audit_request_serves [OF codec may ids]
  show "\<exists>c. fetch_all_entries al cx fi True limit None ws = Some (Inr (rev (matching al fi ids (ws 0)), c))"
    unfolding fetch_all_entries_def
    using pages_from_the_end [OF log pos serve] by (simp add: matching_selected entries_cursor_def)
  have start: "entries_cursor al fi False ids 0 None None" by (simp add: entries_cursor_def)
  have whole: "[] @ left_over audit_log_table al_id False (\<lambda>n. entry_matches al fi ids (w_db (ws n))) (\<lambda>n. w_db (ws n)) 0 None =
      selected audit_log_table (\<lambda>n. entry_matches al fi ids (w_db (ws n))) (\<lambda>n. w_db (ws n)) 0"
    by (simp add: left_over_def in_order_def beyond_def)
  have unchanged: "selected audit_log_table (\<lambda>n. entry_matches al fi ids (w_db (ws n))) (\<lambda>n. w_db (ws n)) n =
      selected audit_log_table (\<lambda>n. entry_matches al fi ids (w_db (ws n))) (\<lambda>n. w_db (ws n)) N" if "n \<ge> N" for n
    using quiet [OF that] unfolding matching_selected .
  show "\<exists>m c. fetch_all_entries al cx fi False limit None ws = Some (Inr (matching al fi ids (ws m), c))"
    using pages_from_position [OF log pos serve unchanged start whole]
    unfolding fetch_all_entries_def matching_selected by blast
qed

section \<open>A sample\<close>

definition audit_reader :: grant where
  "audit_reader = AuditLogGrant \<lparr>g_filter = (), g_permission = \<lparr>alp_read = True\<rparr>\<rparr>"

definition sample_entry :: "int \<Rightarrow> audit_log_row" where
  "sample_entry n = \<lparr>al_id = n, al_at = n, al_level = INFO, al_type = ''tag.create'', al_by_identity_id = Some 1,
    al_details = [], al_object_type = ''tag'', al_action = ''create'', al_by_identity_name = None,
    al_by_tenant_id = None, al_by_tenant_name = None\<rparr>"

text \<open>Two entries at the first request, one more from then on.\<close>

definition audited :: "nat \<Rightarrow> world" where
  "audited n = site_world\<lparr>w_db := site_db\<lparr>
    db_role := \<lparr>tb_rows = [\<lparr>ro_id = 1, ro_name = ''admin'', ro_description = '''', ro_grant_list = [audit_reader]\<rparr>],
      tb_seq = 1\<rparr>,
    db_audit_log := \<lparr>tb_rows = map sample_entry ([1, 2] @ (if n = 0 then [] else [3])), tb_seq = 0\<rparr>\<rparr>\<rparr>"

definition plain_codec :: audit_lib where
  "plain_codec = \<lparr>au_encode = (\<lambda>d. case d of
      DObject l \<Rightarrow> (case (map_of l ''id'', map_of l ''d'') of
        (Some p, Some (DBool b)) \<Rightarrow> (if b then CHR ''d'' else CHR ''a'') # (case p of DInt n \<Rightarrow> show_int n | _ \<Rightarrow> '''')
      | _ \<Rightarrow> '''') | _ \<Rightarrow> ''''),
    au_decode = (\<lambda>s. case s of [] \<Rightarrow> None | c # r \<Rightarrow> Some (cursor_payload (parse_int r) (c = CHR ''d'') '''' None)),
    au_digest = (\<lambda>_. ''''), au_repr = id, au_same_char = (=)\<rparr>"

lemma sample_codec: "decodes_back plain_codec (filter_key plain_codec no_filters) (carried no_filters None)"
proof -
  have empty: "parse_int [] = None" by (simp add: parse_int_def)
  have "au_decode plain_codec (encode_cursor plain_codec p b '''' None) = Some (cursor_payload p b '''' None)" for p b
    by (cases p; cases b)
      (simp_all add: plain_codec_def encode_cursor_def cursor_payload_def opt_int_def parse_show_int empty)
  then show ?thesis by (simp add: decodes_back_def filter_key_def carried_def no_filters_def plain_codec_def)
qed

lemma sample_grows: "audit_log_grows audited"
  by (auto simp: audit_log_grows_def audited_def increasing_def sample_entry_def site_db_def empty_db_def empty_table_def
      Let_def)

lemma sample_may_read: "always_may_read ann_admin audited"
  unfolding always_may_read_def
proof
  fix n
  have "fst (may_read_audit_log ann_admin (audited 0)) = Inr ()" "fst (may_read_audit_log ann_admin (audited 1)) = Inr ()"
    by code_simp+
  moreover have "audited n = audited 1" if "n \<noteq> 0" using that by (simp add: audited_def)
  ultimately show "\<exists>w'. may_read_audit_log ann_admin (audited n) = (Inr (), w')"
    by (cases "n = 0") (metis prod.collapse)+
qed

theorem audit_log_read_completely_witness:
  "(\<exists>c. fetch_all_entries plain_codec ann_admin no_filters True 1 None audited =
      Some (Inr (map sample_entry [2, 1], c))) \<and>
    (\<exists>m c. fetch_all_entries plain_codec ann_admin no_filters False 1 None audited =
      Some (Inr (map sample_entry ([1, 2] @ (if m = (0::nat) then [] else [3])), c)))"
proof -
  have all: "matching plain_codec no_filters None (audited n) = map sample_entry ([1, 2] @ (if n = 0 then [] else [3]))" for n
    by (simp add: matching_def entry_matches_def column_matches_def no_filters_def audited_def)
  have followed: "followed_objects plain_codec no_filters True None (w_db (audited 0)) = Inr None"
    by (simp add: followed_objects_def no_filters_def)
  show ?thesis
    using audit_log_read_completely [OF sample_codec sample_grows sample_may_read followed, of 1 1]
    unfolding all by (auto; blast)
qed

end
