(* ===== verification/Retention.thy ===== *)
theory Retention
  imports Paging Audit_Catalogue
begin

text \<open>
  \<open>api/model/retention.py\<close>: deleting the records of a tenant that are past their retention period, in
  transactions of at most a batch of entries. The two loops end because each transaction but the last
  deletes a row. Outside a request \<open>before_commit\<close> runs its action at once, so the entry about the run is
  inserted directly; \<open>written_at\<close> is the clock at that time.
\<close>

definition BATCH_SIZE :: nat where "BATCH_SIZE = 5000"
definition DAY_S :: int where "DAY_S = 24 * 3600"

record purge_result =
  pr_audit_entries :: int
  pr_activity_entries :: int
  pr_refs :: int
  pr_object_names :: int
  pr_live_sessions :: int
  pr_highest_entry_id :: "int option"

definition PurgeResult :: purge_result where
  "PurgeResult = \<lparr>pr_audit_entries = 0, pr_activity_entries = 0, pr_refs = 0, pr_object_names = 0,
    pr_live_sessions = 0, pr_highest_entry_id = None\<rparr>"

definition purge_total :: "purge_result \<Rightarrow> int" where
  "purge_total r = pr_audit_entries r + pr_activity_entries r + pr_refs r + pr_object_names r + pr_live_sessions r"

definition activity_types :: "string list" where
  "activity_types = map audit_type_string ACTIVITY_TYPES"

definition exempt_types :: "string list" where
  "exempt_types = map audit_type_string EXEMPT_TYPES"

section \<open>One transaction\<close>

definition old_audit :: "nat \<Rightarrow> int \<Rightarrow> app_db \<Rightarrow> audit_log_row list" where
  "old_audit batch_size audit_cutoff = table_read_page audit_log_table al_id False batch_size
    (\<lambda>r. al_at r < audit_cutoff \<and> al_type r \<notin> set (activity_types @ exempt_types))"

definition old_activity :: "nat \<Rightarrow> int \<Rightarrow> app_db \<Rightarrow> audit_log_row list" where
  "old_activity batch_size activity_cutoff = table_read_page audit_log_table al_id False batch_size
    (\<lambda>r. al_at r < activity_cutoff \<and> al_type r \<in> set activity_types)"

definition delete_entries :: "int list \<Rightarrow> app_db \<Rightarrow> app_db" where
  "delete_entries ids db = db\<lparr>
    db_audit_log_ref := delete_rows (\<lambda>r. rf_entry_id r \<in> set ids) (db_audit_log_ref db),
    db_audit_log_object_name := delete_rows (\<lambda>r. on_first_entry_id r \<in> set ids) (db_audit_log_object_name db),
    db_audit_log := delete_rows (\<lambda>r. al_id r \<in> set ids) (db_audit_log db)\<rparr>"

definition purge_step ::
    "nat \<Rightarrow> int \<Rightarrow> int \<Rightarrow> app_db \<Rightarrow> purge_result \<Rightarrow> (app_db \<times> purge_result) option" where
  "purge_step batch_size audit_cutoff activity_cutoff db result =
    (let audit = old_audit batch_size audit_cutoff db;
         activity = old_activity batch_size activity_cutoff db;
         entries = take batch_size (audit @ activity);
         ids = map al_id entries;
         audit_ids = set (map al_id audit)
     in if entries = [] then None
        else Some (delete_entries ids db, result\<lparr>
          pr_audit_entries := pr_audit_entries result + int (length (filter (\<lambda>e. al_id e \<in> audit_ids) entries)),
          pr_activity_entries := pr_activity_entries result + int (length (filter (\<lambda>e. al_id e \<notin> audit_ids) entries)),
          pr_refs := pr_refs result +
            int (length (filter (\<lambda>r. rf_entry_id r \<in> set ids) (tb_rows (db_audit_log_ref db)))),
          pr_object_names := pr_object_names result +
            int (length (filter (\<lambda>r. on_first_entry_id r \<in> set ids) (tb_rows (db_audit_log_object_name db)))),
          pr_highest_entry_id := Some (Max (set (ids @ (case pr_highest_entry_id result of
            None \<Rightarrow> [] | Some h \<Rightarrow> if h = 0 then [] else [h]))))\<rparr>))"

lemma in_read_page: "set (table_read_page td column descending limit p db) \<subseteq> {r \<in> set (tb_rows (td_get td db)). p r}"
  by (auto simp: table_read_page_def table_read_all_def dest!: in_set_takeD split: if_splits)

lemma read_page_empty:
  fixes column :: "'r \<Rightarrow> int"
  shows "limit \<noteq> 0 \<Longrightarrow> table_read_page td column descending limit p db = [] \<longleftrightarrow> filter p (tb_rows (td_get td db)) = []"
proof -
  have "sort_key column xs = [] \<longleftrightarrow> xs = []" for xs :: "'r list" by (metis length_0_conv length_sort)
  then show "limit \<noteq> 0 \<Longrightarrow> ?thesis" by (simp add: table_read_page_def table_read_all_def)
qed

lemma chosen_entries:
  "e \<in> set (take batch (old_audit batch a db @ old_activity batch c db)) \<Longrightarrow>
    e \<in> set (tb_rows (db_audit_log db))"
  using in_read_page [of audit_log_table al_id False batch _ db]
  by (fastforce simp: old_audit_def old_activity_def audit_log_table_def dest!: in_set_takeD)

lemma purge_step_shrinks:
  assumes "purge_step batch a c db result = Some (db', result')"
  shows "length (tb_rows (db_audit_log db')) < length (tb_rows (db_audit_log db))"
proof -
  let ?entries = "take batch (old_audit batch a db @ old_activity batch c db)"
  have ne: "?entries \<noteq> []" and db': "db' = delete_entries (map al_id ?entries) db"
    using assms by (auto simp: purge_step_def Let_def split: if_splits)
  then have "hd ?entries \<in> set (tb_rows (db_audit_log db))" using chosen_entries hd_in_set by blast
  then have "length (filter (\<lambda>r. al_id r \<notin> set (map al_id ?entries)) (tb_rows (db_audit_log db))) <
      length (tb_rows (db_audit_log db))"
    using ne hd_in_set [OF ne] by (intro length_filter_less [of "hd ?entries"]) auto
  then show ?thesis by (simp add: db' delete_entries_def delete_rows_def)
qed

section \<open>The loops\<close>

function purge_entries :: "nat \<Rightarrow> int \<Rightarrow> int \<Rightarrow> app_db \<Rightarrow> purge_result \<Rightarrow> app_db \<times> purge_result" where
  "purge_entries batch_size audit_cutoff activity_cutoff db result =
    (case purge_step batch_size audit_cutoff activity_cutoff db result of
       None \<Rightarrow> (db, result)
     | Some (db', result') \<Rightarrow> purge_entries batch_size audit_cutoff activity_cutoff db' result')"
  by pat_completeness auto
termination
  by (relation "measure (\<lambda>(_, _, _, db, _). length (tb_rows (db_audit_log db)))")
    (auto dest: purge_step_shrinks)

declare purge_entries.simps [simp del]

definition ended_sessions :: "nat \<Rightarrow> int \<Rightarrow> app_db \<Rightarrow> live_session_row list" where
  "ended_sessions batch_size cutoff = table_read_page live_session_table (\<lambda>r. the (ls_ended_at r)) False batch_size
    (\<lambda>r. case ls_ended_at r of None \<Rightarrow> False | Some t \<Rightarrow> t < cutoff)"

definition delete_sessions :: "string list \<Rightarrow> app_db \<Rightarrow> app_db" where
  "delete_sessions ids db = db\<lparr>db_live_session := delete_rows (\<lambda>r. ls_id r \<in> set ids) (db_live_session db)\<rparr>"

lemma sessions_shrink:
  assumes "ended_sessions batch cutoff db = s # ss"
  shows "length (tb_rows (db_live_session (delete_sessions (map ls_id (s # ss)) db))) <
    length (tb_rows (db_live_session db))"
proof -
  have "s \<in> set (tb_rows (db_live_session db))"
    using in_read_page [of live_session_table "\<lambda>r. the (ls_ended_at r)" False batch
        "\<lambda>r. case ls_ended_at r of None \<Rightarrow> False | Some t \<Rightarrow> t < cutoff" db] assms
    by (simp add: ended_sessions_def live_session_table_def)
  then have "length (filter (\<lambda>r. ls_id r \<notin> set (map ls_id (s # ss))) (tb_rows (db_live_session db))) <
      length (tb_rows (db_live_session db))"
    by (intro length_filter_less [of s]) auto
  then show ?thesis by (simp add: delete_sessions_def delete_rows_def)
qed

function purge_sessions :: "nat \<Rightarrow> int \<Rightarrow> app_db \<Rightarrow> purge_result \<Rightarrow> app_db \<times> purge_result" where
  "purge_sessions batch_size cutoff db result = (case ended_sessions batch_size cutoff db of
     [] \<Rightarrow> (db, result)
   | s # ss \<Rightarrow>
       let ids = map ls_id (s # ss)
       in purge_sessions batch_size cutoff (delete_sessions ids db) (result\<lparr>pr_live_sessions := pr_live_sessions result +
            int (length (filter (\<lambda>r. ls_id r \<in> set ids) (tb_rows (db_live_session db))))\<rparr>))"
  by pat_completeness auto
termination
  by (relation "measure (\<lambda>(_, _, db, _). length (tb_rows (db_live_session db)))")
    (auto simp del: list.map dest: sessions_shrink)

declare purge_sessions.simps [simp del]

definition purge_entry :: "int \<Rightarrow> int \<Rightarrow> int \<Rightarrow> purge_result \<Rightarrow> app_db \<Rightarrow> exn + pending_entry" where
  "purge_entry written_at audit_cutoff activity_cutoff result =
    make_entry TENANT_PURGE_EXPIRED written_at None
      [(''audit_cutoff'', DInt audit_cutoff), (''activity_cutoff'', DInt activity_cutoff),
       (''highest_entry_id'', opt_int (pr_highest_entry_id result)),
       (''audit_entries'', DInt (pr_audit_entries result)), (''activity_entries'', DInt (pr_activity_entries result)),
       (''deleted_refs'', DInt (pr_refs result)), (''deleted_object_names'', DInt (pr_object_names result)),
       (''deleted_live_sessions'', DInt (pr_live_sessions result))] None"

definition purge_tenant ::
    "int \<Rightarrow> int \<Rightarrow> int \<Rightarrow> nat \<Rightarrow> int \<Rightarrow> app_db \<Rightarrow> (exn + purge_result) \<times> app_db" where
  "purge_tenant audit_retention_days activity_retention_days now batch_size written_at db =
    (let audit_cutoff = now - audit_retention_days * DAY_S;
         activity_cutoff = now - activity_retention_days * DAY_S;
         (db1, r1) = purge_entries batch_size audit_cutoff activity_cutoff db PurgeResult;
         (db2, result) = purge_sessions batch_size activity_cutoff db1 r1
     in if purge_total result = 0 then (Inr result, db2)
        else case purge_entry written_at audit_cutoff activity_cutoff result db2 of
          Inl e \<Rightarrow> (Inl e, db2)
        | Inr e \<Rightarrow> (case insert_entry e db2 of (Inl x, _) \<Rightarrow> (Inl x, db2) | (Inr _, db3) \<Rightarrow> (Inr result, db3)))"

end
