(* ===== verification/Retention_Safety.thy ===== *)
theory Retention_Safety
  imports Retention Audit_Numbering
begin

text \<open>
  The purge against its specification: one deletion of everything that is past its period, whatever the
  size of the batches, and an entry about it if there was anything.
\<close>

definition expired :: "int \<Rightarrow> int \<Rightarrow> audit_log_row \<Rightarrow> bool" where
  "expired audit_cutoff activity_cutoff r = (case retention_class_of (al_type r) of
     AUDIT \<Rightarrow> al_at r < audit_cutoff | ACTIVITY \<Rightarrow> al_at r < activity_cutoff | EXEMPT \<Rightarrow> False)"

definition over :: "int \<Rightarrow> live_session_row \<Rightarrow> bool" where
  "over cutoff r = (case ls_ended_at r of None \<Rightarrow> False | Some t \<Rightarrow> t < cutoff)"

definition expired_ids :: "int \<Rightarrow> int \<Rightarrow> app_db \<Rightarrow> int set" where
  "expired_ids a c db = al_id ` {r \<in> set (tb_rows (db_audit_log db)). expired a c r}"

definition without_old_entries :: "int \<Rightarrow> int \<Rightarrow> app_db \<Rightarrow> app_db" where
  "without_old_entries a c db = db\<lparr>
    db_audit_log := delete_rows (expired a c) (db_audit_log db),
    db_audit_log_ref := delete_rows (\<lambda>r. rf_entry_id r \<in> expired_ids a c db) (db_audit_log_ref db),
    db_audit_log_object_name :=
      delete_rows (\<lambda>r. on_first_entry_id r \<in> expired_ids a c db) (db_audit_log_object_name db)\<rparr>"

definition without_over_sessions :: "int \<Rightarrow> app_db \<Rightarrow> app_db" where
  "without_over_sessions c db = db\<lparr>db_live_session := delete_rows (over c) (db_live_session db)\<rparr>"

definition distinct_records :: "app_db \<Rightarrow> bool" where
  "distinct_records db \<longleftrightarrow> distinct (map al_id (tb_rows (db_audit_log db))) \<and>
    distinct (map ls_id (tb_rows (db_live_session db)))"

lemma type_classes: "set activity_types \<inter> set exempt_types = {}"
  by code_simp

lemma expired_types:
  "expired a c r \<longleftrightarrow> (al_at r < a \<and> al_type r \<notin> set (activity_types @ exempt_types)) \<or>
    (al_at r < c \<and> al_type r \<in> set activity_types)"
  using type_classes
  by (auto simp: expired_def retention_class_of_def activity_types_def [symmetric] exempt_types_def [symmetric])

lemma delete_rows_none: "(\<And>r. r \<in> set (tb_rows t) \<Longrightarrow> \<not> p r) \<Longrightarrow> delete_rows p t = t"
  by (cases t) (simp add: delete_rows_def filter_True)

lemma delete_rows_twice: "delete_rows p (delete_rows q t) = delete_rows (\<lambda>r. q r \<or> p r) t"
  by (simp add: delete_rows_def conj_commute)

lemma delete_rows_cong:
  "(\<And>r. r \<in> set (tb_rows t) \<Longrightarrow> p r = q r) \<Longrightarrow> delete_rows p t = delete_rows q t"
  by (simp add: delete_rows_def cong: filter_cong)

lemma same_id: "distinct (map f xs) \<Longrightarrow> x \<in> set xs \<Longrightarrow> y \<in> set xs \<Longrightarrow> f x = f y \<Longrightarrow> x = y"
  by (auto simp: distinct_map inj_on_def)

section \<open>One transaction\<close>

lemma chosen_expired:
  assumes "e \<in> set (take batch (old_audit batch a db @ old_activity batch c db))"
  shows "e \<in> set (tb_rows (db_audit_log db)) \<and> expired a c e"
  using assms
    in_read_page [of audit_log_table al_id False batch "\<lambda>r. al_at r < a \<and> al_type r \<notin> set (activity_types @ exempt_types)" db]
    in_read_page [of audit_log_table al_id False batch "\<lambda>r. al_at r < c \<and> al_type r \<in> set activity_types" db]
  by (auto simp: old_audit_def old_activity_def audit_log_table_def expired_types dest!: in_set_takeD)

lemma step_None:
  assumes "purge_step batch a c db result = None" and "batch \<noteq> 0"
  shows "\<forall>r\<in>set (tb_rows (db_audit_log db)). \<not> expired a c r"
proof -
  have "old_audit batch a db = []" "old_activity batch c db = []"
    using assms by (auto simp: purge_step_def Let_def split: if_splits)
  then show ?thesis
    using assms(2) by (auto simp: old_audit_def old_activity_def read_page_empty audit_log_table_def filter_empty_conv
        expired_types)
qed

lemma step_Some:
  assumes "purge_step batch a c db result = Some (db', result')" and "distinct_records db"
  shows "without_old_entries a c db' = without_old_entries a c db \<and> distinct_records db' \<and>
    db_live_session db' = db_live_session db \<and> purge_total result' > purge_total result"
proof -
  define entries where "entries = take batch (old_audit batch a db @ old_activity batch c db)"
  have step: "entries \<noteq> []" "db' = delete_entries (map al_id entries) db"
      "purge_total result' \<ge> purge_total result + int (length entries)"
    using assms(1) sum_length_filter_compl [of "\<lambda>e. al_id e \<in> al_id ` set (old_audit batch a db)" entries]
    by (auto simp: purge_step_def Let_def entries_def purge_total_def image_image split: if_splits)
  have own: "e \<in> set (tb_rows (db_audit_log db)) \<and> expired a c e" if "e \<in> set entries" for e
    using chosen_expired that by (simp add: entries_def)
  have gone: "expired a c r" if "r \<in> set (tb_rows (db_audit_log db))" "al_id r \<in> al_id ` set entries" for r
    using that own assms(2) same_id [of al_id "tb_rows (db_audit_log db)"] by (fastforce simp: distinct_records_def)
  have ids: "al_id ` set entries \<union> expired_ids a c db' = expired_ids a c db"
    using own by (fastforce simp: step(2) expired_ids_def delete_entries_def delete_rows_def)
  have "delete_rows (expired a c) (db_audit_log db') = delete_rows (expired a c) (db_audit_log db)"
    unfolding step(2) delete_entries_def using gone by (auto simp: delete_rows_twice intro!: delete_rows_cong)
  moreover have "delete_rows (\<lambda>r. rf_entry_id r \<in> expired_ids a c db') (db_audit_log_ref db') =
      delete_rows (\<lambda>r. rf_entry_id r \<in> expired_ids a c db) (db_audit_log_ref db)"
    unfolding ids [symmetric] by (simp add: step(2) delete_entries_def delete_rows_twice)
  moreover have "delete_rows (\<lambda>r. on_first_entry_id r \<in> expired_ids a c db') (db_audit_log_object_name db') =
      delete_rows (\<lambda>r. on_first_entry_id r \<in> expired_ids a c db) (db_audit_log_object_name db)"
    unfolding ids [symmetric] by (simp add: step(2) delete_entries_def delete_rows_twice)
  moreover have "distinct_records db'"
    using assms(2) by (auto simp: distinct_records_def step(2) delete_entries_def delete_rows_def distinct_map_filter)
  moreover have "purge_total result' > purge_total result" using step(1,3) by (cases entries) simp_all
  ultimately show ?thesis
    unfolding without_old_entries_def by (simp add: step(2) delete_entries_def)
qed

section \<open>The loops\<close>

lemma nothing_old:
  "\<forall>r\<in>set (tb_rows (db_audit_log db)). \<not> expired a c r \<Longrightarrow> without_old_entries a c db = db"
  by (cases db) (auto simp: without_old_entries_def expired_ids_def intro!: delete_rows_none)

lemma purge_entries_all:
  assumes "batch \<noteq> 0" and "distinct_records db" and "purge_entries batch a c db result = (db', result')"
  shows "db' = without_old_entries a c db \<and> distinct_records db' \<and> db_live_session db' = db_live_session db \<and>
    purge_total result \<le> purge_total result' \<and>
    (if \<exists>r\<in>set (tb_rows (db_audit_log db)). expired a c r then purge_total result < purge_total result'
     else result' = result)"
  using assms
proof (induction batch a c db result rule: purge_entries.induct)
  case (1 batch a c db result)
  show ?case
  proof (cases "purge_step batch a c db result")
    case None
    then show ?thesis
      using 1(2-4) step_None [OF None 1(2)] nothing_old [of db a c] by (simp add: purge_entries.simps)
  next
    case (Some p)
    obtain db1 result1 where p: "p = (db1, result1)" by fastforce
    note step = step_Some [OF Some [unfolded p] 1(3)]
    have "\<exists>r\<in>set (tb_rows (db_audit_log db)). expired a c r"
    proof (rule ccontr)
      assume none: "\<not> ?thesis"
      then have "take batch (old_audit batch a db @ old_activity batch c db) = []"
        using chosen_expired [of _ batch a db c] hd_in_set by blast
      then show False using Some by (auto simp: purge_step_def Let_def split: if_splits)
    qed
    moreover have run: "purge_entries batch a c db1 result1 = (db', result')"
      using 1(4) Some p by (simp add: purge_entries.simps [of batch a c db])
    moreover have ih: "db' = without_old_entries a c db1" "distinct_records db'"
        "db_live_session db' = db_live_session db1" "purge_total result1 \<le> purge_total result'"
      using 1(1) [OF Some p [symmetric] 1(2) _ run] step by blast+
    moreover have "purge_total result < purge_total result'" using ih(4) step by linarith
    ultimately show ?thesis using step by (simp add: less_imp_le)
  qed
qed

lemma ended_iff: "batch \<noteq> 0 \<Longrightarrow> ended_sessions batch c db = [] \<longleftrightarrow> (\<forall>r\<in>set (tb_rows (db_live_session db)). \<not> over c r)"
  by (simp add: ended_sessions_def read_page_empty live_session_table_def filter_empty_conv over_def)

lemma ended_over: "e \<in> set (ended_sessions batch c db) \<Longrightarrow> e \<in> set (tb_rows (db_live_session db)) \<and> over c e"
  using in_read_page [of live_session_table "\<lambda>r. the (ls_ended_at r)" False batch
      "\<lambda>r. case ls_ended_at r of None \<Rightarrow> False | Some t \<Rightarrow> t < c" db]
  by (auto simp: ended_sessions_def live_session_table_def over_def)

lemma purge_sessions_all:
  assumes "batch \<noteq> 0" and "distinct_records db" and "purge_sessions batch c db result = (db', result')"
  shows "db' = without_over_sessions c db \<and> purge_total result \<le> purge_total result' \<and>
    (if \<exists>r\<in>set (tb_rows (db_live_session db)). over c r then purge_total result < purge_total result'
     else result' = result)"
  using assms
proof (induction batch c db result rule: purge_sessions.induct)
  case (1 batch c db result)
  show ?case
  proof (cases "ended_sessions batch c db")
    case Nil
    then have "\<forall>r\<in>set (tb_rows (db_live_session db)). \<not> over c r" using ended_iff [OF 1(2)] by simp
    then have "without_over_sessions c db = db" by (cases db) (simp add: without_over_sessions_def delete_rows_none)
    then show ?thesis
      using 1(4) Nil \<open>\<forall>r\<in>set (tb_rows (db_live_session db)). \<not> over c r\<close> by (simp add: purge_sessions.simps)
  next
    case (Cons s ss)
    let ?ids = "map ls_id (s # ss)"
    let ?db = "delete_sessions ?ids db"
    have own: "r \<in> set (tb_rows (db_live_session db)) \<and> over c r" if "r \<in> set (s # ss)" for r
      using ended_over [of r batch c db] that Cons by simp
    have gone: "over c r" if "r \<in> set (tb_rows (db_live_session db))" "ls_id r \<in> set ?ids" for r
      using that own 1(3) same_id [of ls_id "tb_rows (db_live_session db)"] by (fastforce simp: distinct_records_def)
    have "delete_rows (over c) (delete_rows (\<lambda>r. ls_id r \<in> set ?ids) (db_live_session db)) =
        delete_rows (over c) (db_live_session db)"
      unfolding delete_rows_twice by (rule delete_rows_cong) (use gone in blast)
    then have "without_over_sessions c ?db = without_over_sessions c db"
      by (simp add: without_over_sessions_def delete_sessions_def)
    moreover have "distinct_records ?db"
      using 1(3) by (auto simp: distinct_records_def delete_sessions_def delete_rows_def distinct_map_filter)
    moreover have "length (filter (\<lambda>r. ls_id r \<in> set ?ids) (tb_rows (db_live_session db))) > 0"
      using own [of s] by (auto simp: filter_empty_conv)
    moreover define result1 where "result1 = result\<lparr>pr_live_sessions := pr_live_sessions result +
        int (length (filter (\<lambda>r. ls_id r \<in> set ?ids) (tb_rows (db_live_session db))))\<rparr>"
    moreover have run: "purge_sessions batch c ?db result1 = (db', result')"
      using 1(4) Cons by (simp add: purge_sessions.simps [of batch c db] result1_def)
    moreover have ih: "db' = without_over_sessions c ?db" "purge_total result1 \<le> purge_total result'"
      using 1(1) [OF Cons refl 1(2) _ run [unfolded result1_def]] calculation(2) by (simp_all add: result1_def)
    moreover have "purge_total result < purge_total result1"
      using calculation(3) by (simp add: result1_def purge_total_def)
    ultimately show ?thesis using own [of s] by auto
  qed
qed

section \<open>The whole run\<close>

definition past_retention :: "int \<Rightarrow> int \<Rightarrow> app_db \<Rightarrow> bool" where
  "past_retention a c db \<longleftrightarrow> (\<exists>r\<in>set (tb_rows (db_audit_log db)). expired a c r) \<or>
    (\<exists>r\<in>set (tb_rows (db_live_session db)). over c r)"

lemma purge_entry_made: "\<exists>e. purge_entry at a c result db = Inr e \<and> pe_type e = TENANT_PURGE_EXPIRED"
  by (simp add: purge_entry_def make_entry_def)

lemma without_old_audit_ok:
  "audit_ok v db \<Longrightarrow> audit_ok v (without_over_sessions c (without_old_entries a c db))"
  by (auto simp: audit_ok_def without_over_sessions_def without_old_entries_def delete_rows_def)

text \<open>
  C33. The purge is one deletion. Whatever the batch size, it ends, and it deletes exactly the audit
  entries whose class is past its period, with their references and the names they introduced, and the
  live sessions that ended before the cutoff; entries of the exempt class stay. If there was anything to
  delete it writes one entry about it, with the next number; otherwise it changes nothing.
\<close>

theorem purge_is_one_deletion:
  fixes now audit_days activity_days :: int
  assumes "batch_size \<noteq> 0" and "distinct_records db" and "audit_ok v db"
  defines "a \<equiv> now - audit_days * DAY_S" and "c \<equiv> now - activity_days * DAY_S"
  shows "if past_retention a c db
    then \<exists>result e db'. purge_tenant audit_days activity_days now batch_size written_at db = (Inr result, db') \<and>
      pe_type e = TENANT_PURGE_EXPIRED \<and>
      insert_entry e (without_over_sessions c (without_old_entries a c db)) = (Inr (), db') \<and>
      tb_rows (db_audit_log db') = filter (\<lambda>r. \<not> expired a c r) (tb_rows (db_audit_log db)) @ [entry_row e (v + 1)]
    else purge_tenant audit_days activity_days now batch_size written_at db = (Inr PurgeResult, db)"
proof -
  obtain db1 r1 where one: "purge_entries batch_size a c db PurgeResult = (db1, r1)" by fastforce
  obtain db2 r2 where two: "purge_sessions batch_size c db1 r1 = (db2, r2)" by fastforce
  note e = purge_entries_all [OF assms(1,2) one]
  then have s: "db2 = without_over_sessions c db1 \<and> purge_total r1 \<le> purge_total r2 \<and>
      (if \<exists>r\<in>set (tb_rows (db_live_session db1)). over c r then purge_total r1 < purge_total r2 else r2 = r1)"
    using purge_sessions_all [OF assms(1) _ two] by blast
  have total: "purge_total PurgeResult = 0" by (simp add: purge_total_def PurgeResult_def)
  have run: "purge_tenant audit_days activity_days now batch_size written_at db =
      (if purge_total r2 = 0 then (Inr r2, db2)
       else case purge_entry written_at a c r2 db2 of Inl e \<Rightarrow> (Inl e, db2)
         | Inr e \<Rightarrow> (case insert_entry e db2 of (Inl x, _) \<Rightarrow> (Inl x, db2) | (Inr _, db3) \<Rightarrow> (Inr r2, db3)))"
    unfolding purge_tenant_def a_def [symmetric] c_def [symmetric] Let_def by (simp only: one two prod.case)
  show ?thesis
  proof (cases "past_retention a c db")
    case False
    then have "r1 = PurgeResult" "r2 = r1" using e s by (auto simp: past_retention_def)
    moreover have "without_old_entries a c db = db" using False nothing_old [of db a c] by (auto simp: past_retention_def)
    moreover have "without_over_sessions c db = db"
      using False by (cases db) (auto simp: past_retention_def without_over_sessions_def intro!: delete_rows_none)
    ultimately show ?thesis using False run e s total by simp
  next
    case True
    then have ne: "purge_total r2 \<noteq> 0" using e s total by (auto simp: past_retention_def split: if_splits)
    have db2: "db2 = without_over_sessions c (without_old_entries a c db)" using e s by blast
    obtain en where en: "purge_entry written_at a c r2 db2 = Inr en" "pe_type en = TENANT_PURGE_EXPIRED"
      using purge_entry_made by blast
    obtain db' where "insert_entry en db2 = (Inr (), db')"
        "tb_rows (db_audit_log db') = tb_rows (db_audit_log db2) @ [entry_row en (v + 1)]"
      using insert_entry_ok [of v db2 en] without_old_audit_ok [OF assms(3)] db2 by blast
    moreover have "tb_rows (db_audit_log db2) = filter (\<lambda>r. \<not> expired a c r) (tb_rows (db_audit_log db))"
      by (simp add: db2 without_over_sessions_def without_old_entries_def delete_rows_def)
    ultimately show ?thesis using True run ne en db2 by (simp; blast)
  qed
qed

section \<open>A sample\<close>

definition old_entry :: "int \<Rightarrow> string \<Rightarrow> audit_log_row" where
  "old_entry n t = \<lparr>al_id = n, al_at = 0, al_level = INFO, al_type = t, al_by_identity_id = None, al_details = [],
    al_object_type = ''tag'', al_action = ''create'', al_by_identity_name = None, al_by_tenant_id = None,
    al_by_tenant_name = None\<rparr>"

definition old_db :: app_db where
  "old_db = empty_db\<lparr>
    db_audit_log := \<lparr>tb_rows = map (\<lambda>(n, t). old_entry n t) [(1, ''tag.create''),
      (2, audit_type_string TENANT_UPDATE), (3, audit_type_string SESSION_LOGIN)], tb_seq = 0\<rparr>,
    db_audit_log_counter := \<lparr>tb_rows = [\<lparr>ct_id = 1, ct_value = 3\<rparr>], tb_seq = 0\<rparr>\<rparr>"

lemma old_db_ready: "distinct_records old_db \<and> audit_ok 3 old_db"
  by (simp add: distinct_records_def audit_ok_def old_db_def old_entry_def empty_db_def empty_table_def)

lemma old_db_past: "past_retention (10 * DAY_S - 5 * DAY_S) (10 * DAY_S - 20 * DAY_S) old_db"
  by code_simp

lemma old_db_left:
  "map al_id (filter (\<lambda>r. \<not> expired (10 * DAY_S - 5 * DAY_S) (10 * DAY_S - 20 * DAY_S) r) (tb_rows (db_audit_log old_db))) = [2, 3]"
  by code_simp

theorem purge_is_one_deletion_witness:
  "\<exists>result db'. purge_tenant 5 20 (10 * DAY_S) 1 0 old_db = (Inr result, db') \<and>
    map al_id (tb_rows (db_audit_log db')) = [2, 3, 4]"
proof -
  obtain result e db' where "purge_tenant 5 20 (10 * DAY_S) 1 0 old_db = (Inr result, db')"
      "tb_rows (db_audit_log db') = filter (\<lambda>r. \<not> expired (10 * DAY_S - 5 * DAY_S) (10 * DAY_S - 20 * DAY_S) r)
        (tb_rows (db_audit_log old_db)) @ [entry_row e (3 + 1)]"
    using purge_is_one_deletion [of 1 old_db 3 "10 * DAY_S" 5 20 0] old_db_ready old_db_past by auto
  then show ?thesis using old_db_left by (simp add: entry_row_def)
qed

end
