(* ===== verification/Rotation.thy ===== *)
theory Rotation
  imports Certificate_Endpoints Runs
begin

text \<open>
  \<open>api/model/oidc_key.py\<close>, \<open>api/rotate.py\<close> and the keys that \<open>api/endpoints/initialize.py\<close> creates: how
  signing keys follow each other. A key that the code generates is an argument. A key has a window
  from \<open>valid_after\<close> to \<open>valid_before\<close>; it is published \<open>staging_period\<close> before it may sign.
\<close>

section \<open>Keys of the token issuer\<close>

definition oidc_key_create :: "crypto \<Rightarrow> request_ctx \<Rightarrow> string \<Rightarrow> int \<Rightarrow> int \<Rightarrow> int handler" where
  "oidc_key_create cr cx key valid_after valid_before =
    creates oidc_key_table (\<lambda>n. \<lparr>ok_id = n, ok_private_key = cr_encrypt cr key, ok_public_key = cr_public cr key,
      ok_valid_after = valid_after, ok_valid_before = valid_before, ok_created_at = cx_now cx\<rparr>)"

definition get_public_keys :: "crypto \<Rightarrow> request_ctx \<Rightarrow> jwk list handler" where
  "get_public_keys cr cx = and_then (reads_all oidc_key_table (\<lambda>r. ok_valid_after r \<le> cx_now cx \<and>
      ok_valid_before r + cf_oidc_key_grace_period (cx_config cx) > cx_now cx))
    (\<lambda>keys. map_act (\<lambda>k. lifting (cr_read_public cr (ok_public_key k))) keys)"

text \<open>The key that was created last; sorting keeps the order of keys created at the same time.\<close>

definition get_private_key :: "crypto \<Rightarrow> request_ctx \<Rightarrow> string handler" where
  "get_private_key cr cx = and_then (reads_all oidc_key_table (\<lambda>r.
      ok_valid_after r \<le> cx_now cx \<and> ok_valid_before r > cx_now cx))
    (\<lambda>active_keys. case sort_key (\<lambda>k. - ok_created_at k) active_keys of
       [] \<Rightarrow> raising IndexError
     | key_row # _ \<Rightarrow> ret (cr_decrypt cr (ok_private_key key_row)))"

section \<open>The first keys\<close>

text \<open>The two keys that were generated come in the order in which they are used.\<close>

definition create_keys ::
    "crypto \<Rightarrow> request_ctx \<Rightarrow> signing_key_type \<Rightarrow> string \<Rightarrow> int \<Rightarrow> int \<Rightarrow> string \<times> string \<Rightarrow> unit handler" where
  "create_keys cr cx key_type crypto_key_type rotation_period staging_period keys =
    (let now = cx_now cx;
         current_start = now - staging_period - 10;
         current_end = current_start + rotation_period;
         staged_start = current_end - staging_period;
         staged_end = staged_start + rotation_period
     in seq (signing_key_create cr cx key_type crypto_key_type (fst keys) current_start current_end)
          (signing_key_create cr cx key_type crypto_key_type (snd keys) staged_start staged_end))"

definition create_oidc_keys :: "crypto \<Rightarrow> request_ctx \<Rightarrow> int \<Rightarrow> int \<Rightarrow> string \<times> string \<Rightarrow> unit handler" where
  "create_oidc_keys cr cx rotation_period staging_period keys =
    (let now = cx_now cx;
         current_start = now - staging_period - 10;
         current_end = current_start + rotation_period;
         staged_start = current_end - staging_period;
         staged_end = staged_start + rotation_period
     in seq (oidc_key_create cr cx (fst keys) current_start current_end)
          (seq (oidc_key_create cr cx (snd keys) staged_start staged_end) (ret ())))"

definition provision_keys ::
    "crypto \<Rightarrow> request_ctx \<Rightarrow> (string \<times> string) \<times> (string \<times> string) \<times> (string \<times> string) \<Rightarrow> unit handler" where
  "provision_keys cr cx generated = (case generated of (host, user, oidc) \<Rightarrow>
    (let cf = cx_config cx
     in seq (create_keys cr cx signing_key_type.HOST (cf_host_key_type cf) (cf_host_key_rotation_period cf)
              (cf_host_key_staging_period cf) host)
        (seq (create_keys cr cx signing_key_type.USER (cf_user_key_type cf) (cf_user_key_rotation_period cf)
              (cf_user_key_staging_period cf) user)
        (create_oidc_keys cr cx (cf_oidc_key_rotation_period cf) (cf_oidc_key_staging_period cf) oidc))))"

section \<open>Rotation\<close>

text \<open>
  The first key replaces a missing current key, the second a missing staged one. Decrypting the keys
  that \<open>rotate\<close> reads has no effect, because it only looks at their windows.
\<close>

definition rotate_keys ::
    "crypto \<Rightarrow> request_ctx \<Rightarrow> signing_key_type \<Rightarrow> string \<Rightarrow> int \<Rightarrow> int \<Rightarrow> string \<times> string \<Rightarrow> unit handler" where
  "rotate_keys cr cx key_type crypto_key_type rotation_period staging_period generated =
    and_then (reads_one identity_table (\<lambda>_. True)) (\<lambda>one. if one = None then ret () else
    (let now = cx_now cx
     in and_then (signing_key_read_all cr (\<lambda>r. sg_valid_after r \<ge> now - rotation_period \<and>
            sg_type r = signing_key_type_value key_type)) (\<lambda>keys.
          let current = filter (\<lambda>k. sg_valid_after k \<le> now - staging_period \<and> sg_valid_before k > now) keys;
              staged = filter (\<lambda>k. sg_valid_after k > now - staging_period) keys;
              current_start = now - staging_period - 10;
              current_end = (case current of [] \<Rightarrow> current_start + rotation_period | k # _ \<Rightarrow> sg_valid_before k);
              staged_start = current_end - staging_period
          in seq (if current = []
                  then signing_key_create cr cx key_type crypto_key_type (fst generated) current_start current_end
                  else ret ())
                (if staged = []
                 then signing_key_create cr cx key_type crypto_key_type (snd generated) staged_start
                   (staged_start + rotation_period)
                 else ret ()))))"

definition rotate_oidc :: "crypto \<Rightarrow> request_ctx \<Rightarrow> int \<Rightarrow> int \<Rightarrow> string \<times> string \<Rightarrow> unit handler" where
  "rotate_oidc cr cx rotation_period staging_period generated =
    and_then (reads_one identity_table (\<lambda>_. True)) (\<lambda>one. if one = None then ret () else
    (let now = cx_now cx
     in and_then (reads_all oidc_key_table (\<lambda>r. ok_valid_after r \<ge> now - rotation_period)) (\<lambda>keys.
          let current = filter (\<lambda>k. ok_valid_after k \<le> now - staging_period \<and> ok_valid_before k > now) keys;
              staged = filter (\<lambda>k. ok_valid_after k > now - staging_period) keys;
              current_start = now - staging_period - 10;
              current_end = (case current of [] \<Rightarrow> current_start + rotation_period | k # _ \<Rightarrow> ok_valid_before k);
              staged_start = current_end - staging_period
          in seq (if current = []
                  then seq (oidc_key_create cr cx (fst generated) current_start current_end) (ret ())
                  else ret ())
                (if staged = []
                 then seq (oidc_key_create cr cx (snd generated) staged_start (staged_start + rotation_period)) (ret ())
                 else ret ()))))"

text \<open>
  \<open>main\<close> rotates the three kinds of keys of a tenant in one transaction, as the configuration says. The
  job has no request, so an audit entry is inserted at once; what is inserted is the same as at the end
  of the transaction, because nothing that the job reads depends on it.
\<close>

definition rotate_one ::
    "crypto \<Rightarrow> request_ctx \<Rightarrow> (string \<times> string) \<times> (string \<times> string) \<times> (string \<times> string) \<Rightarrow> unit handler" where
  "rotate_one cr cx generated = (case generated of (host, user, oidc) \<Rightarrow>
    (let cf = cx_config cx
     in seq (rotate_keys cr cx signing_key_type.HOST (cf_host_key_type cf) (cf_host_key_rotation_period cf)
              (cf_host_key_staging_period cf) host)
        (seq (rotate_keys cr cx signing_key_type.USER (cf_user_key_type cf) (cf_user_key_rotation_period cf)
              (cf_user_key_staging_period cf) user)
        (rotate_oidc cr cx (cf_oidc_key_rotation_period cf) (cf_oidc_key_staging_period cf) oidc))))"

end
