(* ===== verification/Rotation_Safety.thy ===== *)
theory Rotation_Safety
  imports Rotation
begin

text \<open>
  A key is always in force. A key table is seen as the list of the windows of its keys; provisioning
  writes two windows, and a rotation adds at most two. The interface \<open>rotating\<close> says that of the
  operations on a store of keys; its lemmas hold for the host keys, the user keys and the keys of the
  token issuer alike.
\<close>

section \<open>Windows\<close>

type_synonym window = "int \<times> int"

definition window_in_force :: "int \<Rightarrow> int \<Rightarrow> window \<Rightarrow> bool" where
  "window_in_force S t k \<longleftrightarrow> fst k \<le> t - S \<and> t < snd k"

definition first_windows :: "int \<Rightarrow> int \<Rightarrow> int \<Rightarrow> window list" where
  "first_windows R S now = (let e = now - S - 10 + R in [(e - R, e), (e - S, e - S + R)])"

definition new_windows :: "int \<Rightarrow> int \<Rightarrow> int \<Rightarrow> window list \<Rightarrow> window list" where
  "new_windows R S now ks =
    (let recent = filter (\<lambda>k. fst k \<ge> now - R) ks;
         current = filter (window_in_force S now) recent;
         staged = filter (\<lambda>k. fst k > now - S) recent;
         e = (case current of [] \<Rightarrow> now - S - 10 + R | k # _ \<Rightarrow> snd k)
     in (if current = [] then [(e - R, e)] else []) @ (if staged = [] then [(e - S, e - S + R)] else []))"

definition rotate_windows :: "int \<Rightarrow> int \<Rightarrow> int \<Rightarrow> window list \<Rightarrow> window list" where
  "rotate_windows R S now ks = ks @ new_windows R S now ks"

text \<open>
  After a rotation at \<open>now\<close> the last two windows touch: the first is in force, the second takes over when
  it ends, and all others are over.
\<close>

definition chained :: "int \<Rightarrow> int \<Rightarrow> int \<Rightarrow> window list \<Rightarrow> bool" where
  "chained R S now ks \<longleftrightarrow> (\<exists>old e. ks = old @ [(e - R, e), (e - S, e - S + R)] \<and>
    now < e \<and> e - R \<le> now - S \<and> (\<forall>k\<in>set old. snd k \<le> now \<and> fst k = snd k - R))"

lemma first_chained: "0 \<le> S \<Longrightarrow> S + 10 < R \<Longrightarrow> chained R S now (first_windows R S now)"
  unfolding chained_def first_windows_def Let_def by (intro exI [of _ "[]"] exI [of _ "now - S - 10 + R"]) simp

lemma old_over:
  assumes "\<forall>k\<in>set old. snd k \<le> now \<and> fst k = snd k - R" and "now \<le> now'" and "S \<le> (R::int)"
  shows "filter (window_in_force S now') (filter p old) = []" "filter (\<lambda>k. fst k > now' - S) (filter p old) = []"
  using assms by (fastforce simp: filter_empty_conv window_in_force_def)+

lemma rotate_chained:
  assumes "0 \<le> S" and "S + 10 < R" and "chained R S now ks" and "now \<le> now'"
  shows "chained R S now' (rotate_windows R S now' ks)"
proof -
  obtain old e where ks: "ks = old @ [(e - R, e), (e - S, e - S + R)]"
      and e: "now < e" "e - R \<le> now - S" and old: "\<forall>k\<in>set old. snd k \<le> now \<and> fst k = snd k - R"
    using assms(3) by (auto simp: chained_def)
  note none = old_over [OF old assms(4), of S "\<lambda>k. fst k \<ge> now' - R"]
  consider "now' < e" | "e \<le> now'" "now' < e - S + R" | "e - S + R \<le> now'" by linarith
  then show ?thesis
  proof cases
    case 1
    then have "rotate_windows R S now' ks = ks"
      using assms e none by (simp add: rotate_windows_def new_windows_def ks window_in_force_def)
    moreover have "\<forall>k\<in>set old. snd k \<le> now'" using old assms(4) by fastforce
    ultimately show ?thesis using 1 e old assms(4) unfolding chained_def ks
      by (intro exI [of _ old] exI [of _ e]) auto
  next
    case 2
    define e' where "e' = e - S + R"
    have "rotate_windows R S now' ks = (old @ [(e - R, e)]) @ [(e' - R, e'), (e' - S, e' - S + R)]"
      using 2 assms e none by (simp add: rotate_windows_def new_windows_def ks window_in_force_def e'_def)
    moreover have "\<forall>k\<in>set (old @ [(e - R, e)]). snd k \<le> now' \<and> fst k = snd k - R"
      using old assms(4) 2 by fastforce
    ultimately show ?thesis using 2 unfolding chained_def
      by (intro exI [of _ "old @ [(e - R, e)]"] exI [of _ e']) (auto simp: e'_def)
  next
    case 3
    define e' where "e' = now' - S - 10 + R"
    have "rotate_windows R S now' ks = ks @ [(e' - R, e'), (e' - S, e' - S + R)]"
      using 3 assms e none by (simp add: rotate_windows_def new_windows_def ks window_in_force_def e'_def)
    moreover have "\<forall>k\<in>set ks. snd k \<le> now' \<and> fst k = snd k - R"
      using old assms 3 unfolding ks by fastforce
    ultimately show ?thesis using assms unfolding chained_def
      by (intro exI [of _ ks] exI [of _ e']) (auto simp: e'_def)
  qed
qed

lemma chained_in_force:
  assumes "chained R S now ks" and "now \<le> t" and "t \<le> now + (R - S)"
  shows "\<exists>k\<in>set ks. window_in_force S t k"
proof -
  obtain old e where ks: "ks = old @ [(e - R, e), (e - S, e - S + R)]" and e: "now < e" "e - R \<le> now - S"
    using assms(1) by (auto simp: chained_def)
  show ?thesis
  proof (cases "t < e")
    case True
    then have "window_in_force S t (e - R, e)" using e assms(2) by (simp add: window_in_force_def)
    then show ?thesis by (auto simp: ks)
  next
    case False
    then have "window_in_force S t (e - S, e - S + R)" using e assms(3) by (simp add: window_in_force_def)
    then show ?thesis by (auto simp: ks)
  qed
qed

section \<open>A store whose keys rotate\<close>

locale rotating =
  fixes windows :: "'s \<Rightarrow> window list"
    and step :: "'e \<Rightarrow> 's \<Rightarrow> 's"
    and time :: "'e \<Rightarrow> int option"
    and ok :: "'s \<Rightarrow> bool"
    and R S :: int
  assumes staging: "ok s \<Longrightarrow> 0 \<le> S \<and> S + 10 < R"
    and step_ok: "ok s \<Longrightarrow> ok (step e s)"
    and step_windows: "ok s \<Longrightarrow> windows (step e s) =
      (case time e of None \<Rightarrow> windows s | Some now \<Rightarrow> rotate_windows R S now (windows s))"
begin

lemma stays_chained:
  assumes "ok s" and "chained R S now (windows s)" and "sorted (now # List.map_filter time es)"
  shows "chained R S (last (now # List.map_filter time es)) (windows (fold step es s)) \<and> ok (fold step es s)"
  using assms
proof (induction es arbitrary: s now)
  case (Cons e es)
  show ?case
  proof (cases "time e")
    case None
    then show ?thesis
      using Cons.IH [of "step e s" now] Cons.prems step_ok step_windows by (simp add: map_filter_simps)
  next
    case (Some now')
    then have "chained R S now' (windows (step e s))"
      using rotate_chained [OF _ _ Cons.prems(2), of now'] staging Cons.prems step_windows
      by (simp add: map_filter_simps)
    then show ?thesis
      using Cons.IH [of "step e s" now'] Cons.prems step_ok Some by (simp add: map_filter_simps)
  qed
qed (simp add: map_filter_simps)

lemma in_force:
  assumes "ok s" and "windows s = first_windows R S now" and "sorted (now # List.map_filter time es)"
    and "last (now # List.map_filter time es) \<le> t" and "t \<le> last (now # List.map_filter time es) + (R - S)"
  shows "\<exists>k\<in>set (windows (fold step es s)). window_in_force S t k"
proof -
  have "chained R S now (windows s)" using first_chained staging assms(1,2) by simp
  then show ?thesis using chained_in_force stays_chained [OF assms(1) _ assms(3)] assms(4,5) by blast
qed

end

section \<open>The keys of a tenant\<close>

definition signing_windows :: "signing_key_type \<Rightarrow> app_db \<Rightarrow> window list" where
  "signing_windows k db = map (\<lambda>r. (sg_valid_after r, sg_valid_before r))
    (filter (\<lambda>r. sg_type r = signing_key_type_value k) (tb_rows (db_signing_key db)))"

definition oidc_windows :: "app_db \<Rightarrow> window list" where
  "oidc_windows db = map (\<lambda>r. (ok_valid_after r, ok_valid_before r)) (tb_rows (db_oidc_key db))"

text \<open>What a handler may leave behind: windows of the three kinds, and whether there is an identity.\<close>

type_synonym key_view = "window list \<times> window list \<times> window list \<times> bool"

definition key_view :: "app_db \<Rightarrow> key_view" where
  "key_view db = (signing_windows signing_key_type.HOST db, signing_windows signing_key_type.USER db,
    oidc_windows db, tb_rows (db_identity db) \<noteq> [])"

definition add_signing :: "signing_key_type \<Rightarrow> window list \<Rightarrow> key_view \<Rightarrow> key_view" where
  "add_signing k new v = (case v of (host, user, oidc, i) \<Rightarrow> (case k of
     HOST \<Rightarrow> (host @ new, user, oidc, i) | USER \<Rightarrow> (host, user @ new, oidc, i)))"

definition add_oidc :: "window list \<Rightarrow> key_view \<Rightarrow> key_view" where
  "add_oidc new v = (case v of (host, user, oidc, i) \<Rightarrow> (host, user, oidc @ new, i))"

text \<open>\<open>leaves m w v\<close>: the handler returns, and leaves the view \<open>v\<close>.\<close>

definition leaves :: "unit handler \<Rightarrow> world \<Rightarrow> key_view \<Rightarrow> bool" where
  "leaves m w v \<longleftrightarrow> (\<exists>d. runs m w () d \<and> key_view d = v)"

lemma leaves_seq:
  assumes "leaves m w v" and "\<And>w'. key_view (w_db w') = v \<Longrightarrow> leaves n w' v'"
  shows "leaves (seq m n) w v'"
proof -
  obtain d where d: "runs m w () d" "key_view d = v" using assms(1) by (auto simp: leaves_def)
  obtain df where df: "m w = (Inr (), w\<lparr>w_db := d, w_deferred := df\<rparr>)" "only_logged (w_deferred w) df"
    using d(1) by (auto simp: runs_def)
  let ?w = "w\<lparr>w_db := d, w_deferred := df\<rparr>"
  obtain d' df' where "n ?w = (Inr (), ?w\<lparr>w_db := d', w_deferred := df'\<rparr>)" "only_logged df df'" "key_view d' = v'"
    using assms(2) [of ?w] d(2) by (auto simp: leaves_def runs_def)
  then have "runs (seq m n) w () d'"
    using df by (auto simp: runs_def seq_def and_then_def intro: only_logged_trans)
  then show ?thesis using \<open>key_view d' = v'\<close> by (auto simp: leaves_def)
qed

lemma leaves_read: "leaves (f (g (w_db w))) w v \<Longrightarrow> leaves (and_then (reads g) f) w v"
  by (auto simp: leaves_def runs_def and_then_def reads_run)

lemma leaves_nothing: "leaves (ret ()) w (key_view (w_db w))"
  unfolding leaves_def by (intro exI [of _ "w_db w"]) (simp add: runs_ret)

lemma leaves_signing:
  assumes "author_ok cx"
  shows "leaves (signing_key_create cr cx k ty key a b) w (add_signing k [(a, b)] (key_view (w_db w)))"
proof -
  let ?row = "\<lambda>n. \<lparr>sg_id = n, sg_type = signing_key_type_value k, sg_key = cr_encrypt cr key, sg_serial_number = 1,
    sg_valid_after = a, sg_valid_before = b\<rparr>"
  let ?d = "(w_db w)\<lparr>db_signing_key := snd (insert_row ?row (db_signing_key (w_db w)))\<rparr>"
  have "table_create signing_key_table ?row (w_db w) = (Inr (fst (insert_row ?row (db_signing_key (w_db w)))), ?d)"
    by (simp add: table_create_def signing_key_table_def violated_def insert_row_def Let_def)
  then have "runs (creates signing_key_table ?row) w (fst (insert_row ?row (db_signing_key (w_db w)))) ?d"
    unfolding creates_def by (rule runs_on_db)
  then have "runs (signing_key_create cr cx k ty key a b) w () ?d"
    unfolding signing_key_create_def
    by (rule runs_and_then) (metis runs_audit [OF assms])
  moreover have "key_view ?d = add_signing k [(a, b)] (key_view (w_db w))"
    by (cases k) (simp_all add: key_view_def add_signing_def signing_windows_def oidc_windows_def insert_row_def
        signing_key_type_value_def Let_def)
  ultimately show ?thesis unfolding leaves_def by blast
qed

lemma leaves_oidc:
  "leaves (seq (oidc_key_create cr cx key a b) (ret ())) w (add_oidc [(a, b)] (key_view (w_db w)))"
proof -
  let ?row = "\<lambda>n. \<lparr>ok_id = n, ok_private_key = cr_encrypt cr key, ok_public_key = cr_public cr key,
      ok_valid_after = a, ok_valid_before = b, ok_created_at = cx_now cx\<rparr>"
  let ?d = "(w_db w)\<lparr>db_oidc_key := snd (insert_row ?row (db_oidc_key (w_db w)))\<rparr>"
  have "table_create oidc_key_table ?row (w_db w) = (Inr (fst (insert_row ?row (db_oidc_key (w_db w)))), ?d)"
    by (simp add: table_create_def oidc_key_table_def violated_def insert_row_def Let_def)
  then have "runs (oidc_key_create cr cx key a b) w (fst (insert_row ?row (db_oidc_key (w_db w)))) ?d"
    unfolding oidc_key_create_def creates_def by (rule runs_on_db)
  then have "runs (seq (oidc_key_create cr cx key a b) (ret ())) w () ?d" by (rule runs_then_ret)
  moreover have "key_view ?d = add_oidc [(a, b)] (key_view (w_db w))"
    by (simp add: key_view_def add_oidc_def signing_windows_def oidc_windows_def insert_row_def Let_def)
  ultimately show ?thesis unfolding leaves_def by blast
qed

section \<open>What provisioning, rotation and signing leave\<close>

lemma leaves_first_signing:
  assumes "author_ok cx"
  shows "leaves (create_keys cr cx k ty R S g) w (add_signing k (first_windows R S (cx_now cx)) (key_view (w_db w)))"
  unfolding create_keys_def Let_def
proof (rule leaves_seq [OF leaves_signing [OF assms]])
  fix w' :: world
  let ?a = "cx_now cx - S - 10"
  assume w': "key_view (w_db w') = add_signing k [(?a, ?a + R)] (key_view (w_db w))"
  have "leaves (signing_key_create cr cx k ty (snd g) (?a + R - S) (?a + R - S + R)) w'
      (add_signing k [(?a + R - S, ?a + R - S + R)] (key_view (w_db w')))"
    by (rule leaves_signing [OF assms])
  moreover have "add_signing k [(?a + R - S, ?a + R - S + R)] (key_view (w_db w')) =
      add_signing k (first_windows R S (cx_now cx)) (key_view (w_db w))"
    unfolding w' by (cases k) (simp_all add: add_signing_def first_windows_def Let_def split: prod.split)
  ultimately show "leaves (signing_key_create cr cx k ty (snd g) (?a + R - S) (?a + R - S + R)) w'
      (add_signing k (first_windows R S (cx_now cx)) (key_view (w_db w)))" by simp
qed

lemma leaves_first_oidc:
  "leaves (create_oidc_keys cr cx R S g) w (add_oidc (first_windows R S (cx_now cx)) (key_view (w_db w)))"
proof -
  let ?a = "cx_now cx - S - 10"
  have split: "create_oidc_keys cr cx R S g = seq (seq (oidc_key_create cr cx (fst g) ?a (?a + R)) (ret ()))
      (seq (oidc_key_create cr cx (snd g) (?a + R - S) (?a + R - S + R)) (ret ()))"
    by (simp add: create_oidc_keys_def Let_def seq_def and_then_def ret_def fun_eq_iff split: prod.split sum.split)
  show ?thesis unfolding split
  proof (rule leaves_seq [OF leaves_oidc])
    fix w' :: world
    assume w': "key_view (w_db w') = add_oidc [(?a, ?a + R)] (key_view (w_db w))"
    have "add_oidc [(?a + R - S, ?a + R - S + R)] (key_view (w_db w')) =
        add_oidc (first_windows R S (cx_now cx)) (key_view (w_db w))"
      unfolding w' by (simp add: add_oidc_def first_windows_def Let_def split: prod.split)
    then show "leaves (seq (oidc_key_create cr cx (snd g) (?a + R - S) (?a + R - S + R)) (ret ())) w'
        (add_oidc (first_windows R S (cx_now cx)) (key_view (w_db w)))" using leaves_oidc by metis
  qed
qed

text \<open>A rotation writes the missing windows, and a rotation without a missing window writes nothing.\<close>

definition view_windows :: "signing_key_type \<Rightarrow> key_view \<Rightarrow> window list" where
  "view_windows k v = (case v of (host, user, oidc, i) \<Rightarrow> (case k of HOST \<Rightarrow> host | USER \<Rightarrow> user))"

lemma view_windows: "view_windows k (key_view db) = signing_windows k db"
  by (cases k) (simp_all add: view_windows_def key_view_def)

lemma leaves_two_if:
  assumes "\<And>w. leaves m w (add (key_view (w_db w)))" and "\<And>w. leaves n w (add' (key_view (w_db w)))"
  shows "leaves (seq (if b then m else ret ()) (if c then n else ret ())) w
    ((if c then add' else id) ((if b then add else id) (key_view (w_db w))))"
proof (rule leaves_seq)
  show "leaves (if b then m else ret ()) w ((if b then add else id) (key_view (w_db w)))"
    using assms(1) leaves_nothing by (cases b) simp_all
next
  fix w' :: world
  assume w': "key_view (w_db w') = (if b then add else id) (key_view (w_db w))"
  show "leaves (if c then n else ret ()) w' ((if c then add' else id) ((if b then add else id) (key_view (w_db w))))"
    unfolding w' [symmetric] using assms(2) [of w'] leaves_nothing [of w'] by (cases c) simp_all
qed

lemma filter_windows: "filter p (map f rs) = map f (filter (\<lambda>r. p (f r)) rs)"
  by (simp add: filter_map o_def)

lemma signing_key_read_all_reads:
  "signing_key_read_all cr p = reads (\<lambda>db. map (sg_key_update (cr_decrypt cr)) (table_read_all signing_key_table p db))"
  by (simp add: signing_key_read_all_def and_then_def reads_all_run reads_run ret_def fun_eq_iff table_read_all_def)

lemma leaves_rotate:
  assumes "author_ok cx" and "tb_rows (db_identity (w_db w)) \<noteq> []"
  shows "leaves (rotate_keys cr cx k ty R S g) w
    (add_signing k (new_windows R S (cx_now cx) (signing_windows k (w_db w))) (key_view (w_db w)))"
proof -
  let ?now = "cx_now cx"
  let ?p = "\<lambda>r. sg_valid_after r \<ge> ?now - R \<and> sg_type r = signing_key_type_value k"
  let ?rows = "filter ?p (tb_rows (db_signing_key (w_db w)))"
  let ?keys = "map (sg_key_update (cr_decrypt cr)) ?rows"
  let ?current = "filter (\<lambda>k. sg_valid_after k \<le> ?now - S \<and> sg_valid_before k > ?now) ?keys"
  let ?staged = "filter (\<lambda>k. sg_valid_after k > ?now - S) ?keys"
  let ?until = "case ?current of [] \<Rightarrow> ?now - S - 10 + R | k # _ \<Rightarrow> sg_valid_before k"
  have one: "table_read_one identity_table (\<lambda>_. True) (w_db w) \<noteq> None"
    using assms(2) by (cases "tb_rows (db_identity (w_db w))") (simp_all add: table_read_one_def identity_table_def)
  have steps: "leaves (seq (if ?current = [] then signing_key_create cr cx k ty (fst g) (?now - S - 10) ?until else ret ())
      (if ?staged = [] then signing_key_create cr cx k ty (snd g) (?until - S) (?until - S + R) else ret ())) w
    ((if ?staged = [] then add_signing k [(?until - S, ?until - S + R)] else id)
      ((if ?current = [] then add_signing k [(?now - S - 10, ?until)] else id) (key_view (w_db w))))"
    by (rule leaves_two_if) (rule leaves_signing [OF assms(1)])+
  have keys: "map (sg_key_update (cr_decrypt cr)) (table_read_all signing_key_table ?p (w_db w)) = ?keys"
    by (simp add: table_read_all_def signing_key_table_def)
  have run: "leaves (rotate_keys cr cx k ty R S g) w
    ((if ?staged = [] then add_signing k [(?until - S, ?until - S + R)] else id)
      ((if ?current = [] then add_signing k [(?now - S - 10, ?until)] else id) (key_view (w_db w))))"
    unfolding rotate_keys_def reads_one_def
    by (rule leaves_read, simp only: one if_False Let_def signing_key_read_all_reads)
      (rule leaves_read, simp only: keys, rule steps)
  have windows: "map (\<lambda>r. (sg_valid_after r, sg_valid_before r)) ?keys =
      filter (\<lambda>w. fst w \<ge> ?now - R) (signing_windows k (w_db w))"
    by (simp add: signing_windows_def filter_windows comp_def conj_commute)
  let ?recent = "filter (\<lambda>w. fst w \<ge> ?now - R) (signing_windows k (w_db w))"
  let ?win = "\<lambda>r. (sg_valid_after r, sg_valid_before r)"
  have current: "filter (window_in_force S ?now) ?recent = map ?win ?current"
    unfolding windows [symmetric] by (simp add: filter_windows window_in_force_def)
  have staged: "filter (\<lambda>w. fst w > ?now - S) ?recent = map ?win ?staged"
    unfolding windows [symmetric] by (simp add: filter_windows)
  have "?until = (case map ?win ?current of [] \<Rightarrow> ?now - S - 10 + R | w # _ \<Rightarrow> snd w)"
    by (cases ?current) (simp_all only: list.map list.case prod.sel)
  then have "new_windows R S ?now (signing_windows k (w_db w)) =
      (if ?current = [] then [(?until - R, ?until)] else []) @ (if ?staged = [] then [(?until - S, ?until - S + R)] else [])"
    unfolding new_windows_def Let_def current staged map_is_Nil_conv by simp
  moreover have "?current = [] \<Longrightarrow> ?until - R = ?now - S - 10" by (simp only: list.case)
  moreover have "add_signing k [a, b] v = add_signing k [b] (add_signing k [a] v)" "add_signing k [] v = v" for a b v
    by (cases k; simp add: add_signing_def split: prod.split)+
  ultimately show ?thesis using run by (cases "?current = []"; cases "?staged = []") simp_all
qed

lemma leaves_rotate_oidc:
  assumes "tb_rows (db_identity (w_db w)) \<noteq> []"
  shows "leaves (rotate_oidc cr cx R S g) w
    (add_oidc (new_windows R S (cx_now cx) (oidc_windows (w_db w))) (key_view (w_db w)))"
proof -
  let ?now = "cx_now cx"
  let ?p = "\<lambda>r. ok_valid_after r \<ge> ?now - R"
  let ?keys = "filter ?p (tb_rows (db_oidc_key (w_db w)))"
  let ?current = "filter (\<lambda>k. ok_valid_after k \<le> ?now - S \<and> ok_valid_before k > ?now) ?keys"
  let ?staged = "filter (\<lambda>k. ok_valid_after k > ?now - S) ?keys"
  let ?until = "case ?current of [] \<Rightarrow> ?now - S - 10 + R | k # _ \<Rightarrow> ok_valid_before k"
  have one: "table_read_one identity_table (\<lambda>_. True) (w_db w) \<noteq> None"
    using assms by (cases "tb_rows (db_identity (w_db w))") (simp_all add: table_read_one_def identity_table_def)
  have steps: "leaves (seq (if ?current = [] then seq (oidc_key_create cr cx (fst g) (?now - S - 10) ?until) (ret ()) else ret ())
      (if ?staged = [] then seq (oidc_key_create cr cx (snd g) (?until - S) (?until - S + R)) (ret ()) else ret ())) w
    ((if ?staged = [] then add_oidc [(?until - S, ?until - S + R)] else id)
      ((if ?current = [] then add_oidc [(?now - S - 10, ?until)] else id) (key_view (w_db w))))"
    by (rule leaves_two_if) (rule leaves_oidc)+
  have keys: "table_read_all oidc_key_table ?p (w_db w) = ?keys"
    by (simp add: table_read_all_def oidc_key_table_def)
  have run: "leaves (rotate_oidc cr cx R S g) w
    ((if ?staged = [] then add_oidc [(?until - S, ?until - S + R)] else id)
      ((if ?current = [] then add_oidc [(?now - S - 10, ?until)] else id) (key_view (w_db w))))"
    unfolding rotate_oidc_def reads_one_def
    by (rule leaves_read, simp only: one if_False Let_def reads_all_def)
      (rule leaves_read, simp only: keys, rule steps)
  let ?win = "\<lambda>r. (ok_valid_after r, ok_valid_before r)"
  let ?recent = "filter (\<lambda>w. fst w \<ge> ?now - R) (oidc_windows (w_db w))"
  have windows: "?recent = map ?win ?keys" by (simp add: oidc_windows_def filter_windows)
  have current: "filter (window_in_force S ?now) ?recent = map ?win ?current"
    unfolding windows by (simp add: filter_windows window_in_force_def)
  have staged: "filter (\<lambda>w. fst w > ?now - S) ?recent = map ?win ?staged"
    unfolding windows by (simp add: filter_windows)
  have "?until = (case map ?win ?current of [] \<Rightarrow> ?now - S - 10 + R | w # _ \<Rightarrow> snd w)"
    by (cases ?current) (simp_all only: list.map list.case prod.sel)
  then have "new_windows R S ?now (oidc_windows (w_db w)) =
      (if ?current = [] then [(?until - R, ?until)] else []) @ (if ?staged = [] then [(?until - S, ?until - S + R)] else [])"
    unfolding new_windows_def Let_def current staged map_is_Nil_conv by simp
  moreover have "?current = [] \<Longrightarrow> ?until - R = ?now - S - 10" by (simp only: list.case)
  moreover have "add_oidc [a, b] v = add_oidc [b] (add_oidc [a] v)" "add_oidc [] v = v" for a b v
    by (simp_all add: add_oidc_def split: prod.split)
  ultimately show ?thesis using run by (cases "?current = []"; cases "?staged = []") simp_all
qed

definition rotated :: "config \<Rightarrow> int \<Rightarrow> key_view \<Rightarrow> key_view" where
  "rotated cf now v = (case v of (host, user, oidc, i) \<Rightarrow>
    (rotate_windows (cf_host_key_rotation_period cf) (cf_host_key_staging_period cf) now host,
     rotate_windows (cf_user_key_rotation_period cf) (cf_user_key_staging_period cf) now user,
     rotate_windows (cf_oidc_key_rotation_period cf) (cf_oidc_key_staging_period cf) now oidc, i))"

definition some_identity :: "key_view \<Rightarrow> bool" where
  "some_identity v = snd (snd (snd v))"

lemma some_identity_view: "some_identity (key_view db) \<longleftrightarrow> tb_rows (db_identity db) \<noteq> []"
  by (simp add: some_identity_def key_view_def)

lemma some_identity_add [simp]: "some_identity (add_signing k new v) = some_identity v"
  "some_identity (rotated cf now v) = some_identity v"
  by (cases k; simp add: some_identity_def add_signing_def rotated_def split: prod.split)+

lemma leaves_rotate_one:
  assumes "author_ok cx" and "some_identity (key_view (w_db w))"
  shows "leaves (rotate_one cr cx g) w (rotated (cx_config cx) (cx_now cx) (key_view (w_db w)))"
proof -
  obtain host user oidc where g: "g = (host, user, oidc)" by (cases g)
  let ?cf = "cx_config cx"
  let ?now = "cx_now cx"
  let ?v = "key_view (w_db w)"
  let ?new = "\<lambda>k v. new_windows (case k of HOST \<Rightarrow> cf_host_key_rotation_period ?cf | USER \<Rightarrow> cf_user_key_rotation_period ?cf)
    (case k of HOST \<Rightarrow> cf_host_key_staging_period ?cf | USER \<Rightarrow> cf_user_key_staging_period ?cf) ?now (view_windows k v)"
  let ?v1 = "add_signing signing_key_type.HOST (?new signing_key_type.HOST ?v) ?v"
  let ?v2 = "add_signing signing_key_type.USER (?new signing_key_type.USER ?v1) ?v1"
  have first: "leaves (rotate_keys cr cx k ty R S keys) w' (add_signing k
      (new_windows R S ?now (view_windows k (key_view (w_db w')))) (key_view (w_db w')))"
    if "some_identity (key_view (w_db w'))" for w' k ty R S keys
    unfolding view_windows using leaves_rotate [OF assms(1)] that by (simp add: some_identity_view)
  have third: "leaves (rotate_oidc cr cx R S keys) w' (add_oidc (new_windows R S ?now (fst (snd (snd v)))) v)"
    if "some_identity v" "key_view (w_db w') = v" for w' v R S keys
  proof -
    have "tb_rows (db_identity (w_db w')) \<noteq> []" and "fst (snd (snd v)) = oidc_windows (w_db w')"
      using that some_identity_view [of "w_db w'"] by (auto simp: key_view_def)
    then show ?thesis using leaves_rotate_oidc that(2) by metis
  qed
  have "leaves (rotate_one cr cx g) w (add_oidc (new_windows (cf_oidc_key_rotation_period ?cf)
      (cf_oidc_key_staging_period ?cf) ?now (fst (snd (snd ?v2)))) ?v2)"
    unfolding rotate_one_def g prod.case Let_def
  proof (rule leaves_seq [where v = ?v1])
    show "leaves (rotate_keys cr cx signing_key_type.HOST (cf_host_key_type ?cf) (cf_host_key_rotation_period ?cf)
        (cf_host_key_staging_period ?cf) host) w ?v1"
      using first [OF assms(2), where k = signing_key_type.HOST] by simp
  next
    fix w' :: world
    assume v1: "key_view (w_db w') = ?v1"
    show "leaves (seq (rotate_keys cr cx signing_key_type.USER (cf_user_key_type ?cf) (cf_user_key_rotation_period ?cf)
        (cf_user_key_staging_period ?cf) user) (rotate_oidc cr cx (cf_oidc_key_rotation_period ?cf)
        (cf_oidc_key_staging_period ?cf) oidc)) w' (add_oidc (new_windows (cf_oidc_key_rotation_period ?cf)
      (cf_oidc_key_staging_period ?cf) ?now (fst (snd (snd ?v2)))) ?v2)"
    proof (rule leaves_seq [where v = ?v2])
      show "leaves (rotate_keys cr cx signing_key_type.USER (cf_user_key_type ?cf) (cf_user_key_rotation_period ?cf)
          (cf_user_key_staging_period ?cf) user) w' ?v2"
        using first [of w', where k = signing_key_type.USER] v1 assms(2) by simp
    qed (rule third, use assms(2) in simp)
  qed
  moreover have "add_oidc (new_windows (cf_oidc_key_rotation_period ?cf) (cf_oidc_key_staging_period ?cf) ?now
      (fst (snd (snd ?v2)))) ?v2 = rotated ?cf ?now ?v"
    by (simp add: add_oidc_def add_signing_def rotated_def rotate_windows_def view_windows_def split: prod.split)
  ultimately show ?thesis by simp
qed

lemma leaves_provision_keys:
  assumes "author_ok cx" and "key_view (w_db w) = ([], [], [], i)"
  shows "leaves (provision_keys cr cx g) w
    (first_windows (cf_host_key_rotation_period (cx_config cx)) (cf_host_key_staging_period (cx_config cx)) (cx_now cx),
     first_windows (cf_user_key_rotation_period (cx_config cx)) (cf_user_key_staging_period (cx_config cx)) (cx_now cx),
     first_windows (cf_oidc_key_rotation_period (cx_config cx)) (cf_oidc_key_staging_period (cx_config cx)) (cx_now cx), i)"
proof -
  obtain host user oidc where g: "g = (host, user, oidc)" by (cases g)
  note step = leaves_first_signing [OF assms(1)]
  show ?thesis
    unfolding provision_keys_def g prod.case Let_def
    apply (rule leaves_seq [OF step], rule leaves_seq, rule step)
    subgoal for w1 w2
      using leaves_first_oidc [of cr cx "cf_oidc_key_rotation_period (cx_config cx)"
          "cf_oidc_key_staging_period (cx_config cx)" oidc w2]
      by (simp add: assms(2) add_signing_def add_oidc_def)
    done
qed

section \<open>What happens to the keys of a tenant\<close>

text \<open>
  Apart from provisioning, only two operations touch the tables of keys: the rotation job, and the
  reservation of serial numbers by a request that signs. A rotation has its time and the keys that it
  generates.
\<close>

datatype key_event =
    Rotates int "(string \<times> string) \<times> (string \<times> string) \<times> (string \<times> string)"
  | Reserves int int int

definition happens :: "crypto \<Rightarrow> request_ctx \<Rightarrow> key_event \<Rightarrow> world \<Rightarrow> world" where
  "happens cr cx e w = (case e of
     Rotates now g \<Rightarrow> snd (rotate_one cr (cx\<lparr>cx_now := now\<rparr>) g w)
   | Reserves now i n \<Rightarrow> snd (allocate_serial_numbers (cx\<lparr>cx_now := now\<rparr>) i n w))"

definition rotation_time :: "key_event \<Rightarrow> int option" where
  "rotation_time e = (case e of Rotates now _ \<Rightarrow> Some now | Reserves _ _ _ \<Rightarrow> None)"

definition periods_ok :: "config \<Rightarrow> bool" where
  "periods_ok cf \<longleftrightarrow>
    0 \<le> cf_host_key_staging_period cf \<and> cf_host_key_staging_period cf + 10 < cf_host_key_rotation_period cf \<and>
    0 \<le> cf_user_key_staging_period cf \<and> cf_user_key_staging_period cf + 10 < cf_user_key_rotation_period cf \<and>
    0 \<le> cf_oidc_key_staging_period cf \<and> cf_oidc_key_staging_period cf + 10 < cf_oidc_key_rotation_period cf"

definition keys_ok :: "request_ctx \<Rightarrow> world \<Rightarrow> bool" where
  "keys_ok cx w \<longleftrightarrow> author_ok cx \<and> periods_ok (cx_config cx) \<and> some_identity (key_view (w_db w))"

lemma serial_update_view:
  assumes "table_update signing_key_table (sg_serial_number_update f) p d = (r, d')"
  shows "key_view d' = key_view d"
proof -
  have "filter (\<lambda>r. sg_type r = k) (map (\<lambda>r. if p r then sg_serial_number_update f r else r) rows) =
      map (\<lambda>r. if p r then sg_serial_number_update f r else r) (filter (\<lambda>r. sg_type r = k) rows)" for k rows
    by (induction rows) auto
  then have "signing_windows k (d\<lparr>db_signing_key := update_rows p (sg_serial_number_update f) (db_signing_key d)\<rparr>) =
      signing_windows k d" for k
    by (simp add: signing_windows_def update_rows_def o_def if_distrib cong: if_cong)
  then show ?thesis
    using assms by (auto simp: table_update_def signing_key_table_def key_view_def oidc_windows_def Let_def
        split: if_splits option.splits)
qed

lemma reserve_view: "keeps (\<lambda>w. key_view (w_db w) = v) (allocate_serial_numbers cx i n)"
proof -
  have "keeps (\<lambda>w. key_view (w_db w) = v) (updates signing_key_table (sg_serial_number_update f) p)" for f p
    by (rule keepsI) (auto simp: updates_def on_db_def split: prod.split dest: serial_update_view)
  then have "keeps (\<lambda>w. key_view (w_db w) = v) (allocate_attempts cx k i n)" for k
    by (induction k) (auto intro!: keeps_and_then keeps_seq keeps_if keeps_option keeps_db_audit simp: Let_def split: option.split)
  then show ?thesis by (simp add: allocate_serial_numbers_def)
qed

lemma happens_view:
  assumes "keys_ok cx w"
  shows "key_view (w_db (happens cr cx e w)) = (case rotation_time e of
     None \<Rightarrow> key_view (w_db w) | Some now \<Rightarrow> rotated (cx_config cx) now (key_view (w_db w)))"
proof (cases e)
  case (Rotates now g)
  then have "leaves (rotate_one cr (cx\<lparr>cx_now := now\<rparr>) g) w (rotated (cx_config cx) now (key_view (w_db w)))"
    using leaves_rotate_one [of "cx\<lparr>cx_now := now\<rparr>" w] assms by (simp add: keys_ok_def author_ok_def)
  then show ?thesis using Rotates by (auto simp: happens_def rotation_time_def leaves_def runs_def)
next
  case (Reserves now i n)
  then show ?thesis
    using reserve_view [of "key_view (w_db w)"] by (auto simp: happens_def rotation_time_def keeps_def)
qed

lemma happens_ok: "keys_ok cx w \<Longrightarrow> keys_ok cx (happens cr cx e w)"
  using happens_view [of cx w cr e] by (auto simp: keys_ok_def split: option.splits)

lemma windows_of_view:
  "signing_windows signing_key_type.HOST db = fst (key_view db)"
  "signing_windows signing_key_type.USER db = fst (snd (key_view db))"
  "oidc_windows db = fst (snd (snd (key_view db)))"
  by (simp_all add: key_view_def)

lemma rotated_parts:
  "fst (rotated cf now v) = rotate_windows (cf_host_key_rotation_period cf) (cf_host_key_staging_period cf) now (fst v)"
  "fst (snd (rotated cf now v)) =
    rotate_windows (cf_user_key_rotation_period cf) (cf_user_key_staging_period cf) now (fst (snd v))"
  "fst (snd (snd (rotated cf now v))) =
    rotate_windows (cf_oidc_key_rotation_period cf) (cf_oidc_key_staging_period cf) now (fst (snd (snd v)))"
  by (simp_all add: rotated_def split: prod.split)

lemmas rotating_rules = happens_ok happens_view windows_of_view rotated_parts keys_ok_def periods_ok_def

interpretation host_keys: rotating "\<lambda>w. signing_windows signing_key_type.HOST (w_db w)" "happens cr cx" rotation_time
    "keys_ok cx" "cf_host_key_rotation_period (cx_config cx)" "cf_host_key_staging_period (cx_config cx)" for cr cx
  by unfold_locales (simp_all add: rotating_rules split: option.split)

interpretation user_keys: rotating "\<lambda>w. signing_windows signing_key_type.USER (w_db w)" "happens cr cx" rotation_time
    "keys_ok cx" "cf_user_key_rotation_period (cx_config cx)" "cf_user_key_staging_period (cx_config cx)" for cr cx
  by unfold_locales (simp_all add: rotating_rules split: option.split)

interpretation issuer_keys: rotating "\<lambda>w. oidc_windows (w_db w)" "happens cr cx" rotation_time
    "keys_ok cx" "cf_oidc_key_rotation_period (cx_config cx)" "cf_oidc_key_staging_period (cx_config cx)" for cr cx
  by unfold_locales (simp_all add: rotating_rules split: option.split)

section \<open>A key to sign with\<close>

lemma signer_in_force:
  assumes "\<exists>k\<in>set (signing_windows k (w_db w)). window_in_force S t k"
  shows "\<exists>s ss. fst (read_current cr (cx\<lparr>cx_now := t\<rparr>) k S w) = Inr (s # ss)"
proof -
  let ?keys = "filter (\<lambda>r. sg_valid_after r \<le> t - S \<and> sg_valid_before r > t \<and> sg_type r = signing_key_type_value k)
    (tb_rows (db_signing_key (w_db w)))"
  have "?keys \<noteq> []"
    using assms by (auto simp: signing_windows_def window_in_force_def filter_empty_conv)
  then obtain s ss where "?keys = s # ss" by (cases ?keys) auto
  then show ?thesis
    by (simp add: read_current_def signing_key_read_all_reads reads_run table_read_all_def signing_key_table_def)
qed

lemma issuer_in_force:
  assumes "\<exists>k\<in>set (oidc_windows (w_db w)). window_in_force S t k" and "0 \<le> S"
  shows "\<exists>key. fst (get_private_key cr (cx\<lparr>cx_now := t\<rparr>) w) = Inr key"
proof -
  let ?keys = "filter (\<lambda>r. ok_valid_after r \<le> t \<and> ok_valid_before r > t) (tb_rows (db_oidc_key (w_db w)))"
  have "?keys \<noteq> []" using assms by (force simp: oidc_windows_def window_in_force_def filter_empty_conv)
  then have "sort_key (\<lambda>k. - ok_created_at k) ?keys \<noteq> []" by (metis length_0_conv length_sort)
  then obtain s ss where "sort_key (\<lambda>k. - ok_created_at k) ?keys = s # ss"
    by (cases "sort_key (\<lambda>k. - ok_created_at k) ?keys") auto
  then show ?thesis
    by (simp add: get_private_key_def and_then_def reads_all_run oidc_key_table_def ret_def)
qed

text \<open>How long a tenant can wait for the next rotation.\<close>

definition rotation_slack :: "config \<Rightarrow> int" where
  "rotation_slack cf = Min {cf_host_key_rotation_period cf - cf_host_key_staging_period cf,
    cf_user_key_rotation_period cf - cf_user_key_staging_period cf,
    cf_oidc_key_rotation_period cf - cf_oidc_key_staging_period cf}"

text \<open>
  C29. A key is always in force. Take a tenant without keys, provision its keys, and let any sequence of
  rotations and of reservations of serial numbers follow, however late the rotations are. Then from each
  rotation (or from the provisioning) until a rotation period less the staging period later, host
  certificates, user certificates and tokens can be signed: each finds a key that was published long
  enough ago and is not over. A late rotation leaves a gap before it, but never after it.
\<close>

theorem signing_key_always_in_force:
  assumes "author_ok cx" and "periods_ok (cx_config cx)"
    and "tb_rows (db_signing_key (w_db w)) = []" and "tb_rows (db_oidc_key (w_db w)) = []"
    and "keyed = snd (provision_keys cr cx g w)"
    and "db_signing_key (w_db start) = db_signing_key (w_db keyed)" and "db_oidc_key (w_db start) = db_oidc_key (w_db keyed)"
    and "tb_rows (db_identity (w_db start)) \<noteq> []"
    and "sorted (cx_now cx # List.map_filter rotation_time es)"
    and "latest = last (cx_now cx # List.map_filter rotation_time es)"
    and "latest \<le> t" and "t \<le> latest + rotation_slack (cx_config cx)"
  shows "(\<exists>s ss. fst (read_current cr (cx\<lparr>cx_now := t\<rparr>) signing_key_type.HOST
        (cf_host_key_staging_period (cx_config cx)) (fold (happens cr cx) es start)) = Inr (s # ss)) \<and>
    (\<exists>s ss. fst (read_current cr (cx\<lparr>cx_now := t\<rparr>) signing_key_type.USER
        (cf_user_key_staging_period (cx_config cx)) (fold (happens cr cx) es start)) = Inr (s # ss)) \<and>
    (\<exists>key. fst (get_private_key cr (cx\<lparr>cx_now := t\<rparr>) (fold (happens cr cx) es start)) = Inr key)"
proof -
  let ?cf = "cx_config cx"
  have empty: "key_view (w_db w) = ([], [], [], tb_rows (db_identity (w_db w)) \<noteq> [])"
    using assms(3,4) by (simp add: key_view_def signing_windows_def oidc_windows_def)
  have first: "signing_windows signing_key_type.HOST (w_db start) =
        first_windows (cf_host_key_rotation_period ?cf) (cf_host_key_staging_period ?cf) (cx_now cx)"
      "signing_windows signing_key_type.USER (w_db start) =
        first_windows (cf_user_key_rotation_period ?cf) (cf_user_key_staging_period ?cf) (cx_now cx)"
      "oidc_windows (w_db start) =
        first_windows (cf_oidc_key_rotation_period ?cf) (cf_oidc_key_staging_period ?cf) (cx_now cx)"
    using leaves_provision_keys [OF assms(1) empty, of cr g] assms(5-7)
    by (auto simp: leaves_def runs_def key_view_def signing_windows_def oidc_windows_def)
  have ok: "keys_ok cx start" using assms(1,2,8) by (simp add: keys_ok_def some_identity_view)
  have late: "t \<le> latest + (cf_host_key_rotation_period ?cf - cf_host_key_staging_period ?cf)"
      "t \<le> latest + (cf_user_key_rotation_period ?cf - cf_user_key_staging_period ?cf)"
      "t \<le> latest + (cf_oidc_key_rotation_period ?cf - cf_oidc_key_staging_period ?cf)"
    using assms(12) by (simp_all add: rotation_slack_def)
  let ?last = "last (cx_now cx # List.map_filter rotation_time es)"
  have t: "?last \<le> t" using assms(10,11) by simp
  note late = late [unfolded assms(10)]
  have "0 \<le> cf_oidc_key_staging_period ?cf" using assms(2) by (simp add: periods_ok_def)
  then show ?thesis
    using host_keys.in_force [OF ok first(1) assms(9) t late(1)] user_keys.in_force [OF ok first(2) assms(9) t late(2)]
      issuer_keys.in_force [OF ok first(3) assms(9) t late(3)]
    by (intro conjI signer_in_force issuer_in_force)
qed

definition sample_crypto :: crypto where
  "sample_crypto = \<lparr>cr_encrypt = id, cr_decrypt = id, cr_thumbprint = id, cr_read_public = Inr, cr_public = id,
    cr_openssh = id\<rparr>"

definition provisioned_world :: world where
  "provisioned_world = (let w = snd (provision_keys sample_crypto sample_cx ((''a'', ''b''), (''c'', ''d''), (''e'', ''f''))
      empty_world)
    in w\<lparr>w_db := (w_db w)\<lparr>db_identity := \<lparr>tb_rows = [\<lparr>id_id = 1, id_created_by_id = None, id_created_at = 0,
      id_name = ''root'', id_unix_username = None\<rparr>], tb_seq = 1\<rparr>\<rparr>\<rparr>)"

lemma signing_key_always_in_force_witness:
  defines "es \<equiv> [Rotates 60000 ((''g'', ''h''), (''i'', ''j''), (''k'', ''l'')), Reserves 60001 1 1,
    Rotates 9000000 ((''m'', ''n''), (''o'', ''p''), (''q'', ''r''))]"
  shows "\<exists>key. fst (get_private_key sample_crypto (sample_cx\<lparr>cx_now := 9080000\<rparr>)
      (fold (happens sample_crypto sample_cx) es provisioned_world)) = Inr key"
  unfolding es_def
  by (rule signing_key_always_in_force [where w = empty_world and cx = sample_cx and cr = sample_crypto and
      start = provisioned_world and t = 9080000 and latest = 9000000 and
      g = "((''a'', ''b''), (''c'', ''d''), (''e'', ''f''))" and
      keyed = "snd (provision_keys sample_crypto sample_cx ((''a'', ''b''), (''c'', ''d''), (''e'', ''f'')) empty_world)" and
      es = "[Rotates 60000 ((''g'', ''h''), (''i'', ''j''), (''k'', ''l'')), Reserves 60001 1 1,
        Rotates 9000000 ((''m'', ''n''), (''o'', ''p''), (''q'', ''r''))]", THEN conjunct2, THEN conjunct2])
    (simp_all add: author_ok_def periods_ok_def sample_cx_def sample_config_def empty_world_def empty_db_def
      empty_table_def provisioned_world_def Let_def rotation_time_def map_filter_simps rotation_slack_def)

end
