(* ===== verification/Registry.thy ===== *)
theory Registry
  imports Rotation Identity_Endpoints
begin

text \<open>
  The registry of tenants (\<open>api/registry_db.py\<close>) and what reaches it: the lookup of \<open>api/dependencies.py\<close>,
  \<open>api/endpoints/tenant.py\<close>, \<open>initialize.py\<close> and \<open>directory.py\<close>. A request that works on the registry sees
  an estate: the registry, the world of its own tenant, and the databases of the other tenants by uuid.
  Making a database on its server is a parameter: the address of the database that was made.
\<close>

section \<open>The registry\<close>

record tenant_row =
  tn_id :: int
  tn_uuid :: string
  tn_name :: string
  tn_display_name :: string
  tn_owner_id :: "int option"
  tn_database_url :: string
  tn_is_enabled :: bool
  tn_is_initialized :: bool
  tn_is_deleted :: bool
  tn_created_at :: int
  tn_audit_retention_days :: int
  tn_activity_retention_days :: int
  tn_retention_purge_enabled :: bool

record registry_db =
  rg_tenant :: "tenant_row table"

definition tenant_table :: "(registry_db, tenant_row) table_def" where
  "tenant_table = \<lparr>td_name = ''tenant'', td_get = rg_tenant, td_upd = rg_tenant_update,
    td_unique = [(''uuid'', \<lambda>a b. tn_uuid a = tn_uuid b)]\<rparr>"

record estate =
  es_registry :: registry_db
  es_world :: world
  es_databases :: "string \<Rightarrow> app_db"

type_synonym 'a estate_handler = "(estate, exn, 'a) act"

definition in_registry :: "(registry_db, exn, 'a) act \<Rightarrow> 'a estate_handler" where
  "in_registry m = (\<lambda>s. case m (es_registry s) of (r, d) \<Rightarrow> (r, s\<lparr>es_registry := d\<rparr>))"

definition in_own_tenant :: "'a handler \<Rightarrow> 'a estate_handler" where
  "in_own_tenant m = (\<lambda>s. case m (es_world s) of (r, w) \<Rightarrow> (r, s\<lparr>es_world := w\<rparr>))"

text \<open>
  \<open>ctx.in_other_tenant\<close> inside a transaction of its own: no identity, and what waits for the end of the
  request waits for the end of the block. The transaction commits there, whatever becomes of the request.
\<close>

definition in_other_tenant :: "string \<Rightarrow> unit handler \<Rightarrow> unit estate_handler" where
  "in_other_tenant uuid m = (\<lambda>s.
    case m \<lparr>w_db = es_databases s uuid, w_deferred = Deferred, w_nonces = w_nonces (es_world s), w_outbox = []\<rparr> of
      (Inl e, _) \<Rightarrow> (Inl e, s)
    | (Inr _, w) \<Rightarrow> (case for_each (df_before_commit (w_deferred w)) insert_entry (w_db w) of
        (Inl e, _) \<Rightarrow> (Inl e, s)
      | (Inr _, d) \<Rightarrow> (Inr (), s\<lparr>es_databases := (es_databases s)(uuid := d)\<rparr>)))"

definition tenant_read_one :: "int \<Rightarrow> tenant_row option estate_handler" where
  "tenant_read_one i = in_registry (reading (table_read_one tenant_table (\<lambda>r. tn_id r = i)))"

section \<open>Which tenant a request is for\<close>

definition read_tenant_row :: "string \<Rightarrow> registry_db \<Rightarrow> exn + tenant_row" where
  "read_tenant_row tenant_uuid db = (case table_read_one tenant_table (\<lambda>r. tn_uuid r = tenant_uuid) db of
     None \<Rightarrow> Inl (not_found ''Tenant not found'')
   | Some tenant_row \<Rightarrow> if \<not> tn_is_enabled tenant_row then Inl (not_found ''Tenant not found'') else Inr tenant_row)"

section \<open>Tenants\<close>

text \<open>\<open>_ownership_filter\<close>: a tenant sees itself and the tenants it created.\<close>

definition ownership_filter :: "tenant_row list \<Rightarrow> int \<Rightarrow> tenant_row list" where
  "ownership_filter rows tenant_id = filter (\<lambda>r. tn_id r = tenant_id \<or> tn_owner_id r = Some tenant_id) rows"

record tenant_response =
  tr_id :: int
  tr_uuid :: string
  tr_name :: string
  tr_display_name :: string
  tr_owner_id :: "int option"
  tr_is_enabled :: bool
  tr_is_initialized :: bool
  tr_is_deleted :: bool
  tr_created_at :: int
  tr_audit_retention_days :: int
  tr_activity_retention_days :: int
  tr_retention_purge_enabled :: bool

definition row_to_schema :: "tenant_row \<Rightarrow> tenant_response" where
  "row_to_schema r = \<lparr>tr_id = tn_id r, tr_uuid = tn_uuid r, tr_name = tn_name r, tr_display_name = tn_display_name r,
    tr_owner_id = tn_owner_id r, tr_is_enabled = tn_is_enabled r, tr_is_initialized = tn_is_initialized r,
    tr_is_deleted = tn_is_deleted r, tr_created_at = tn_created_at r,
    tr_audit_retention_days = tn_audit_retention_days r, tr_activity_retention_days = tn_activity_retention_days r,
    tr_retention_purge_enabled = tn_retention_purge_enabled r\<rparr>"

definition own_grants :: "request_ctx \<Rightarrow> grants estate_handler" where
  "own_grants cx = in_own_tenant (grants_create cx)"

definition tenant_list_endpoint :: "request_ctx \<Rightarrow> tenant_response list estate_handler" where
  "tenant_list_endpoint cx =
    and_then (in_registry (reading (table_read_all tenant_table (\<lambda>_. True)))) (\<lambda>all_rows.
    and_then (own_grants cx) (\<lambda>grants.
      ret (map row_to_schema (filter (\<lambda>row. tenant_can_read (grants_tenant grants (Some (tn_id row))))
        (ownership_filter all_rows (cx_tenant_id cx))))))"

text \<open>The row of a tenant that the caller's tenant is or owns.\<close>

definition visible_tenant :: "request_ctx \<Rightarrow> int \<Rightarrow> tenant_row estate_handler" where
  "visible_tenant cx tenant_id = and_then (tenant_read_one tenant_id) (\<lambda>row. case row of
     None \<Rightarrow> raising (not_found ''Tenant not found'')
   | Some row \<Rightarrow> if ownership_filter [row] (cx_tenant_id cx) = [] then raising (not_found ''Tenant not found'')
       else ret row)"

definition tenant_refused :: "string \<Rightarrow> string option \<Rightarrow> exn" where
  "tenant_refused t d = Http (problem_response 403 about_blank (Some t) d)"

definition tenant_read_endpoint :: "request_ctx \<Rightarrow> int \<Rightarrow> tenant_response estate_handler" where
  "tenant_read_endpoint cx tenant_id =
    and_then (visible_tenant cx tenant_id) (\<lambda>row.
    and_then (own_grants cx) (\<lambda>grants.
      if \<not> tenant_can_read (grants_tenant grants (Some (tn_id row)))
      then raising (tenant_refused ''Not allowed to read tenant'' None)
      else ret (row_to_schema row)))"

record tenant_create_request =
  tcr_name :: string
  tcr_display_name :: string

definition default_retention_days :: "config \<Rightarrow> int" where
  "default_retention_days cf = min 365 (cf_retention_max_days cf)"

text \<open>The random uuid of the request names the tenant; its new database has the tables and the counter.\<close>

definition tenant_create_endpoint ::
    "request_ctx \<Rightarrow> string \<Rightarrow> tenant_create_request \<Rightarrow> tenant_response estate_handler" where
  "tenant_create_endpoint cx database_url data =
    and_then (own_grants cx) (\<lambda>grants.
      if \<not> tenant_can_create (grants_tenant grants None)
      then raising (tenant_refused ''Not allowed to create tenant'' None)
      else and_then (in_registry (table_create tenant_table (\<lambda>n. \<lparr>tn_id = n, tn_uuid = cx_uuid cx,
          tn_name = tcr_name data, tn_display_name = tcr_display_name data,
          tn_owner_id = Some (cx_tenant_id cx), tn_database_url = database_url, tn_is_enabled = True,
          tn_is_initialized = False, tn_is_deleted = False, tn_created_at = cx_now cx,
          tn_audit_retention_days = default_retention_days (cx_config cx),
          tn_activity_retention_days = default_retention_days (cx_config cx),
          tn_retention_purge_enabled = True\<rparr>))) (\<lambda>new_id.
      and_then (tenant_read_one new_id) (\<lambda>row. case row of
        None \<Rightarrow> raising AssertionError
      | Some row \<Rightarrow> seq (changing (es_databases_update (\<lambda>dbs. dbs(cx_uuid cx := empty_db))))
          (ret (row_to_schema row)))))"

text \<open>The fields that a PATCH may set; \<open>None\<close> is an explicit null.\<close>

record tenant_update_request =
  tur_fields :: "string list"
  tur_display_name :: "string option"
  tur_is_enabled :: "bool option"
  tur_audit_retention_days :: "int option"
  tur_activity_retention_days :: "int option"
  tur_retention_purge_enabled :: "bool option"

definition check_retention_days :: "config \<Rightarrow> tenant_update_request \<Rightarrow> unit estate_handler" where
  "check_retention_days cf data =
    (let low = cf_retention_min_days cf; high = cf_retention_max_days cf
     in for_each [(''audit_retention_days'', tur_audit_retention_days data),
         (''activity_retention_days'', tur_activity_retention_days data)]
       (\<lambda>(field, v). unless_raise (opt_all (\<lambda>v. low \<le> v \<and> v \<le> high) v)
         (Http (problem_response 400 about_blank (Some ''Retention period out of range'')
           (Some (field @ '' must be between '' @ show_int low @ '' and '' @ show_int high @ '' days''))))))"

definition opt_bool :: "bool option \<Rightarrow> detail" where
  "opt_bool b = (case b of None \<Rightarrow> DNull | Some x \<Rightarrow> DBool x)"

text \<open>In the order of the schema.\<close>

definition update_kwargs :: "tenant_update_request \<Rightarrow> details" where
  "update_kwargs data = filter (\<lambda>(field, _). field \<in> set (tur_fields data))
    [(''display_name'', opt_str (tur_display_name data)), (''is_enabled'', opt_bool (tur_is_enabled data)),
     (''audit_retention_days'', opt_int (tur_audit_retention_days data)),
     (''activity_retention_days'', opt_int (tur_activity_retention_days data)),
     (''retention_purge_enabled'', opt_bool (tur_retention_purge_enabled data))]"

definition tenant_values :: "tenant_row \<Rightarrow> details" where
  "tenant_values r =
    [(''display_name'', DStr (tn_display_name r)), (''is_enabled'', DBool (tn_is_enabled r)),
     (''audit_retention_days'', DInt (tn_audit_retention_days r)),
     (''activity_retention_days'', DInt (tn_activity_retention_days r)),
     (''retention_purge_enabled'', DBool (tn_retention_purge_enabled r))]"

definition set_or_keep :: "string list \<Rightarrow> string \<Rightarrow> 'a option \<Rightarrow> 'a \<Rightarrow> 'a" where
  "set_or_keep names field new old = (case when_set names field new of Some (Some x) \<Rightarrow> x | _ \<Rightarrow> old)"

definition set_tenant_fields :: "tenant_update_request \<Rightarrow> tenant_row \<Rightarrow> tenant_row" where
  "set_tenant_fields data r = (let names = tur_fields data in r\<lparr>
    tn_display_name := set_or_keep names ''display_name'' (tur_display_name data) (tn_display_name r),
    tn_is_enabled := set_or_keep names ''is_enabled'' (tur_is_enabled data) (tn_is_enabled r),
    tn_audit_retention_days :=
      set_or_keep names ''audit_retention_days'' (tur_audit_retention_days data) (tn_audit_retention_days r),
    tn_activity_retention_days :=
      set_or_keep names ''activity_retention_days'' (tur_activity_retention_days data) (tn_activity_retention_days r),
    tn_retention_purge_enabled :=
      set_or_keep names ''retention_purge_enabled'' (tur_retention_purge_enabled data) (tn_retention_purge_enabled r)\<rparr>)"

text \<open>No column of these may be null.\<close>

definition tenant_update :: "int \<Rightarrow> tenant_update_request \<Rightarrow> unit estate_handler" where
  "tenant_update tenant_id data =
    (if update_kwargs data = [] then ret ()
     else case List.find (\<lambda>(_, v). v = DNull) (update_kwargs data) of
       Some (field, _) \<Rightarrow> raising (IntegrityError ''tenant'' field)
     | None \<Rightarrow> seq (in_registry (table_update tenant_table (set_tenant_fields data) (\<lambda>r. tn_id r = tenant_id)))
         (ret ()))"

definition tenant_changes :: "tenant_row \<Rightarrow> tenant_update_request \<Rightarrow> details" where
  "tenant_changes row data = map (\<lambda>(field, new). (field, DObject
      [(''old'', the (map_of (tenant_values row) field)), (''new'', new)]))
    (filter (\<lambda>(field, new). map_of (tenant_values row) field \<noteq> Some new) (update_kwargs data))"

definition caller_as_foreign_author :: "request_ctx \<Rightarrow> string \<Rightarrow> app_db \<Rightarrow> foreign_author" where
  "caller_as_foreign_author cx tenant_name db = \<lparr>fa_tenant_id = cx_tenant_id cx, fa_tenant_name = tenant_name,
    fa_identity_name = (case cx_identity_id cx of None \<Rightarrow> None | Some i \<Rightarrow> name_by_id OT_IDENTITY i db)\<rparr>"

definition record_change ::
    "request_ctx \<Rightarrow> tenant_row \<Rightarrow> details \<Rightarrow> string \<Rightarrow> unit estate_handler" where
  "record_change cx row changes caller_tenant_name =
    (if cx_tenant_id cx = tn_id row
     then in_own_tenant (audit_create cx TENANT_UPDATE [] [(''changes'', DObject changes)])
     else and_then (in_own_tenant (reads (caller_as_foreign_author cx caller_tenant_name))) (\<lambda>author.
       seq (in_own_tenant (audit_create cx TENANT_UPDATE [] [(''changes'', DObject changes),
           (''tenant_id'', DInt (tn_id row)), (''tenant_name'', DStr (tn_display_name row))]))
         (in_other_tenant (tn_uuid row) (audit_create (cx\<lparr>cx_identity_id := None, cx_foreign_author := Some author\<rparr>)
           TENANT_UPDATE [] [(''changes'', DObject changes)]))))"

definition tenant_update_endpoint :: "request_ctx \<Rightarrow> int \<Rightarrow> tenant_update_request \<Rightarrow> unit estate_handler" where
  "tenant_update_endpoint cx tenant_id data =
    and_then (visible_tenant cx tenant_id) (\<lambda>row.
    and_then (own_grants cx) (\<lambda>grants.
    seq (for_each (tur_fields data) (\<lambda>field.
        and_then (lifting (tenant_can_update (grants_tenant grants (Some (tn_id row))) field)) (\<lambda>ok.
          unless_raise ok (tenant_refused ''Not allowed to update tenant field'' (Some field)))))
    (seq (check_retention_days (cx_config cx) data)
    (seq (tenant_update tenant_id data)
    (if tenant_changes row data = [] then ret ()
     else and_then (tenant_read_one (cx_tenant_id cx)) (\<lambda>caller_row. case caller_row of
         None \<Rightarrow> raising AssertionError
       | Some caller_row \<Rightarrow> record_change cx row (tenant_changes row data) (tn_display_name caller_row)))))))"

definition tenant_delete_endpoint :: "request_ctx \<Rightarrow> int \<Rightarrow> unit estate_handler" where
  "tenant_delete_endpoint cx tenant_id =
    and_then (visible_tenant cx tenant_id) (\<lambda>row.
    and_then (own_grants cx) (\<lambda>grants.
      if \<not> tenant_can_delete (grants_tenant grants (Some (tn_id row)))
      then raising (tenant_refused ''Not allowed to delete tenant'' None)
      else seq (in_registry (table_update tenant_table (\<lambda>r. r\<lparr>tn_is_enabled := False, tn_is_deleted := True\<rparr>)
          (\<lambda>r. tn_id r = tenant_id))) (ret ())))"

section \<open>The directory of a tenant\<close>

definition directory_endpoint :: "request_ctx \<Rightarrow> string \<Rightarrow> (string \<times> string) list estate_handler" where
  "directory_endpoint cx tenant_uuid =
    and_then (tenant_read_one (cx_tenant_id cx)) (\<lambda>tenant_row. case tenant_row of
      None \<Rightarrow> raising AssertionError
    | Some tenant_row \<Rightarrow>
        (let p = cf_base_url (cx_config cx) @ ''/pf/t/'' @ tenant_uuid
         in ret ([(''name'', tn_name tenant_row), (''display_name'', tn_display_name tenant_row)] @
           map (\<lambda>(name, path). (name, p @ path))
             [(''initialize'', ''/initialize''), (''accept_invitation'', ''/auth/http_sig/accept-invitation''),
              (''login'', ''/auth/http_sig/login''), (''login_oidc'', ''/auth/oidc/login''), (''auth'', ''/auth''),
              (''public_auth'', ''/public/auth''), (''public_oidc'', ''/public/oidc''), (''boundary'', ''/boundary''),
              (''tag'', ''/tag''), (''role'', ''/role''), (''identity'', ''/identity''), (''ssh'', ''/ssh''),
              (''bastion'', ''/bastion''), (''tenant'', ''/tenant''), (''audit_log'', ''/audit-log''),
              (''live'', ''/live''), (''ping'', ''/ping''), (''session'', ''/session'')])))"

end
