(* ===== verification/Auth_Config.thy ===== *)
theory Auth_Config
  imports Identity_Endpoints
begin

text \<open>
  \<open>api/model/auth_config.py\<close>, the conversions of \<open>api/converters.py\<close> for it, \<open>api/endpoints/auth_endpoint.py\<close>
  and the part of \<open>public.py\<close> about it: the ways of logging in that a tenant offers. Parameters, in a record
  \<open>auth_lib\<close>: encrypting the JSON text of a configuration and the way back, and \<open>str.isdigit\<close>, which looks
  into the tables of Unicode.
\<close>

record auth_lib =
  ab_seal :: "details \<Rightarrow> string"
  ab_open :: "string \<Rightarrow> details"
  ab_isdigit :: "string \<Rightarrow> bool"

section \<open>The model\<close>

record auth_config =
  ac_id :: int
  ac_name :: string
  ac_client_type :: string
  ac_description :: string
  ac_created_at :: int
  ac_is_enabled :: bool
  ac_type :: string
  ac_config :: details

definition auth_from_db :: "auth_lib \<Rightarrow> auth_row \<Rightarrow> auth_config" where
  "auth_from_db al row = \<lparr>ac_id = aut_id row, ac_name = aut_name row, ac_client_type = aut_client_type row,
    ac_description = aut_description row, ac_created_at = aut_created_at row, ac_is_enabled = aut_is_enabled row,
    ac_type = aut_type row, ac_config = ab_open al (aut_config row)\<rparr>"

definition auth_config_create ::
    "auth_lib \<Rightarrow> request_ctx \<Rightarrow> string \<Rightarrow> string \<Rightarrow> string \<Rightarrow> string \<Rightarrow> details \<Rightarrow> int handler" where
  "auth_config_create al cx name client_type description ty config =
    and_then (creates auth_table (\<lambda>n. \<lparr>aut_id = n, aut_name = name, aut_client_type = client_type,
        aut_description = description, aut_created_at = cx_now cx, aut_is_enabled = True, aut_type = ty,
        aut_config = ab_seal al config\<rparr>)) (\<lambda>auth_id.
      seq (audit_create cx AUTH_CREATE [] ([(''id'', DInt auth_id), (''name'', DStr name)] @
          (case map_of config ''require_email_verified'' of
             None \<Rightarrow> [] | Some v \<Rightarrow> [(''require_email_verified'', v)])))
        (ret auth_id))"

definition auth_config_read_all :: "auth_lib \<Rightarrow> (auth_row \<Rightarrow> bool) \<Rightarrow> app_db \<Rightarrow> auth_config list" where
  "auth_config_read_all al p db = map (auth_from_db al) (table_read_all auth_table p db)"

definition auth_config_read_one :: "auth_lib \<Rightarrow> (auth_row \<Rightarrow> bool) \<Rightarrow> app_db \<Rightarrow> auth_config option" where
  "auth_config_read_one al p db = (case auth_config_read_all al p db of [] \<Rightarrow> None | ac # _ \<Rightarrow> Some ac)"

record auth_fields =
  af_name :: "string option"
  af_description :: "string option"
  af_is_enabled :: "bool option"
  af_config :: "details option"

definition set_auth_fields :: "auth_lib \<Rightarrow> auth_fields \<Rightarrow> auth_row \<Rightarrow> auth_row" where
  "set_auth_fields al u r = r\<lparr>
    aut_name := (case af_name u of None \<Rightarrow> aut_name r | Some x \<Rightarrow> x),
    aut_description := (case af_description u of None \<Rightarrow> aut_description r | Some x \<Rightarrow> x),
    aut_is_enabled := (case af_is_enabled u of None \<Rightarrow> aut_is_enabled r | Some x \<Rightarrow> x),
    aut_config := (case af_config u of None \<Rightarrow> aut_config r | Some x \<Rightarrow> ab_seal al x)\<rparr>"

definition some_auth_field :: "auth_fields \<Rightarrow> bool" where
  "some_auth_field u \<longleftrightarrow>
    af_name u \<noteq> None \<or> af_description u \<noteq> None \<or> af_is_enabled u \<noteq> None \<or> af_config u \<noteq> None"

text \<open>The audit entry has every changed field but the configuration, and what the caller names of it.\<close>

definition auth_config_update ::
    "auth_lib \<Rightarrow> request_ctx \<Rightarrow> int \<Rightarrow> details \<Rightarrow> auth_fields \<Rightarrow> unit handler" where
  "auth_config_update al cx i config_audit_fields u =
    seq (if some_auth_field u
         then seq (updates auth_table (set_auth_fields al u) (\<lambda>r. aut_id r = i)) (ret ()) else ret ())
      (audit_create cx AUTH_UPDATE [] (dict_merge ([(''id'', DInt i)] @
          (case af_name u of None \<Rightarrow> [] | Some x \<Rightarrow> [(''name'', DStr x)]) @
          (case af_description u of None \<Rightarrow> [] | Some x \<Rightarrow> [(''description'', DStr x)]) @
          (case af_is_enabled u of None \<Rightarrow> [] | Some x \<Rightarrow> [(''is_enabled'', DBool x)]))
        config_audit_fields))"

definition auth_config_delete :: "request_ctx \<Rightarrow> int \<Rightarrow> bool handler" where
  "auth_config_delete cx i =
    and_then (reads_one auth_table (\<lambda>r. aut_id r = i)) (\<lambda>row. case row of
      None \<Rightarrow> ret False
    | Some row \<Rightarrow> and_then (deletes auth_table (\<lambda>r. aut_id r = i)) (\<lambda>n.
        if n = 0 then ret False
        else seq (audit_create cx AUTH_DELETE [] [(''id'', DInt i), (''name'', DStr (aut_name row)),
            (''client_type'', DStr (aut_client_type row)), (''description'', DStr (aut_description row)),
            (''auth_type'', DStr (aut_type row)), (''is_enabled'', DBool (aut_is_enabled row))])
          (ret True)))"

section \<open>What is shown\<close>

text \<open>
  The field \<open>callback_url\<close> of an \<open>OidcConfig\<close> is left out: a request may set it, nothing stores it, and
  every answer has its default.
\<close>

datatype s_auth_config =
    HttpSigConfig
  | OidcConfig (oc_issuer: string) (oc_client_id: string) (oc_require_email_verified: bool)
  | OidcDeviceCodeConfig (oc_issuer: string) (oc_client_id: string) (oc_require_email_verified: bool)
  | OidcSecretDeviceCodeConfig (oc_issuer: string) (oc_client_id: string) (oc_client_secret: string)
      (oc_require_email_verified: bool)

definition config_type :: "s_auth_config \<Rightarrow> string" where
  "config_type c = (case c of HttpSigConfig \<Rightarrow> ''http_sig'' | OidcConfig _ _ _ \<Rightarrow> ''oidc''
    | OidcDeviceCodeConfig _ _ _ \<Rightarrow> ''oidc-device-code''
    | OidcSecretDeviceCodeConfig _ _ _ _ \<Rightarrow> ''oidc-secret-device-code'')"

definition then_ok :: "exn + 'a \<Rightarrow> ('a \<Rightarrow> exn + 'b) \<Rightarrow> exn + 'b" where
  "then_ok r f = (case r of Inl e \<Rightarrow> Inl e | Inr x \<Rightarrow> f x)"

text \<open>First every key is looked up, where a missing one raises; then the values must pass the schema.\<close>

definition config_value :: "details \<Rightarrow> string \<Rightarrow> exn + detail" where
  "config_value config key = (case map_of config key of None \<Rightarrow> Inl KeyError | Some v \<Rightarrow> Inr v)"

definition require_verified :: "details \<Rightarrow> detail" where
  "require_verified config = (case map_of config ''require_email_verified'' of None \<Rightarrow> DBool True | Some v \<Rightarrow> v)"

definition schema_text :: "detail \<Rightarrow> exn + string" where
  "schema_text v = (case v of DStr s \<Rightarrow> Inr s | _ \<Rightarrow> Inl ValueError)"

definition schema_bool :: "detail \<Rightarrow> exn + bool" where
  "schema_bool v = (case v of DBool b \<Rightarrow> Inr b | _ \<Rightarrow> Inl ValueError)"

definition schema_secret :: "detail \<Rightarrow> exn + string" where
  "schema_secret v = (case v of DStr (c # cs) \<Rightarrow> Inr (c # cs) | _ \<Rightarrow> Inl ValueError)"

definition auth_config_to_config :: "auth_config \<Rightarrow> exn + s_auth_config" where
  "auth_config_to_config ac =
    (let get = config_value (ac_config ac);
         verified = schema_bool (require_verified (ac_config ac))
     in if ac_type ac = ''oidc''
        then then_ok (get ''issuer'') (\<lambda>i. then_ok (get ''client_id'') (\<lambda>c.
          then_ok (schema_text i) (\<lambda>i. then_ok (schema_text c) (\<lambda>c. then_ok verified (\<lambda>v. Inr (OidcConfig i c v))))))
        else if ac_type ac = ''oidc-device-code''
        then then_ok (get ''issuer'') (\<lambda>i. then_ok (get ''client_id'') (\<lambda>c.
          then_ok (schema_text i) (\<lambda>i. then_ok (schema_text c) (\<lambda>c. then_ok verified (\<lambda>v.
            Inr (OidcDeviceCodeConfig i c v))))))
        else if ac_type ac = ''oidc-secret-device-code''
        then then_ok (get ''issuer'') (\<lambda>i. then_ok (get ''client_id'') (\<lambda>c. then_ok (get ''client_secret'') (\<lambda>s.
          then_ok (schema_text i) (\<lambda>i. then_ok (schema_text c) (\<lambda>c. then_ok (schema_secret s) (\<lambda>s. then_ok verified (\<lambda>v.
            Inr (OidcSecretDeviceCodeConfig i c s v))))))))
        else if ac_type ac = ''http_sig'' then Inr HttpSigConfig
        else Inl AssertionError)"

record s_auth =
  sa_id :: int
  sa_name :: string
  sa_client_type :: string
  sa_description :: string
  sa_created_at :: int
  sa_is_enabled :: bool
  sa_config :: s_auth_config

definition auth_config_to_schema :: "auth_config \<Rightarrow> exn + s_auth" where
  "auth_config_to_schema ac = then_ok (auth_config_to_config ac) (\<lambda>config. Inr
    \<lparr>sa_id = ac_id ac, sa_name = ac_name ac, sa_client_type = ac_client_type ac, sa_description = ac_description ac,
     sa_created_at = ac_created_at ac, sa_is_enabled = ac_is_enabled ac, sa_config = config\<rparr>)"

record s_auth_public =
  sp_name :: string
  sp_description :: string
  sp_config :: s_auth_config

definition auth_config_to_public_schema :: "auth_config \<Rightarrow> exn + s_auth_public" where
  "auth_config_to_public_schema ac = then_ok (auth_config_to_config ac) (\<lambda>config. Inr
    \<lparr>sp_name = ac_name ac, sp_description = ac_description ac, sp_config = config\<rparr>)"

section \<open>The endpoints\<close>

definition REQUIRED_CLIENT_TYPE :: "(string \<times> string) list" where
  "REQUIRED_CLIENT_TYPE =
    [(''oidc'', ''web''), (''oidc-device-code'', ''cli''), (''oidc-secret-device-code'', ''cli'')]"

definition build_config :: "s_auth_config \<Rightarrow> details" where
  "build_config c = (case c of
     OidcConfig i cl v \<Rightarrow> [(''issuer'', DStr i), (''client_id'', DStr cl), (''require_email_verified'', DBool v)]
   | OidcDeviceCodeConfig i cl v \<Rightarrow>
       [(''issuer'', DStr i), (''client_id'', DStr cl), (''require_email_verified'', DBool v)]
   | OidcSecretDeviceCodeConfig i cl s v \<Rightarrow> [(''issuer'', DStr i), (''client_id'', DStr cl),
       (''client_secret'', DStr s), (''require_email_verified'', DBool v)]
   | HttpSigConfig \<Rightarrow> [])"

definition auth_missing :: string where
  "auth_missing = ''Auth config does not exist''"

definition auth_list_endpoint :: "auth_lib \<Rightarrow> request_ctx \<Rightarrow> s_auth list handler" where
  "auth_list_endpoint al cx =
    and_then (reads (auth_config_read_all al (\<lambda>_. True))) (\<lambda>auths.
    and_then (grants_create cx) (\<lambda>grants.
      map_act (\<lambda>ac. lifting (auth_config_to_schema ac))
        (filter (\<lambda>ac. auth_can_read (grants_auth grants (Some (ac_id ac)))) auths)))"

record auth_create_request =
  acr_name :: string
  acr_client_type :: string
  acr_description :: string
  acr_config :: s_auth_config

definition auth_create_endpoint :: "auth_lib \<Rightarrow> request_ctx \<Rightarrow> auth_create_request \<Rightarrow> s_auth handler" where
  "auth_create_endpoint al cx data =
    (let ty = config_type (acr_config data); required = map_of REQUIRED_CLIENT_TYPE ty
     in if ab_isdigit al (acr_name data) then reject 400 ''Auth config name must not be a pure integer'' None
        else if required \<noteq> None \<and> required \<noteq> Some (acr_client_type data)
        then reject 400 (ty @ '' requires client_type '' @ the required) None
        else and_then (grants_create cx) (\<lambda>grants.
          if \<not> auth_can_create (grants_auth grants None) then reject 403 ''Not allowed to create auth config'' None
          else and_then (catching (auth_config_create al cx (acr_name data) (acr_client_type data)
              (acr_description data) ty (build_config (acr_config data)))
            (\<lambda>e. case e of IntegrityError _ _ \<Rightarrow> reject 400 ''Auth config already exists'' None | _ \<Rightarrow> raising e))
            (\<lambda>auth_id. and_then (reads (auth_config_read_one al (\<lambda>r. aut_id r = auth_id))) (\<lambda>ac. case ac of
              None \<Rightarrow> raising AssertionError
            | Some ac \<Rightarrow> lifting (auth_config_to_schema ac)))))"

definition auth_read_endpoint :: "auth_lib \<Rightarrow> request_ctx \<Rightarrow> int \<Rightarrow> s_auth handler" where
  "auth_read_endpoint al cx auth_id =
    and_then (reads (auth_config_read_one al (\<lambda>r. aut_id r = auth_id))) (\<lambda>ac. case ac of
      None \<Rightarrow> raising (not_found auth_missing)
    | Some ac \<Rightarrow> and_then (grants_create cx) (\<lambda>grants.
        if \<not> auth_can_read (grants_auth grants (Some (ac_id ac))) then raising (not_found auth_missing)
        else lifting (auth_config_to_schema ac)))"

text \<open>A field is set when it is not null.\<close>

record auth_update_request =
  aur_name :: "string option"
  aur_description :: "string option"
  aur_is_enabled :: "bool option"
  aur_require_email_verified :: "bool option"

definition check_auth_field :: "auth_grant checker \<Rightarrow> string \<Rightarrow> string \<Rightarrow> unit handler" where
  "check_auth_field chk field refusal = and_then (lifting (auth_can_update chk field)) (\<lambda>ok.
    unless_raise ok (forbidden_or_not_found (auth_can_read chk) refusal auth_missing None))"

definition auth_update_endpoint :: "auth_lib \<Rightarrow> request_ctx \<Rightarrow> int \<Rightarrow> auth_update_request \<Rightarrow> s_auth handler" where
  "auth_update_endpoint al cx auth_id data =
    and_then (reads (auth_config_read_one al (\<lambda>r. aut_id r = auth_id))) (\<lambda>ac. case ac of
      None \<Rightarrow> raising (not_found auth_missing)
    | Some ac \<Rightarrow> and_then (grants_create cx) (\<lambda>grants.
        let chk = grants_auth grants (Some (ac_id ac));
            verified = aur_require_email_verified data;
            new_config = map_option (\<lambda>v. dict_merge (ac_config ac) [(''require_email_verified'', DBool v)]) verified;
            fields = \<lparr>af_name = aur_name data, af_description = aur_description data,
              af_is_enabled = aur_is_enabled data, af_config = new_config\<rparr>
        in seq (if_set (aur_name data) (\<lambda>name.
              seq (check_auth_field chk ''name'' ''Not allowed to update auth config name'')
                (if ab_isdigit al name then reject 400 ''Auth config name must not be a pure integer'' None else ret ())))
          (seq (if_set (aur_description data) (\<lambda>_.
              check_auth_field chk ''description'' ''Not allowed to update auth config description''))
          (seq (if_set (aur_is_enabled data) (\<lambda>_.
              check_auth_field chk ''is_enabled'' ''Not allowed to update auth config is_enabled''))
          (seq (if_set verified (\<lambda>_.
              seq (check_auth_field chk ''config'' ''Not allowed to update auth config require_email_verified'')
                (if ac_type ac \<notin> {''oidc'', ''oidc-device-code'', ''oidc-secret-device-code''}
                 then reject 400 ''require_email_verified only applies to OIDC auth configs'' None else ret ())))
          (seq (if some_auth_field fields
              then auth_config_update al cx auth_id
                (case verified of None \<Rightarrow> [] | Some v \<Rightarrow> [(''require_email_verified'', DBool v)]) fields
              else ret ())
          (and_then (reads (auth_config_read_one al (\<lambda>r. aut_id r = auth_id))) (\<lambda>updated. case updated of
              None \<Rightarrow> raising AssertionError
            | Some updated \<Rightarrow> lifting (auth_config_to_schema updated)))))))))"

definition auth_delete_endpoint :: "auth_lib \<Rightarrow> request_ctx \<Rightarrow> int \<Rightarrow> unit handler" where
  "auth_delete_endpoint al cx auth_id =
    and_then (reads (auth_config_read_one al (\<lambda>r. aut_id r = auth_id))) (\<lambda>ac. case ac of
      None \<Rightarrow> raising (not_found auth_missing)
    | Some ac \<Rightarrow> and_then (grants_create cx) (\<lambda>grants.
        let chk = grants_auth grants (Some (ac_id ac))
        in if \<not> auth_can_delete chk
           then raising (forbidden_or_not_found (auth_can_read chk) ''Not allowed to delete auth config'' auth_missing None)
           else and_then (auth_config_delete cx auth_id) (\<lambda>ok.
             if \<not> ok then raising (not_found auth_missing) else ret ())))"

section \<open>What anybody may read\<close>

definition public_auth_list :: "auth_lib \<Rightarrow> string \<Rightarrow> (string \<times> string \<times> string) list handler" where
  "public_auth_list al client_type =
    and_then (reads (auth_config_read_all al (\<lambda>r. aut_is_enabled r \<and> aut_client_type r = client_type))) (\<lambda>acs.
      map_act (\<lambda>ac. if ac_type ac \<in> {''http_sig'', ''oidc'', ''oidc-device-code'', ''oidc-secret-device-code''}
        then ret (ac_name ac, ac_client_type ac, ac_type ac) else raising ValueError) acs)"

definition public_auth_detail :: "auth_lib \<Rightarrow> string \<Rightarrow> string \<Rightarrow> s_auth_public handler" where
  "public_auth_detail al name client_type =
    and_then (reads (auth_config_read_one al (\<lambda>r. aut_name r = name \<and> aut_client_type r = client_type))) (\<lambda>ac.
      case ac of
        None \<Rightarrow> raising (not_found ''Auth config not found'')
      | Some ac \<Rightarrow> if \<not> ac_is_enabled ac then raising (not_found ''Auth config not found'')
          else lifting (auth_config_to_public_schema ac))"

end
