(* ===== verification/Initialize.thy ===== *)
theory Initialize
  imports Registry Auth_Config
begin

text \<open>
  \<open>api/endpoints/initialize.py\<close>: how a tenant gets its first keys, its root boundary, identity and role,
  and the way for its founder to log in. The keys that the code generates are arguments.
\<close>

section \<open>The grants of the root role\<close>

definition tenant_grant_all :: "bool \<Rightarrow> grant" where
  "tenant_grant_all allow_tenant_create = TenantGrant \<lparr>g_filter = \<lparr>f_id = None\<rparr>,
    g_permission = \<lparr>tp_create = allow_tenant_create, tp_read = True, tp_delete = True,
      tp_update = Some \<lparr>tu_display_name = True, tu_is_enabled = True, tu_audit_retention_days = True,
        tu_activity_retention_days = True, tu_retention_purge_enabled = True\<rparr>\<rparr>\<rparr>"

definition all_grants :: "bool \<Rightarrow> grant list" where
  "all_grants allow_tenant_create =
    [IdentityGrant \<lparr>g_filter = \<lparr>tf_id = None, tf_tag_id_list = None, tf_boundary_id_list = None\<rparr>,
       g_permission = \<lparr>ip_create = Some \<lparr>ic_allowed = True, ic_allowed_tag_id_list = None,
           ic_required_boundary_id_list = None\<rparr>, ip_read = True, ip_update = None, ip_delete = True,
         ip_add_tag_id_list = None, ip_del_tag_id_list = None, ip_invite_list = None\<rparr>\<rparr>,
     TagGrant \<lparr>g_filter = \<lparr>f_id = None\<rparr>, g_permission = \<lparr>p_create = True, p_read = True, p_delete = True\<rparr>\<rparr>,
     RoleGrant \<lparr>g_filter = \<lparr>f_id = None\<rparr>,
       g_permission = \<lparr>p_create = True, p_read = True, p_delete = True, rp_update = None\<rparr>\<rparr>,
     BoundaryGrant \<lparr>g_filter = \<lparr>f_id = None\<rparr>,
       g_permission = \<lparr>p_create = True, p_read = True, p_delete = True, bp_update = None\<rparr>\<rparr>,
     tenant_grant_all allow_tenant_create,
     AuthGrant \<lparr>g_filter = \<lparr>f_id = None\<rparr>,
       g_permission = \<lparr>p_create = True, p_read = True, p_delete = True, ap_update = None\<rparr>\<rparr>,
     BastionGrant \<lparr>g_filter = \<lparr>f_id = None\<rparr>,
       g_permission = \<lparr>p_create = True, p_read = True, p_delete = True, bap_update = None\<rparr>\<rparr>,
     AuditLogGrant \<lparr>g_filter = (), g_permission = \<lparr>alp_read = True\<rparr>\<rparr>,
     LiveGrant \<lparr>g_filter = \<lparr>lf_tag_id_list = None\<rparr>, g_permission = \<lparr>lp_read = True, lp_terminate = True\<rparr>\<rparr>]"

definition no_tenant_create :: grant where
  "no_tenant_create = TenantGrant \<lparr>g_filter = \<lparr>f_id = None\<rparr>,
    g_permission = \<lparr>tp_create = True, tp_read = False, tp_delete = False, tp_update = None\<rparr>\<rparr>"

section \<open>Provisioning\<close>

record generated =
  ge_signing :: "(string \<times> string) \<times> (string \<times> string) \<times> (string \<times> string)"
  ge_invitation :: string

definition provision ::
    "crypto \<Rightarrow> auth_lib \<Rightarrow> request_ctx \<Rightarrow> generated \<Rightarrow> bool \<Rightarrow> unit handler" where
  "provision cr al cx ge allow_tenant_create =
    seq (provision_keys cr cx (ge_signing ge))
    (and_then (boundary_create cx ''root'' ''The Root boundary is not a boundary at all.'' None
        (if allow_tenant_create then [] else [no_tenant_create])) (\<lambda>root_boundary_id.
    and_then (identity_create cx ''root'' [root_boundary_id] [] None) (\<lambda>root_id.
    and_then (role_create cx ''root'' (''The \"root\" role identifies a user that is able to do anything. '' @
        ''It is created once at startup and should be deleted once a proper '' @
        ''permission model is deployed.'') (all_grants allow_tenant_create)) (\<lambda>root_role_id.
    seq (role_update cx root_role_id (no_role_fields\<lparr>rf_added := Some [root_id]\<rparr>))
    (seq (auth_config_create al cx ''default'' ''cli'' ''Default HTTP signature authentication'' ''http_sig'' [])
    (case cf_default_bastion (cx_config cx) of
       None \<Rightarrow> ret ()
     | Some b \<Rightarrow> (case df_url b of
         None \<Rightarrow> ret ()
       | Some url \<Rightarrow> seq (bastion_create cx url (df_ssh_proxy_jump b) (Some [])) (ret ()))))))))"

definition founder :: "identity_row option handler" where
  "founder = reads_one identity_table (\<lambda>r. id_id r = FOUNDING_ID)"

text \<open>
  The answer is the invitation key of the founder, or nothing when the tenant is initialized already.
  The conditional update claims the tenant.
\<close>

definition claim_tenant :: "int \<Rightarrow> int estate_handler" where
  "claim_tenant tenant_id = in_registry (table_update tenant_table (\<lambda>r. r\<lparr>tn_is_initialized := True\<rparr>)
    (\<lambda>r. tn_id r = tenant_id \<and> \<not> tn_is_initialized r))"

definition found_tenant :: "crypto \<Rightarrow> auth_lib \<Rightarrow> request_ctx \<Rightarrow> generated \<Rightarrow> bool \<Rightarrow> string handler" where
  "found_tenant cr al cx ge allow_tenant_create =
    and_then founder (\<lambda>identity.
    seq (if identity = None then provision cr al cx ge allow_tenant_create else ret ())
    (and_then founder (\<lambda>identity. case identity of
       None \<Rightarrow> raising AssertionError
     | Some identity \<Rightarrow>
         and_then (invitation_create cr cx (ge_invitation ge) (id_id identity) 600) (\<lambda>invitation_id.
         and_then (invitation_read cr invitation_id) (\<lambda>invitation. case invitation of
           None \<Rightarrow> raising AssertionError
         | Some invitation \<Rightarrow> ret (ik_key invitation))))))"

definition initialize_endpoint ::
    "crypto \<Rightarrow> auth_lib \<Rightarrow> request_ctx \<Rightarrow> generated \<Rightarrow> string option estate_handler" where
  "initialize_endpoint cr al cx ge =
    and_then (tenant_read_one (cx_tenant_id cx)) (\<lambda>tenant_row. case tenant_row of
      None \<Rightarrow> raising AssertionError
    | Some tenant_row \<Rightarrow>
        if tn_is_initialized tenant_row then ret None
        else and_then (claim_tenant (cx_tenant_id cx)) (\<lambda>changed.
          if changed = 0 then ret None
          else and_then (in_own_tenant (found_tenant cr al cx ge (tn_owner_id tenant_row = None)))
            (\<lambda>key. ret (Some key))))"

end
