(* ===== verification/Tenant_Safety.thy ===== *)
theory Tenant_Safety
  imports Initialize Policy_Safety Audit_Numbering Certificate_Safety
begin

text \<open>
  What the requests of one tenant can do to others, and what a change of a tenant leaves in the logs.
\<close>

section \<open>Tenants that are not the caller's\<close>

definition tenants :: "estate \<Rightarrow> tenant_row list" where
  "tenants s = tb_rows (rg_tenant (es_registry s))"

definition owned_by :: "int \<Rightarrow> tenant_row \<Rightarrow> bool" where
  "owned_by me r \<longleftrightarrow> tn_id r = me \<or> tn_owner_id r = Some me"

text \<open>The rows and the databases of foreign tenants are as they were.\<close>

definition others_kept :: "int \<Rightarrow> estate \<Rightarrow> estate \<Rightarrow> bool" where
  "others_kept me s s' \<longleftrightarrow> (\<forall>r\<in>set (tenants s). \<not> owned_by me r \<longrightarrow>
    r \<in> set (tenants s') \<and> es_databases s' (tn_uuid r) = es_databases s (tn_uuid r))"

lemma others_kept_refl [simp]: "others_kept me s s"
  by (simp add: others_kept_def)

lemma keeps_in_own_tenant: "keeps (others_kept me s) (in_own_tenant m)"
  by (rule keepsI) (auto simp: in_own_tenant_def others_kept_def tenants_def split: prod.split)

lemma keeps_in_own_tenant_read:
  assumes "\<And>P. keeps P m"
  shows "keeps P (in_own_tenant m)"
proof (rule keepsI)
  fix s assume "P s"
  moreover have "snd (m (es_world s)) = es_world s" using same_state [OF assms] by (metis prod.collapse)
  ultimately show "P (snd (in_own_tenant m s))" by (cases "m (es_world s)") (simp add: in_own_tenant_def)
qed

lemma keeps_in_registry_read: "keeps P (in_registry (reading f))"
  by (simp add: keeps_def in_registry_def reading_def)

lemma keeps_tenant_read_one: "keeps P (tenant_read_one i)"
  unfolding tenant_read_one_def by (rule keeps_in_registry_read)

lemma keeps_own_grants: "keeps P (own_grants cx)"
  unfolding own_grants_def by (intro keeps_in_own_tenant_read grants_create_keeps)

lemma keeps_visible_tenant: "keeps P (visible_tenant cx i)"
  unfolding visible_tenant_def by (intro keeps_and_then keeps_tenant_read_one keeps_option keeps_rules)

lemma visible_tenant_owned:
  assumes "visible_tenant cx i s = (Inr row, s')"
  shows "s' = s \<and> row \<in> set (tenants s) \<and> tn_id row = i \<and> owned_by (cx_tenant_id cx) row"
proof -
  have "s' = s" using same_state [OF keeps_visible_tenant assms] .
  moreover have "List.find (\<lambda>r. tn_id r = i) (tenants s) = Some row \<and> owned_by (cx_tenant_id cx) row"
    using assms by (auto simp: visible_tenant_def tenant_read_one_def in_registry_def reading_def and_then_def
        table_read_one_def tenant_table_def tenants_def ownership_filter_def owned_by_def raising_def ret_def
        split: option.splits if_splits)
  ultimately show ?thesis by (auto simp: find_Some_iff)
qed

lemma keeps_table_update_tenant:
  assumes "\<And>r. r \<in> set (tenants s) \<Longrightarrow> \<not> owned_by me r \<Longrightarrow> tn_id r \<noteq> i"
  shows "keeps (others_kept me s) (in_registry (table_update tenant_table f (\<lambda>r. tn_id r = i)))"
proof (rule keepsI)
  fix t assume t: "others_kept me s t"
  show "others_kept me s (snd (in_registry (table_update tenant_table f (\<lambda>r. tn_id r = i)) t))"
    using t assms
    by (force simp: in_registry_def table_update_def tenant_table_def others_kept_def tenants_def update_rows_def
        Let_def split: option.splits if_splits)
qed

lemma keeps_in_other_tenant:
  assumes "\<And>r. r \<in> set (tenants s) \<Longrightarrow> \<not> owned_by me r \<Longrightarrow> tn_uuid r \<noteq> u"
  shows "keeps (others_kept me s) (in_other_tenant u m)"
  by (rule keepsI) (use assms in \<open>auto simp: in_other_tenant_def others_kept_def tenants_def split: prod.split sum.split\<close>)

definition tenants_distinct :: "estate \<Rightarrow> bool" where
  "tenants_distinct s \<longleftrightarrow> distinct (map tn_id (tenants s)) \<and> distinct (map tn_uuid (tenants s))"

lemma owned_apart:
  assumes "tenants_distinct s" and "row \<in> set (tenants s)" and "owned_by me row"
    and "r \<in> set (tenants s)" and "\<not> owned_by me r"
  shows "tn_id r \<noteq> tn_id row" and "tn_uuid r \<noteq> tn_uuid row"
  using assms by (auto simp: tenants_distinct_def distinct_map dest: inj_onD)

text \<open>After a row that is visible was found, the rest of a handler only has to leave its state alone.\<close>

lemma visible_tenant_then:
  assumes "tenants_distinct s"
    and "\<And>row :: tenant_row. (\<And>r. r \<in> set (tenants s) \<Longrightarrow> \<not> owned_by (cx_tenant_id cx) r \<Longrightarrow>
        tn_id r \<noteq> i \<and> tn_uuid r \<noteq> tn_uuid row) \<Longrightarrow> keeps (others_kept (cx_tenant_id cx) s) (f row)"
  shows "others_kept (cx_tenant_id cx) s (snd (and_then (visible_tenant cx i) f s))"
proof (cases "visible_tenant cx i s")
  case (Pair res s')
  show ?thesis
  proof (cases res)
    case (Inl e)
    then show ?thesis using Pair same_state [OF keeps_visible_tenant Pair] by (simp add: and_then_def)
  next
    case (Inr row)
    note found = visible_tenant_owned [OF Pair [unfolded Inr]]
    then have "keeps (others_kept (cx_tenant_id cx) s) (f row)"
      using owned_apart [OF assms(1)] by (intro assms(2)) auto
    then show ?thesis using Pair Inr found by (simp add: and_then_def keeps_def)
  qed
qed

lemmas keeps_steps = keeps_and_then keeps_seq keeps_rules keeps_option keeps_own_grants keeps_in_own_tenant
  keeps_in_own_tenant_read keeps_in_registry_read keeps_tenant_read_one

lemma update_keeps_others:
  assumes "tenants_distinct s"
  shows "others_kept (cx_tenant_id cx) s (snd (tenant_update_endpoint cx i data s))"
  unfolding tenant_update_endpoint_def
proof (rule visible_tenant_then [OF assms])
  fix row :: tenant_row
  assume apart: "\<And>r. r \<in> set (tenants s) \<Longrightarrow> \<not> owned_by (cx_tenant_id cx) r \<Longrightarrow>
      tn_id r \<noteq> i \<and> tn_uuid r \<noteq> tn_uuid row"
  let ?P = "others_kept (cx_tenant_id cx) s"
  have "keeps ?P (tenant_update i data)"
    unfolding tenant_update_def using apart
    by (auto intro!: keeps_if keeps_ret keeps_seq keeps_raising keeps_table_update_tenant split: option.split)
  moreover have "keeps ?P (record_change cx row changes name)" for changes name
    unfolding record_change_def using apart
    by (intro keeps_if keeps_and_then keeps_seq keeps_in_own_tenant keeps_in_other_tenant) blast
  moreover have "keeps ?P (check_retention_days (cx_config cx) data)"
    unfolding check_retention_days_def Let_def by (intro keeps_for_each) (auto split: prod.split)
  ultimately show "keeps ?P (and_then (own_grants cx) (\<lambda>grants.
      seq (for_each (tur_fields data) (\<lambda>field.
          and_then (lifting (tenant_can_update (grants_tenant grants (Some (tn_id row))) field)) (\<lambda>ok.
            unless_raise ok (tenant_refused ''Not allowed to update tenant field'' (Some field)))))
      (seq (check_retention_days (cx_config cx) data)
      (seq (tenant_update i data)
      (if tenant_changes row data = [] then ret ()
       else and_then (tenant_read_one (cx_tenant_id cx)) (\<lambda>caller_row. case caller_row of
           None \<Rightarrow> raising AssertionError
         | Some caller_row \<Rightarrow> record_change cx row (tenant_changes row data) (tn_display_name caller_row)))))))"
    by (intro keeps_steps)
qed

lemma delete_keeps_others:
  assumes "tenants_distinct s"
  shows "others_kept (cx_tenant_id cx) s (snd (tenant_delete_endpoint cx i s))"
  unfolding tenant_delete_endpoint_def
proof (rule visible_tenant_then [OF assms])
  fix row :: tenant_row
  assume "\<And>r. r \<in> set (tenants s) \<Longrightarrow> \<not> owned_by (cx_tenant_id cx) r \<Longrightarrow>
      tn_id r \<noteq> i \<and> tn_uuid r \<noteq> tn_uuid row"
  then show "keeps (others_kept (cx_tenant_id cx) s) (and_then (own_grants cx) (\<lambda>grants.
      if \<not> tenant_can_delete (grants_tenant grants (Some (tn_id row)))
      then raising (tenant_refused ''Not allowed to delete tenant'' None)
      else seq (in_registry (table_update tenant_table (\<lambda>r. r\<lparr>tn_is_enabled := False, tn_is_deleted := True\<rparr>)
          (\<lambda>r. tn_id r = i))) (ret ())))"
    by (intro keeps_and_then keeps_own_grants keeps_if keeps_raising keeps_seq keeps_ret keeps_table_update_tenant) blast
qed

lemma create_keeps_others:
  "others_kept (cx_tenant_id cx) s (snd (tenant_create_endpoint cx url data s))"
proof -
  have same: "snd (own_grants cx s) = s" using same_state [OF keeps_own_grants] by (metis prod.collapse)
  define mk where "mk = (\<lambda>n. \<lparr>tn_id = n, tn_uuid = cx_uuid cx,
          tn_name = tcr_name data, tn_display_name = tcr_display_name data,
          tn_owner_id = Some (cx_tenant_id cx), tn_database_url = url, tn_is_enabled = True,
          tn_is_initialized = False, tn_is_deleted = False, tn_created_at = cx_now cx,
          tn_audit_retention_days = default_retention_days (cx_config cx),
          tn_activity_retention_days = default_retention_days (cx_config cx),
          tn_retention_purge_enabled = True\<rparr>)"
  have other: "tn_uuid r \<noteq> cx_uuid cx"
    if "r \<in> set (tenants s)" "violated [(''uuid'', \<lambda>a b. tn_uuid a = tn_uuid b)] (mk n) (tenants s) = None" for r n
    using that by (auto simp: violated_None mk_def)
  show ?thesis
    unfolding tenant_create_endpoint_def mk_def [symmetric]
    using same other
    by (auto simp: and_then_def seq_def raising_def ret_def changing_def in_registry_def tenant_read_one_def reading_def
        table_create_def insert_row_def tenant_table_def Let_def others_kept_def tenants_def
        split: prod.split sum.split option.split)
qed

text \<open>
  C30. A tenant reaches itself and the tenants it created, and no others. Whatever a caller asks of the
  tenant endpoints, and however the request ends, the rows of foreign tenants in the registry and their
  databases stay as they were; and what reading and listing show are rows of the caller's own tenant or
  of tenants it created.
\<close>

theorem foreign_tenants_untouched:
  assumes "tenants_distinct s"
  shows "others_kept (cx_tenant_id cx) s (snd (tenant_update_endpoint cx i data s)) \<and>
    others_kept (cx_tenant_id cx) s (snd (tenant_delete_endpoint cx i s)) \<and>
    others_kept (cx_tenant_id cx) s (snd (tenant_create_endpoint cx url new s)) \<and>
    (\<forall>x s'. tenant_read_endpoint cx i s = (Inr x, s') \<longrightarrow>
      (\<exists>row\<in>set (tenants s). owned_by (cx_tenant_id cx) row \<and> x = row_to_schema row) \<and> s' = s) \<and>
    (\<forall>xs s'. tenant_list_endpoint cx s = (Inr xs, s') \<longrightarrow>
      (\<forall>x\<in>set xs. \<exists>row\<in>set (tenants s). owned_by (cx_tenant_id cx) row \<and> x = row_to_schema row) \<and> s' = s)"
proof (intro conjI)
  show "\<forall>x s'. tenant_read_endpoint cx i s = (Inr x, s') \<longrightarrow>
      (\<exists>row\<in>set (tenants s). owned_by (cx_tenant_id cx) row \<and> x = row_to_schema row) \<and> s' = s"
    unfolding tenant_read_endpoint_def and_then_read [OF keeps_visible_tenant] and_then_read [OF keeps_own_grants]
    by (auto simp: ret_def raising_def split: if_splits dest!: visible_tenant_owned)
  show "\<forall>xs s'. tenant_list_endpoint cx s = (Inr xs, s') \<longrightarrow>
      (\<forall>x\<in>set xs. \<exists>row\<in>set (tenants s). owned_by (cx_tenant_id cx) row \<and> x = row_to_schema row) \<and> s' = s"
    unfolding tenant_list_endpoint_def and_then_read [OF keeps_in_registry_read] and_then_read [OF keeps_own_grants]
    by (auto simp: ret_def in_registry_def reading_def table_read_all_def tenant_table_def tenants_def
        ownership_filter_def owned_by_def)
qed (rule update_keeps_others [OF assms] delete_keeps_others [OF assms] create_keeps_others)+

section \<open>What a change leaves in the logs\<close>

lemma audit_create_entry:
  assumes "audit_create cx t [] ds w = (Inr (), w')"
  shows "\<exists>e. w' = w\<lparr>w_deferred := (w_deferred w)\<lparr>df_before_commit := df_before_commit (w_deferred w) @ [e]\<rparr>\<rparr> \<and>
    pe_type e = t \<and> pe_foreign_author e = cx_foreign_author cx \<and> pe_by_identity_id e = cx_identity_id cx \<and>
    (\<forall>k. k \<noteq> ''cause'' \<longrightarrow> map_of (pe_details e) k = map_of ds k)"
proof -
  let ?extra = "(case cx_cause cx of None \<Rightarrow> [] | Some c \<Rightarrow> [(''cause'', DObject c)])"
  obtain e where e: "make_entry t (cx_now cx) (cx_identity_id cx) (dict_merge ds ?extra) (cx_foreign_author cx) (w_db w) = Inr e"
      and w': "before_commit e w = (Inr (), w')"
    using assms by (auto simp: audit_create_def audit_write_def and_then_Inr reads_run lifting_Inr Let_def)
  have "map_of (rev ?extra) k = None" if "k \<noteq> ''cause''" for k using that by (simp split: option.split)
  then have "map_of (dict_merge ds ?extra) k = map_of ds k" if "k \<noteq> ''cause''" for k
    using that unfolding map_of_dict_merge by simp
  then have "pe_type e = t \<and> pe_foreign_author e = cx_foreign_author cx \<and> pe_by_identity_id e = cx_identity_id cx \<and>
      (\<forall>k. k \<noteq> ''cause'' \<longrightarrow> map_of (pe_details e) k = map_of ds k)"
    using e unfolding make_entry_def by (simp split: if_splits) force
  moreover have "w' = w\<lparr>w_deferred := (w_deferred w)\<lparr>df_before_commit := df_before_commit (w_deferred w) @ [e]\<rparr>\<rparr>"
    using w' by (cases w, cases "w_deferred w") (auto simp: before_commit_def changing_def)
  ultimately show ?thesis by blast
qed

lemma update_nothing:
  assumes "update_kwargs data = []"
  shows "set_tenant_fields data r = r"
proof -
  have "''display_name'' \<notin> set (tur_fields data)" "''is_enabled'' \<notin> set (tur_fields data)"
      "''audit_retention_days'' \<notin> set (tur_fields data)" "''activity_retention_days'' \<notin> set (tur_fields data)"
      "''retention_purge_enabled'' \<notin> set (tur_fields data)"
    using assms unfolding update_kwargs_def filter_empty_conv by simp_all
  then show ?thesis by (simp add: set_tenant_fields_def set_or_keep_def when_set_def Let_def)
qed

lemma tenant_update_rows:
  assumes "tenant_update i data s = (Inr (), s')" and "row \<in> set (tenants s)" and "tn_id row = i"
  shows "tenants s' = map (\<lambda>r. if tn_id r = i then set_tenant_fields data r else r) (tenants s) \<and>
    es_world s' = es_world s \<and> es_databases s' = es_databases s"
proof (cases "update_kwargs data = []")
  case True
  then have "s' = s" using assms(1) by (simp add: tenant_update_def ret_def)
  then show ?thesis by (simp add: update_nothing [OF True] cong: if_cong)
next
  case False
  then have "seq (in_registry (table_update tenant_table (set_tenant_fields data) (\<lambda>r. tn_id r = i))) (ret ()) s = (Inr (), s')"
    using assms(1) by (auto simp: tenant_update_def raising_def split: option.splits)
  moreover have "list_ex (\<lambda>r. tn_id r = i) (tenants s)" using assms(2,3) by (auto simp: list_ex_iff)
  ultimately show ?thesis
    by (auto simp: seq_Inr ret_Inr in_registry_def table_update_def tenant_table_def tenants_def update_rows_def Let_def
        split: option.splits)
qed

lemma in_other_tenant_entry:
  fixes v :: int
  assumes "in_other_tenant u (audit_create cx t [] ds) s = (Inr (), s')" and "audit_ok v (es_databases s u)"
  shows "es_registry s' = es_registry s \<and> es_world s' = es_world s \<and>
    (\<exists>e n. tb_rows (db_audit_log (es_databases s' u)) = tb_rows (db_audit_log (es_databases s u)) @ [entry_row e n] \<and>
      pe_type e = t \<and> pe_foreign_author e = cx_foreign_author cx \<and> pe_by_identity_id e = cx_identity_id cx \<and>
      (\<forall>k. k \<noteq> ''cause'' \<longrightarrow> map_of (pe_details e) k = map_of ds k))"
proof -
  let ?w = "\<lparr>w_db = es_databases s u, w_deferred = Deferred, w_nonces = w_nonces (es_world s), w_outbox = []\<rparr>"
  obtain w d where w: "audit_create cx t [] ds ?w = (Inr (), w)"
      and d: "for_each (df_before_commit (w_deferred w)) insert_entry (w_db w) = (Inr (), d)"
      and s': "s' = s\<lparr>es_databases := (es_databases s)(u := d)\<rparr>"
    using assms(1) by (auto simp: in_other_tenant_def split: prod.splits sum.splits)
  obtain e where e: "w_db w = es_databases s u" "df_before_commit (w_deferred w) = [e]"
      "pe_type e = t \<and> pe_foreign_author e = cx_foreign_author cx \<and> pe_by_identity_id e = cx_identity_id cx \<and>
      (\<forall>k. k \<noteq> ''cause'' \<longrightarrow> map_of (pe_details e) k = map_of ds k)"
    using audit_create_entry [OF w] by (auto simp: Deferred_def)
  obtain d' where "insert_entry e (es_databases s u) = (Inr (), d')"
      "tb_rows (db_audit_log d') = tb_rows (db_audit_log (es_databases s u)) @ [entry_row e (v + 1)]"
    using insert_entry_ok [OF assms(2), of e] by blast
  moreover from this have "d = d'" using d e by (simp add: seq_def and_then_def ret_def)
  ultimately show ?thesis using s' e(3) by auto
qed

lemma retention_checked:
  assumes "check_retention_days cf data s = (Inr (), s')"
  shows "s' = s \<and> (\<forall>v\<in>{tur_audit_retention_days data, tur_activity_retention_days data}.
    opt_all (\<lambda>v. cf_retention_min_days cf \<le> v \<and> v \<le> cf_retention_max_days cf) v)"
  using assms by (auto simp: check_retention_days_def Let_def seq_Inr unless_raise_Inr ret_Inr)

lemma in_own_tenant_Inr:
  "in_own_tenant m s = (Inr x, s') \<longleftrightarrow> (\<exists>w. m (es_world s) = (Inr x, w) \<and> s' = s\<lparr>es_world := w\<rparr>)"
  by (auto simp: in_own_tenant_def split: prod.split)

text \<open>An entry about a change of a tenant.\<close>

definition records :: "details \<Rightarrow> pending_entry \<Rightarrow> bool" where
  "records changes e \<longleftrightarrow> pe_type e = TENANT_UPDATE \<and> map_of (pe_details e) ''changes'' = Some (DObject changes)"

lemma record_change_entries:
  assumes "record_change cx row changes name s = (Inr (), s')" and "\<And>u. \<exists>v. audit_ok v (es_databases s u)"
  shows "es_registry s' = es_registry s \<and>
    (\<exists>e. df_before_commit (w_deferred (es_world s')) = df_before_commit (w_deferred (es_world s)) @ [e] \<and>
      records changes e \<and> pe_by_identity_id e = cx_identity_id cx) \<and>
    (tn_id row \<noteq> cx_tenant_id cx \<longrightarrow> (\<exists>e n. tb_rows (db_audit_log (es_databases s' (tn_uuid row))) =
        tb_rows (db_audit_log (es_databases s (tn_uuid row))) @ [entry_row e n] \<and> records changes e \<and>
      map_option fa_tenant_id (pe_foreign_author e) = Some (cx_tenant_id cx) \<and> pe_by_identity_id e = None))"
proof (cases "cx_tenant_id cx = tn_id row")
  case True
  then obtain w where "audit_create cx TENANT_UPDATE [] [(''changes'', DObject changes)] (es_world s) = (Inr (), w)"
      "s' = s\<lparr>es_world := w\<rparr>"
    using assms(1) by (auto simp: record_change_def in_own_tenant_Inr)
  then show ?thesis using True audit_create_entry by (fastforce simp: records_def)
next
  case False
  let ?author = "caller_as_foreign_author cx name (w_db (es_world s))"
  obtain w where own: "audit_create cx TENANT_UPDATE [] [(''changes'', DObject changes),
        (''tenant_id'', DInt (tn_id row)), (''tenant_name'', DStr (tn_display_name row))] (es_world s) = (Inr (), w)"
      and other: "in_other_tenant (tn_uuid row) (audit_create (cx\<lparr>cx_identity_id := None, cx_foreign_author := Some ?author\<rparr>)
        TENANT_UPDATE [] [(''changes'', DObject changes)]) (s\<lparr>es_world := w\<rparr>) = (Inr (), s')"
    using assms(1) False by (auto simp: record_change_def and_then_Inr seq_Inr in_own_tenant_Inr reads_run)
  obtain v where v: "audit_ok v (es_databases (s\<lparr>es_world := w\<rparr>) (tn_uuid row))" using assms(2) by fastforce
  obtain e where e: "w = (es_world s)\<lparr>w_deferred := (w_deferred (es_world s))
        \<lparr>df_before_commit := df_before_commit (w_deferred (es_world s)) @ [e]\<rparr>\<rparr>"
      "pe_type e = TENANT_UPDATE" "pe_by_identity_id e = cx_identity_id cx"
      "map_of (pe_details e) ''changes'' = Some (DObject changes)"
    using audit_create_entry [OF own] by auto
  note there = in_other_tenant_entry [where s = "s\<lparr>es_world := w\<rparr>" and u = "tn_uuid row", OF other v]
  obtain e' n where e': "tb_rows (db_audit_log (es_databases s' (tn_uuid row))) =
        tb_rows (db_audit_log (es_databases s (tn_uuid row))) @ [entry_row e' n]"
      "pe_type e' = TENANT_UPDATE" "pe_foreign_author e' = Some ?author" "pe_by_identity_id e' = None"
      "map_of (pe_details e') ''changes'' = Some (DObject changes)"
    using there by auto
  have same: "es_registry s' = es_registry s" "es_world s' = w" using there by simp_all
  have "df_before_commit (w_deferred (es_world s')) = df_before_commit (w_deferred (es_world s)) @ [e]"
    unfolding same e(1) by simp
  moreover have "records changes e" "records changes e'" using e e' by (simp_all add: records_def)
  moreover have "map_option fa_tenant_id (pe_foreign_author e') = Some (cx_tenant_id cx)"
    unfolding e'(3) by (simp add: caller_as_foreign_author_def)
  ultimately show ?thesis using same(1) e(3) e'(1,4) by blast
qed

text \<open>
  A change of a tenant is applied and recorded. A PATCH that returns was about the caller's own tenant
  or one that it created; it changes that row as asked and no other, keeps the retention periods within the
  configured bounds, and leaves an entry with the old and the new values for the caller's log. When the
  tenant is another one, the log of that tenant has the entry too, written by a foreign author who is
  known by tenant.
\<close>

lemma tenant_change_recorded:
  assumes "tenant_update_endpoint cx i data s = (Inr (), s')" and "\<And>u. \<exists>v. audit_ok v (es_databases s u)"
  shows "\<exists>row\<in>set (tenants s). tn_id row = i \<and> owned_by (cx_tenant_id cx) row \<and>
    tenants s' = map (\<lambda>r. if tn_id r = i then set_tenant_fields data r else r) (tenants s) \<and>
    (\<forall>v\<in>{tur_audit_retention_days data, tur_activity_retention_days data}. opt_all
      (\<lambda>v. cf_retention_min_days (cx_config cx) \<le> v \<and> v \<le> cf_retention_max_days (cx_config cx)) v) \<and>
    (tenant_changes row data \<noteq> [] \<longrightarrow>
      (\<exists>e. df_before_commit (w_deferred (es_world s')) = df_before_commit (w_deferred (es_world s)) @ [e] \<and>
        records (tenant_changes row data) e \<and> pe_by_identity_id e = cx_identity_id cx) \<and>
      (tn_id row \<noteq> cx_tenant_id cx \<longrightarrow> (\<exists>e n. tb_rows (db_audit_log (es_databases s' (tn_uuid row))) =
          tb_rows (db_audit_log (es_databases s (tn_uuid row))) @ [entry_row e n] \<and>
        records (tenant_changes row data) e \<and>
        map_option fa_tenant_id (pe_foreign_author e) = Some (cx_tenant_id cx) \<and> pe_by_identity_id e = None)))"
proof -
  obtain row grants where row: "visible_tenant cx i s = (Inr row, s)"
      and rest: "seq (for_each (tur_fields data) (\<lambda>field.
          and_then (lifting (tenant_can_update (grants_tenant grants (Some (tn_id row))) field)) (\<lambda>ok.
            unless_raise ok (tenant_refused ''Not allowed to update tenant field'' (Some field)))))
      (seq (check_retention_days (cx_config cx) data)
      (seq (tenant_update i data)
      (if tenant_changes row data = [] then ret ()
       else and_then (tenant_read_one (cx_tenant_id cx)) (\<lambda>caller_row. case caller_row of
           None \<Rightarrow> raising AssertionError
         | Some caller_row \<Rightarrow> record_change cx row (tenant_changes row data) (tn_display_name caller_row))))) s =
        (Inr (), s')"
    using assms(1) unfolding tenant_update_endpoint_def and_then_read [OF keeps_visible_tenant]
      and_then_read [OF keeps_own_grants] by blast
  note found = visible_tenant_owned [OF row]
  let ?fields = "for_each (tur_fields data) (\<lambda>field.
      and_then (lifting (tenant_can_update (grants_tenant grants (Some (tn_id row))) field)) (\<lambda>ok.
        unless_raise ok (tenant_refused ''Not allowed to update tenant field'' (Some field)))) :: unit estate_handler"
  have same: "keeps P ?fields" for P by (intro keeps_rules)
  obtain s1 s2 where fields: "?fields s = (Inr (), s1)" and check: "check_retention_days (cx_config cx) data s1 = (Inr (), s2)"
      and upd: "seq (tenant_update i data)
      (if tenant_changes row data = [] then ret ()
       else and_then (tenant_read_one (cx_tenant_id cx)) (\<lambda>caller_row. case caller_row of
           None \<Rightarrow> raising AssertionError
         | Some caller_row \<Rightarrow> record_change cx row (tenant_changes row data) (tn_display_name caller_row))) s2 =
        (Inr (), s')"
    using rest unfolding seq_Inr by auto
  have "s1 = s" by (rule same_state [OF same fields])
  moreover have "s2 = s1" using retention_checked [OF check] by blast
  ultimately have s2: "s2 = s" by simp
  obtain s3 where upd3: "tenant_update i data s = (Inr (), s3)"
      and log: "(if tenant_changes row data = [] then ret ()
       else and_then (tenant_read_one (cx_tenant_id cx)) (\<lambda>caller_row. case caller_row of
           None \<Rightarrow> raising AssertionError
         | Some caller_row \<Rightarrow> record_change cx row (tenant_changes row data) (tn_display_name caller_row))) s3 =
        (Inr (), s')"
    using upd unfolding seq_Inr s2 by auto
  have row_in: "row \<in> set (tenants s)" "tn_id row = i" "owned_by (cx_tenant_id cx) row" using found by simp_all
  have rows: "tenants s3 = map (\<lambda>r. if tn_id r = i then set_tenant_fields data r else r) (tenants s)"
      "es_world s3 = es_world s" "es_databases s3 = es_databases s"
    using tenant_update_rows [OF upd3 row_in(1,2)] by blast+
  have checks: "\<forall>v\<in>{tur_audit_retention_days data, tur_activity_retention_days data}. opt_all
      (\<lambda>v. cf_retention_min_days (cx_config cx) \<le> v \<and> v \<le> cf_retention_max_days (cx_config cx)) v"
    using retention_checked [OF check] by blast
  show ?thesis
  proof (cases "tenant_changes row data = []")
    case True
    then have "s' = s3" using log by (simp add: ret_def)
    then show ?thesis using True row_in rows(1) checks by (intro bexI [of _ row] conjI) (simp | blast)+
  next
    case False
    then obtain name where rec: "record_change cx row (tenant_changes row data) name s3 = (Inr (), s')"
      using log unfolding if_not_P [OF False] and_then_read [OF keeps_tenant_read_one]
      by (auto simp: raising_def split: option.splits)
    have "\<exists>v. audit_ok v (es_databases s3 u)" for u using assms(2) rows(3) by simp
    note entries = record_change_entries [OF rec this, unfolded rows(2,3)]
    then have "tenants s' = tenants s3" by (simp add: tenants_def)
    then show ?thesis using entries row_in rows(1) checks by (intro bexI [of _ row] conjI impI) (simp only: | blast)+
  qed
qed

section \<open>A tenant, its child and a grandchild\<close>

definition root_world :: world where
  "root_world = site_world\<lparr>w_db := site_db\<lparr>db_role := \<lparr>tb_rows = [\<lparr>ro_id = 1, ro_name = ''root'',
    ro_description = [], ro_grant_list = [tenant_grant_all True]\<rparr>], tb_seq = 1\<rparr>\<rparr>\<rparr>"

definition sample_tenant :: "int \<Rightarrow> string \<Rightarrow> int option \<Rightarrow> tenant_row" where
  "sample_tenant i uuid owner = \<lparr>tn_id = i, tn_uuid = uuid, tn_name = uuid, tn_display_name = uuid,
    tn_owner_id = owner, tn_database_url = uuid, tn_is_enabled = True, tn_is_initialized = True,
    tn_is_deleted = False, tn_created_at = 0, tn_audit_retention_days = 365, tn_activity_retention_days = 365,
    tn_retention_purge_enabled = True\<rparr>"

definition family :: estate where
  "family = \<lparr>es_registry = \<lparr>rg_tenant = \<lparr>tb_rows = [sample_tenant 1 ''t1'' None, sample_tenant 2 ''t2'' (Some 1),
      sample_tenant 3 ''t3'' (Some 2)], tb_seq = 3\<rparr>\<rparr>,
    es_world = root_world, es_databases = (\<lambda>_. empty_db)\<rparr>"

definition shorter_retention :: tenant_update_request where
  "shorter_retention = \<lparr>tur_fields = [''audit_retention_days'', ''display_name''], tur_display_name = Some ''child'',
    tur_is_enabled = None, tur_audit_retention_days = Some 90, tur_activity_retention_days = None,
    tur_retention_purge_enabled = None\<rparr>"

lemma family_distinct: "tenants_distinct family"
  by (simp add: tenants_distinct_def tenants_def family_def sample_tenant_def)

lemma foreign_tenants_untouched_witness:
  "others_kept 1 family (snd (tenant_update_endpoint ann_admin 3 shorter_retention family))"
  using foreign_tenants_untouched [OF family_distinct, of ann_admin 3 shorter_retention]
  by (simp add: ann_admin_def ann_def sample_cx_def)

lemma family_update: "fst (tenant_update_endpoint ann_admin 2 shorter_retention family) = Inr ()"
  by code_simp

lemma tenant_change_recorded_witness:
  "\<exists>s' e n. tenant_update_endpoint ann_admin 2 shorter_retention family = (Inr (), s') \<and>
    tb_rows (db_audit_log (es_databases s' ''t2'')) = [entry_row e n] \<and>
    map_option fa_tenant_id (pe_foreign_author e) = Some 1"
proof -
  obtain s' where s': "tenant_update_endpoint ann_admin 2 shorter_retention family = (Inr (), s')"
    using family_update by (metis prod.collapse)
  have ok: "\<exists>v. audit_ok v (es_databases family u)" for u
    by (intro exI [of _ 0]) (simp add: family_def audit_ok_def empty_db_def empty_table_def)
  obtain row where row: "row \<in> set (tenants family)" "tn_id row = 2"
      "tenant_changes row shorter_retention \<noteq> [] \<longrightarrow> tn_id row \<noteq> cx_tenant_id ann_admin \<longrightarrow>
        (\<exists>e n. tb_rows (db_audit_log (es_databases s' (tn_uuid row))) =
          tb_rows (db_audit_log (es_databases family (tn_uuid row))) @ [entry_row e n] \<and>
        map_option fa_tenant_id (pe_foreign_author e) = Some (cx_tenant_id ann_admin))"
    using tenant_change_recorded [OF s' ok] by blast
  have "row = sample_tenant 2 ''t2'' (Some 1)" using row(1,2) by (auto simp: tenants_def family_def sample_tenant_def)
  moreover have "tenant_changes (sample_tenant 2 ''t2'' (Some 1)) shorter_retention \<noteq> []" by code_simp
  ultimately show ?thesis
    using row(3) s' by (simp add: sample_tenant_def ann_admin_def ann_def sample_cx_def family_def empty_db_def empty_table_def)
qed

end
