(* ===== verification/Founding.thy ===== *)
theory Founding
  imports Initialize Policy_Safety
begin

text \<open>
  The first request of a tenant succeeds: on a database that has just been made, \<open>initialize_endpoint\<close>
  always answers with the invitation of a founder whose session may use the root role.
\<close>

section \<open>Rows that are created one after another\<close>

definition next_id :: "(app_db, 'r) table_def \<Rightarrow> app_db \<Rightarrow> int" where
  "next_id td d = tb_seq (td_get td d) + 1"

definition created :: "(app_db, 'r) table_def \<Rightarrow> (int \<Rightarrow> 'r) \<Rightarrow> app_db \<Rightarrow> app_db" where
  "created td mk d = td_upd td (\<lambda>_. snd (insert_row mk (td_get td d))) d"

definition fits :: "(app_db, 'r) table_def \<Rightarrow> (int \<Rightarrow> 'r) \<Rightarrow> app_db \<Rightarrow> bool" where
  "fits td mk d \<longleftrightarrow> violated (td_unique td) (mk (next_id td d)) (tb_rows (td_get td d)) = None"

lemma runs_creates:
  assumes "w_db w = d" and "fits td mk d"
  shows "runs (creates td mk) w (next_id td d) (created td mk d)"
  unfolding creates_def
  by (rule runs_on_db) (use assms in \<open>auto simp: table_create_def insert_row_def Let_def fits_def next_id_def created_def\<close>)

lemma runs_returns: "w_db w = d \<Longrightarrow> runs (ret x) w x d"
  using runs_ret by metis

lemma runs_audits:
  "author_ok cx \<Longrightarrow> w_db w = d \<Longrightarrow> runs (audit_create cx t r ds) w () d"
  "author_ok cx \<Longrightarrow> w_db w = d \<Longrightarrow> runs (audit_create_refs cx t ra ds) w () d"
  using runs_audit runs_audit_refs by metis+

text \<open>A creation, the entry about it, and the id of the new row.\<close>

lemma runs_create_and_log:
  assumes "w_db w = d" and "fits td mk d" and "\<And>n w'. w_db w' = created td mk d \<Longrightarrow> runs (log n) w' () (created td mk d)"
  shows "runs (and_then (creates td mk) (\<lambda>n. seq (log n) (ret n))) w (next_id td d) (created td mk d)"
  by (intro runs_and_then [OF runs_creates [OF assms(1,2)]] runs_seq [OF assms(3)] runs_returns)

lemma runs_boundary_create:
  assumes "author_ok cx" and "w_db w = d"
    and "fits boundary_table mk d" and "mk = (\<lambda>n. \<lparr>bo_id = n, bo_name = name, bo_description = description,
      bo_ceiling_list = ceiling, bo_denied_list = denied\<rparr>)"
  shows "runs (boundary_create cx name description ceiling denied) w (next_id boundary_table d) (created boundary_table mk d)"
  unfolding boundary_create_def using assms by (auto intro!: runs_create_and_log runs_audits)

lemma runs_role_create:
  assumes "author_ok cx" and "w_db w = d"
    and "fits role_table mk d" and "mk = (\<lambda>n. \<lparr>ro_id = n, ro_name = name, ro_description = description,
      ro_grant_list = gs\<rparr>)"
  shows "runs (role_create cx name description gs) w (next_id role_table d) (created role_table mk d)"
  unfolding role_create_def using assms by (auto intro!: runs_create_and_log runs_audits)

lemma runs_auth_config_create:
  assumes "author_ok cx" and "w_db w = d"
    and "fits auth_table mk d" and "mk = (\<lambda>n. \<lparr>aut_id = n, aut_name = name, aut_client_type = client_type,
        aut_description = description, aut_created_at = cx_now cx, aut_is_enabled = True, aut_type = ty,
        aut_config = ab_seal al config\<rparr>)"
  shows "runs (auth_config_create al cx name client_type description ty config) w (next_id auth_table d) (created auth_table mk d)"
  unfolding auth_config_create_def using assms by (auto intro!: runs_create_and_log runs_audits)

lemma runs_bastion_create:
  assumes "author_ok cx" and "w_db w = d"
    and "mk = (\<lambda>n. \<lparr>ba_id = n, ba_url = url, ba_ssh_proxy_jump = jump,
        ba_tag_id_list = tags, ba_created_at = cx_now cx, ba_created_by_id = cx_identity_id cx\<rparr>)"
  shows "runs (bastion_create cx url jump tags) w (next_id bastion_table d) (created bastion_table mk d)"
  unfolding bastion_create_def using assms
  by (auto intro!: runs_create_and_log runs_audits simp: fits_def violated_def bastion_table_def)

section \<open>Provisioning\<close>

text \<open>A tenant that nobody has used: at most it has keys.\<close>

definition unused :: "app_db \<Rightarrow> bool" where
  "unused d \<longleftrightarrow> db_boundary d = empty_table \<and> db_identity d = empty_table \<and> db_identity_boundary d = empty_table \<and>
    db_role d = empty_table \<and> db_role_member d = empty_table \<and> db_auth d = empty_table \<and>
    db_identity_invitation_key d = empty_table"

lemma unused_keys [simp]:
  "unused (created signing_key_table mk d) = unused d" "unused (created oidc_key_table mk' d) = unused d"
  by (simp_all add: unused_def created_def signing_key_table_def oidc_key_table_def)

lemma keys_fit: "fits signing_key_table mk d" "fits oidc_key_table mk' d"
  by (simp_all add: fits_def violated_def signing_key_table_def oidc_key_table_def)

lemma runs_signing_key:
  assumes "author_ok cx" and "unused (w_db w)"
  shows "\<exists>d. runs (signing_key_create cr cx k ty key a b) w () d \<and> unused d"
  unfolding signing_key_create_def
  by (intro exI conjI, rule runs_and_then [OF runs_creates [OF refl keys_fit(1)]], rule runs_audits [OF assms(1)], assumption)
    (simp add: assms(2))

lemma runs_oidc_key:
  assumes "unused (w_db w)"
  shows "\<exists>n d. runs (oidc_key_create cr cx key a b) w n d \<and> unused d"
  unfolding oidc_key_create_def
  by (intro exI conjI, rule runs_creates [OF refl keys_fit(2)]) (simp add: assms)

lemma runs_unused_seq:
  assumes "\<exists>x d. runs m w x d \<and> unused d" and "\<And>w'. unused (w_db w') \<Longrightarrow> \<exists>d. runs n w' y d \<and> unused d"
  shows "\<exists>d. runs (seq m n) w y d \<and> unused d"
proof -
  obtain x d where m: "runs m w x d" "unused d" using assms(1) by blast
  then obtain df where df: "m w = (Inr x, w\<lparr>w_db := d, w_deferred := df\<rparr>)" "only_logged (w_deferred w) df"
    by (auto simp: runs_def)
  then obtain d' where d': "runs n (w\<lparr>w_db := d, w_deferred := df\<rparr>) y d'" "unused d'"
    using assms(2) [of "w\<lparr>w_db := d, w_deferred := df\<rparr>"] m(2) by auto
  then have "runs (seq m n) w y d'"
    using df by (auto simp: runs_def seq_def and_then_def intro: only_logged_trans)
  then show ?thesis using d'(2) by blast
qed

lemma runs_provision_keys:
  assumes "author_ok cx" and "unused (w_db w)"
  shows "\<exists>d. runs (provision_keys cr cx ge) w () d \<and> unused d"
proof -
  have signing: "\<exists>x d. runs (create_keys cr cx k ty r s ks) w' x d \<and> unused d" if "unused (w_db w')" for w' k ty r s ks
    unfolding create_keys_def Let_def using runs_signing_key [OF assms(1)] that
    by (intro exI [of _ "()"] runs_unused_seq) blast+
  have idle: "\<exists>d. runs (ret ()) w' () d \<and> unused d" if "unused (w_db w')" for w'
    using that runs_ret [of "()" w'] by blast
  have oidc: "\<exists>d. runs (create_oidc_keys cr cx r s ks) w' () d \<and> unused d" if "unused (w_db w')" for w' r s ks
    unfolding create_oidc_keys_def Let_def
    by (intro runs_unused_seq runs_oidc_key that idle)
  obtain host user okeys where ge: "ge = (host, user, okeys)" by (cases ge) auto
  show ?thesis
    unfolding provision_keys_def Let_def ge prod.case by (intro runs_unused_seq signing oidc assms(2))
qed

text \<open>What the database holds after the first request: the root boundary, identity and role.\<close>

definition founded :: "bool \<Rightarrow> app_db \<Rightarrow> bool" where
  "founded allow d \<longleftrightarrow>
    (\<exists>r. tb_rows (db_identity d) = [r] \<and> id_id r = FOUNDING_ID) \<and>
    (\<exists>b. tb_rows (db_boundary d) = [b] \<and> bo_id b = 1 \<and> bo_ceiling_list b = None \<and>
      bo_denied_list b = (if allow then [] else [no_tenant_create])) \<and> tb_seq (db_boundary d) = 1 \<and>
    (\<exists>l. tb_rows (db_identity_boundary d) = [l] \<and> ib_identity_id l = FOUNDING_ID \<and> ib_boundary_id l = 1) \<and>
    (\<exists>r. tb_rows (db_role d) = [r] \<and> ro_id r = 1 \<and> ro_grant_list r = all_grants allow) \<and>
    (\<exists>m. tb_rows (db_role_member d) = [m] \<and> rm_role_id m = 1 \<and> rm_identity_id m = FOUNDING_ID)"

lemma runs_one:
  assumes "w_db w = d" and "fits td (mk x) d"
  shows "runs (for_each [x] (\<lambda>y. seq (creates td (mk y)) (ret ()))) w () (created td (mk x) d)"
  unfolding for_each.simps
  by (rule runs_seq [OF runs_seq [OF runs_creates [OF assms]]]) (rule runs_returns, assumption)+

lemma runs_none: "w_db w = d \<Longrightarrow> runs (for_each [] f) w () d"
  by (simp add: runs_returns)

lemma runs_root_identity:
  assumes "author_ok cx" and "w_db w = d" and "db_identity d = empty_table" and "db_identity_boundary d = empty_table"
  shows "runs (identity_create cx name [b] [] None) w 1
    (created identity_boundary_table (\<lambda>n. \<lparr>ib_id = n, ib_identity_id = 1, ib_boundary_id = b\<rparr>)
      (created identity_table (\<lambda>n. \<lparr>id_id = n, id_created_by_id = None, id_created_at = cx_now cx,
        id_name = name, id_unix_username = None\<rparr>) d))"
    (is "runs _ w 1 (created _ ?link (created _ ?row d))")
proof -
  have id: "next_id identity_table d = 1" "fits identity_table ?row d"
    using assms(3) by (simp_all add: next_id_def fits_def violated_def identity_table_def empty_table_def)
  have link: "fits identity_boundary_table ?link (created identity_table ?row d)"
    using assms(4) by (simp add: fits_def violated_def identity_boundary_table_def created_def identity_table_def empty_table_def)
  have row: "runs (creates identity_table ?row) w 1 (created identity_table ?row d)"
    using runs_creates [OF assms(2) id(2)] by (simp add: id(1))
  show ?thesis
    unfolding identity_create_def
    by (rule runs_and_then [OF row], rule runs_seq, rule runs_one, assumption, rule link,
        rule runs_seq [OF runs_none], assumption, rule runs_seq [OF runs_audits(2) [OF assms(1)]], assumption,
        rule runs_returns, assumption)
qed

lemma runs_add_member:
  assumes "author_ok cx" and "w_db w = d" and "db_role_member d = empty_table"
  shows "runs (role_update cx i (no_role_fields\<lparr>rf_added := Some [m]\<rparr>)) w ()
    (created role_member_table (\<lambda>n. \<lparr>rm_id = n, rm_role_id = i, rm_identity_id = m\<rparr>) d)"
    (is "runs _ w () (created _ ?row d)")
proof -
  have fit: "fits role_member_table ?row d"
    using assms(3) by (simp add: fits_def violated_def role_member_table_def empty_table_def)
  have add: "runs (seq (for_each [m] (\<lambda>member_id. seq (creates role_member_table (\<lambda>n.
            \<lparr>rm_id = n, rm_role_id = i, rm_identity_id = member_id\<rparr>)) (ret ())))
          (audit_create_refs cx ROLE_ADD_MEMBERS (no_args\<lparr>ra_identities := [m]\<rparr>)
            [(''id'', DInt i), (''added_member_id_list'', DInts [m])])) w' () (created role_member_table ?row d)"
    if "w_db w' = d" for w'
    by (rule runs_seq, rule runs_one, rule that, rule fit, rule runs_audits(2) [OF assms(1)], assumption)
  show ?thesis
    unfolding role_update_def
    by (rule runs_and_then [OF runs_reads_one])
      (simp add: no_role_fields_def assms(2) del: for_each.simps, intro runs_seq [OF add] runs_returns, assumption+)
qed

lemmas rows_simps = created_def next_id_def fits_def violated_def insert_row_def empty_table_def unused_def
  boundary_table_def identity_table_def identity_boundary_table_def role_table_def role_member_table_def auth_table_def
  bastion_table_def

lemma runs_provision:
  assumes cx: "author_ok cx" and "unused (w_db w)"
  shows "\<exists>d'. runs (provision cr al cx ge allow) w () d' \<and> founded allow d' \<and> db_identity_invitation_key d' = empty_table"
proof -
  obtain d where keys: "runs (provision_keys cr cx (ge_signing ge)) w () d" and d: "unused d"
    using runs_provision_keys [OF assms] by blast
  define boundary where "boundary = (\<lambda>n. \<lparr>bo_id = n, bo_name = ''root'', bo_description = ''The Root boundary is not a boundary at all.'',
    bo_ceiling_list = None, bo_denied_list = (if allow then [] else [no_tenant_create])\<rparr>)"
  define d1 where "d1 = created boundary_table boundary d"
  define d2 where "d2 = created identity_boundary_table (\<lambda>n. \<lparr>ib_id = n, ib_identity_id = 1, ib_boundary_id = 1\<rparr>)
    (created identity_table (\<lambda>n. \<lparr>id_id = n, id_created_by_id = None, id_created_at = cx_now cx, id_name = ''root'',
      id_unix_username = None\<rparr>) d1)"
  define description :: string where "description = ''The \"root\" role identifies a user that is able to do anything. '' @
    ''It is created once at startup and should be deleted once a proper '' @ ''permission model is deployed.''"
  define role where "role = (\<lambda>n. \<lparr>ro_id = n, ro_name = ''root'', ro_description = description, ro_grant_list = all_grants allow\<rparr>)"
  define d3 where "d3 = created role_table role d2"
  define d4 where "d4 = created role_member_table (\<lambda>n. \<lparr>rm_id = n, rm_role_id = 1, rm_identity_id = 1\<rparr>) d3"
  define auth where "auth = (\<lambda>n. \<lparr>aut_id = n, aut_name = ''default'', aut_client_type = ''cli'',
        aut_description = ''Default HTTP signature authentication'', aut_created_at = cx_now cx, aut_is_enabled = True,
        aut_type = ''http_sig'', aut_config = ab_seal al []\<rparr>)"
  define d5 where "d5 = created auth_table auth d4"
  define d6 where "d6 = (case cf_default_bastion (cx_config cx) of None \<Rightarrow> d5 | Some b \<Rightarrow> (case df_url b of None \<Rightarrow> d5
    | Some url \<Rightarrow> created bastion_table (\<lambda>n. \<lparr>ba_id = n, ba_url = url, ba_ssh_proxy_jump = df_ssh_proxy_jump b,
        ba_tag_id_list = Some [], ba_created_at = cx_now cx, ba_created_by_id = cx_identity_id cx\<rparr>) d5))"
  note ds = d1_def d2_def d3_def d4_def d5_def boundary_def role_def auth_def
  have fit: "fits boundary_table boundary d" "fits role_table role d2" "fits auth_table auth d4"
    and ids: "next_id boundary_table d = 1" "next_id role_table d2 = 1"
    and free: "db_identity d1 = empty_table" "db_identity_boundary d1 = empty_table" "db_role_member d3 = empty_table"
    using d by (simp_all add: ds rows_simps)
  have bastion: "runs (case cf_default_bastion (cx_config cx) of None \<Rightarrow> ret () | Some b \<Rightarrow> (case df_url b of None \<Rightarrow> ret ()
       | Some url \<Rightarrow> seq (bastion_create cx url (df_ssh_proxy_jump b) (Some [])) (ret ()))) w' () d6" if "w_db w' = d5" for w'
    using that by (auto simp: d6_def intro!: runs_returns runs_then_ret runs_bastion_create cx split: option.split)
  have "runs (provision cr al cx ge allow) w () d6"
    unfolding provision_def description_def [symmetric]
    apply (rule runs_seq [OF keys])
    apply (rule runs_and_then [OF runs_boundary_create [OF cx _ fit(1) boundary_def], folded d1_def], assumption, unfold ids)
    apply (rule runs_and_then [OF runs_root_identity [where b = 1 and name = "''root''", OF cx _ free(1,2)], folded d2_def], assumption)
    apply (rule runs_and_then [OF runs_role_create [OF cx _ fit(2) role_def], folded d3_def], assumption, unfold ids)
    apply (rule runs_seq [OF runs_add_member [where i = 1 and m = 1, OF cx _ free(3)], folded d4_def], assumption)
    apply (rule runs_seq [OF runs_auth_config_create [OF cx _ fit(3) auth_def], folded d5_def], assumption)
    apply (rule bastion, assumption)
    done
  moreover have "founded allow d6 \<and> db_identity_invitation_key d6 = empty_table"
    using d by (simp add: founded_def d6_def ds rows_simps FOUNDING_ID_def split: option.split)
  ultimately show ?thesis by blast
qed

lemma runs_founder:
  "runs (f (table_read_one identity_table (\<lambda>r. id_id r = FOUNDING_ID) (w_db w))) w y d \<Longrightarrow> runs (and_then founder f) w y d"
  by (simp add: runs_def and_then_def founder_def reads_one_def reads_run)

lemma runs_found_tenant:
  assumes cx: "author_ok cx" and unused: "unused (w_db w)"
    and reads_back: "cr_decrypt cr (cr_encrypt cr (ge_invitation ge)) = ge_invitation ge"
  shows "\<exists>d'. runs (found_tenant cr al cx ge allow) w (ge_invitation ge) d' \<and> founded allow d'"
proof -
  have none: "table_read_one identity_table (\<lambda>r. id_id r = FOUNDING_ID) (w_db w) = None"
    using unused by (simp add: unused_def table_read_one_def identity_table_def empty_table_def)
  obtain d where d: "runs (provision cr al cx ge allow) w () d" "founded allow d" "db_identity_invitation_key d = empty_table"
    using runs_provision [OF cx unused] by blast
  obtain r where r: "table_read_one identity_table (\<lambda>r. id_id r = FOUNDING_ID) d = Some r" "id_id r = FOUNDING_ID"
    using d(2) by (auto simp: founded_def table_read_one_def identity_table_def)
  let ?i = "cr_thumbprint cr (ge_invitation ge)"
  let ?row = "\<lambda>n :: int. \<lparr>iv_id = ?i, iv_key = cr_encrypt cr (ge_invitation ge),
          iv_identity_id = id_id r, iv_created_at = cx_now cx, iv_revoked_at = None, iv_accepted_at = None,
          iv_expires_at = cx_now cx + 600, iv_is_revoked = False, iv_is_accepted = False,
          iv_accepted_public_key_id = None\<rparr>"
  define d' where "d' = created identity_invitation_key_table ?row d"
  have fit: "fits identity_invitation_key_table ?row d"
    using d(3) by (simp add: fits_def violated_def identity_invitation_key_table_def empty_table_def)
  have found: "table_read_one identity_invitation_key_table (\<lambda>r. iv_id r = ?i) d' = Some (?row 0)"
    using d(3) by (simp add: d'_def created_def table_read_one_def insert_row_def identity_invitation_key_table_def empty_table_def)
  have create: "runs (invitation_create cr cx (ge_invitation ge) (id_id r) 600) w' ?i d'" if "w_db w' = d" for w'
    unfolding invitation_create_def Let_def
    by (rule runs_seq [OF runs_creates [OF that fit], folded d'_def], rule runs_seq [OF runs_audits(1) [OF cx]],
        assumption, rule runs_returns)
  define v where "v = \<lparr>ik_id = ?i, ik_key = ge_invitation ge, ik_identity_id = id_id r, ik_created_at = cx_now cx,
    ik_expires_at = cx_now cx + 600, ik_is_revoked = False, ik_is_accepted = False, ik_revoked_at = None,
    ik_accepted_at = None, ik_accepted_public_key_id = None\<rparr>"
  have read: "runs (invitation_read cr ?i) w' (Some v) d'" if "w_db w' = d'" for w'
    unfolding invitation_read_def
    by (rule runs_and_then [OF runs_reads_one])
      (simp add: that found reads_back Let_def ensure_def unless_raise_def v_def runs_returns)
  have rest: "runs (and_then founder (\<lambda>identity. case identity of
       None \<Rightarrow> raising AssertionError
     | Some identity \<Rightarrow>
         and_then (invitation_create cr cx (ge_invitation ge) (id_id identity) 600) (\<lambda>invitation_id.
         and_then (invitation_read cr invitation_id) (\<lambda>invitation. case invitation of
           None \<Rightarrow> raising AssertionError
         | Some invitation \<Rightarrow> ret (ik_key invitation))))) w' (ge_invitation ge) d'" if "w_db w' = d" for w'
    by (rule runs_founder, simp add: that r(1), rule runs_and_then [OF create [OF that]],
        rule runs_and_then [OF read], assumption, simp add: v_def runs_returns)
  have "runs (found_tenant cr al cx ge allow) w (ge_invitation ge) d'"
    unfolding found_tenant_def
    by (rule runs_founder, simp only: none simp_thms if_True, rule runs_seq [OF d(1)], rule rest)
  moreover have "founded allow d'"
    using d(2) by (simp add: founded_def d'_def created_def identity_invitation_key_table_def)
  ultimately show ?thesis by blast
qed

section \<open>What the founder may do\<close>

text \<open>In a session of the founder with the root role.\<close>

definition may_found :: "bool \<Rightarrow> grants \<Rightarrow> bool" where
  "may_found allow gr \<longleftrightarrow>
    boundary_can_create (grants_boundary gr None) \<and> role_can_create (grants_role gr None) \<and>
    tag_can_create (grants_tag gr None) \<and> auth_can_create (grants_auth gr None) \<and>
    (\<forall>tags bounds. identity_can_create (grants_identity gr None None None) tags bounds) \<and>
    (tenant_can_create (grants_tenant gr None) \<longleftrightarrow> allow)"

lemmas founder_checks = boundary_can_create_def role_can_create_def tag_can_create_def auth_can_create_def
  identity_can_create_def tenant_can_create_def grants_boundary_def grants_role_def grants_tag_def grants_auth_def
  grants_identity_def grants_tenant_def BoundaryChecker_def RoleChecker_def TagChecker_def AuthChecker_def
  IdentityChecker_def TenantChecker_def

lemma founded_rules:
  assumes "founded allow (w_db w)" and "cx_identity_id cx = Some FOUNDING_ID" and "cx_active_role_id cx = Some 1"
  shows "\<exists>gr. grants_create cx w = (Inr gr, w) \<and> may_found allow gr"
proof -
  obtain i b l r where rows: "tb_rows (db_identity (w_db w)) = [i]" "id_id i = FOUNDING_ID"
    "tb_rows (db_boundary (w_db w)) = [b]" "bo_id b = 1" "bo_ceiling_list b = None"
    "bo_denied_list b = (if allow then [] else [no_tenant_create])"
    "tb_rows (db_identity_boundary (w_db w)) = [l]" "ib_identity_id l = FOUNDING_ID" "ib_boundary_id l = 1"
    "tb_rows (db_role (w_db w)) = [r]" "ro_id r = 1" "ro_grant_list r = all_grants allow"
    using assms(1) unfolding founded_def by blast
  obtain members where role: "role_read_all (\<lambda>r. ro_id r = 1) (w_db w) = [role_from_db r members]"
    using rows by (simp add: role_read_all_def Let_def table_read_all_def role_table_def)
  have "grants_create cx w = (Inr \<lparr>gr_boundaries = [boundary_from_db b], gr_roles = [role_from_db r members]\<rparr>, w)"
    using assms(2,3) rows role
    by (simp add: grants_create_def and_then_def seq_def ensure_def unless_raise_def ret_def read_runs boundary_read_all_def
        table_read_all_def identity_table_def identity_boundary_table_def boundary_table_def)
  moreover have "may_found allow \<lparr>gr_boundaries = [boundary_from_db b], gr_roles = [role_from_db r members]\<rparr>"
    using rows by (auto simp: may_found_def founder_checks can_iff boundary_passes_def matches_iff boundary_from_db_def
        role_from_db_def all_grants_def tenant_grant_all_def no_tenant_create_def create_check_def id_cmp_def identity_cmp_def)
  ultimately show ?thesis by blast
qed

section \<open>The request\<close>

lemma distinct_uuids_fit:
  "distinct (map tn_uuid rows) \<Longrightarrow> clashes (td_unique tenant_table) rows = None"
  by (induction rows) (auto simp: tenant_table_def violated_None split: option.split)

lemma claim_succeeds:
  assumes "distinct (map tn_uuid (tb_rows (rg_tenant (es_registry s))))"
    and "row \<in> set (tb_rows (rg_tenant (es_registry s)))" and "tn_id row = i" and "\<not> tn_is_initialized row"
  shows "\<exists>n. n \<noteq> 0 \<and> claim_tenant i s = (Inr n, s\<lparr>es_registry := (es_registry s)\<lparr>rg_tenant :=
    update_rows (\<lambda>r. tn_id r = i \<and> \<not> tn_is_initialized r) (\<lambda>r. r\<lparr>tn_is_initialized := True\<rparr>)
      (rg_tenant (es_registry s))\<rparr>\<rparr>)"
proof -
  let ?p = "\<lambda>r. tn_id r = i \<and> \<not> tn_is_initialized r" and ?f = "\<lambda>r :: tenant_row. r\<lparr>tn_is_initialized := True\<rparr>"
  let ?rows = "tb_rows (rg_tenant (es_registry s))"
  have "map tn_uuid (map (\<lambda>r. if ?p r then ?f r else r) ?rows) = map tn_uuid ?rows"
    by simp
  then have "clashes (td_unique tenant_table) (map (\<lambda>r. if ?p r then ?f r else r) ?rows) = None"
    using assms(1) by (intro distinct_uuids_fit) (simp only:)
  moreover have "list_ex ?p ?rows" "filter ?p ?rows \<noteq> []"
    using assms(2-4) by (auto simp: list_ex_iff filter_empty_conv)
  ultimately show ?thesis
    unfolding claim_tenant_def in_registry_def table_update_def Let_def
    by (simp add: update_rows_def) (simp add: tenant_table_def update_rows_def)
qed

lemma first_request:
  assumes "w_db (es_world s) = empty_db" and "cx_foreign_author cx = None"
    and "distinct (map tn_uuid (tb_rows (rg_tenant (es_registry s))))"
    and "table_read_one tenant_table (\<lambda>r. tn_id r = cx_tenant_id cx) (es_registry s) = Some row"
    and "\<not> tn_is_initialized row"
    and "cr_decrypt cr (cr_encrypt cr (ge_invitation ge)) = ge_invitation ge"
  shows "\<exists>s'. initialize_endpoint cr al cx ge s = (Inr (Some (ge_invitation ge)), s') \<and>
    (\<forall>r\<in>set (tb_rows (rg_tenant (es_registry s'))). tn_id r = cx_tenant_id cx \<longrightarrow> tn_is_initialized r) \<and>
    founded (tn_owner_id row = None) (w_db (es_world s'))"
proof -
  have row: "row \<in> set (tb_rows (rg_tenant (es_registry s)))" "tn_id row = cx_tenant_id cx"
    using assms(4) by (auto simp: table_read_one_def tenant_table_def find_Some_iff)
  obtain n where n: "n \<noteq> 0" and claim: "claim_tenant (cx_tenant_id cx) s = (Inr n, s\<lparr>es_registry := (es_registry s)\<lparr>rg_tenant :=
    update_rows (\<lambda>r. tn_id r = cx_tenant_id cx \<and> \<not> tn_is_initialized r) (\<lambda>r. r\<lparr>tn_is_initialized := True\<rparr>)
      (rg_tenant (es_registry s))\<rparr>\<rparr>)" (is "_ = (_, ?s)")
    using claim_succeeds [OF assms(3) row assms(5)] by blast
  have "unused (w_db (es_world ?s))"
    by (simp add: assms(1) unused_def empty_db_def)
  moreover have "author_ok cx" using assms(2) by (simp add: author_ok_def)
  ultimately obtain d where d: "runs (found_tenant cr al cx ge (tn_owner_id row = None)) (es_world ?s) (ge_invitation ge) d"
      "founded (tn_owner_id row = None) d"
    using runs_found_tenant [OF _ _ assms(6)] by blast
  obtain v where v: "found_tenant cr al cx ge (tn_owner_id row = None) (es_world ?s) = (Inr (ge_invitation ge), v)" "w_db v = d"
    using runs_result [OF d(1)] by blast
  have "initialize_endpoint cr al cx ge s = (Inr (Some (ge_invitation ge)), ?s\<lparr>es_world := v\<rparr>)"
    using v(1) by (simp add: initialize_endpoint_def and_then_def tenant_read_one_def in_registry_def reading_def assms(4,5)
        claim n in_own_tenant_def ret_def)
  then show ?thesis using d(2) v(2) by (auto simp: update_rows_def)
qed

text \<open>
  C32. The first request of a tenant succeeds. On a database that has just been made, \<open>/initialize\<close>
  answers with the invitation key of the founder, marks the tenant as initialized, and leaves a role and
  a boundary under which a session of the founder may create every kind of policy object; it may create
  tenants exactly when nobody owns the tenant.
\<close>

theorem initialization_succeeds:
  assumes "w_db (es_world s) = empty_db" and "cx_foreign_author cx = None"
    and "distinct (map tn_uuid (tb_rows (rg_tenant (es_registry s))))"
    and "table_read_one tenant_table (\<lambda>r. tn_id r = cx_tenant_id cx) (es_registry s) = Some row"
    and "\<not> tn_is_initialized row"
    and "cr_decrypt cr (cr_encrypt cr (ge_invitation ge)) = ge_invitation ge"
  shows "\<exists>s'. initialize_endpoint cr al cx ge s = (Inr (Some (ge_invitation ge)), s') \<and>
    (\<forall>r\<in>set (tb_rows (rg_tenant (es_registry s'))). tn_id r = cx_tenant_id cx \<longrightarrow> tn_is_initialized r) \<and>
    (\<forall>session. cx_identity_id session = Some FOUNDING_ID \<longrightarrow> cx_active_role_id session = Some 1 \<longrightarrow>
      (\<exists>gr. grants_create session (es_world s') = (Inr gr, es_world s') \<and> may_found (tn_owner_id row = None) gr))"
  using first_request [OF assms] founded_rules by meson

definition newborn :: "int option \<Rightarrow> estate" where
  "newborn owner = \<lparr>es_registry = \<lparr>rg_tenant = \<lparr>tb_rows = [\<lparr>tn_id = 1, tn_uuid = ''t1'', tn_name = ''acme'',
      tn_display_name = ''Acme'', tn_owner_id = owner, tn_database_url = ''t1'', tn_is_enabled = True,
      tn_is_initialized = False, tn_is_deleted = False, tn_created_at = 0, tn_audit_retention_days = 365,
      tn_activity_retention_days = 365, tn_retention_purge_enabled = True\<rparr>], tb_seq = 1\<rparr>\<rparr>,
    es_world = empty_world, es_databases = (\<lambda>_. empty_db)\<rparr>"

definition plain_lib :: auth_lib where
  "plain_lib = \<lparr>ab_seal = (\<lambda>_. []), ab_open = (\<lambda>_. []), ab_isdigit = (\<lambda>s. s \<noteq> [] \<and> (\<forall>c\<in>set s. CHR ''0'' \<le> c \<and> c \<le> CHR ''9''))\<rparr>"

definition plain_secrets :: crypto where
  "plain_secrets = \<lparr>cr_encrypt = id, cr_decrypt = id, cr_thumbprint = id, cr_read_public = Inr, cr_public = id, cr_openssh = id\<rparr>"

definition first_keys :: generated where
  "first_keys = \<lparr>ge_signing = ((''a'', ''b''), (''c'', ''d''), (''e'', ''f'')), ge_invitation = ''secret''\<rparr>"

lemma newborn_row:
  "\<exists>row. table_read_one tenant_table (\<lambda>r. tn_id r = cx_tenant_id sample_cx) (es_registry (newborn owner)) = Some row \<and>
    \<not> tn_is_initialized row \<and> tn_owner_id row = owner"
  by (simp add: table_read_one_def tenant_table_def newborn_def sample_cx_def)

theorem initialization_succeeds_witness:
  "fst (initialize_endpoint plain_secrets plain_lib sample_cx first_keys (newborn (Some 7))) = Inr (Some ''secret'')"
proof -
  obtain row where "table_read_one tenant_table (\<lambda>r. tn_id r = cx_tenant_id sample_cx) (es_registry (newborn (Some 7))) = Some row"
      "\<not> tn_is_initialized row"
    using newborn_row by blast
  then have "\<exists>s'. initialize_endpoint plain_secrets plain_lib sample_cx first_keys (newborn (Some 7)) =
      (Inr (Some (ge_invitation first_keys)), s')"
    using initialization_succeeds [of "newborn (Some 7)" sample_cx row plain_secrets first_keys plain_lib]
    by (auto simp: newborn_def sample_cx_def plain_secrets_def empty_world_def)
  then show ?thesis by (auto simp: first_keys_def)
qed

end
