(* ===== verification/Confinement.thy ===== *)
theory Confinement
  imports Founding Policy_Safety Session_Endpoints Audit_Numbering
begin

text \<open>
  A boundary that applies to every identity of a tenant holds for ever. A triple says what a handler
  establishes when it returns; one that raises is rolled back. The invariant speaks of three tables,
  identities, boundaries and which apply to whom, and eight endpoints write these.
\<close>

section \<open>Triples\<close>

definition triple :: "('s \<Rightarrow> bool) \<Rightarrow> ('s, 'e, 'a) act \<Rightarrow> ('a \<Rightarrow> 's \<Rightarrow> bool) \<Rightarrow> bool" where
  "triple P m Q \<longleftrightarrow> (\<forall>s x t. P s \<longrightarrow> m s = (Inr x, t) \<longrightarrow> Q x t)"

named_theorems triples \<open>rules for triples\<close>

lemma triple_keeps: "keeps P m \<Longrightarrow> triple P m (\<lambda>_. P)"
  unfolding triple_def keeps_def by (metis snd_conv)

lemma triple_and_then [triples]: "triple P m R \<Longrightarrow> (\<And>x. triple (R x) (f x) Q) \<Longrightarrow> triple P (and_then m f) Q"
  by (fastforce simp: triple_def and_then_Inr)

lemma triple_seq: "triple P m (\<lambda>_. R) \<Longrightarrow> triple R n Q \<Longrightarrow> triple P (seq m n) Q"
  unfolding seq_def by (rule triple_and_then)

lemma triple_ret: "(\<And>s. P s \<Longrightarrow> Q x s) \<Longrightarrow> triple P (ret x) Q"
  by (simp add: triple_def ret_def)

lemma triple_raising [triples]: "triple P (raising e) Q" "triple P (reject c t d) Q"
  by (simp_all add: triple_def raising_def reject_def)

lemma triple_if [triples]: "(b \<Longrightarrow> triple P m Q) \<Longrightarrow> (\<not> b \<Longrightarrow> triple P n Q) \<Longrightarrow> triple P (if b then m else n) Q"
  by simp

lemma triple_option [triples]:
  "(y = None \<Longrightarrow> triple P m Q) \<Longrightarrow> (\<And>x. y = Some x \<Longrightarrow> triple P (f x) Q) \<Longrightarrow>
    triple P (case y of None \<Rightarrow> m | Some x \<Rightarrow> f x) Q"
  by (cases y) simp_all

lemma triple_catching: "triple P m Q \<Longrightarrow> (\<And>e. triple (\<lambda>_. True) (h e) (\<lambda>_ _. False)) \<Longrightarrow> triple P (catching m h) Q"
  by (fastforce simp: triple_def catching_def split: prod.splits sum.splits)

lemma triple_weaken: "triple P m Q \<Longrightarrow> (\<And>s. P' s \<Longrightarrow> P s) \<Longrightarrow> (\<And>x s. Q x s \<Longrightarrow> Q' x s) \<Longrightarrow> triple P' m Q'"
  by (fastforce simp: triple_def)

text \<open>A step that only reads passes on what it found about the state it read.\<close>

lemma triple_read:
  assumes "\<And>P. keeps P m" and "\<And>x s. P s \<Longrightarrow> m s = (Inr x, s) \<Longrightarrow> R x s"
  shows "triple P m R"
  unfolding triple_def using assms(2) same_state [OF assms(1)] by blast

lemma keeps_map_act_in: "(\<And>x. x \<in> set xs \<Longrightarrow> keeps P (f x)) \<Longrightarrow> keeps P (map_act f xs)"
  by (induction xs) (auto simp: keeps_ret keeps_and_then)

lemma keeps_for_each_in: "(\<And>x. x \<in> set xs \<Longrightarrow> keeps P (f x)) \<Longrightarrow> keeps P (for_each xs f)"
  by (induction xs) (auto simp: keeps_ret keeps_seq)

lemma keeps_reads_then: "(\<And>s. P s \<Longrightarrow> keeps P (g (f (w_db s)))) \<Longrightarrow> keeps P (and_then (reads f) g)"
  by (auto simp: keeps_def and_then_def reads_run)

section \<open>The invariant\<close>

definition linked :: "int \<Rightarrow> int \<Rightarrow> app_db \<Rightarrow> bool" where
  "linked B i db \<longleftrightarrow>
    (\<exists>r\<in>set (tb_rows (db_identity_boundary db)). ib_identity_id r = i \<and> ib_boundary_id r = B)"

definition binds :: "int \<Rightarrow> grant \<Rightarrow> app_db \<Rightarrow> bool" where
  "binds B G db \<longleftrightarrow> B \<in> bo_id ` set (tb_rows (db_boundary db)) \<and>
    (\<forall>b\<in>set (tb_rows (db_boundary db)). bo_id b = B \<longrightarrow> G \<in> set (bo_denied_list b)) \<and>
    B \<le> tb_seq (db_boundary db)"

text \<open>The boundary \<open>B\<close> denies \<open>G\<close> and applies to every identity outside \<open>X\<close>.\<close>

definition confined_but :: "int set \<Rightarrow> int \<Rightarrow> grant \<Rightarrow> app_db \<Rightarrow> bool" where
  "confined_but X B G db \<longleftrightarrow> binds B G db \<and>
    (\<forall>r\<in>set (tb_rows (db_identity db)). id_id r \<in> X \<or> linked B (id_id r) db)"

abbreviation confined :: "int \<Rightarrow> grant \<Rightarrow> app_db \<Rightarrow> bool" where
  "confined \<equiv> confined_but {}"

lemmas confined_defs = confined_but_def binds_def linked_def

lemma confined_cong:
  assumes "db_identity d = db_identity d'" and "db_boundary d = db_boundary d'"
    and "db_identity_boundary d = db_identity_boundary d'"
  shows "confined_but X B G d = confined_but X B G d'"
  by (simp add: confined_defs assms)

text \<open>Tables that the invariant does not speak of.\<close>

definition elsewhere :: "(app_db, 'r) table_def \<Rightarrow> bool" where
  "elsewhere td \<longleftrightarrow> (\<forall>f d. db_identity (td_upd td f d) = db_identity d \<and> db_boundary (td_upd td f d) = db_boundary d \<and>
    db_identity_boundary (td_upd td f d) = db_identity_boundary d)"

lemma elsewhere_tables [simp]:
  "elsewhere identity_tag_table" "elsewhere role_table" "elsewhere role_member_table" "elsewhere tag_table"
  "elsewhere bastion_table" "elsewhere identity_account_key_table" "elsewhere identity_session_key_table"
  "elsewhere identity_invitation_key_table" "elsewhere ssh_connection_table" "elsewhere auth_table"
  "elsewhere signing_key_table" "elsewhere oidc_key_table"
  by (simp_all add: elsewhere_def table_defs)

lemma keeps_elsewhere:
  assumes "elsewhere td"
  shows "keeps (\<lambda>w. confined_but X B G (w_db w)) (creates td mk)"
    "keeps (\<lambda>w. confined_but X B G (w_db w)) (updates td f p)"
    "keeps (\<lambda>w. confined_but X B G (w_db w)) (deletes td p)"
proof -
  have "confined_but X B G (td_upd td f d) = confined_but X B G d" for f d
    using assms by (intro confined_cong) (simp_all add: elsewhere_def)
  then show "keeps (\<lambda>w. confined_but X B G (w_db w)) (creates td mk)"
    "keeps (\<lambda>w. confined_but X B G (w_db w)) (updates td f p)"
    "keeps (\<lambda>w. confined_but X B G (w_db w)) (deletes td p)"
    unfolding creates_def updates_def deletes_def
    by (auto intro!: keeps_on_db simp: table_create_def table_update_def table_delete_def Let_def
        split: prod.split option.split)
qed

lemma keeps_rename_identity:
  "keeps (\<lambda>w. confined_but X B G (w_db w)) (updates identity_table (set_identity_fields u) p)"
  by (rule keeps_update) (auto simp: confined_defs identity_table_def update_rows_def set_identity_fields_def)

lemmas confined_steps = keeps_and_then keeps_seq keeps_if_set keeps_rules keeps_option keeps_elsewhere
  keeps_rename_identity keeps_db_audit

lemma identity_update_confined: "keeps (\<lambda>w. confined_but X B G (w_db w)) (identity_update cx i u)"
  unfolding identity_update_def by (intro confined_steps) simp_all

lemma role_update_confined: "keeps (\<lambda>w. confined_but X B G (w_db w)) (role_update cx i u)"
  unfolding role_update_def by (intro confined_steps) simp_all

text \<open>An update of a boundary, that keeps the denied grant when it is the boundary \<open>B\<close>.\<close>

lemma boundary_update_confined:
  assumes "i = B \<Longrightarrow> bf_denied_list u = None \<or> (\<exists>l. bf_denied_list u = Some l \<and> G \<in> set l)"
  shows "keeps (\<lambda>w. confined_but X B G (w_db w)) (boundary_update cx i u)"
proof -
  let ?f = "\<lambda>r. if bo_id r = i then set_boundary_fields u r else r"
  have same: "bo_id (?f r) = bo_id r" for r
    by (simp add: set_boundary_fields_def)
  have denied: "G \<in> set (bo_denied_list (?f r))" if "bo_id r = B" "G \<in> set (bo_denied_list r)" for r
    using that assms by (auto simp: set_boundary_fields_def split: option.splits)
  have binds: "binds B G d \<Longrightarrow> binds B G (db_boundary_update (\<lambda>_. (db_boundary d)\<lparr>tb_rows := map ?f (tb_rows (db_boundary d))\<rparr>) d)"
    for d
    using denied by (simp add: binds_def image_image same del: if_image_distrib)
  have "keeps (\<lambda>w. confined_but X B G (w_db w)) (updates boundary_table (set_boundary_fields u) (\<lambda>r. bo_id r = i))"
  proof (rule keeps_update)
    fix d assume "confined_but X B G d"
    then show "confined_but X B G (td_upd boundary_table
        (\<lambda>_. update_rows (\<lambda>r. bo_id r = i) (set_boundary_fields u) (td_get boundary_table d)) d)"
      using binds [of d] by (simp add: confined_but_def linked_def boundary_table_def update_rows_def)
  qed
  then show ?thesis unfolding boundary_update_def
    by (intro keeps_and_then keeps_seq keeps_rules keeps_option keeps_db_audit keeps_if)
qed

section \<open>Removing grants\<close>

text \<open>Rewriting a list of grants for a deleted object, when the denied grant survives it.\<close>

definition survives :: "grant \<Rightarrow> (grant list \<Rightarrow> grant list) \<Rightarrow> bool" where
  "survives G rewrite \<longleftrightarrow> (\<forall>l. G \<in> set l \<longrightarrow> G \<in> set (rewrite l))"

lemma remove_grants_confined:
  assumes "survives G rewrite"
  shows "keeps (\<lambda>w. confined_but X B G (w_db w)) (remove_grants cx names rewrite)"
proof -
  let ?I = "\<lambda>w. confined_but X B G (w_db w)"
  have role: "keeps ?I (remove_from_role cx names rewrite r)" for r
    unfolding remove_from_role_def by (intro keeps_if keeps_ret keeps_seq role_update_confined)
  have boundary: "keeps ?I (remove_from_boundary cx names rewrite b)"
    if "b_id b = B \<Longrightarrow> G \<in> set (b_denied_list b)" for b
    unfolding remove_from_boundary_def Let_def
    by (intro keeps_if keeps_ret keeps_seq boundary_update_confined)
      (use that assms in \<open>auto simp: survives_def no_boundary_fields_def\<close>)
  have "b \<in> set (boundary_read_all (\<lambda>_. True) (w_db s)) \<Longrightarrow> b_id b = B \<Longrightarrow> G \<in> set (b_denied_list b)"
    if "?I s" for s b
    using that by (auto simp: boundary_read_all_def boundary_from_db_def table_read_all_def boundary_table_def confined_defs)
  then have boundaries: "keeps ?I (map_act (remove_from_boundary cx names rewrite) (boundary_read_all (\<lambda>_. True) (w_db s)))"
    if "?I s" for s
    using that by (intro keeps_map_act_in boundary) blast
  show ?thesis
    unfolding remove_grants_def
    by (intro keeps_and_then keeps_reads keeps_map_act role keeps_reads_then keeps_ret boundaries)
qed

lemma tenant_grant_names_nothing [simp]:
  "\<not> permission_names (TenantGrant g) t" "\<not> filter_names (TenantGrant g) t" "\<not> tag_object_names (TenantGrant g) t"
  by (simp_all add: filter_names_def filter_tags_def permission_names_def tag_object_names_def)

lemma tenant_grant_survives:
  "survives (TenantGrant g) (tag_rewrite t)" "survives (TenantGrant g) (identity_without i)"
  "survives (TenantGrant g) (bastion_without j)"
proof -
  show "survives (TenantGrant g) (tag_rewrite t)"
    unfolding survives_def
  proof (intro allI impI)
    fix l assume "TenantGrant g \<in> set l"
    then show "TenantGrant g \<in> set (tag_rewrite t l)"
      by (induction t l rule: tag_rewrite.induct) (auto split: option.split)
  qed
  show "survives (TenantGrant g) (identity_without i)"
    by (simp add: survives_def identity_without_def identity_names_def)
  show "survives (TenantGrant g) (bastion_without j)"
    by (simp add: survives_def bastion_without_def bastion_names_def)
qed

section \<open>Creating, deleting and linking\<close>

text \<open>What a new row of a table does, when it violates no constraint.\<close>

lemma triple_creates:
  assumes "\<And>w n t. P w \<Longrightarrow> insert_row mk (td_get td (w_db w)) = (n, t) \<Longrightarrow>
    Q n (w\<lparr>w_db := td_upd td (\<lambda>_. t) (w_db w)\<rparr>)"
  shows "triple P (creates td mk) Q"
  using assms unfolding triple_def creates_def on_db_def table_create_def
  by (auto simp: Let_def split: prod.splits option.splits sum.splits)

lemma triple_deletes:
  assumes "\<And>w n. P w \<Longrightarrow> Q n (w\<lparr>w_db := td_upd td (delete_rows p) (w_db w)\<rparr>)"
  shows "triple P (deletes td p) Q"
  using assms unfolding triple_def deletes_def on_db_def table_delete_def
  by (auto split: prod.splits)

lemma new_identity_confined:
  assumes "\<And>n. id_id (mk n) = n"
  shows "triple (\<lambda>w. confined_but X B G (w_db w)) (creates identity_table mk)
    (\<lambda>n w. confined_but (insert n X) B G (w_db w))"
  by (rule triple_creates) (auto simp: insert_row_def Let_def identity_table_def confined_defs assms)

lemma link_confined:
  "triple (\<lambda>w. confined_but X B G (w_db w)) (creates identity_boundary_table mk) (\<lambda>_ w. confined_but X B G (w_db w))"
  by (rule triple_creates) (auto simp: insert_row_def Let_def identity_boundary_table_def confined_defs)

lemma link_closes:
  assumes "\<And>n. ib_identity_id (mk n) = i \<and> ib_boundary_id (mk n) = B"
  shows "triple (\<lambda>w. confined_but (insert i X) B G (w_db w)) (creates identity_boundary_table mk)
    (\<lambda>_ w. confined_but X B G (w_db w))"
  by (rule triple_creates) (auto simp: insert_row_def Let_def identity_boundary_table_def confined_defs assms)

lemma triple_drop: "triple P m (\<lambda>_. Q) \<Longrightarrow> triple P (seq m (ret ())) (\<lambda>_. Q)"
  by (fastforce simp: triple_def act_Inr)

lemma links_keep:
  "triple (\<lambda>w. confined_but X B G (w_db w)) (for_each bs (\<lambda>b. seq (creates identity_boundary_table (mk b)) (ret ())))
    (\<lambda>_ w. confined_but X B G (w_db w))"
proof (induction bs)
  case (Cons b bs)
  then show ?case by (simp add: triple_seq [OF triple_drop [OF link_confined]])
qed (simp add: triple_ret)

lemma links_close:
  assumes "B \<in> set bs" and "\<And>b n. ib_identity_id (mk b n) = i \<and> ib_boundary_id (mk b n) = b"
  shows "triple (\<lambda>w. confined_but (insert i X) B G (w_db w))
    (for_each bs (\<lambda>b. seq (creates identity_boundary_table (mk b)) (ret ()))) (\<lambda>_ w. confined_but X B G (w_db w))"
  using assms(1)
proof (induction bs)
  case (Cons b bs)
  show ?case
  proof (cases "b = B")
    case True
    then show ?thesis using assms(2)
      by (simp add: triple_seq [OF triple_drop [OF link_closes] links_keep])
  next
    case False
    then show ?thesis using Cons by (simp add: triple_seq [OF triple_drop [OF link_confined]])
  qed
qed simp

lemma identity_create_confined:
  assumes "B \<in> set bs"
  shows "triple (\<lambda>w. confined B G (w_db w)) (identity_create cx name bs tags u) (\<lambda>_ w. confined B G (w_db w))"
  unfolding identity_create_def
  by (intro triple_and_then [OF new_identity_confined] triple_seq [OF links_close [OF assms]] triple_keeps confined_steps)
    simp_all

lemma identity_delete_confined:
  "triple (\<lambda>w. confined B G (w_db w)) (identity_delete cx i) (\<lambda>_ w. confined B G (w_db w))"
proof -
  let ?I = "\<lambda>X w. confined_but X B G (w_db w)"
  have unlink: "triple (?I {}) (deletes identity_boundary_table (\<lambda>r. ib_identity_id r = i)) (\<lambda>_. ?I {i})"
  proof (rule triple_deletes)
    fix w :: world assume old: "?I {} w"
    have "linked B j (db_identity_boundary_update (delete_rows (\<lambda>r. ib_identity_id r = i)) (w_db w))"
      if "linked B j (w_db w)" "j \<noteq> i" for j
      using that by (auto simp: linked_def delete_rows_def)
    then show "?I {i} (w\<lparr>w_db := td_upd identity_boundary_table
        (delete_rows (\<lambda>r. ib_identity_id r = i)) (w_db w)\<rparr>)"
      using old by (auto simp: confined_but_def binds_def identity_boundary_table_def)
  qed
  have remove: "triple (?I {i}) (deletes identity_table (\<lambda>r. id_id r = i)) (\<lambda>_. ?I {})"
    by (rule triple_deletes) (auto simp: delete_rows_def identity_table_def confined_defs)
  show ?thesis
    unfolding identity_delete_def
    apply (rule triple_and_then [OF triple_keeps [OF identity_read_one_keeps]])
    apply (rule triple_option, rule triple_raising)
    apply (rule triple_and_then [OF triple_keeps [OF keeps_reads(1)]])
    apply (rule triple_and_then [OF triple_keeps [OF keeps_reads(1)]])
    apply (rule triple_seq [OF unlink])
    apply (rule triple_seq [OF triple_keeps [OF keeps_elsewhere(3)]], rule elsewhere_tables)+
    apply (rule triple_seq [OF remove])
    apply (rule triple_keeps, intro confined_steps)
    done
qed

lemma boundary_create_confined:
  "triple (\<lambda>w. confined B G (w_db w)) (boundary_create cx name description ceiling denied) (\<lambda>_ w. confined B G (w_db w))"
proof -
  have new: "triple (\<lambda>w. confined B G (w_db w)) (creates boundary_table mk) (\<lambda>_ w. confined B G (w_db w))"
    if "\<And>n. bo_id (mk n) = n" for mk
    by (rule triple_creates) (auto simp: insert_row_def Let_def boundary_table_def confined_defs that)
  show ?thesis
    unfolding boundary_create_def
    by (intro triple_and_then [OF new] triple_keeps confined_steps) simp_all
qed

lemma boundary_delete_confined:
  assumes "i \<noteq> B"
  shows "triple (\<lambda>w. confined B G (w_db w)) (boundary_delete cx i) (\<lambda>_ w. confined B G (w_db w))"
proof -
  have gone: "triple (\<lambda>w. confined B G (w_db w)) (deletes boundary_table (\<lambda>r. bo_id r = i)) (\<lambda>_ w. confined B G (w_db w))"
    by (rule triple_deletes) (use assms in \<open>auto simp: delete_rows_def boundary_table_def confined_defs\<close>)
  show ?thesis
    unfolding boundary_delete_def Let_def
    by (rule triple_and_then [OF triple_keeps [OF keeps_reads(3)]], rule triple_option, rule triple_keeps, rule keeps_ret,
        rule triple_and_then [OF triple_keeps [OF keeps_reads(1)]], rule triple_and_then [OF gone], rule triple_keeps,
        intro confined_steps)
qed

section \<open>The endpoints\<close>

lemma identity_read_one_row:
  assumes "identity_read_one (by_id i) w = (Inr (Some me), w')"
  shows "\<exists>r\<in>set (tb_rows (db_identity (w_db w))). id_id r = i"
proof -
  have "\<exists>l. identities_of (by_id i) (w_db w) = Inr l \<and> me \<in> set l"
    using assms by (auto simp: identity_read_one_def identity_read_all_def act_Inr reads_def split: if_splits)
  then show ?thesis
    by (auto simp: identities_of_def Let_def id_wanted_by_id no_name_by_id read_identities dest!: collect_Inr)
qed

lemma endpoint_reads [keeps_rules]:
  "keeps P (read_boundary_ids ids names)" "keeps P (read_tag_ids tids tnames)" "keeps P (check_unix_username cx u)"
  "keeps P (identity_to_schema i)" "keeps P (check_identity_field fs chk can_read field)"
  unfolding read_boundary_ids_def read_tag_ids_def check_unix_username_def identity_to_schema_def
    identity_list_to_schema_def check_identity_field_def invalid_fields_def Let_def
  by (intro keeps_rules keeps_option; auto intro!: keeps_rules split: list.split)+

lemma tag_changes_keeps [keeps_rules]: "keeps P (tag_changes chk can_read current ops)"
proof -
  have checks: "keeps P (check_add_tags chk can_read l)" "keeps P (check_del_tags chk can_read l)"
    "keeps P (check_set_tags chk can_read current new)" for l new
    unfolding check_set_tags_def check_add_tags_def check_del_tags_def Let_def by (intro keeps_rules)+
  have one: "keeps P (apply_tag_operation chk can_read current op new)" for op new
    by (cases op) (simp_all, (intro keeps_rules checks)+)
  have "keeps P (apply_tag_operations chk can_read current l new)" for l new
    by (induction l arbitrary: new) (simp_all add: keeps_ret keeps_and_then one)
  then show ?thesis
    unfolding tag_changes_def by (intro keeps_option keeps_rules checks)
qed

text \<open>Who the caller is, and that the boundary applies to the caller.\<close>

definition bound :: "int \<Rightarrow> identity option \<Rightarrow> bool" where
  "bound B me \<longleftrightarrow> (\<forall>i. me = Some i \<longrightarrow> B \<in> set (i_boundary_id_list i))"

lemma identity_read_self_bound:
  "triple (\<lambda>w. confined B G (w_db w)) (identity_read_self cx) (\<lambda>me w. confined B G (w_db w) \<and> bound B me)"
proof (rule triple_read)
  fix me w assume I: "confined B G (w_db w)" and read: "identity_read_self cx w = (Inr me, w)"
  have "B \<in> set (i_boundary_id_list i)" if "me = Some i" for i
  proof -
    have "\<exists>j. identity_read_one (by_id j) w = (Inr (Some i), w)"
      using read that by (cases "cx_identity_id cx") (auto simp: identity_read_self_def raising_def)
    then obtain j where j: "identity_read_one (by_id j) w = (Inr (Some i), w)" by blast
    have "linked B j (w_db w)"
      using I identity_read_one_row [OF j] by (auto simp: confined_but_def)
    then show ?thesis
      by (auto simp: identity_read_one_in(2) [OF j] linked_def)
  qed
  then show "confined B G (w_db w) \<and> bound B me" using I by (simp add: bound_def)
qed (rule identity_read_self_keeps)

lemma triple_pure: "(b \<Longrightarrow> triple P m Q) \<Longrightarrow> triple (\<lambda>s. P s \<and> b) m Q"
  by (auto simp: triple_def)

lemma boundary_update_as_confined:
  assumes "B \<in> set (i_boundary_id_list me)"
  shows "keeps (\<lambda>w. confined B G (w_db w)) (boundary_update_as cx me i data)"
proof -
  have upd: "keeps (\<lambda>w. confined B G (w_db w)) (boundary_update cx i u)" if "i = B \<Longrightarrow> bf_denied_list u = None" for u
    using that by (intro boundary_update_confined) simp
  have "when_set (bur_fields data) ''denied_list'' (bur_denied_list data) = None \<or> i \<noteq> B \<or>
    when_set (bur_fields data) ''denied_list'' (bur_denied_list data) \<noteq> None \<and> i = B" by blast
  then show ?thesis
    unfolding boundary_update_as_def
    by (intro keeps_and_then keeps_reads keeps_option keeps_raising grants_create_keeps)
      (auto simp: Let_def assms intro!: keeps_rules keeps_option upd)
qed


lemma identity_create_endpoint_confined:
  "triple (\<lambda>w. confined B G (w_db w)) (identity_create_endpoint cx data) (\<lambda>_ w. confined B G (w_db w))"
proof -
  let ?I = "\<lambda>w. confined B G (w_db w)"
  have create: "triple ?I (let boundary_ids = i_boundary_id_list me @ additional
      in if \<not> distinct boundary_ids then invalid_fields
         else seq (check_unix_username cx (icr_unix_username data))
           (and_then (catching (identity_create cx (icr_name data) boundary_ids tag_ids (icr_unix_username data))
               (\<lambda>e. raising (identity_uniqueness_conflict e (icr_name data) (icr_unix_username data))))
             (\<lambda>identity_id. and_then (identity_read_one (by_id identity_id)) (\<lambda>identity. case identity of
                None \<Rightarrow> raising AssertionError | Some identity \<Rightarrow> identity_to_schema identity)))) (\<lambda>_. ?I)"
    if "B \<in> set (i_boundary_id_list me)" for me additional tag_ids
    unfolding Let_def invalid_fields_def
  proof (intro triple_if triple_raising triple_seq [OF triple_keeps [OF endpoint_reads(3)]])
    show "triple ?I (and_then (catching (identity_create cx (icr_name data) (i_boundary_id_list me @ additional)
          tag_ids (icr_unix_username data))
        (\<lambda>e. raising (identity_uniqueness_conflict e (icr_name data) (icr_unix_username data))))
      (\<lambda>identity_id. and_then (identity_read_one (by_id identity_id)) (\<lambda>identity. case identity of
         None \<Rightarrow> raising AssertionError | Some identity \<Rightarrow> identity_to_schema identity))) (\<lambda>_. ?I)"
      by (rule triple_and_then [OF triple_catching [OF identity_create_confined]])
        (use that in \<open>auto simp: triple_raising intro!: triple_keeps keeps_rules keeps_option identity_read_one_keeps\<close>)
  qed
  show ?thesis
    unfolding identity_create_endpoint_def
    apply (intro triple_and_then [OF triple_keeps [OF endpoint_reads(1)]] triple_and_then [OF triple_keeps [OF endpoint_reads(2)]]
      triple_and_then [OF triple_keeps [OF grants_create_keeps]] triple_if triple_raising)
    apply (rule triple_and_then [OF identity_read_self_bound], rule triple_pure, rule triple_option, rule triple_raising)
    apply (rule create, simp add: bound_def)
    done
qed

lemma identity_delete_endpoint_confined:
  "triple (\<lambda>w. confined B (TenantGrant g) (w_db w)) (identity_delete_endpoint cx i) (\<lambda>_ w. confined B (TenantGrant g) (w_db w))"
proof -
  have remove: "keeps (\<lambda>w. confined B (TenantGrant g) (w_db w)) (identity_grants_remove cx j)" for cx j
    unfolding identity_grants_remove_def by (rule remove_grants_confined [OF tenant_grant_survives(2)])
  have refused: "triple P (refuse_delete cx j reason t) Q" for P Q j reason t
    unfolding refuse_delete_def by (auto simp: triple_def reject_def act_Inr)
  show ?thesis
    unfolding identity_delete_endpoint_def
    by (intro triple_and_then [OF triple_keeps [OF identity_read_one_keeps]] triple_option triple_raising triple_if refused
        triple_and_then [OF triple_keeps [OF grants_create_keeps]] triple_seq [OF triple_keeps [OF remove]] identity_delete_confined)
qed

lemma identity_update_endpoint_confined: "keeps (\<lambda>w. confined B G (w_db w)) (identity_update_endpoint cx i data)"
  unfolding identity_update_endpoint_def Let_def
  by (intro keeps_and_then keeps_option keeps_raising keeps_seq identity_read_one_keeps grants_create_keeps
      endpoint_reads tag_changes_keeps keeps_catching identity_update_confined)

lemma boundary_create_endpoint_confined:
  "triple (\<lambda>w. confined B G (w_db w)) (boundary_create_endpoint cx name description) (\<lambda>_ w. confined B G (w_db w))"
  unfolding boundary_create_endpoint_def
  apply (intro triple_and_then [OF triple_keeps [OF grants_create_keeps]] triple_if triple_raising
      triple_and_then [OF triple_catching [OF boundary_create_confined]])
   apply (auto simp: triple_raising split: exn.split intro!: triple_keeps keeps_rules keeps_option)
  done

lemma boundary_update_endpoint_confined:
  "triple (\<lambda>w. confined B G (w_db w)) (boundary_update_endpoint cx i data) (\<lambda>_ w. confined B G (w_db w))"
  unfolding boundary_update_endpoint_def
  by (rule triple_and_then [OF identity_read_self_bound], rule triple_pure, rule triple_option, rule triple_raising)
    (simp add: bound_def triple_keeps boundary_update_as_confined)

lemma grants_create_bound:
  "triple (\<lambda>w. confined B G (w_db w)) (grants_create cx) (\<lambda>gr w. confined B G (w_db w) \<and>
    (\<exists>b\<in>set (gr_boundaries gr). G \<in> set (b_denied_list b)) \<and> (\<exists>i. linked B i (w_db w)))"
proof (rule triple_read)
  fix gr w assume I: "confined B G (w_db w)" and gr: "grants_create cx w = (Inr gr, w)"
  have found: "x \<in> set xs" if "List.find p xs = Some x" for p xs and x :: identity_row
    using that by (auto simp: find_Some_iff)
  have "\<exists>r. r \<in> set (tb_rows (db_identity (w_db w))) \<and> gr_boundaries gr = boundary_read_all (\<lambda>b. bo_id b \<in> set (map ib_boundary_id
      (filter (\<lambda>x. ib_identity_id x = id_id r) (tb_rows (db_identity_boundary (w_db w)))))) (w_db w)"
    using gr by (auto simp: grants_create_def act_Inr read_runs identity_table_def identity_boundary_table_def ensure_def
        dest!: found split: option.splits)
  then obtain r where r: "r \<in> set (tb_rows (db_identity (w_db w)))" and
    bs: "gr_boundaries gr = boundary_read_all (\<lambda>b. bo_id b \<in> set (map ib_boundary_id
      (filter (\<lambda>x. ib_identity_id x = id_id r) (tb_rows (db_identity_boundary (w_db w)))))) (w_db w)" by blast
  have linked: "linked B (id_id r) (w_db w)"
    using I r by (auto simp: confined_but_def)
  obtain row where row: "row \<in> set (tb_rows (db_boundary (w_db w)))" "bo_id row = B" "G \<in> set (bo_denied_list row)"
    using I by (auto simp: confined_but_def binds_def)
  have "boundary_from_db row \<in> set (gr_boundaries gr)"
    using row linked unfolding bs boundary_read_all_def table_read_all_def boundary_table_def linked_def
    by (simp, intro imageI) force
  then show "confined B G (w_db w) \<and> (\<exists>b\<in>set (gr_boundaries gr). G \<in> set (b_denied_list b)) \<and> (\<exists>i. linked B i (w_db w))"
    using I row linked by (auto simp: boundary_from_db_def intro!: bexI [of _ "boundary_from_db row"])
qed (rule grants_create_keeps)

lemma boundary_delete_endpoint_confined:
  "triple (\<lambda>w. confined B G (w_db w)) (boundary_delete_endpoint cx i) (\<lambda>_ w. confined B G (w_db w))"
proof -
  let ?J = "\<lambda>w. confined B G (w_db w) \<and> (\<exists>i. linked B i (w_db w))"
  have unused: "triple ?J (reads_one identity_boundary_table (\<lambda>r. ib_boundary_id r = j))
      (\<lambda>r w. confined B G (w_db w) \<and> (r = None \<longrightarrow> j \<noteq> B))" for j
    by (rule triple_read) (auto simp: read_runs identity_boundary_table_def linked_def find_None_iff)
  have remove: "triple ?J (and_then (reads_one identity_boundary_table (\<lambda>r. ib_boundary_id r = j)) (\<lambda>identity.
      if identity \<noteq> None then reject 400 ''Boundary is still in use'' None
      else and_then (boundary_delete cx j)
        (\<lambda>ok. if \<not> ok then raising (not_found boundary_missing) else ret ()))) (\<lambda>_ w. confined B G (w_db w))" for j
    by (rule triple_and_then [OF unused], rule triple_pure, rule triple_if, rule triple_raising,
        rule triple_and_then [OF boundary_delete_confined], simp, intro triple_if triple_raising triple_ret)
  have found: "triple (\<lambda>w. confined B G (w_db w)) (grants_create cx) (\<lambda>_. ?J)"
    by (rule triple_weaken [OF grants_create_bound]) auto
  show ?thesis
    unfolding boundary_delete_endpoint_def Let_def
    by (rule triple_and_then [OF triple_keeps [OF keeps_reads(1)]], rule triple_option, rule triple_raising,
        rule triple_and_then [OF found], rule triple_if, rule triple_raising, rule remove)
qed

lemma bastion_delete_endpoint_confined:
  "keeps (\<lambda>w. confined B (TenantGrant g) (w_db w)) (bastion_delete_endpoint cx i)"
proof -
  have "keeps (\<lambda>w. confined B (TenantGrant g) (w_db w)) (bastion_grants_remove cx j)" for cx j
    unfolding bastion_grants_remove_def by (rule remove_grants_confined [OF tenant_grant_survives(3)])
  moreover have "keeps (\<lambda>w. confined B (TenantGrant g) (w_db w)) (bastion_delete cx i)"
    unfolding bastion_delete_def
    by (intro keeps_and_then keeps_reads keeps_option keeps_ret keeps_elsewhere keeps_if keeps_seq keeps_db_audit elsewhere_tables)
  ultimately show ?thesis
    unfolding bastion_delete_endpoint_def Let_def
    by (intro keeps_and_then keeps_reads keeps_option keeps_raising keeps_if keeps_seq keeps_ret grants_create_keeps)
qed

lemma tag_delete_endpoint_confined: "keeps (\<lambda>w. confined B (TenantGrant g) (w_db w)) (tag_delete_endpoint cx i)"
proof -
  let ?I = "\<lambda>w. confined B (TenantGrant g) (w_db w)"
  have remove: "keeps ?I (tag_grants_remove cx j)" for cx j
    unfolding tag_grants_remove_def by (rule remove_grants_confined [OF tenant_grant_survives(1)])
  have bastion: "keeps ?I (bastion_update cx j u)" for cx j u
    unfolding bastion_update_def
    by (intro keeps_and_then keeps_reads keeps_option keeps_ret keeps_elsewhere keeps_if keeps_seq keeps_if_set keeps_db_audit
        elsewhere_tables)
  have bastions: "keeps ?I (bastion_remove_tag cx j)" for cx j
    unfolding bastion_remove_tag_def remove_tag_step_def Let_def
    by (intro keeps_and_then keeps_reads keeps_map_act keeps_option keeps_ret keeps_if keeps_seq bastion)
  have untag: "keeps ?I (untag_all cx j)" for cx j
    unfolding untag_all_def by (intro keeps_and_then keeps_reads keeps_for_each identity_update_confined)
  show ?thesis
    unfolding tag_delete_endpoint_def Let_def
    by (intro keeps_and_then keeps_reads keeps_option keeps_raising keeps_if keeps_seq keeps_ret keeps_reject grants_create_keeps
        remove bastions untag keeps_db_audit keeps_elsewhere elsewhere_tables)
qed

section \<open>Whatever happens in the tenant\<close>

datatype policy_request =
    CreatesIdentity identity_create_request
  | UpdatesIdentity int identity_update_request
  | DeletesIdentity int
  | CreatesBoundary string string
  | UpdatesBoundary int boundary_update_request
  | DeletesBoundary int
  | DeletesTag int
  | DeletesBastion int

definition serve :: "request_ctx \<Rightarrow> policy_request \<Rightarrow> unit handler" where
  "serve cx q = (case q of
     CreatesIdentity data \<Rightarrow> seq (identity_create_endpoint cx data) (ret ())
   | UpdatesIdentity i data \<Rightarrow> seq (identity_update_endpoint cx i data) (ret ())
   | DeletesIdentity i \<Rightarrow> identity_delete_endpoint cx i
   | CreatesBoundary name description \<Rightarrow> seq (boundary_create_endpoint cx name description) (ret ())
   | UpdatesBoundary i data \<Rightarrow> seq (boundary_update_endpoint cx i data) (ret ())
   | DeletesBoundary i \<Rightarrow> boundary_delete_endpoint cx i
   | DeletesTag i \<Rightarrow> tag_delete_endpoint cx i
   | DeletesBastion i \<Rightarrow> bastion_delete_endpoint cx i)"

text \<open>
  A tenant lives through requests that the endpoints above answer, and through anything else that leaves
  identities, boundaries and which apply to whom alone. A request that raises is rolled back, so it is
  such a step too, as are the audit entries at the end of a request.
\<close>

inductive lives :: "app_db \<Rightarrow> app_db \<Rightarrow> bool" for d where
  born: "lives d d"
| answers: "lives d (w_db w) \<Longrightarrow> serve cx q w = (Inr (), w') \<Longrightarrow> lives d (w_db w')"
| elsewhere: "lives d d1 \<Longrightarrow> db_identity d2 = db_identity d1 \<Longrightarrow> db_boundary d2 = db_boundary d1 \<Longrightarrow>
    db_identity_boundary d2 = db_identity_boundary d1 \<Longrightarrow> lives d d2"

lemma serve_confined:
  "triple (\<lambda>w. confined B (TenantGrant g) (w_db w)) (serve cx q) (\<lambda>_ w. confined B (TenantGrant g) (w_db w))"
  by (cases q) (simp_all add: serve_def triple_drop identity_create_endpoint_confined identity_delete_endpoint_confined
      boundary_create_endpoint_confined boundary_update_endpoint_confined boundary_delete_endpoint_confined triple_keeps
      identity_update_endpoint_confined tag_delete_endpoint_confined bastion_delete_endpoint_confined)

lemma lives_confined: "lives d d' \<Longrightarrow> confined B (TenantGrant g) d \<Longrightarrow> confined B (TenantGrant g) d'"
proof (induction rule: lives.induct)
  case (answers w cx q w')
  then show ?case using serve_confined by (auto simp: triple_def)
next
  case (elsewhere d1 d2)
  then show ?case using confined_cong [of d2 d1] by auto
qed

lemma founded_confined: "founded False d \<Longrightarrow> confined 1 no_tenant_create d"
  by (auto simp: founded_def confined_defs)

lemma confined_creates_no_tenant:
  assumes "confined B no_tenant_create (w_db (es_world s))"
  shows "\<exists>e. tenant_create_endpoint cx url data s = (Inl e, s)"
proof (cases "grants_create cx (es_world s)")
  case (Pair r w)
  have same: "w = es_world s" using Pair by (rule same_state [OF grants_create_keeps])
  show ?thesis
  proof (cases r)
    case (Inl e)
    then show ?thesis using Pair same by (simp add: tenant_create_endpoint_def own_grants_def in_own_tenant_def and_then_def)
  next
    case (Inr gr)
    then obtain b where "b \<in> set (gr_boundaries gr)" "no_tenant_create \<in> set (b_denied_list b)"
      using grants_create_bound [unfolded triple_def] assms Pair by blast
    moreover have "matches (grants_tenant gr None) (\<lambda>g. tp_create (g_permission g)) no_tenant_create"
      by (simp add: grants_tenant_def TenantChecker_def matches_iff no_tenant_create_def id_cmp_def)
    ultimately have "\<not> tenant_can_create (grants_tenant gr None)"
      unfolding tenant_can_create_def can_iff boundary_passes_def by (auto simp: grants_tenant_def TenantChecker_def)
    then show ?thesis using Pair same Inr
      by (simp add: tenant_create_endpoint_def own_grants_def in_own_tenant_def and_then_def raising_def)
  qed
qed

text \<open>
  C28. A tenant that is owned by another one never creates tenants. Whatever its identities do after it
  was initialized, and whoever asks with whatever role, \<open>POST /tenant\<close> is refused and changes nothing:
  the root boundary that denies it reaches every identity that is ever created, and nobody can edit or
  delete it or leave it.
\<close>

theorem sub_tenant_creates_no_tenants:
  assumes "w_db (es_world s) = empty_db" and "cx_foreign_author cx = None"
    and "distinct (map tn_uuid (tb_rows (rg_tenant (es_registry s))))"
    and "table_read_one tenant_table (\<lambda>r. tn_id r = cx_tenant_id cx) (es_registry s) = Some row"
    and "\<not> tn_is_initialized row" and "tn_owner_id row \<noteq> None"
    and "cr_decrypt cr (cr_encrypt cr (ge_invitation ge)) = ge_invitation ge"
    and "lives (w_db (es_world (snd (initialize_endpoint cr al cx ge s)))) (w_db (es_world later))"
  shows "\<exists>e. tenant_create_endpoint anyone url data later = (Inl e, later)"
proof -
  have "founded False (w_db (es_world (snd (initialize_endpoint cr al cx ge s))))"
    using first_request [OF assms(1-5,7), of al] assms(6) by auto
  then have "confined 1 no_tenant_create (w_db (es_world later))"
    using lives_confined [OF assms(8)] founded_confined unfolding no_tenant_create_def by blast
  then show ?thesis by (rule confined_creates_no_tenant)
qed

theorem sub_tenant_creates_no_tenants_witness:
  "\<exists>e. fst (tenant_create_endpoint (sample_cx\<lparr>cx_identity_id := Some 1, cx_active_role_id := Some 1\<rparr>) ''db''
    \<lparr>tcr_name = ''sub'', tcr_display_name = ''Sub''\<rparr>
    (snd (initialize_endpoint plain_secrets plain_lib sample_cx first_keys (newborn (Some 7))))) = Inl e"
proof -
  obtain row where "table_read_one tenant_table (\<lambda>r. tn_id r = cx_tenant_id sample_cx) (es_registry (newborn (Some 7))) = Some row"
      "\<not> tn_is_initialized row" "tn_owner_id row = Some 7"
    using newborn_row by blast
  then have "\<exists>e. tenant_create_endpoint anyone url data (snd (initialize_endpoint plain_secrets plain_lib sample_cx first_keys
      (newborn (Some 7)))) = (Inl e, snd (initialize_endpoint plain_secrets plain_lib sample_cx first_keys (newborn (Some 7))))"
    for anyone url data
    by (intro sub_tenant_creates_no_tenants [where row = row and s = "newborn (Some 7)"])
      (auto simp: newborn_def sample_cx_def plain_secrets_def empty_world_def intro: lives.born)
  then show ?thesis by (metis fst_conv)
qed

end
