(* ===== verification/Host_Files.thy ===== *)
theory Host_Files
  imports Decimal Unix_Account "HOL-Library.List_Lexorder" "HOL-Library.Char_ord"
begin

text \<open>
  The directories through which the programs on a host talk to each other, and
  \<open>cli/pf/session_records.py\<close>. A directory is an association list of names and files; of a file the code
  looks at its kind, its size, the time it was written (in microseconds) and its JSON value, which is
  absent when the content is not JSON. The numbers of a JSON value are integers. Operations on files
  of the programs themselves succeed.
\<close>

datatype json = JNull | JBool bool | JInt int | JText string | JList "json list" | JObject "(string \<times> json) list" | JFloat

record host_file =
  fl_regular :: bool
  fl_size :: int
  fl_mtime :: int
  fl_json :: "json option"

type_synonym directory = "(string \<times> host_file) list"

definition names_of :: "directory \<Rightarrow> string list" where
  "names_of dir = sort (map fst dir)"

definition unlink :: "string \<Rightarrow> directory \<Rightarrow> directory" where
  "unlink name dir = AList.delete name dir"

definition write_file :: "string \<Rightarrow> host_file \<Rightarrow> directory \<Rightarrow> directory" where
  "write_file name f dir = AList.update name f dir"

lemma set_names_of [simp]: "set (names_of dir) = fst ` set dir"
  by (simp add: names_of_def)

lemma map_of_unlink: "map_of (unlink name dir) k = (if k = name then None else map_of dir k)"
  by (simp add: unlink_def delete_conv')

lemma map_of_write_file: "map_of (write_file name f dir) k = (if k = name then Some f else map_of dir k)"
  by (simp add: write_file_def update_conv')

text \<open>An empty file, written now.\<close>

definition empty_file :: "int \<Rightarrow> host_file" where
  "empty_file now = \<lparr>fl_regular = True, fl_size = 0, fl_mtime = now, fl_json = None\<rparr>"

section \<open>Decimal digits\<close>

lemma show_nat_simps:
  "n < 10 \<Longrightarrow> show_nat n = [digit_char n]"
  "\<not> n < 10 \<Longrightarrow> show_nat n = show_nat (n div 10) @ [digit_char (n mod 10)]"
  by (subst show_nat.simps, simp)+

lemma show_nat_length: "n < 10 ^ w \<Longrightarrow> 0 < w \<Longrightarrow> length (show_nat n) \<le> w"
proof (induction w arbitrary: n)
  case (Suc w)
  show ?case
  proof (cases "n < 10")
    case False
    then have "n div 10 < 10 ^ w" using Suc.prems by simp
    moreover have "0 < w" using False Suc.prems by (cases w) auto
    ultimately show ?thesis using Suc.IH [of "n div 10"] False by (simp add: show_nat_simps)
  qed (simp add: show_nat_simps)
qed simp

section \<open>Identifiers\<close>

text \<open>\<open>[0-9a-f]{8}-[0-9a-f]{4}-[0-9a-f]{4}-[0-9a-f]{4}-[0-9a-f]{12}\<close> and \<open>[A-Za-z0-9]{1,32}\<close>.\<close>

definition is_hex :: "char \<Rightarrow> bool" where
  "is_hex c \<longleftrightarrow> is_ascii_digit c \<or> (97 \<le> (of_char c :: nat) \<and> (of_char c :: nat) \<le> 102)"

definition is_alnum :: "char \<Rightarrow> bool" where
  "is_alnum c \<longleftrightarrow> is_ascii_digit c \<or> is_ascii_lower c \<or> (65 \<le> (of_char c :: nat) \<and> (of_char c :: nat) \<le> 90)"

definition connection_id_ok :: "string \<Rightarrow> bool" where
  "connection_id_ok s = (let groups = split_on CHR ''-'' s
    in map length groups = [8, 4, 4, 4, 12] \<and> list_all (list_all is_hex) groups)"

definition session_id_ok :: "string \<Rightarrow> bool" where
  "session_id_ok s \<longleftrightarrow> 1 \<le> length s \<and> length s \<le> 32 \<and> list_all is_alnum s"

lemma split_on_length: "length (concat (split_on d s)) + length (split_on d s) = length s + 1"
  by (induction s) (auto split: list.splits)

lemma split_on_chars: "c \<in> set s \<Longrightarrow> c = d \<or> (\<exists>g\<in>set (split_on d s). c \<in> set g)"
  by (induction s) (auto split: list.splits)

lemma connection_id_length: "connection_id_ok s \<Longrightarrow> length s = 36"
proof -
  assume "connection_id_ok s"
  then have g: "map length (split_on CHR ''-'' s) = [8, 4, 4, 4, 12]" by (simp add: connection_id_ok_def Let_def)
  have "length (concat (split_on CHR ''-'' s)) = 32" "length (split_on CHR ''-'' s) = 5"
    using arg_cong [OF g, of sum_list] arg_cong [OF g, of length] by (simp_all add: length_concat)
  then show "length s = 36" using split_on_length [of "CHR ''-''" s] by simp
qed

lemma connection_id_chars: "connection_id_ok s \<Longrightarrow> c \<in> set s \<Longrightarrow> c = CHR ''-'' \<or> is_hex c"
  using split_on_chars [of c s "CHR ''-''"] by (auto simp: connection_id_ok_def Let_def list_all_iff)

section \<open>The sessions that a Linux host has open\<close>

definition session_record_name :: "string \<Rightarrow> string \<Rightarrow> string" where
  "session_record_name connection_id session_id = connection_id @ ''-'' @ session_id"

definition session_record_parts :: "string \<Rightarrow> (string \<times> string) option" where
  "session_record_parts name =
    (if connection_id_ok (take 36 name) \<and> take 1 (drop 36 name) = ''-'' \<and> session_id_ok (drop 37 name)
     then Some (take 36 name, drop 37 name) else None)"

definition session_record_write :: "int \<Rightarrow> string \<Rightarrow> string \<Rightarrow> directory \<Rightarrow> bool \<times> directory" where
  "session_record_write now connection_id session_id dir =
    (if \<not> connection_id_ok connection_id \<or> \<not> session_id_ok session_id then (False, dir)
     else let name = session_record_name connection_id session_id
          in (True, if map_of dir name = None then write_file name (empty_file now) dir else dir))"

definition session_record_remove :: "string \<Rightarrow> string \<Rightarrow> directory \<Rightarrow> directory" where
  "session_record_remove connection_id session_id dir = unlink (session_record_name connection_id session_id) dir"

definition session_ids :: "string \<Rightarrow> directory \<Rightarrow> string list" where
  "session_ids connection_id dir = List.map_filter (\<lambda>name. case session_record_parts name of
       Some (c, s) \<Rightarrow> if c = connection_id then Some s else None | None \<Rightarrow> None) (names_of dir)"

lemma session_record_round_trip:
  "connection_id_ok c \<Longrightarrow> session_id_ok s \<Longrightarrow> session_record_parts (session_record_name c s) = Some (c, s)"
  using connection_id_length [of c] by (simp add: session_record_parts_def session_record_name_def)

lemma session_record_parts_Some:
  "session_record_parts name = Some (c, s) \<longleftrightarrow> connection_id_ok c \<and> session_id_ok s \<and> name = session_record_name c s"
proof
  assume a: "session_record_parts name = Some (c, s)"
  then have ok: "connection_id_ok c" "session_id_ok s" "c = take 36 name" "s = drop 37 name" "take 1 (drop 36 name) = ''-''"
    by (auto simp: session_record_parts_def split: if_splits)
  have "name = take 36 name @ take 1 (drop 36 name) @ drop 37 name"
    using append_take_drop_id [of 1 "drop 36 name"] by (simp add: numeral_eq_Suc)
  then show "connection_id_ok c \<and> session_id_ok s \<and> name = session_record_name c s"
    using ok by (simp add: session_record_name_def)
qed (auto simp: session_record_round_trip)

text \<open>Exactly the sessions that were recorded for the connection and not removed.\<close>

lemma set_session_ids:
  "set (session_ids c dir) =
    {s. session_id_ok s \<and> connection_id_ok c \<and> session_record_name c s \<in> fst ` set dir}"
proof -
  let ?f = "\<lambda>name. case session_record_parts name of Some (c', s) \<Rightarrow> if c' = c then Some s else None | None \<Rightarrow> None"
  have f: "?f name = Some s \<longleftrightarrow> session_record_parts name = Some (c, s)" for name s
    by (auto split: option.split prod.split)
  have m: "set (List.map_filter h xs) = {y. \<exists>x\<in>set xs. h x = Some y}" for h :: "string \<Rightarrow> string option" and xs
    by (induction xs) (auto simp: map_filter_simps split: option.split)
  have "s \<in> set (session_ids c dir) \<longleftrightarrow> (\<exists>name\<in>fst ` set dir. session_record_parts name = Some (c, s))" for s
    unfolding session_ids_def m set_names_of mem_Collect_eq f by (rule refl)
  then show ?thesis by (auto simp: session_record_parts_Some)
qed

end
