(* ===== verification/Live_Events.thy ===== *)
theory Live_Events
  imports Host_Files "HOL-Library.Sublist"
begin

text \<open>
  \<open>cli/pf/live_events.py\<close>: the spool of session events, from whatever sees a session start or end on a host
  to the process that reports to the server. The writer is one process, with the last time stamp that it
  used; times are in microseconds. The random digits of a file name are an argument, and what becomes
  of an event that is sent too. Files that are written during a pass are not in the listing of that pass,
  so a pass is one step.
\<close>

section \<open>Events and their files\<close>

datatype event_kind = Starts | Ends

definition kind_name :: "event_kind \<Rightarrow> string" where
  "kind_name k = (case k of Starts \<Rightarrow> ''start'' | Ends \<Rightarrow> ''end'')"

record event =
  ev_kind :: event_kind
  ev_connection_id :: string
  ev_session_id :: string
  ev_at :: int

record spool =
  sp_files :: directory
  sp_last_us :: int

definition MAX_EVENT_BYTES :: int where "MAX_EVENT_BYTES = 1024"
definition MAX_AGE :: int where "MAX_AGE = 600000000"

text \<open>\<open>[0-9A-Za-z._-]{0,64}\<close>\<close>

definition event_session_ok :: "string \<Rightarrow> bool" where
  "event_session_ok s \<longleftrightarrow> length s \<le> 64 \<and> list_all (\<lambda>c. is_alnum c \<or> c \<in> {CHR ''.'', CHR ''_'', CHR ''-''}) s"

text \<open>\<open>f"{now_us:016d}"\<close>\<close>

definition pad :: "nat \<Rightarrow> nat \<Rightarrow> string" where
  "pad width n = replicate (width - length (show_nat n)) CHR ''0'' @ show_nat n"

definition pad_us :: "int \<Rightarrow> string" where
  "pad_us n = (if n < 0 then ''-'' @ pad 15 (nat (- n)) else pad 16 (nat n))"

definition event_name :: "int \<Rightarrow> event_kind \<Rightarrow> string \<Rightarrow> string" where
  "event_name now_us kind rnd = pad_us now_us @ ''-'' @ kind_name kind @ ''-'' @ rnd @ ''.json''"

text \<open>\<open>([0-9]{16})-(start|end)-[0-9a-f]{8}\.json\<close>, which gives the kind.\<close>

definition event_rest_ok :: "string \<Rightarrow> bool" where
  "event_rest_ok s \<longleftrightarrow> length s = 13 \<and> list_all is_hex (take 8 s) \<and> drop 8 s = ''.json''"

definition event_name_kind :: "string \<Rightarrow> event_kind option" where
  "event_name_kind name =
    (if length (take 16 name) = 16 \<and> list_all is_ascii_digit (take 16 name) \<and> take 1 (drop 16 name) = ''-''
     then let rest = drop 17 name
          in if take 6 rest = ''start-'' \<and> event_rest_ok (drop 6 rest) then Some Starts
             else if take 4 rest = ''end-'' \<and> event_rest_ok (drop 4 rest) then Some Ends else None
     else None)"

text \<open>The content, as \<open>json.dumps\<close> writes it: nothing in the identifiers needs escaping.\<close>

definition event_text :: "event \<Rightarrow> string" where
  "event_text e = ''{\"at\": '' @ show_int (ev_at e) @ '', \"connection_id\": \"'' @ ev_connection_id e @
    ''\", \"session_id\": \"'' @ ev_session_id e @ ''\"}''"

definition event_file :: "int \<Rightarrow> event \<Rightarrow> host_file" where
  "event_file now e = \<lparr>fl_regular = True, fl_size = int (length (event_text e)), fl_mtime = now,
    fl_json = Some (JObject [(''at'', JInt (ev_at e)), (''connection_id'', JText (ev_connection_id e)),
      (''session_id'', JText (ev_session_id e))])\<rparr>"

definition write_event :: "int \<Rightarrow> string \<Rightarrow> event \<Rightarrow> spool \<Rightarrow> string option \<times> spool" where
  "write_event now rnd e sp =
    (if \<not> connection_id_ok (ev_connection_id e) \<or> \<not> event_session_ok (ev_session_id e) then (None, sp)
     else let now_us = max now (sp_last_us sp + 1); path = event_name now_us (ev_kind e) rnd
          in (Some path, \<lparr>sp_files = write_file path (event_file now e) (sp_files sp), sp_last_us = now_us\<rparr>))"

section \<open>Reading\<close>

definition read_event :: "string \<Rightarrow> host_file \<Rightarrow> event option" where
  "read_event name f = (case event_name_kind name of
     None \<Rightarrow> None
   | Some kind \<Rightarrow>
       if \<not> fl_regular f \<or> fl_size f > MAX_EVENT_BYTES then None
       else case fl_json f of
         Some (JObject obj) \<Rightarrow>
           (case (map_of obj ''connection_id'', map_of obj ''session_id'', map_of obj ''at'') of
              (Some (JText connection_id), Some (JText session_id), Some (JInt at)) \<Rightarrow>
                if at < 0 then None
                else if \<not> connection_id_ok connection_id \<or> \<not> event_session_ok session_id then None
                else Some \<lparr>ev_kind = kind, ev_connection_id = connection_id, ev_session_id = session_id, ev_at = at\<rparr>
            | _ \<Rightarrow> None)
       | _ \<Rightarrow> None)"

definition event_at :: "directory \<Rightarrow> string \<Rightarrow> (string \<times> event) option" where
  "event_at dir name = (case map_of dir name of None \<Rightarrow> None
    | Some f \<Rightarrow> (case read_event name f of None \<Rightarrow> None | Some e \<Rightarrow> Some (name, e)))"

definition read_events :: "directory \<Rightarrow> (string \<times> event) list" where
  "read_events dir = List.map_filter (event_at dir) (names_of dir)"

section \<open>Forwarding\<close>

definition session_of :: "event \<Rightarrow> string \<times> string" where
  "session_of e = (ev_connection_id e, ev_session_id e)"

text \<open>
  \<open>send\<close> either returns, or raises before the server took the event, or raises although it took it: the answer
  was lost. The code sees an exception in both of the last cases.
\<close>

datatype send_result = Accepted | Answer_Lost | Not_Delivered

text \<open>What the server got, in order; what was accepted and removed, which the code counts; the files that are left.\<close>

fun forward_events ::
    "(string \<Rightarrow> event \<Rightarrow> send_result) \<Rightarrow> (string \<times> event) list \<Rightarrow> (string \<times> string) list \<Rightarrow> directory \<Rightarrow>
      event list \<times> event list \<times> directory" where
  "forward_events send [] blocked dir = ([], [], dir)"
| "forward_events send ((path, event) # events) blocked dir =
    (if session_of event \<in> set blocked then forward_events send events blocked dir
     else case send path event of
       Accepted \<Rightarrow> (case forward_events send events blocked (unlink path dir) of
           (got, sent, dir) \<Rightarrow> (event # got, event # sent, dir))
     | Answer_Lost \<Rightarrow> (case forward_events send events (session_of event # blocked) dir of
           (got, sent, dir) \<Rightarrow> (event # got, sent, dir))
     | Not_Delivered \<Rightarrow> forward_events send events (session_of event # blocked) dir)"

definition expire_events :: "int \<Rightarrow> int \<Rightarrow> directory \<Rightarrow> directory" where
  "expire_events now max_age dir = filter (\<lambda>(name, f). \<not> now - fl_mtime f > max_age) dir"

definition forward ::
    "(string \<Rightarrow> event \<Rightarrow> send_result) \<Rightarrow> int \<Rightarrow> int \<Rightarrow> directory \<Rightarrow> event list \<times> event list \<times> directory" where
  "forward send now max_age dir =
    (case forward_events send (read_events dir) [] dir of
       (got, sent, dir) \<Rightarrow> (got, sent, expire_events now max_age dir))"

end
