(* ===== verification/Live_Reports.thy ===== *)
theory Live_Reports
  imports Certificate_Safety Live_Events
begin

text \<open>
  The registry of live sessions bears what the spool of a host does to it: a report that arrives again changes
  nothing, although reports of other sessions came in between.
\<close>

definition report_endpoint :: "event_kind \<Rightarrow> request_ctx \<Rightarrow> live_report \<Rightarrow> unit handler" where
  "report_endpoint k = (case k of Starts \<Rightarrow> start_endpoint | Ends \<Rightarrow> end_endpoint)"

definition session_key :: "live_session_row \<Rightarrow> string \<times> string \<times> string" where
  "session_key r = (ls_connection_id r, ls_kind r, ls_session_id r)"

abbreviation live_rows :: "app_db \<Rightarrow> live_session_row list" where
  "live_rows d \<equiv> tb_rows (db_live_session d)"

text \<open>The sessions that a report is about; one without a session id is about all sessions of its connection.\<close>

definition about :: "string \<Rightarrow> live_report \<Rightarrow> live_session_row \<Rightarrow> bool" where
  "about hostname data r \<longleftrightarrow> ls_connection_id r = lr_connection_id data \<and> ls_kind r = lr_kind data \<and>
    ls_hostname r = hostname \<and> (lr_session_id data = '''' \<or> ls_session_id r = lr_session_id data)"

text \<open>
  What other reports do to the registry: sessions stay, those that ended as they are, and no session that the
  report is about starts.
\<close>

definition others_reported :: "string \<Rightarrow> live_report \<Rightarrow> app_db \<Rightarrow> app_db \<Rightarrow> bool" where
  "others_reported hostname data d d' \<longleftrightarrow> distinct (map session_key (live_rows d')) \<and>
    (\<forall>r\<in>set (live_rows d). \<exists>r'\<in>set (live_rows d'). session_key r' = session_key r \<and> ls_hostname r' = ls_hostname r \<and>
      (ls_ended_at r \<noteq> None \<longrightarrow> r' = r)) \<and>
    (\<forall>r'\<in>set (live_rows d'). about hostname data r' \<longrightarrow> (\<exists>r\<in>set (live_rows d). session_key r = session_key r'))"

lemma live_connection_keeps: "keeps P (live_connection c h)"
  unfolding live_connection_def by (intro keeps_rules keeps_option)

lemma caller_hostname_keeps: "keeps P (caller_hostname cx)"
  unfolding caller_hostname_def by (intro keeps_rules keeps_option identity_read_self_keeps)

lemma live_get: "td_get live_session_table = db_live_session"
  by (simp add: live_session_table_def)

lemma refuse_unknown_Inr: "refuse_unknown m w = (Inr (), w') \<longleftrightarrow> m w = (Inr (), w')"
  by (auto simp: refuse_unknown_def catching_def reject_def raising_def split: prod.splits sum.splits exn.splits)

lemma ends_rows:
  assumes "for_each rows (\<lambda>row. seq (updates live_session_table
      (\<lambda>r. r\<lparr>ls_ended_at := Some (max at (ls_started_at row))\<rparr>) (\<lambda>r. ls_id r = ls_id row \<and> ls_ended_at r = None)) (ret ())) w
    = (Inr (), w1)" and "r \<in> set (live_rows (w_db w1))" and "ls_ended_at r = None"
  shows "r \<in> set (live_rows (w_db w)) \<and> ls_id r \<notin> ls_id ` set rows"
  using assms(1)
proof (induction rows arbitrary: w)
  case Nil
  then show ?case using assms(2) by (simp add: ret_def)
next
  case (Cons row rows)
  obtain n d where u: "table_update live_session_table (\<lambda>r. r\<lparr>ls_ended_at := Some (max at (ls_started_at row))\<rparr>)
      (\<lambda>r. ls_id r = ls_id row \<and> ls_ended_at r = None) (w_db w) = (Inr n, d)"
    and rest: "for_each rows (\<lambda>row. seq (updates live_session_table
      (\<lambda>r. r\<lparr>ls_ended_at := Some (max at (ls_started_at row))\<rparr>) (\<lambda>r. ls_id r = ls_id row \<and> ls_ended_at r = None)) (ret ()))
      (w\<lparr>w_db := d\<rparr>) = (Inr (), w1)"
    using Cons.prems by (auto simp: act_Inr updates_def on_db_Inr)
  have "r \<in> set (live_rows d)" "ls_id r \<notin> ls_id ` set rows" using Cons.IH [OF rest] by simp_all
  then show ?case
    using u assms(3) by (auto simp: table_update_def live_session_table_def update_rows_def Let_def list_ex_iff
        split: if_splits option.splits)
qed

lemma ended_all:
  assumes "live_end c h k s at w = (Inr (), w1)" and "r \<in> set (live_rows (w_db w1))"
    and "ls_connection_id r = c" "ls_kind r = k" "ls_hostname r = h" "s = '''' \<or> ls_session_id r = s"
  shows "ls_ended_at r \<noteq> None"
proof
  assume open': "ls_ended_at r = None"
  let ?P = "\<lambda>r. ls_ended_at r = None \<and> ls_connection_id r = c \<and> ls_kind r = k \<and> ls_hostname r = h \<and>
    (s = '''' \<or> ls_session_id r = s)"
  have "for_each (filter ?P (live_rows (w_db w))) (\<lambda>row. seq (updates live_session_table
      (\<lambda>r. r\<lparr>ls_ended_at := Some (max at (ls_started_at row))\<rparr>) (\<lambda>r. ls_id r = ls_id row \<and> ls_ended_at r = None)) (ret ())) w
    = (Inr (), w1)"
    using assms(1) unfolding live_end_def and_then_read [OF live_connection_keeps]
    by (auto simp: and_then_Inr reads_all_run live_get)
  from ends_rows [OF this assms(2) open'] show False using assms(3-6) open' by auto
qed

lemma started:
  assumes "live_start cx c h k s at w = (Inr (), w1)" and "\<forall>r\<in>set (live_rows (w_db w)). ls_id r \<noteq> cx_uuid cx"
  shows "(c, k, s) \<in> session_key ` set (live_rows (w_db w1))"
proof -
  obtain row :: ssh_connection_row and d b where t: "table_create_if_absent live_session_table (\<lambda>_. \<lparr>ls_id = cx_uuid cx, ls_connection_id = c,
        ls_identity_id = sn_identity_id row, ls_hostname = h, ls_kind = k, ls_session_id = s,
        ls_started_at = at, ls_ended_at = None, ls_deadline = sn_deadline row\<rparr>) (w_db w) = (Inr b, d)" "w_db w1 = d"
    using assms(1) unfolding live_start_def and_then_read [OF live_connection_keeps]
    by (fastforce simp: act_Inr creates_if_absent_def on_db_Inr)
  let ?new = "\<lparr>ls_id = cx_uuid cx, ls_connection_id = c, ls_identity_id = sn_identity_id row, ls_hostname = h, ls_kind = k,
      ls_session_id = s, ls_started_at = at, ls_ended_at = None, ls_deadline = sn_deadline row\<rparr>"
  show ?thesis
  proof (cases "violated (td_unique live_session_table) ?new (live_rows (w_db w))")
    case None
    then have "live_rows d = live_rows (w_db w) @ [?new]"
      using t(1) by (auto simp: table_create_if_absent_def table_create_def insert_row_def Let_def live_get)
        (simp add: live_session_table_def)
    then show ?thesis by (simp add: t(2) session_key_def)
  next
    case (Some u)
    then have "d = w_db w"
      using t(1) by (simp add: table_create_if_absent_def table_create_def insert_row_def Let_def live_get)
    moreover have "\<not> (\<forall>u\<in>set (td_unique live_session_table). \<forall>r\<in>set (live_rows (w_db w)). \<not> snd u ?new r)"
      unfolding violated_None [symmetric] using Some by simp
    ultimately show ?thesis using assms(2)
      by (auto simp: live_session_table_def t(2) session_key_def image_iff)
  qed
qed

lemma start_again:
  assumes "live_connection c h v = (Inr row, v)" and "(c, k, s) \<in> session_key ` set (live_rows (w_db v))"
  shows "live_start cx c h k s at v = (Inr (), v)"
proof -
  have "table_create_if_absent live_session_table mk (w_db v) = (Inr False, w_db v)"
    if "ls_connection_id (mk n) = c" "ls_kind (mk n) = k" "ls_session_id (mk n) = s" "n = tb_seq (db_live_session (w_db v)) + 1" for mk n
  proof -
    have "violated (td_unique live_session_table) (mk n) (live_rows (w_db v)) \<noteq> None"
      using that assms(2) unfolding violated_None by (auto simp: live_session_table_def session_key_def)
    then show ?thesis using that(4)
      by (auto simp: table_create_if_absent_def table_create_def insert_row_def live_session_table_def Let_def)
  qed
  then show ?thesis
    using assms(1) by (simp add: live_start_def and_then_def seq_def creates_if_absent_def on_db_def ret_def)
qed

lemma end_again:
  assumes "live_connection c h v = (Inr row, v)"
    and "\<forall>r\<in>set (live_rows (w_db v)). ls_connection_id r = c \<and> ls_kind r = k \<and> ls_hostname r = h \<and>
      (s = '''' \<or> ls_session_id r = s) \<longrightarrow> ls_ended_at r \<noteq> None"
  shows "live_end c h k s at v = (Inr (), v)"
proof -
  have "filter (\<lambda>r. ls_ended_at r = None \<and> ls_connection_id r = c \<and> ls_kind r = k \<and> ls_hostname r = h \<and>
      (s = '''' \<or> ls_session_id r = s)) (live_rows (w_db v)) = []"
    using assms(2) by (auto simp: filter_empty_conv)
  then show ?thesis
    using assms(1) by (simp add: live_end_def and_then_def reads_all_run live_session_table_def ret_def)
qed

lemma others_ended:
  assumes o: "others_reported h data d d'" and "\<forall>r\<in>set (live_rows d). about h data r \<longrightarrow> ls_ended_at r \<noteq> None"
    and "r' \<in> set (live_rows d')" and "about h data r'"
  shows "ls_ended_at r' \<noteq> None"
proof -
  obtain r where r: "r \<in> set (live_rows d)" "session_key r = session_key r'"
    using o assms(3,4) unfolding others_reported_def by blast
  then obtain r2 where r2: "r2 \<in> set (live_rows d')" "session_key r2 = session_key r" "ls_hostname r2 = ls_hostname r"
      "ls_ended_at r \<noteq> None \<longrightarrow> r2 = r"
    using o unfolding others_reported_def by blast
  have "inj_on session_key (set (live_rows d'))" using o unfolding others_reported_def by (simp add: distinct_map)
  then have "r2 = r'" using r r2 assms(3) by (metis inj_onD)
  moreover have "about h data r" using r(2) r2(3) \<open>r2 = r'\<close> assms(4) by (simp add: about_def session_key_def)
  ultimately show ?thesis using assms(2) r(1) r2(4) by blast
qed

text \<open>
  C34. A host may report again. When the report of a session's start or end has succeeded and arrives again, from the
  same host and while the connection is known, then it succeeds and changes nothing, even if other sessions were
  reported in between; the end of a session keeps its first time. So the repetitions that the spool allows do
  no harm.
\<close>

theorem repeated_report_changes_nothing:
  assumes "report_endpoint k cx data w = (Inr (), w1)" and "\<forall>r\<in>set (live_rows (w_db w)). ls_id r \<noteq> cx_uuid cx"
    and "caller_hostname cx w = (Inr hostname, w)" and "caller_hostname cx' v = (Inr hostname, v)"
    and "db_ssh_connection (w_db v) = db_ssh_connection (w_db w)"
    and "others_reported hostname data (w_db w1) (w_db v)"
  shows "report_endpoint k cx' data v = (Inr (), v)"
proof -
  let ?c = "lr_connection_id data" and ?k = "lr_kind data" and ?s = "lr_session_id data"
  have same: "live_connection ?c hostname v = (r, v)" if "live_connection ?c hostname w = (r, w)" for r
    using that assms(5) by (auto simp: live_connection_def and_then_def reads_one_run ssh_connection_table_def raising_def ret_def
        split: option.splits if_splits)
  show ?thesis
  proof (cases k)
    case Starts
    have first: "live_start cx ?c hostname ?k ?s (min (lr_at data) (cx_now cx)) w = (Inr (), w1)"
      using assms(1,3) by (simp add: Starts report_endpoint_def start_endpoint_def refuse_unknown_Inr and_then_Inr)
    then obtain row where "live_connection ?c hostname w = (Inr row, w)"
      unfolding live_start_def by (auto simp: and_then_read [OF live_connection_keeps])
    then have conn: "live_connection ?c hostname v = (Inr row, v)" by (rule same)
    have "(?c, ?k, ?s) \<in> session_key ` set (live_rows (w_db v))"
      using started [OF first assms(2)] assms(6) unfolding others_reported_def by (metis (no_types, lifting) image_iff)
    then show ?thesis using start_again [OF conn] assms(4)
      by (simp add: Starts report_endpoint_def start_endpoint_def refuse_unknown_Inr and_then_Inr)
  next
    case Ends
    have first: "live_end ?c hostname ?k ?s (min (lr_at data) (cx_now cx)) w = (Inr (), w1)"
      using assms(1,3) by (simp add: Ends report_endpoint_def end_endpoint_def refuse_unknown_Inr and_then_Inr)
    then obtain row where "live_connection ?c hostname w = (Inr row, w)"
      unfolding live_end_def by (auto simp: and_then_read [OF live_connection_keeps])
    then have conn: "live_connection ?c hostname v = (Inr row, v)" by (rule same)
    have "\<forall>r\<in>set (live_rows (w_db w1)). about hostname data r \<longrightarrow> ls_ended_at r \<noteq> None"
      using ended_all [OF first] by (auto simp: about_def)
    then have "\<forall>r\<in>set (live_rows (w_db v)). about hostname data r \<longrightarrow> ls_ended_at r \<noteq> None"
      using others_ended [OF assms(6)] by blast
    then show ?thesis using end_again [OF conn] assms(4)
      by (auto simp: about_def Ends report_endpoint_def end_endpoint_def refuse_unknown_Inr and_then_Inr)
  qed
qed

text \<open>
  The host db1 reports the end of a session, another session of the same certificate starts, and the report of the
  end arrives again.
\<close>

definition open_session :: "string \<Rightarrow> live_session_row" where
  "open_session s = \<lparr>ls_id = ''l'' @ s, ls_connection_id = ''c'', ls_identity_id = 1, ls_hostname = ''db1'', ls_kind = ''host'',
    ls_session_id = s, ls_started_at = 900, ls_ended_at = None, ls_deadline = None\<rparr>"

definition live_world :: "live_session_row list \<Rightarrow> world" where
  "live_world sessions = ssh_world\<lparr>w_db := (w_db ssh_world)\<lparr>
    db_ssh_connection := \<lparr>tb_rows = [\<lparr>sn_connection_id = ''c'', sn_identity_id = 1, sn_hostname = ''db1'', sn_deadline = None,
      sn_valid_before = 2000\<rparr>], tb_seq = 1\<rparr>,
    db_live_session := \<lparr>tb_rows = sessions, tb_seq = 0\<rparr>\<rparr>\<rparr>"

definition reporting_host :: request_ctx where
  "reporting_host = sample_cx\<lparr>cx_identity_id := Some 2\<rparr>"

definition end_report :: live_report where
  "end_report = \<lparr>lr_connection_id = ''c'', lr_kind = ''host'', lr_session_id = ''7'', lr_at = 950\<rparr>"

lemma reporting_hostname: "caller_hostname reporting_host (live_world sessions) = (Inr ''db1'', live_world sessions)"
proof -
  have "fst (caller_hostname reporting_host (live_world sessions)) = Inr ''db1''" by code_simp
  moreover have "snd (caller_hostname reporting_host (live_world sessions)) = live_world sessions"
    using keepsD [OF caller_hostname_keeps [of "\<lambda>v. v = live_world sessions" reporting_host]] by (metis prod.collapse)
  ultimately show ?thesis by (metis prod.collapse)
qed

theorem repeated_report_changes_nothing_witness:
  "report_endpoint Ends reporting_host end_report (live_world [open_session ''7'']) =
      (Inr (), live_world [(open_session ''7'')\<lparr>ls_ended_at := Some 950\<rparr>]) \<and>
    report_endpoint Ends (reporting_host\<lparr>cx_now := 1100\<rparr>) end_report
      (live_world [(open_session ''7'')\<lparr>ls_ended_at := Some 950\<rparr>, open_session ''8'']) =
      (Inr (), live_world [(open_session ''7'')\<lparr>ls_ended_at := Some 950\<rparr>, open_session ''8''])"
proof -
  let ?w = "live_world [open_session ''7'']" and ?w1 = "live_world [(open_session ''7'')\<lparr>ls_ended_at := Some 950\<rparr>]"
  let ?v = "live_world [(open_session ''7'')\<lparr>ls_ended_at := Some 950\<rparr>, open_session ''8'']"
  let ?later = "reporting_host\<lparr>cx_now := 1100\<rparr>"
  have conn: "live_connection ''c'' ''db1'' ?w = (Inr \<lparr>sn_connection_id = ''c'', sn_identity_id = 1, sn_hostname = ''db1'',
      sn_deadline = None, sn_valid_before = 2000\<rparr>, ?w)"
    by (simp add: live_connection_def and_then_def reads_one_run ssh_connection_table_def live_world_def ret_def)
  have "live_end ''c'' ''db1'' ''host'' ''7'' 950 ?w = (Inr (), ?w1)"
    using conn by (simp add: live_end_def and_then_def reads_all_run live_get)
      (simp add: live_world_def open_session_def seq_def and_then_def updates_def on_db_def table_update_def live_session_table_def
        update_rows_def violated_def ret_def Let_def)
  then have first: "report_endpoint Ends reporting_host end_report ?w = (Inr (), ?w1)"
    using reporting_hostname by (simp add: report_endpoint_def end_endpoint_def refuse_unknown_Inr and_then_Inr end_report_def
        reporting_host_def sample_cx_def)
  have "caller_hostname ?later = caller_hostname reporting_host"
    by (simp add: caller_hostname_def identity_read_self_def)
  then have "caller_hostname ?later ?v = (Inr ''db1'', ?v)" using reporting_hostname by simp
  moreover have "others_reported ''db1'' end_report (w_db ?w1) (w_db ?v)"
    by (simp add: others_reported_def live_world_def session_key_def open_session_def about_def end_report_def)
  ultimately have "report_endpoint Ends ?later end_report ?v = (Inr (), ?v)"
    by (intro repeated_report_changes_nothing [OF first _ reporting_hostname])
      (simp_all add: live_world_def open_session_def reporting_host_def sample_cx_def)
  then show ?thesis using first by blast
qed

end
