(* ===== verification/Host_Procs.thy ===== *)
theory Host_Procs
  imports Decimal Unix_Account
begin

text \<open>
  \<open>cli/pf/host/procs.py\<close>: the process table of a host, as a list of processes with distinct ids (the code
  keeps a dictionary that is keyed by the id of each process). The tool \<open>ps\<close> that prints the table and
  the system call that sends a signal are left to the system.
\<close>

record proc =
  ps_pid :: int
  ps_ppid :: int
  ps_command :: string

type_synonym snapshot = "proc list"
type_synonym connection_test = "snapshot \<Rightarrow> proc \<Rightarrow> bool"

definition proc_of :: "snapshot \<Rightarrow> int \<Rightarrow> proc option" where
  "proc_of table pid = List.find (\<lambda>p. ps_pid p = pid) table"

section \<open>Which process is a connection\<close>

text \<open>\<open>sshd(-session)?: .* \[priv\]\<close>, on a title without the white space around it.\<close>

definition monitor_title :: "string \<Rightarrow> string \<Rightarrow> bool" where
  "monitor_title prefix title =
    (let suffix = '' [priv]''; n = length prefix; m = length suffix
     in n + m \<le> length title \<and> take n title = prefix \<and> drop (length title - m) title = suffix \<and>
        CHR ''\<newline>'' \<notin> set (drop n (take (length title - m) title)))"

definition is_sshd_monitor :: "proc \<Rightarrow> bool" where
  "is_sshd_monitor p = (let title = strip_spaces (ps_command p)
    in monitor_title ''sshd: '' title \<or> monitor_title ''sshd-session: '' title)"

definition macos_connection :: connection_test where
  "macos_connection snap p \<longleftrightarrow> is_sshd_monitor p \<and> ps_ppid p = 1"

definition windows_connection :: connection_test where
  "windows_connection snap p =
    (if lower (ps_command p) \<noteq> ''sshd.exe'' then False
     else case proc_of snap (ps_ppid p) of
       None \<Rightarrow> False
     | Some parent \<Rightarrow>
         if lower (ps_command parent) \<noteq> ''sshd.exe'' then False
         else case proc_of snap (ps_ppid parent) of
           None \<Rightarrow> False | Some grandparent \<Rightarrow> lower (ps_command grandparent) = ''services.exe'')"

section \<open>Reading the table\<close>

text \<open>
  \<open>str.splitlines\<close> and \<open>str.split(None, 2)\<close> on the characters of ASCII. A blank line more or less makes no
  difference, so each character that ends a line counts for itself.
\<close>

definition ends_line :: "char \<Rightarrow> bool" where
  "ends_line c = (let n = of_char c :: nat in (10 \<le> n \<and> n \<le> 13) \<or> (28 \<le> n \<and> n \<le> 30))"

fun splitlines :: "string \<Rightarrow> string list" where
  "splitlines [] = [[]]"
| "splitlines (c # cs) = (if ends_line c then [] # splitlines cs
     else case splitlines cs of [] \<Rightarrow> [[c]] | l # ls \<Rightarrow> (c # l) # ls)"

definition first_word :: "string \<Rightarrow> string \<times> string" where
  "first_word s = (let t = dropWhile is_space s
    in (takeWhile (\<lambda>c. \<not> is_space c) t, dropWhile is_space (dropWhile (\<lambda>c. \<not> is_space c) t)))"

definition put_proc :: "proc \<Rightarrow> snapshot \<Rightarrow> snapshot" where
  "put_proc p table = (if list_ex (\<lambda>q. ps_pid q = ps_pid p) table
    then map (\<lambda>q. if ps_pid q = ps_pid p then p else q) table else table @ [p])"

definition parse_line :: "string \<Rightarrow> proc option" where
  "parse_line line = (case first_word line of (w1, rest1) \<Rightarrow> (case first_word rest1 of (w2, rest2) \<Rightarrow>
    (case (python_int w1, python_int w2) of
       (Some pid, Some ppid) \<Rightarrow> Some \<lparr>ps_pid = pid, ps_ppid = ppid, ps_command = rest2\<rparr>
     | _ \<Rightarrow> None)))"

definition parse_ps :: "string \<Rightarrow> snapshot" where
  "parse_ps output = fold (\<lambda>line table. case parse_line line of None \<Rightarrow> table | Some p \<Rightarrow> put_proc p table)
    (splitlines output) []"

lemma put_proc_distinct:
  assumes "distinct (map ps_pid table)"
  shows "distinct (map ps_pid (put_proc p table))"
proof (cases "list_ex (\<lambda>q. ps_pid q = ps_pid p) table")
  case True
  have "map ps_pid (map (\<lambda>q. if ps_pid q = ps_pid p then p else q) table) = map ps_pid table" by simp
  then show ?thesis using True assms by (simp only: put_proc_def if_True)
next
  case False
  then show ?thesis using assms by (auto simp: put_proc_def list_ex_iff)
qed

lemma parse_ps_distinct: "distinct (map ps_pid (parse_ps output))"
proof -
  have "distinct (map ps_pid (fold (\<lambda>line table. case parse_line line of None \<Rightarrow> table | Some p \<Rightarrow> put_proc p table)
      ls table))" if "distinct (map ps_pid table)" for ls table
    using that by (induction ls arbitrary: table) (auto simp: put_proc_distinct split: option.split)
  then show ?thesis by (simp add: parse_ps_def)
qed

section \<open>Above and below a process\<close>

text \<open>The loop ends because each parent that it visits is seen only once.\<close>

function ancestors_from :: "snapshot \<Rightarrow> int list \<Rightarrow> proc \<Rightarrow> proc list" where
  "ancestors_from table seen current =
    (if ps_ppid current > 0 \<and> ps_ppid current \<notin> set seen
     then case proc_of table (ps_ppid current) of
       None \<Rightarrow> [] | Some parent \<Rightarrow> parent # ancestors_from table (ps_pid parent # seen) parent
     else [])"
  by pat_completeness auto

lemma proc_of_Some: "proc_of table pid = Some p \<Longrightarrow> p \<in> set table \<and> ps_pid p = pid"
  by (auto simp: proc_of_def find_Some_iff)

termination ancestors_from
proof (relation "measure (\<lambda>(table, seen, _). card (ps_pid ` set table - set seen))")
  fix table seen and current parent :: proc
  assume "ps_ppid current > 0 \<and> ps_ppid current \<notin> set seen" and "proc_of table (ps_ppid current) = Some parent"
  then have "ps_pid parent \<in> ps_pid ` set table - set seen"
    using proc_of_Some [of table "ps_ppid current" parent] imageI [of parent "set table" ps_pid] by simp
  then have "ps_pid ` set table - set (ps_pid parent # seen) \<subset> ps_pid ` set table - set seen" by auto
  then show "((table, ps_pid parent # seen, parent), table, seen, current)
      \<in> measure (\<lambda>(table, seen, _). card (ps_pid ` set table - set seen))"
    by (simp add: psubset_card_mono)
qed simp

declare ancestors_from.simps [simp del]

definition ancestors :: "snapshot \<Rightarrow> int \<Rightarrow> proc list" where
  "ancestors table pid = (case proc_of table pid of None \<Rightarrow> [] | Some p \<Rightarrow> ancestors_from table [pid] p)"

definition find_ancestor :: "snapshot \<Rightarrow> int \<Rightarrow> connection_test \<Rightarrow> proc option" where
  "find_ancestor table pid test = List.find (test table) (ancestors table pid)"

definition children :: "snapshot \<Rightarrow> int \<Rightarrow> int list" where
  "children table pid = sort (map ps_pid (filter (\<lambda>p. ps_ppid p = pid) table))"

definition visit_child :: "int \<Rightarrow> int \<Rightarrow> int list \<times> int list \<Rightarrow> int list \<times> int list" where
  "visit_child pid child fq = (case fq of (found, queue) \<Rightarrow>
    if child \<noteq> pid \<and> child \<notin> set found then (found @ [child], queue @ [child]) else (found, queue))"

text \<open>Children that were not found before are found and queued; each process is queued once.\<close>

lemma visit_children:
  "\<exists>new. fold (visit_child pid) cs (found, queue) = (found @ new, queue @ new) \<and>
    set new = set cs - set found - {pid} \<and> distinct new"
proof (induction cs arbitrary: found queue)
  case (Cons c cs)
  show ?case
  proof (cases "c \<noteq> pid \<and> c \<notin> set found")
    case True
    obtain new where new: "fold (visit_child pid) cs (found @ [c], queue @ [c]) = ((found @ [c]) @ new, (queue @ [c]) @ new)"
        "set new = set cs - set (found @ [c]) - {pid}" "distinct new"
      using Cons.IH by blast
    have "set (c # new) = set (c # cs) - set found - {pid}" "distinct (c # new)"
      using True new(2,3) by auto
    moreover have "fold (visit_child pid) (c # cs) (found, queue) = (found @ (c # new), queue @ (c # new))"
      using True new(1) by (simp add: visit_child_def)
    ultimately show ?thesis by blast
  next
    case False
    obtain new where new: "fold (visit_child pid) cs (found, queue) = (found @ new, queue @ new)"
        "set new = set cs - set found - {pid}" "distinct new"
      using Cons.IH by blast
    have "set new = set (c # cs) - set found - {pid}" using False new(2) by auto
    moreover have "fold (visit_child pid) (c # cs) (found, queue) = (found @ new, queue @ new)"
      using False new(1) by (auto simp: visit_child_def)
    ultimately show ?thesis using new(3) by blast
  qed
qed simp

function search_below :: "snapshot \<Rightarrow> int \<Rightarrow> int list \<Rightarrow> int list \<Rightarrow> int list" where
  "search_below table pid found [] = found"
| "search_below table pid found (x # queue) =
    (let fq = fold (visit_child pid) (children table x) (found, queue) in search_below table pid (fst fq) (snd fq))"
  by pat_completeness auto

lemma undiscovered_shrinks:
  assumes "set new \<subseteq> A - F" and "distinct new" and "finite A"
  shows "card (A - (F \<union> set new)) + length new = card (A - F)"
proof -
  have "A - (F \<union> set new) = (A - F) - set new" by blast
  then have "card (A - (F \<union> set new)) = card (A - F) - card (set new)"
    using assms(1) by (simp add: card_Diff_subset)
  moreover have "card (set new) \<le> card (A - F)" using assms(1,3) by (intro card_mono) auto
  ultimately show ?thesis using assms(2) by (simp add: distinct_card)
qed

termination search_below
proof (relation "measure (\<lambda>(table, pid, found, queue). card (ps_pid ` set table - set found) + length queue)")
  fix table pid found x queue fq
  assume fq: "fq = fold (visit_child pid) (children table x) (found, queue)"
  obtain new where new: "fq = (found @ new, queue @ new)" "set new = set (children table x) - set found - {pid}" "distinct new"
    using visit_children fq by metis
  have "set new \<subseteq> ps_pid ` set table - set found" using new(2) by (auto simp: children_def)
  then have "card (ps_pid ` set table - (set found \<union> set new)) + length new = card (ps_pid ` set table - set found)"
    by (rule undiscovered_shrinks [OF _ new(3)]) simp
  then show "((table, pid, fst fq, snd fq), table, pid, found, x # queue)
      \<in> measure (\<lambda>(table, pid, found, queue). card (ps_pid ` set table - set found) + length queue)"
    by (simp add: new(1))
qed simp

definition descendants :: "snapshot \<Rightarrow> int \<Rightarrow> int list" where
  "descendants table pid = search_below table pid [] [pid]"

section \<open>The search is exact\<close>

text \<open>\<open>(p, q)\<close>: \<open>p\<close> is the parent of \<open>q\<close>.\<close>

definition parent_of :: "snapshot \<Rightarrow> (int \<times> int) set" where
  "parent_of table = {(ps_ppid p, ps_pid p) | p. p \<in> set table}"

lemma set_children: "set (children table x) = {q. (x, q) \<in> parent_of table}"
  by (auto simp: children_def parent_of_def)

text \<open>Everything found is below, and what is found but not queued any more has its children found.\<close>

lemma search_below_exact:
  assumes "set found \<subseteq> {q. (pid, q) \<in> (parent_of table)\<^sup>+} - {pid}" and "set queue \<subseteq> insert pid (set found)"
    and "\<And>x. x \<in> insert pid (set found) - set queue \<Longrightarrow> {q. (x, q) \<in> parent_of table} - {pid} \<subseteq> set found"
    and "distinct found"
  shows "set (search_below table pid found queue) = {q. (pid, q) \<in> (parent_of table)\<^sup>+} - {pid} \<and>
    distinct (search_below table pid found queue)"
  using assms
proof (induction table pid found queue rule: search_below.induct)
  case (1 table pid found)
  have "q \<in> set found" if "(pid, q) \<in> (parent_of table)\<^sup>+" "q \<noteq> pid" for q
    using that
  proof (induction rule: trancl_induct)
    case (base y)
    then show ?case using "1.prems"(3) [of pid] by auto
  next
    case (step y z)
    then have "y \<in> insert pid (set found)" by blast
    then show ?case using "1.prems"(3) [of y] step by auto
  qed
  then show ?case using 1 by auto
next
  case (2 table pid found x queue)
  obtain new where new: "fold (visit_child pid) (children table x) (found, queue) = (found @ new, queue @ new)"
      "set new = set (children table x) - set found - {pid}" "distinct new"
    using visit_children by blast
  have x: "x = pid \<or> (pid, x) \<in> (parent_of table)\<^sup>+" using "2.prems"(1,2) by auto
  have below: "set (found @ new) \<subseteq> {q. (pid, q) \<in> (parent_of table)\<^sup>+} - {pid}"
    using "2.prems"(1) x new(2) by (auto simp: set_children intro: trancl_into_trancl)
  have queued: "set (queue @ new) \<subseteq> insert pid (set (found @ new))" using "2.prems"(2) by auto
  have closed: "{q. (y, q) \<in> parent_of table} - {pid} \<subseteq> set (found @ new)"
    if "y \<in> insert pid (set (found @ new)) - set (queue @ new)" for y
  proof (cases "y = x")
    case True
    then show ?thesis using new(2) by (auto simp: set_children)
  next
    case False
    then show ?thesis using "2.prems"(3) [of y] that by auto
  qed
  have "distinct (found @ new)" using "2.prems"(4) new(2,3) by auto
  then have "set (search_below table pid (found @ new) (queue @ new)) = {q. (pid, q) \<in> (parent_of table)\<^sup>+} - {pid} \<and>
      distinct (search_below table pid (found @ new) (queue @ new))"
    using "2.IH" [OF refl, unfolded new(1) fst_conv snd_conv] below queued closed by blast
  then show ?case by (simp add: new(1))
qed

lemma descendants_exact:
  "set (descendants table pid) = {q. (pid, q) \<in> (parent_of table)\<^sup>+} - {pid} \<and> distinct (descendants table pid)"
  unfolding descendants_def by (rule search_below_exact) auto

end
