(* ===== verification/Session_Reaper.thy ===== *)
theory Session_Reaper
  imports Host_Procs Live_Events
begin

text \<open>
  \<open>cli/pf/openssh_session_reaper.py\<close>: the program that ends SSH sessions at the deadline of their
  certificate, or on request. Times are in microseconds; the clock, the process table and the start
  times of the processes are read once for each tick. The directory of the records belongs to an
  unprivileged user, so anything may be in it. The entries that the program removes are not directories.
  A signal that cannot be sent is a signal that had no effect, so the log has every attempt.
\<close>

section \<open>Records of connections\<close>

record conn_record =
  cr_pid :: int
  cr_written_ms :: int
  cr_deadline :: "int option"
  cr_connection_id :: string

definition MAX_RECORD_BYTES :: int where "MAX_RECORD_BYTES = 4096"
definition MAX_PID :: int where "MAX_PID = 2 ^ 31"
definition KILL_REQUEST_TTL :: int where "KILL_REQUEST_TTL = 60000000"

definition conn_record_name :: "int \<Rightarrow> string \<Rightarrow> string" where
  "conn_record_name pid connection_id = show_int pid @ ''-'' @ connection_id @ ''.json''"

text \<open>\<open>([0-9]+)-(CONNECTION_ID)\.json\<close>: the groups.\<close>

definition conn_record_groups :: "string \<Rightarrow> (string \<times> string) option" where
  "conn_record_groups name =
    (let n = length name - 42; digits = take n name; connection_id = take 36 (drop (n + 1) name)
     in if digits \<noteq> [] \<and> list_all is_ascii_digit digits \<and> take 1 (drop n name) = ''-'' \<and>
          connection_id_ok connection_id \<and> drop (n + 37) name = ''.json''
        then Some (digits, connection_id) else None)"

definition conn_record_text_size :: "conn_record \<Rightarrow> int" where
  "conn_record_text_size r = int (length (''{\"pid\": '' @ show_int (cr_pid r) @
    '', \"written_ms\": '' @ show_int (cr_written_ms r) @ '', \"deadline\": '' @
    (case cr_deadline r of None \<Rightarrow> ''null'' | Some d \<Rightarrow> show_int d) @
    '', \"connection_id\": \"'' @ cr_connection_id r @ ''\"}''))"

definition conn_record_file :: "int \<Rightarrow> conn_record \<Rightarrow> host_file" where
  "conn_record_file now r = \<lparr>fl_regular = True, fl_size = conn_record_text_size r, fl_mtime = now,
    fl_json = Some (JObject [(''pid'', JInt (cr_pid r)), (''written_ms'', JInt (cr_written_ms r)),
      (''deadline'', case cr_deadline r of None \<Rightarrow> JNull | Some d \<Rightarrow> JInt d),
      (''connection_id'', JText (cr_connection_id r))])\<rparr>"

definition write_record :: "int \<Rightarrow> conn_record \<Rightarrow> directory \<Rightarrow> string \<times> directory" where
  "write_record now r dir = (let path = conn_record_name (cr_pid r) (cr_connection_id r)
    in (path, write_file path (conn_record_file now r) dir))"

text \<open>The deadline of a record: absent is not the same as null.\<close>

definition read_deadline :: "json option \<Rightarrow> int option option" where
  "read_deadline v = (case v of
     Some JNull \<Rightarrow> Some None
   | Some (JInt d) \<Rightarrow> Some (Some d)
   | _ \<Rightarrow> None)"

definition read_record :: "string \<Rightarrow> host_file \<Rightarrow> conn_record option" where
  "read_record name f = (case conn_record_groups name of
     None \<Rightarrow> None
   | Some groups \<Rightarrow>
       if \<not> fl_regular f \<or> fl_size f > MAX_RECORD_BYTES then None
       else case fl_json f of
         Some (JObject obj) \<Rightarrow>
           (case (read_deadline (map_of obj ''deadline''), map_of obj ''pid'', map_of obj ''written_ms'', map_of obj ''connection_id'') of
              (Some deadline, Some (JInt pid), Some (JInt written_ms), Some (JText connection_id)) \<Rightarrow>
                if \<not> (1 < pid \<and> pid < MAX_PID) \<or> written_ms \<le> 0 \<or> (case deadline of None \<Rightarrow> False | Some d \<Rightarrow> d \<le> 0) then None
                else if \<not> connection_id_ok connection_id then None
                else if (show_int pid, connection_id) \<noteq> groups then None
                else Some \<lparr>cr_pid = pid, cr_written_ms = written_ms, cr_deadline = deadline, cr_connection_id = connection_id\<rparr>
            | _ \<Rightarrow> None)
       | _ \<Rightarrow> None)"

definition register_session ::
    "connection_test \<Rightarrow> snapshot \<Rightarrow> int \<Rightarrow> int \<Rightarrow> int option \<Rightarrow> string \<Rightarrow> directory \<Rightarrow> string option \<times> directory" where
  "register_session test table now pid deadline connection_id dir =
    (if \<not> connection_id_ok connection_id then (None, dir)
     else case find_ancestor table pid test of
       None \<Rightarrow> (None, dir)
     | Some monitor \<Rightarrow>
         (case write_record now \<lparr>cr_pid = ps_pid monitor, cr_written_ms = now div 1000, cr_deadline = deadline,
             cr_connection_id = connection_id\<rparr> dir of (path, dir) \<Rightarrow> (Some path, dir)))"

section \<open>Requests to end a session\<close>

definition kill_request_name :: "string \<Rightarrow> string" where
  "kill_request_name connection_id = ''kill-'' @ connection_id"

definition kill_request_of :: "string \<Rightarrow> string option" where
  "kill_request_of name = (if take 5 name = ''kill-'' \<and> connection_id_ok (drop 5 name) then Some (drop 5 name) else None)"

definition request_kill :: "int \<Rightarrow> string \<Rightarrow> directory \<Rightarrow> bool \<times> directory" where
  "request_kill now connection_id dir =
    (if \<not> connection_id_ok connection_id then (False, dir)
     else (True, write_file (kill_request_name connection_id) (empty_file now) dir))"

text \<open>The requests, with when each was first seen without a live session.\<close>

record kill_requests =
  kr_files :: "directory option"
  kr_orphans :: "(string \<times> int) list"

definition requested :: "kill_requests \<Rightarrow> string list" where
  "requested kr = (case kr_files kr of None \<Rightarrow> [] | Some dir \<Rightarrow> List.map_filter (\<lambda>(name, _). kill_request_of name) dir)"

definition remove_request :: "string \<Rightarrow> kill_requests \<Rightarrow> kill_requests" where
  "remove_request connection_id kr = (case kr_files kr of
     None \<Rightarrow> kr
   | Some dir \<Rightarrow> kr\<lparr>kr_files := Some (unlink (kill_request_name connection_id) dir)\<rparr>)"

definition expire_request :: "int \<Rightarrow> string \<Rightarrow> kill_requests \<Rightarrow> kill_requests" where
  "expire_request now connection_id kr =
    (let first_seen = (case map_of (kr_orphans kr) connection_id of None \<Rightarrow> now | Some t \<Rightarrow> t)
     in if now - first_seen < KILL_REQUEST_TTL
        then kr\<lparr>kr_orphans := AList.update connection_id first_seen (kr_orphans kr)\<rparr>
        else (remove_request connection_id kr)\<lparr>kr_orphans := AList.delete connection_id (kr_orphans kr)\<rparr>)"

definition expire_requests :: "int \<Rightarrow> string list \<Rightarrow> kill_requests \<Rightarrow> kill_requests" where
  "expire_requests now orphans kr = (case kr_files kr of
     None \<Rightarrow> kr
   | Some _ \<Rightarrow> fold (expire_request now) orphans
       (kr\<lparr>kr_orphans := filter (\<lambda>(c, _). c \<in> set orphans) (kr_orphans kr)\<rparr>))"

section \<open>The reaper of a host without PAM sessions\<close>

record reaper_config =
  rc_live :: bool
  rc_test :: connection_test
  rc_grace :: int

text \<open>What a tick sees.\<close>

record moment =
  mo_now :: int
  mo_snapshot :: snapshot
  mo_start :: "int \<Rightarrow> int option"
  mo_rnd :: string

text \<open>The directories, what the program did (events that it reported, signals that it sent) and what it keeps.\<close>

record reaper =
  re_records :: directory
  re_requests :: kill_requests
  re_spool :: spool
  re_events :: "event list"
  re_signals :: "(int \<times> bool) list"
  re_bound :: "(string \<times> int) list"
  re_ending :: "(string \<times> int) list"
  re_reported :: "(string \<times> conn_record) list"

definition report :: "reaper_config \<Rightarrow> moment \<Rightarrow> event_kind \<Rightarrow> conn_record \<Rightarrow> int \<Rightarrow> reaper \<Rightarrow> reaper" where
  "report rc mo kind r at re =
    (if \<not> rc_live rc then re
     else let e = \<lparr>ev_kind = kind, ev_connection_id = cr_connection_id r, ev_session_id = show_int (cr_pid r), ev_at = at\<rparr>
       in re\<lparr>re_spool := snd (write_event (mo_now mo) (mo_rnd mo) e (re_spool re)), re_events := re_events re @ [e]\<rparr>)"

definition forget :: "reaper_config \<Rightarrow> moment \<Rightarrow> string \<Rightarrow> reaper \<Rightarrow> reaper" where
  "forget rc mo name re =
    (let re1 = re\<lparr>re_bound := AList.delete name (re_bound re), re_ending := AList.delete name (re_ending re),
       re_reported := AList.delete name (re_reported re)\<rparr>
     in case map_of (re_reported re) name of
       None \<Rightarrow> re1
     | Some r \<Rightarrow> report rc mo Ends r (mo_now mo div 1000000) re1)"

definition drop_record :: "reaper_config \<Rightarrow> moment \<Rightarrow> string \<Rightarrow> reaper \<Rightarrow> reaper" where
  "drop_record rc mo name re = forget rc mo name (re\<lparr>re_records := unlink name (re_records re)\<rparr>)"

definition send_signals :: "int list \<Rightarrow> bool \<Rightarrow> reaper \<Rightarrow> reaper" where
  "send_signals pids force re = re\<lparr>re_signals := re_signals re @ map (\<lambda>pid. (pid, force)) pids\<rparr>"

definition enforce :: "reaper_config \<Rightarrow> moment \<Rightarrow> string \<Rightarrow> conn_record \<Rightarrow> bool \<Rightarrow> reaper \<Rightarrow> reaper" where
  "enforce rc mo name r kill_requested re =
    (let now = mo_now mo; pids = descendants (mo_snapshot mo) (cr_pid r) @ [cr_pid r]
     in case map_of (re_ending re) name of
       None \<Rightarrow>
         if kill_requested \<or> (case cr_deadline r of None \<Rightarrow> False | Some deadline \<Rightarrow> now \<ge> deadline * 1000000)
         then (send_signals pids False re)\<lparr>re_ending := AList.update name now (re_ending re)\<rparr>
         else re
     | Some ended_at \<Rightarrow> if now - ended_at \<ge> rc_grace rc then send_signals pids True re else re)"

definition handle_bound ::
    "reaper_config \<Rightarrow> moment \<Rightarrow> string list \<Rightarrow> string \<Rightarrow> conn_record \<Rightarrow> reaper \<Rightarrow> conn_record option \<times> reaper" where
  "handle_bound rc mo asked name r re =
    (let re1 = (if map_of (re_reported re) name = None
       then report rc mo Starts r (cr_written_ms r div 1000) (re\<lparr>re_reported := AList.update name r (re_reported re)\<rparr>)
       else re)
     in (Some r, enforce rc mo name r (cr_connection_id r \<in> set asked) re1))"

definition handle ::
    "reaper_config \<Rightarrow> moment \<Rightarrow> string list \<Rightarrow> string \<Rightarrow> reaper \<Rightarrow> conn_record option \<times> reaper" where
  "handle rc mo asked name re = (let dropped = (None, drop_record rc mo name re)
    in case (case map_of (re_records re) name of None \<Rightarrow> None | Some f \<Rightarrow> read_record name f) of
      None \<Rightarrow> dropped
    | Some r \<Rightarrow>
        (case (proc_of (mo_snapshot mo) (cr_pid r), mo_start mo (cr_pid r)) of
           (Some p, Some started) \<Rightarrow>
             (case map_of (re_bound re) name of
                None \<Rightarrow>
                  if \<not> rc_test rc (mo_snapshot mo) p then dropped
                  else if started > cr_written_ms r div 1000 then dropped
                  else handle_bound rc mo asked name r (re\<lparr>re_bound := AList.update name started (re_bound re)\<rparr>)
              | Some bound \<Rightarrow> if bound \<noteq> started then dropped else handle_bound rc mo asked name r re)
         | _ \<Rightarrow> dropped))"

fun handle_names ::
    "reaper_config \<Rightarrow> moment \<Rightarrow> string list \<Rightarrow> string list \<Rightarrow> reaper \<Rightarrow> string list \<times> reaper" where
  "handle_names rc mo asked [] re = ([], re)"
| "handle_names rc mo asked (name # names) re =
    (if conn_record_groups name = None then handle_names rc mo asked names re
     else case handle rc mo asked name re of (r, re) \<Rightarrow>
       (case handle_names rc mo asked names re of (live, re) \<Rightarrow>
          ((case r of None \<Rightarrow> live | Some r \<Rightarrow> cr_connection_id r # live), re)))"

definition tick :: "reaper_config \<Rightarrow> moment \<Rightarrow> reaper \<Rightarrow> reaper" where
  "tick rc mo re =
    (let names = names_of (re_records re);
         asked = requested (re_requests re);
         (live, re) = handle_names rc mo asked names re;
         re = fold (forget rc mo) (filter (\<lambda>n. n \<notin> set names) (map fst (re_bound re))) re
     in re\<lparr>re_requests := expire_requests (mo_now mo) (filter (\<lambda>c. c \<notin> set live) asked) (re_requests re)\<rparr>)"

section \<open>The reaper of a Linux host\<close>

text \<open>The sessions that were asked to end are logged; \<open>loginctl\<close> ends them.\<close>

record logind_reaper =
  lr_requests :: kill_requests
  lr_terminated :: "string list"

definition logind_claim :: "directory \<Rightarrow> string \<Rightarrow> string list \<times> logind_reaper \<Rightarrow> string list \<times> logind_reaper" where
  "logind_claim sessions connection_id s = (case s of (unclaimed, lr) \<Rightarrow>
    (let ids = session_ids connection_id sessions
     in if ids = [] then (connection_id # unclaimed, lr)
        else (unclaimed, \<lparr>lr_requests = remove_request connection_id (lr_requests lr),
          lr_terminated = lr_terminated lr @ ids\<rparr>)))"

definition logind_tick :: "int \<Rightarrow> directory \<Rightarrow> logind_reaper \<Rightarrow> logind_reaper" where
  "logind_tick now sessions lr =
    (case fold (logind_claim sessions) (sort (requested (lr_requests lr))) ([], lr) of
       (unclaimed, lr) \<Rightarrow> lr\<lparr>lr_requests := expire_requests now unclaimed (lr_requests lr)\<rparr>)"

end
