(* ===== verification/Reaper_Safety.thy ===== *)
theory Reaper_Safety
  imports Session_Reaper
begin

text \<open>
  What the session reaper does to a host: whom it signals, whatever an unprivileged user writes in the
  directory of the records; that a session ends at its deadline; and that the events of a session alternate.
\<close>

section \<open>Names and records\<close>

lemma conn_record_groups_Some:
  assumes "conn_record_groups name = Some (digits, cid)"
  shows "name = digits @ ''-'' @ cid @ ''.json''" and "connection_id_ok cid"
proof -
  let ?n = "length name - 42"
  have g: "digits = take ?n name" "cid = take 36 (drop (?n + 1) name)" "take 1 (drop ?n name) = ''-''"
      "connection_id_ok cid" "drop (?n + 37) name = ''.json''"
    using assms by (auto simp: conn_record_groups_def Let_def split: if_splits)
  have "name = take ?n name @ take 1 (drop ?n name) @ take 36 (drop 1 (drop ?n name)) @ drop 36 (drop 1 (drop ?n name))"
    by (simp only: append_take_drop_id)
  also have "drop 1 (drop ?n name) = drop (?n + 1) name" by (simp add: add.commute)
  also have "drop 36 (drop (?n + 1) name) = drop (?n + 37) name" by (simp add: add.commute)
  finally show "name = digits @ ''-'' @ cid @ ''.json''" using g by simp
  show "connection_id_ok cid" by (rule g(4))
qed

lemma read_record_groups:
  "read_record name f = Some r \<Longrightarrow> conn_record_groups name = Some (show_int (cr_pid r), cr_connection_id r)"
  by (auto simp: read_record_def split: option.splits if_splits json.splits)

lemma read_record_name: "read_record name f = Some r \<Longrightarrow> name = conn_record_name (cr_pid r) (cr_connection_id r)"
  using conn_record_groups_Some(1) [OF read_record_groups] by (simp add: conn_record_name_def)

lemma read_record_same:
  assumes "read_record name f = Some r" and "read_record name f' = Some r'"
  shows "cr_pid r = cr_pid r'" and "cr_connection_id r = cr_connection_id r'"
  using read_record_groups [OF assms(1)] read_record_groups [OF assms(2)] by (auto simp: show_int_inj)

lemma conn_record_groups_name:
  assumes "connection_id_ok cid" and "digits \<noteq> []" and "list_all is_ascii_digit digits"
  shows "conn_record_groups (digits @ ''-'' @ cid @ ''.json'') = Some (digits, cid)"
  using assms connection_id_length [OF assms(1)] by (simp add: conn_record_groups_def Let_def)

text \<open>What \<open>write_record\<close> writes is read back.\<close>

lemma read_record_file:
  assumes "connection_id_ok (cr_connection_id r)" and "1 < cr_pid r" and "cr_pid r < MAX_PID" and "0 < cr_written_ms r"
    and "\<And>d. cr_deadline r = Some d \<Longrightarrow> 0 < d" and "conn_record_text_size r \<le> MAX_RECORD_BYTES"
  shows "read_record (conn_record_name (cr_pid r) (cr_connection_id r)) (conn_record_file now r) = Some r"
proof -
  have "conn_record_groups (conn_record_name (cr_pid r) (cr_connection_id r)) = Some (show_int (cr_pid r), cr_connection_id r)"
    unfolding conn_record_name_def
    by (rule conn_record_groups_name [OF assms(1)])
      (use assms(2) show_nat_digits [of _ "nat (cr_pid r)"] in \<open>auto simp: show_int_def list_all_iff is_ascii_digit_def\<close>)
  then show ?thesis using assms
    by (cases "cr_deadline r") (auto simp: read_record_def conn_record_file_def read_deadline_def)
qed

section \<open>What the steps of a tick leave alone\<close>

lemma report_fields [simp]:
  "re_records (report rc mo k r at re) = re_records re" "re_requests (report rc mo k r at re) = re_requests re"
  "re_signals (report rc mo k r at re) = re_signals re" "re_bound (report rc mo k r at re) = re_bound re"
  "re_ending (report rc mo k r at re) = re_ending re" "re_reported (report rc mo k r at re) = re_reported re"
  by (simp_all add: report_def Let_def)

lemma forget_fields [simp]:
  "re_records (forget rc mo name re) = re_records re" "re_requests (forget rc mo name re) = re_requests re"
  "re_signals (forget rc mo name re) = re_signals re" "re_bound (forget rc mo name re) = AList.delete name (re_bound re)"
  "re_ending (forget rc mo name re) = AList.delete name (re_ending re)"
  "re_reported (forget rc mo name re) = AList.delete name (re_reported re)"
  by (simp_all add: forget_def Let_def split: option.split)

lemma send_signals_fields [simp]:
  "re_records (send_signals pids force re) = re_records re" "re_bound (send_signals pids force re) = re_bound re"
  "re_ending (send_signals pids force re) = re_ending re" "re_reported (send_signals pids force re) = re_reported re"
  "re_events (send_signals pids force re) = re_events re" "re_requests (send_signals pids force re) = re_requests re"
  "re_signals (send_signals pids force re) = re_signals re @ map (\<lambda>pid. (pid, force)) pids"
  by (simp_all add: send_signals_def)

lemma enforce_fields [simp]:
  "re_records (enforce rc mo name r k re) = re_records re" "re_bound (enforce rc mo name r k re) = re_bound re"
  "re_reported (enforce rc mo name r k re) = re_reported re" "re_events (enforce rc mo name r k re) = re_events re"
  by (simp_all add: enforce_def Let_def split: option.split)

text \<open>A tick handles each name on its own.\<close>

lemma handle_cases:
  obtains (dropped) "handle rc mo asked name re = (None, drop_record rc mo name re)"
    "\<And>f r t. map_of (re_records re) name = Some f \<Longrightarrow> read_record name f = Some r \<Longrightarrow>
      proc_of (mo_snapshot mo) (cr_pid r) \<noteq> None \<Longrightarrow> mo_start mo (cr_pid r) = Some t \<Longrightarrow> map_of (re_bound re) name \<noteq> Some t"
    "\<And>f r t p. map_of (re_records re) name = Some f \<Longrightarrow> read_record name f = Some r \<Longrightarrow>
      proc_of (mo_snapshot mo) (cr_pid r) = Some p \<Longrightarrow> mo_start mo (cr_pid r) = Some t \<Longrightarrow> map_of (re_bound re) name = None \<Longrightarrow>
      \<not> rc_test rc (mo_snapshot mo) p \<or> t > cr_written_ms r div 1000"
  | (new) f r p t where "map_of (re_records re) name = Some f" "read_record name f = Some r"
    "proc_of (mo_snapshot mo) (cr_pid r) = Some p" "mo_start mo (cr_pid r) = Some t" "map_of (re_bound re) name = None"
    "rc_test rc (mo_snapshot mo) p"
    "handle rc mo asked name re = handle_bound rc mo asked name r (re\<lparr>re_bound := AList.update name t (re_bound re)\<rparr>)" "t \<le> cr_written_ms r div 1000"
  | (bound) f r p t where "map_of (re_records re) name = Some f" "read_record name f = Some r"
    "proc_of (mo_snapshot mo) (cr_pid r) = Some p" "mo_start mo (cr_pid r) = Some t" "map_of (re_bound re) name = Some t"
    "handle rc mo asked name re = handle_bound rc mo asked name r re"
proof (cases "case map_of (re_records re) name of None \<Rightarrow> None | Some f \<Rightarrow> read_record name f")
  case None
  then show thesis by (intro dropped) (auto simp: handle_def Let_def)
next
  case (Some r)
  then obtain f where f: "map_of (re_records re) name = Some f" "read_record name f = Some r"
    by (auto split: option.splits)
  show thesis
  proof (cases "proc_of (mo_snapshot mo) (cr_pid r) = None \<or> mo_start mo (cr_pid r) = None")
    case True
    then show thesis using f by (intro dropped) (auto simp: handle_def Let_def split: option.split)
  next
    case False
    then obtain p t where pt: "proc_of (mo_snapshot mo) (cr_pid r) = Some p" "mo_start mo (cr_pid r) = Some t" by auto
    show thesis
    proof (cases "map_of (re_bound re) name")
      case None
      show thesis
      proof (cases "rc_test rc (mo_snapshot mo) p \<and> \<not> t > cr_written_ms r div 1000")
        case True
        then show thesis by (intro new [OF f pt None]) (simp_all add: handle_def Let_def f pt None)
      qed (intro dropped; auto simp: handle_def Let_def f pt None)
    next
      case (Some b)
      show thesis
      proof (cases "b = t")
        case True
        then show thesis by (intro bound [OF f pt]) (simp_all add: handle_def Let_def f pt Some)
      qed (intro dropped; auto simp: handle_def Let_def f pt Some)
    qed
  qed
qed

section \<open>Who is signalled\<close>

text \<open>The processes that are connections at a moment, with their start times.\<close>

definition connections :: "reaper_config \<Rightarrow> moment \<Rightarrow> (int \<times> int) set" where
  "connections rc mo = {(ps_pid p, t) | p t. p \<in> set (mo_snapshot mo) \<and> rc_test rc (mo_snapshot mo) p \<and>
    mo_start mo (ps_pid p) = Some t}"

definition may_signal :: "(int \<times> int) set \<Rightarrow> moment \<Rightarrow> int \<Rightarrow> bool" where
  "may_signal V mo q \<longleftrightarrow> (\<exists>p t. (p, t) \<in> V \<and> p \<in> ps_pid ` set (mo_snapshot mo) \<and> mo_start mo p = Some t \<and>
    (q = p \<or> (p, q) \<in> (parent_of (mo_snapshot mo))\<^sup>+))"

definition bound_in :: "(int \<times> int) set \<Rightarrow> reaper \<Rightarrow> bool" where
  "bound_in V re \<longleftrightarrow> (\<forall>name t f r. map_of (re_bound re) name = Some t \<longrightarrow> read_record name f = Some r \<longrightarrow> (cr_pid r, t) \<in> V)"

definition signals_extend :: "(int \<times> int) set \<Rightarrow> moment \<Rightarrow> reaper \<Rightarrow> reaper \<Rightarrow> bool" where
  "signals_extend V mo re re' \<longleftrightarrow>
    (\<exists>new. re_signals re' = re_signals re @ new \<and> (\<forall>(q, force)\<in>set new. may_signal V mo q))"

lemma signals_extend_same: "re_signals re' = re_signals re \<Longrightarrow> signals_extend V mo re re'"
  by (simp add: signals_extend_def)

lemma signals_extend_trans:
  assumes "signals_extend V mo re re1" and "signals_extend V mo re1 re2"
  shows "signals_extend V mo re re2"
proof -
  obtain new1 new2 where "re_signals re1 = re_signals re @ new1" "\<forall>(q, force)\<in>set new1. may_signal V mo q"
      "re_signals re2 = re_signals re1 @ new2" "\<forall>(q, force)\<in>set new2. may_signal V mo q"
    using assms by (auto simp: signals_extend_def)
  then show ?thesis unfolding signals_extend_def by (intro exI [of _ "new1 @ new2"]) auto
qed

lemma bound_in_same: "bound_in V re \<Longrightarrow> re_bound re' = re_bound re \<Longrightarrow> bound_in V re'"
  by (simp add: bound_in_def)

lemma bound_in_delete: "bound_in V re \<Longrightarrow> re_bound re' = AList.delete name (re_bound re) \<Longrightarrow> bound_in V re'"
  by (auto simp: bound_in_def delete_conv' split: if_splits)

lemma enforce_extends:
  assumes "(cr_pid r, t) \<in> V" "proc_of (mo_snapshot mo) (cr_pid r) = Some p" "mo_start mo (cr_pid r) = Some t"
  shows "signals_extend V mo re (enforce rc mo name r k re)"
proof -
  let ?pids = "descendants (mo_snapshot mo) (cr_pid r) @ [cr_pid r]"
  have p: "cr_pid r \<in> ps_pid ` set (mo_snapshot mo)" using proc_of_Some [OF assms(2)] by force
  have "may_signal V mo q" if "q \<in> set ?pids" for q
    using that assms(1,3) p descendants_exact [of "mo_snapshot mo" "cr_pid r"] unfolding may_signal_def by auto
  then have "signals_extend V mo re (send_signals ?pids force re)" for force
    unfolding signals_extend_def by auto
  moreover have "signals_extend V mo re ((send_signals ?pids force re)\<lparr>re_ending := x\<rparr>)" for force x
    using calculation by (simp add: signals_extend_def)
  ultimately show ?thesis
    by (auto simp: enforce_def Let_def signals_extend_same split: option.split)
qed

lemma handle_bound_extends:
  assumes "(cr_pid r, t) \<in> V" "proc_of (mo_snapshot mo) (cr_pid r) = Some p" "mo_start mo (cr_pid r) = Some t"
  shows "signals_extend V mo re (snd (handle_bound rc mo asked name r re))"
    and "re_bound (snd (handle_bound rc mo asked name r re)) = re_bound re"
  using enforce_extends [OF assms, of "report rc mo Starts r (cr_written_ms r div 1000)
      (re\<lparr>re_reported := AList.update name r (re_reported re)\<rparr>)"] enforce_extends [OF assms, of re]
  by (simp_all add: handle_bound_def Let_def signals_extend_def)

lemma handle_safe:
  assumes "bound_in V re" and "connections rc mo \<subseteq> V"
  shows "bound_in V (snd (handle rc mo asked name re)) \<and> signals_extend V mo re (snd (handle rc mo asked name re))"
proof (cases rule: handle_cases [of rc mo asked name re])
  case dropped
  have "bound_in V (drop_record rc mo name re)"
    using assms(1) by (rule bound_in_delete) (simp add: drop_record_def)
  then show ?thesis by (simp add: dropped(1) drop_record_def signals_extend_same)
next
  case (new f r p t)
  have v: "(cr_pid r, t) \<in> V"
  proof -
    have p: "p \<in> set (mo_snapshot mo)" "ps_pid p = cr_pid r" using proc_of_Some [OF new(3)] by simp_all
    then have "(ps_pid p, t) \<in> connections rc mo" unfolding connections_def mem_Collect_eq using new(4,6) by (intro exI [of _ p] exI [of _ t]) simp
    then show ?thesis using assms(2) p(2) by auto
  qed
  let ?re1 = "re\<lparr>re_bound := AList.update name t (re_bound re)\<rparr>"
  have "bound_in V ?re1" unfolding bound_in_def
  proof (intro allI impI)
    fix n u f' r'
    assume n: "map_of (re_bound ?re1) n = Some u" "read_record n f' = Some r'"
    show "(cr_pid r', u) \<in> V"
    proof (cases "n = name")
      case True
      then have "u = t" "cr_pid r' = cr_pid r" using n read_record_same(1) [OF new(2)] by (simp_all add: update_conv')
      then show ?thesis using v by simp
    next
      case False
      then have "map_of (re_bound re) n = Some u" using n(1) by (simp add: update_conv')
      then show ?thesis using assms(1) n(2) unfolding bound_in_def by blast
    qed
  qed
  then have "bound_in V (snd (handle_bound rc mo asked name r ?re1))"
    by (rule bound_in_same) (rule handle_bound_extends(2) [OF v new(3,4)])
  moreover have "signals_extend V mo re (snd (handle_bound rc mo asked name r ?re1))"
    using handle_bound_extends(1) [OF v new(3,4), where re = ?re1] by (simp add: signals_extend_def)
  ultimately show ?thesis by (simp add: new(7))
next
  case (bound f r p t)
  have v: "(cr_pid r, t) \<in> V" using assms(1) bound(2,5) unfolding bound_in_def by blast
  have "bound_in V (snd (handle_bound rc mo asked name r re))"
    using assms(1) by (rule bound_in_same) (rule handle_bound_extends(2) [OF v bound(3,4)])
  then show ?thesis using handle_bound_extends(1) [OF v bound(3,4)] by (simp add: bound(6))
qed

lemma handle_names_safe:
  assumes "bound_in V re" and "connections rc mo \<subseteq> V"
  shows "bound_in V (snd (handle_names rc mo asked names re)) \<and> signals_extend V mo re (snd (handle_names rc mo asked names re))"
  using assms
proof (induction rc mo asked names re rule: handle_names.induct)
  case (2 rc mo asked name names re)
  show ?case
  proof (cases "conn_record_groups name = None")
    case True
    then show ?thesis using 2 by simp
  next
    case False
    obtain r re1 where h: "handle rc mo asked name re = (r, re1)" by fastforce
    then have one: "bound_in V re1" "signals_extend V mo re re1" using handle_safe [OF "2.prems", of asked name] by simp_all
    have "bound_in V (snd (handle_names rc mo asked names re1)) \<and>
        signals_extend V mo re1 (snd (handle_names rc mo asked names re1))"
      using "2.IH"(2) [OF False h [symmetric] one(1) "2.prems"(2)] .
    then show ?thesis using False h one(2) by (auto split: prod.split intro: signals_extend_trans)
  qed
qed (simp add: signals_extend_same)

lemma fold_forget_safe:
  assumes "bound_in V re"
  shows "bound_in V (fold (forget rc mo) names re) \<and> re_signals (fold (forget rc mo) names re) = re_signals re"
  using assms
proof (induction names arbitrary: re)
  case (Cons name names)
  have "bound_in V (forget rc mo name re)" using Cons.prems by (rule bound_in_delete) simp
  then show ?case using Cons.IH [of "forget rc mo name re"] by simp
qed simp

lemma tick_safe:
  assumes "bound_in V re" and "connections rc mo \<subseteq> V"
  shows "bound_in V (tick rc mo re)" and "signals_extend V mo re (tick rc mo re)"
proof -
  let ?names = "names_of (re_records re)"
  obtain live re1 where h: "handle_names rc mo (requested (re_requests re)) ?names re = (live, re1)" by fastforce
  then have re1: "bound_in V re1" "signals_extend V mo re re1"
    using handle_names_safe [OF assms, of "requested (re_requests re)" ?names] by simp_all
  let ?re2 = "fold (forget rc mo) (filter (\<lambda>n. n \<notin> set ?names) (map fst (re_bound re1))) re1"
  have "bound_in V ?re2" "re_signals ?re2 = re_signals re1" using fold_forget_safe [OF re1(1)] by blast+
  then show "bound_in V (tick rc mo re)" "signals_extend V mo re (tick rc mo re)"
    using re1(2) by (simp_all add: tick_def Let_def h bound_in_def signals_extend_def)
qed

text \<open>
  The life of a reaper, with every process that was ever seen as a connection and its start time. Between
  two ticks, anyone may write anything in the directories, and the program may be started again.
\<close>

inductive reaper_step :: "reaper_config \<Rightarrow> reaper \<times> (int \<times> int) set \<Rightarrow> reaper \<times> (int \<times> int) set \<Rightarrow> bool" for rc where
  ticked: "reaper_step rc (re, V) (tick rc mo re, V \<union> connections rc mo)"
| records_written: "reaper_step rc (re, V) (re\<lparr>re_records := records\<rparr>, V)"
| requests_written: "reaper_step rc (re, V) (re\<lparr>re_requests := requests\<rparr>, V)"
| events_taken: "reaper_step rc (re, V) (re\<lparr>re_spool := sp\<rparr>, V)"
| restarted: "reaper_step rc (re, V) (re\<lparr>re_bound := [], re_ending := [], re_reported := []\<rparr>, V)"

lemma bound_in_mono: "bound_in V re \<Longrightarrow> V \<subseteq> V' \<Longrightarrow> bound_in V' re"
  unfolding bound_in_def by blast

lemma reaper_steps_bound:
  assumes "(reaper_step rc)\<^sup>*\<^sup>* (re0, {}) (re, V)" and "re_bound re0 = []"
  shows "bound_in V re"
  using assms(1)
proof (induction "(re, V)" arbitrary: re V rule: rtranclp_induct)
  case base
  then show ?case using assms(2) by (simp add: bound_in_def)
next
  case (step y)
  obtain re1 V1 where y: "y = (re1, V1)" by fastforce
  have b: "bound_in V1 re1" using step(3) [OF y] .
  show ?case using step(2) unfolding y
  proof (cases rule: reaper_step.cases)
    case (ticked mo)
    then show ?thesis using tick_safe(1) [of V re1 rc mo] bound_in_mono [OF b] by simp
  qed (use b in \<open>simp_all add: bound_in_def\<close>)
qed

text \<open>
  C12. Whatever an unprivileged user writes in the directory of the records, and whoever asks for what: the
  session reaper, which is root, sends a signal only to a process that was an sshd connection process when
  it was first matched and that still is the same process (its id was not reused), or to a process below it.
\<close>

theorem reaper_signals_only_connections:
  assumes "(reaper_step rc)\<^sup>*\<^sup>* (re0, {}) (re, V)" and "re_bound re0 = []"
    and "(q, force) \<in> set (drop (length (re_signals re)) (re_signals (tick rc mo re)))"
  shows "\<exists>p t. (p, t) \<in> V \<union> connections rc mo \<and> p \<in> ps_pid ` set (mo_snapshot mo) \<and> mo_start mo p = Some t \<and>
    (q = p \<or> (p, q) \<in> (parent_of (mo_snapshot mo))\<^sup>+)"
proof -
  have "bound_in (V \<union> connections rc mo) re" using reaper_steps_bound [OF assms(1,2)] by (rule bound_in_mono) simp
  then have "signals_extend (V \<union> connections rc mo) mo re (tick rc mo re)" by (rule tick_safe) simp
  then obtain new where "re_signals (tick rc mo re) = re_signals re @ new"
      "\<forall>(q, force)\<in>set new. may_signal (V \<union> connections rc mo) mo q"
    unfolding signals_extend_def by blast
  then show ?thesis using assms(3) by (auto simp: may_signal_def)
qed

section \<open>Sessions end at their deadline\<close>

text \<open>A name is handled without a look at the others.\<close>

definition same_at :: "string \<Rightarrow> reaper \<Rightarrow> reaper \<Rightarrow> bool" where
  "same_at name re re' \<longleftrightarrow> map_of (re_records re') name = map_of (re_records re) name \<and>
    map_of (re_bound re') name = map_of (re_bound re) name \<and> map_of (re_ending re') name = map_of (re_ending re) name \<and>
    map_of (re_reported re') name = map_of (re_reported re) name \<and>
    (\<exists>new. re_signals re' = re_signals re @ new)"

lemma same_at_refl: "same_at name re re"
  by (simp add: same_at_def)

lemma same_at_trans: "same_at name re re1 \<Longrightarrow> same_at name re1 re2 \<Longrightarrow> same_at name re re2"
  by (auto simp: same_at_def)

lemma same_at_drop: "name' \<noteq> name \<Longrightarrow> same_at name re (drop_record rc mo name' re)"
  by (simp add: same_at_def drop_record_def map_of_unlink delete_conv')

lemma same_at_enforce: "name' \<noteq> name \<Longrightarrow> same_at name re (enforce rc mo name' r k re)"
  by (simp add: same_at_def enforce_def Let_def update_conv' split: option.split)

lemma same_at_handle_bound: "name' \<noteq> name \<Longrightarrow> same_at name re (snd (handle_bound rc mo asked name' r re))"
  using same_at_enforce [of name' name "report rc mo Starts r (cr_written_ms r div 1000)
      (re\<lparr>re_reported := AList.update name' r (re_reported re)\<rparr>)"] same_at_enforce [of name' name re]
  by (simp add: handle_bound_def Let_def same_at_def update_conv')

lemma same_at_handle: "name' \<noteq> name \<Longrightarrow> same_at name re (snd (handle rc mo asked name' re))"
proof (cases rule: handle_cases [of rc mo asked name' re])
  case dropped
  assume "name' \<noteq> name"
  then show ?thesis using same_at_drop by (simp add: dropped(1))
next
  case (new f r p t)
  assume n: "name' \<noteq> name"
  have "same_at name re (re\<lparr>re_bound := AList.update name' t (re_bound re)\<rparr>)"
    using n by (simp add: same_at_def update_conv')
  then show ?thesis using same_at_trans [OF _ same_at_handle_bound [OF n]] by (simp only: new(7))
next
  case (bound f r p t)
  assume "name' \<noteq> name"
  then show ?thesis using same_at_handle_bound by (simp only: bound(6))
qed

lemma same_at_forget: "name' \<noteq> name \<Longrightarrow> same_at name re (forget rc mo name' re)"
  by (simp add: same_at_def delete_conv')

lemma same_at_handle_names:
  "name \<notin> set names \<or> conn_record_groups name = None \<Longrightarrow> same_at name re (snd (handle_names rc mo asked names re))"
proof (induction rc mo asked names re rule: handle_names.induct)
  case (2 rc mo asked name' names re)
  then have later: "name \<notin> set names \<or> conn_record_groups name = None" by auto
  show ?case
  proof (cases "conn_record_groups name' = None")
    case True
    then show ?thesis using "2.IH"(1) [OF True later] by simp
  next
    case False
    then have n: "name' \<noteq> name" "name \<notin> set names \<or> conn_record_groups name = None" using "2.prems" by auto
    obtain r re1 where h: "handle rc mo asked name' re = (r, re1)" by fastforce
    have "same_at name re re1" using same_at_handle [OF n(1), of re rc mo asked] by (simp add: h)
    then show ?thesis using "2.IH"(2) [OF False h [symmetric] n(2)] False h
      by (auto split: prod.split intro: same_at_trans)
  qed
qed (simp add: same_at_refl)

lemma same_at_forgets: "name \<notin> set names \<Longrightarrow> same_at name re (fold (forget rc mo) names re)"
proof (induction names arbitrary: re)
  case (Cons n names)
  then have "same_at name re (forget rc mo n re)" "same_at name (forget rc mo n re) (fold (forget rc mo) (n # names) re)"
    using same_at_forget [of n name re rc mo] Cons.IH [of "forget rc mo n re"] by auto
  then show ?case by (rule same_at_trans)
qed (simp add: same_at_refl)

text \<open>The session of a record: its process lives, and the record is bound to it or can be.\<close>

definition conn_lives :: "moment \<Rightarrow> conn_record \<Rightarrow> int \<Rightarrow> bool" where
  "conn_lives mo r t \<longleftrightarrow> cr_pid r \<in> ps_pid ` set (mo_snapshot mo) \<and> mo_start mo (cr_pid r) = Some t"

definition watched :: "string \<Rightarrow> conn_record \<Rightarrow> int \<Rightarrow> reaper \<Rightarrow> bool" where
  "watched name r t re \<longleftrightarrow> distinct (map fst (re_records re)) \<and> map_of (re_bound re) name = Some t \<and>
    (\<exists>f. map_of (re_records re) name = Some f \<and> read_record name f = Some r)"

definition bindable :: "reaper_config \<Rightarrow> moment \<Rightarrow> string \<Rightarrow> conn_record \<Rightarrow> int \<Rightarrow> reaper \<Rightarrow> bool" where
  "bindable rc mo name r t re \<longleftrightarrow> distinct (map fst (re_records re)) \<and> map_of (re_bound re) name = None \<and>
    t \<le> cr_written_ms r div 1000 \<and> (\<forall>p. proc_of (mo_snapshot mo) (cr_pid r) = Some p \<longrightarrow> rc_test rc (mo_snapshot mo) p) \<and>
    (\<exists>f. map_of (re_records re) name = Some f \<and> read_record name f = Some r)"

definition session_pids :: "moment \<Rightarrow> conn_record \<Rightarrow> int set" where
  "session_pids mo r = insert (cr_pid r) {q. (cr_pid r, q) \<in> (parent_of (mo_snapshot mo))\<^sup>+}"

definition due :: "moment \<Rightarrow> conn_record \<Rightarrow> bool" where
  "due mo r \<longleftrightarrow> (case cr_deadline r of None \<Rightarrow> False | Some d \<Rightarrow> d * 1000000 \<le> mo_now mo)"

text \<open>What a tick does about a session, from what it knew of its end before.\<close>

definition enforced :: "reaper_config \<Rightarrow> moment \<Rightarrow> string \<Rightarrow> conn_record \<Rightarrow> reaper \<Rightarrow> reaper \<Rightarrow> bool" where
  "enforced rc mo name r re re' \<longleftrightarrow> (case map_of (re_ending re) name of
     None \<Rightarrow> due mo r \<longrightarrow> map_of (re_ending re') name = Some (mo_now mo) \<and>
       (\<forall>q\<in>session_pids mo r. (q, False) \<in> set (drop (length (re_signals re)) (re_signals re')))
   | Some e \<Rightarrow> map_of (re_ending re') name = Some e \<and>
       (e + rc_grace rc \<le> mo_now mo \<longrightarrow>
         (\<forall>q\<in>session_pids mo r. (q, True) \<in> set (drop (length (re_signals re)) (re_signals re')))))"

lemma session_pids_list: "q \<in> session_pids mo r \<Longrightarrow> q \<in> set (descendants (mo_snapshot mo) (cr_pid r) @ [cr_pid r])"
  using descendants_exact [of "mo_snapshot mo" "cr_pid r"] by (auto simp: session_pids_def)

lemma enforce_enforced: "enforced rc mo name r re (enforce rc mo name r k re)"
proof (cases "map_of (re_ending re) name")
  case None
  then show ?thesis using session_pids_list [of _ mo r]
    by (auto simp: enforced_def enforce_def Let_def due_def update_conv' split: option.splits)
next
  case (Some e)
  then show ?thesis using session_pids_list [of _ mo r]
    by (auto simp: enforced_def enforce_def Let_def)
qed

lemma enforce_signals: "\<exists>c. re_signals (enforce rc mo name r k re) = re_signals re @ c"
  by (auto simp: enforce_def Let_def split: option.split)

lemma enforced_same:
  assumes "enforced rc mo name r re1 re2"
    and "map_of (re_ending re) name = map_of (re_ending re1) name" "re_signals re1 = re_signals re @ a"
    and "map_of (re_ending re') name = map_of (re_ending re2) name" "re_signals re' = re_signals re2 @ b"
    and "re_signals re2 = re_signals re1 @ c"
  shows "enforced rc mo name r re re'"
  using assms(1) unfolding enforced_def assms(2-6) by (auto split: option.splits)

lemma proc_of_mem: "pid \<in> ps_pid ` set table \<Longrightarrow> \<exists>p. proc_of table pid = Some p"
  by (auto simp: proc_of_def find_None_iff not_None_eq [symmetric])

lemma watched_same:
  "watched name r t re \<Longrightarrow> re_records re' = re_records re \<Longrightarrow> re_bound re' = re_bound re \<Longrightarrow> watched name r t re'"
  unfolding watched_def by (simp only: simp_thms)

lemma handle_bound_enforced:
  assumes "map_of (re_ending re1) name = map_of (re_ending re) name" "re_signals re1 = re_signals re"
    and "re_records re1 = re_records re" "map_of (re_bound re1) name = Some t" "watched name r t re1"
  shows "watched name r t (snd (handle_bound rc mo asked name r re1)) \<and>
    enforced rc mo name r re (snd (handle_bound rc mo asked name r re1)) \<and>
    (\<exists>c. re_signals (snd (handle_bound rc mo asked name r re1)) = re_signals re @ c)"
proof -
  let ?re2 = "if map_of (re_reported re1) name = None
    then report rc mo Starts r (cr_written_ms r div 1000) (re1\<lparr>re_reported := AList.update name r (re_reported re1)\<rparr>)
    else re1"
  let ?re3 = "enforce rc mo name r (cr_connection_id r \<in> set asked) ?re2"
  have e: "snd (handle_bound rc mo asked name r re1) = ?re3" by (simp add: handle_bound_def Let_def)
  have two: "re_ending ?re2 = re_ending re1" "re_signals ?re2 = re_signals re1" "re_records ?re2 = re_records re1"
      "re_bound ?re2 = re_bound re1" by simp_all
  obtain c where c: "re_signals ?re3 = re_signals ?re2 @ c" using enforce_signals by blast
  have "enforced rc mo name r re ?re3"
    by (rule enforced_same [OF enforce_enforced _ _ refl _ c]) (use two assms(1,2) in simp_all)
  moreover have "watched name r t ?re3"
    using assms(5) by (rule watched_same) (simp_all only: enforce_fields two)
  ultimately show ?thesis unfolding e c two assms(2) by blast
qed

lemma handle_enforced:
  assumes l: "conn_lives mo r t" and w: "watched name r t re \<or> bindable rc mo name r t re"
  shows "watched name r t (snd (handle rc mo asked name re)) \<and> enforced rc mo name r re (snd (handle rc mo asked name re)) \<and>
    (\<exists>c. re_signals (snd (handle rc mo asked name re)) = re_signals re @ c)"
proof -
  obtain f where f: "map_of (re_records re) name = Some f" "read_record name f = Some r"
    using w unfolding watched_def bindable_def by blast
  obtain p where p: "proc_of (mo_snapshot mo) (cr_pid r) = Some p" using l proc_of_mem unfolding conn_lives_def by blast
  have t: "mo_start mo (cr_pid r) = Some t" using l unfolding conn_lives_def by blast
  show ?thesis
  proof (cases "map_of (re_bound re) name")
    case None
    let ?re1 = "re\<lparr>re_bound := AList.update name t (re_bound re)\<rparr>"
    have b: "rc_test rc (mo_snapshot mo) p" "\<not> t > cr_written_ms r div 1000" "distinct (map fst (re_records re))"
      using w None p unfolding watched_def bindable_def by auto
    have h: "handle rc mo asked name re = handle_bound rc mo asked name r ?re1"
      using b(1,2) by (simp add: handle_def Let_def f p t None)
    show ?thesis unfolding h by (rule handle_bound_enforced) (use b(3) f in \<open>auto simp: watched_def update_conv'\<close>)
  next
    case (Some t')
    then have w: "watched name r t re" using w unfolding bindable_def by auto
    then have b: "map_of (re_bound re) name = Some t" unfolding watched_def by blast
    have h: "handle rc mo asked name re = handle_bound rc mo asked name r re"
      by (simp add: handle_def Let_def f p t b)
    show ?thesis unfolding h by (rule handle_bound_enforced) (use b w in simp_all)
  qed
qed

lemma handle_names_append:
  "snd (handle_names rc mo asked (xs @ ys) re) = snd (handle_names rc mo asked ys (snd (handle_names rc mo asked xs re)))"
proof (induction xs arbitrary: re)
  case (Cons x xs)
  have "snd (case h of (r, re) \<Rightarrow> case handle_names rc mo asked zs re of (live, re) \<Rightarrow> (k r live, re)) =
      snd (handle_names rc mo asked zs (snd h))" for h zs and k :: "conn_record option \<Rightarrow> string list \<Rightarrow> string list"
    by (simp split: prod.split)
  then show ?case by (simp add: Cons.IH)
qed simp

lemma watched_cong: "same_at name re re' \<Longrightarrow> distinct (map fst (re_records re')) \<Longrightarrow> watched name r t re \<Longrightarrow> watched name r t re'"
  unfolding same_at_def watched_def by (elim conjE) (simp only: simp_thms)

lemma bindable_cong:
  "same_at name re re' \<Longrightarrow> distinct (map fst (re_records re')) \<Longrightarrow> bindable rc mo name r t re \<Longrightarrow> bindable rc mo name r t re'"
  unfolding same_at_def bindable_def by (elim conjE) (simp only: simp_thms)

lemma handle_distinct:
  "distinct (map fst (re_records re)) \<Longrightarrow> distinct (map fst (re_records (snd (handle rc mo asked name re))))"
proof (cases rule: handle_cases [of rc mo asked name re])
  case dropped
  then show "distinct (map fst (re_records re)) \<Longrightarrow> ?thesis"
    by (simp only: dropped(1)) (simp add: drop_record_def unlink_def distinct_delete)
next
  case (new f r p t)
  show "distinct (map fst (re_records re)) \<Longrightarrow> ?thesis" by (simp add: new(7) handle_bound_def Let_def)
next
  case (bound f r p t)
  show "distinct (map fst (re_records re)) \<Longrightarrow> ?thesis" by (simp add: bound(6) handle_bound_def Let_def)
qed

lemma handle_names_distinct:
  "distinct (map fst (re_records re)) \<Longrightarrow> distinct (map fst (re_records (snd (handle_names rc mo asked names re))))"
proof (induction rc mo asked names re rule: handle_names.induct)
  case (2 rc mo asked name names re)
  show ?case
  proof (cases "conn_record_groups name = None")
    case False
    obtain r re1 where h: "handle rc mo asked name re = (r, re1)" by fastforce
    have "distinct (map fst (re_records re1))" using handle_distinct [OF "2.prems", of rc mo asked name] h by simp
    then show ?thesis using "2.IH"(2) [OF False h [symmetric]] False h by (auto split: prod.split)
  qed (use 2 in simp)
qed simp

lemma fold_forget_records: "re_records (fold (forget rc mo) names re) = re_records re"
  by (induction names arbitrary: re) simp_all

lemma tick_distinct: "distinct (map fst (re_records re)) \<Longrightarrow> distinct (map fst (re_records (tick rc mo re)))"
proof -
  assume d: "distinct (map fst (re_records re))"
  obtain live re1 where h: "handle_names rc mo (requested (re_requests re)) (names_of (re_records re)) re = (live, re1)" by fastforce
  then have "distinct (map fst (re_records re1))"
    using handle_names_distinct [OF d, of rc mo "requested (re_requests re)" "names_of (re_records re)"] by simp
  then show ?thesis by (simp add: tick_def Let_def h fold_forget_records)
qed

text \<open>What a tick does about a name is what handling it does, on a state that others left alone there.\<close>

lemma tick_at:
  assumes d: "distinct (map fst (re_records re))" and f: "map_of (re_records re) name = Some f"
    and g: "conn_record_groups name \<noteq> None"
  obtains a asked where "same_at name re a" and "distinct (map fst (re_records a))"
    and "same_at name (snd (handle rc mo asked name a)) (tick rc mo re)"
proof -
  let ?names = "names_of (re_records re)" and ?asked = "requested (re_requests re)"
  have "name \<in> set ?names" "distinct ?names"
    using f d by (auto simp: names_of_def dest: map_of_SomeD intro: rev_image_eqI)
  then obtain xs ys where names: "?names = xs @ name # ys" "name \<notin> set xs" "name \<notin> set ys"
    by (metis distinct.simps(2) distinct_append split_list not_distinct_conv_prefix)
  let ?a = "snd (handle_names rc mo ?asked xs re)"
  let ?b = "snd (handle rc mo ?asked name ?a)"
  let ?c = "snd (handle_names rc mo ?asked ys ?b)"
  let ?d = "fold (forget rc mo) (filter (\<lambda>n. n \<notin> set ?names) (map fst (re_bound ?c))) ?c"
  have sc: "same_at name ?b ?c" by (rule same_at_handle_names) (simp add: names(3))
  have "same_at name ?c ?d" by (rule same_at_forgets) (simp add: names(1))
  then have sd: "same_at name ?b ?d" by (rule same_at_trans [OF sc])
  have step: "snd (handle_names rc mo asked (name # ys) x) = snd (handle_names rc mo asked ys (snd (handle rc mo asked name x)))"
    for asked x using g by (auto split: prod.split)
  have "snd (handle_names rc mo ?asked ?names re) = ?c" unfolding names(1) handle_names_append step ..
  then obtain live where "handle_names rc mo ?asked ?names re = (live, ?c)" by (metis prod.collapse)
  then have tick: "tick rc mo re = ?d\<lparr>re_requests := re_requests (tick rc mo re)\<rparr>"
    by (simp add: tick_def Let_def)
  have "same_at name ?b (tick rc mo re)" using sd by (subst tick) (simp add: same_at_def)
  moreover have "same_at name re ?a" by (rule same_at_handle_names) (simp add: names(2))
  moreover have "distinct (map fst (re_records ?a))" by (rule handle_names_distinct [OF d])
  ultimately show thesis by (intro that)
qed

lemma tick_enforced:
  assumes l: "conn_lives mo r t" and w: "watched name r t re \<or> bindable rc mo name r t re"
  shows "watched name r t (tick rc mo re) \<and> enforced rc mo name r re (tick rc mo re)"
proof -
  obtain f where f: "map_of (re_records re) name = Some f" "read_record name f = Some r"
    and d: "distinct (map fst (re_records re))" using w unfolding watched_def bindable_def by blast
  obtain a asked where sa: "same_at name re a" and da: "distinct (map fst (re_records a))"
    and st: "same_at name (snd (handle rc mo asked name a)) (tick rc mo re)"
    using tick_at [OF d f(1)] read_record_groups [OF f(2)] by blast
  have wa: "watched name r t a \<or> bindable rc mo name r t a"
    using w watched_cong [OF sa da] bindable_cong [OF sa da] by blast
  let ?b = "snd (handle rc mo asked name a)"
  obtain c where hb: "watched name r t ?b" "enforced rc mo name r a ?b" "re_signals ?b = re_signals a @ c"
    using handle_enforced [OF l wa, of asked] by blast
  have "watched name r t (tick rc mo re)" using hb(1) by (rule watched_cong [OF st tick_distinct [OF d]])
  moreover obtain x y where "re_signals a = re_signals re @ x" "re_signals (tick rc mo re) = re_signals ?b @ y"
    using sa st unfolding same_at_def by blast
  then have "enforced rc mo name r re (tick rc mo re)"
    using sa st by (intro enforced_same [OF hb(2) _ _ _ _ hb(3)]) (auto simp: same_at_def)
  ultimately show ?thesis by blast
qed

text \<open>
  What happens between the two ticks: the reaper ticks while the process of the session is there, and others write
  what they like, also another record of the session, as long as the name of its record holds a record.
\<close>

inductive reaper_waits :: "reaper_config \<Rightarrow> string \<Rightarrow> conn_record \<Rightarrow> int \<Rightarrow> reaper \<Rightarrow> reaper \<Rightarrow> bool" for rc name r t where
  session_lives: "conn_lives mo r t \<Longrightarrow> reaper_waits rc name r t re (tick rc mo re)"
| others_write: "map_of records name = Some f \<Longrightarrow> read_record name f \<noteq> None \<Longrightarrow> distinct (map fst records) \<Longrightarrow>
    reaper_waits rc name r t re (re\<lparr>re_records := records, re_requests := requests, re_spool := sp\<rparr>)"

lemma same_pid:
  assumes "cr_pid r' = cr_pid r"
  shows "conn_lives mo r' t = conn_lives mo r t" and "session_pids mo r' = session_pids mo r"
  using assms by (simp_all add: conn_lives_def session_pids_def)

lemma reaper_waits_keeps:
  assumes "(reaper_waits rc name r t)\<^sup>*\<^sup>* re re'" and "watched name r t re" and "map_of (re_ending re) name = Some e"
  shows "\<exists>r'. cr_pid r' = cr_pid r \<and> watched name r' t re' \<and> map_of (re_ending re') name = Some e"
  using assms(1)
proof (induction rule: rtranclp_induct)
  case (step re1 re2)
  then obtain r1 where r1: "cr_pid r1 = cr_pid r" "watched name r1 t re1" "map_of (re_ending re1) name = Some e" by blast
  show ?case using step(2)
  proof (cases rule: reaper_waits.cases)
    case (session_lives mo)
    then have "conn_lives mo r1 t" using same_pid(1) [OF r1(1)] by simp
    then show ?thesis using tick_enforced [of mo r1 t name re1 rc] session_lives(1) r1 by (auto simp: enforced_def)
  next
    case (others_write records f requests sp)
    obtain r2 where r2: "read_record name f = Some r2" using others_write(3) by blast
    moreover obtain f1 where "read_record name f1 = Some r1" using r1(2) unfolding watched_def by blast
    ultimately have "cr_pid r2 = cr_pid r" using read_record_same(1) [of name f r2 f1 r1] r1(1) by simp
    moreover have "watched name r2 t re2" using r1(2) r2 others_write by (simp add: watched_def del: map_of_eq_Some_iff)
    ultimately show ?thesis using r1(3) others_write(1) by auto
  qed
qed (use assms(2,3) in blast)

text \<open>
  C24. When the deadline of a connection has passed, the next tick asks its process and every process below
  it to end; and once the grace is over, a tick that still finds the session kills what is left of it.
  Between the two the reaper may tick as often as it likes, and others may write what they like, also
  another deadline into the record, as long as the name of the record holds a record of the session.
\<close>

theorem deadline_is_enforced:
  assumes "watched name r t re \<or> bindable rc mo1 name r t re" and "map_of (re_ending re) name = None"
    and "conn_lives mo1 r t" and "cr_deadline r = Some d" and "d * 1000000 \<le> mo_now mo1"
    and "(reaper_waits rc name r t)\<^sup>*\<^sup>* (tick rc mo1 re) re2"
    and "conn_lives mo2 r t" and "mo_now mo1 + rc_grace rc \<le> mo_now mo2"
  shows "(\<forall>q\<in>session_pids mo1 r. (q, False) \<in> set (drop (length (re_signals re)) (re_signals (tick rc mo1 re)))) \<and>
    (\<forall>q\<in>session_pids mo2 r. (q, True) \<in> set (drop (length (re_signals re2)) (re_signals (tick rc mo2 re2))))"
proof -
  have one: "watched name r t (tick rc mo1 re)" "enforced rc mo1 name r re (tick rc mo1 re)"
    using tick_enforced [OF assms(3,1)] by blast+
  then have e: "map_of (re_ending (tick rc mo1 re)) name = Some (mo_now mo1)"
      "\<forall>q\<in>session_pids mo1 r. (q, False) \<in> set (drop (length (re_signals re)) (re_signals (tick rc mo1 re)))"
    using assms(2,4,5) by (simp_all add: enforced_def due_def)
  obtain r2 where two: "cr_pid r2 = cr_pid r" "watched name r2 t re2" "map_of (re_ending re2) name = Some (mo_now mo1)"
    using reaper_waits_keeps [OF assms(6) one(1) e(1)] by blast
  have "enforced rc mo2 name r2 re2 (tick rc mo2 re2)"
    using tick_enforced [of mo2 r2 t name re2 rc] assms(7) same_pid(1) [OF two(1)] two(2) by simp
  then show ?thesis using e(2) two(3) assms(8) by (simp add: enforced_def same_pid(2) [OF two(1)])
qed

text \<open>Who removes the record takes the session out of the sight of the reaper: it is not signalled, it is forgotten.\<close>

lemma forgets_absent:
  "name \<in> set names \<Longrightarrow> map_of (re_bound (fold (forget rc mo) names re)) name = None \<and>
    map_of (re_ending (fold (forget rc mo) names re)) name = None \<and> map_of (re_reported (fold (forget rc mo) names re)) name = None"
proof (induction names arbitrary: re)
  case (Cons n names)
  show ?case
  proof (cases "name \<in> set names")
    case False
    then have "n = name" using Cons.prems by simp
    then show ?thesis using same_at_forgets [OF False, of "forget rc mo n re" rc mo]
      by (simp add: same_at_def delete_conv')
  qed (use Cons.IH in simp)
qed simp

lemma removed_record_forgotten:
  assumes "map_of (re_records re) name = None" and "map_of (re_reported re) name \<noteq> None \<longrightarrow> map_of (re_bound re) name \<noteq> None"
  shows "map_of (re_bound (tick rc mo re)) name = None" and "map_of (re_reported (tick rc mo re)) name = None"
proof -
  let ?names = "names_of (re_records re)"
  let ?c = "snd (handle_names rc mo (requested (re_requests re)) ?names re)"
  let ?gone = "filter (\<lambda>n. n \<notin> set ?names) (map fst (re_bound ?c))"
  have absent: "name \<notin> set ?names"
    using assms(1) by (simp add: names_of_def del: map_of_eq_None_iff) (simp add: map_of_eq_None_iff)
  have same: "same_at name re ?c" by (rule same_at_handle_names) (rule disjI1 [OF absent])
  have tick: "re_bound (tick rc mo re) = re_bound (fold (forget rc mo) ?gone ?c)"
      "re_reported (tick rc mo re) = re_reported (fold (forget rc mo) ?gone ?c)"
    by (simp_all add: tick_def Let_def split: prod.split)
  show "map_of (re_bound (tick rc mo re)) name = None" "map_of (re_reported (tick rc mo re)) name = None"
  proof (atomize (full), cases "map_of (re_bound ?c) name")
    case None
    then have "name \<notin> set ?gone" by (auto simp: map_of_eq_None_iff)
    then have "same_at name re (fold (forget rc mo) ?gone ?c)" using same_at_trans [OF same same_at_forgets] by blast
    then show "map_of (re_bound (tick rc mo re)) name = None \<and> map_of (re_reported (tick rc mo re)) name = None"
      using None same assms(2) unfolding tick same_at_def by auto
  next
    case (Some t)
    then have "name \<in> set ?gone" using absent by (auto dest: map_of_SomeD intro: rev_image_eqI)
    then show "map_of (re_bound (tick rc mo re)) name = None \<and> map_of (re_reported (tick rc mo re)) name = None"
      using forgets_absent unfolding tick by blast
  qed
qed

section \<open>An example\<close>

definition example_snapshot :: snapshot where
  "example_snapshot = [\<lparr>ps_pid = 100, ps_ppid = 1, ps_command = ''sshd: ann [priv]''\<rparr>,
    \<lparr>ps_pid = 102, ps_ppid = 101, ps_command = ''sh''\<rparr>, \<lparr>ps_pid = 101, ps_ppid = 100, ps_command = ''sshd: ann''\<rparr>]"

definition example_moment :: "int \<Rightarrow> moment" where
  "example_moment now = \<lparr>mo_now = now, mo_snapshot = example_snapshot, mo_start = (\<lambda>pid. Some 4), mo_rnd = ''0123abcd''\<rparr>"

definition example_conn :: conn_record where
  "example_conn = \<lparr>cr_pid = 100, cr_written_ms = 5000, cr_deadline = Some 10,
    cr_connection_id = ''00000000-0000-4000-8000-00000000000a''\<rparr>"

definition example_name :: string where
  "example_name = conn_record_name (cr_pid example_conn) (cr_connection_id example_conn)"

definition example_reaper :: reaper where
  "example_reaper = \<lparr>re_records = [(example_name, conn_record_file 5000000 example_conn)],
    re_requests = \<lparr>kr_files = Some [], kr_orphans = []\<rparr>, re_spool = \<lparr>sp_files = [], sp_last_us = 0\<rparr>, re_events = [],
    re_signals = [], re_bound = [], re_ending = [], re_reported = []\<rparr>"

definition example_config :: reaper_config where
  "example_config = \<lparr>rc_live = True, rc_test = macos_connection, rc_grace = 5000000\<rparr>"

lemma example_read: "read_record example_name (conn_record_file 5000000 example_conn) = Some example_conn"
proof -
  have "connection_id_ok (cr_connection_id example_conn)" by code_simp
  moreover have "conn_record_text_size example_conn \<le> MAX_RECORD_BYTES"
    using show_nat_length [of 100 3] show_nat_length [of 5000 4] show_nat_length [of 10 2]
    by (simp add: conn_record_text_size_def example_conn_def show_int_def MAX_RECORD_BYTES_def)
  ultimately show ?thesis
    using read_record_file [of example_conn 5000000] by (simp add: example_name_def example_conn_def MAX_PID_def)
qed

lemma example_proc: "proc_of example_snapshot 100 = Some \<lparr>ps_pid = 100, ps_ppid = 1, ps_command = ''sshd: ann [priv]''\<rparr>"
  "is_sshd_monitor \<lparr>ps_pid = 100, ps_ppid = 1, ps_command = ''sshd: ann [priv]''\<rparr>"
  by code_simp+

lemma example_lives: "conn_lives (example_moment now) example_conn 4"
  by (simp add: conn_lives_def example_moment_def example_snapshot_def example_conn_def)

lemma example_bindable: "bindable example_config (example_moment now) example_name example_conn 4 example_reaper"
  using example_read example_proc
  by (simp add: bindable_def example_reaper_def example_config_def example_moment_def example_conn_def macos_connection_def)

lemma example_below: "102 \<in> session_pids (example_moment now) example_conn"
proof -
  have "(100, 101) \<in> parent_of example_snapshot" "(101, 102) \<in> parent_of example_snapshot"
    unfolding parent_of_def mem_Collect_eq example_snapshot_def
    by (intro exI [of _ "\<lparr>ps_pid = 101, ps_ppid = 100, ps_command = ''sshd: ann''\<rparr>"], simp)
      (intro exI [of _ "\<lparr>ps_pid = 102, ps_ppid = 101, ps_command = ''sh''\<rparr>"], simp)
  then have "(100, 102) \<in> (parent_of example_snapshot)\<^sup>+" by (meson trancl.intros)
  then show ?thesis by (simp add: session_pids_def example_moment_def example_conn_def)
qed

lemma deadline_is_enforced_witness:
  "(102, False) \<in> set (re_signals (tick example_config (example_moment 10000000) example_reaper)) \<and>
   (102, True) \<in> set (re_signals (tick example_config (example_moment 15000000)
     (tick example_config (example_moment 10000000) example_reaper)))"
proof -
  let ?re1 = "tick example_config (example_moment 10000000) example_reaper"
  have d: "cr_deadline example_conn = Some 10" by (simp add: example_conn_def)
  have "(\<forall>q\<in>session_pids (example_moment 10000000) example_conn.
        (q, False) \<in> set (drop (length (re_signals example_reaper)) (re_signals ?re1))) \<and>
      (\<forall>q\<in>session_pids (example_moment 15000000) example_conn.
        (q, True) \<in> set (drop (length (re_signals ?re1)) (re_signals (tick example_config (example_moment 15000000) ?re1))))"
    by (rule deadline_is_enforced [OF disjI2 [OF example_bindable] _ example_lives d _ rtranclp.rtrancl_refl example_lives])
      (simp_all add: example_reaper_def example_conn_def example_moment_def example_config_def)
  then show ?thesis using example_below in_set_dropD by metis
qed

lemma reaper_signals_only_connections_witness:
  "(100, 4) \<in> connections example_config (example_moment 10000000) \<and>
   (\<exists>p t. (p, t) \<in> {} \<union> connections example_config (example_moment 10000000) \<and> p \<in> ps_pid ` set example_snapshot \<and>
     (102 = p \<or> (p, 102) \<in> (parent_of example_snapshot)\<^sup>+))"
proof -
  let ?mo = "example_moment 10000000"
  have "enforced example_config ?mo example_name example_conn example_reaper (tick example_config ?mo example_reaper)"
    using tick_enforced [OF example_lives] example_bindable by blast
  then have q: "(102, False) \<in> set (drop (length (re_signals example_reaper))
      (re_signals (tick example_config ?mo example_reaper)))"
    using example_below [of 10000000] by (simp add: enforced_def due_def example_reaper_def example_conn_def example_moment_def)
  have "re_bound example_reaper = []" by (simp add: example_reaper_def)
  then have "\<exists>p t. (p, t) \<in> {} \<union> connections example_config ?mo \<and> p \<in> ps_pid ` set (mo_snapshot ?mo) \<and>
      mo_start ?mo p = Some t \<and> (102 = p \<or> (p, 102) \<in> (parent_of (mo_snapshot ?mo))\<^sup>+)"
    by (rule reaper_signals_only_connections [OF rtranclp.rtrancl_refl _ q])
  moreover have "(100, 4) \<in> connections example_config ?mo"
    unfolding connections_def mem_Collect_eq using example_proc(2)
    by (intro exI [of _ "\<lparr>ps_pid = 100, ps_ppid = 1, ps_command = ''sshd: ann [priv]''\<rparr>"])
      (simp add: example_config_def example_moment_def example_snapshot_def macos_connection_def)
  ultimately show ?thesis by (auto simp: example_moment_def)
qed

end
