(* ===== verification/Live_Order.thy ===== *)
theory Live_Order
  imports Live_Events
begin

text \<open>
  The events of a session reach the server in the order in which they were written. The names of the
  files sort like their time stamps, a pass sends a beginning of what waits for each session, an event
  whose answer was lost is sent again before any later one, and an event that waited too long is dropped, not moved.
\<close>

section \<open>The names of the files sort like their time stamps\<close>

lemma less_append_same_length:
  "length xs = length ys \<Longrightarrow> (xs :: 'a::order list) < ys \<Longrightarrow> xs @ u < ys @ v"
  by (induction rule: list_induct2) auto

lemma less_snoc:
  assumes "length xs = length ys" and "(xs :: 'a::order list) < ys \<or> xs = ys \<and> a < b"
  shows "xs @ [a] < ys @ [b]"
proof (cases "xs < ys")
  case False
  have "xs @ [a] < xs @ [b]" if "a < b" for xs using that by (induction xs) auto
  then show ?thesis using False assms(2) by auto
qed (use assms(1) less_append_same_length in blast)

lemma length_pad: "n < 10 ^ w \<Longrightarrow> 0 < w \<Longrightarrow> length (pad w n) = w"
  using show_nat_length [of n w] by (simp add: pad_def)

lemma digit_char_0: "digit_char 0 = CHR ''0''"
  by code_simp

lemma pad_Suc:
  assumes "n < 10 ^ Suc w" and "0 < w"
  shows "pad (Suc w) n = pad w (n div 10) @ [digit_char (n mod 10)]"
proof (cases "n < 10")
  case True
  then show ?thesis using assms(2) 
    by (cases w) (simp_all add: pad_def show_nat_simps digit_char_0 replicate_append_same)
next
  case False
  then show ?thesis by (simp add: pad_def show_nat_simps)
qed

lemma digit_char_less: "m < n \<Longrightarrow> n < 10 \<Longrightarrow> digit_char m < digit_char n"
  by (auto simp: digit_char_def less_char_def)

lemma same_tens: "\<not> (m :: nat) div 10 < n div 10 \<Longrightarrow> m < n \<Longrightarrow> m div 10 = n div 10 \<and> m mod 10 < n mod 10"
proof -
  assume a: "\<not> m div 10 < n div 10" "m < n"
  then have "m div 10 = n div 10" using div_le_mono [of m n 10] by simp
  then show ?thesis using a(2) div_mult_mod_eq [of m 10] div_mult_mod_eq [of n 10] by linarith
qed

lemma pad_less: "m < n \<Longrightarrow> n < 10 ^ w \<Longrightarrow> 0 < w \<Longrightarrow> pad w m < pad w n"
proof (induction w arbitrary: m n)
  case (Suc w)
  show ?case
  proof (cases "w = 0")
    case True
    then show ?thesis using Suc.prems by (simp add: pad_def show_nat_simps digit_char_less)
  next
    case False
    have div: "n div 10 < 10 ^ w" "m div 10 < 10 ^ w" using Suc.prems by auto
    note snoc = pad_Suc [OF _ False [unfolded neq0_conv]]
    have last: "n mod 10 < 10" by simp
    have "pad w (m div 10) < pad w (n div 10) \<or>
        pad w (m div 10) = pad w (n div 10) \<and> digit_char (m mod 10) < digit_char (n mod 10)"
    proof (cases "m div 10 < n div 10")
      case True
      then show ?thesis using Suc.IH [OF True div(1)] False by blast
    next
      case False
      then have "m div 10 = n div 10" "m mod 10 < n mod 10" using same_tens Suc.prems(1) by blast+
      then show ?thesis using digit_char_less [OF _ last] by simp
    qed
    then have "pad w (m div 10) @ [digit_char (m mod 10)] < pad w (n div 10) @ [digit_char (n mod 10)]"
      using length_pad [OF div(1)] length_pad [OF div(2)] False by (intro less_snoc) simp_all
    then show ?thesis using snoc [of m] snoc [of n] Suc.prems by simp
  qed
qed simp

definition latest_us :: int where "latest_us = 10 ^ 16 - 1"

lemma event_name_less:
  assumes "0 \<le> m" and "m < n" and "n \<le> latest_us"
  shows "event_name m k r < event_name n k' r'"
proof -
  have "nat m < nat n" "nat n < 10 ^ 16" using assms by (auto simp: latest_us_def)
  then have "pad 16 (nat m) < pad 16 (nat n)" "length (pad 16 (nat m)) = length (pad 16 (nat n))"
    using pad_less [of "nat m" "nat n" 16] length_pad [of "nat m" 16] length_pad [of "nat n" 16] by auto
  then show ?thesis
    using assms less_append_same_length by (simp add: event_name_def pad_us_def)
qed

section \<open>What is written is read back\<close>

lemma char_less_nat: "(a :: char) < b \<longleftrightarrow> (of_char a :: nat) < of_char b"
  by (simp add: less_char_def)

lemma show_nat_all_digits: "list_all is_ascii_digit (show_nat n)"
  using show_nat_digits [of _ n] by (auto simp: list_all_iff is_ascii_digit_def)

lemma pad_digits: "list_all is_ascii_digit (pad w n)"
proof -
  have "is_ascii_digit CHR ''0''" by code_simp
  then show ?thesis using show_nat_all_digits [of n] by (auto simp: pad_def list_all_iff)
qed

lemma event_name_kind_write:
  assumes "0 \<le> t" and "t \<le> latest_us" and "length r = 8" and "list_all is_hex r"
  shows "event_name_kind (event_name t k r) = Some k"
proof -
  have len: "length (pad 16 (nat t)) = 16" using assms(1,2) length_pad [of "nat t" 16] by (simp add: latest_us_def)
  have rest: "event_rest_ok (r @ ''.json'')" using assms(3,4) by (simp add: event_rest_ok_def)
  show ?thesis
    using assms(1) len pad_digits [of 16 "nat t"] rest
    by (cases k) (simp_all add: event_name_kind_def event_name_def pad_us_def kind_name_def Let_def)
qed

lemma read_event_write:
  assumes "0 \<le> t" and "t \<le> latest_us" and "length r = 8" and "list_all is_hex r"
    and "connection_id_ok (ev_connection_id e)" and "event_session_ok (ev_session_id e)"
    and "0 \<le> ev_at e" and "int (length (event_text e)) \<le> MAX_EVENT_BYTES"
  shows "read_event (event_name t (ev_kind e) r) (event_file now e) = Some e"
  using assms(5-8) event_name_kind_write [OF assms(1-4)] by (simp add: read_event_def event_file_def)

lemma read_event_only_written:
  assumes "0 \<le> t" and "t \<le> latest_us" and "length r = 8" and "list_all is_hex r"
    and "read_event (event_name t (ev_kind e) r) (event_file now e) = Some e'"
  shows "e' = e"
  using assms(5) event_name_kind_write [OF assms(1-4)]
  by (auto simp: read_event_def event_file_def split: if_splits)

section \<open>What a pass sends, and what it leaves\<close>

abbreviation of_session :: "string \<times> string \<Rightarrow> event list \<Rightarrow> event list" where
  "of_session s \<equiv> filter (\<lambda>e. session_of e = s)"

abbreviation waiting :: "directory \<Rightarrow> event list" where
  "waiting dir \<equiv> map snd (read_events dir)"

lemma map_filter_append: "List.map_filter f (xs @ ys) = List.map_filter f xs @ List.map_filter f ys"
  by (induction xs) (auto simp: map_filter_simps split: option.split)

lemma map_filter_cong: "(\<And>x. x \<in> set xs \<Longrightarrow> f x = g x) \<Longrightarrow> List.map_filter f xs = List.map_filter g xs"
  by (induction xs) (auto simp: map_filter_simps split: option.split)

lemma map_filter_filter:
  "(\<And>x. x \<in> set xs \<Longrightarrow> f x = (if P x then g x else None)) \<Longrightarrow> List.map_filter f xs = List.map_filter g (filter P xs)"
  by (induction xs) (auto simp: map_filter_simps split: option.split)

lemma read_events_name: "(name, e) \<in> set (read_events dir) \<Longrightarrow> event_at dir name = Some (name, e)"
proof -
  assume "(name, e) \<in> set (read_events dir)"
  moreover have "(name, e) \<in> set (List.map_filter (event_at d) ns) \<Longrightarrow> event_at d name = Some (name, e)" for d ns
    by (induction ns) (auto simp: map_filter_simps event_at_def split: option.splits)
  ultimately show ?thesis by (simp add: read_events_def)
qed

text \<open>The files that are kept, when some are removed.\<close>

lemma read_events_restrict:
  assumes d: "distinct (map fst dir)"
  shows "read_events (filter (\<lambda>(n, f). P n f) dir) =
    filter (\<lambda>(n, e). \<exists>f. map_of dir n = Some f \<and> P n f) (read_events dir)"
proof -
  let ?K = "\<lambda>n. \<exists>f. map_of dir n = Some f \<and> P n f"
  have mem: "n \<in> fst ` set (filter (\<lambda>(n, f). P n f) dir) \<longleftrightarrow> ?K n" if "n \<in> fst ` set dir" for n
    using d by (force simp: image_iff)
  have names: "names_of (filter (\<lambda>(n, f). P n f) dir) = filter ?K (names_of dir)"
  proof -
    have "P n f \<longleftrightarrow> ?K n" if "(n, f) \<in> set dir" for n f
      using d that by (auto dest: map_of_is_SomeI)
    then have "map fst (filter (\<lambda>(n, f). P n f) dir) = filter ?K (map fst dir)"
      by (auto simp: filter_map o_def intro!: arg_cong [where f = "map fst"] filter_cong)
    then show ?thesis by (simp add: names_of_def filter_sort)
  qed
  have at: "event_at (filter (\<lambda>(n, f). P n f) dir) n = event_at dir n" if kept: "?K n" for n
  proof -
    obtain f where "map_of dir n = Some f" "P n f" using kept by blast
    then have "(n, f) \<in> set (filter (\<lambda>(n, f). P n f) dir)" by (auto dest: map_of_SomeD)
    moreover have "distinct (map fst (filter (\<lambda>(n, f). P n f) dir))" using d by (rule distinct_map_filter)
    ultimately have "map_of (filter (\<lambda>(n, f). P n f) dir) n = Some f" by simp
    then show ?thesis using \<open>map_of dir n = Some f\<close> by (simp add: event_at_def)
  qed
  have "List.map_filter (event_at dir) (filter ?K ns) = filter (\<lambda>(n, e). ?K n) (List.map_filter (event_at dir) ns)" for ns
    by (induction ns) (auto simp: map_filter_simps event_at_def split: option.splits)
  moreover have "List.map_filter (event_at (filter (\<lambda>(n, f). P n f) dir)) (filter ?K ns) =
      List.map_filter (event_at dir) (filter ?K ns)" for ns
    using at by (intro map_filter_cong) simp
  ultimately show ?thesis by (simp add: read_events_def names)
qed

lemma unlink_filter: "unlink name dir = filter (\<lambda>(n, f). n \<noteq> name) dir"
  by (auto simp: unlink_def AList.delete_eq case_prod_unfold intro!: filter_cong)

text \<open>What the server got of a session is what was accepted, and possibly the first event that was not.\<close>

definition got_more :: "'e list \<Rightarrow> 'e list \<Rightarrow> 'e list \<Rightarrow> bool" where
  "got_more got sent rest \<longleftrightarrow> got = sent \<or> (\<exists>e later. rest = e # later \<and> got = sent @ [e])"

lemma got_more_Cons: "got_more got sent rest \<Longrightarrow> got_more (e # got) (e # sent) rest"
  by (auto simp: got_more_def)

lemma forward_events_exact:
  assumes "forward_events send evs blocked dir = (got, sent, dir')" and "distinct (map fst evs)"
  shows "\<exists>gone. set gone \<subseteq> fst ` set evs \<and> dir' = filter (\<lambda>(n, f). n \<notin> set gone) dir \<and>
    (\<forall>s. of_session s (map snd evs) = of_session s sent @ of_session s (map snd (filter (\<lambda>(n, e). n \<notin> set gone) evs)) \<and>
      got_more (of_session s got) (of_session s sent) (of_session s (map snd (filter (\<lambda>(n, e). n \<notin> set gone) evs))) \<and>
      (s \<in> set blocked \<longrightarrow> of_session s sent = [] \<and> of_session s got = []))"
  using assms
proof (induction send evs blocked dir arbitrary: got sent dir' rule: forward_events.induct)
  case (2 send path event events blocked dir)
  have d: "distinct (map fst events)" "path \<notin> fst ` set events" using "2.prems"(2) by auto
  let ?rest = "\<lambda>gone s. of_session s (map snd (filter (\<lambda>(n, e). n \<notin> set gone) events))"
  consider (blocked) "session_of event \<in> set blocked"
    | (accepted) "session_of event \<notin> set blocked" "send path event = Accepted"
    | (lost) "session_of event \<notin> set blocked" "send path event = Answer_Lost"
    | (fails) "session_of event \<notin> set blocked" "send path event = Not_Delivered"
    by (cases "send path event") blast+
  then show ?case
  proof cases
    case blocked
    obtain gone where g: "set gone \<subseteq> fst ` set events" "dir' = filter (\<lambda>(n, f). n \<notin> set gone) dir"
      "\<And>s. of_session s (map snd events) = of_session s sent @ ?rest gone s"
      "\<And>s. got_more (of_session s got) (of_session s sent) (?rest gone s)"
      "\<And>s. s \<in> set blocked \<Longrightarrow> of_session s sent = [] \<and> of_session s got = []"
      using "2.IH"(1) [OF blocked _ d(1), of got sent dir'] "2.prems"(1) blocked by auto
    have "path \<notin> set gone" using g(1) d(2) by auto
    then show ?thesis using g blocked by (intro exI [of _ gone]) (auto simp: got_more_def)
  next
    case accepted
    obtain got1 sent1 where s1: "forward_events send events blocked (unlink path dir) = (got1, sent1, dir')"
        "got = event # got1" "sent = event # sent1"
      using "2.prems"(1) accepted by (auto split: prod.splits)
    obtain gone where g: "set gone \<subseteq> fst ` set events" "dir' = filter (\<lambda>(n, f). n \<notin> set gone) (unlink path dir)"
      "\<And>s. of_session s (map snd events) = of_session s sent1 @ ?rest gone s"
      "\<And>s. got_more (of_session s got1) (of_session s sent1) (?rest gone s)"
      "\<And>s. s \<in> set blocked \<Longrightarrow> of_session s sent1 = [] \<and> of_session s got1 = []"
      using "2.IH"(2) [OF accepted s1(1) d(1)] by blast
    have kept: "filter (\<lambda>(n, e). n \<notin> set (path # gone)) events = filter (\<lambda>(n, e). n \<notin> set gone) events"
      using d(2) by (intro filter_cong refl) force
    have "dir' = filter (\<lambda>(n, f). n \<notin> set (path # gone)) dir"
      unfolding g(2) unlink_filter filter_filter by (intro filter_cong) auto
    then show ?thesis using g(1,3-5) kept accepted(1) got_more_Cons [OF g(4)]
      by (intro exI [of _ "path # gone"]) (auto simp: s1(2,3))
  next
    case lost
    obtain got1 where s1: "forward_events send events (session_of event # blocked) dir = (got1, sent, dir')" "got = event # got1"
      using "2.prems"(1) lost by (auto split: prod.splits)
    obtain gone where g: "set gone \<subseteq> fst ` set events" "dir' = filter (\<lambda>(n, f). n \<notin> set gone) dir"
      "\<And>s. of_session s (map snd events) = of_session s sent @ ?rest gone s"
      "\<And>s. got_more (of_session s got1) (of_session s sent) (?rest gone s)"
      "\<And>s. s \<in> set (session_of event # blocked) \<Longrightarrow> of_session s sent = [] \<and> of_session s got1 = []"
      using "2.IH"(3) [OF lost s1(1) d(1)] by blast
    have "path \<notin> set gone" using g(1) d(2) by auto
    then show ?thesis using g(1-4) g(5) [of "session_of event"] g(5) lost(1)
      by (intro exI [of _ gone]) (auto simp: s1(2) got_more_def)
  next
    case fails
    have e: "forward_events send events (session_of event # blocked) dir = (got, sent, dir')"
      using "2.prems"(1) fails by simp
    obtain gone where g: "set gone \<subseteq> fst ` set events" "dir' = filter (\<lambda>(n, f). n \<notin> set gone) dir"
      "\<And>s. of_session s (map snd events) = of_session s sent @ ?rest gone s"
      "\<And>s. got_more (of_session s got) (of_session s sent) (?rest gone s)"
      "\<And>s. s \<in> set (session_of event # blocked) \<Longrightarrow> of_session s sent = [] \<and> of_session s got = []"
      using "2.IH"(4) [OF fails e d(1)] by blast
    have "path \<notin> set gone" using g(1) d(2) by auto
    then show ?thesis using g(1-4) g(5) [of "session_of event"] g(5)
      by (intro exI [of _ gone]) (auto simp: got_more_def)
  qed
qed (auto simp: got_more_def)

lemma distinct_read_events: "distinct (map fst dir) \<Longrightarrow> distinct (map fst (read_events dir))"
proof -
  have "map fst (List.map_filter (event_at d) ns) = filter (\<lambda>n. event_at d n \<noteq> None) ns" for d ns
    by (induction ns) (auto simp: map_filter_simps event_at_def split: option.splits)
  then show "distinct (map fst dir) \<Longrightarrow> ?thesis" by (simp add: read_events_def names_of_def)
qed

text \<open>
  For each session, a pass sends a beginning of what waits, in order. When nothing is too old, the rest
  still waits afterwards; otherwise some of it is gone.
\<close>

lemma forward_splits:
  assumes "forward send now max_age dir = (got, sent, dir')" and d: "distinct (map fst dir)"
  shows "\<exists>rest. of_session s (waiting dir) = of_session s sent @ rest \<and>
    got_more (of_session s got) (of_session s sent) rest \<and> subseq (of_session s (waiting dir')) rest \<and>
    ((\<forall>(n, f)\<in>set dir. now - fl_mtime f \<le> max_age) \<longrightarrow> of_session s (waiting dir') = rest)"
    and "distinct (map fst dir')" and "set dir' \<subseteq> set dir"
proof -
  obtain dir1 where f: "forward_events send (read_events dir) [] dir = (got, sent, dir1)" "dir' = expire_events now max_age dir1"
    using assms(1) by (auto simp: forward_def split: prod.splits)
  obtain gone where g: "dir1 = filter (\<lambda>(n, f). n \<notin> set gone) dir"
    "\<And>s. of_session s (waiting dir) =
      of_session s sent @ of_session s (map snd (filter (\<lambda>(n, e). n \<notin> set gone) (read_events dir)))"
    "\<And>s. got_more (of_session s got) (of_session s sent)
      (of_session s (map snd (filter (\<lambda>(n, e). n \<notin> set gone) (read_events dir))))"
    using forward_events_exact [OF f(1) distinct_read_events [OF d]] by auto
  have d1: "distinct (map fst dir1)" unfolding g(1) using d by (rule distinct_map_filter)
  show "distinct (map fst dir')" "set dir' \<subseteq> set dir"
    using distinct_map_filter [OF d1] by (auto simp: f(2) expire_events_def g(1))
  have "filter (\<lambda>(n, e). \<exists>f. map_of dir n = Some f \<and> n \<notin> set gone) (read_events dir) =
      filter (\<lambda>(n, e). n \<notin> set gone) (read_events dir)"
  proof (rule filter_cong [OF refl])
    fix x assume x: "x \<in> set (read_events dir)"
    obtain n e where ne: "x = (n, e)" by fastforce
    then have "map_of dir n \<noteq> None" using x read_events_name [of n e dir] by (auto simp: event_at_def split: option.splits)
    then show "(case x of (n, e) \<Rightarrow> \<exists>f. map_of dir n = Some f \<and> n \<notin> set gone) = (case x of (n, e) \<Rightarrow> n \<notin> set gone)"
      using ne by auto
  qed
  then have w1: "read_events dir1 = filter (\<lambda>(n, e). n \<notin> set gone) (read_events dir)"
    unfolding g(1) read_events_restrict [OF d] by simp
  have w2: "read_events dir' = filter (\<lambda>(n, e). \<exists>f. map_of dir1 n = Some f \<and> \<not> now - fl_mtime f > max_age) (read_events dir1)"
    unfolding f(2) expire_events_def by (rule read_events_restrict [OF d1])
  have "subseq (of_session s (waiting dir')) (of_session s (waiting dir1))"
    unfolding w2 by (intro subseq_filter subseq_map subseq_filter_left)
  moreover have "dir' = dir1" if "\<forall>(n, f)\<in>set dir. now - fl_mtime f \<le> max_age"
    unfolding f(2) expire_events_def using that g(1) by (intro filter_True) auto
  ultimately show "\<exists>rest. of_session s (waiting dir) = of_session s sent @ rest \<and>
    got_more (of_session s got) (of_session s sent) rest \<and> subseq (of_session s (waiting dir')) rest \<and>
    ((\<forall>(n, f)\<in>set dir. now - fl_mtime f \<le> max_age) \<longrightarrow> of_session s (waiting dir') = rest)"
    using g(2,3) [of s] by (intro exI [of _ "of_session s (waiting dir1)"]) (auto simp: w1)
qed

section \<open>What arrives, with repetitions\<close>

text \<open>The second list is the first, with any element once or more often in a row.\<close>

inductive repeated :: "'e list \<Rightarrow> 'e list \<Rightarrow> bool" where
  none: "repeated [] []"
| first: "repeated E D \<Longrightarrow> repeated (E @ [e]) (D @ [e])"
| again: "repeated (E @ [e]) D \<Longrightarrow> repeated (E @ [e]) (D @ [e])"

lemma repeated_append: "repeated E D \<Longrightarrow> repeated (E @ xs) (D @ xs)"
proof (induction xs arbitrary: E D)
  case (Cons x xs)
  then have "repeated ((E @ [x]) @ xs) ((D @ [x]) @ xs)" by (intro Cons.IH repeated.first)
  then show ?case by simp
qed simp

text \<open>
  The events \<open>D\<close> have arrived and \<open>wait\<close> still wait, of the events \<open>W\<close> that were written. The first that waits may
  have arrived already.
\<close>

definition arrived :: "'e list \<Rightarrow> 'e list \<Rightarrow> 'e list \<Rightarrow> bool" where
  "arrived D wait W \<longleftrightarrow> (\<exists>E. repeated E D \<and>
    (subseq (E @ wait) W \<or> (\<exists>E' e later. E = E' @ [e] \<and> wait = e # later \<and> subseq (E' @ wait) W)))"

lemma arrived_in_order: "arrived D wait W \<Longrightarrow> \<exists>E. repeated E D \<and> subseq E W"
proof -
  have "subseq E (E @ wait)" for E by (simp add: subseq_rev_drop_many)
  moreover have "subseq (E @ [e]) (E @ e # later)" for E e later by (simp add: subseq_append')
  ultimately show "arrived D wait W \<Longrightarrow> ?thesis"
    unfolding arrived_def by (metis subseq_order.order_trans)
qed

lemma arrived_write:
  assumes "arrived D wait W"
  shows "arrived D wait (W @ xs)" and "arrived D (wait @ xs) (W @ xs)"
proof -
  have "subseq l (W @ xs)" "subseq (l @ xs) (W @ xs)" if "subseq l W" for l
    using that by (simp_all add: subseq_rev_drop_many)
  moreover obtain E where "repeated E D"
      "subseq (E @ wait) W \<or> (\<exists>E' e later. E = E' @ [e] \<and> wait = e # later \<and> subseq (E' @ wait) W)"
    using assms unfolding arrived_def by blast
  ultimately show "arrived D wait (W @ xs)" "arrived D (wait @ xs) (W @ xs)"
    unfolding arrived_def by (metis append.assoc, metis append.assoc append_Cons)
qed

lemma subseq_of_Cons: "subseq ys (x # xs) \<Longrightarrow> (\<exists>zs. ys = x # zs \<and> subseq zs xs) \<or> subseq ys xs"
  by (cases ys) (auto split: if_splits)

lemma arrived_after:
  assumes "repeated (E @ [e]) D" and "subseq (E @ e # later) W" and "subseq wait (e # later)"
  shows "arrived D wait W"
proof -
  consider zs where "wait = e # zs" "subseq zs later" | "subseq wait later" using subseq_of_Cons [OF assms(3)] by blast
  then show ?thesis
  proof cases
    case 1
    then have "subseq (E @ wait) W" using assms(2) by (meson subseq_order.order_trans subseq_append' subseq_Cons2_iff)
    then show ?thesis using assms(1) 1(1) unfolding arrived_def by blast
  next
    case 2
    then have "subseq ((E @ [e]) @ wait) W" using assms(2)
      by (metis append.assoc append_Cons append_Nil subseq_append' subseq_order.order_trans)
    then show ?thesis using assms(1) unfolding arrived_def by blast
  qed
qed

lemma arrived_pass_new:
  assumes "repeated E D" and "subseq (E @ sent @ rest) W" and "got_more got sent rest" and "subseq wait rest"
  shows "arrived (D @ got) wait W"
proof (cases "got = sent")
  case True
  have "subseq ((E @ sent) @ wait) W"
    using assms(2,4) by (metis append.assoc subseq_append' subseq_order.order_trans)
  then show ?thesis using repeated_append [OF assms(1), of sent] True unfolding arrived_def by blast
next
  case False
  then obtain e later where e: "rest = e # later" "got = sent @ [e]" using assms(3) unfolding got_more_def by blast
  have "repeated ((E @ sent) @ [e]) (D @ got)" using repeated_append [OF assms(1), of "sent @ [e]"] e(2) by simp
  then show ?thesis by (rule arrived_after) (use assms(2,4) e(1) in simp_all)
qed

lemma arrived_pass_again:
  assumes E: "repeated (E' @ [e]) D" and waits: "subseq (E' @ e # later) W" and split: "sent @ rest = e # later"
    and got: "got_more got sent rest" and left: "subseq wait rest"
  shows "arrived (D @ got) wait W"
proof (cases sent)
  case Nil
  then have rest: "rest = e # later" using split by simp
  have "repeated (E' @ [e]) (D @ got)"
    using E got Nil rest repeated.again [of E' e D] by (auto simp: got_more_def)
  then show ?thesis by (rule arrived_after [OF _ waits]) (use left rest in simp)
next
  case (Cons x sent')
  then have x: "x = e" "later = sent' @ rest" using split by simp_all
  have "repeated (E' @ [e]) (D @ [e])" using E by (rule repeated.again)
  moreover have "subseq ((E' @ [e]) @ sent' @ rest) W" using waits x(2) by simp
  moreover obtain got' where got': "got = e # got'" "got_more got' sent' rest"
    using got Cons x(1) by (auto simp: got_more_def)
  ultimately have "arrived ((D @ [e]) @ got') wait W" using arrived_pass_new left by blast
  then show ?thesis using got'(1) by simp
qed

lemma arrived_pass:
  assumes "arrived D (sent @ rest) W" and got: "got_more got sent rest" and left: "subseq wait rest"
  shows "arrived (D @ got) wait W"
proof -
  obtain E where E: "repeated E D"
    and "subseq (E @ sent @ rest) W \<or> (\<exists>E' e later. E = E' @ [e] \<and> sent @ rest = e # later \<and> subseq (E' @ sent @ rest) W)"
    using assms(1) unfolding arrived_def by blast
  from this(2) show ?thesis
  proof (elim disjE exE conjE)
    assume "subseq (E @ sent @ rest) W"
    then show ?thesis by (rule arrived_pass_new [OF E _ got left])
  next
    fix E' e later assume e: "E = E' @ [e]" "sent @ rest = e # later" "subseq (E' @ sent @ rest) W"
    show ?thesis by (rule arrived_pass_again [OF E [unfolded e(1)] e(3) [unfolded e(2)] e(2) got left])
  qed
qed

section \<open>Writers and the process that forwards\<close>

text \<open>
  The spool with its last writer, the last time stamp that any writer used, what was written and what the
  server got. A new writer starts without a last time stamp; the clock has moved on since the last event of
  another writer.
\<close>

type_synonym live = "spool \<times> int \<times> event list \<times> event list"

inductive live_step :: "live \<Rightarrow> live \<Rightarrow> bool" where
  writer_starts: "live_step (sp, c, W, D) (sp\<lparr>sp_last_us := 0\<rparr>, c, W, D)"
| event_written: "0 \<le> now \<Longrightarrow> c < now \<or> sp_last_us sp = c \<Longrightarrow> length rnd = 8 \<Longrightarrow> list_all is_hex rnd \<Longrightarrow>
    write_event now rnd e sp = (Some path, sp') \<Longrightarrow> sp_last_us sp' \<le> latest_us \<Longrightarrow>
    live_step (sp, c, W, D) (sp', sp_last_us sp', W @ [e], D)"
| event_refused: "write_event now rnd e sp = (None, sp') \<Longrightarrow> live_step (sp, c, W, D) (sp', c, W, D)"
| pass: "forward send now MAX_AGE (sp_files sp) = (got, sent, dir') \<Longrightarrow>
    live_step (sp, c, W, D) (sp\<lparr>sp_files := dir'\<rparr>, c, W, D @ got)"

inductive_cases live_stepE [consumes 1, case_names writer_starts event_written event_refused pass]:
  "live_step (sp, c, W, D) (sp', c', W', D')"

definition spool_ok :: "spool \<Rightarrow> int \<Rightarrow> bool" where
  "spool_ok sp c \<longleftrightarrow> distinct (map fst (sp_files sp)) \<and> 0 \<le> sp_last_us sp \<and> sp_last_us sp \<le> c \<and> 0 \<le> c \<and>
    (\<forall>n\<in>fst ` set (sp_files sp). \<forall>t k r. c < t \<longrightarrow> t \<le> latest_us \<longrightarrow> n < event_name t k r)"

lemma sort_append_greater: "\<forall>x\<in>set xs. x < (y :: 'a::linorder) \<Longrightarrow> sort (xs @ [y]) = sort xs @ [y]"
proof (induction xs)
  case (Cons x xs)
  have "insort x (zs @ [y]) = insort x zs @ [y]" if "x < y" for zs using that by (induction zs) auto
  then show ?case using Cons by simp
qed simp

text \<open>A new event waits behind all the others.\<close>

lemma waiting_write:
  assumes "\<forall>n\<in>fst ` set dir. n < name" and only: "\<And>e'. read_event name f = Some e' \<Longrightarrow> e' = e"
  shows "waiting (write_file name f dir) = waiting dir \<or> waiting (write_file name f dir) = waiting dir @ [e]"
proof -
  have new: "name \<notin> fst ` set dir" using assms(1) by auto
  have w: "write_file name f dir = dir @ [(name, f)]"
  proof -
    have "AList.update k v al = al @ [(k, v)]" if "k \<notin> fst ` set al" for k and v :: host_file and al
      using that by (induction al) auto
    then show ?thesis using new by (simp add: write_file_def)
  qed
  have names: "names_of (write_file name f dir) = names_of dir @ [name]"
    using assms(1) sort_append_greater [of "map fst dir" name] by (simp add: w names_of_def)
  have same: "event_at (write_file name f dir) n = event_at dir n" if "n \<in> set (names_of dir)" for n
  proof -
    have "n \<noteq> name" using that new by auto
    then show ?thesis by (simp add: event_at_def map_of_write_file)
  qed
  have old: "List.map_filter (event_at (write_file name f dir)) (names_of dir) = read_events dir"
    unfolding read_events_def using same by (rule map_filter_cong)
  have "read_events (write_file name f dir) = read_events dir @ List.map_filter (event_at (write_file name f dir)) [name]"
    unfolding read_events_def [of "write_file name f dir"] names map_filter_append old by (rule refl)
  then show ?thesis using only
    by (auto simp: map_filter_simps event_at_def map_of_write_file split: option.split)
qed

lemma write_event_Some:
  assumes "write_event now rnd e sp = (Some path, sp')"
  shows "path = event_name (sp_last_us sp') (ev_kind e) rnd" and "sp_last_us sp' = max now (sp_last_us sp + 1)"
    and "sp_files sp' = write_file path (event_file now e) (sp_files sp)"
  using assms by (auto simp: write_event_def Let_def split: if_splits)

lemma live_step_spool:
  assumes "live_step (sp, c, W, D) (sp', c', W', D')" and ok: "spool_ok sp c"
    and inv: "arrived (of_session s D) (of_session s (waiting (sp_files sp))) (of_session s W)"
  shows "spool_ok sp' c' \<and> arrived (of_session s D') (of_session s (waiting (sp_files sp'))) (of_session s W')"
  using assms(1)
proof (cases rule: live_stepE)
  case writer_starts
  then show ?thesis using ok inv by (simp add: spool_ok_def)
next
  case (event_written now rnd e path)
  note w = write_event_Some [OF event_written(5)]
  have later: "c < sp_last_us sp'" "0 \<le> sp_last_us sp'" using event_written(1,2) ok w(2) by (auto simp: spool_ok_def)
  have below: "\<forall>n\<in>fst ` set (sp_files sp). n < path"
    using ok later(1) event_written(6) unfolding w(1) spool_ok_def by blast
  have "n < event_name t k r"
    if "n \<in> fst ` set (sp_files sp')" "sp_last_us sp' < t" "t \<le> latest_us" for n t k r
  proof (cases "n = path")
    case True
    then show ?thesis using event_name_less [OF later(2) that(2,3)] w(1) by simp
  next
    case False
    then have "n \<in> fst ` set (sp_files sp)" using that(1) by (auto simp: w(3) write_file_def dom_update)
    then show ?thesis using ok that(2,3) later(1) by (auto simp: spool_ok_def)
  qed
  then have "spool_ok sp' c'" using ok later event_written(7)
    by (auto simp: spool_ok_def w(3) write_file_def distinct_update)
  moreover have "e' = e" if "read_event path (event_file now e) = Some e'" for e'
    using read_event_only_written [OF later(2) event_written(6,3,4), of e now e'] that w(1) by simp
  then have "waiting (sp_files sp') = waiting (sp_files sp) \<or> waiting (sp_files sp') = waiting (sp_files sp) @ [e]"
    unfolding w(3) by (intro waiting_write [OF below])
  then have "arrived (of_session s D') (of_session s (waiting (sp_files sp'))) (of_session s W')"
    using arrived_write [OF inv, of "of_session s [e]"] event_written(8,9) by (elim disjE) simp_all
  ultimately show ?thesis by blast
next
  case (event_refused now rnd e)
  then have "sp' = sp" by (auto simp: write_event_def Let_def split: if_splits)
  then show ?thesis using ok inv event_refused by simp
next
  case (pass send now got sent dir')
  note d = ok [unfolded spool_ok_def, THEN conjunct1]
  have below: "\<forall>n\<in>fst ` set dir'. \<forall>t k r. c < t \<longrightarrow> t \<le> latest_us \<longrightarrow> n < event_name t k r"
    using ok forward_splits(3) [OF pass(1) d] unfolding spool_ok_def by blast
  have "sp_files sp' = dir'" "sp_last_us sp' = sp_last_us sp" "c' = c" using pass(2,3) by simp_all
  then have "spool_ok sp' c'" using ok forward_splits(2) [OF pass(1) d] below by (simp only: spool_ok_def)
  moreover obtain rest where "of_session s (waiting (sp_files sp)) = of_session s sent @ rest"
      "got_more (of_session s got) (of_session s sent) rest" "subseq (of_session s (waiting dir')) rest"
    using forward_splits(1) [OF pass(1) d] by blast
  then have "arrived (of_session s D @ of_session s got) (of_session s (waiting dir')) (of_session s W)"
    using arrived_pass inv by metis
  then have "arrived (of_session s D') (of_session s (waiting (sp_files sp'))) (of_session s W')"
    using pass by simp
  ultimately show ?thesis by blast
qed

lemma live_steps_spool:
  assumes "live_step\<^sup>*\<^sup>* (\<lparr>sp_files = [], sp_last_us = 0\<rparr>, 0, [], []) x"
  shows "case x of (sp, c, W, D) \<Rightarrow>
    spool_ok sp c \<and> arrived (of_session s D) (of_session s (waiting (sp_files sp))) (of_session s W)"
  using assms
proof (induction rule: rtranclp_induct)
  case base
  have "read_events [] = []" by (simp add: read_events_def names_of_def map_filter_simps)
  moreover have "arrived [] [] []" unfolding arrived_def using repeated.none by auto
  ultimately show ?case by (simp add: spool_ok_def)
next
  case (step x y)
  obtain sp c W D where x: "x = (sp, c, W, D)" by (cases x) auto
  obtain sp' c' W' D' where y: "y = (sp', c', W', D')" by (cases y) auto
  have "spool_ok sp c" "arrived (of_session s D) (of_session s (waiting (sp_files sp))) (of_session s W)"
    using step(3) unfolding x by simp_all
  then show ?case using live_step_spool [OF step(2) [unfolded x y]] unfolding y by simp
qed

text \<open>
  C26. For every session, the server gets events of the session in the order in which the host wrote them, and none
  that was not written; an event whose answer was lost arrives again, but before any later event of the session.
  So what arrives is a part of what was written, in order, with repetitions in a row only: whatever the server
  accepts, refuses or takes without an answer, whenever new writers start, and whatever passes drop because
  it waited too long.
\<close>

theorem events_arrive_in_order:
  assumes "live_step\<^sup>*\<^sup>* (\<lparr>sp_files = [], sp_last_us = 0\<rparr>, 0, [], []) (sp, c, W, D)"
  shows "\<exists>E. subseq E (of_session s W) \<and> repeated E (of_session s D)"
  using live_steps_spool [OF assms, of s] arrived_in_order by blast

text \<open>The answer to the start of a session is lost once; its end waits, and the start arrives twice, then the end.\<close>

definition example_start :: event where
  "example_start = \<lparr>ev_kind = Starts, ev_connection_id = ''00000000-0000-4000-8000-00000000000a'',
    ev_session_id = ''7'', ev_at = 5\<rparr>"

definition example_end :: event where
  "example_end = example_start\<lparr>ev_kind := Ends, ev_at := 6\<rparr>"

text \<open>
  Both are written in the same microsecond. In the first pass the server takes the start and its answer is lost, so
  the end waits; in the second it accepts what it gets.
\<close>

lemma example_events_ok:
  "connection_id_ok (ev_connection_id example_start)" "event_session_ok (ev_session_id example_start)"
  "connection_id_ok (ev_connection_id example_end)" "event_session_ok (ev_session_id example_end)"
  "int (length (event_text example_start)) \<le> MAX_EVENT_BYTES"
  "int (length (event_text example_end)) \<le> MAX_EVENT_BYTES"
  "is_hex CHR ''0''" "is_hex CHR ''a''" "is_hex CHR ''b''"
  by code_simp+

lemma example_event_fields:
  "ev_kind example_start = Starts" "ev_kind example_end = Ends" "0 \<le> ev_at example_start" "0 \<le> ev_at example_end"
  "session_of example_end = session_of example_start" "example_start \<noteq> example_end"
  by (simp_all add: example_start_def example_end_def session_of_def)

theorem events_arrive_in_order_witness:
  "\<exists>sp c D. live_step\<^sup>*\<^sup>* (\<lparr>sp_files = [], sp_last_us = 0\<rparr>, 0, [], []) (sp, c, [example_start, example_end], D) \<and>
    D = [example_start, example_start, example_end] \<and>
    (\<exists>E. subseq E (of_session (session_of example_start) [example_start, example_end]) \<and>
      repeated E (of_session (session_of example_start) D))"
proof -
  note ok = example_events_ok example_event_fields
  let ?sp0 = "\<lparr>sp_files = [], sp_last_us = 0\<rparr>"
  let ?n1 = "event_name 5000000 Starts ''0000000b''" and ?n2 = "event_name 5000001 Ends ''0000000a''"
  let ?f1 = "event_file 5000000 example_start" and ?f2 = "event_file 5000000 example_end"
  let ?sp1 = "\<lparr>sp_files = [(?n1, ?f1)], sp_last_us = 5000000\<rparr>"
  let ?sp2 = "\<lparr>sp_files = [(?n1, ?f1), (?n2, ?f2)], sp_last_us = 5000001\<rparr>"
  have less: "?n1 < ?n2" by (rule event_name_less) (simp_all add: latest_us_def)
  have r: "read_event ?n1 ?f1 = Some example_start" "read_event ?n2 ?f2 = Some example_end"
    using read_event_write [of 5000000 "''0000000b''" example_start 5000000]
      read_event_write [of 5000001 "''0000000a''" example_end 5000000] ok by (simp_all add: latest_us_def)
  have w1: "write_event 5000000 ''0000000b'' example_start ?sp0 = (Some ?n1, ?sp1)"
    using ok by (simp add: write_event_def write_file_def Let_def)
  have w2: "write_event 5000000 ''0000000a'' example_end ?sp1 = (Some ?n2, ?sp2)"
    using ok less by (simp add: write_event_def write_file_def Let_def)
  have evs: "read_events (sp_files ?sp2) = [(?n1, example_start), (?n2, example_end)]"
    using less less_imp_le [OF less] r by (simp add: read_events_def names_of_def map_filter_simps event_at_def)
  have p1: "forward (\<lambda>_ e. if e = example_start then Answer_Lost else Accepted) 6000000 MAX_AGE (sp_files ?sp2) =
      ([example_start], [], sp_files ?sp2)"
    using evs ok by (simp add: forward_def expire_events_def event_file_def MAX_AGE_def)
  have p2: "forward (\<lambda>_ _. Accepted) 7000000 MAX_AGE (sp_files ?sp2) =
      ([example_start, example_end], [example_start, example_end], [])"
    using evs less by (simp add: forward_def expire_events_def unlink_def)
  have "live_step (?sp0, 0, [], []) (?sp1, sp_last_us ?sp1, [] @ [example_start], [])"
    by (rule event_written [OF _ _ _ _ w1]) (simp_all add: ok latest_us_def)
  moreover have "live_step (?sp1, 5000000, [example_start], []) (?sp2, sp_last_us ?sp2, [example_start] @ [example_end], [])"
    by (rule event_written [OF _ _ _ _ w2]) (simp_all add: ok latest_us_def)
  moreover have "live_step (?sp2, 5000001, [example_start, example_end], [])
      (?sp2\<lparr>sp_files := sp_files ?sp2\<rparr>, 5000001, [example_start, example_end], [] @ [example_start])"
    by (rule pass [OF p1])
  moreover have "live_step (?sp2, 5000001, [example_start, example_end], [example_start])
      (?sp2\<lparr>sp_files := []\<rparr>, 5000001, [example_start, example_end], [example_start] @ [example_start, example_end])"
    by (rule pass [OF p2])
  ultimately have steps: "live_step\<^sup>*\<^sup>* (?sp0, 0, [], [])
      (?sp2\<lparr>sp_files := []\<rparr>, 5000001, [example_start, example_end], [example_start, example_start, example_end])"
    by simp
  show ?thesis using steps events_arrive_in_order [OF steps, of "session_of example_start"] by blast
qed

end
