(* ===== verification/Reaper_Events.thy ===== *)
theory Reaper_Events
  imports Reaper_Safety Live_Order
begin

text \<open>
  The events that the session reaper reports: those of a session alternate between start and end, and after a tick
  the last one is a start exactly if the session was there.
\<close>

fun open_after :: "bool \<Rightarrow> event_kind list \<Rightarrow> bool option" where
  "open_after b [] = Some b"
| "open_after b (Starts # ks) = (if b then None else open_after True ks)"
| "open_after b (Ends # ks) = (if b then open_after False ks else None)"

lemma open_after_append: "open_after b (ks @ ks') = (case open_after b ks of None \<Rightarrow> None | Some b' \<Rightarrow> open_after b' ks')"
  by (induction b ks rule: open_after.induct) simp_all

text \<open>The name of the record of an event.\<close>

definition event_record :: "event \<Rightarrow> string" where
  "event_record e = ev_session_id e @ ''-'' @ ev_connection_id e @ ''.json''"

abbreviation events_of :: "string \<Rightarrow> reaper \<Rightarrow> event_kind list" where
  "events_of name re \<equiv> map ev_kind (filter (\<lambda>e. event_record e = name) (re_events re))"

definition reports_match :: "reaper \<Rightarrow> bool" where
  "reports_match re \<longleftrightarrow>
    (\<forall>name. open_after False (events_of name re) = Some (map_of (re_reported re) name \<noteq> None)) \<and>
    (\<forall>name r. map_of (re_reported re) name = Some r \<longrightarrow>
      name = conn_record_name (cr_pid r) (cr_connection_id r) \<and> connection_id_ok (cr_connection_id r)) \<and>
    (\<forall>e\<in>set (re_events re). length (ev_connection_id e) = 36)"

lemma reports_match_same:
  "reports_match re \<Longrightarrow> re_events re' = re_events re \<Longrightarrow> re_reported re' = re_reported re \<Longrightarrow> reports_match re'"
  by (simp add: reports_match_def)

definition conn_event :: "event_kind \<Rightarrow> conn_record \<Rightarrow> int \<Rightarrow> event" where
  "conn_event k r at = \<lparr>ev_kind = k, ev_connection_id = cr_connection_id r, ev_session_id = show_int (cr_pid r), ev_at = at\<rparr>"

lemma report_events: "rc_live rc \<Longrightarrow> re_events (report rc mo k r at re) = re_events re @ [conn_event k r at]"
  by (simp add: report_def Let_def conn_event_def)

lemma event_record_conn_event [simp]: "event_record (conn_event k r at) = conn_record_name (cr_pid r) (cr_connection_id r)"
  by (simp add: event_record_def conn_event_def conn_record_name_def)

lemma conn_event_fields [simp]: "ev_kind (conn_event k r at) = k" "ev_connection_id (conn_event k r at) = cr_connection_id r"
  by (simp_all add: conn_event_def)

lemma reports_match_forget:
  assumes "reports_match re" and "rc_live rc"
  shows "reports_match (forget rc mo name re)"
proof (cases "map_of (re_reported re) name")
  case None
  have "re_events (forget rc mo name re) = re_events re" by (simp add: forget_def Let_def None)
  moreover have "map_of (re_reported (forget rc mo name re)) = map_of (re_reported re)"
    using None by (auto simp: delete_conv' fun_eq_iff)
  ultimately show ?thesis using assms(1) by (simp add: reports_match_def)
next
  case (Some r)
  have n: "name = conn_record_name (cr_pid r) (cr_connection_id r)" "connection_id_ok (cr_connection_id r)"
    using assms(1) Some unfolding reports_match_def by blast+
  have e: "re_events (forget rc mo name re) = re_events re @ [conn_event Ends r (mo_now mo div 1000000)]"
    using assms(2) by (simp add: forget_def Let_def Some report_events)
  have m: "map_of (re_reported (forget rc mo name re)) k = (if k = name then None else map_of (re_reported re) k)" for k
    by (simp add: delete_conv')
  have "open_after False (events_of k (forget rc mo name re)) = Some (map_of (re_reported (forget rc mo name re)) k \<noteq> None)" for k
  proof -
    have old: "open_after False (events_of k re) = Some (map_of (re_reported re) k \<noteq> None)"
      using assms(1) unfolding reports_match_def by blast
    show ?thesis
    proof (cases "k = name")
      case True
      then show ?thesis unfolding e m using old Some n(1) by (simp add: open_after_append)
    next
      case False
      then show ?thesis unfolding e m using old n(1) by simp
    qed
  qed
  moreover have "\<forall>k r'. map_of (re_reported (forget rc mo name re)) k = Some r' \<longrightarrow>
      k = conn_record_name (cr_pid r') (cr_connection_id r') \<and> connection_id_ok (cr_connection_id r')"
    unfolding m using assms(1) unfolding reports_match_def by (metis option.distinct(1))
  moreover have "\<forall>e\<in>set (re_events (forget rc mo name re)). length (ev_connection_id e) = 36"
    using assms(1) connection_id_length [OF n(2)] unfolding e reports_match_def by auto
  ultimately show ?thesis unfolding reports_match_def by blast
qed

lemma reports_match_start:
  assumes "reports_match re" and "rc_live rc" and "map_of (re_reported re) name = None"
    and n: "name = conn_record_name (cr_pid r) (cr_connection_id r)" "connection_id_ok (cr_connection_id r)"
  shows "reports_match (report rc mo Starts r at (re\<lparr>re_reported := AList.update name r (re_reported re)\<rparr>))"
    (is "reports_match ?re")
proof -
  have e: "re_events ?re = re_events re @ [conn_event Starts r at]" using assms(2) by (simp add: report_events)
  have m: "map_of (re_reported ?re) k = (if k = name then Some r else map_of (re_reported re) k)" for k
    by (simp add: update_conv')
  have "open_after False (events_of k ?re) = Some (map_of (re_reported ?re) k \<noteq> None)" for k
  proof -
    have old: "open_after False (events_of k re) = Some (map_of (re_reported re) k \<noteq> None)"
      using assms(1) unfolding reports_match_def by blast
    show ?thesis
    proof (cases "k = name")
      case True
      then show ?thesis unfolding e m using old assms(3) n(1) by (simp add: open_after_append)
    next
      case False
      then show ?thesis unfolding e m using old n(1) by simp
    qed
  qed
  moreover have "\<forall>k r'. map_of (re_reported ?re) k = Some r' \<longrightarrow>
      k = conn_record_name (cr_pid r') (cr_connection_id r') \<and> connection_id_ok (cr_connection_id r')"
    unfolding m using assms(1) n unfolding reports_match_def by (metis option.inject)
  moreover have "\<forall>e\<in>set (re_events ?re). length (ev_connection_id e) = 36"
    using assms(1) connection_id_length [OF n(2)] unfolding e reports_match_def by auto
  ultimately show ?thesis unfolding reports_match_def by blast
qed

lemma reports_match_handle_bound:
  assumes "reports_match re" and "rc_live rc" and "read_record name f = Some r"
  shows "reports_match (snd (handle_bound rc mo asked name r re))"
proof -
  have ok: "connection_id_ok (cr_connection_id r)" using conn_record_groups_Some(2) [OF read_record_groups [OF assms(3)]] .
  have "reports_match (if map_of (re_reported re) name = None
    then report rc mo Starts r (cr_written_ms r div 1000) (re\<lparr>re_reported := AList.update name r (re_reported re)\<rparr>)
    else re)"
    using reports_match_start [OF assms(1,2) _ read_record_name [OF assms(3)] ok] assms(1) by simp
  then show ?thesis unfolding handle_bound_def Let_def snd_conv by (rule reports_match_same) simp_all
qed

lemma reports_match_handle:
  assumes "reports_match re" and "rc_live rc"
  shows "reports_match (snd (handle rc mo asked name re))"
proof (cases rule: handle_cases [of rc mo asked name re])
  case dropped
  have "reports_match (re\<lparr>re_records := unlink name (re_records re)\<rparr>)" using assms(1) by (rule reports_match_same) simp_all
  then show ?thesis using reports_match_forget assms(2) by (simp only: dropped(1) drop_record_def snd_conv)
next
  case (new f r p t)
  have "reports_match (re\<lparr>re_bound := AList.update name t (re_bound re)\<rparr>)" using assms(1) by (rule reports_match_same) simp_all
  then show ?thesis unfolding new(7) using assms(2) new(2) by (rule reports_match_handle_bound)
next
  case (bound f r p t)
  show ?thesis unfolding bound(6) using assms bound(2) by (rule reports_match_handle_bound)
qed

lemma reports_match_handle_names:
  "reports_match re \<Longrightarrow> rc_live rc \<Longrightarrow> reports_match (snd (handle_names rc mo asked names re))"
proof (induction rc mo asked names re rule: handle_names.induct)
  case (2 rc mo asked name names re)
  show ?case
  proof (cases "conn_record_groups name = None")
    case False
    obtain r re1 where h: "handle rc mo asked name re = (r, re1)" by fastforce
    have "reports_match re1" using reports_match_handle [OF "2.prems", of mo asked name] h by simp
    then show ?thesis using "2.IH"(2) [OF False h [symmetric] _ "2.prems"(2)] False h by (auto split: prod.split)
  qed (use 2 in simp)
qed simp

lemma reports_match_forgets: "reports_match re \<Longrightarrow> rc_live rc \<Longrightarrow> reports_match (fold (forget rc mo) names re)"
  by (induction names arbitrary: re) (simp_all add: reports_match_forget)

lemma reports_match_tick:
  assumes "reports_match re" and "rc_live rc"
  shows "reports_match (tick rc mo re)"
proof -
  obtain live re1 where h: "handle_names rc mo (requested (re_requests re)) (names_of (re_records re)) re = (live, re1)"
    by fastforce
  have "reports_match re1" using reports_match_handle_names [OF assms, of mo "requested (re_requests re)"] h by (metis snd_conv)
  then have "reports_match (fold (forget rc mo) (filter (\<lambda>n. n \<notin> set (names_of (re_records re))) (map fst (re_bound re1))) re1)"
    using assms(2) by (rule reports_match_forgets)
  then show ?thesis unfolding tick_def Let_def h prod.case by (rule reports_match_same) simp_all
qed

text \<open>A session that lives is followed.\<close>

lemma handle_bound_reported: "map_of (re_reported (snd (handle_bound rc mo asked name r re))) name \<noteq> None"
  by (auto simp: handle_bound_def Let_def update_conv')

text \<open>
  Whether a session is there for the reaper at a tick: its record is in the directory and valid, its process is in
  the process table, and is the one that the record was bound to at an earlier tick or, at the first, an sshd
  connection process that is not younger than the record.
\<close>

definition session_there :: "reaper_config \<Rightarrow> moment \<Rightarrow> reaper \<Rightarrow> string \<Rightarrow> bool" where
  "session_there rc mo re name =
    (case (case map_of (re_records re) name of None \<Rightarrow> None | Some f \<Rightarrow> read_record name f) of
       None \<Rightarrow> False
     | Some r \<Rightarrow> (case (proc_of (mo_snapshot mo) (cr_pid r), mo_start mo (cr_pid r)) of
         (Some p, Some started) \<Rightarrow> (case map_of (re_bound re) name of
             None \<Rightarrow> rc_test rc (mo_snapshot mo) p \<and> started \<le> cr_written_ms r div 1000
           | Some bound \<Rightarrow> bound = started)
       | _ \<Rightarrow> False))"

lemma session_there_same: "same_at name re re' \<Longrightarrow> session_there rc mo re' name = session_there rc mo re name"
  unfolding session_there_def same_at_def by (elim conjE) (simp only: simp_thms)

lemma handle_follows:
  "(map_of (re_reported (snd (handle rc mo asked name re))) name \<noteq> None) = session_there rc mo re name"
  "session_there rc mo re name \<Longrightarrow> map_of (re_bound (snd (handle rc mo asked name re))) name \<noteq> None"
proof -
  have gone: "map_of (re_reported (drop_record rc mo name re)) name = None" by (simp add: drop_record_def delete_conv')
  show "(map_of (re_reported (snd (handle rc mo asked name re))) name \<noteq> None) = session_there rc mo re name"
    "session_there rc mo re name \<Longrightarrow> map_of (re_bound (snd (handle rc mo asked name re))) name \<noteq> None"
  proof (atomize (full), cases rule: handle_cases [of rc mo asked name re])
    case dropped
    have "\<not> session_there rc mo re name"
      using dropped(2,3) by (fastforce simp: session_there_def split: option.splits)
    then show "(map_of (re_reported (snd (handle rc mo asked name re))) name \<noteq> None) = session_there rc mo re name \<and>
        (session_there rc mo re name \<longrightarrow> map_of (re_bound (snd (handle rc mo asked name re))) name \<noteq> None)"
      using gone by (simp add: dropped(1))
  next
    case (new f r p t)
    have b: "map_of (re_bound (snd (handle rc mo asked name re))) name = Some t"
      by (simp add: new(7) handle_bound_def Let_def update_conv')
    have "map_of (re_reported (snd (handle rc mo asked name re))) name \<noteq> None"
      unfolding new(7) by (rule handle_bound_reported)
    then show "(map_of (re_reported (snd (handle rc mo asked name re))) name \<noteq> None) = session_there rc mo re name \<and>
        (session_there rc mo re name \<longrightarrow> map_of (re_bound (snd (handle rc mo asked name re))) name \<noteq> None)"
      using b new by (simp add: session_there_def)
  next
    case (bound f r p t)
    have b: "map_of (re_bound (snd (handle rc mo asked name re))) name = Some t"
      using bound(5) by (simp add: bound(6) handle_bound_def Let_def)
    have "map_of (re_reported (snd (handle rc mo asked name re))) name \<noteq> None"
      unfolding bound(6) by (rule handle_bound_reported)
    then show "(map_of (re_reported (snd (handle rc mo asked name re))) name \<noteq> None) = session_there rc mo re name \<and>
        (session_there rc mo re name \<longrightarrow> map_of (re_bound (snd (handle rc mo asked name re))) name \<noteq> None)"
      using b bound by (simp add: session_there_def)
  qed
qed

text \<open>What is reported is bound, under the name of a record.\<close>

definition followed :: "reaper \<Rightarrow> bool" where
  "followed re \<longleftrightarrow> distinct (map fst (re_records re)) \<and>
    (\<forall>name. map_of (re_reported re) name \<noteq> None \<longrightarrow> map_of (re_bound re) name \<noteq> None \<and> conn_record_groups name \<noteq> None)"

lemma tick_follows:
  assumes "followed re" and "conn_record_groups name \<noteq> None"
  shows "(map_of (re_reported (tick rc mo re)) name \<noteq> None) = session_there rc mo re name"
    and "map_of (re_reported (tick rc mo re)) name \<noteq> None \<Longrightarrow> map_of (re_bound (tick rc mo re)) name \<noteq> None"
proof -
  have b: "map_of (re_reported re) name \<noteq> None \<longrightarrow> map_of (re_bound re) name \<noteq> None" and d: "distinct (map fst (re_records re))"
    using assms(1) unfolding followed_def by blast+
  have "(map_of (re_reported (tick rc mo re)) name \<noteq> None) = session_there rc mo re name \<and>
    (session_there rc mo re name \<longrightarrow> map_of (re_bound (tick rc mo re)) name \<noteq> None)"
  proof (cases "map_of (re_records re) name")
    case None
    then have "\<not> session_there rc mo re name" by (simp add: session_there_def)
    then show ?thesis using removed_record_forgotten(2) [OF None b] by simp
  next
    case (Some f)
    obtain a asked where a: "same_at name re a" "same_at name (snd (handle rc mo asked name a)) (tick rc mo re)"
      using tick_at [OF d Some assms(2)] by metis
    then show ?thesis using handle_follows [where rc = rc and mo = mo and asked = asked and name = name and re = a] session_there_same [OF a(1), of rc mo]
      by (simp add: same_at_def)
  qed
  then show "(map_of (re_reported (tick rc mo re)) name \<noteq> None) = session_there rc mo re name"
    "map_of (re_reported (tick rc mo re)) name \<noteq> None \<Longrightarrow> map_of (re_bound (tick rc mo re)) name \<noteq> None" by simp_all
qed

lemma tick_unrecorded:
  assumes "followed re" and "conn_record_groups name = None"
  shows "map_of (re_reported (tick rc mo re)) name = None"
proof -
  have n: "map_of (re_reported re) name = None" using assms unfolding followed_def by blast
  let ?c = "snd (handle_names rc mo (requested (re_requests re)) (names_of (re_records re)) re)"
  have "same_at name re ?c" by (rule same_at_handle_names) (simp add: assms(2))
  then have c: "map_of (re_reported ?c) name = None" using n by (simp add: same_at_def)
  have "map_of (re_reported (fold (forget rc mo) names re1)) name = None" if "map_of (re_reported re1) name = None" for names re1
    using that by (induction names arbitrary: re1) (simp_all add: delete_conv')
  then show ?thesis using c by (simp add: tick_def Let_def split: prod.split) (metis snd_conv)
qed

lemma followed_tick: "followed re \<Longrightarrow> followed (tick rc mo re)"
  using tick_follows(2) tick_unrecorded tick_distinct unfolding followed_def by metis

text \<open>A run of the program: ticks, and what others write in its directories between them.\<close>

inductive reaper_run :: "reaper_config \<Rightarrow> reaper \<Rightarrow> reaper \<Rightarrow> bool" for rc where
  tick_passes: "reaper_run rc re (tick rc mo re)"
| directories_change: "distinct (map fst records) \<Longrightarrow>
    reaper_run rc re (re\<lparr>re_records := records, re_requests := requests, re_spool := sp\<rparr>)"

lemma reaper_runs_match:
  assumes "(reaper_run rc)\<^sup>*\<^sup>* re0 re" and "rc_live rc" and "reports_match re0" and "followed re0"
  shows "reports_match re \<and> followed re"
  using assms(1)
proof (induction rule: rtranclp_induct)
  case (step re1 re2)
  from step(2) show ?case
  proof (cases rule: reaper_run.cases)
    case (tick_passes mo)
    then show ?thesis using reports_match_tick [OF _ assms(2)] followed_tick step.IH by simp
  next
    case (directories_change records requests sp)
    have "reports_match re2" unfolding directories_change(1) by (rule reports_match_same) (use step.IH in simp_all)
    moreover have "followed re2" using step.IH directories_change by (simp add: followed_def)
    ultimately show ?thesis by blast
  qed
qed (use assms(3,4) in blast)

text \<open>
  C25. In a run of the session reaper, whatever others write in its directories, the events that it reports for a
  session alternate: a start, an end, a start and so on. After a tick the last one is a start exactly if the session
  was there at that tick, so a session that was reported as started is reported as ended by the first tick after
  its process has gone, its process id was taken by another process, or its record was removed or became invalid.
\<close>

theorem session_events_alternate:
  assumes "(reaper_run rc)\<^sup>*\<^sup>* re0 re" and "rc_live rc" and "re_reported re0 = []" and "re_events re0 = []"
    and "distinct (map fst (re_records re0))" and "connection_id_ok cid"
  shows "open_after False (map ev_kind (of_session (cid, sid) (re_events (tick rc mo re)))) =
    Some (session_there rc mo re (sid @ ''-'' @ cid @ ''.json''))"
proof -
  let ?name = "sid @ ''-'' @ cid @ ''.json''"
  have "reports_match re0" "followed re0" using assms(3-5) by (simp_all add: reports_match_def followed_def)
  then have re: "reports_match re" "followed re" using reaper_runs_match [OF assms(1,2)] by blast+
  then have m: "reports_match (tick rc mo re)" using reports_match_tick assms(2) by blast
  have "session_of e = (cid, sid) \<longleftrightarrow> event_record e = ?name" if "e \<in> set (re_events (tick rc mo re))" for e
  proof -
    have "length (ev_connection_id e) = 36" using m that by (simp add: reports_match_def)
    then show ?thesis using connection_id_length [OF assms(6)]
      by (auto simp: session_of_def event_record_def append_eq_append_conv)
  qed
  then have "of_session (cid, sid) (re_events (tick rc mo re)) = filter (\<lambda>e. event_record e = ?name) (re_events (tick rc mo re))"
    by (intro filter_cong) simp_all
  moreover have "(map_of (re_reported (tick rc mo re)) ?name \<noteq> None) = session_there rc mo re ?name"
  proof (cases "conn_record_groups ?name = None")
    case True
    have "read_record ?name f = None" for f using True by (simp add: read_record_def)
    then have "\<not> session_there rc mo re ?name" by (simp add: session_there_def split: option.split)
    then show ?thesis using tick_unrecorded [OF re(2) True] by simp
  qed (rule tick_follows(1) [OF re(2)])
  ultimately show ?thesis using m unfolding reports_match_def by simp
qed

text \<open>In the example, the first tick finds the session; then its record is removed, and the next tick reports the end.\<close>

definition example_removed :: reaper where
  "example_removed = (tick example_config (example_moment 6000000) example_reaper)
    \<lparr>re_records := [], re_requests := re_requests example_reaper, re_spool := re_spool example_reaper\<rparr>"

theorem session_events_alternate_witness:
  "map ev_kind (of_session (cr_connection_id example_conn, ''100'')
     (re_events (tick example_config (example_moment 6000000) example_reaper))) \<noteq> [] \<and>
   open_after False (map ev_kind (of_session (cr_connection_id example_conn, ''100'')
     (re_events (tick example_config (example_moment 6000000) example_reaper)))) = Some True \<and>
   open_after False (map ev_kind (of_session (cr_connection_id example_conn, ''100'')
     (re_events (tick example_config (example_moment 7000000) example_removed)))) = Some False"
proof -
  let ?re = "tick example_config (example_moment 6000000) example_reaper" and ?cid = "cr_connection_id example_conn"
  have ok: "connection_id_ok ?cid" by code_simp
  have "digit_char 0 = CHR ''0''" "digit_char 1 = CHR ''1''" by code_simp+
  then have pid: "show_int (cr_pid example_conn) = ''100''" by (simp add: example_conn_def show_int_def show_nat_simps)
  have name: "''100'' @ ''-'' @ ?cid @ ''.json'' = example_name"
    by (simp add: example_name_def conn_record_name_def pid)
  have there: "session_there example_config (example_moment 6000000) example_reaper example_name"
    using example_proc example_read
    by (simp add: session_there_def example_reaper_def example_config_def example_moment_def macos_connection_def
        example_conn_def)
  have gone: "\<not> session_there example_config (example_moment 7000000) example_removed example_name"
    by (simp add: session_there_def example_removed_def)
  have one: "open_after False (map ev_kind (of_session (?cid, ''100'') (re_events ?re))) = Some True"
    using session_events_alternate [OF rtranclp.rtrancl_refl _ _ _ _ ok, of example_config example_reaper "''100''" "example_moment 6000000"]
      there name by (simp add: example_config_def example_reaper_def)
  have "(reaper_run example_config)\<^sup>*\<^sup>* example_reaper ?re" by (rule r_into_rtranclp) (rule tick_passes)
  moreover have "reaper_run example_config ?re example_removed"
    unfolding example_removed_def by (rule directories_change) simp
  ultimately have "(reaper_run example_config)\<^sup>*\<^sup>* example_reaper example_removed" by (rule rtranclp.rtrancl_into_rtrancl)
  then have two: "open_after False (map ev_kind (of_session (?cid, ''100'')
      (re_events (tick example_config (example_moment 7000000) example_removed)))) = Some False"
    using session_events_alternate [OF _ _ _ _ _ ok, of example_config example_reaper example_removed "''100''" "example_moment 7000000"]
      gone name by (simp add: example_config_def example_reaper_def)
  show ?thesis using one two by auto
qed

end
