(* ===== verification/Host_Login.thy ===== *)
theory Host_Login
  imports Session_Reaper Ssh_Cert
begin

text \<open>
  What sshd runs on a host when somebody logs in: \<open>pf openssh auth-principals\<close> (\<open>cli/pf/openssh_cli.py\<close>),
  which says whether a certificate opens an account, and the PAM hook of Linux
  (\<open>cli/pf/openssh_pam_session_deadline_linux.py\<close>), which reports a session, records it and sets the
  timer that ends it. Decoding a certificate and reading a public key belong to the libraries and are
  arguments. \<open>systemd-run\<close> starts a timer unless one of that name runs, \<open>systemctl stop\<close> stops it, and
  \<open>loginctl terminate-session\<close> ends a session; what was asked of them is the state.
\<close>

section \<open>Which principals of a certificate open an account\<close>

datatype login_error = UI string

fun accepted_principals :: "string \<Rightarrow> string \<Rightarrow> string list \<Rightarrow> login_error + string list" where
  "accepted_principals host_identifier wanted [] = Inr []"
| "accepted_principals host_identifier wanted (p # ps) =
    (case split_on CHR ''@'' p of
       [username, host_id] \<Rightarrow>
         if username \<noteq> wanted then accepted_principals host_identifier wanted ps
         else if host_id \<noteq> host_identifier then Inl (UI ''Invalid user host id'')
         else (case accepted_principals host_identifier wanted ps of
           Inl e \<Rightarrow> Inl e | Inr accepted \<Rightarrow> Inr (p # accepted))
     | _ \<Rightarrow> Inl (UI ''Invalid user principal''))"

definition host_identifier_of :: "'k cert \<Rightarrow> string" where
  "host_identifier_of host_certificate = hd (split_on CHR '':'' (ce_key_id host_certificate))"

text \<open>The directory of the records is given where the session reaper runs.\<close>

definition register_login ::
    "connection_test \<Rightarrow> snapshot \<Rightarrow> int \<Rightarrow> int \<Rightarrow> 'k cert \<Rightarrow> directory \<Rightarrow> directory" where
  "register_login test table now pid cert dir = (let ex = cert_extensions cert in case ex_connection_id ex of
     None \<Rightarrow> dir
   | Some connection_id \<Rightarrow> snd (register_session test table now pid (ex_session_deadline ex) connection_id dir))"

definition authorized_principals ::
    "connection_test \<Rightarrow> snapshot \<Rightarrow> int \<Rightarrow> int \<Rightarrow> 'h cert \<Rightarrow> string \<Rightarrow> 'k cert \<Rightarrow> directory option \<Rightarrow>
      (login_error + string) \<times> directory option" where
  "authorized_principals test table now pid host_certificate username cert deadline_dir =
    (case accepted_principals (host_identifier_of host_certificate) username (ce_valid_principals cert) of
       Inl e \<Rightarrow> (Inl e, deadline_dir)
     | Inr accepted \<Rightarrow>
         (Inr (join_with ''\<newline>'' accepted),
          if accepted \<noteq> [] then map_option (register_login test table now pid cert) deadline_dir else deadline_dir))"

section \<open>The certificate of a PAM session\<close>

text \<open>\<open>line.split(" ", 2)\<close>\<close>

definition split_twice :: "string \<Rightarrow> string list" where
  "split_twice line = (case split_on CHR '' '' line of
     a # b # c # cs \<Rightarrow> [a, b, join_with '' '' (c # cs)]
   | parts \<Rightarrow> parts)"

text \<open>The lines of \<open>SSH_AUTH_INFO_0\<close>, \<open>SSH_AUTH_INFO_1\<close> and so on.\<close>

fun cert_from_auth_info :: "(string \<Rightarrow> 'k cert option) \<Rightarrow> string list \<Rightarrow> 'k cert option" where
  "cert_from_auth_info decode [] = None"
| "cert_from_auth_info decode (line # rest) =
    (case split_twice line of
       [a, key_type, data] \<Rightarrow>
         if a \<noteq> ''publickey'' \<or> \<not> ends_with key_type ''-cert-v01@openssh.com'' then cert_from_auth_info decode rest
         else decode data
     | _ \<Rightarrow> cert_from_auth_info decode rest)"

fun byte_lines :: "string \<Rightarrow> string list" where
  "byte_lines [] = [[]]"
| "byte_lines (c # cs) = (if c = CHR ''\<newline>'' \<or> c = CHR 0x0D then [] # byte_lines cs
     else case byte_lines cs of [] \<Rightarrow> [[c]] | l # ls \<Rightarrow> (c # l) # ls)"

text \<open>The keys in the file of the certificate authority; no file means no key.\<close>

definition trusted_fingerprints :: "(string \<Rightarrow> string option) \<Rightarrow> string option \<Rightarrow> string list" where
  "trusted_fingerprints fingerprint ca_pub = (case ca_pub of
     None \<Rightarrow> []
   | Some data \<Rightarrow> List.map_filter fingerprint (filter (\<lambda>line. strip_spaces line \<noteq> []) (byte_lines data)))"

section \<open>The PAM hook\<close>

record pam_host =
  ph_live :: "spool option"
  ph_sessions :: "directory option"
  ph_timers :: "(string \<times> int \<times> string) list"
  ph_terminated :: "string list"

text \<open>What the hook is called with: the clock, random digits, the authentication lines, the logind session.\<close>

record pam_call =
  pc_now :: int
  pc_rnd :: string
  pc_auth_info :: "string list"
  pc_session_id :: "string option"

definition pam_report :: "pam_call \<Rightarrow> event_kind \<Rightarrow> string \<Rightarrow> pam_host \<Rightarrow> pam_host" where
  "pam_report pc kind connection_id ph = ph\<lparr>ph_live := map_option (\<lambda>sp. snd (write_event (pc_now pc) (pc_rnd pc)
     \<lparr>ev_kind = kind, ev_connection_id = connection_id,
      ev_session_id = (case pc_session_id pc of None \<Rightarrow> '''' | Some s \<Rightarrow> s), ev_at = pc_now pc div 1000000\<rparr> sp)) (ph_live ph)\<rparr>"

text \<open>A session id that is there and not empty.\<close>

definition session_of_call :: "pam_call \<Rightarrow> string option" where
  "session_of_call pc = (case pc_session_id pc of None \<Rightarrow> None | Some s \<Rightarrow> if s = [] then None else Some s)"

definition timer_unit :: "string \<Rightarrow> string" where
  "timer_unit connection_id = ''pf-deadline-'' @ connection_id"

definition stop_timer :: "string \<Rightarrow> pam_host \<Rightarrow> pam_host" where
  "stop_timer unit ph = ph\<lparr>ph_timers := AList.delete unit (ph_timers ph)\<rparr>"

definition start_timer :: "string \<Rightarrow> int \<Rightarrow> string \<Rightarrow> pam_host \<Rightarrow> pam_host" where
  "start_timer unit at session_id ph =
    (if map_of (ph_timers ph) unit = None then ph\<lparr>ph_timers := (unit, at, session_id) # ph_timers ph\<rparr> else ph)"

definition handle_close_session :: "(string \<Rightarrow> 'k cert option) \<Rightarrow> pam_call \<Rightarrow> pam_host \<Rightarrow> pam_host" where
  "handle_close_session decode pc ph = (case cert_from_auth_info decode (pc_auth_info pc) of
     None \<Rightarrow> ph
   | Some cert \<Rightarrow> (case ex_connection_id (cert_extensions cert) of
       None \<Rightarrow> ph
     | Some connection_id \<Rightarrow>
         let ph = pam_report pc Ends connection_id ph;
             ph = (case session_of_call pc of None \<Rightarrow> ph
               | Some s \<Rightarrow> ph\<lparr>ph_sessions := map_option (session_record_remove connection_id s) (ph_sessions ph)\<rparr>)
         in if ex_session_deadline (cert_extensions cert) = None then ph
            else stop_timer (timer_unit connection_id) ph))"

text \<open>Setting the timer; a deadline that has passed ends the session at once.\<close>

definition set_deadline :: "pam_call \<Rightarrow> int \<Rightarrow> string \<Rightarrow> pam_host \<Rightarrow> pam_host" where
  "set_deadline pc deadline connection_id ph = (case session_of_call pc of
     None \<Rightarrow> ph
   | Some session_id \<Rightarrow>
       let now = pc_now pc div 1000000; remaining = deadline - now
       in if remaining \<le> 0 then ph\<lparr>ph_terminated := ph_terminated ph @ [session_id]\<rparr>
          else start_timer (timer_unit connection_id) (now + remaining) session_id ph)"

definition open_trusted :: "pam_call \<Rightarrow> extensions \<Rightarrow> pam_host \<Rightarrow> pam_host" where
  "open_trusted pc ex ph = (case ex_connection_id ex of
     None \<Rightarrow> ph
   | Some connection_id \<Rightarrow>
       let ph = pam_report pc Starts connection_id ph;
           ph = (case session_of_call pc of None \<Rightarrow> ph
             | Some s \<Rightarrow> ph\<lparr>ph_sessions := map_option (snd \<circ> session_record_write (pc_now pc) connection_id s) (ph_sessions ph)\<rparr>)
       in case ex_session_deadline ex of None \<Rightarrow> ph | Some deadline \<Rightarrow> set_deadline pc deadline connection_id ph)"

definition handle_open_session ::
    "(string \<Rightarrow> 'k cert option) \<Rightarrow> (string \<Rightarrow> string option) \<Rightarrow> ('k \<Rightarrow> string) \<Rightarrow> string option \<Rightarrow> pam_call \<Rightarrow> pam_host \<Rightarrow> pam_host" where
  "handle_open_session decode fingerprint key_fingerprint ca_pub pc ph =
    (case cert_from_auth_info decode (pc_auth_info pc) of
       None \<Rightarrow> ph
     | Some cert \<Rightarrow>
         let ex = cert_extensions cert
         in if ex_session_deadline ex = None \<and>
               (ex_connection_id ex = None \<or> (ph_live ph = None \<and> ph_sessions ph = None)) then ph
            else if key_fingerprint (ce_signer cert) \<notin> set (trusted_fingerprints fingerprint ca_pub) then ph
            else open_trusted pc ex ph)"

datatype pam_type = Open_Session | Close_Session | Other_Call

definition session_deadline ::
    "(string \<Rightarrow> 'k cert option) \<Rightarrow> (string \<Rightarrow> string option) \<Rightarrow> ('k \<Rightarrow> string) \<Rightarrow> string option \<Rightarrow> pam_type \<Rightarrow>
      pam_call \<Rightarrow> pam_host \<Rightarrow> pam_host" where
  "session_deadline decode fingerprint key_fingerprint ca_pub kind pc ph = (case kind of
     Open_Session \<Rightarrow> handle_open_session decode fingerprint key_fingerprint ca_pub pc ph
   | Close_Session \<Rightarrow> handle_close_session decode pc ph
   | Other_Call \<Rightarrow> ph)"

section \<open>Ending a connection on request\<close>

text \<open>
  \<open>cli/pf/session_kill.py\<close>: the tunnels of the relay by connection and token, those that were closed, and
  the directory of the requests to the session reaper.
\<close>

record terminator =
  te_kill_dir :: "directory option"
  te_tunnels :: "(string \<times> (string \<times> nat) list) list"
  te_closed :: "nat list"

definition tunnels_of :: "string \<Rightarrow> terminator \<Rightarrow> (string \<times> nat) list" where
  "tunnels_of connection_id te = (case map_of (te_tunnels te) connection_id of None \<Rightarrow> [] | Some ts \<Rightarrow> ts)"

definition track_tunnel :: "string \<Rightarrow> string \<Rightarrow> nat \<Rightarrow> terminator \<Rightarrow> terminator" where
  "track_tunnel connection_id token_id tunnel te =
    te\<lparr>te_tunnels := AList.update connection_id (AList.update token_id tunnel (tunnels_of connection_id te)) (te_tunnels te)\<rparr>"

definition untrack_tunnel :: "string \<Rightarrow> string \<Rightarrow> terminator \<Rightarrow> terminator" where
  "untrack_tunnel connection_id token_id te = (case map_of (te_tunnels te) connection_id of
     None \<Rightarrow> te
   | Some ts \<Rightarrow>
       let ts = AList.delete token_id ts
       in if ts = [] then te\<lparr>te_tunnels := AList.delete connection_id (te_tunnels te)\<rparr>
          else te\<lparr>te_tunnels := AList.update connection_id ts (te_tunnels te)\<rparr>)"

definition request_host_kill :: "int \<Rightarrow> string \<Rightarrow> terminator \<Rightarrow> string option \<times> terminator" where
  "request_host_kill now connection_id te = (case te_kill_dir te of
     None \<Rightarrow> (Some ''no kill directory'', te)
   | Some dir \<Rightarrow>
       (case request_kill now connection_id dir of
          (False, _) \<Rightarrow> (Some ''kill request not written'', te)
        | (True, dir) \<Rightarrow> (None, te\<lparr>te_kill_dir := Some dir\<rparr>)))"

definition terminate :: "int \<Rightarrow> string \<Rightarrow> terminator \<Rightarrow> string option \<times> terminator" where
  "terminate now connection_id te =
    (let closed = map snd (tunnels_of connection_id te)
     in case request_host_kill now connection_id (te\<lparr>te_closed := te_closed te @ closed\<rparr>) of
       (reason, te) \<Rightarrow> (if closed \<noteq> [] \<or> reason = None then None else reason, te))"

end
