(* ===== verification/Login_Safety.thy ===== *)
theory Login_Safety
  imports Host_Login Certificate_Safety Reaper_Safety
begin

text \<open>
  From the decision of the server to the end of a session on a host: which account a certificate opens, the
  timer that ends its session, and the way from a request to end a connection to its logind sessions.
\<close>

section \<open>Principals\<close>

lemma split_on_not_Nil: "split_on d u \<noteq> []"
  by (induction u) (auto split: list.split)

lemma split_on_at: "split_on d (u @ d # t) = split_on d u @ split_on d t"
proof (induction u)
  case (Cons c u)
  then show ?case using split_on_not_Nil [of d u] by (cases "split_on d u") auto
qed simp

lemma split_on_single: "split_on d u = [x] \<longleftrightarrow> d \<notin> set u \<and> x = u"
proof
  show "split_on d u = [x] \<Longrightarrow> d \<notin> set u \<and> x = u"
  proof (induction u arbitrary: x)
    case (Cons c u)
    then show ?case using split_on_not_Nil [of d u]
      by (auto split: if_splits list.splits)
  qed simp
qed (simp add: split_on_absent)

text \<open>A certificate of the server opens exactly the account and host it was made for.\<close>

lemma accepted_principals_user:
  "accepted_principals host_identifier wanted [user_principal u i] =
    (if CHR ''@'' \<in> set u then Inl (UI ''Invalid user principal'')
     else if u \<noteq> wanted then Inr []
     else if show_int i \<noteq> host_identifier then Inl (UI ''Invalid user host id'')
     else Inr [user_principal u i])"
proof -
  have at: "split_on CHR ''@'' (user_principal u i) = split_on CHR ''@'' u @ [show_int i]"
    using show_int_no_at [of i] by (simp add: user_principal_def split_on_at split_on_absent)
  show ?thesis
  proof (cases "CHR ''@'' \<in> set u")
    case True
    then obtain a b cs where "split_on CHR ''@'' u = a # b # cs"
      using split_on_single [of "CHR ''@''" u] split_on_not_Nil [of "CHR ''@''" u]
      by (metis list.exhaust)
    then show ?thesis using True at by (simp split: list.split)
  next
    case False
    then show ?thesis using at by (simp add: split_on_absent)
  qed
qed

lemma host_certificates_key_id:
  "host_certificates cr cx caller signer n keys w = (Inr hcs, w') \<Longrightarrow> hc \<in> set hcs \<Longrightarrow> ce_key_id hc = cert_identifier cx caller"
  by (induction keys arbitrary: n w hcs w') (auto simp: act_Inr create_host_def)

lemma host_certificate_identifier:
  assumes "sign_host_certificate cr cx keys w = (Inr hcs, w')" and "hc \<in> set hcs" and "cx_identity_id cx = Some hid"
  shows "host_identifier_of hc = show_int hid"
proof -
  obtain caller where "ce_key_id hc = cert_identifier cx caller"
    using assms(1,2) host_certificates_key_id unfolding sign_host_certificate_def
    by (fastforce simp: act_Inr split: option.splits)
  moreover have "CHR '':'' \<notin> set (show_int hid)" using show_int_chars by blast
  ultimately show ?thesis using assms(3)
    by (simp add: host_identifier_of_def cert_identifier_def split_on_append)
qed

text \<open>
  C8. A certificate opens one account on one host. On a host that logs in with a host certificate of the
  server, \<open>auth-principals\<close> accepts a user certificate of the server exactly when the account is the
  username that the certificate was asked for and the host is the one of that name at the time; another
  account is not opened and another host is an error. A username with an at sign opens nothing.
\<close>

theorem certificate_opens_one_account:
  assumes "sign_user_certificate cr cx data w = (Inr r, w1)" and "cert \<in> set (ucs_certificates r)"
    and "sign_host_certificate cr' cxh keys wh = (Inr hcs, wh1)" and "hc \<in> set hcs" and "cx_identity_id cxh = Some hid"
  shows "\<exists>host. identity_read_one (by_name (ucr_hostname data)) w = (Inr (Some host), w) \<and>
    fst (authorized_principals test table now pid hc username cert dir) =
      (if CHR ''@'' \<in> set (ucr_username data) then Inl (UI ''Invalid user principal'')
       else if ucr_username data \<noteq> username then Inr ''''
       else if i_id host \<noteq> hid then Inl (UI ''Invalid user host id'')
       else Inr (user_principal username hid))"
proof -
  obtain cert' where c: "certified cr cx data w cert'" "ucs_certificates r = [cert']"
    using sign_user_steps [OF assms(1)] by metis
  then obtain host where host: "identity_read_one (by_name (ucr_hostname data)) w = (Inr (Some host), w)"
      "ce_valid_principals cert = [user_principal (ucr_username data) (i_id host)]"
    using assms(2) by (auto simp: certified_def user_certificate_def create_user_def)
  have "fst (authorized_principals test table now pid hc username cert dir) =
      map_sum id (join_with [CHR 0x0A]) (accepted_principals (show_int hid) username [user_principal (ucr_username data) (i_id host)])"
    unfolding authorized_principals_def host_certificate_identifier [OF assms(3-5)] host(2) by (simp split: sum.split)
  then show ?thesis using host(1) unfolding accepted_principals_user
    by (intro exI [of _ host]) (simp add: show_int_inj)
qed

section \<open>Sessions of a Linux host\<close>

lemma delete_absent: "k \<notin> fst ` set xs \<Longrightarrow> AList.delete k xs = xs"
  by (induction xs) auto

lemma delete_update_absent: "k \<notin> fst ` set xs \<Longrightarrow> AList.delete k (AList.update k v xs) = xs"
  by (induction xs) (auto simp: delete_absent)

lemma open_session_deadline:
  assumes "cert_from_auth_info decode (pc_auth_info pc) = Some cert"
    and "key_fingerprint (ce_signer cert) \<in> set (trusted_fingerprints fingerprint ca_pub)"
    and "ex_connection_id (cert_extensions cert) = Some cid" and "ex_session_deadline (cert_extensions cert) = Some e"
    and "pc_session_id pc = Some s" and "s \<noteq> []"
    and "ph' = handle_open_session decode fingerprint key_fingerprint ca_pub pc ph"
  shows "if e \<le> pc_now pc div 1000000 then s \<in> set (ph_terminated ph')
    else map_of (ph_timers ph') (timer_unit cid) =
      (case map_of (ph_timers ph) (timer_unit cid) of None \<Rightarrow> Some (e, s) | Some other \<Rightarrow> Some other)"
  by (simp add: assms(7) handle_open_session_def assms(1-6) Let_def open_trusted_def session_of_call_def set_deadline_def
      start_timer_def pam_report_def split: option.split)

text \<open>What the PAM hook does in a row of calls, and the connection that a call is about.\<close>

definition pam_calls ::
    "(string \<Rightarrow> 'k cert option) \<Rightarrow> (string \<Rightarrow> string option) \<Rightarrow> ('k \<Rightarrow> string) \<Rightarrow> string option \<Rightarrow>
      (pam_type \<times> pam_call) list \<Rightarrow> pam_host \<Rightarrow> pam_host" where
  "pam_calls decode fingerprint key_fingerprint ca_pub calls ph =
    fold (\<lambda>(kind, pc). session_deadline decode fingerprint key_fingerprint ca_pub kind pc) calls ph"

definition connection_of :: "(string \<Rightarrow> 'k cert option) \<Rightarrow> pam_call \<Rightarrow> string option" where
  "connection_of decode pc = (case cert_from_auth_info decode (pc_auth_info pc) of None \<Rightarrow> None
    | Some cert \<Rightarrow> ex_connection_id (cert_extensions cert))"

lemma open_trusted_keeps:
  "map_of (ph_timers ph) u = Some x \<Longrightarrow> map_of (ph_timers (open_trusted pc ex ph)) u = Some x"
  "s \<in> set (ph_terminated ph) \<Longrightarrow> s \<in> set (ph_terminated (open_trusted pc ex ph))"
  by (auto simp: open_trusted_def set_deadline_def start_timer_def pam_report_def Let_def split: option.split)

lemma pam_call_keeps:
  assumes "kind = Close_Session \<longrightarrow> connection_of decode pc \<noteq> Some cid"
  shows "map_of (ph_timers ph) (timer_unit cid) = Some x \<Longrightarrow>
      map_of (ph_timers (session_deadline decode fingerprint key_fingerprint ca_pub kind pc ph)) (timer_unit cid) = Some x"
    and "s \<in> set (ph_terminated ph) \<Longrightarrow>
      s \<in> set (ph_terminated (session_deadline decode fingerprint key_fingerprint ca_pub kind pc ph))"
proof -
  have opened: "map_of (ph_timers ph) (timer_unit cid) = Some x \<Longrightarrow>
      map_of (ph_timers (handle_open_session decode fingerprint key_fingerprint ca_pub pc ph)) (timer_unit cid) = Some x"
    "s \<in> set (ph_terminated ph) \<Longrightarrow> s \<in> set (ph_terminated (handle_open_session decode fingerprint key_fingerprint ca_pub pc ph))"
    by (simp_all add: handle_open_session_def Let_def open_trusted_keeps split: option.split)
  have closed: "map_of (ph_timers (handle_close_session decode pc ph)) (timer_unit cid) = map_of (ph_timers ph) (timer_unit cid)"
    if "connection_of decode pc \<noteq> Some cid"
    using that by (auto simp: handle_close_session_def connection_of_def Let_def stop_timer_def pam_report_def timer_unit_def
        delete_conv' split: option.split)
  have ended: "ph_terminated (handle_close_session decode pc ph) = ph_terminated ph"
    by (simp add: handle_close_session_def Let_def stop_timer_def pam_report_def split: option.split)
  show "map_of (ph_timers ph) (timer_unit cid) = Some x \<Longrightarrow>
      map_of (ph_timers (session_deadline decode fingerprint key_fingerprint ca_pub kind pc ph)) (timer_unit cid) = Some x"
    "s \<in> set (ph_terminated ph) \<Longrightarrow>
      s \<in> set (ph_terminated (session_deadline decode fingerprint key_fingerprint ca_pub kind pc ph))"
    using assms opened closed ended by (cases kind; simp add: session_deadline_def)+
qed

lemma pam_calls_keep:
  assumes "\<forall>(kind, pc)\<in>set calls. kind = Close_Session \<longrightarrow> connection_of decode pc \<noteq> Some cid"
  shows "(map_of (ph_timers ph) (timer_unit cid) = Some x \<longrightarrow>
      map_of (ph_timers (pam_calls decode fingerprint key_fingerprint ca_pub calls ph)) (timer_unit cid) = Some x) \<and>
    (s \<in> set (ph_terminated ph) \<longrightarrow> s \<in> set (ph_terminated (pam_calls decode fingerprint key_fingerprint ca_pub calls ph)))"
  using assms
proof (induction calls arbitrary: ph)
  case (Cons c calls)
  obtain kind pc where c: "c = (kind, pc)" by fastforce
  have "kind = Close_Session \<longrightarrow> connection_of decode pc \<noteq> Some cid" using Cons.prems c by simp
  note one = pam_call_keeps [OF this, where fingerprint = fingerprint and key_fingerprint = key_fingerprint and ca_pub = ca_pub and ph = ph]
  show ?case
    using Cons.IH [of "session_deadline decode fingerprint key_fingerprint ca_pub kind pc ph"] Cons.prems one c
    by (simp add: pam_calls_def)
qed (simp add: pam_calls_def)

text \<open>
  C13. The time that the policy allows for a shell holds on a Linux host, for one session of each certificate. When
  the PAM hook sees a session open with a certificate of the server for a shell that the decision bounds by
  \<open>t\<close> seconds, then either the deadline of the certificate has passed and the session is ended at once, or it
  gets a timer that ends it at the deadline, at most \<open>t\<close> seconds after the certificate was signed, and the timer
  stays, whatever sessions open and close, as long as none of this certificate closes; unless a timer for
  another session of the certificate is already there, which stays, and the session gets none.
\<close>

theorem shell_session_ends_in_time:
  assumes "sign_user_certificate cr cx data w = (Inr r, w1)" and "cert \<in> set (ucs_certificates r)"
    and "ucr_action data = Action_Shell"
    and "\<And>caller host gr. identity_read_self cx w = (Inr (Some caller), w) \<Longrightarrow>
      identity_read_one (by_name (ucr_hostname data)) w = (Inr (Some host), w) \<Longrightarrow> grants_create cx w = (Inr gr, w) \<Longrightarrow>
      the (sd_capability_ttl (decision_for gr caller host (ucr_username data)) SHELL) = Some t"
    and "cert_from_auth_info decode (pc_auth_info pc) = Some cert"
    and "key_fingerprint (ce_signer cert) \<in> set (trusted_fingerprints fingerprint ca_pub)"
    and "pc_session_id pc = Some s" and "s \<noteq> []"
    and "\<forall>(kind, pc')\<in>set calls. kind = Close_Session \<longrightarrow> connection_of decode pc' \<noteq> Some (ucs_connection_id r)"
    and "ph' = pam_calls decode fingerprint key_fingerprint ca_pub ((Open_Session, pc) # calls) ph"
  shows "\<exists>e\<le>cx_now cx + t.
    if e \<le> pc_now pc div 1000000 then s \<in> set (ph_terminated ph')
    else map_of (ph_timers ph') (timer_unit (ucs_connection_id r)) =
      (case map_of (ph_timers ph) (timer_unit (ucs_connection_id r)) of None \<Rightarrow> Some (e, s) | Some other \<Rightarrow> Some other)"
proof -
  obtain cert' where c: "certified cr cx data w cert'" "ucs_certificates r = [cert']" "ucs_connection_id r = cx_uuid cx"
    using sign_user_steps [OF assms(1)] by metis
  then obtain caller host gr key n co ex sg where
    reads: "identity_read_self cx w = (Inr (Some caller), w)"
      "identity_read_one (by_name (ucr_hostname data)) w = (Inr (Some host), w)" "grants_create cx w = (Inr gr, w)"
    and terms: "certificate_terms (cx_now cx) (cx_uuid cx) (ucr_action data) (ucr_command data)
      (decision_for gr caller host (ucr_username data)) = Inr (co, ex)"
    and cert: "cert = user_certificate cx caller host data key n (co, ex) sg"
    using assms(2) by (auto simp: certified_def)
  have "ends_within (cx_now cx) (Some t) (ex_session_deadline ex)"
    using shell_terms_bounded [OF terms assms(3)] assms(4) [OF reads] by simp
  then obtain e where e: "ex_session_deadline ex = Some e" "e \<le> cx_now cx + t" by (auto simp: ends_within_def)
  have "ex_connection_id ex = Some (cx_uuid cx)"
    using terms assms(3) by (auto simp: certificate_terms_def shell_terms_def split: if_splits)
  then have x: "ex_connection_id (cert_extensions cert) = Some (ucs_connection_id r)"
      "ex_session_deadline (cert_extensions cert) = Some e"
    using e(1) c(3) by (simp_all add: cert user_certificate_def created_without_addresses [OF terms_no_addresses [OF terms]])
  have ph': "ph' = pam_calls decode fingerprint key_fingerprint ca_pub calls
      (handle_open_session decode fingerprint key_fingerprint ca_pub pc ph)"
    by (simp add: assms(10) pam_calls_def session_deadline_def)
  note keep = pam_calls_keep [OF assms(9), where fingerprint = fingerprint and key_fingerprint = key_fingerprint and ca_pub = ca_pub]
  note opened = open_session_deadline [where decode = decode and key_fingerprint = key_fingerprint and ph = ph, OF assms(5,6) x assms(7,8) refl]
  show ?thesis
  proof (intro exI [of _ e] conjI e(2), cases "e \<le> pc_now pc div 1000000")
    case True
    then show "if e \<le> pc_now pc div 1000000 then s \<in> set (ph_terminated ph')
      else map_of (ph_timers ph') (timer_unit (ucs_connection_id r)) =
        (case map_of (ph_timers ph) (timer_unit (ucs_connection_id r)) of None \<Rightarrow> Some (e, s) | Some other \<Rightarrow> Some other)"
      using opened keep by (simp add: ph')
  next
    case False
    then show "if e \<le> pc_now pc div 1000000 then s \<in> set (ph_terminated ph')
      else map_of (ph_timers ph') (timer_unit (ucs_connection_id r)) =
        (case map_of (ph_timers ph) (timer_unit (ucs_connection_id r)) of None \<Rightarrow> Some (e, s) | Some other \<Rightarrow> Some other)"
      using opened keep by (simp add: ph' split: option.split)
  qed
qed

text \<open>
  When two sessions of a certificate are open, closing either of them stops the only timer: a session that the
  policy bounds stays open without one.
\<close>

lemma second_session_stops_timer:
  assumes "connection_of decode pc = Some cid" and "cert_from_auth_info decode (pc_auth_info pc) = Some cert"
    and "ex_session_deadline (cert_extensions cert) = Some e"
  shows "map_of (ph_timers (handle_close_session decode pc ph)) (timer_unit cid) = None"
  using assms by (simp add: connection_of_def handle_close_session_def Let_def stop_timer_def pam_report_def delete_conv'
      split: option.split)

text \<open>
  Closing a session undoes what opening it did: whatever deadline the certificate has, whoever signed it, and
  whenever the two calls come, a timer that was set is stopped and a record that was written is removed,
  so a host keeps nothing about a session that is over.
\<close>

lemma session_close_undoes_open:
  assumes "pc_auth_info pc' = pc_auth_info pc" and "pc_session_id pc' = pc_session_id pc"
    and cert: "cert_from_auth_info decode (pc_auth_info pc) = Some cert" and cid: "ex_connection_id (cert_extensions cert) = Some cid"
    and "map_of (ph_timers ph) (timer_unit cid) = None"
    and "\<And>s dir. pc_session_id pc = Some s \<Longrightarrow> ph_sessions ph = Some dir \<Longrightarrow> session_record_name cid s \<notin> fst ` set dir"
    and opened: "opened = handle_open_session decode fingerprint key_fingerprint ca_pub pc ph"
  shows "ph_timers (handle_close_session decode pc' opened) = ph_timers ph \<and>
    ph_sessions (handle_close_session decode pc' opened) = ph_sessions ph"
proof -
  let ?ex = "cert_extensions cert"
  have timer: "AList.delete (timer_unit cid) (ph_timers ph) = ph_timers ph"
    by (rule delete_absent) (use assms(5) in \<open>simp only: map_of_eq_None_iff not_False_eq_True\<close>)
  have kept: "session_record_remove cid s dir = dir" "session_record_remove cid s (snd (session_record_write t cid s dir)) = dir"
    if "pc_session_id pc = Some s" "ph_sessions ph = Some dir" for s t dir
    using assms(6) [OF that]
    by (simp_all add: session_record_remove_def session_record_write_def unlink_def write_file_def Let_def delete_absent
        delete_update_absent)
  have "opened = ph \<or> opened = open_trusted pc ?ex ph"
    by (simp add: opened handle_open_session_def cert Let_def)
  then show ?thesis
  proof
    assume o: "opened = ph"
    show ?thesis unfolding o handle_close_session_def assms(1) cert
      using assms(2)
      by (auto simp: cid Let_def pam_report_def stop_timer_def timer kept(1) session_of_call_def map_option_case
          split: option.split)
  next
    assume o: "opened = open_trusted pc ?ex ph"
    show ?thesis unfolding o handle_close_session_def assms(1) cert
      using assms(2)
      by (auto simp: cid open_trusted_def Let_def pam_report_def stop_timer_def start_timer_def set_deadline_def timer kept
          session_of_call_def map_option_case split: option.split)
  qed
qed

section \<open>Ending sessions on request\<close>

lemma fold_logind_claim:
  "snd (fold (logind_claim sessions) cs (u, lr)) =
    \<lparr>lr_requests = fold remove_request (filter (\<lambda>c. session_ids c sessions \<noteq> []) cs) (lr_requests lr),
     lr_terminated = lr_terminated lr @ concat (map (\<lambda>c. session_ids c sessions) cs)\<rparr>"
  by (induction cs arbitrary: u lr) (simp_all add: logind_claim_def Let_def)

lemma fold_remove_requests:
  "kr_files kr = Some dir \<Longrightarrow> kr_files (fold remove_request cs kr) = Some (filter (\<lambda>(n, f). n \<notin> kill_request_name ` set cs) dir)"
proof (induction cs arbitrary: kr dir)
  case (Cons c cs)
  have "kr_files (remove_request c kr) = Some (unlink (kill_request_name c) dir)" using Cons.prems by (simp add: remove_request_def)
  then show ?case using Cons.IH [of "remove_request c kr"]
    by (auto simp: unlink_def AList.delete_eq case_prod_unfold intro!: filter_cong)
qed simp

text \<open>Requests that expire are removed too; no request appears.\<close>

lemma expire_requests_files:
  assumes "kr_files kr = Some dir"
  shows "\<exists>dir'. kr_files (expire_requests now cs kr) = Some dir' \<and> set dir' \<subseteq> set dir"
proof -
  have "\<exists>dir'. kr_files (fold (expire_request now) cs kr) = Some dir' \<and> set dir' \<subseteq> set dir" if "kr_files kr = Some dir" for kr dir
    using that
  proof (induction cs arbitrary: kr dir)
    case (Cons c cs)
    have "\<exists>dir1. kr_files (expire_request now c kr) = Some dir1 \<and> set dir1 \<subseteq> set dir"
      using Cons.prems by (auto simp: expire_request_def Let_def remove_request_def unlink_def AList.delete_eq)
    then obtain dir1 where d: "kr_files (expire_request now c kr) = Some dir1" "set dir1 \<subseteq> set dir" by blast
    then show ?case using Cons.IH [OF d(1)] by fastforce
  qed simp
  then show ?thesis using assms by (simp add: expire_requests_def)
qed

lemma requested_kill:
  assumes "connection_id_ok cid" and "kill_request_name cid \<in> fst ` set dir"
  shows "cid \<in> set (requested \<lparr>kr_files = Some dir, kr_orphans = orphans\<rparr>)"
proof -
  have "kill_request_of (kill_request_name cid) = Some cid" using assms(1) by (simp add: kill_request_of_def kill_request_name_def)
  then show ?thesis using assms(2) by (force simp: requested_def map_filter_def)
qed

text \<open>
  C27. A request to end a connection reaches every session of it on a Linux host: \<open>Terminator.terminate\<close>
  reports no failure and closes every tunnel of the connection, and the next tick of the session reaper
  ends every logind session that the PAM hook recorded for the connection and removes the request.
\<close>

theorem termination_reaches_sessions:
  assumes "connection_id_ok cid" and "te_kill_dir te = Some kills" and "terminate now cid te = (res, te')"
    and "set (session_ids cid sessions) \<noteq> {}"
  shows "res = None \<and> te_closed te' = te_closed te @ map snd (tunnels_of cid te) \<and>
    (\<exists>kills' after. te_kill_dir te' = Some kills' \<and>
      logind_tick later sessions \<lparr>lr_requests = \<lparr>kr_files = Some kills', kr_orphans = orphans\<rparr>, lr_terminated = ended\<rparr> = after \<and>
      set (session_ids cid sessions) \<subseteq> set (lr_terminated after) \<and>
      (\<exists>dir. kr_files (lr_requests after) = Some dir \<and> kill_request_name cid \<notin> fst ` set dir))"
proof -
  let ?kills = "write_file (kill_request_name cid) (empty_file now) kills"
  have t: "res = None" "te_closed te' = te_closed te @ map snd (tunnels_of cid te)" "te_kill_dir te' = Some ?kills"
    using assms(1-3) by (auto simp: terminate_def request_host_kill_def request_kill_def Let_def split: if_splits)
  let ?kr = "\<lparr>kr_files = Some ?kills, kr_orphans = orphans\<rparr>"
  let ?cs = "sort (requested ?kr)"
  have cid: "cid \<in> set ?cs"
    using requested_kill [OF assms(1), of ?kills orphans] by (simp add: write_file_def dom_update)
  obtain unclaimed lr where f: "fold (logind_claim sessions) ?cs ([], \<lparr>lr_requests = ?kr, lr_terminated = ended\<rparr>) = (unclaimed, lr)"
    by fastforce
  then have lr: "lr = \<lparr>lr_requests = fold remove_request (filter (\<lambda>c. session_ids c sessions \<noteq> []) ?cs) ?kr,
      lr_terminated = ended @ concat (map (\<lambda>c. session_ids c sessions) ?cs)\<rparr>"
    using fold_logind_claim [of sessions ?cs "[]" "\<lparr>lr_requests = ?kr, lr_terminated = ended\<rparr>"] by simp
  let ?after = "lr\<lparr>lr_requests := expire_requests later unclaimed (lr_requests lr)\<rparr>"
  have after: "logind_tick later sessions \<lparr>lr_requests = ?kr, lr_terminated = ended\<rparr> = ?after"
    using f by (simp add: logind_tick_def)
  have "set (session_ids cid sessions) \<subseteq> set (lr_terminated ?after)" using cid by (auto simp: lr)
  moreover have "kr_files (lr_requests lr) =
      Some (filter (\<lambda>(n, f). n \<notin> kill_request_name ` set (filter (\<lambda>c. session_ids c sessions \<noteq> []) ?cs)) ?kills)"
    unfolding lr by (simp only: fold_remove_requests [of ?kr ?kills] logind_reaper.simps kill_requests.simps)
  then obtain dir where d: "kr_files (lr_requests ?after) = Some dir"
      "set dir \<subseteq> set (filter (\<lambda>(n, f). n \<notin> kill_request_name ` set (filter (\<lambda>c. session_ids c sessions \<noteq> []) ?cs)) ?kills)"
    using expire_requests_files [of "lr_requests lr" _ later unclaimed] by auto
  moreover have "kill_request_name cid \<notin> fst ` set dir" using d(2) cid assms(4) by fastforce
  ultimately show ?thesis using t after by blast
qed

section \<open>Examples\<close>

definition host_world :: world where
  "host_world = ssh_world\<lparr>w_db := (w_db ssh_world)\<lparr>
    db_signing_key := \<lparr>tb_rows = [\<lparr>sg_id = 1, sg_type = signing_key_type_value signing_key_type.HOST, sg_key = ''hk'',
      sg_serial_number = 1, sg_valid_after = 0, sg_valid_before = 5000\<rparr>], tb_seq = 1\<rparr>\<rparr>\<rparr>"

definition db1_host :: request_ctx where
  "db1_host = ann\<lparr>cx_identity_id := Some 2\<rparr>"

lemma sample_host_signed: "\<exists>hc wh. sign_host_certificate plain_crypto db1_host [''k''] host_world = (Inr [hc], wh)"
proof -
  have "case fst (sign_host_certificate plain_crypto db1_host [''k''] host_world) of Inl _ \<Rightarrow> False | Inr hcs \<Rightarrow> length hcs = 1"
    by code_simp
  then show ?thesis
    by (cases "sign_host_certificate plain_crypto db1_host [''k''] host_world") (auto split: sum.splits simp: length_Suc_conv)
qed

text \<open>The host of the sample, and the bound of the sample decision.\<close>

lemma sample_reads:
  "identity_read_self ann_admin ssh_world = (Inr (Some caller), ssh_world) \<Longrightarrow>
   identity_read_one (by_name ''db1'') ssh_world = (Inr (Some host), ssh_world) \<Longrightarrow>
   grants_create ann_admin ssh_world = (Inr gr, ssh_world) \<Longrightarrow>
   i_id host = 2 \<and> the (sd_capability_ttl (decision_for gr caller host ''root'') SHELL) = Some 60"
proof -
  have "case (fst (identity_read_self ann_admin ssh_world), fst (identity_read_one (by_name ''db1'') ssh_world),
      fst (grants_create ann_admin ssh_world)) of
    (Inr (Some caller), Inr (Some host), Inr gr) \<Rightarrow>
      i_id host = 2 \<and> the (sd_capability_ttl (decision_for gr caller host ''root'') SHELL) = Some 60 | _ \<Rightarrow> False"
    by code_simp
  then show "identity_read_self ann_admin ssh_world = (Inr (Some caller), ssh_world) \<Longrightarrow>
      identity_read_one (by_name ''db1'') ssh_world = (Inr (Some host), ssh_world) \<Longrightarrow>
      grants_create ann_admin ssh_world = (Inr gr, ssh_world) \<Longrightarrow> ?thesis"
    by simp
qed

lemma certificate_opens_one_account_witness:
  "\<exists>r w1 cert hc wh. sign_user_certificate plain_crypto ann_admin shell_request ssh_world = (Inr r, w1) \<and>
    cert \<in> set (ucs_certificates r) \<and> sign_host_certificate plain_crypto db1_host [''k''] host_world = (Inr [hc], wh) \<and>
    fst (authorized_principals macos_connection [] 0 1 hc ''root'' cert None) = Inr (user_principal ''root'' 2) \<and>
    fst (authorized_principals macos_connection [] 0 1 hc ''bob'' cert None) = Inr ''''"
proof -
  obtain r w1 where s: "sign_user_certificate plain_crypto ann_admin shell_request ssh_world = (Inr r, w1)"
    using sample_signed by auto
  obtain cert where c: "certified plain_crypto ann_admin shell_request ssh_world cert" "ucs_certificates r = [cert]"
    using sign_user_steps [OF s] by metis
  obtain hc wh where h: "sign_host_certificate plain_crypto db1_host [''k''] host_world = (Inr [hc], wh)"
    using sample_host_signed by blast
  have id: "cx_identity_id db1_host = Some 2" by (simp add: db1_host_def)
  have host: "i_id host = 2" if "identity_read_one (by_name (ucr_hostname shell_request)) ssh_world = (Inr (Some host), ssh_world)" for host
    using c(1) that sample_reads by (auto simp: certified_def shell_request_def)
  have "fst (authorized_principals macos_connection [] 0 1 hc u cert None) =
      (if ''root'' \<noteq> u then Inr '''' else Inr (user_principal u 2))" for u
    using certificate_opens_one_account [OF s _ h _ id, of cert hc macos_connection "[]" 0 1 u None] c(2) host
    by (auto simp: shell_request_def)
  then show ?thesis using s c(2) h by (intro exI [of _ r] exI [of _ w1] exI [of _ cert] exI [of _ hc] exI [of _ wh]) simp
qed

definition root_login :: pam_call where
  "root_login = \<lparr>pc_now = 1020000000, pc_rnd = ''0123abcd'',
    pc_auth_info = [''password'', ''publickey ssh-ed25519-cert-v01@openssh.com QQ==''], pc_session_id = Some ''7''\<rparr>"

definition plain_host :: pam_host where
  "plain_host = \<lparr>ph_live = None, ph_sessions = Some [], ph_timers = [], ph_terminated = []\<rparr>"

lemma root_login_cert: "cert_from_auth_info (\<lambda>_. Some cert) (pc_auth_info root_login) = Some cert"
proof -
  have "split_twice ''password'' = [''password''] \<and> split_twice ''publickey ssh-ed25519-cert-v01@openssh.com QQ=='' =
      [''publickey'', ''ssh-ed25519-cert-v01@openssh.com'', ''QQ==''] \<and>
      ends_with ''ssh-ed25519-cert-v01@openssh.com'' ''-cert-v01@openssh.com''"
    by code_simp
  then show ?thesis by (simp add: root_login_def)
qed

text \<open>Root logs in, and a session of somebody without a certificate opens and closes.\<close>

definition other_login :: pam_call where
  "other_login = \<lparr>pc_now = 1021000000, pc_rnd = ''0123abce'', pc_auth_info = [''password''], pc_session_id = Some ''8''\<rparr>"

theorem shell_session_ends_in_time_witness:
  "\<exists>r w1 cert. sign_user_certificate plain_crypto ann_admin shell_request ssh_world = (Inr r, w1) \<and>
    cert \<in> set (ucs_certificates r) \<and>
    (\<exists>e\<le>1060. let ph = pam_calls (\<lambda>_. Some cert) Some (\<lambda>_. ''ca'') (Some ''ca'')
        [(Open_Session, root_login), (Open_Session, other_login), (Close_Session, other_login)] plain_host
      in if e \<le> 1020 then ''7'' \<in> set (ph_terminated ph)
         else map_of (ph_timers ph) (timer_unit (ucs_connection_id r)) = Some (e, ''7''))"
proof -
  obtain r w1 where s: "sign_user_certificate plain_crypto ann_admin shell_request ssh_world = (Inr r, w1)"
    using sample_signed by auto
  obtain cert where c: "ucs_certificates r = [cert]" using sign_user_steps [OF s] by metis
  have t: "''ca'' \<in> set (trusted_fingerprints Some (Some ''ca''))" by code_simp
  have "split_twice ''password'' = [''password'']" by code_simp
  then have other: "connection_of (\<lambda>_. Some cert) other_login = None" by (simp add: connection_of_def other_login_def)
  let ?ph = "pam_calls (\<lambda>_. Some cert) Some (\<lambda>_. ''ca'') (Some ''ca'')
      [(Open_Session, root_login), (Open_Session, other_login), (Close_Session, other_login)] plain_host"
  have at: "cx_now ann_admin + 60 = 1060" "pc_now root_login div 1000000 = 1020" "ph_timers plain_host = []"
    by (simp_all add: root_login_def plain_host_def ann_admin_def ann_def sample_cx_def)
  have "\<exists>e\<le>cx_now ann_admin + 60. if e \<le> pc_now root_login div 1000000 then ''7'' \<in> set (ph_terminated ?ph)
      else map_of (ph_timers ?ph) (timer_unit (ucs_connection_id r)) =
        (case map_of (ph_timers plain_host) (timer_unit (ucs_connection_id r)) of None \<Rightarrow> Some (e, ''7'') | Some x \<Rightarrow> Some x)"
    by (rule shell_session_ends_in_time [where fingerprint = Some and key_fingerprint = "\<lambda>_. ''ca''" and
          calls = "[(Open_Session, other_login), (Close_Session, other_login)]", OF s _ _ _ root_login_cert t])
      (use c sample_reads other in \<open>simp_all add: shell_request_def root_login_def\<close>)
  then have "\<exists>e\<le>1060. if e \<le> 1020 then ''7'' \<in> set (ph_terminated ?ph)
      else map_of (ph_timers ?ph) (timer_unit (ucs_connection_id r)) = Some (e, ''7'')"
    unfolding at map_of.simps option.case .
  then show ?thesis using s c unfolding Let_def by (intro exI [of _ r] exI [of _ w1] exI [of _ cert] conjI) simp_all
qed

definition timed_cert :: "string cert" where
  "timed_cert = create_user ''k'' 7 ''1:ann'' [''root@2''] 0 60 CriticalOptions
    (Extensions\<lparr>ex_session_deadline := Some 1060, ex_connection_id := Some ''00000000-0000-4000-8000-00000000000a''\<rparr>) ''ca''"

lemma timed_cert_extensions:
  "ex_connection_id (cert_extensions timed_cert) = Some ''00000000-0000-4000-8000-00000000000a''"
  "ex_session_deadline (cert_extensions timed_cert) = Some 1060" "ce_signer timed_cert = ''ca''"
  unfolding timed_cert_def by (simp_all add: created_without_addresses CriticalOptions_def Extensions_def)
    (simp add: create_user_def)

lemma session_close_undoes_open_witness:
  "let opened = handle_open_session (\<lambda>_. Some timed_cert) Some id (Some ''ca'') root_login plain_host;
       closed = handle_close_session (\<lambda>_. Some timed_cert) (root_login\<lparr>pc_now := 1030000000\<rparr>) opened
   in map_of (ph_timers opened) (timer_unit ''00000000-0000-4000-8000-00000000000a'') = Some (1060, ''7'') \<and>
     ph_timers closed = [] \<and> ph_sessions closed = Some []"
proof -
  let ?opened = "handle_open_session (\<lambda>_. Some timed_cert) Some id (Some ''ca'') root_login plain_host"
  have t: "id (ce_signer timed_cert) \<in> set (trusted_fingerprints Some (Some ''ca''))"
    unfolding timed_cert_extensions by code_simp
  have "if 1060 \<le> pc_now root_login div 1000000 then ''7'' \<in> set (ph_terminated ?opened)
      else map_of (ph_timers ?opened) (timer_unit ''00000000-0000-4000-8000-00000000000a'') = Some (1060, ''7'')"
    using open_session_deadline [where key_fingerprint = id and decode = "\<lambda>_. Some timed_cert" and ph = plain_host,
        OF root_login_cert t timed_cert_extensions(1,2) _ _ refl, of "''7''"]
    by (simp add: root_login_def plain_host_def)
  moreover have "ph_timers (handle_close_session (\<lambda>_. Some timed_cert) (root_login\<lparr>pc_now := 1030000000\<rparr>) ?opened) =
      ph_timers plain_host \<and>
    ph_sessions (handle_close_session (\<lambda>_. Some timed_cert) (root_login\<lparr>pc_now := 1030000000\<rparr>) ?opened) = ph_sessions plain_host"
    by (rule session_close_undoes_open [OF _ _ root_login_cert timed_cert_extensions(1) _ _ refl])
      (simp_all add: plain_host_def)
  ultimately show ?thesis by (simp add: Let_def root_login_def plain_host_def)
qed

lemma termination_reaches_sessions_witness:
  "\<exists>res te' after kills'. terminate 0 ''00000000-0000-4000-8000-00000000000a''
      \<lparr>te_kill_dir = Some [], te_tunnels = [(''00000000-0000-4000-8000-00000000000a'', [(''t1'', 4)])], te_closed = []\<rparr> = (res, te') \<and>
    res = None \<and> te_closed te' = [4] \<and> te_kill_dir te' = Some kills' \<and>
    logind_tick 5 [(''00000000-0000-4000-8000-00000000000a-7'', empty_file 0)]
      \<lparr>lr_requests = \<lparr>kr_files = Some kills', kr_orphans = []\<rparr>, lr_terminated = []\<rparr> = after \<and>
    ''7'' \<in> set (lr_terminated after)"
proof -
  let ?cid = "''00000000-0000-4000-8000-00000000000a''"
  let ?te = "\<lparr>te_kill_dir = Some [], te_tunnels = [(?cid, [(''t1'', 4)])], te_closed = []\<rparr>"
  have ok: "connection_id_ok ?cid" "session_id_ok ''7''" by code_simp+
  have s: "''7'' \<in> set (session_ids ?cid [(''00000000-0000-4000-8000-00000000000a-7'', empty_file 0)])"
    using ok by (simp add: set_session_ids session_record_name_def)
  obtain res te' where t: "terminate 0 ?cid ?te = (res, te')" by fastforce
  have tunnels: "map snd (tunnels_of ?cid ?te) = [4]" by (simp add: tunnels_of_def)
  show ?thesis
    using termination_reaches_sessions [OF ok(1) _ t, of "[]" "[(''00000000-0000-4000-8000-00000000000a-7'', empty_file 0)]" 5 "[]" "[]"]
      t s tunnels by fastforce
qed

end
