(* ===== verification/Oidc_Login.thy ===== *)
theory Oidc_Login
  imports Auth_Config Auth_Http_Sig Host_Files
begin

text \<open>
  \<open>api/endpoints/auth_oidc.py\<close>: logging in with a token of an identity provider. Every exception while the
  token is checked is one refusal, so checking gives an \<open>option\<close>. Parameters, in a record \<open>oidc_lib\<close>: the
  decoding of base64 and JSON, fetching a JSON document, and the two signature schemes. Numbers in a
  token are integers and an email address is text.
\<close>

record oidc_lib =
  ol_b64 :: "string \<Rightarrow> string option"
  ol_json :: "string \<Rightarrow> json option"
  ol_fetch :: "string \<Rightarrow> json option"
  ol_rs256 :: "string \<Rightarrow> string \<Rightarrow> string \<Rightarrow> string \<Rightarrow> bool"
  ol_es256 :: "string \<Rightarrow> string \<Rightarrow> string \<Rightarrow> string \<Rightarrow> string \<Rightarrow> bool"

type_synonym json_object = "(string \<times> json) list"

text \<open>\<open>d.get(k)\<close>: absent is \<open>None\<close>, as null is.\<close>

definition get_claim :: "json_object \<Rightarrow> string \<Rightarrow> json" where
  "get_claim d k = (case map_of d k of None \<Rightarrow> JNull | Some v \<Rightarrow> v)"

definition as_object :: "json option \<Rightarrow> json_object option" where
  "as_object v = (case v of Some (JObject d) \<Rightarrow> Some d | _ \<Rightarrow> None)"

definition as_text :: "json option \<Rightarrow> string option" where
  "as_text v = (case v of Some (JText s) \<Rightarrow> Some s | _ \<Rightarrow> None)"

text \<open>A number in a comparison; true and false are numbers too.\<close>

definition as_number :: "json \<Rightarrow> int option" where
  "as_number v = (case v of JInt i \<Rightarrow> Some i | JBool b \<Rightarrow> Some (if b then 1 else 0) | _ \<Rightarrow> None)"

section \<open>The key that signed a token\<close>

fun find_jwk :: "json list \<Rightarrow> json \<Rightarrow> json_object option" where
  "find_jwk [] kid = None"
| "find_jwk (JObject k # ks) kid = (if get_claim k ''kid'' = kid then Some k else find_jwk ks kid)"
| "find_jwk (_ # ks) kid = None"

definition provider_key :: "oidc_lib \<Rightarrow> string \<Rightarrow> json \<Rightarrow> json_object option" where
  "provider_key ol issuer kid =
    (case as_object (ol_fetch ol (issuer @ ''/.well-known/openid-configuration'')) of
       None \<Rightarrow> None
     | Some discovery \<Rightarrow> (case as_text (map_of discovery ''jwks_uri'') of
         None \<Rightarrow> None
       | Some jwks_uri \<Rightarrow> (case as_object (ol_fetch ol jwks_uri) of
           None \<Rightarrow> None
         | Some jwks \<Rightarrow> (case map_of jwks ''keys'' of
             Some (JList ks) \<Rightarrow> find_jwk ks kid
           | _ \<Rightarrow> None))))"

definition jwk_number :: "oidc_lib \<Rightarrow> json_object \<Rightarrow> string \<Rightarrow> string option" where
  "jwk_number ol k field = Option.bind (as_text (map_of k field)) (ol_b64 ol)"

definition signature_valid :: "oidc_lib \<Rightarrow> string \<Rightarrow> json_object \<Rightarrow> string \<Rightarrow> string \<Rightarrow> bool" where
  "signature_valid ol alg k signing_input sig =
    (if alg = ''RS256''
     then (case (jwk_number ol k ''n'', jwk_number ol k ''e'') of
        (Some n, Some e) \<Rightarrow> ol_rs256 ol n e signing_input sig | _ \<Rightarrow> False)
     else (case (jwk_number ol k ''x'', jwk_number ol k ''y'') of
        (Some x, Some y) \<Rightarrow> ol_es256 ol x y signing_input (take 32 sig) (drop 32 sig) | _ \<Rightarrow> False))"

section \<open>The claims\<close>

definition audience_ok :: "json_object \<Rightarrow> string \<Rightarrow> bool" where
  "audience_ok claims client_id = (case get_claim claims ''aud'' of
     JList l \<Rightarrow> JText client_id \<in> set l | aud \<Rightarrow> aud = JText client_id)"

definition email_is_verified :: "json_object \<Rightarrow> bool \<Rightarrow> bool" where
  "email_is_verified claims require_email_verified = (let v = get_claim claims ''email_verified''
    in v = JBool True \<or> (v = JNull \<and> \<not> require_email_verified))"

definition nonempty_text :: "json \<Rightarrow> string option" where
  "nonempty_text v = (case v of JText (c # cs) \<Rightarrow> Some (c # cs) | _ \<Rightarrow> None)"

definition validate_claims ::
    "int \<Rightarrow> string \<Rightarrow> string \<Rightarrow> string \<Rightarrow> bool \<Rightarrow> json_object \<Rightarrow> (string \<times> int) option" where
  "validate_claims now issuer client_id nonce require_email_verified claims =
    (if get_claim claims ''iss'' \<noteq> JText issuer then None
     else if \<not> audience_ok claims client_id then None
     else case as_number (case map_of claims ''exp'' of None \<Rightarrow> JInt 0 | Some v \<Rightarrow> v) of
       None \<Rightarrow> None
     | Some expires \<Rightarrow>
         if expires \<le> now then None
         else if (case get_claim claims ''nbf'' of JNull \<Rightarrow> False
             | v \<Rightarrow> (case as_number v of None \<Rightarrow> True | Some nbf \<Rightarrow> nbf > now)) then None
         else case nonempty_text (get_claim claims ''email'') of
           None \<Rightarrow> None
         | Some email \<Rightarrow>
             if \<not> email_is_verified claims require_email_verified then None
             else case nonempty_text (get_claim claims ''nonce'') of
               None \<Rightarrow> None
             | Some token_nonce \<Rightarrow> if token_nonce \<noteq> nonce then None else Some (email, expires))"

text \<open>The claims of a token whose signature is right.\<close>

definition signed_claims :: "oidc_lib \<Rightarrow> string \<Rightarrow> string \<Rightarrow> json_object option" where
  "signed_claims ol issuer id_token = (case split_on CHR ''.'' id_token of
     [header_b64, payload_b64, signature_b64] \<Rightarrow>
       (case as_object (Option.bind (ol_b64 ol header_b64) (ol_json ol)) of
          None \<Rightarrow> None
        | Some header \<Rightarrow>
            let kid = get_claim header ''kid''; alg = as_text (map_of header ''alg'')
            in if kid = JNull \<or> alg \<notin> {Some ''RS256'', Some ''ES256''} then None
               else case provider_key ol issuer kid of
                 None \<Rightarrow> None
               | Some k \<Rightarrow> (case ol_b64 ol signature_b64 of
                   None \<Rightarrow> None
                 | Some sig \<Rightarrow>
                     if \<not> signature_valid ol (the alg) k (header_b64 @ ''.'' @ payload_b64) sig then None
                     else as_object (Option.bind (ol_b64 ol payload_b64) (ol_json ol))))
   | _ \<Rightarrow> None)"

definition verify_oidc_token ::
    "oidc_lib \<Rightarrow> int \<Rightarrow> string \<Rightarrow> string \<Rightarrow> string \<Rightarrow> string \<Rightarrow> bool \<Rightarrow> (string \<times> int) option" where
  "verify_oidc_token ol now issuer client_id id_token nonce require_email_verified =
    (case signed_claims ol issuer id_token of
       None \<Rightarrow> None
     | Some claims \<Rightarrow> validate_claims now issuer client_id nonce require_email_verified claims)"

section \<open>The login\<close>

record oidc_login_request =
  or_auth_name :: string
  or_client_type :: string
  or_id_token :: string
  or_nonce :: string
  or_session_public_key :: jwk

definition config_text :: "details \<Rightarrow> string \<Rightarrow> string option" where
  "config_text config k = (case map_of config k of Some (DStr s) \<Rightarrow> Some s | _ \<Rightarrow> None)"

text \<open>Anything but an empty value requires a verified address.\<close>

definition requires_verified :: "details \<Rightarrow> bool" where
  "requires_verified config = (case map_of config ''require_email_verified'' of
     None \<Rightarrow> True | Some v \<Rightarrow> v \<notin> {DBool False, DNull, DInt 0, DStr '''', DList [], DObject []})"

definition token_login :: "oidc_lib \<Rightarrow> int \<Rightarrow> auth_config \<Rightarrow> oidc_login_request \<Rightarrow> (string \<times> int) option" where
  "token_login ol now ac data = (case (config_text (ac_config ac) ''issuer'', config_text (ac_config ac) ''client_id'') of
     (Some issuer, Some client_id) \<Rightarrow>
       verify_oidc_token ol now issuer client_id (or_id_token data) (or_nonce data) (requires_verified (ac_config ac))
   | _ \<Rightarrow> None)"

definition oidc_types :: "string list" where
  "oidc_types = [''oidc'', ''oidc-device-code'', ''oidc-secret-device-code'']"

definition verify_oidc_login ::
    "http_lib \<Rightarrow> auth_lib \<Rightarrow> oidc_lib \<Rightarrow> request_ctx \<Rightarrow> http_request \<Rightarrow> oidc_login_request \<Rightarrow> (string \<times> int) handler" where
  "verify_oidc_login hl al ol cx r data =
    and_then (lifting (hl_public_key hl (or_session_public_key data))) (\<lambda>key.
    seq (enforce_key_is_allowed key)
    (seq (verify hl cx r (''session:'' @ hl_thumbprint hl key) key None)
    (and_then (reads (auth_config_read_one al (\<lambda>a. aut_name a = or_auth_name data \<and> aut_client_type a = or_client_type data)))
      (\<lambda>ac. case ac of
        None \<Rightarrow> reject 403 ''Auth config not found or not usable for OIDC login'' None
      | Some ac \<Rightarrow>
          if \<not> ac_is_enabled ac \<or> ac_type ac \<notin> set oidc_types
          then reject 403 ''Auth config not found or not usable for OIDC login'' None
          else case token_login ol (cx_now cx) ac data of
            None \<Rightarrow> reject 403 ''OIDC token verification failed'' (Some ''OIDC token verification failed'')
          | Some verified \<Rightarrow> ret verified))))"

definition reject_session :: "request_ctx \<Rightarrow> string \<Rightarrow> string \<Rightarrow> string \<Rightarrow> string \<Rightarrow> 'a handler" where
  "reject_session cx thumbprint reason email t =
    seq (create_after_rollback cx SESSION_REJECTED
        [(''session_key_id'', DStr thumbprint), (''reason'', DStr reason), (''email'', DStr email)])
      (reject 403 t None)"

definition oidc_session :: "http_lib \<Rightarrow> request_ctx \<Rightarrow> http_request \<Rightarrow> verifying_key \<Rightarrow> identity \<Rightarrow> unit handler" where
  "oidc_session hl cx r key identity =
    seq (creates identity_session_key_table (\<lambda>_. \<lparr>sk_id = hl_thumbprint hl key,
       sk_public_key = hl_key_dict hl key, sk_identity_id = i_id identity, sk_created_at = cx_now cx,
       sk_is_revoked = False, sk_revoked_at = None,
       sk_expires_at = cx_now cx + cf_session_duration_s (cx_config cx),
       sk_login_ip = rq_client_host r, sk_role_id = None, sk_logged_out_at = None\<rparr>)) (ret ())"

definition roles_of_identity :: "int \<Rightarrow> app_db \<Rightarrow> (int \<times> string) list" where
  "roles_of_identity identity_id db =
    (let members = table_read_all role_member_table (\<lambda>m. rm_identity_id m = identity_id) db
     in map (\<lambda>r. (ro_id r, ro_name r)) (table_read_all role_table (\<lambda>r. ro_id r \<in> set (map rm_role_id members)) db))"

definition oidc_login :: "http_lib \<Rightarrow> request_ctx \<Rightarrow> http_request \<Rightarrow> oidc_login_request \<Rightarrow> string \<times> int \<Rightarrow> login_response handler" where
  "oidc_login hl cx r data verified = (case verified of (email, token_exp) \<Rightarrow>
    and_then (lifting (hl_public_key hl (or_session_public_key data))) (\<lambda>key.
    let thumbprint = hl_thumbprint hl key in
    seq (enforce_not_denied cx thumbprint)
    (seq (catching (creates oidc_nonce_table (\<lambda>_. \<lparr>oi_nonce = or_nonce data, oi_expires_at = token_exp\<rparr>))
        (\<lambda>e. case e of IntegrityError _ _ \<Rightarrow>
            reject_session cx thumbprint ''oidc-nonce-replayed'' email ''OIDC nonce has already been used''
          | _ \<Rightarrow> raising e))
    (and_then (identity_read_one (any_identity\<lparr>iq_name := Some email\<rparr>)) (\<lambda>identity. case identity of
        None \<Rightarrow> reject_session cx thumbprint ''oidc-no-identity'' email ''No identity for this account''
      | Some identity \<Rightarrow>
          seq (oidc_session hl cx r key identity)
          (seq (audit_create cx SESSION_LOGIN []
              [(''identity_id'', DInt (i_id identity)), (''session_key_id'', DStr thumbprint),
               (''login_ip'', opt_str (rq_client_host r)), (''method'', DStr ''oidc'')])
          (and_then (reads (roles_of_identity (i_id identity))) (\<lambda>roles.
            ret \<lparr>lo_roles = roles, lo_expires_at = cx_now cx + cf_session_duration_s (cx_config cx)\<rparr>))))))))"

text \<open>The token is checked before the transaction starts; an exception in it rolls the transaction back.\<close>

definition oidc_login_endpoint ::
    "http_lib \<Rightarrow> auth_lib \<Rightarrow> oidc_lib \<Rightarrow> (effect \<Rightarrow> exn + unit) \<Rightarrow> request_ctx \<Rightarrow> http_request \<Rightarrow> oidc_login_request \<Rightarrow>
      login_response handler" where
  "oidc_login_endpoint hl al ol perform cx r data =
    and_then (verify_oidc_login hl al ol cx r data) (\<lambda>verified.
      tenant_context perform (oidc_login hl cx r data verified))"

end
