(* ===== verification/Oidc_Safety.thy ===== *)
theory Oidc_Safety
  imports Oidc_Login Signature_Safety Confinement Policy_Safety
begin

text \<open>
  Logging in with a token of an identity provider: what has been checked when a session is made, and that a
  token makes one session at most.
\<close>

section \<open>What a login that succeeds has done\<close>

lemma reject_session_fails: "reject_session cx t reason email ti w \<noteq> (Inr x, w')"
  by (auto simp: reject_session_def seq_Inr reject_def raising_Inr)

lemma reject_Inr: "reject c t d w = (Inr x, w') \<longleftrightarrow> False"
  by (simp add: reject_def raising_Inr)

lemma spend_oidc_nonce:
  assumes "catching (creates oidc_nonce_table (\<lambda>_. row))
      (\<lambda>e. case e of IntegrityError _ _ \<Rightarrow> reject_session cx t reason email ti | _ \<Rightarrow> raising e) w = (Inr x, w')"
  shows "\<forall>r\<in>set (tb_rows (db_oidc_nonce (w_db w))). oi_nonce r \<noteq> oi_nonce row"
    and "w_db w' = (w_db w)\<lparr>db_oidc_nonce := snd (insert_row (\<lambda>_. row) (db_oidc_nonce (w_db w)))\<rparr>"
proof -
  have "creates oidc_nonce_table (\<lambda>_. row) w = (Inr x, w')"
    using assms by (auto simp: catching_def reject_session_fails raising_def split: prod.splits sum.splits exn.splits)
  then obtain d where d: "table_create oidc_nonce_table (\<lambda>_. row) (w_db w) = (Inr x, d)" "w' = w\<lparr>w_db := d\<rparr>"
    by (auto simp: creates_def on_db_Inr)
  show "\<forall>r\<in>set (tb_rows (db_oidc_nonce (w_db w))). oi_nonce r \<noteq> oi_nonce row"
    using d(1) by (fastforce simp: table_create_def insert_row_def Let_def oidc_nonce_table_def violated_None split: option.splits)
  show "w_db w' = (w_db w)\<lparr>db_oidc_nonce := snd (insert_row (\<lambda>_. row) (db_oidc_nonce (w_db w)))\<rparr>"
    using d by (auto simp: table_create_def insert_row_def Let_def oidc_nonce_table_def split: option.splits)
qed

text \<open>The session that is made.\<close>

definition new_session :: "http_lib \<Rightarrow> request_ctx \<Rightarrow> http_request \<Rightarrow> verifying_key \<Rightarrow> identity \<Rightarrow> session_key_row" where
  "new_session hl cx r key identity = \<lparr>sk_id = hl_thumbprint hl key, sk_public_key = hl_key_dict hl key,
     sk_identity_id = i_id identity, sk_created_at = cx_now cx, sk_is_revoked = False, sk_revoked_at = None,
     sk_expires_at = cx_now cx + cf_session_duration_s (cx_config cx), sk_login_ip = rq_client_host r,
     sk_role_id = None, sk_logged_out_at = None\<rparr>"

lemma oidc_login_done:
  assumes "oidc_login hl cx r data (email, token_exp) w = (Inr resp, w')"
  shows "\<exists>key identity. hl_public_key hl (or_session_public_key data) = Inr key \<and>
    (\<exists>w1. w_db w1 = (w_db w)\<lparr>db_oidc_nonce := snd (insert_row (\<lambda>_. \<lparr>oi_nonce = or_nonce data, oi_expires_at = token_exp\<rparr>)
        (db_oidc_nonce (w_db w)))\<rparr> \<and>
      identity_read_one (any_identity\<lparr>iq_name := Some email\<rparr>) w1 = (Inr (Some identity), w1)) \<and>
    (\<forall>n\<in>set (tb_rows (db_oidc_nonce (w_db w))). oi_nonce n \<noteq> or_nonce data) \<and>
    db_oidc_nonce (w_db w') = snd (insert_row (\<lambda>_. \<lparr>oi_nonce = or_nonce data, oi_expires_at = token_exp\<rparr>) (db_oidc_nonce (w_db w))) \<and>
    (\<forall>s\<in>set (tb_rows (db_identity_session_key (w_db w))). sk_id s \<noteq> hl_thumbprint hl key) \<and>
    tb_rows (db_identity_session_key (w_db w')) =
      tb_rows (db_identity_session_key (w_db w)) @ [new_session hl cx r key identity]"
proof -
  let ?row = "\<lparr>oi_nonce = or_nonce data, oi_expires_at = token_exp\<rparr>"
  obtain key w0 w1 x where k: "hl_public_key hl (or_session_public_key data) = Inr key"
    and d: "enforce_not_denied cx (hl_thumbprint hl key) w = (Inr (), w0)"
    and n: "catching (creates oidc_nonce_table (\<lambda>_. ?row))
      (\<lambda>e. case e of IntegrityError _ _ \<Rightarrow> reject_session cx (hl_thumbprint hl key) ''oidc-nonce-replayed'' email
          ''OIDC nonce has already been used'' | _ \<Rightarrow> raising e) w0 = (Inr x, w1)"
    and rest: "and_then (identity_read_one (any_identity\<lparr>iq_name := Some email\<rparr>)) (\<lambda>identity. case identity of
        None \<Rightarrow> reject_session cx (hl_thumbprint hl key) ''oidc-no-identity'' email ''No identity for this account''
      | Some identity \<Rightarrow>
          seq (oidc_session hl cx r key identity)
          (seq (audit_create cx SESSION_LOGIN []
              [(''identity_id'', DInt (i_id identity)), (''session_key_id'', DStr (hl_thumbprint hl key)),
               (''login_ip'', opt_str (rq_client_host r)), (''method'', DStr ''oidc'')])
          (and_then (reads (roles_of_identity (i_id identity))) (\<lambda>roles.
            ret \<lparr>lo_roles = roles, lo_expires_at = cx_now cx + cf_session_duration_s (cx_config cx)\<rparr>)))) w1 = (Inr resp, w')"
    using assms unfolding oidc_login_def by (auto simp: act_Inr Let_def)
  have "w0 = w" using d
    by (auto simp: enforce_not_denied_def and_then_Inr read_runs seq_Inr reject_Inr ret_Inr split: option.splits)
  note nonce = spend_oidc_nonce [OF n [unfolded this]]
  obtain identity w2 w3 where i: "identity_read_one (any_identity\<lparr>iq_name := Some email\<rparr>) w1 = (Inr (Some identity), w1)"
    and s: "oidc_session hl cx r key identity w1 = (Inr (), w2)"
    and a: "audit_create cx SESSION_LOGIN [] [(''identity_id'', DInt (i_id identity)), (''session_key_id'', DStr (hl_thumbprint hl key)),
        (''login_ip'', opt_str (rq_client_host r)), (''method'', DStr ''oidc'')] w2 = (Inr (), w3)" "w' = w3"
    using rest unfolding and_then_read [OF identity_read_one_keeps]
    by (auto simp: act_Inr reject_session_fails reads_run split: option.splits)
  have s': "w_db w2 = (w_db w1)\<lparr>db_identity_session_key := snd (insert_row (\<lambda>_. new_session hl cx r key identity) (db_identity_session_key (w_db w1)))\<rparr>"
    "\<forall>s\<in>set (tb_rows (db_identity_session_key (w_db w1))). sk_id s \<noteq> hl_thumbprint hl key"
    using s
    by (auto simp: oidc_session_def act_Inr creates_def on_db_Inr table_create_def insert_row_def Let_def
        identity_session_key_table_def violated_None new_session_def split: option.splits)
  have "w_db w' = w_db w2"
    using keeps_db_audit [of "\<lambda>d. d = w_db w2" cx, THEN keepsD] a by blast
  then show ?thesis
    using k i nonce s' by (intro exI [of _ key] exI [of _ identity]) (auto simp: insert_row_def Let_def)
qed

section \<open>The whole request\<close>

text \<open>The transaction only adds the audit entries.\<close>

lemma tenant_context_Inr:
  assumes "tenant_context perform h w = (Inr x, w')"
  shows "\<exists>w1. h (w\<lparr>w_deferred := Deferred\<rparr>) = (Inr x, w1) \<and> same_but_audit (w_db w1) (w_db w')"
proof -
  obtain w1 where h: "h (w\<lparr>w_deferred := Deferred\<rparr>) = (Inr x, w1)"
    using assms by (auto simp: tenant_context_def split: prod.splits sum.splits)
  then obtain d w2 where d: "for_each (df_before_commit (w_deferred w1)) insert_entry (w_db w1) = (Inr (), d)"
      "run_after_commit perform (df_after_commit (w_deferred w1)) (w1\<lparr>w_db := d, w_deferred := Deferred\<rparr>) = (Inr (), w')"
    using assms by (auto simp: tenant_context_def split: prod.splits sum.splits)
  have "w_db w' = d" using run_after_commit_outbox [of perform] d(2) by fastforce
  moreover have "keeps (same_but_audit (w_db w1)) (for_each es insert_entry)" for es
    by (intro keeps_for_each keeps_same_insert_entry)
  ultimately show ?thesis using h d(1) keepsD [of "same_but_audit (w_db w1)" _ "w_db w1"] same_but_audit_refl by metis
qed

lemma same_but_audit_tables:
  assumes "same_but_audit d d'"
  shows "db_oidc_nonce d' = db_oidc_nonce d" "db_identity_session_key d' = db_identity_session_key d"
  using assms unfolding same_but_audit_def by (metis app_db.select_convs app_db.surjective app_db.update_convs)+

text \<open>What a token must say.\<close>

definition token_says :: "int \<Rightarrow> string \<Rightarrow> string \<Rightarrow> string \<Rightarrow> bool \<Rightarrow> json_object \<Rightarrow> string \<Rightarrow> int \<Rightarrow> bool" where
  "token_says now issuer client_id nonce rv claims email expires \<longleftrightarrow>
    get_claim claims ''iss'' = JText issuer \<and>
    (get_claim claims ''aud'' = JText client_id \<or> (\<exists>l. get_claim claims ''aud'' = JList l \<and> JText client_id \<in> set l)) \<and>
    as_number (get_claim claims ''exp'') = Some expires \<and> now < expires \<and>
    (get_claim claims ''nbf'' = JNull \<or> (\<exists>n\<le>now. as_number (get_claim claims ''nbf'') = Some n)) \<and>
    get_claim claims ''email'' = JText email \<and> email \<noteq> [] \<and>
    (get_claim claims ''email_verified'' = JBool True \<or> (get_claim claims ''email_verified'' = JNull \<and> \<not> rv)) \<and>
    get_claim claims ''nonce'' = JText nonce"

lemma nonempty_text_Some: "nonempty_text v = Some s \<longleftrightarrow> v = JText s \<and> s \<noteq> []"
  by (auto simp: nonempty_text_def split: json.splits list.splits)

lemma validate_claims_Some:
  assumes "validate_claims now issuer client_id nonce rv claims = Some (email, expires)" and "0 \<le> now"
  shows "token_says now issuer client_id nonce rv claims email expires"
proof -
  have iss: "get_claim claims ''iss'' = JText issuer" and aud: "audience_ok claims client_id"
    using assms(1) by (auto simp: validate_claims_def split: if_splits)
  obtain e where e: "as_number (case map_of claims ''exp'' of None \<Rightarrow> JInt 0 | Some v \<Rightarrow> v) = Some e" "\<not> e \<le> now"
    using assms(1) iss aud by (auto simp: validate_claims_def split: if_splits option.splits)
  have nbf: "\<not> (case get_claim claims ''nbf'' of JNull \<Rightarrow> False
      | v \<Rightarrow> (case as_number v of None \<Rightarrow> True | Some nbf \<Rightarrow> nbf > now))"
    using assms(1) iss aud e by (auto simp: validate_claims_def split: if_splits)
  then have rest: "(case nonempty_text (get_claim claims ''email'') of None \<Rightarrow> None
      | Some email \<Rightarrow> if \<not> email_is_verified claims rv then None
        else case nonempty_text (get_claim claims ''nonce'') of None \<Rightarrow> None
          | Some token_nonce \<Rightarrow> if token_nonce \<noteq> nonce then None else Some (email, e)) = Some (email, expires)"
    using assms(1) iss aud e unfolding validate_claims_def by simp
  then have email: "get_claim claims ''email'' = JText email" "email \<noteq> []" "email_is_verified claims rv"
      "get_claim claims ''nonce'' = JText nonce" "e = expires"
    by (auto simp: nonempty_text_Some split: option.splits if_splits)
  have "as_number (get_claim claims ''exp'') = Some expires"
    using e email(5) assms(2) by (auto simp: get_claim_def as_number_def split: option.splits)
  moreover have "get_claim claims ''nbf'' = JNull \<or> (\<exists>n\<le>now. as_number (get_claim claims ''nbf'') = Some n)"
    using nbf by (cases "get_claim claims ''nbf''") (auto simp: as_number_def split: if_splits)
  moreover have "get_claim claims ''aud'' = JText client_id \<or> (\<exists>l. get_claim claims ''aud'' = JList l \<and> JText client_id \<in> set l)"
    using aud by (auto simp: audience_ok_def split: json.splits)
  ultimately show ?thesis using iss email e(2) by (auto simp: token_says_def email_is_verified_def Let_def)
qed

lemma verify_oidc_login_Inr:
  assumes "verify_oidc_login hl al ol cx r data w = (Inr (email, expires), w')"
  shows "\<exists>key ac issuer client_id claims. hl_public_key hl (or_session_public_key data) = Inr key \<and>
    (\<exists>fs. signed_by hl (cx_now cx) r (''session:'' @ hl_thumbprint hl key) key fs) \<and>
    auth_config_read_one al (\<lambda>a. aut_name a = or_auth_name data \<and> aut_client_type a = or_client_type data) (w_db w) = Some ac \<and>
    ac_is_enabled ac \<and> ac_type ac \<in> set oidc_types \<and>
    config_text (ac_config ac) ''issuer'' = Some issuer \<and> config_text (ac_config ac) ''client_id'' = Some client_id \<and>
    signed_claims ol issuer (or_id_token data) = Some claims \<and>
    validate_claims (cx_now cx) issuer client_id (or_nonce data) (requires_verified (ac_config ac)) claims = Some (email, expires) \<and>
    w_db w' = w_db w"
proof -
  have allowed: "enforce_key_is_allowed key u = (Inr y, u') \<longleftrightarrow> u' = u \<and> y = () \<and> vk_type key = ED25519" for key u y u'
    by (auto simp: enforce_key_is_allowed_def reject_Inr ret_Inr)
  obtain key w1 ac w2 where k: "hl_public_key hl (or_session_public_key data) = Inr key"
    and v: "verify hl cx r (''session:'' @ hl_thumbprint hl key) key None w = (Inr (), w1)"
    and r: "reads (auth_config_read_one al (\<lambda>a. aut_name a = or_auth_name data \<and> aut_client_type a = or_client_type data)) w1 = (Inr ac, w2)"
    and rest: "(case ac of
        None \<Rightarrow> reject 403 ''Auth config not found or not usable for OIDC login'' None
      | Some ac \<Rightarrow>
          if \<not> ac_is_enabled ac \<or> ac_type ac \<notin> set oidc_types
          then reject 403 ''Auth config not found or not usable for OIDC login'' None
          else case token_login ol (cx_now cx) ac data of
            None \<Rightarrow> reject 403 ''OIDC token verification failed'' (Some ''OIDC token verification failed'')
          | Some verified \<Rightarrow> ret verified) w2 = (Inr (email, expires), w')"
    using assms unfolding verify_oidc_login_def and_then_Inr seq_Inr lifting_Inr allowed
    by (elim exE conjE) (hypsubst, rule that, assumption, simp, assumption+)
  obtain fs where fs: "signed_by hl (cx_now cx) r (''session:'' @ hl_thumbprint hl key) key fs" "w_db w1 = w_db w"
    using v by (auto simp: verify_Inr)
  have r': "ac = auth_config_read_one al (\<lambda>a. aut_name a = or_auth_name data \<and> aut_client_type a = or_client_type data) (w_db w)" "w2 = w1"
    using r fs(2) by (simp_all add: reads_run)
  obtain ac' where ac: "ac = Some ac'" "ac_is_enabled ac'" "ac_type ac' \<in> set oidc_types"
      "token_login ol (cx_now cx) ac' data = Some (email, expires)" "w' = w1"
    using rest r'(2) by (auto simp: reject_Inr ret_Inr split: option.splits if_splits)
  obtain issuer client_id claims where "config_text (ac_config ac') ''issuer'' = Some issuer"
      "config_text (ac_config ac') ''client_id'' = Some client_id" "signed_claims ol issuer (or_id_token data) = Some claims"
      "validate_claims (cx_now cx) issuer client_id (or_nonce data) (requires_verified (ac_config ac')) claims = Some (email, expires)"
    using ac(4) by (auto simp: token_login_def verify_oidc_token_def split: option.splits)
  moreover have "auth_config_read_one al (\<lambda>a. aut_name a = or_auth_name data \<and> aut_client_type a = or_client_type data) (w_db w) = Some ac'"
      "w_db w' = w_db w"
    using ac(1,5) r'(1) fs(2) by simp_all
  ultimately show ?thesis using k fs(1) ac(2,3) by blast
qed

lemma identity_named:
  assumes "identity_read_one (any_identity\<lparr>iq_name := Some n\<rparr>) w = (Inr (Some me), w')"
  shows "\<exists>row\<in>set (tb_rows (db_identity (w_db w))). id_id row = i_id me \<and> id_name row = n"
proof -
  have "\<exists>l. identities_of (any_identity\<lparr>iq_name := Some n\<rparr>) (w_db w) = Inr l \<and> me \<in> set l"
    using assms by (auto simp: identity_read_one_def identity_read_all_def act_Inr reads_def split: if_splits)
  then obtain row T B where "row \<in> set (tb_rows (db_identity (w_db w)))" "id_name row = n" "identity_of_row T B row = Inr me"
    by (auto simp: identities_of_def Let_def any_identity_def read_identities dest!: collect_Inr)
  then show ?thesis by (auto simp: identity_of_row_def split: option.splits)
qed

text \<open>
  C5. Who logs in with a token of an identity provider. When the login succeeds, one session was added: for
  the session key, whose owner signed the request, and for the identity whose name is the email address
  in the token. The token was signed by a key of the issuer of an enabled configuration, names that
  issuer and its client, has not expired, has an address that is verified (or says nothing of it, where
  the configuration tolerates that) and the nonce of the request.
\<close>

theorem oidc_login_vouched:
  assumes "oidc_login_endpoint hl al ol perform cx r data w = (Inr resp, w')" and "0 \<le> cx_now cx"
  shows "\<exists>key ac issuer client_id claims email expires user.
    hl_public_key hl (or_session_public_key data) = Inr key \<and>
    (\<exists>fs. signed_by hl (cx_now cx) r (''session:'' @ hl_thumbprint hl key) key fs) \<and>
    auth_config_read_one al (\<lambda>a. aut_name a = or_auth_name data \<and> aut_client_type a = or_client_type data) (w_db w) = Some ac \<and>
    ac_is_enabled ac \<and> ac_type ac \<in> set oidc_types \<and>
    config_text (ac_config ac) ''issuer'' = Some issuer \<and> config_text (ac_config ac) ''client_id'' = Some client_id \<and>
    signed_claims ol issuer (or_id_token data) = Some claims \<and>
    token_says (cx_now cx) issuer client_id (or_nonce data) (requires_verified (ac_config ac)) claims email expires \<and>
    (\<exists>row\<in>set (tb_rows (db_identity (w_db w))). id_id row = i_id user \<and> id_name row = email) \<and>
    tb_rows (db_identity_session_key (w_db w')) =
      tb_rows (db_identity_session_key (w_db w)) @ [new_session hl cx r key user]"
proof -
  obtain email expires w1 where v: "verify_oidc_login hl al ol cx r data w = (Inr (email, expires), w1)"
    and t: "tenant_context perform (oidc_login hl cx r data (email, expires)) w1 = (Inr resp, w')"
    using assms(1) unfolding oidc_login_endpoint_def and_then_Inr by auto
  obtain key ac issuer client_id claims where checked: "hl_public_key hl (or_session_public_key data) = Inr key"
      "\<exists>fs. signed_by hl (cx_now cx) r (''session:'' @ hl_thumbprint hl key) key fs"
      "auth_config_read_one al (\<lambda>a. aut_name a = or_auth_name data \<and> aut_client_type a = or_client_type data) (w_db w) = Some ac"
      "ac_is_enabled ac" "ac_type ac \<in> set oidc_types"
      "config_text (ac_config ac) ''issuer'' = Some issuer" "config_text (ac_config ac) ''client_id'' = Some client_id"
      "signed_claims ol issuer (or_id_token data) = Some claims"
    and valid: "validate_claims (cx_now cx) issuer client_id (or_nonce data) (requires_verified (ac_config ac)) claims = Some (email, expires)"
    and same: "w_db w1 = w_db w"
    using verify_oidc_login_Inr [OF v] by blast
  obtain w2 where o: "oidc_login hl cx r data (email, expires) (w1\<lparr>w_deferred := Deferred\<rparr>) = (Inr resp, w2)"
      "same_but_audit (w_db w2) (w_db w')"
    using tenant_context_Inr [OF t] by blast
  obtain key2 user w3 where made: "hl_public_key hl (or_session_public_key data) = Inr key2"
      "w_db w3 = (w_db (w1\<lparr>w_deferred := Deferred\<rparr>))\<lparr>db_oidc_nonce := snd (insert_row
        (\<lambda>_. \<lparr>oi_nonce = or_nonce data, oi_expires_at = expires\<rparr>) (db_oidc_nonce (w_db (w1\<lparr>w_deferred := Deferred\<rparr>))))\<rparr>"
      "identity_read_one (any_identity\<lparr>iq_name := Some email\<rparr>) w3 = (Inr (Some user), w3)"
      "tb_rows (db_identity_session_key (w_db w2)) =
        tb_rows (db_identity_session_key (w_db (w1\<lparr>w_deferred := Deferred\<rparr>))) @ [new_session hl cx r key2 user]"
    using oidc_login_done [OF o(1)] by blast
  have "key2 = key" using made(1) checked(1) by simp
  then have w3: "db_identity (w_db w3) = db_identity (w_db w)"
      "identity_read_one (any_identity\<lparr>iq_name := Some email\<rparr>) w3 = (Inr (Some user), w3)"
      "tb_rows (db_identity_session_key (w_db w2)) = tb_rows (db_identity_session_key (w_db w)) @ [new_session hl cx r key user]"
    using made(2-4) same by simp_all
  have "tb_rows (db_identity_session_key (w_db w')) = tb_rows (db_identity_session_key (w_db w)) @ [new_session hl cx r key user]"
    using w3(3) same_but_audit_tables(2) [OF o(2)] by simp
  moreover have "\<exists>row\<in>set (tb_rows (db_identity (w_db w))). id_id row = i_id user \<and> id_name row = email"
    using identity_named [OF w3(2)] w3(1) by simp
  ultimately show ?thesis using checked validate_claims_Some [OF valid assms(2)] by blast
qed

section \<open>A token makes one session\<close>

text \<open>What a token says does not depend on who reads it.\<close>

lemma signed_claims_same:
  assumes "signed_claims ol issuer t = Some claims" and "signed_claims ol2 issuer2 t = Some claims2"
    and "ol_b64 ol2 = ol_b64 ol" and "ol_json ol2 = ol_json ol"
  shows "claims2 = claims"
  using assms by (auto simp: signed_claims_def Let_def split: list.splits option.splits if_splits)

lemma validate_claims_nonce:
  "validate_claims now issuer client_id nonce rv claims = Some x \<Longrightarrow> get_claim claims ''nonce'' = JText nonce"
  by (auto simp: validate_claims_def nonempty_text_Some split: if_splits option.splits)

text \<open>
  C6. A token of an identity provider makes at most one session. Once a login with it has succeeded, no
  login with it ever succeeds again, whatever session key, nonce, configuration or caller comes with it
  and however the keys that are fetched changed meanwhile, as long as the used nonces stay in their
  table, from which nothing in the program deletes.
\<close>

theorem id_token_logs_in_once:
  assumes "oidc_login_endpoint hl al ol perform cx r data w = (Inr resp, w')"
    and "set (tb_rows (db_oidc_nonce (w_db w'))) \<subseteq> set (tb_rows (db_oidc_nonce (w_db v)))"
    and "or_id_token data2 = or_id_token data" and "ol_b64 ol2 = ol_b64 ol" and "ol_json ol2 = ol_json ol"
  shows "\<exists>e. fst (oidc_login_endpoint hl2 al2 ol2 perform2 cx2 r2 data2 v) = Inl e"
proof (rule ccontr)
  assume "\<not> ?thesis"
  then obtain resp2 v' where second: "oidc_login_endpoint hl2 al2 ol2 perform2 cx2 r2 data2 v = (Inr resp2, v')"
    by (cases "oidc_login_endpoint hl2 al2 ol2 perform2 cx2 r2 data2 v"; cases "fst (oidc_login_endpoint hl2 al2 ol2 perform2 cx2 r2 data2 v)") auto
  obtain email expires w1 where v1: "verify_oidc_login hl al ol cx r data w = (Inr (email, expires), w1)"
    and t1: "tenant_context perform (oidc_login hl cx r data (email, expires)) w1 = (Inr resp, w')"
    using assms(1) unfolding oidc_login_endpoint_def and_then_Inr by auto
  obtain email2 expires2 w2 where v2: "verify_oidc_login hl2 al2 ol2 cx2 r2 data2 v = (Inr (email2, expires2), w2)"
    and t2: "tenant_context perform2 (oidc_login hl2 cx2 r2 data2 (email2, expires2)) w2 = (Inr resp2, v')"
    using second unfolding oidc_login_endpoint_def and_then_Inr by auto
  obtain issuer client_id claims rv where c1: "signed_claims ol issuer (or_id_token data) = Some claims"
      "validate_claims (cx_now cx) issuer client_id (or_nonce data) rv claims = Some (email, expires)"
    using verify_oidc_login_Inr [OF v1] by blast
  obtain issuer2 client_id2 claims2 rv2 where c2: "signed_claims ol2 issuer2 (or_id_token data2) = Some claims2"
      "validate_claims (cx_now cx2) issuer2 client_id2 (or_nonce data2) rv2 claims2 = Some (email2, expires2)"
    and same2: "w_db w2 = w_db v"
    using verify_oidc_login_Inr [OF v2] by blast
  have "claims2 = claims" using signed_claims_same [OF c1(1) _ assms(4,5)] c2(1) assms(3) by simp
  then have nonce: "or_nonce data2 = or_nonce data"
    using validate_claims_nonce [OF c1(2)] validate_claims_nonce [OF c2(2)] by simp
  obtain u1 where u1: "oidc_login hl cx r data (email, expires) (w1\<lparr>w_deferred := Deferred\<rparr>) = (Inr resp, u1)"
      "same_but_audit (w_db u1) (w_db w')"
    using tenant_context_Inr [OF t1] by blast
  have "\<exists>n\<in>set (tb_rows (db_oidc_nonce (w_db u1))). oi_nonce n = or_nonce data"
    using oidc_login_done [OF u1(1)] by (auto simp: insert_row_def Let_def)
  then have "\<exists>n\<in>set (tb_rows (db_oidc_nonce (w_db v))). oi_nonce n = or_nonce data"
    using same_but_audit_tables(1) [OF u1(2)] assms(2) by auto
  moreover obtain u2 where u2: "oidc_login hl2 cx2 r2 data2 (email2, expires2) (w2\<lparr>w_deferred := Deferred\<rparr>) = (Inr resp2, u2)"
    using tenant_context_Inr [OF t2] by blast
  then have "\<forall>n\<in>set (tb_rows (db_oidc_nonce (w_db v))). oi_nonce n \<noteq> or_nonce data2"
    using oidc_login_done [OF u2] same2 by auto
  ultimately show False using nonce by auto
qed

section \<open>A sample\<close>

text \<open>Nothing is sent.\<close>

definition no_outside :: outside where
  "no_outside = \<lparr>out_mail = (\<lambda>_ _ _. None), out_token = (\<lambda>_ _ _. Carried_Out)\<rparr>"

text \<open>A provider with one key and one token; a signature is the text it signs.\<close>

definition sample_claims :: "int \<Rightarrow> json_object" where
  "sample_claims n = [(''iss'', JText ''idp''), (''aud'', JText ''pf''), (''exp'', JInt n), (''email'', JText ''ann''),
    (''email_verified'', JBool True), (''nonce'', JText ''o1'')]"

definition sample_provider :: oidc_lib where
  "sample_provider = \<lparr>ol_b64 = Some,
    ol_json = (\<lambda>t. if t = ''h'' then Some (JObject [(''kid'', JText ''1''), (''alg'', JText ''RS256'')])
      else if t = ''c'' then Some (JObject (sample_claims 2000)) else None),
    ol_fetch = (\<lambda>u. if u = ''idp/.well-known/openid-configuration'' then Some (JObject [(''jwks_uri'', JText ''idp/keys'')])
      else if u = ''idp/keys'' then Some (JObject [(''keys'', JList [JObject [(''kid'', JText ''1''), (''n'', JText ''n''), (''e'', JText ''e'')]])])
      else None),
    ol_rs256 = (\<lambda>_ _ t s. t = ''h.c'' \<and> s = ''s''), ol_es256 = (\<lambda>_ _ _ _ _. False)\<rparr>"

definition sample_auth :: auth_lib where
  "sample_auth = \<lparr>ab_seal = (\<lambda>_. ''''), ab_open = (\<lambda>_. [(''issuer'', DStr ''idp''), (''client_id'', DStr ''pf'')]),
    ab_isdigit = (\<lambda>_. False)\<rparr>"

definition sample_login :: oidc_login_request where
  "sample_login = \<lparr>or_auth_name = ''sso'', or_client_type = ''cli'', or_id_token = ''h.c.s'', or_nonce = ''o1'',
    or_session_public_key = ''jwk''\<rparr>"

definition sso_world :: world where
  "sso_world = site_world\<lparr>w_db := site_db\<lparr>
    db_auth := \<lparr>tb_rows = [\<lparr>aut_id = 1, aut_name = ''sso'', aut_client_type = ''cli'', aut_description = '''',
      aut_created_at = 0, aut_is_enabled = True, aut_type = ''oidc'', aut_config = ''''\<rparr>], tb_seq = 1\<rparr>,
    db_audit_log_counter := \<lparr>tb_rows = [\<lparr>ct_id = 1, ct_value = 0\<rparr>], tb_seq = 1\<rparr>\<rparr>\<rparr>"

lemma sample_login_works:
  obtains resp w' where "oidc_login_endpoint sample_lib sample_auth sample_provider (perform_effect no_outside) sample_cx sample_request sample_login sso_world = (Inr resp, w')"
    and "lo_expires_at resp = cx_now sample_cx + cf_session_duration_s (cx_config sample_cx)"
proof -
  have "case fst (oidc_login_endpoint sample_lib sample_auth sample_provider (perform_effect no_outside) sample_cx sample_request sample_login sso_world) of
      Inl _ \<Rightarrow> False | Inr resp \<Rightarrow> lo_expires_at resp = cx_now sample_cx + cf_session_duration_s (cx_config sample_cx)"
    by code_simp
  then show ?thesis using that
    by (cases "oidc_login_endpoint sample_lib sample_auth sample_provider (perform_effect no_outside) sample_cx sample_request sample_login sso_world";
        cases "fst (oidc_login_endpoint sample_lib sample_auth sample_provider (perform_effect no_outside) sample_cx sample_request sample_login sso_world)") auto
qed

theorem oidc_login_vouched_witness:
  "\<exists>resp w' s. oidc_login_endpoint sample_lib sample_auth sample_provider (perform_effect no_outside) sample_cx sample_request sample_login sso_world = (Inr resp, w') \<and>
    tb_rows (db_identity_session_key (w_db w')) = [s] \<and> sk_id s = ''k1'' \<and> sk_identity_id s = 1"
proof -
  obtain resp w' where s: "oidc_login_endpoint sample_lib sample_auth sample_provider (perform_effect no_outside) sample_cx sample_request sample_login sso_world = (Inr resp, w')"
    using sample_login_works by blast
  have "0 \<le> cx_now sample_cx" by (simp add: sample_cx_def)
  from oidc_login_vouched [OF s this] obtain key user email expires ac issuer client_id claims where
      o: "hl_public_key sample_lib (or_session_public_key sample_login) = Inr key"
      "\<exists>row\<in>set (tb_rows (db_identity (w_db sso_world))). id_id row = i_id user \<and> id_name row = email"
      "tb_rows (db_identity_session_key (w_db w')) = tb_rows (db_identity_session_key (w_db sso_world)) @
        [new_session sample_lib sample_cx sample_request key user]"
    by blast
  have "i_id user = 1" using o(2) by (auto simp: sso_world_def site_db_def)
  moreover have "hl_thumbprint sample_lib key = ''k1''" using o(1) by (auto simp: sample_lib_def sample_key_def)
  moreover have "tb_rows (db_identity_session_key (w_db sso_world)) = []" by code_simp
  ultimately show ?thesis using s o(3) by (auto simp: new_session_def)
qed

theorem id_token_logs_in_once_witness:
  "\<exists>resp w' e. oidc_login_endpoint sample_lib sample_auth sample_provider (perform_effect no_outside) sample_cx sample_request sample_login sso_world = (Inr resp, w') \<and>
    fst (oidc_login_endpoint (sample_lib\<lparr>hl_thumbprint := (\<lambda>_. ''k2'')\<rparr>) sample_auth sample_provider (perform_effect no_outside) sample_cx sample_request sample_login w') = Inl e"
proof -
  obtain resp w' where s: "oidc_login_endpoint sample_lib sample_auth sample_provider (perform_effect no_outside) sample_cx sample_request sample_login sso_world = (Inr resp, w')"
    using sample_login_works by blast
  show ?thesis
    using s id_token_logs_in_once [OF s subset_refl refl refl refl] by blast
qed

end
