(* ===== verification/Frp_Frames.thy ===== *)
theory Frp_Frames
  imports Ssh_Wire Host_Files
begin

text \<open>
  The bytes of a tunnel. \<open>bastion_visitor.py\<close>: messages of the frp protocol and their buffered reader.
  \<open>cli/pf/bastion_cli.py\<close>: the cipher of the control connection and the WebSocket frames below it. What a
  connection will deliver is a list, of bytes for the WebSocket and of pieces for the reader above it; its end
  is the end of the list. Parameters: JSON text of an object, and the AES stream in feedback mode.
\<close>

datatype stream_error = Closed | Incomplete | Bad_Json

type_synonym object = "(string \<times> json) list"

record json_codec =
  jc_dumps :: "object \<Rightarrow> byte list"
  jc_loads :: "byte list \<Rightarrow> object option"

section \<open>The cipher of the control connection\<close>

record 'c aes_cfb =
  cfb_start :: "byte list \<Rightarrow> byte list \<Rightarrow> 'c"
  cfb_encrypt :: "'c \<Rightarrow> byte list \<Rightarrow> byte list \<times> 'c"
  cfb_decrypt :: "'c \<Rightarrow> byte list \<Rightarrow> byte list \<times> 'c"

record 'c aes_encryptor =
  ae_enc :: 'c
  ae_iv :: "byte list option"

definition new_encryptor :: "'c aes_cfb \<Rightarrow> byte list \<Rightarrow> byte list \<Rightarrow> 'c aes_encryptor" where
  "new_encryptor lib key iv = \<lparr>ae_enc = cfb_start lib key iv, ae_iv = Some iv\<rparr>"

definition encrypt :: "'c aes_cfb \<Rightarrow> 'c aes_encryptor \<Rightarrow> byte list \<Rightarrow> byte list \<times> 'c aes_encryptor" where
  "encrypt lib e data = (case cfb_encrypt lib (ae_enc e) data of (out, c) \<Rightarrow>
     (case ae_iv e of
        Some prefix \<Rightarrow> (prefix @ out, \<lparr>ae_enc = c, ae_iv = None\<rparr>)
      | None \<Rightarrow> (out, e\<lparr>ae_enc := c\<rparr>)))"

record 'c aes_decryptor =
  ad_key :: "byte list"
  ad_iv_buf :: "byte list"
  ad_dec :: "'c option"

definition new_decryptor :: "byte list \<Rightarrow> 'c aes_decryptor" where
  "new_decryptor key = \<lparr>ad_key = key, ad_iv_buf = [], ad_dec = None\<rparr>"

definition decrypt :: "'c aes_cfb \<Rightarrow> 'c aes_decryptor \<Rightarrow> byte list \<Rightarrow> byte list \<times> 'c aes_decryptor" where
  "decrypt lib d data = (case ad_dec d of
     Some c \<Rightarrow> (case cfb_decrypt lib c data of (out, c) \<Rightarrow> (out, d\<lparr>ad_dec := Some c\<rparr>))
   | None \<Rightarrow>
       let needed = 16 - length (ad_iv_buf d)
       in if length data < needed then ([], d\<lparr>ad_iv_buf := ad_iv_buf d @ data\<rparr>)
          else
            let iv = ad_iv_buf d @ take needed data;
                c = cfb_start lib (ad_key d) iv;
                remaining = drop needed data
            in if remaining = [] then ([], d\<lparr>ad_iv_buf := iv, ad_dec := Some c\<rparr>)
               else (case cfb_decrypt lib c remaining of (out, c) \<Rightarrow> (out, d\<lparr>ad_iv_buf := iv, ad_dec := Some c\<rparr>)))"

section \<open>The buffered reader\<close>

record 'c frp_reader =
  fr_chunks :: "byte list list"
  fr_cipher :: "'c aes_decryptor option"
  fr_buf :: "byte list"

definition FrpReader :: "byte list list \<Rightarrow> 'c aes_decryptor option \<Rightarrow> 'c frp_reader" where
  "FrpReader chunks cipher = \<lparr>fr_chunks = chunks, fr_cipher = cipher, fr_buf = []\<rparr>"

definition decipher :: "'c aes_cfb \<Rightarrow> 'c aes_decryptor option \<Rightarrow> byte list \<Rightarrow> byte list \<times> 'c aes_decryptor option" where
  "decipher lib cipher data = (case cipher of None \<Rightarrow> (data, None)
     | Some d \<Rightarrow> (case decrypt lib d data of (out, d) \<Rightarrow> (out, Some d)))"

function read_exactly :: "'c aes_cfb \<Rightarrow> nat \<Rightarrow> ('c frp_reader, stream_error, byte list) act" where
  "read_exactly lib n r =
    (if n \<le> length (fr_buf r) then (Inr (take n (fr_buf r)), r\<lparr>fr_buf := drop n (fr_buf r)\<rparr>)
     else case fr_chunks r of
       [] \<Rightarrow> (Inl Closed, r)
     | data # chunks \<Rightarrow>
         if data = [] then (Inl Closed, r\<lparr>fr_chunks := chunks\<rparr>)
         else case decipher lib (fr_cipher r) data of (plain, cipher) \<Rightarrow>
           read_exactly lib n \<lparr>fr_chunks = chunks, fr_cipher = cipher, fr_buf = fr_buf r @ plain\<rparr>)"
  by pat_completeness auto

termination
  by (relation "measure (\<lambda>(lib, n, r). length (fr_chunks r))") auto

declare read_exactly.simps [simp del]

definition read_some :: "'c aes_cfb \<Rightarrow> nat \<Rightarrow> 'c frp_reader \<Rightarrow> byte list \<times> 'c frp_reader" where
  "read_some lib n r =
    (if fr_buf r \<noteq> [] then (take n (fr_buf r), r\<lparr>fr_buf := drop n (fr_buf r)\<rparr>)
     else case fr_chunks r of
       [] \<Rightarrow> ([], r)
     | data # chunks \<Rightarrow> (case decipher lib (fr_cipher r) data of (plain, cipher) \<Rightarrow>
         (plain, r\<lparr>fr_chunks := chunks, fr_cipher := cipher\<rparr>)))"

text \<open>The loop of \<open>frps_to_local\<close> and of \<open>forward_stdout\<close>: what it writes, piece by piece.\<close>

function pump_all :: "'c aes_cfb \<Rightarrow> nat \<Rightarrow> 'c frp_reader \<Rightarrow> byte list list" where
  "pump_all lib n r = (case read_some lib (Suc n) r of (data, r') \<Rightarrow>
     if data = [] then [] else data # pump_all lib n r')"
  by pat_completeness auto

termination
  by (relation "measures [\<lambda>(lib, n, r). length (fr_chunks r), \<lambda>(lib, n, r). length (fr_buf r)]")
    (auto simp: read_some_def split: if_splits list.splits prod.splits)

declare pump_all.simps [simp del]

section \<open>Messages\<close>

definition encode_frame :: "json_codec \<Rightarrow> char \<Rightarrow> object \<Rightarrow> byte list" where
  "encode_frame jc type_tag payload =
    (let data = jc_dumps jc payload in of_char type_tag # be_bytes 8 (length data) @ data)"

definition read_frame :: "json_codec \<Rightarrow> 'c aes_cfb \<Rightarrow> ('c frp_reader, stream_error, char \<times> object) act" where
  "read_frame jc lib =
    and_then (read_exactly lib 9) (\<lambda>header.
    and_then (read_exactly lib (be_value (tl header))) (\<lambda>data.
      case jc_loads jc data of None \<Rightarrow> raising Bad_Json | Some payload \<Rightarrow> ret (char_of (unat (hd header)), payload)))"

text \<open>What is handed to the transport, and the cipher afterwards.\<close>

definition write_frame ::
    "json_codec \<Rightarrow> 'c aes_cfb \<Rightarrow> 'c aes_encryptor option \<Rightarrow> char \<Rightarrow> object \<Rightarrow> byte list \<times> 'c aes_encryptor option" where
  "write_frame jc lib cipher type_tag payload = (let data = encode_frame jc type_tag payload in
     case cipher of None \<Rightarrow> (data, None) | Some e \<Rightarrow> (case encrypt lib e data of (out, e) \<Rightarrow> (out, Some e)))"

section \<open>WebSocket frames\<close>

definition xor_mask :: "byte list \<Rightarrow> byte list \<Rightarrow> byte list" where
  "xor_mask data key = map (\<lambda>i. data ! i XOR key ! (i mod length key)) [0..<length data]"

text \<open>\<open>key\<close>, the mask, is what \<open>os.urandom\<close> returned.\<close>

definition ws_encode_frame :: "byte list \<Rightarrow> byte list \<Rightarrow> byte \<Rightarrow> byte list" where
  "ws_encode_frame key payload opcode = (let n = length payload in
    (0x80 OR opcode) #
    (if n < 126 then [0x80 OR of_nat n]
     else if n < 65536 then (0x80 OR 126) # be_bytes 2 n
     else (0x80 OR 127) # be_bytes 8 n) @ key @ xor_mask payload key)"

record ws_connection =
  wc_in :: "byte list"
  wc_out :: "byte list"
  wc_drawn :: nat

definition ws_take :: "nat \<Rightarrow> (ws_connection, stream_error, byte list) act" where
  "ws_take n = (\<lambda>s. if n \<le> length (wc_in s) then (Inr (take n (wc_in s)), s\<lparr>wc_in := drop n (wc_in s)\<rparr>)
     else (Inl Incomplete, s))"

definition ws_length :: "nat \<Rightarrow> (ws_connection, stream_error, nat) act" where
  "ws_length len =
    (if len = 126 then and_then (ws_take 2) (\<lambda>b. ret (be_value b))
     else if len = 127 then and_then (ws_take 8) (\<lambda>b. ret (be_value b)) else ret len)"

definition ws_read_one :: "(ws_connection, stream_error, byte \<times> byte list) act" where
  "ws_read_one =
    and_then (ws_take 2) (\<lambda>hdr.
    let opcode = hdr ! 0 AND 0x0F; masked = (hdr ! 1 AND 0x80 \<noteq> 0) in
    and_then (ws_length (unat (hdr ! 1 AND 0x7F))) (\<lambda>len.
      if masked
      then and_then (ws_take 4) (\<lambda>mask_bytes. and_then (ws_take len) (\<lambda>data. ret (opcode, xor_mask data mask_bytes)))
      else and_then (ws_take len) (\<lambda>payload. ret (opcode, payload))))"

lemma ws_take_Inr: "ws_take n s = (Inr b, s') \<longleftrightarrow> n \<le> length (wc_in s) \<and> b = take n (wc_in s) \<and> s' = s\<lparr>wc_in := drop n (wc_in s)\<rparr>"
  by (auto simp: ws_take_def)

lemma ws_length_shrinks: "ws_length len s = (Inr n, s') \<Longrightarrow> length (wc_in s') \<le> length (wc_in s)"
  by (auto simp: ws_length_def and_then_Inr ws_take_Inr ret_Inr split: if_splits)

lemma ws_read_one_shrinks:
  assumes "ws_read_one s = (Inr x, s')"
  shows "length (wc_in s') < length (wc_in s)"
  using assms
  by (auto simp: ws_read_one_def and_then_Inr ws_take_Inr ret_Inr Let_def dest!: ws_length_shrinks split: if_splits)

text \<open>\<open>urandom\<close> gives the mask of the n-th frame that is written.\<close>

function ws_read_frame :: "(nat \<Rightarrow> byte list) \<Rightarrow> (ws_connection, stream_error, byte list) act" where
  "ws_read_frame urandom s = (case ws_read_one s of
     (Inl e, s') \<Rightarrow> (Inl e, s')
   | (Inr (opcode, payload), s') \<Rightarrow>
       if opcode = 0x8 then (Inl Closed, s')
       else if opcode = 0x9 then ws_read_frame urandom
         (s'\<lparr>wc_out := wc_out s' @ ws_encode_frame (urandom (wc_drawn s')) payload 0xA, wc_drawn := Suc (wc_drawn s')\<rparr>)
       else if opcode = 0xA then ws_read_frame urandom s'
       else (Inr payload, s'))"
  by pat_completeness auto

termination
  by (relation "measure (\<lambda>(u, s). length (wc_in s))") (auto dest: ws_read_one_shrinks [OF sym])

declare ws_read_frame.simps [simp del]

lemma ws_read_frame_shrinks: "ws_read_frame urandom s = (Inr x, s') \<Longrightarrow> length (wc_in s') < length (wc_in s)"
proof (induction urandom s rule: ws_read_frame.induct)
  case (1 urandom s)
  obtain res s1 where one: "ws_read_one s = (res, s1)" by fastforce
  then obtain opcode payload where r: "res = Inr (opcode, payload)"
    using 1(3) by (cases res) (auto simp: ws_read_frame.simps [of urandom s])
  have less: "length (wc_in s1) < length (wc_in s)" using ws_read_one_shrinks one r by blast
  show ?case
    using 1(3) "1.IH"(1) [OF one [symmetric] r refl] "1.IH"(2) [OF one [symmetric] r refl] less one r
    by (auto simp: ws_read_frame.simps [of urandom s] split: if_splits)
qed

text \<open>Everything that a connection delivers to the reader above it.\<close>

function ws_chunks :: "(nat \<Rightarrow> byte list) \<Rightarrow> ws_connection \<Rightarrow> byte list list \<times> ws_connection" where
  "ws_chunks urandom s = (case ws_read_frame urandom s of
     (Inl e, s') \<Rightarrow> ([], s')
   | (Inr payload, s') \<Rightarrow> (case ws_chunks urandom s' of (cs, s'') \<Rightarrow> (payload # cs, s'')))"
  by pat_completeness auto

termination
  by (relation "measure (\<lambda>(u, s). length (wc_in s))") (auto dest: ws_read_frame_shrinks [OF sym])

declare ws_chunks.simps [simp del]

end
