(* ===== verification/Frame_Safety.thy ===== *)
theory Frame_Safety
  imports Frp_Frames
begin

text \<open>
  The bytes of a tunnel arrive as they were sent: WebSocket frames with or without a mask and with pings
  between them, the cipher of the control connection, and frp messages over pieces that are cut anywhere.
\<close>

section \<open>One WebSocket frame\<close>

text \<open>A frame as a peer sends it; a client masks its frames, a server does not.\<close>

record ws_frame =
  wf_opcode :: byte
  wf_mask :: "byte list option"
  wf_payload :: "byte list"

definition ws_bytes :: "ws_frame \<Rightarrow> byte list" where
  "ws_bytes f = (let n = length (wf_payload f); m = (if wf_mask f = None then 0 else 0x80) in
    (0x80 OR wf_opcode f) #
    (if n < 126 then [m OR of_nat n]
     else if n < 65536 then (m OR 126) # be_bytes 2 n
     else (m OR 127) # be_bytes 8 n) @
    (case wf_mask f of None \<Rightarrow> wf_payload f | Some k \<Rightarrow> k @ xor_mask (wf_payload f) k))"

definition ws_ok :: "ws_frame \<Rightarrow> bool" where
  "ws_ok f \<longleftrightarrow> wf_opcode f AND 0x0F = wf_opcode f \<and> wf_opcode f \<noteq> 0x8 \<and> length (wf_payload f) < 2 ^ 64 \<and>
    (\<forall>k. wf_mask f = Some k \<longrightarrow> length k = 4)"

lemma ws_encode_is_frame:
  "ws_encode_frame k payload opcode = ws_bytes \<lparr>wf_opcode = opcode, wf_mask = Some k, wf_payload = payload\<rparr>"
  by (simp add: ws_encode_frame_def ws_bytes_def Let_def)

lemma xor_mask_twice: "xor_mask (xor_mask data k) k = data"
  by (rule nth_equalityI) (simp_all add: xor_mask_def xor.assoc)

lemma length_xor_mask [simp]: "length (xor_mask data k) = length data"
  by (simp add: xor_mask_def)

lemma opcode_bits: "x AND 0x0F = x \<Longrightarrow> (0x80 OR x) AND 0x0F = (x :: byte)"
  by (simp add: bit.conj_disj_distrib2)

lemma low_bits:
  assumes "k < 128"
  shows "of_nat k AND 0x7F = (of_nat k :: byte)" and "of_nat k AND 0x80 = (0 :: byte)"
proof -
  have "of_nat k AND mask 7 = (of_nat k :: byte)"
    using assms by (simp only: take_bit_eq_mask [symmetric] take_bit_of_nat) (simp add: take_bit_nat_eq_self)
  then show low: "of_nat k AND 0x7F = (of_nat k :: byte)" by (simp add: mask_eq_exp_minus_1)
  have "of_nat k AND 0x80 = (of_nat k AND 0x7F) AND (0x80 :: byte)" by (simp only: low)
  then show "of_nat k AND 0x80 = (0 :: byte)" by (simp add: and.assoc)
qed

lemma length_byte:
  assumes "k < 128" and "m \<in> {0, 0x80 :: byte}"
  shows "unat ((m OR of_nat k) AND 0x7F) = k" and "(m OR of_nat k) AND 0x80 = m"
proof -
  have "(m OR of_nat k) AND 0x7F = of_nat k"
    using assms low_bits(1) [OF assms(1)] by (auto simp: bit.conj_disj_distrib2)
  then show "unat ((m OR of_nat k) AND 0x7F) = k" using assms(1) by (simp add: unat_byte)
  show "(m OR of_nat k) AND 0x80 = m"
    using assms low_bits(2) [OF assms(1)] by (auto simp: bit.conj_disj_distrib2)
qed

lemma ws_length_reads:
  assumes "n < 2 ^ 64" and "m \<in> {0, 0x80 :: byte}"
    and "ls = (if n < 126 then [m OR of_nat n] else if n < 65536 then (m OR 126) # be_bytes 2 n else (m OR 127) # be_bytes 8 n)"
  shows "ls \<noteq> []" and "hd ls AND 0x80 = m"
    and "ws_length (unat (hd ls AND 0x7F)) (s\<lparr>wc_in := tl ls @ rest\<rparr>) = (Inr n, s\<lparr>wc_in := rest\<rparr>)"
proof -
  have two: "be_value (be_bytes 2 n) = n" if "n < 65536" using that by (intro be_value_bytes) simp
  have eight: "be_value (be_bytes 8 n) = n" using assms(1) by (intro be_value_bytes) simp
  have big: "unat ((m OR 126) AND 0x7F) = 126" "unat ((m OR 127) AND 0x7F) = 127" "(m OR 126) AND 0x80 = m" "(m OR 127) AND 0x80 = m"
    using length_byte [of 126 m] length_byte [of 127 m] assms(2) by simp_all
  have small: "unat ((m OR of_nat n) AND 0x7F) = n" "(m OR of_nat n) AND 0x80 = m" if "n < 126"
    using length_byte [of n m] that assms(2) by simp_all
  show "ls \<noteq> []" using assms(3) by auto
  show "hd ls AND 0x80 = m" using assms(3) big small by auto
  show "ws_length (unat (hd ls AND 0x7F)) (s\<lparr>wc_in := tl ls @ rest\<rparr>) = (Inr n, s\<lparr>wc_in := rest\<rparr>)"
    using assms(3) big small two eight by (auto simp: ws_length_def and_then_def ws_take_def ret_def)
qed

lemma ws_read_one_frame:
  assumes "ws_ok f" and "wc_in s = ws_bytes f @ rest"
  shows "ws_read_one s = (Inr (wf_opcode f, wf_payload f), s\<lparr>wc_in := rest\<rparr>)"
proof -
  let ?n = "length (wf_payload f)" and ?m = "if wf_mask f = None then 0 else 0x80 :: byte"
  define ls where "ls = (if ?n < 126 then [?m OR of_nat ?n] else if ?n < 65536 then (?m OR 126) # be_bytes 2 ?n
    else (?m OR 127) # be_bytes 8 ?n)"
  define body where "body = (case wf_mask f of None \<Rightarrow> wf_payload f | Some k \<Rightarrow> k @ xor_mask (wf_payload f) k)"
  have n: "?n < 2 ^ 64" using assms(1) by (simp add: ws_ok_def)
  have m: "?m \<in> {0, 0x80}" by simp
  note len = ws_length_reads [OF n m ls_def]
  obtain l ls' where ls: "ls = l # ls'" using len(1) by (cases ls) auto
  have bytes: "wc_in s = (0x80 OR wf_opcode f) # l # ls' @ body @ rest"
    using assms(2) ls by (simp add: ws_bytes_def Let_def body_def ls_def [symmetric])
  have op: "(0x80 OR wf_opcode f) AND 0x0F = wf_opcode f" using assms(1) opcode_bits by (simp add: ws_ok_def)
  have "l AND 0x80 = ?m" using len(2) ls by simp
  moreover have "ws_length (unat (l AND 0x7F)) (s\<lparr>wc_in := ls' @ body @ rest\<rparr>) = (Inr ?n, s\<lparr>wc_in := body @ rest\<rparr>)"
    using len(3) [where s = s and rest = "body @ rest"] ls by simp
  ultimately show ?thesis
    using assms(1) bytes op
    by (cases "wf_mask f") (simp_all add: ws_read_one_def and_then_def ws_take_def ret_def body_def ws_ok_def xor_mask_twice Let_def)
qed

section \<open>A connection\<close>

text \<open>What the reader above is given, and the answers to pings.\<close>

definition is_data :: "ws_frame \<Rightarrow> bool" where
  "is_data f \<longleftrightarrow> wf_opcode f \<noteq> 0x9 \<and> wf_opcode f \<noteq> 0xA"

definition data_of :: "ws_frame list \<Rightarrow> byte list list" where
  "data_of fs = map wf_payload (filter is_data fs)"

fun pongs :: "(nat \<Rightarrow> byte list) \<Rightarrow> nat \<Rightarrow> ws_frame list \<Rightarrow> byte list" where
  "pongs urandom k [] = []"
| "pongs urandom k (f # fs) = (if wf_opcode f = 0x9
    then ws_encode_frame (urandom k) (wf_payload f) 0xA @ pongs urandom (Suc k) fs else pongs urandom k fs)"

lemma ws_read_frame_step:
  assumes "ws_ok f" and "wc_in s = ws_bytes f @ rest"
  shows "ws_read_frame urandom s =
    (if is_data f then (Inr (wf_payload f), s\<lparr>wc_in := rest\<rparr>)
     else if wf_opcode f = 0x9 then ws_read_frame urandom (s\<lparr>wc_in := rest,
       wc_out := wc_out s @ ws_encode_frame (urandom (wc_drawn s)) (wf_payload f) 0xA, wc_drawn := Suc (wc_drawn s)\<rparr>)
     else ws_read_frame urandom (s\<lparr>wc_in := rest\<rparr>))"
  using ws_read_one_frame [OF assms] assms(1)
  by (subst ws_read_frame.simps) (auto simp: is_data_def ws_ok_def)

lemma ws_chunks_skip:
  assumes "ws_ok f" and "wc_in s = ws_bytes f @ rest" and "\<not> is_data f"
  shows "ws_chunks urandom s = ws_chunks urandom (if wf_opcode f = 0x9
    then s\<lparr>wc_in := rest, wc_out := wc_out s @ ws_encode_frame (urandom (wc_drawn s)) (wf_payload f) 0xA,
      wc_drawn := Suc (wc_drawn s)\<rparr>
    else s\<lparr>wc_in := rest\<rparr>)"
  by (subst (1 2) ws_chunks.simps) (simp add: ws_read_frame_step [OF assms(1,2)] assms(3))

lemma ws_chunks_data:
  assumes "ws_ok f" and "wc_in s = ws_bytes f @ rest" and "is_data f"
  shows "ws_chunks urandom s = (case ws_chunks urandom (s\<lparr>wc_in := rest\<rparr>) of (cs, s') \<Rightarrow> (wf_payload f # cs, s'))"
  by (subst (1) ws_chunks.simps) (simp add: ws_read_frame_step [OF assms(1,2)] assms(3))

lemma ws_chunks_end: "wc_in s = [] \<Longrightarrow> ws_chunks urandom s = ([], s)"
  by (simp add: ws_chunks.simps ws_read_frame.simps ws_read_one_def and_then_def ws_take_def)

lemma ws_chunks_frames:
  assumes "\<forall>f\<in>set fs. ws_ok f" and "wc_in s = concat (map ws_bytes fs)"
  shows "\<exists>s'. ws_chunks urandom s = (data_of fs, s') \<and> wc_out s' = wc_out s @ pongs urandom (wc_drawn s) fs"
  using assms
proof (induction fs arbitrary: s)
  case Nil
  then show ?case by (simp add: ws_chunks_end data_of_def)
next
  case (Cons f fs)
  have f: "ws_ok f" "wc_in s = ws_bytes f @ concat (map ws_bytes fs)" using Cons.prems by simp_all
  show ?case
  proof (cases "is_data f")
    case True
    obtain s' where "ws_chunks urandom (s\<lparr>wc_in := concat (map ws_bytes fs)\<rparr>) = (data_of fs, s')"
        "wc_out s' = wc_out s @ pongs urandom (wc_drawn s) fs"
      using Cons.IH [of "s\<lparr>wc_in := concat (map ws_bytes fs)\<rparr>"] Cons.prems(1) by auto
    then show ?thesis using True ws_chunks_data [OF f True] by (auto simp: data_of_def is_data_def)
  next
    case False
    note skip = ws_chunks_skip [OF f False, of urandom]
    show ?thesis
    proof (cases "wf_opcode f = 0x9")
      case ping: True
      then show ?thesis
        using Cons.IH [of "s\<lparr>wc_in := concat (map ws_bytes fs), wc_out := wc_out s @ ws_encode_frame (urandom (wc_drawn s))
            (wf_payload f) 0xA, wc_drawn := Suc (wc_drawn s)\<rparr>"] Cons.prems(1) False skip
        by (auto simp: data_of_def)
    next
      case pong: False
      then show ?thesis
        using Cons.IH [of "s\<lparr>wc_in := concat (map ws_bytes fs)\<rparr>"] Cons.prems(1) False skip by (auto simp: data_of_def)
    qed
  qed
qed

section \<open>The cipher\<close>

text \<open>
  What the cipher library documents: a stream may be handed over in pieces, and decrypting with the same
  key and initial vector undoes encrypting.
\<close>

definition splits :: "('c \<Rightarrow> byte list \<Rightarrow> byte list \<times> 'c) \<Rightarrow> bool" where
  "splits f \<longleftrightarrow> (\<forall>c a b. f c [] = ([], c) \<and>
    f c (a @ b) = (case f c a of (x, c1) \<Rightarrow> case f c1 b of (y, c2) \<Rightarrow> (x @ y, c2)))"

definition stream_cipher :: "'c aes_cfb \<Rightarrow> bool" where
  "stream_cipher lib \<longleftrightarrow> splits (cfb_encrypt lib) \<and> splits (cfb_decrypt lib) \<and>
    (\<forall>k iv x. fst (cfb_decrypt lib (cfb_start lib k iv) (fst (cfb_encrypt lib (cfb_start lib k iv) x))) = x)"

lemma splits_nil: "splits f \<Longrightarrow> f c [] = ([], c)"
  by (simp add: splits_def)

lemma splits_append: "splits f \<Longrightarrow> f c (a @ b) = (case f c a of (x, c1) \<Rightarrow> case f c1 b of (y, c2) \<Rightarrow> (x @ y, c2))"
  unfolding splits_def by blast

text \<open>What a reader gets out of the pieces.\<close>

fun plaintext :: "'c aes_cfb \<Rightarrow> 'c aes_decryptor option \<Rightarrow> byte list list \<Rightarrow> byte list" where
  "plaintext lib cipher [] = []"
| "plaintext lib cipher (data # chunks) =
    (case decipher lib cipher data of (plain, cipher) \<Rightarrow> plain @ plaintext lib cipher chunks)"

lemma plaintext_open: "plaintext lib None chunks = concat chunks"
  by (induction chunks) (simp_all add: decipher_def)

lemma plaintext_running:
  assumes "splits (cfb_decrypt lib)"
  shows "ad_dec d = Some c \<Longrightarrow> plaintext lib (Some d) chunks = fst (cfb_decrypt lib c (concat chunks))"
proof (induction chunks arbitrary: d c)
  case Nil
  then show ?case using splits_nil [OF assms] by simp
next
  case (Cons data chunks)
  obtain x c1 where x: "cfb_decrypt lib c data = (x, c1)" by fastforce
  then show ?case
    using Cons.IH [of "d\<lparr>ad_dec := Some c1\<rparr>" c1] Cons.prems
    by (simp add: decipher_def decrypt_def splits_append [OF assms] split: prod.splits)
qed

lemma plaintext_starting:
  assumes "splits (cfb_decrypt lib)"
  shows "ad_dec d = None \<Longrightarrow> length (ad_iv_buf d) < 16 \<Longrightarrow> length (ad_iv_buf d @ v) = 16 \<Longrightarrow> concat chunks = v @ rest \<Longrightarrow>
    plaintext lib (Some d) chunks = fst (cfb_decrypt lib (cfb_start lib (ad_key d) (ad_iv_buf d @ v)) rest)"
proof (induction chunks arbitrary: d v)
  case Nil
  then show ?case by simp
next
  case (Cons data chunks)
  let ?needed = "16 - length (ad_iv_buf d)"
  have v: "length v = ?needed" using Cons.prems by simp
  show ?case
  proof (cases "length data < ?needed")
    case True
    then obtain v' where v': "v = data @ v'" "concat chunks = v' @ rest"
      using Cons.prems(4) v by (auto simp: append_eq_append_conv2)
    then show ?thesis
      using True Cons.IH [of "d\<lparr>ad_iv_buf := ad_iv_buf d @ data\<rparr>" v'] Cons.prems
      by (simp add: decipher_def decrypt_def)
  next
    case False
    define u where "u = drop ?needed data"
    have "v @ rest = data @ concat chunks" using Cons.prems(4) by simp
    then have u: "data = v @ u" "rest = u @ concat chunks"
      using False v by (auto simp: append_eq_conv_conj u_def)
    let ?iv = "ad_iv_buf d @ v"
    let ?c = "cfb_start lib (ad_key d) ?iv"
    obtain x c1 where x: "cfb_decrypt lib ?c u = (x, c1)" by fastforce
    have "plaintext lib (Some (d\<lparr>ad_iv_buf := ?iv, ad_dec := Some c1\<rparr>)) chunks = fst (cfb_decrypt lib c1 (concat chunks))"
      using plaintext_running [OF assms] by simp
    then show ?thesis
      using u v x Cons.prems(1) splits_nil [OF assms, of ?c]
      by (auto simp: decipher_def decrypt_def Let_def splits_append [OF assms] split: prod.splits)
  qed
qed

text \<open>What is written, one message after the other.\<close>

fun write_frames ::
    "json_codec \<Rightarrow> 'c aes_cfb \<Rightarrow> 'c aes_encryptor option \<Rightarrow> (char \<times> object) list \<Rightarrow> byte list" where
  "write_frames jc lib cipher [] = []"
| "write_frames jc lib cipher ((tag, payload) # ms) =
    (case write_frame jc lib cipher tag payload of (data, cipher) \<Rightarrow> data @ write_frames jc lib cipher ms)"

definition clear_text :: "json_codec \<Rightarrow> (char \<times> object) list \<Rightarrow> byte list" where
  "clear_text jc ms = concat (map (\<lambda>(tag, payload). encode_frame jc tag payload) ms)"

lemma write_frames_open: "write_frames jc lib None ms = clear_text jc ms"
  by (induction ms) (auto simp: write_frame_def clear_text_def Let_def)

lemma write_frames_running:
  assumes "splits (cfb_encrypt lib)"
  shows "ae_iv e = None \<Longrightarrow> write_frames jc lib (Some e) ms = fst (cfb_encrypt lib (ae_enc e) (clear_text jc ms))"
proof (induction ms arbitrary: e)
  case Nil
  then show ?case using splits_nil [OF assms] by (simp add: clear_text_def)
next
  case (Cons m ms)
  obtain tag payload where m: "m = (tag, payload)" by fastforce
  obtain x c1 where x: "cfb_encrypt lib (ae_enc e) (encode_frame jc tag payload) = (x, c1)" by fastforce
  then show ?case
    using Cons.IH [of "e\<lparr>ae_enc := c1\<rparr>"] Cons.prems m
    by (simp add: write_frame_def encrypt_def Let_def clear_text_def splits_append [OF assms] split: prod.splits)
qed

lemma write_frames_starting:
  assumes "splits (cfb_encrypt lib)" and "ms \<noteq> []"
  shows "write_frames jc lib (Some (new_encryptor lib key iv)) ms =
    iv @ fst (cfb_encrypt lib (cfb_start lib key iv) (clear_text jc ms))"
proof -
  obtain tag payload ms' where m: "ms = (tag, payload) # ms'" using assms(2) by (cases ms) auto
  obtain x c1 where x: "cfb_encrypt lib (cfb_start lib key iv) (encode_frame jc tag payload) = (x, c1)" by fastforce
  then show ?thesis
    using write_frames_running [OF assms(1), of "\<lparr>ae_enc = c1, ae_iv = None\<rparr>" jc ms'] m
    by (simp add: write_frame_def encrypt_def new_encryptor_def Let_def clear_text_def splits_append [OF assms(1)] split: prod.splits)
qed

section \<open>Messages\<close>

text \<open>What a reader has still to give.\<close>

definition incoming :: "'c aes_cfb \<Rightarrow> 'c frp_reader \<Rightarrow> byte list" where
  "incoming lib r = fr_buf r @ plaintext lib (fr_cipher r) (fr_chunks r)"

lemma read_exactly_run:
  assumes "[] \<notin> set (fr_chunks r)" and "n \<le> length (incoming lib r)"
  shows "\<exists>r'. read_exactly lib n r = (Inr (take n (incoming lib r)), r') \<and> incoming lib r' = drop n (incoming lib r) \<and>
    [] \<notin> set (fr_chunks r') \<and> (fr_cipher r' = None \<longleftrightarrow> fr_cipher r = None)"
  using assms
proof (induction lib n r rule: read_exactly.induct)
  case (1 lib n r)
  show ?case
  proof (cases "n \<le> length (fr_buf r)")
    case True
    then show ?thesis using "1.prems" by (subst read_exactly.simps) (simp add: incoming_def)
  next
    case False
    then obtain data chunks where c: "fr_chunks r = data # chunks"
      using "1.prems"(2) by (cases "fr_chunks r") (auto simp: incoming_def)
    obtain plain cipher where d: "decipher lib (fr_cipher r) data = (plain, cipher)" by fastforce
    let ?r = "\<lparr>fr_chunks = chunks, fr_cipher = cipher, fr_buf = fr_buf r @ plain\<rparr>"
    have same: "incoming lib ?r = incoming lib r" using c d by (simp add: incoming_def)
    have "cipher = None \<longleftrightarrow> fr_cipher r = None"
      using d by (auto simp: decipher_def split: option.splits prod.splits)
    moreover have "read_exactly lib n r = read_exactly lib n ?r"
      using False c d "1.prems"(1) by (subst read_exactly.simps) auto
    ultimately show ?thesis
      using "1.IH" [OF False c _ d [symmetric]] "1.prems" c same by auto
  qed
qed

text \<open>The first messages that a reader gives.\<close>

fun read_frames :: "json_codec \<Rightarrow> 'c aes_cfb \<Rightarrow> nat \<Rightarrow> ('c frp_reader, stream_error, (char \<times> object) list) act" where
  "read_frames jc lib 0 = ret []"
| "read_frames jc lib (Suc k) = and_then (read_frame jc lib) (\<lambda>m. and_then (read_frames jc lib k) (\<lambda>ms. ret (m # ms)))"

definition sendable :: "json_codec \<Rightarrow> object \<Rightarrow> bool" where
  "sendable jc payload \<longleftrightarrow> jc_loads jc (jc_dumps jc payload) = Some payload \<and> length (jc_dumps jc payload) < 2 ^ 64"

lemma read_frame_run:
  assumes "[] \<notin> set (fr_chunks r)" and "incoming lib r = encode_frame jc tag payload @ rest" and "sendable jc payload"
  shows "\<exists>r'. read_frame jc lib r = (Inr (tag, payload), r') \<and> incoming lib r' = rest \<and> [] \<notin> set (fr_chunks r') \<and>
    (fr_cipher r' = None \<longleftrightarrow> fr_cipher r = None)"
proof -
  let ?data = "jc_dumps jc payload"
  have inc: "incoming lib r = of_char tag # be_bytes 8 (length ?data) @ ?data @ rest"
    using assms(2) by (simp add: encode_frame_def Let_def)
  have len: "be_value (be_bytes 8 (length ?data)) = length ?data"
    using assms(3) by (intro be_value_bytes) (simp add: sendable_def)
  obtain r1 where r1: "read_exactly lib 9 r = (Inr (of_char tag # be_bytes 8 (length ?data)), r1)"
      "incoming lib r1 = ?data @ rest" "[] \<notin> set (fr_chunks r1)" "fr_cipher r1 = None \<longleftrightarrow> fr_cipher r = None"
    using read_exactly_run [OF assms(1), of 9 lib] inc by auto
  obtain r2 where r2: "read_exactly lib (length ?data) r1 = (Inr ?data, r2)" "incoming lib r2 = rest"
      "[] \<notin> set (fr_chunks r2)" "fr_cipher r2 = None \<longleftrightarrow> fr_cipher r1 = None"
    using read_exactly_run [OF r1(3), of "length ?data" lib] r1(2) by auto
  have "char_of (unat (of_char tag :: byte)) = tag" 
    by (simp add: of_nat_of_char [symmetric, where 'a = "8 word"] unat_byte del: of_nat_of_char)
  then show ?thesis
    using r1 r2 assms(3) len by (auto simp: read_frame_def and_then_def ret_def sendable_def)
qed

lemma read_frames_run:
  assumes "[] \<notin> set (fr_chunks r)" and "incoming lib r = clear_text jc ms @ rest" and "\<forall>m\<in>set ms. sendable jc (snd m)"
  shows "\<exists>r'. read_frames jc lib (length ms) r = (Inr ms, r') \<and> incoming lib r' = rest \<and> [] \<notin> set (fr_chunks r') \<and>
    (fr_cipher r' = None \<longleftrightarrow> fr_cipher r = None)"
  using assms
proof (induction ms arbitrary: r)
  case Nil
  then show ?case by (simp add: clear_text_def ret_def)
next
  case (Cons m ms)
  obtain tag payload where m: "m = (tag, payload)" by fastforce
  obtain r1 where r1: "read_frame jc lib r = (Inr (tag, payload), r1)" "incoming lib r1 = clear_text jc ms @ rest"
      "[] \<notin> set (fr_chunks r1)" "fr_cipher r1 = None \<longleftrightarrow> fr_cipher r = None"
    using read_frame_run [OF Cons.prems(1), of lib jc tag payload "clear_text jc ms @ rest"] Cons.prems m
    by (auto simp: clear_text_def)
  show ?case
    using Cons.IH [OF r1(3,2)] Cons.prems(3) r1 m by (auto simp: and_then_def ret_def)
qed

lemma pump_all_run:
  assumes "fr_cipher r = None" and "[] \<notin> set (fr_chunks r)"
  shows "concat (pump_all lib n r) = incoming lib r"
  using assms
proof (induction lib n r rule: pump_all.induct)
  case (1 lib n r)
  obtain data r' where s: "read_some lib (Suc n) r = (data, r')" by fastforce
  have step: "incoming lib r = data @ incoming lib r'" "fr_cipher r' = None" "[] \<notin> set (fr_chunks r')"
      "data = [] \<Longrightarrow> incoming lib r = []"
    using s "1.prems" by (auto simp: read_some_def incoming_def plaintext_open decipher_def split: if_splits list.splits)
  show ?case
    using "1.IH" [OF s [symmetric] _ step(2,3)] step(1,4) s by (subst pump_all.simps) auto
qed

text \<open>
  A read that is given up in the middle of a message loses what it has taken: when only the header has
  arrived, the reader is left without it, and takes the payload for the next header.
\<close>

lemma interrupted_read_loses_header:
  assumes "length header = 9" and "0 < be_value (tl header)"
  shows "read_frame jc lib (FrpReader [header] None) = (Inl Closed, FrpReader [] None)"
proof -
  have "header \<noteq> []" using assms(1) by auto
  then show ?thesis
    using assms by (simp add: read_frame_def and_then_def read_exactly.simps decipher_def FrpReader_def)
qed

section \<open>A whole connection\<close>

text \<open>Both ends of a connection, in the clear or with a key and an initial vector.\<close>

definition writer_of :: "'c aes_cfb \<Rightarrow> (byte list \<times> byte list) option \<Rightarrow> 'c aes_encryptor option" where
  "writer_of lib secure = map_option (\<lambda>(key, iv). new_encryptor lib key iv) secure"

definition reader_of :: "(byte list \<times> byte list) option \<Rightarrow> 'c aes_decryptor option" where
  "reader_of secure = map_option (\<lambda>(key, iv). new_decryptor key) secure"

lemma incoming_written:
  assumes "stream_cipher lib" and "\<forall>key iv. secure = Some (key, iv) \<longrightarrow> length iv = 16"
    and "concat chunks = write_frames jc lib (writer_of lib secure) ms @ rest" and "secure = None \<or> rest = []"
  shows "incoming lib (FrpReader chunks (reader_of secure)) = clear_text jc ms @ rest"
proof (cases secure)
  case None
  then show ?thesis using assms(3) by (simp add: incoming_def FrpReader_def reader_of_def writer_of_def plaintext_open write_frames_open)
next
  case (Some s)
  obtain key iv where s: "s = (key, iv)" by fastforce
  have lib: "splits (cfb_encrypt lib)" "splits (cfb_decrypt lib)"
    "\<And>k iv x. fst (cfb_decrypt lib (cfb_start lib k iv) (fst (cfb_encrypt lib (cfb_start lib k iv) x))) = x"
    using assms(1) by (simp_all add: stream_cipher_def)
  have rest: "rest = []" and iv: "length iv = 16" using assms(2,4) Some s by simp_all
  show ?thesis
  proof (cases "ms = []")
    case True
    then have "\<forall>c\<in>set chunks. c = []" using assms(3) rest by (simp add: clear_text_def)
    then have "plaintext lib (Some (new_decryptor key)) chunks = []"
      by (induction chunks) (simp_all add: decipher_def decrypt_def new_decryptor_def)
    then show ?thesis using True rest Some s by (simp add: incoming_def FrpReader_def reader_of_def clear_text_def)
  next
    case False
    then have "concat chunks = iv @ fst (cfb_encrypt lib (cfb_start lib key iv) (clear_text jc ms))"
      using assms(3) rest Some s write_frames_starting [OF lib(1) False] by (simp add: writer_of_def)
    then have "plaintext lib (Some (new_decryptor key)) chunks = clear_text jc ms"
      using plaintext_starting [OF lib(2), of "new_decryptor key" iv chunks] iv lib(3) by (simp add: new_decryptor_def)
    then show ?thesis using rest Some s by (simp add: incoming_def FrpReader_def reader_of_def)
  qed
qed

text \<open>
  C40. Messages cross a bastion as they were sent. Whatever WebSocket frames the bytes arrive in (masked
  or not, cut anywhere, with pings and pongs between them), in the clear or encrypted, the reader gives
  the messages that were written, in order; every ping is answered with its payload; and in the clear
  what follows the messages comes out of the pump byte for byte, also what arrived together with the
  last message.
\<close>

theorem messages_cross_bastion:
  assumes "stream_cipher lib" and "\<forall>key iv. secure = Some (key, iv) \<longrightarrow> length iv = 16"
    and "\<forall>f\<in>set fs. ws_ok f" and "[] \<notin> set (data_of fs)" and "\<forall>m\<in>set ms. sendable jc (snd m)"
    and "concat (data_of fs) = write_frames jc lib (writer_of lib secure) ms @ rest" and "secure = None \<or> rest = []"
  shows "\<exists>s' r. ws_chunks urandom \<lparr>wc_in = concat (map ws_bytes fs), wc_out = [], wc_drawn = 0\<rparr> = (data_of fs, s') \<and>
    wc_out s' = pongs urandom 0 fs \<and>
    read_frames jc lib (length ms) (FrpReader (data_of fs) (reader_of secure)) = (Inr ms, r) \<and>
    (secure = None \<longrightarrow> concat (pump_all lib n r) = rest)"
proof -
  obtain s' where "ws_chunks urandom \<lparr>wc_in = concat (map ws_bytes fs), wc_out = [], wc_drawn = 0\<rparr> = (data_of fs, s')"
      "wc_out s' = pongs urandom 0 fs"
    using ws_chunks_frames [OF assms(3), of "\<lparr>wc_in = concat (map ws_bytes fs), wc_out = [], wc_drawn = 0\<rparr>" urandom] by auto
  moreover have c: "[] \<notin> set (fr_chunks (FrpReader (data_of fs) (reader_of secure) :: 'a frp_reader))"
    using assms(4) by (simp add: FrpReader_def)
  moreover have e: "fr_cipher (FrpReader (data_of fs) (reader_of secure) :: 'a frp_reader) = None \<longleftrightarrow> secure = None"
    by (simp add: FrpReader_def reader_of_def)
  moreover obtain r where r: "read_frames jc lib (length ms) (FrpReader (data_of fs) (reader_of secure)) = (Inr ms, r)"
      "incoming lib r = rest" "[] \<notin> set (fr_chunks r)"
      "fr_cipher r = None \<longleftrightarrow> secure = None"
    using read_frames_run [OF c incoming_written [OF assms(1,2,6,7)] assms(5), unfolded e] by (elim exE conjE) (rule that)
  moreover have "secure = None \<longrightarrow> concat (pump_all lib n r) = rest"
    using pump_all_run [of r lib n] r(2-4) by simp
  ultimately show ?thesis by blast
qed

text \<open>A token and the first bytes of a visitor, in two masked frames around a ping.\<close>

definition sample_codec :: json_codec where
  "sample_codec = \<lparr>jc_dumps = (\<lambda>_. [1, 2]), jc_loads = (\<lambda>_. Some [])\<rparr>"

definition no_cipher :: "unit aes_cfb" where
  "no_cipher = \<lparr>cfb_start = (\<lambda>_ _. ()), cfb_encrypt = (\<lambda>c x. (x, c)), cfb_decrypt = (\<lambda>c x. (x, c))\<rparr>"

definition sample_frames :: "ws_frame list" where
  "sample_frames = [\<lparr>wf_opcode = 2, wf_mask = Some [1, 2, 3, 4], wf_payload = [84, 0, 0, 0]\<rparr>,
    \<lparr>wf_opcode = 9, wf_mask = None, wf_payload = [7]\<rparr>,
    \<lparr>wf_opcode = 2, wf_mask = Some [5, 6, 7, 8], wf_payload = [0, 0, 0, 0, 2, 1, 2, 9, 9]\<rparr>]"

theorem messages_cross_bastion_witness:
  "\<exists>s' r. ws_chunks (\<lambda>_. [0, 0, 0, 0]) \<lparr>wc_in = concat (map ws_bytes sample_frames), wc_out = [], wc_drawn = 0\<rparr> =
      ([[84, 0, 0, 0], [0, 0, 0, 0, 2, 1, 2, 9, 9]], s') \<and>
    wc_out s' = [0x8A, 0x81, 0, 0, 0, 0, 7] \<and>
    read_frames sample_codec no_cipher 1 (FrpReader [[84, 0, 0, 0], [0, 0, 0, 0, 2, 1, 2, 9, 9]] None) = (Inr [(CHR ''T'', [])], r) \<and>
    concat (pump_all no_cipher 0 r) = [9, 9]"
proof -
  have "stream_cipher no_cipher" by (simp add: stream_cipher_def splits_def no_cipher_def)
  moreover have "\<forall>f\<in>set sample_frames. ws_ok f" by (simp add: sample_frames_def ws_ok_def)
  moreover have data: "data_of sample_frames = [[84, 0, 0, 0], [0, 0, 0, 0, 2, 1, 2, 9, 9]]" by code_simp
  moreover have "pongs (\<lambda>_. [0, 0, 0, 0]) 0 sample_frames = [0x8A, 0x81, 0, 0, 0, 0, 7]" by code_simp
  moreover have "concat (data_of sample_frames) = write_frames sample_codec no_cipher (writer_of no_cipher None) [(CHR ''T'', [])] @ [9, 9]"
    by code_simp
  ultimately show ?thesis
    using messages_cross_bastion [of no_cipher None sample_frames "[(CHR ''T'', [])]" sample_codec "[9, 9]" "\<lambda>_. [0, 0, 0, 0]" 0]
    by (simp add: sendable_def sample_codec_def reader_of_def)
qed

end
