(* ===== verification/Bastion_Tokens.thy ===== *)
theory Bastion_Tokens
  imports Rotation Session_Endpoints
begin

text \<open>
  The tokens that hosts and bastions are shown. The server signs them (\<open>api/model/bastion.py\<close>), and the
  relay of a host checks them (\<open>cli/token_verify.py\<close>). Parameters, in a record \<open>jwt_lib\<close>: the JWT library,
  which encodes claims with a private key and a key id, reads the key id of a token without checking it,
  and decodes a token with a public key, an issuer, an audience, the claims that it requires and the
  time; the type of a private key, and a digest of the name of the tenant. A token that the library
  accepts has claims of the types that the server writes.
\<close>

record token_claims =
  tc_sub :: string
  tc_iss :: string
  tc_aud :: string
  tc_iat :: int
  tc_exp :: int
  tc_jti :: string
  tc_name :: string
  tc_use :: string
  tc_deadline :: "int option"
  tc_cid :: "string option"

record jwt_lib =
  jw_encode :: "token_claims \<Rightarrow> string \<Rightarrow> string \<Rightarrow> string"
  jw_kid :: "string \<Rightarrow> string option option"
  jw_decode :: "string \<Rightarrow> string \<Rightarrow> string \<Rightarrow> string \<Rightarrow> string list \<Rightarrow> int \<Rightarrow> token_claims option"
  jw_ed25519 :: "string \<Rightarrow> bool"
  jw_sha256_hex :: "string \<Rightarrow> string"

section \<open>Signing\<close>

definition tenant_label :: "jwt_lib \<Rightarrow> request_ctx \<Rightarrow> string" where
  "tenant_label jl cx = take 12 (jw_sha256_hex jl (cx_tenant_uuid cx))"

definition token_issuer :: "request_ctx \<Rightarrow> string" where
  "token_issuer cx = cf_base_url (cx_config cx) @ ''/pf/t/'' @ cx_tenant_uuid cx @ ''/public/oidc''"

text \<open>\<open>_sign\<close>; the two optional claims are its dictionary \<open>extra\<close>.\<close>

definition sign_token ::
    "jwt_lib \<Rightarrow> crypto \<Rightarrow> request_ctx \<Rightarrow> string \<Rightarrow> string \<Rightarrow> int option \<Rightarrow> string option \<Rightarrow> string handler" where
  "sign_token jl cr cx hostname purpose until connection_id =
    and_then (get_private_key cr cx) (\<lambda>private_key.
    seq (unless_raise (jw_ed25519 jl private_key) AssertionError)
    (and_then (identity_read_self cx) (\<lambda>self_identity. case self_identity of
       None \<Rightarrow> raising AssertionError
     | Some me \<Rightarrow> ret (jw_encode jl
         \<lparr>tc_sub = show_int (i_id me), tc_iss = token_issuer cx, tc_aud = hostname @ ''-'' @ tenant_label jl cx,
          tc_iat = cx_now cx, tc_exp = cx_now cx + 60, tc_jti = cx_uuid cx, tc_name = i_name me, tc_use = purpose,
          tc_deadline = until, tc_cid = connection_id\<rparr>
         private_key (cr_thumbprint cr private_key)))))"

definition generate_token ::
    "jwt_lib \<Rightarrow> crypto \<Rightarrow> request_ctx \<Rightarrow> string \<Rightarrow> token_purpose \<Rightarrow> int option \<Rightarrow> string option \<Rightarrow> string handler" where
  "generate_token jl cr cx hostname purpose until connection_id =
    sign_token jl cr cx hostname (case purpose of Connect \<Rightarrow> ''connect'' | Register \<Rightarrow> ''register'') until connection_id"

definition generate_terminate_token :: "jwt_lib \<Rightarrow> crypto \<Rightarrow> request_ctx \<Rightarrow> string \<Rightarrow> string \<Rightarrow> string handler" where
  "generate_terminate_token jl cr cx hostname connection_id =
    sign_token jl cr cx hostname ''terminate'' None (Some connection_id)"

section \<open>Checking\<close>

record verified_token =
  vt_sub :: string
  vt_name :: string
  vt_jti :: string
  vt_deadline :: "int option"
  vt_cid :: "string option"
  vt_use :: string

text \<open>The verifier of one issuer, with the ids of the tokens that were used and when these expire.\<close>

record verifier =
  vf_issuer :: string
  vf_seen_jti :: "(string \<times> int) list"

definition SingleIssuerVerifier :: "string \<Rightarrow> verifier" where
  "SingleIssuerVerifier issuer = \<lparr>vf_issuer = issuer, vf_seen_jti = []\<rparr>"

definition sweep_expired :: "int \<Rightarrow> verifier \<Rightarrow> verifier" where
  "sweep_expired now vf = vf\<lparr>vf_seen_jti := filter (\<lambda>(j, expires). \<not> expires \<le> now) (vf_seen_jti vf)\<rparr>"

definition required_claims :: "string list" where
  "required_claims = [''sub'', ''name'', ''jti'', ''exp'', ''use'']"

text \<open>
  \<open>keys\<close> are the keys that the issuer publishes, by id. The caller took \<open>now\<close> before it waited for the token;
  \<open>clock\<close> is when the library decodes it.
\<close>

definition token_accepted ::
    "jwt_lib \<Rightarrow> (string \<Rightarrow> string option) \<Rightarrow> int \<Rightarrow> string \<Rightarrow> string \<Rightarrow> string set \<Rightarrow> verifier \<Rightarrow> token_claims option" where
  "token_accepted jl keys clock token expected_audience expected_use vf = (case jw_kid jl token of
     None \<Rightarrow> None
   | Some None \<Rightarrow> None
   | Some (Some kid) \<Rightarrow> (case keys kid of
       None \<Rightarrow> None
     | Some key \<Rightarrow> (case jw_decode jl token key (vf_issuer vf) expected_audience required_claims clock of
         None \<Rightarrow> None
       | Some payload \<Rightarrow> if tc_use payload \<notin> expected_use then None else Some payload)))"

definition verify_token ::
    "jwt_lib \<Rightarrow> (string \<Rightarrow> string option) \<Rightarrow> int \<Rightarrow> string \<Rightarrow> string \<Rightarrow> int \<Rightarrow> string set \<Rightarrow>
      verifier \<Rightarrow> verified_token option \<times> verifier" where
  "verify_token jl keys clock token expected_audience now expected_use vf =
    (case token_accepted jl keys clock token expected_audience expected_use vf of
       None \<Rightarrow> (None, vf)
     | Some payload \<Rightarrow>
         let jti = tc_jti payload; vf = sweep_expired now vf
         in if jti \<in> fst ` set (vf_seen_jti vf) then (None, vf)
            else (Some \<lparr>vt_sub = tc_sub payload, vt_name = tc_name payload, vt_jti = jti,
                vt_deadline = tc_deadline payload, vt_cid = tc_cid payload, vt_use = tc_use payload\<rparr>,
              vf\<lparr>vf_seen_jti := vf_seen_jti vf @ [(jti, tc_exp payload)]\<rparr>))"

end
