(* ===== verification/Relay.thy ===== *)
theory Relay
  imports Bastion_Tokens Frp_Frames Host_Login
begin

text \<open>
  The relay of a host, \<open>cli/pf/bastion_cli.py\<close>: what a visitor must show before the relay opens a tunnel or
  ends a connection, what it writes to the SSH server and when the tunnel ends. The keys and the clock are as in \<open>Bastion_Tokens\<close>; connecting to the SSH server
  succeeds.
\<close>

section \<open>The token of a visitor\<close>

definition HANDSHAKE_TAG :: char where "HANDSHAKE_TAG = CHR ''T''"
definition ACCEPT_TAG :: char where "ACCEPT_TAG = CHR ''A''"

definition visitor_uses :: "string set" where
  "visitor_uses = {''connect'', ''terminate''}"

datatype relay_request =
    Connect_Tunnel (rr_connection_id: string) (rr_token_id: string) (rr_deadline: "int option")
  | Terminate_Connection (rr_connection_id: string)

type_synonym frp_message = "char \<times> object"

definition rejection :: "string \<Rightarrow> frp_message" where
  "rejection reason = (ACCEPT_TAG, [(''ok'', JBool False), (''reason'', JText reason)])"

definition acceptance :: frp_message where
  "acceptance = (ACCEPT_TAG, [(''ok'', JBool True)])"

text \<open>The request, or the answer that refuses it.\<close>

definition handshake_token ::
    "jwt_lib \<Rightarrow> (string \<Rightarrow> string option) \<Rightarrow> int \<Rightarrow> string \<Rightarrow> int \<Rightarrow> frp_message \<Rightarrow> verifier \<Rightarrow>
      (frp_message + relay_request) \<times> verifier" where
  "handshake_token jl keys clock expected_audience now m vf = (case m of (tag, msg) \<Rightarrow>
     if tag \<noteq> HANDSHAKE_TAG then (Inl (rejection ''token handshake required''), vf)
     else
       let (verified, vf) = (case map_of msg ''token'' of
           Some (JText token) \<Rightarrow> verify_token jl keys clock token expected_audience now visitor_uses vf
         | _ \<Rightarrow> (None, vf))
       in case verified of
            None \<Rightarrow> (Inl (rejection ''invalid or unauthorized token''), vf)
          | Some v \<Rightarrow> (case vt_cid v of
              None \<Rightarrow> (Inl (rejection ''invalid or unauthorized token''), vf)
            | Some cid \<Rightarrow>
                if vt_use v = ''terminate'' then (Inr (Terminate_Connection cid), vf)
                else if vt_use v = ''connect'' then (Inr (Connect_Tunnel cid (vt_jti v) (vt_deadline v)), vf)
                else (Inl (rejection ''invalid or unauthorized token''), vf)))"

definition run_terminate :: "int \<Rightarrow> string \<Rightarrow> terminator \<Rightarrow> frp_message \<times> terminator" where
  "run_terminate now connection_id te = (case terminate now connection_id te of
     (None, te) \<Rightarrow> (acceptance, te) | (Some reason, te) \<Rightarrow> (rejection reason, te))"

section \<open>A work connection\<close>

text \<open>Python's truth of a JSON value.\<close>

definition truthy :: "json option \<Rightarrow> bool" where
  "truthy v = (case v of None \<Rightarrow> False | Some j \<Rightarrow>
     j \<notin> {JNull, JBool False, JInt 0, JText '''', JList [], JObject []})"

datatype relay_event =
    Sent frp_message
  | Opened_Tunnel string string "int option"
  | Wrote "byte list"

record relay =
  re_verifier :: verifier
  re_terminator :: terminator

text \<open>
  \<open>_handle_work_conn\<close> up to the moment where nothing more arrives from the visitor: what it sends to the bastion
  and writes to the SSH server, in order. What the SSH server answers passes the other way unread.
\<close>

definition handle_work_conn ::
    "json_codec \<Rightarrow> unit aes_cfb \<Rightarrow> jwt_lib \<Rightarrow> (string \<Rightarrow> string option) \<Rightarrow> int \<Rightarrow> int \<Rightarrow> string \<Rightarrow> string \<Rightarrow>
      byte list list \<Rightarrow> relay \<Rightarrow> relay_event list \<times> relay" where
  "handle_work_conn jc lib jl keys clock now run_id frpc_user chunks re =
    (let hello = Sent (CHR ''w'', [(''run_id'', JText run_id)])
     in case read_frame jc lib (FrpReader chunks None) of
          (Inl e, r) \<Rightarrow> ([hello], re)
        | (Inr (tag, msg), r) \<Rightarrow>
            if tag \<noteq> CHR ''s'' \<or> truthy (map_of msg ''error'') then ([hello], re)
            else case read_frame jc lib r of
              (Inl e, r) \<Rightarrow> ([hello], re)
            | (Inr m, r) \<Rightarrow>
                (case handshake_token jl keys clock frpc_user now m (re_verifier re) of
                   (Inl refusal, vf) \<Rightarrow> ([hello, Sent refusal], re\<lparr>re_verifier := vf\<rparr>)
                 | (Inr (Terminate_Connection cid), vf) \<Rightarrow>
                     (case run_terminate clock cid (re_terminator re) of (reply, te) \<Rightarrow>
                       ([hello, Sent reply], re\<lparr>re_verifier := vf, re_terminator := te\<rparr>))
                 | (Inr (Connect_Tunnel cid token_id until), vf) \<Rightarrow>
                     ([hello, Sent acceptance, Opened_Tunnel cid token_id until] @
                        map Wrote (pump_all lib 65535 r), re\<lparr>re_verifier := vf\<rparr>)))"

text \<open>How long the pumps of a tunnel may run; without a deadline they run until both sides end.\<close>

definition tunnel_timeout :: "int \<Rightarrow> int option \<Rightarrow> int option" where
  "tunnel_timeout now until = map_option (\<lambda>d. max 0 (d - now)) until"

end
