(* ===== verification/Relay_Safety.thy ===== *)
theory Relay_Safety
  imports Relay Frame_Safety Certificate_Safety Rotation_Safety
begin

text \<open>
  What opens a tunnel. A token that the server signed for a certificate gives the tunnel of that certificate,
  a token is accepted once by a relay, and nothing reaches the SSH server before a token was accepted.
\<close>

section \<open>What the JWT library documents\<close>

text \<open>
  A decoded token has not expired and has the issuer and the audience that were asked for; its claims are
  in the token, whoever decodes it; and they are those that were encoded.
\<close>

definition jwt_documented :: "jwt_lib \<Rightarrow> bool" where
  "jwt_documented jl \<longleftrightarrow>
    (\<forall>t key iss aud req now c. jw_decode jl t key iss aud req now = Some c \<longrightarrow>
      now < tc_exp c \<and> tc_iss c = iss \<and> tc_aud c = aud) \<and>
    (\<forall>t key iss aud req now c key' iss' aud' req' now' c'. jw_decode jl t key iss aud req now = Some c \<and>
      jw_decode jl t key' iss' aud' req' now' = Some c' \<longrightarrow> c' = c) \<and>
    (\<forall>c k kid key iss aud req now c'. jw_decode jl (jw_encode jl c k kid) key iss aud req now = Some c' \<longrightarrow> c' = c)"

lemma decoded:
  assumes "jwt_documented jl" and "jw_decode jl t key iss aud req now = Some c"
  shows "now < tc_exp c" and "tc_iss c = iss" and "tc_aud c = aud"
  using assms(1) [unfolded jwt_documented_def, THEN conjunct1, rule_format, OF assms(2)] by simp_all

lemma decoded_same:
  "jwt_documented jl \<Longrightarrow> jw_decode jl t key iss aud req now = Some c \<Longrightarrow>
    jw_decode jl t key' iss' aud' req' now' = Some c' \<Longrightarrow> c' = c"
  unfolding jwt_documented_def by (elim conjE) metis

lemma decoded_encoded:
  "jwt_documented jl \<Longrightarrow> jw_decode jl (jw_encode jl c k kid) key iss aud req now = Some c' \<Longrightarrow> c' = c"
  unfolding jwt_documented_def by (elim conjE) metis

lemma token_accepted_Some:
  "token_accepted jl keys clock t aud uses vf = Some c \<longleftrightarrow>
    (\<exists>kid key. jw_kid jl t = Some (Some kid) \<and> keys kid = Some key \<and>
      jw_decode jl t key (vf_issuer vf) aud required_claims clock = Some c \<and> tc_use c \<in> uses)"
  by (auto simp: token_accepted_def split: option.splits)

lemma verify_token_Some:
  "verify_token jl keys clock t aud now uses vf = (Some v, vf') \<longleftrightarrow>
    (\<exists>c. token_accepted jl keys clock t aud uses vf = Some c \<and> tc_jti c \<notin> fst ` set (vf_seen_jti (sweep_expired now vf)) \<and>
      v = \<lparr>vt_sub = tc_sub c, vt_name = tc_name c, vt_jti = tc_jti c, vt_deadline = tc_deadline c, vt_cid = tc_cid c,
        vt_use = tc_use c\<rparr> \<and>
      vf' = (sweep_expired now vf)\<lparr>vf_seen_jti := vf_seen_jti (sweep_expired now vf) @ [(tc_jti c, tc_exp c)]\<rparr>)"
  by (auto simp: verify_token_def Let_def split: option.splits)

section \<open>A granted request\<close>

lemma handshake_granted:
  assumes "handshake_token jl keys clock aud now m vf = (Inr request, vf')"
  shows "\<exists>msg token c cid. m = (HANDSHAKE_TAG, msg) \<and> map_of msg ''token'' = Some (JText token) \<and>
    token_accepted jl keys clock token aud visitor_uses vf = Some c \<and>
    tc_jti c \<notin> fst ` set (vf_seen_jti (sweep_expired now vf)) \<and>
    vf' = (sweep_expired now vf)\<lparr>vf_seen_jti := vf_seen_jti (sweep_expired now vf) @ [(tc_jti c, tc_exp c)]\<rparr> \<and>
    tc_cid c = Some cid \<and>
    request = (if tc_use c = ''terminate'' then Terminate_Connection cid else Connect_Tunnel cid (tc_jti c) (tc_deadline c))"
proof -
  obtain tag msg where m: "m = (tag, msg)" by fastforce
  have tag: "tag = HANDSHAKE_TAG"
    using assms m by (auto simp: handshake_token_def split: if_splits)
  obtain token v where token: "map_of msg ''token'' = Some (JText token)"
    and v: "verify_token jl keys clock token aud now visitor_uses vf = (Some v, vf')"
    and r: "(case vt_cid v of None \<Rightarrow> Inl (rejection ''invalid or unauthorized token'')
      | Some cid \<Rightarrow> if vt_use v = ''terminate'' then Inr (Terminate_Connection cid)
          else if vt_use v = ''connect'' then Inr (Connect_Tunnel cid (vt_jti v) (vt_deadline v))
          else Inl (rejection ''invalid or unauthorized token'')) = Inr request"
    using assms m tag
    by (auto simp: handshake_token_def Let_def split: option.splits json.splits prod.splits if_splits)
  then show ?thesis
    using m tag by (auto simp: verify_token_Some split: option.splits if_splits)
qed

lemma signed_token:
  assumes "sign_token jl cr cx hostname purpose d cid w = (Inr token, w')"
  shows "\<exists>c k kid. token = jw_encode jl c k kid \<and> tc_iss c = token_issuer cx \<and> tc_aud c = hostname @ ''-'' @ tenant_label jl cx \<and>
    tc_exp c = cx_now cx + 60 \<and> tc_jti c = cx_uuid cx \<and> tc_use c = purpose \<and> tc_deadline c = d \<and> tc_cid c = cid"
proof -
  obtain k w3 and me :: "identity option" where "(case me of None \<Rightarrow> raising AssertionError
     | Some me \<Rightarrow> ret (jw_encode jl
         \<lparr>tc_sub = show_int (i_id me), tc_iss = token_issuer cx, tc_aud = hostname @ ''-'' @ tenant_label jl cx,
          tc_iat = cx_now cx, tc_exp = cx_now cx + 60, tc_jti = cx_uuid cx, tc_name = i_name me, tc_use = purpose,
          tc_deadline = d, tc_cid = cid\<rparr> k (cr_thumbprint cr k))) w3 = (Inr token, w')"
    using assms unfolding sign_token_def and_then_Inr seq_Inr by (elim exE conjE) (erule that)
  then obtain me' :: identity where "token = jw_encode jl
      \<lparr>tc_sub = show_int (i_id me'), tc_iss = token_issuer cx, tc_aud = hostname @ ''-'' @ tenant_label jl cx,
       tc_iat = cx_now cx, tc_exp = cx_now cx + 60, tc_jti = cx_uuid cx, tc_name = i_name me', tc_use = purpose,
       tc_deadline = d, tc_cid = cid\<rparr> k (cr_thumbprint cr k)"
    by (auto simp: act_Inr split: option.splits)
  then show ?thesis by (intro exI conjI) (assumption, simp_all)
qed

text \<open>
  C16. A tunnel is the tunnel of one certificate. When the server has signed a user certificate, has given
  out a token for its connection, and a relay grants a request that shows this token, then the request
  is for a tunnel of that connection, until the deadline that the certificate reports; the token was
  asked for by the identity that the certificate was signed for, before it expired, and the relay is the
  one of the host of the certificate in the same tenant, less than a minute after the token was made.
\<close>

theorem tunnel_follows_certificate:
  assumes "jwt_documented jl"
    and "sign_user_certificate cr cx data w = (Inr r, w')" and "cx_identity_id cx = Some me"
    and "db_ssh_connection (w_db v) = db_ssh_connection (w_db w')"
    and "read_self_token_endpoint (generate_token jl cr cx2) cx2 ''bastion'' hostname Connect (Some (ucs_connection_id r)) v =
      (Inr token, v')"
    and "handshake_token jl keys clock frpc_user now (HANDSHAKE_TAG, [(''token'', JText token)]) vf = (Inr request, vf')"
  shows "\<exists>cert. ucs_certificates r = [cert] \<and>
    request = Connect_Tunnel (ucs_connection_id r) (cx_uuid cx2) (ex_session_deadline (cert_extensions cert)) \<and>
    cx_identity_id cx2 = Some me \<and> cx_now cx2 \<le> ce_valid_before cert \<and>
    frpc_user = ucr_hostname data @ ''-'' @ tenant_label jl cx2 \<and> vf_issuer vf = token_issuer cx2 \<and>
    clock < cx_now cx2 + 60 \<and>
    (\<forall>d opened. ex_session_deadline (cert_extensions cert) = Some d \<longrightarrow>
      (\<exists>s. tunnel_timeout opened (rr_deadline request) = Some s \<and> opened + s = max opened d))"
proof -
  obtain cert where cert: "ucs_certificates r = [cert]"
    and ask: "(if cx_identity_id cx2 = Some me \<and> hostname = ucr_hostname data \<and> cx_now cx2 \<le> ce_valid_before cert
       then generate_token jl cr cx2 hostname Connect (ex_session_deadline (cert_extensions cert)) (Some (ucs_connection_id r)) v
       else (Inl forbidden, v)) = (Inr token, v')"
    using token_mirrors_certificate [OF assms(2-4), of "generate_token jl cr cx2" cx2 hostname] assms(5) by auto
  have mine: "cx_identity_id cx2 = Some me" "hostname = ucr_hostname data" "cx_now cx2 \<le> ce_valid_before cert"
    and signed: "sign_token jl cr cx2 hostname ''connect'' (ex_session_deadline (cert_extensions cert)) (Some (ucs_connection_id r)) v =
      (Inr token, v')"
    using ask by (auto simp: generate_token_def split: if_splits)
  obtain c k kid where c: "token = jw_encode jl c k kid" "tc_iss c = token_issuer cx2"
      "tc_aud c = hostname @ ''-'' @ tenant_label jl cx2" "tc_exp c = cx_now cx2 + 60" "tc_jti c = cx_uuid cx2"
      "tc_use c = ''connect''" "tc_deadline c = ex_session_deadline (cert_extensions cert)" "tc_cid c = Some (ucs_connection_id r)"
    using signed_token [OF signed] by blast
  obtain c' where "token_accepted jl keys clock token frpc_user visitor_uses vf = Some c'"
    and request: "\<exists>cid. tc_cid c' = Some cid \<and>
      request = (if tc_use c' = ''terminate'' then Terminate_Connection cid else Connect_Tunnel cid (tc_jti c') (tc_deadline c'))"
    using handshake_granted [OF assms(6)] by auto
  then obtain key where d: "jw_decode jl token key (vf_issuer vf) frpc_user required_claims clock = Some c'"
    by (auto simp: token_accepted_Some)
  have "c' = c" using decoded_encoded [OF assms(1)] d c(1) by blast
  moreover from this have "clock < tc_exp c" "tc_iss c = vf_issuer vf" "tc_aud c = frpc_user"
    using decoded [OF assms(1) d] by simp_all
  ultimately show ?thesis
    using cert mine c(2-8) request by (auto simp: tunnel_timeout_def max_def)
qed

section \<open>A token is used once\<close>

text \<open>The requests that one relay grants while visitors come, in the order in which their tokens are checked.\<close>

record visit =
  vi_message :: frp_message
  vi_audience :: string
  vi_now :: int
  vi_clock :: int
  vi_keys :: "string \<Rightarrow> string option"

fun granted :: "jwt_lib \<Rightarrow> verifier \<Rightarrow> visit list \<Rightarrow> (json option \<times> relay_request) list" where
  "granted jl vf [] = []"
| "granted jl vf (v # vs) =
    (case handshake_token jl (vi_keys v) (vi_clock v) (vi_audience v) (vi_now v) (vi_message v) vf of
       (Inl refusal, vf') \<Rightarrow> granted jl vf' vs
     | (Inr request, vf') \<Rightarrow> (map_of (snd (vi_message v)) ''token'', request) # granted jl vf' vs)"

text \<open>A token that was used is remembered until it has expired.\<close>

definition spent :: "jwt_lib \<Rightarrow> int \<Rightarrow> verifier \<Rightarrow> string \<Rightarrow> bool" where
  "spent jl clock vf t \<longleftrightarrow> (\<exists>c. (\<forall>key iss aud req now c'. jw_decode jl t key iss aud req now = Some c' \<longrightarrow> c' = c) \<and>
    ((tc_jti c, tc_exp c) \<in> set (vf_seen_jti vf) \<or> tc_exp c \<le> clock))"

lemma spent_sweep: "spent jl clock vf t \<Longrightarrow> now \<le> clock \<Longrightarrow> spent jl clock (sweep_expired now vf) t"
  unfolding spent_def by (auto simp: sweep_expired_def)

lemma spent_later: "spent jl clock vf t \<Longrightarrow> clock \<le> clock' \<Longrightarrow> spent jl clock' vf t"
  unfolding spent_def by fastforce

lemma verify_keeps_seen:
  "verify_token jl keys clock t aud now uses vf = (res, vf') \<Longrightarrow>
    vf' = vf \<or> set (vf_seen_jti (sweep_expired now vf)) \<subseteq> set (vf_seen_jti vf')"
  by (auto simp: verify_token_def Let_def split: option.splits if_splits)

lemma handshake_verifier:
  assumes "handshake_token jl keys clock aud now m vf = (res, vf')"
  shows "vf' = vf \<or> set (vf_seen_jti (sweep_expired now vf)) \<subseteq> set (vf_seen_jti vf')"
  using assms
  by (auto simp: handshake_token_def Let_def split: prod.splits if_splits option.splits json.splits dest: verify_keeps_seen)

lemma spent_kept:
  assumes "handshake_token jl keys clock aud now m vf = (res, vf')" and "spent jl clock vf t" and "now \<le> clock"
  shows "spent jl clock vf' t"
  using handshake_verifier [OF assms(1)] spent_sweep [OF assms(2,3)] assms(2) unfolding spent_def by blast

lemma granted_spends:
  assumes "jwt_documented jl" and "handshake_token jl keys clock aud now m vf = (Inr request, vf')"
  shows "\<exists>t. map_of (snd m) ''token'' = Some (JText t) \<and> spent jl clock vf' t"
proof -
  obtain msg t c where m: "m = (HANDSHAKE_TAG, msg)" "map_of msg ''token'' = Some (JText t)"
      "token_accepted jl keys clock t aud visitor_uses vf = Some c"
      "vf' = (sweep_expired now vf)\<lparr>vf_seen_jti := vf_seen_jti (sweep_expired now vf) @ [(tc_jti c, tc_exp c)]\<rparr>"
    using handshake_granted [OF assms(2)] by blast
  obtain key where "jw_decode jl t key (vf_issuer vf) aud required_claims clock = Some c"
    using m(3) by (auto simp: token_accepted_Some)
  then have "spent jl clock vf' t"
    unfolding spent_def m(4) using decoded_same [OF assms(1)] by (intro exI [of _ c]) simp
  then show ?thesis using m(1,2) by auto
qed

lemma spent_refused:
  assumes "jwt_documented jl" and "spent jl clock vf t" and "now \<le> clock" and "map_of (snd m) ''token'' = Some (JText t)"
  shows "handshake_token jl keys clock aud now m vf \<noteq> (Inr request, vf')"
proof
  assume g: "handshake_token jl keys clock aud now m vf = (Inr request, vf')"
  obtain msg t' c where m: "m = (HANDSHAKE_TAG, msg)" "map_of msg ''token'' = Some (JText t')"
      "token_accepted jl keys clock t' aud visitor_uses vf = Some c"
      "tc_jti c \<notin> fst ` set (vf_seen_jti (sweep_expired now vf))"
    using handshake_granted [OF g] by blast
  have t: "t' = t" using m(1,2) assms(4) by simp
  obtain key where d: "jw_decode jl t key (vf_issuer vf) aud required_claims clock = Some c"
    using m(3) t by (auto simp: token_accepted_Some)
  have "(tc_jti c, tc_exp c) \<in> set (vf_seen_jti vf) \<or> tc_exp c \<le> clock"
    using assms(2) d unfolding spent_def by blast
  moreover have "clock < tc_exp c" using decoded(1) [OF assms(1) d] .
  ultimately have "(tc_jti c, tc_exp c) \<in> set (vf_seen_jti (sweep_expired now vf))"
    using assms(3) by (auto simp: sweep_expired_def)
  then show False using m(4) by force
qed

lemma granted_avoids_spent:
  assumes "jwt_documented jl"
  shows "spent jl clock vf t \<Longrightarrow> \<forall>v\<in>set vs. clock \<le> vi_clock v \<Longrightarrow> \<forall>v\<in>set vs. vi_now v \<le> vi_clock v \<Longrightarrow>
    sorted (map vi_clock vs) \<Longrightarrow> Some (JText t) \<notin> fst ` set (granted jl vf vs)"
proof (induction vs arbitrary: vf clock)
  case (Cons v vs)
  obtain res vf' where h: "handshake_token jl (vi_keys v) (vi_clock v) (vi_audience v) (vi_now v) (vi_message v) vf = (res, vf')"
    by fastforce
  have now: "vi_now v \<le> vi_clock v" and spent: "spent jl (vi_clock v) vf t"
    using Cons.prems spent_later by auto
  have "Some (JText t) \<notin> fst ` set (granted jl vf' vs)"
    using Cons.IH [OF spent_kept [OF h spent now]] Cons.prems by auto
  moreover have "map_of (snd (vi_message v)) ''token'' \<noteq> Some (JText t)" if "res = Inr request" for request
    using spent_refused [OF assms spent now, of "vi_message v"] h that by blast
  ultimately show ?case using h by (cases res) auto
qed simp

text \<open>
  C17. A token opens one tunnel, or ends one connection, and only once. However many visitors come to a
  relay, through whichever bastions, at any time and with whatever messages, no two requests that it grants show the
  same token, although it forgets tokens that have expired: provided the clock does not go back, it never
  grants a token again.
\<close>

theorem token_admits_once:
  assumes "jwt_documented jl" and "\<forall>v\<in>set vs. vi_now v \<le> vi_clock v" and "sorted (map vi_clock vs)"
  shows "distinct (map fst (granted jl vf vs))"
  using assms(2,3)
proof (induction vs arbitrary: vf)
  case (Cons v vs)
  obtain res vf' where h: "handshake_token jl (vi_keys v) (vi_clock v) (vi_audience v) (vi_now v) (vi_message v) vf = (res, vf')"
    by fastforce
  show ?case
  proof (cases res)
    case (Inr request)
    obtain t where "map_of (snd (vi_message v)) ''token'' = Some (JText t)" "spent jl (vi_clock v) vf' t"
      using granted_spends [OF assms(1) h [unfolded Inr]] by blast
    then show ?thesis
      using granted_avoids_spent [OF assms(1), of "vi_clock v" vf' t vs] Cons h Inr by auto
  qed (use Cons h in auto)
qed simp

section \<open>What reaches the SSH server\<close>

lemma read_exactly_Inr:
  assumes "read_exactly lib n r = (Inr b, r')" and "[] \<notin> set (fr_chunks r)"
  shows "incoming lib r = b @ incoming lib r'" and "length b = n" and "[] \<notin> set (fr_chunks r')"
    and "fr_cipher r = None \<Longrightarrow> fr_cipher r' = None"
proof -
  have "n \<le> length (incoming lib r) \<and> incoming lib r = b @ incoming lib r' \<and> length b = n \<and> [] \<notin> set (fr_chunks r') \<and>
    (fr_cipher r = None \<longrightarrow> fr_cipher r' = None)"
    using assms
  proof (induction lib n r rule: read_exactly.induct)
    case (1 lib n r)
    show ?case
    proof (cases "n \<le> length (fr_buf r)")
      case True
      then show ?thesis using "1.prems" by (auto simp: read_exactly.simps [of lib n r] incoming_def)
    next
      case False
      then obtain data chunks where c: "fr_chunks r = data # chunks" "data \<noteq> []"
        using "1.prems" by (cases "fr_chunks r") (auto simp: read_exactly.simps [of lib n r])
      obtain plain cipher where d: "decipher lib (fr_cipher r) data = (plain, cipher)" by fastforce
      let ?r = "\<lparr>fr_chunks = chunks, fr_cipher = cipher, fr_buf = fr_buf r @ plain\<rparr>"
      have "incoming lib ?r = incoming lib r" using c d by (simp add: incoming_def)
      moreover have "read_exactly lib n ?r = (Inr b, r')"
        using "1.prems"(1) False c d by (simp add: read_exactly.simps [of lib n r])
      moreover have "fr_cipher r = None \<Longrightarrow> cipher = None" using d by (simp add: decipher_def)
      ultimately show ?thesis
        using "1.IH" [OF False c(1,2) d [symmetric]] "1.prems"(2) c by auto
    qed
  qed
  then show "incoming lib r = b @ incoming lib r'" and "length b = n" and "[] \<notin> set (fr_chunks r')"
    and "fr_cipher r = None \<Longrightarrow> fr_cipher r' = None" by blast+
qed

text \<open>The bytes of a message, as a reader takes them.\<close>

definition message_bytes :: "json_codec \<Rightarrow> byte list \<Rightarrow> frp_message \<Rightarrow> bool" where
  "message_bytes jc bs m \<longleftrightarrow> (\<exists>header data. bs = header @ data \<and> length header = 9 \<and> length data = be_value (tl header) \<and>
    jc_loads jc data = Some (snd m) \<and> fst m = char_of (unat (hd header)))"

lemma read_frame_Inr:
  assumes "read_frame jc lib r = (Inr m, r')" and "[] \<notin> set (fr_chunks r)"
  shows "\<exists>bs. message_bytes jc bs m \<and> incoming lib r = bs @ incoming lib r' \<and> [] \<notin> set (fr_chunks r') \<and>
    (fr_cipher r = None \<longrightarrow> fr_cipher r' = None)"
proof -
  obtain header r1 data where h: "read_exactly lib 9 r = (Inr header, r1)"
      "read_exactly lib (be_value (tl header)) r1 = (Inr data, r')"
      "jc_loads jc data = Some (snd m)" "fst m = char_of (unat (hd header))"
    using assms(1) by (auto simp: read_frame_def act_Inr split: option.splits)
  note a = read_exactly_Inr [OF h(1) assms(2)]
  note b = read_exactly_Inr [OF h(2) a(3)]
  have "message_bytes jc (header @ data) m"
    unfolding message_bytes_def using a(2) b(2) h(3,4) by (intro exI [of _ header] exI [of _ data]) simp
  then show ?thesis using a b by (intro exI [of _ "header @ data"]) simp
qed

text \<open>What was written to the SSH server, and the tunnels that were opened.\<close>

definition written :: "relay_event list \<Rightarrow> byte list" where
  "written es = concat (List.map_filter (\<lambda>e. case e of Wrote b \<Rightarrow> Some b | _ \<Rightarrow> None) es)"

definition opened :: "relay_event list \<Rightarrow> relay_request list" where
  "opened es = List.map_filter (\<lambda>e. case e of Opened_Tunnel c t d \<Rightarrow> Some (Connect_Tunnel c t d) | _ \<Rightarrow> None) es"

lemma written_wrote: "written (map Wrote bs) = concat bs" "opened (map Wrote bs) = []"
  by (induction bs) (simp_all add: written_def opened_def map_filter_simps)

lemma events_append: "written (es @ fs) = written es @ written fs" "opened (es @ fs) = opened es @ opened fs"
  by (induction es) (simp_all add: written_def opened_def map_filter_simps split: relay_event.splits option.splits)

lemma events_head:
  "written (Sent m # es) = written es" "written (Opened_Tunnel c t d # es) = written es"
  "opened (Sent m # es) = opened es" "opened (Opened_Tunnel c t d # es) = Connect_Tunnel c t d # opened es"
  "written [] = []" "opened [] = []"
  by (simp_all add: written_def opened_def map_filter_simps)

text \<open>
  C18. The SSH server of a host gets nothing before a token. Whatever a visitor sends and however it is
  cut, either nothing is written to the SSH server and no tunnel is opened, or the bytes were two messages,
  the second with a token that the relay grants for this one tunnel, and exactly the bytes after these
  two messages are written, in order.
\<close>

theorem relay_writes_after_token:
  assumes "handle_work_conn jc lib jl keys clock now run_id frpc_user chunks re = (events, re')" and "[] \<notin> set chunks"
  shows "(written events = [] \<and> opened events = []) \<or>
    (\<exists>first second msg m request. concat chunks = first @ second @ written events \<and>
      message_bytes jc first (CHR ''s'', msg) \<and> message_bytes jc second m \<and>
      handshake_token jl keys clock frpc_user now m (re_verifier re) = (Inr request, re_verifier re') \<and>
      opened events = [request])"
proof (cases "opened events = [] \<and> written events = []")
  case False
  obtain tag msg r1 where one: "read_frame jc lib (FrpReader chunks None) = (Inr (tag, msg), r1)"
    using assms(1) False by (auto simp: handle_work_conn_def Let_def events_head split: prod.splits sum.splits)
  have tag: "tag = CHR ''s''" "\<not> truthy (map_of msg ''error'')"
    using assms(1) False one by (auto simp: handle_work_conn_def Let_def events_head split: if_splits)
  obtain m r2 where two: "read_frame jc lib r1 = (Inr m, r2)"
    using assms(1) False one tag by (cases "read_frame jc lib r1"; cases "fst (read_frame jc lib r1)")
      (auto simp: handle_work_conn_def Let_def events_head)
  obtain cid token_id d vf where h: "handshake_token jl keys clock frpc_user now m (re_verifier re) = (Inr (Connect_Tunnel cid token_id d), vf)"
    using assms(1) False one tag two
    by (auto simp: handle_work_conn_def Let_def events_head split: prod.splits sum.splits relay_request.splits)
  have ev: "events = Sent (CHR ''w'', [(''run_id'', JText run_id)]) # Sent acceptance # Opened_Tunnel cid token_id d # map Wrote (pump_all lib 65535 r2)"
      "re_verifier re' = vf"
    using assms(1) one tag two h by (auto simp: handle_work_conn_def Let_def)
  obtain bs1 where bs1: "message_bytes jc bs1 (CHR ''s'', msg)" "concat chunks = bs1 @ incoming lib r1" "[] \<notin> set (fr_chunks r1)"
      "fr_cipher r1 = None"
    using read_frame_Inr [OF one] assms(2) tag(1) by (auto simp: FrpReader_def incoming_def plaintext_open)
  obtain bs2 where bs2: "message_bytes jc bs2 m" "incoming lib r1 = bs2 @ incoming lib r2" "[] \<notin> set (fr_chunks r2)"
      "fr_cipher r2 = None"
    using read_frame_Inr [OF two bs1(3)] bs1(4) by blast
  have "written events = incoming lib r2"
    using ev(1) pump_all_run [OF bs2(4,3)] by (simp add: events_head written_wrote)
  moreover have "opened events = [Connect_Tunnel cid token_id d]" using ev(1) by (simp add: events_head written_wrote)
  ultimately show ?thesis using bs1 bs2 h ev(2) by (intro disjI2 exI conjI) auto
qed simp

section \<open>A sample\<close>

text \<open>
  A token that spells its claims out and names the key that signed it: every character is preceded by one mark
  and every text ended by another. A public key is the private key.
\<close>

fun pack :: "string list \<Rightarrow> string" where
  "pack [] = []"
| "pack (s # ss) = concat (map (\<lambda>c. [CHR ''c'', c]) s) @ CHR '';'' # pack ss"

fun unpack :: "string \<Rightarrow> string \<Rightarrow> string list" where
  "unpack acc (x # c # rest) = (if x = CHR '';'' then rev acc # unpack [] (c # rest) else unpack (c # acc) rest)"
| "unpack acc [x] = [rev acc]"
| "unpack acc [] = []"

lemma unpack_text: "unpack acc (concat (map (\<lambda>c. [CHR ''c'', c]) s) @ CHR '';'' # pack ss) =
    (rev acc @ s) # unpack [] (pack ss)"
  by (induction s arbitrary: acc) (simp_all, cases "pack ss", simp_all)

lemma unpack_pack: "unpack [] (pack ss) = ss"
  by (induction ss) (simp_all add: unpack_text)

definition claim_texts :: "token_claims \<Rightarrow> string \<Rightarrow> string \<Rightarrow> string list" where
  "claim_texts c k kid = [tc_sub c, tc_iss c, tc_aud c, show_int (tc_iat c), show_int (tc_exp c), tc_jti c, tc_name c,
    tc_use c, (case tc_deadline c of None \<Rightarrow> [] | Some d \<Rightarrow> show_int d),
    (case tc_cid c of None \<Rightarrow> [] | Some i \<Rightarrow> CHR ''i'' # i), k, kid]"

definition claims_of_texts :: "string list \<Rightarrow> (token_claims \<times> string \<times> string) option" where
  "claims_of_texts ts = (case ts of
     [sub, iss, aud, iat, expires, jti, name, purpose, d, cid, k, kid] \<Rightarrow>
       (case (parse_int iat, parse_int expires) of
          (Some iat, Some expires) \<Rightarrow> Some (\<lparr>tc_sub = sub, tc_iss = iss, tc_aud = aud, tc_iat = iat, tc_exp = expires,
            tc_jti = jti, tc_name = name, tc_use = purpose, tc_deadline = (if d = [] then None else parse_int d),
            tc_cid = (case cid of [] \<Rightarrow> None | _ # i \<Rightarrow> Some i)\<rparr>, k, kid)
        | _ \<Rightarrow> None)
   | _ \<Rightarrow> None)"

lemma show_int_not_Nil [simp]: "show_int i \<noteq> []"
  by (simp add: show_int_def)

lemma claims_of_claim_texts: "claims_of_texts (claim_texts c k kid) = Some (c, k, kid)"
  by (cases c) (auto simp: claims_of_texts_def claim_texts_def parse_show_int split: option.splits)

definition sample_jwt :: jwt_lib where
  "sample_jwt = \<lparr>jw_encode = (\<lambda>c k kid. pack (claim_texts c k kid)),
    jw_kid = (\<lambda>t. map_option (\<lambda>(c, k, kid). Some kid) (claims_of_texts (unpack [] t))),
    jw_decode = (\<lambda>t key iss aud req now. case claims_of_texts (unpack [] t) of
        Some (c, k, kid) \<Rightarrow> if k = key \<and> tc_iss c = iss \<and> tc_aud c = aud \<and> now < tc_exp c then Some c else None
      | None \<Rightarrow> None),
    jw_ed25519 = (\<lambda>_. True), jw_sha256_hex = (\<lambda>_. ''0123456789abcdef'')\<rparr>"

lemma sample_jwt_documented: "jwt_documented sample_jwt"
  by (simp add: jwt_documented_def sample_jwt_def unpack_pack claims_of_claim_texts split: option.splits)

lemma sample_jwt_run:
  "jw_decode sample_jwt (jw_encode sample_jwt c k kid) key iss aud req now =
    (if k = key \<and> tc_iss c = iss \<and> tc_aud c = aud \<and> now < tc_exp c then Some c else None)"
  "jw_kid sample_jwt (jw_encode sample_jwt c k kid) = Some (Some kid)"
  by (simp_all add: sample_jwt_def unpack_pack claims_of_claim_texts)

text \<open>A relay that was asked for nothing yet grants the request of a good token.\<close>

lemma sample_handshake:
  assumes "tc_use c = ''connect''" and "tc_cid c = Some cid" and "clock < tc_exp c"
  shows "handshake_token sample_jwt Some clock (tc_aud c) now
      (HANDSHAKE_TAG, [(''token'', JText (jw_encode sample_jwt c k k))]) (SingleIssuerVerifier (tc_iss c)) =
    (Inr (Connect_Tunnel cid (tc_jti c) (tc_deadline c)),
     \<lparr>vf_issuer = tc_iss c, vf_seen_jti = [(tc_jti c, tc_exp c)]\<rparr>)"
  using assms by (simp add: handshake_token_def verify_token_def token_accepted_def sample_jwt_run Let_def
      SingleIssuerVerifier_def sweep_expired_def visitor_uses_def)

definition token_world :: "ssh_connection_row table \<Rightarrow> world" where
  "token_world connections = ssh_world\<lparr>w_db := (w_db ssh_world)\<lparr>db_ssh_connection := connections,
    db_oidc_key := \<lparr>tb_rows = [\<lparr>ok_id = 1, ok_private_key = ''oidc'', ok_public_key = ''oidc'', ok_valid_after = 0,
      ok_valid_before = 5000, ok_created_at = 0\<rparr>], tb_seq = 1\<rparr>\<rparr>\<rparr>"

lemma sample_token:
  "\<exists>c token. generate_token sample_jwt plain_crypto ann_admin ''db1'' Connect d (Some cid) (token_world connections) =
      (Inr token, token_world connections) \<and> token = jw_encode sample_jwt c ''oidc'' ''oidc'' \<and>
    tc_use c = ''connect'' \<and> tc_cid c = Some cid \<and> tc_exp c = 1060 \<and> tc_jti c = ''u1'' \<and> tc_deadline c = d"
proof -
  have key: "get_private_key plain_crypto ann_admin (token_world connections) = (Inr ''oidc'', token_world connections)"
    by code_simp
  obtain me where "identity_read_self ann_admin (token_world connections) = (Inr (Some me), token_world connections)"
  proof -
    have "case fst (identity_read_self ann_admin (token_world connections)) of Inr (Some me) \<Rightarrow> True | _ \<Rightarrow> False"
      by code_simp
    moreover obtain res w where run: "identity_read_self ann_admin (token_world connections) = (res, w)" by (rule prod.exhaust)
    moreover have "w = token_world connections"
      using identity_read_self_keeps [of "\<lambda>s. s = token_world connections", THEN keepsD, OF run] by simp
    ultimately show ?thesis using that by (auto split: sum.splits option.splits)
  qed
  then show ?thesis
    using key by (auto simp: generate_token_def sign_token_def act_defs sample_jwt_def ann_admin_def ann_def sample_cx_def
        plain_crypto_def)
qed

theorem tunnel_follows_certificate_witness:
  "\<exists>r w' token vf'. sign_user_certificate plain_crypto ann_admin shell_request ssh_world = (Inr r, w') \<and>
    handshake_token sample_jwt Some 1010 (''db1-'' @ tenant_label sample_jwt ann_admin) 1010
      (HANDSHAKE_TAG, [(''token'', JText token)]) (SingleIssuerVerifier (token_issuer ann_admin)) =
      (Inr (Connect_Tunnel ''u1'' ''u1'' (Some 1060)), vf') \<and>
    tunnel_timeout 1020 (Some 1060) = Some 40"
proof -
  obtain r w' where s: "sign_user_certificate plain_crypto ann_admin shell_request ssh_world = (Inr r, w')"
      "map (\<lambda>c. ex_session_deadline (cert_extensions c)) (ucs_certificates r) = [Some 1060]"
      "ucs_connection_id r = ''u1''"
    using sample_signed by auto
  have me: "cx_identity_id ann_admin = Some 1" by (simp add: ann_admin_def ann_def)
  obtain cert where cert: "certified plain_crypto ann_admin shell_request ssh_world cert" "ucs_certificates r = [cert]"
    using sign_user_steps [OF s(1)] by metis
  then have before: "ce_valid_before cert = 1060"
    by (auto simp: certified_def user_certificate_def create_user_def ann_admin_def ann_def sample_cx_def sample_config_def)
  let ?v = "token_world (db_ssh_connection (w_db w'))"
  have v: "db_ssh_connection (w_db ?v) = db_ssh_connection (w_db w')" by (simp add: token_world_def)
  obtain c token where t: "generate_token sample_jwt plain_crypto ann_admin ''db1'' Connect (Some 1060) (Some ''u1'') ?v = (Inr token, ?v)"
      "token = jw_encode sample_jwt c ''oidc'' ''oidc''"
    and c: "tc_use c = ''connect''" "tc_cid c = Some ''u1''" "tc_exp c = 1060" "tc_jti c = ''u1''" "tc_deadline c = Some 1060"
    using sample_token by metis
  have asked: "read_self_token_endpoint (generate_token sample_jwt plain_crypto ann_admin) ann_admin ''bastion'' ''db1'' Connect
      (Some (ucs_connection_id r)) ?v = (Inr token, ?v)"
    using token_mirrors_certificate [OF s(1) me v, of "generate_token sample_jwt plain_crypto ann_admin" ann_admin "''db1''"]
      s(2,3) cert(2) before t(1) by (auto simp: me shell_request_def) (simp_all add: ann_admin_def ann_def sample_cx_def)
  obtain c' k kid where "token = jw_encode sample_jwt c' k kid" "tc_iss c' = token_issuer ann_admin"
      "tc_aud c' = ''db1'' @ ''-'' @ tenant_label sample_jwt ann_admin"
    using signed_token [of sample_jwt plain_crypto ann_admin "''db1''" "''connect''" "Some 1060" "Some ''u1''" ?v token ?v] t(1)
    by (auto simp: generate_token_def)
  moreover have "jw_decode sample_jwt token ''oidc'' (tc_iss c) (tc_aud c) [] 1000 = Some c"
    using t(2) c(3) by (simp add: sample_jwt_run)
  ultimately have c': "c = c'" "tc_iss c' = token_issuer ann_admin" "tc_aud c' = ''db1-'' @ tenant_label sample_jwt ann_admin"
    using decoded_encoded [OF sample_jwt_documented] by simp_all
  have h: "handshake_token sample_jwt Some 1010 (''db1-'' @ tenant_label sample_jwt ann_admin) 1010
      (HANDSHAKE_TAG, [(''token'', JText token)]) (SingleIssuerVerifier (token_issuer ann_admin)) =
      (Inr (Connect_Tunnel ''u1'' ''u1'' (Some 1060)), \<lparr>vf_issuer = token_issuer ann_admin, vf_seen_jti = [(''u1'', 1060)]\<rparr>)"
    using sample_handshake [OF c(1,2), of 1010 1010] c t(2) c' by simp
  have "cx_identity_id ann_admin = Some 1 \<and> tunnel_timeout 1020 (Some 1060) = Some 40"
    using tunnel_follows_certificate [OF sample_jwt_documented s(1) me v asked h] s(2)
    by (auto simp: tunnel_timeout_def me)
  then show ?thesis using s(1) h by blast
qed

theorem token_admits_once_witness:
  "\<exists>c. let v = \<lparr>vi_message = (HANDSHAKE_TAG, [(''token'', JText (jw_encode sample_jwt c ''k'' ''k''))]),
      vi_audience = tc_aud c, vi_now = 1000, vi_clock = 1010, vi_keys = Some\<rparr>
    in granted sample_jwt (SingleIssuerVerifier (tc_iss c)) [v] =
        [(Some (JText (jw_encode sample_jwt c ''k'' ''k'')), Connect_Tunnel ''u1'' ''j'' None)] \<and>
      distinct (map fst (granted sample_jwt (SingleIssuerVerifier (tc_iss c)) [v, v]))"
proof -
  obtain c where c: "c = \<lparr>tc_sub = ''1'', tc_iss = ''i'', tc_aud = ''a'', tc_iat = 1000, tc_exp = 1060, tc_jti = ''j'', tc_name = ''ann'',
      tc_use = ''connect'', tc_deadline = None, tc_cid = Some ''u1''\<rparr>" by blast
  define v where "v = \<lparr>vi_message = (HANDSHAKE_TAG, [(''token'', JText (jw_encode sample_jwt c ''k'' ''k''))]),
      vi_audience = tc_aud c, vi_now = 1000, vi_clock = 1010, vi_keys = Some\<rparr>"
  have "granted sample_jwt (SingleIssuerVerifier (tc_iss c)) [v] =
        [(Some (JText (jw_encode sample_jwt c ''k'' ''k'')), Connect_Tunnel ''u1'' ''j'' None)]"
    using sample_handshake [of c "''u1''" 1010 1000] c by (simp add: v_def)
  moreover have "distinct (map fst (granted sample_jwt (SingleIssuerVerifier (tc_iss c)) [v, v]))"
    using token_admits_once [OF sample_jwt_documented, of "[v, v]" "SingleIssuerVerifier (tc_iss c)"] by (simp add: v_def)
  ultimately show ?thesis unfolding v_def Let_def by blast
qed

text \<open>The first byte of a message is its tag; then comes its length.\<close>

definition token_codec :: "string \<Rightarrow> json_codec" where
  "token_codec token = \<lparr>jc_dumps = (\<lambda>_. []),
    jc_loads = (\<lambda>bs. Some (if bs = [] then [] else [(''token'', JText token)]))\<rparr>"

definition visitor_bytes :: "byte list list" where
  "visitor_bytes = [[115, 0, 0, 0, 0], [0, 0, 0, 0, 84, 0, 0, 0, 0, 0, 0, 0, 1, 7, 83, 83], [72]]"

theorem relay_writes_after_token_witness:
  "\<exists>c te. handle_work_conn (token_codec (jw_encode sample_jwt c ''k'' ''k'')) no_cipher sample_jwt Some 1010 1000 ''r'' (tc_aud c)
      visitor_bytes \<lparr>re_verifier = SingleIssuerVerifier (tc_iss c), re_terminator = te\<rparr> =
    ([Sent (CHR ''w'', [(''run_id'', JText ''r'')]), Sent acceptance, Opened_Tunnel ''u1'' ''j'' None, Wrote [83, 83], Wrote [72]],
     \<lparr>re_verifier = \<lparr>vf_issuer = tc_iss c, vf_seen_jti = [(''j'', 1060)]\<rparr>, re_terminator = te\<rparr>) \<and>
    (\<exists>first second. concat visitor_bytes = first @ second @ [83, 83, 72])"
proof -
  define c where "c = \<lparr>tc_sub = ''1'', tc_iss = ''i'', tc_aud = ''a'', tc_iat = 1000, tc_exp = 1060, tc_jti = ''j'', tc_name = ''ann'',
      tc_use = ''connect'', tc_deadline = None, tc_cid = Some ''u1''\<rparr>"
  let ?token = "jw_encode sample_jwt c ''k'' ''k''" and ?te = "\<lparr>te_kill_dir = None, te_tunnels = [], te_closed = []\<rparr>"
  have tags: "char_of (115 :: nat) = CHR ''s''" "char_of (84 :: nat) = CHR ''T''"
    by code_simp+
  have "read_frame (token_codec t) no_cipher (FrpReader visitor_bytes None) =
      (Inr (CHR ''s'', []), \<lparr>fr_chunks = [[72]], fr_cipher = None, fr_buf = [84, 0, 0, 0, 0, 0, 0, 0, 1, 7, 83, 83]\<rparr>)"
    "read_frame (token_codec t) no_cipher \<lparr>fr_chunks = [[72]], fr_cipher = None, fr_buf = [84, 0, 0, 0, 0, 0, 0, 0, 1, 7, 83, 83]\<rparr> =
      (Inr (CHR ''T'', [(''token'', JText t)]), \<lparr>fr_chunks = [[72]], fr_cipher = None, fr_buf = [83, 83]\<rparr>)" for t
    by (simp_all add: read_frame_def and_then_def read_exactly.simps decipher_def FrpReader_def visitor_bytes_def
        token_codec_def ret_def tags)
  moreover have "pump_all no_cipher 65535 \<lparr>fr_chunks = [[72]], fr_cipher = None, fr_buf = [83, 83]\<rparr> = [[83, 83], [72]]"
    by (simp add: pump_all.simps read_some_def decipher_def)
  ultimately have run: "handle_work_conn (token_codec ?token) no_cipher sample_jwt Some 1010 1000 ''r'' (tc_aud c)
      visitor_bytes \<lparr>re_verifier = SingleIssuerVerifier (tc_iss c), re_terminator = ?te\<rparr> =
    ([Sent (CHR ''w'', [(''run_id'', JText ''r'')]), Sent acceptance, Opened_Tunnel ''u1'' ''j'' None, Wrote [83, 83], Wrote [72]],
     \<lparr>re_verifier = \<lparr>vf_issuer = tc_iss c, vf_seen_jti = [(''j'', 1060)]\<rparr>, re_terminator = ?te\<rparr>)"
    using sample_handshake [of c "''u1''" 1010 1000]
    by (simp add: handle_work_conn_def Let_def truthy_def HANDSHAKE_TAG_def c_def)
  moreover have "\<exists>first second. concat visitor_bytes = first @ second @ [83, 83, 72]"
    using relay_writes_after_token [OF run] by (auto simp: events_head written_def map_filter_simps visitor_bytes_def)
  ultimately show ?thesis by blast
qed

end
