(* ===== verification/Reconnect.thy ===== *)
theory Reconnect
  imports Complex_Main
begin

text \<open>
  How long a relay waits before it connects to a bastion again, \<open>_reconnect_delay\<close> and the loop of
  \<open>_run_frp_client\<close> in \<open>cli/pf/bastion_cli.py\<close>.
\<close>

text \<open>
  The delays are in seconds, and powers of two of them, so that halving is exact; \<open>uniform\<close> is the generator
  of random numbers.
\<close>

definition RECONNECT_MIN_DELAY :: real where "RECONNECT_MIN_DELAY = 1"
definition RECONNECT_MAX_DELAY :: real where "RECONNECT_MAX_DELAY = 60"
definition RECONNECT_STABLE_SECONDS :: real where "RECONNECT_STABLE_SECONDS = 60"
definition RECONNECT_MAX_DOUBLINGS :: nat where "RECONNECT_MAX_DOUBLINGS = 6"

definition reconnect_ceiling :: "nat \<Rightarrow> real" where
  "reconnect_ceiling failures =
    min RECONNECT_MAX_DELAY (RECONNECT_MIN_DELAY * 2 ^ min (failures - 1) RECONNECT_MAX_DOUBLINGS)"

definition reconnect_delay :: "(real \<Rightarrow> real \<Rightarrow> real) \<Rightarrow> nat \<Rightarrow> real" where
  "reconnect_delay uniform failures =
    uniform (max RECONNECT_MIN_DELAY (reconnect_ceiling failures / 2)) (reconnect_ceiling failures)"

text \<open>
  One attempt of \<open>_run_frp_client\<close>: no token, or a connection that lasted so long. Its result is the number of
  failures in a row.
\<close>

datatype attempt = No_Token | Lasted real

definition failures_after :: "attempt \<Rightarrow> nat \<Rightarrow> nat" where
  "failures_after a failures = (case a of
     No_Token \<Rightarrow> failures + 1
   | Lasted d \<Rightarrow> (if d \<ge> RECONNECT_STABLE_SECONDS then 0 else failures) + 1)"

fun reconnect_delays :: "(nat \<Rightarrow> real \<Rightarrow> real \<Rightarrow> real) \<Rightarrow> nat \<Rightarrow> attempt list \<Rightarrow> real list" where
  "reconnect_delays uniform failures [] = []"
| "reconnect_delays uniform failures (a # as) = (let n = failures_after a failures
    in reconnect_delay (uniform (length as)) n # reconnect_delays uniform n as)"

text \<open>The number of doublings is what the source computes.\<close>

lemma max_doublings_computed: "RECONNECT_MAX_DOUBLINGS = nat \<lceil>log 2 (RECONNECT_MAX_DELAY / RECONNECT_MIN_DELAY)\<rceil>"
proof -
  have "log 2 60 \<le> 6" by (simp add: log_le_iff)
  moreover have "5 < log 2 60" by (simp add: less_log_iff)
  ultimately have "\<lceil>log 2 60\<rceil> = 6" by (simp add: ceiling_eq_iff)
  then show ?thesis by (simp add: RECONNECT_MAX_DOUBLINGS_def RECONNECT_MAX_DELAY_def RECONNECT_MIN_DELAY_def)
qed

section \<open>Bounds\<close>

definition uniform_ok :: "(real \<Rightarrow> real \<Rightarrow> real) \<Rightarrow> bool" where
  "uniform_ok u \<longleftrightarrow> (\<forall>a b. a \<le> b \<longrightarrow> a \<le> u a b \<and> u a b \<le> b)"

lemma reconnect_ceiling_bounds: "1 \<le> reconnect_ceiling n" "reconnect_ceiling n \<le> 60"
  by (simp_all add: reconnect_ceiling_def RECONNECT_MIN_DELAY_def RECONNECT_MAX_DELAY_def)

lemma reconnect_ceiling_mono: "m \<le> n \<Longrightarrow> reconnect_ceiling m \<le> reconnect_ceiling n"
  unfolding reconnect_ceiling_def RECONNECT_MIN_DELAY_def
  by (intro min.mono mult_left_mono power_increasing) auto

lemma reconnect_ceiling_full:
  assumes "7 \<le> n"
  shows "reconnect_ceiling n = 60"
proof -
  have "min (n - 1) 6 = 6" using assms by simp
  then show ?thesis
    by (simp add: reconnect_ceiling_def RECONNECT_MIN_DELAY_def RECONNECT_MAX_DELAY_def RECONNECT_MAX_DOUBLINGS_def)
qed

lemma reconnect_delay_bounds:
  assumes "uniform_ok u"
  shows "1 \<le> reconnect_delay u n" "reconnect_delay u n \<le> 60" "7 \<le> n \<Longrightarrow> 30 \<le> reconnect_delay u n"
proof -
  have le: "max RECONNECT_MIN_DELAY (reconnect_ceiling n / 2) \<le> reconnect_ceiling n"
    using reconnect_ceiling_bounds(1) [of n] by (simp add: RECONNECT_MIN_DELAY_def)
  have b: "max RECONNECT_MIN_DELAY (reconnect_ceiling n / 2) \<le> reconnect_delay u n" "reconnect_delay u n \<le> reconnect_ceiling n"
    using assms le unfolding uniform_ok_def reconnect_delay_def by blast+
  show "1 \<le> reconnect_delay u n" using b(1) by (simp add: RECONNECT_MIN_DELAY_def)
  show "reconnect_delay u n \<le> 60" using b(2) reconnect_ceiling_bounds(2) [of n] by simp
  show "7 \<le> n \<Longrightarrow> 30 \<le> reconnect_delay u n" using b(1) reconnect_ceiling_full [of n] by simp
qed

lemma reconnect_delays_length [simp]: "length (reconnect_delays u n as) = length as"
  by (induction as arbitrary: n) (simp_all add: Let_def)

text \<open>
  A relay never hammers a bastion and never gives up on it. Every wait between two attempts is at least
  one and at most sixty seconds, whatever happens; and once seven attempts in a row have failed or held
  for less than a minute, every further such attempt is followed by a wait of at least half a minute.
\<close>

lemma reconnect_delays_bounded:
  assumes "\<forall>k. uniform_ok (uniform k)" and "i < length as"
  shows "1 \<le> reconnect_delays uniform n as ! i \<and> reconnect_delays uniform n as ! i \<le> 60 \<and>
    (6 \<le> i \<and> (\<forall>k\<in>{i - 6..i}. \<forall>d. as ! k = Lasted d \<longrightarrow> d < RECONNECT_STABLE_SECONDS) \<longrightarrow>
      30 \<le> reconnect_delays uniform n as ! i)"
proof -
  define count where "count j = fold failures_after (take (Suc j) as) n" for j
  have nth: "i < length bs \<Longrightarrow> reconnect_delays uniform m bs ! i =
      reconnect_delay (uniform (length bs - Suc i)) (fold failures_after (take (Suc i) bs) m)" for bs m i
  proof (induction bs arbitrary: m i)
    case (Cons b bs)
    then show ?case by (cases i) (simp_all add: Let_def)
  qed simp
  note at = nth [OF assms(2), of n, folded count_def]
  have "7 \<le> count i" if "6 \<le> i" and short: "\<forall>k\<in>{i - 6..i}. \<forall>d. as ! k = Lasted d \<longrightarrow> d < RECONNECT_STABLE_SECONDS"
  proof -
    have "Suc j \<le> count (i - 6 + j)" if "j \<le> 6" for j
      using that
    proof (induction j)
      case 0
      have "count (i - 6) \<ge> 1"
        using assms(2) by (auto simp: count_def take_Suc_conv_app_nth failures_after_def split: attempt.splits)
      then show ?case by simp
    next
      case (Suc j)
      let ?k = "i - 6 + Suc j"
      have k: "?k < length as" "?k \<in> {i - 6..i}" using Suc.prems assms(2) \<open>6 \<le> i\<close> by auto
      have "count ?k = failures_after (as ! ?k) (count (i - 6 + j))"
        using k(1) by (simp add: count_def take_Suc_conv_app_nth)
      moreover have "failures_after (as ! ?k) m = m + 1" for m
        using bspec [OF short k(2)] by (cases "as ! ?k") (auto simp: failures_after_def not_le)
      ultimately show ?case using Suc by simp
    qed
    from this [of 6] show ?thesis using \<open>6 \<le> i\<close> by simp
  qed
  then show ?thesis
    using at reconnect_delay_bounds [of "uniform (length as - Suc i)" "count i"] assms(1) by auto
qed

lemma reconnect_delays_bounded_witness:
  "reconnect_delays (\<lambda>_ a b. a) 0 (replicate 7 No_Token) ! 6 = 30 \<and>
    30 \<le> reconnect_delays (\<lambda>_ a b. a) 0 (replicate 7 No_Token) ! 6"
proof -
  have "reconnect_delays (\<lambda>_ a b. a) 0 (replicate 7 No_Token) ! 6 = 30"
    by (simp add: numeral_eq_Suc Let_def failures_after_def reconnect_delay_def reconnect_ceiling_def
        RECONNECT_MIN_DELAY_def RECONNECT_MAX_DELAY_def RECONNECT_MAX_DOUBLINGS_def)
  then show ?thesis
    using reconnect_delays_bounded [of "\<lambda>_ a b. a" 6 "replicate 7 No_Token" 0] by (simp add: uniform_ok_def)
qed

end
