(* ===== verification/Client_Requests.thy ===== *)
theory Client_Requests
  imports Signature
begin

text \<open>
  The client library, \<open>http_signatures.py\<close>, \<open>signer.py\<close> and \<open>http_session.py\<close> of \<open>provablyfine_client\<close>: signing
  a request and sending it. Header names are kept in lower case, as in \<open>Signature\<close>, and the HTTP library
  looks them up so. Writing structured fields is in the record \<open>http_lib\<close> of the server and, for a byte
  string, the argument \<open>show_bytes\<close>; the clock and the nonces are arguments. Times are in microseconds.
\<close>

section \<open>Signing\<close>

record signer =
  si_prefix :: string
  si_thumbprint :: string
  si_sign :: "string \<Rightarrow> string"

definition signer_key_id :: "signer \<Rightarrow> string" where
  "signer_key_id s = si_prefix s @ '':'' @ si_thumbprint s"

definition client_component :: "http_request \<Rightarrow> string \<Rightarrow> string \<Rightarrow> exn + string" where
  "client_component r sig_params c =
    (if c = ''@method'' then Inr (rq_method r)
     else if c = ''@authority'' then Inr (rq_netloc r)
     else if c = ''@target-uri'' then Inr (rq_url r)
     else if c = ''@signature-params'' then Inr sig_params
     else case header_of r c of None \<Rightarrow> Inl KeyError | Some v \<Rightarrow> Inr v)"

definition client_signature_base :: "http_request \<Rightarrow> string list \<Rightarrow> string \<Rightarrow> exn + string" where
  "client_signature_base r covered sig_params =
    (case collect (\<lambda>c. case client_component r sig_params c of
         Inl e \<Rightarrow> Inl e | Inr v \<Rightarrow> Inr (CHR 0x22 # c @ CHR 0x22 # '': '' @ v)) covered of
       Inl e \<Rightarrow> Inl e | Inr parts \<Rightarrow> Inr (join_with [CHR 0x0A] parts))"

definition covered_components :: "string list" where
  "covered_components = [''@method'', ''@authority'', ''@target-uri'', ''content-digest'', ''@signature-params'']"

text \<open>A signer with the time and the nonce that it draws.\<close>

record draw =
  dr_signer :: signer
  dr_created :: int
  dr_nonce :: string

definition inner_of :: "draw \<Rightarrow> inner_list" where
  "inner_of d = \<lparr>in_items = covered_components,
    in_params = [(''created'', SfvInt (dr_created d)), (''keyid'', SfvStr (signer_key_id (dr_signer d))),
      (''nonce'', SfvStr (dr_nonce d))]\<rparr>"

definition sign_with :: "http_lib \<Rightarrow> (string \<Rightarrow> string) \<Rightarrow> http_request \<Rightarrow> draw \<Rightarrow> exn + string \<times> string" where
  "sign_with hl show_bytes r d = (let sig_params = hl_show_inner hl (inner_of d) in
     case client_signature_base r (in_items (inner_of d)) sig_params of
       Inl e \<Rightarrow> Inl e
     | Inr base \<Rightarrow> Inr (si_prefix (dr_signer d) @ ''='' @ sig_params,
         si_prefix (dr_signer d) @ ''='' @ show_bytes (si_sign (dr_signer d) base)))"

definition set_header :: "http_request \<Rightarrow> string \<Rightarrow> string \<Rightarrow> http_request" where
  "set_header r name v = r\<lparr>rq_headers := AList.update (lower name) v (rq_headers r)\<rparr>"

definition with_digest :: "http_lib \<Rightarrow> http_request \<Rightarrow> http_request" where
  "with_digest hl r = (if header_of r ''Content-Digest'' = None
     then set_header r ''Content-Digest'' (hl_digest hl (rq_body r)) else r)"

definition auth_call :: "http_lib \<Rightarrow> (string \<Rightarrow> string) \<Rightarrow> draw list \<Rightarrow> http_request \<Rightarrow> exn + http_request" where
  "auth_call hl show_bytes draws r = (let r = with_digest hl r in
     case collect (sign_with hl show_bytes r) draws of
       Inl e \<Rightarrow> Inl e
     | Inr signed \<Rightarrow> Inr (set_header
         (set_header r ''Signature-Input'' (join_with '', '' (map fst signed)))
         ''Signature'' (join_with '', '' (map snd signed))))"

section \<open>Sending\<close>

text \<open>
  What the library gives for one transmission. Of a response: its status, the time that \<open>float\<close> reads in
  \<open>Retry-After\<close>, which is not negative, and the title and the detail if its body is a JSON object, and its text.
\<close>

record response =
  rp_status :: int
  rp_retry_after :: "nat option"
  rp_problem :: "(string \<times> string option) option"
  rp_text :: string

datatype transmission = Answered response | Dropped_Connection | No_Connection | Read_Timeout

datatype client_error = UI_Failure string | Session_Expired string

definition SESSION_ENDED_TITLES :: "string list" where
  "SESSION_ENDED_TITLES = [''Session key is expired'', ''Session key is logged out'', ''Session key is revoked'',
    ''Session does not exist'']"

text \<open>The same signed request goes out once more when the server had closed the connection.\<close>

definition send_prepared :: "transmission \<Rightarrow> transmission \<Rightarrow> transmission" where
  "send_prepared first second = (if first = Dropped_Connection then second else first)"

definition error_of_response :: "response \<Rightarrow> client_error option" where
  "error_of_response rp =
    (if rp_status rp \<in> {400, 422} then
       let msg = (case rp_problem rp of
           None \<Rightarrow> rp_text rp
         | Some (t, None) \<Rightarrow> t
         | Some (t, Some d) \<Rightarrow> if d = [] then t else t @ '' '' @ d)
       in Some (UI_Failure (if msg = [] then rp_text rp else msg))
     else if rp_status rp = 401 then
       let t = (case rp_problem rp of None \<Rightarrow> [] | Some (t, _) \<Rightarrow> t)
       in if t \<in> set SESSION_ENDED_TITLES then Some (Session_Expired t) else None
     else None)"

text \<open>
  One attempt: what the two transmissions would give, and how long after the start the answer came.
  \<open>HttpSession.request\<close> goes on while the server asks to wait and there is time; its result is that of the last attempt.
\<close>

record exchange =
  at_first :: transmission
  at_second :: transmission
  at_elapsed :: int

definition retry_wait :: "int \<Rightarrow> exchange \<Rightarrow> nat option" where
  "retry_wait effective_timeout a = (case send_prepared (at_first a) (at_second a) of
     Answered rp \<Rightarrow> (if rp_status rp = 503
       then (case rp_retry_after rp of
           None \<Rightarrow> None
         | Some w \<Rightarrow> if at_elapsed a + int w < effective_timeout then Some w else None)
       else None)
   | _ \<Rightarrow> None)"

definition attempt_result :: "exchange \<Rightarrow> client_error + response" where
  "attempt_result a = (case send_prepared (at_first a) (at_second a) of
     Dropped_Connection \<Rightarrow> Inl (UI_Failure ''Unable to connect to server'')
   | No_Connection \<Rightarrow> Inl (UI_Failure ''Unable to connect to server'')
   | Read_Timeout \<Rightarrow> Inl (UI_Failure ''Request timed out'')
   | Answered rp \<Rightarrow> (case error_of_response rp of None \<Rightarrow> Inr rp | Some e \<Rightarrow> Inl e))"

fun send_request :: "int \<Rightarrow> exchange list \<Rightarrow> (client_error + response) option" where
  "send_request effective_timeout [] = None"
| "send_request effective_timeout (a # as) = (case retry_wait effective_timeout a of
     Some w \<Rightarrow> send_request effective_timeout as
   | None \<Rightarrow> Some (attempt_result a))"

end
