(* ===== verification/Client_Safety.thy ===== *)
theory Client_Safety
  imports Client_Requests Signature_Safety
begin

text \<open>
  The client and the server agree: a request that the client library signs passes the verification of the
  server, and what the server answers to a session that has ended makes the client log in again.
\<close>

section \<open>The base that both sides build\<close>

lemma client_base_same: "client_signature_base r (in_items inner) p = build_signature_base r inner p"
proof -
  have "client_component r p = component_value r p"
    by (simp add: fun_eq_iff client_component_def component_value_def)
  then have "(\<lambda>c. case client_component r p c of Inl e \<Rightarrow> Inl e | Inr v \<Rightarrow> Inr (CHR 0x22 # c @ CHR 0x22 # '': '' @ v)) = base_line r p"
    by (simp add: fun_eq_iff base_line_def quoted_def split: sum.splits)
  then show ?thesis by (simp add: client_signature_base_def build_signature_base_def)
qed

text \<open>The base depends on the parts of the request that it covers only.\<close>

definition same_request :: "http_request \<Rightarrow> http_request \<Rightarrow> bool" where
  "same_request r r2 \<longleftrightarrow> rq_method r2 = rq_method r \<and> rq_netloc r2 = rq_netloc r \<and> rq_url r2 = rq_url r \<and>
    rq_body r2 = rq_body r \<and>
    (\<forall>h\<in>{''content-digest'', ''signature-input'', ''signature''}. header_of r2 h = header_of r h)"

lemma lower_names:
  "lower ''Content-Digest'' = ''content-digest''" "lower ''content-digest'' = ''content-digest''"
  "lower ''Signature-Input'' = ''signature-input''" "lower ''signature-input'' = ''signature-input''"
  "lower ''Signature'' = ''signature''" "lower ''signature'' = ''signature''"
  by code_simp+

lemma header_capitals:
  "header_of r ''Content-Digest'' = header_of r ''content-digest''"
  "header_of r ''Signature-Input'' = header_of r ''signature-input''"
  "header_of r ''Signature'' = header_of r ''signature''"
  by (simp_all add: header_of_def lower_names)

lemma header_of_set: "header_of (set_header r n v) m = (if lower m = lower n then Some v else header_of r m)"
  by (simp add: header_of_def set_header_def update_conv')

lemma component_same:
  assumes "rq_method r2 = rq_method r" and "rq_netloc r2 = rq_netloc r" and "rq_url r2 = rq_url r"
    and "header_of r2 ''content-digest'' = header_of r ''content-digest''" and "c \<in> set covered_components"
  shows "base_line r2 p c = base_line r p c"
  using assms(5) unfolding covered_components_def
  by (simp, elim disjE; simp add: base_line_def component_value_def assms(1-4))

lemma collect_same: "(\<And>x. x \<in> set xs \<Longrightarrow> f x = g x) \<Longrightarrow> collect f xs = collect g xs"
  by (induction xs) (simp_all cong: sum.case_cong)

lemma base_same:
  assumes "rq_method r2 = rq_method r" and "rq_netloc r2 = rq_netloc r" and "rq_url r2 = rq_url r"
    and "header_of r2 ''content-digest'' = header_of r ''content-digest''" and "in_items inner = covered_components"
  shows "build_signature_base r2 inner p = build_signature_base r inner p"
  using collect_same [of "in_items inner" "base_line r2 p" "base_line r p"] component_same [OF assms(1-4)] assms(5)
  by (simp add: build_signature_base_def)

section \<open>What the client sends\<close>

text \<open>The structured-field library reads back what it has written.\<close>

definition reads_back ::
    "http_lib \<Rightarrow> (string \<Rightarrow> string) \<Rightarrow> (string \<times> inner_list) list \<Rightarrow> (string \<times> string) list \<Rightarrow> bool" where
  "reads_back hl show_bytes inputs sigs \<longleftrightarrow>
    hl_parse_input hl (join_with '', '' (map (\<lambda>(l, inner). l @ ''='' @ hl_show_inner hl inner) inputs)) =
      Inr (map (\<lambda>(l, inner). (l, Some inner)) inputs) \<and>
    hl_parse_signature hl (join_with '', '' (map (\<lambda>(l, sig). l @ ''='' @ show_bytes sig) sigs)) =
      Inr (map (\<lambda>(l, sig). (l, Some (SfvBytes sig))) sigs)"

definition label_of :: "draw \<Rightarrow> string" where
  "label_of d = si_prefix (dr_signer d)"

definition key_id_of :: "draw \<Rightarrow> string" where
  "key_id_of d = signer_key_id (dr_signer d)"

text \<open>The signature that a draw makes of a request with its digest.\<close>

definition signature_of :: "http_lib \<Rightarrow> http_request \<Rightarrow> draw \<Rightarrow> string" where
  "signature_of hl r d = (case build_signature_base (with_digest hl r) (inner_of d) (hl_show_inner hl (inner_of d)) of
     Inl e \<Rightarrow> [] | Inr base \<Rightarrow> si_sign (dr_signer d) base)"

lemma base_built:
  assumes "header_of r ''content-digest'' = Some x"
  shows "\<exists>b. build_signature_base r (inner_of d) p = Inr b"
  using assms by (simp add: build_signature_base_def inner_of_def covered_components_def base_line_def component_value_def)

lemma digest_set: "\<exists>x. header_of (with_digest hl r) ''content-digest'' = Some x"
  by (auto simp: with_digest_def header_of_set lower_names header_capitals)

lemma sign_with_run:
  "sign_with hl sb (with_digest hl r) d =
    Inr (label_of d @ ''='' @ hl_show_inner hl (inner_of d), label_of d @ ''='' @ sb (signature_of hl r d))"
proof -
  obtain b where "build_signature_base (with_digest hl r) (inner_of d) (hl_show_inner hl (inner_of d)) = Inr b"
    using digest_set base_built by blast
  then show ?thesis
    by (simp add: sign_with_def Let_def client_base_same signature_of_def label_of_def)
qed

lemma collect_all_Inr: "(\<And>x. x \<in> set xs \<Longrightarrow> f x = Inr (g x)) \<Longrightarrow> collect f xs = Inr (map g xs)"
  by (induction xs) auto

lemma auth_call_run:
  assumes "auth_call hl sb draws r = Inr r'"
  shows "header_of r' ''signature-input'' = Some (join_with '', '' (map (\<lambda>(l, inner). l @ ''='' @ hl_show_inner hl inner)
      (map (\<lambda>d. (label_of d, inner_of d)) draws)))"
    and "header_of r' ''signature'' = Some (join_with '', '' (map (\<lambda>(l, sig). l @ ''='' @ sb sig)
      (map (\<lambda>d. (label_of d, signature_of hl r d)) draws)))"
    and "header_of r' ''content-digest'' = header_of (with_digest hl r) ''content-digest''"
    and "rq_method r' = rq_method r" and "rq_netloc r' = rq_netloc r" and "rq_url r' = rq_url r" and "rq_body r' = rq_body r"
proof -
  have "collect (sign_with hl sb (with_digest hl r)) draws = Inr (map (\<lambda>d. (label_of d @ ''='' @ hl_show_inner hl (inner_of d),
      label_of d @ ''='' @ sb (signature_of hl r d))) draws)"
    by (intro collect_all_Inr sign_with_run)
  then have r': "r' = set_header (set_header (with_digest hl r) ''Signature-Input''
        (join_with '', '' (map (\<lambda>d. label_of d @ ''='' @ hl_show_inner hl (inner_of d)) draws)))
      ''Signature'' (join_with '', '' (map (\<lambda>d. label_of d @ ''='' @ sb (signature_of hl r d)) draws))"
    using assms by (simp add: auth_call_def Let_def comp_def)
  show "header_of r' ''signature-input'' = Some (join_with '', '' (map (\<lambda>(l, inner). l @ ''='' @ hl_show_inner hl inner)
      (map (\<lambda>d. (label_of d, inner_of d)) draws)))"
    "header_of r' ''signature'' = Some (join_with '', '' (map (\<lambda>(l, sig). l @ ''='' @ sb sig)
      (map (\<lambda>d. (label_of d, signature_of hl r d)) draws)))"
    "header_of r' ''content-digest'' = header_of (with_digest hl r) ''content-digest''"
    by (simp_all add: r' header_of_set lower_names comp_def)
  show "rq_method r' = rq_method r" "rq_netloc r' = rq_netloc r" "rq_url r' = rq_url r" "rq_body r' = rq_body r"
    by (simp_all add: r' set_header_def with_digest_def)
qed

section \<open>What the server finds\<close>

lemma keyid_read: "read_label (label_of d, Some (inner_of d)) = Inr (label_of d, key_id_of d, inner_of d)"
  by (simp add: read_label_def inner_of_def key_id_of_def)

lemma item_read: "read_item (l, Some v) = Inr (l, v)"
  by (simp add: read_item_def)

lemma find_signature_run:
  assumes "auth_call hl sb draws r = Inr r'" and "same_request r' r2"
    and "reads_back hl sb (map (\<lambda>d. (label_of d, inner_of d)) draws) (map (\<lambda>d. (label_of d, signature_of hl r d)) draws)"
    and "header_of r ''content-digest'' \<in> {None, Some (hl_digest hl (rq_body r))}"
    and "distinct (map key_id_of draws)" and "d \<in> set draws"
    and "dr_created d \<le> now + MAX_FUTURE_SKEW_SECONDS" and "now - dr_created d \<le> FRESHNESS_WINDOW_SECONDS"
  shows "find_signature hl now r2 (key_id_of d) = Inr \<lparr>fs_label = label_of d, fs_inner = inner_of d, fs_nonce = dr_nonce d,
    fs_created = dr_created d, fs_items = map (\<lambda>d. (label_of d, SfvBytes (signature_of hl r d))) draws\<rparr>"
proof -
  note run = auth_call_run [OF assms(1)]
  have same: "header_of r2 ''content-digest'' = header_of r' ''content-digest''"
      "header_of r2 ''signature-input'' = header_of r' ''signature-input''"
      "header_of r2 ''signature'' = header_of r' ''signature''" "rq_body r2 = rq_body r"
    using assms(2) run(7) by (simp_all add: same_request_def)
  have digest: "header_of r2 ''content-digest'' = Some (hl_digest hl (rq_body r2))"
    using same(1,4) run(3) assms(4) by (auto simp: with_digest_def header_of_set lower_names header_capitals)
  have read: "collect read_label (map (\<lambda>d. (label_of d, Some (inner_of d))) draws) =
      Inr (map (\<lambda>d. (label_of d, key_id_of d, inner_of d)) draws)"
    using keyid_read by (induction draws) simp_all
  have items: "collect read_item (map (\<lambda>d. (label_of d, Some (SfvBytes (signature_of hl r d)))) draws) =
      Inr (map (\<lambda>d. (label_of d, SfvBytes (signature_of hl r d))) draws)"
    using item_read by (induction draws) simp_all
  have input: "parse_signature_input hl (the (header_of r2 ''signature-input'')) = Inr (map (\<lambda>d. (label_of d, key_id_of d, inner_of d)) draws)"
    using assms(3) run(1) same(2) read by (simp add: parse_signature_input_def reads_back_def comp_def)
  have signature: "parse_signature hl (the (header_of r2 ''signature'')) = Inr (map (\<lambda>d. (label_of d, SfvBytes (signature_of hl r d))) draws)"
    using assms(3) run(2) same(3) items by (simp add: parse_signature_def reads_back_def comp_def)
  have "dict_rows (\<lambda>(label, keyid, inner). keyid) (\<lambda>(label, keyid, inner). (label, inner))
      (map (\<lambda>d. (label_of d, key_id_of d, inner_of d)) draws) = map (\<lambda>d. (key_id_of d, label_of d, inner_of d)) draws"
    using assms(5) by (subst dict_rows_distinct) (simp_all add: comp_def)
  moreover have "map_of (map (\<lambda>d. (key_id_of d, label_of d, inner_of d)) draws) (key_id_of d) = Some (label_of d, inner_of d)"
    using assms(5,6) by (auto intro!: map_of_is_SomeI simp: comp_def)
  moreover have "signature_params now (key_id_of d) (label_of d) (inner_of d) items = Inr \<lparr>fs_label = label_of d,
      fs_inner = inner_of d, fs_nonce = dr_nonce d, fs_created = dr_created d, fs_items = items\<rparr>" for items
    using assms(7,8) by (simp add: signature_params_def inner_of_def)
  ultimately show ?thesis
    using digest input signature same(2,3) run(1,2) by (simp add: find_signature_def header_capitals)
qed

text \<open>
  C4. A request that the client signs is let through. Whatever the request, its keys and the nonces drawn
  for it, the server accepts every one of its signatures: given that the structured-field library reads
  back what it has written, that a signature of a key is valid for this key, that the request arrives as it
  was sent, with clocks that agree within the window, and that the nonce was not used before. The
  verification changes nothing but the store of nonces.
\<close>

theorem signed_request_accepted:
  assumes "auth_call hl sb draws r = Inr r'" and "same_request r' r2"
    and "reads_back hl sb (map (\<lambda>d. (label_of d, inner_of d)) draws) (map (\<lambda>d. (label_of d, signature_of hl r d)) draws)"
    and "header_of r ''content-digest'' \<in> {None, Some (hl_digest hl (rq_body r))}"
    and "distinct (map label_of draws)" and "distinct (map key_id_of draws)" and "d \<in> set draws"
    and "\<forall>base. check_signature hl key base (SfvBytes (si_sign (dr_signer d) base)) = Good"
    and "dr_created d \<le> cx_now cx + MAX_FUTURE_SKEW_SECONDS" and "cx_now cx - dr_created d \<le> FRESHNESS_WINDOW_SECONDS"
    and "fst (check_and_add (w_nonces w) (key_id_of d) (dr_nonce d) (cx_now cx) (dr_created d))"
  shows "\<exists>ns. verify hl cx r2 (key_id_of d) key i w = (Inr (), w\<lparr>w_nonces := ns\<rparr>)"
proof -
  let ?fs = "\<lparr>fs_label = label_of d, fs_inner = inner_of d, fs_nonce = dr_nonce d, fs_created = dr_created d,
    fs_items = map (\<lambda>d. (label_of d, SfvBytes (signature_of hl r d))) draws\<rparr>"
  have found: "find_signature hl (cx_now cx) r2 (key_id_of d) = Inr ?fs"
    using find_signature_run [OF assms(1-4,6,7,9,10)] .
  have item: "map_of (fs_items ?fs) (label_of d) = Some (SfvBytes (signature_of hl r d))"
    using assms(5,7) by (auto intro!: map_of_is_SomeI simp: comp_def)
  note run = auth_call_run [OF assms(1)]
  have "build_signature_base r2 (inner_of d) p = build_signature_base (with_digest hl r) (inner_of d) p" for p
    using assms(2) run by (intro base_same) (simp_all add: same_request_def with_digest_def set_header_def inner_of_def)
  moreover obtain base where base: "build_signature_base (with_digest hl r) (inner_of d) (hl_show_inner hl (inner_of d)) = Inr base"
    using digest_set base_built by blast
  ultimately have "signed_by hl (cx_now cx) r2 (key_id_of d) key ?fs"
    using found item assms(8) unfolding signed_by_def
    by (simp add: signature_of_def) (auto simp: inner_of_def covered_components_def expected_covered_def)
  then show ?thesis
    using assms(11) unfolding verify_Inr
    by (cases "check_and_add (w_nonces w) (key_id_of d) (dr_nonce d) (cx_now cx) (dr_created d)") fastforce
qed

section \<open>A session that has ended\<close>

text \<open>How the client sees the problem document of a refusal.\<close>

definition shows_problem :: "problem \<Rightarrow> response \<Rightarrow> bool" where
  "shows_problem p rp \<longleftrightarrow> rp_status rp = status_code p \<and>
    rp_problem rp = Some (case title p of None \<Rightarrow> [] | Some t \<Rightarrow> t, detail p)"

lemma session_rejection_recorded:
  "\<exists>w'. audit_rejection cx (''session:'' @ k) reason i w = (Inr (), w')"
proof -
  have "partition_colon (''session:'' @ k) = (''session'', k)" by (simp add: partition_colon_def)
  moreover have "map_of REJECTION_TYPES ''session'' = Some SESSION_REJECTED" by code_simp
  moreover have "at_target_key SESSION_REJECTED \<noteq> None" by code_simp
  ultimately show ?thesis
    by (auto simp: audit_rejection_def create_after_rollback_def after_rollback_def changing_def)
qed

lemma refused_session:
  "\<exists>w'. refuse_key cx (''session:'' @ k) reason i t w = (Inl (Http (problem_response 401 about_blank (Some t) None)), w')"
  using session_rejection_recorded [of cx k reason i w]
  by (auto simp: refuse_key_def seq_def and_then_def unauthorized_def reject_def raising_def)

lemma ended_title_understood:
  assumes "t \<in> set SESSION_ENDED_TITLES" and "shows_problem (problem_response 401 about_blank (Some t) None) rp"
  shows "error_of_response rp = Some (Session_Expired t)"
  using assms by (auto simp: shows_problem_def error_of_response_def problem_response_def)

text \<open>
  C39. Whoever shows a session that has ended is asked to log in. When the session of a request does not
  exist, was revoked or logged out, or has expired, the server refuses it in words that the client
  understands: the client reports that the session has ended, so that the tools log in again instead of failing.
\<close>

theorem ended_session_logs_in_again:
  assumes "get_keyid hl r ''session'' w = (Inr k, w)"
    and "\<forall>row\<in>set (tb_rows (db_identity_session_key (w_db w))). sk_id row = k \<longrightarrow>
      sk_is_revoked row \<or> sk_logged_out_at row \<noteq> None \<or> sk_expires_at row \<le> cx_now cx"
  shows "\<exists>p w'. verify_session hl cx r w = (Inl (Http p), w') \<and>
    (\<forall>rp. shows_problem p rp \<longrightarrow> (\<exists>t. error_of_response rp = Some (Session_Expired t)))"
proof -
  have "\<exists>t w'. t \<in> set SESSION_ENDED_TITLES \<and>
    verify_session hl cx r w = (Inl (Http (problem_response 401 about_blank (Some t) None)), w')"
  proof (cases "List.find (\<lambda>s. sk_id s = k) (tb_rows (db_identity_session_key (w_db w)))")
    case None
    then have "verify_session hl cx r w = (Inl (Http (problem_response 401 about_blank (Some ''Session does not exist'') None)), w)"
      using assms(1) by (simp add: verify_session_def and_then_def reads_one_def reads_run table_read_one_def
          identity_session_key_table_def unauthorized_def reject_def raising_def)
    then show ?thesis by (auto simp: SESSION_ENDED_TITLES_def)
  next
    case (Some row)
    then have row: "row \<in> set (tb_rows (db_identity_session_key (w_db w)))" "sk_id row = k" by (auto simp: find_Some_iff)
    have ended: "sk_is_revoked row \<or> sk_logged_out_at row \<noteq> None \<or> sk_expires_at row \<le> cx_now cx"
      using assms(2) row by simp
    have run: "verify_session hl cx r w =
      (if sk_is_revoked row then refuse_key cx (''session:'' @ k) ''revoked'' (sk_identity_id row) ''Session key is revoked'' w
       else if sk_logged_out_at row \<noteq> None then refuse_key cx (''session:'' @ k) ''logged-out'' (sk_identity_id row) ''Session key is logged out'' w
       else refuse_key cx (''session:'' @ k) ''expired'' (sk_identity_id row) ''Session key is expired'' w)"
      using assms(1) Some ended by (auto simp: verify_session_def and_then_def reads_one_def reads_run table_read_one_def
          identity_session_key_table_def Let_def)
    define t where "t = (if sk_is_revoked row then ''Session key is revoked''
      else if sk_logged_out_at row \<noteq> None then ''Session key is logged out'' else ''Session key is expired'')"
    define reason where "reason = (if sk_is_revoked row then ''revoked''
      else if sk_logged_out_at row \<noteq> None then ''logged-out'' else ''expired'')"
    have "verify_session hl cx r w = refuse_key cx (''session:'' @ k) reason (sk_identity_id row) t w"
      unfolding run t_def reason_def by (simp split: if_split)
    moreover have "t \<in> set SESSION_ENDED_TITLES" by (simp add: t_def SESSION_ENDED_TITLES_def)
    ultimately show ?thesis using refused_session [of cx k reason "sk_identity_id row" t w] by metis
  qed
  then show ?thesis using ended_title_understood by blast
qed

section \<open>A sample\<close>

definition sample_draw :: draw where
  "sample_draw = \<lparr>dr_signer = \<lparr>si_prefix = ''session'', si_thumbprint = ''k1'', si_sign = id\<rparr>, dr_created = 990, dr_nonce = ''n1''\<rparr>"

definition unsigned_request :: http_request where
  "unsigned_request = \<lparr>rq_method = ''GET'', rq_netloc = ''pf.example'', rq_url = ''https://pf.example/tag'', rq_headers = [],
    rq_body = '''', rq_client_host = None\<rparr>"

definition client_lib :: http_lib where
  "client_lib = sample_lib\<lparr>hl_parse_input := (\<lambda>_. Inr [(''session'', Some (inner_of sample_draw))]),
    hl_parse_signature := (\<lambda>_. Inr [(''session'', Some (SfvBytes (signature_of sample_lib unsigned_request sample_draw)))])\<rparr>"

lemma client_lib_signs: "signature_of client_lib r d = signature_of sample_lib r d"
  by (simp add: signature_of_def with_digest_def client_lib_def)

theorem signed_request_accepted_witness:
  "\<exists>r' ns. auth_call client_lib id [sample_draw] unsigned_request = Inr r' \<and>
    verify client_lib sample_cx r' ''session:k1'' sample_key (Some 3) session_world = (Inr (), session_world\<lparr>w_nonces := ns\<rparr>)"
proof -
  obtain r' where r': "auth_call client_lib id [sample_draw] unsigned_request = Inr r'"
    using sign_with_run [of client_lib id unsigned_request sample_draw] by (auto simp: auth_call_def Let_def)
  have draw: "label_of sample_draw = ''session''" "key_id_of sample_draw = ''session:k1''"
    by (simp_all add: label_of_def key_id_of_def signer_key_id_def sample_draw_def)
  have "reads_back client_lib id (map (\<lambda>d. (label_of d, inner_of d)) [sample_draw])
      (map (\<lambda>d. (label_of d, signature_of client_lib unsigned_request d)) [sample_draw])"
    by (simp add: reads_back_def draw client_lib_signs) (simp add: client_lib_def)
  moreover have "fst (check_and_add (w_nonces session_world) (key_id_of sample_draw) (dr_nonce sample_draw) (cx_now sample_cx) (dr_created sample_draw))"
    by code_simp
  moreover have "\<forall>base. check_signature client_lib sample_key base (SfvBytes (si_sign (dr_signer sample_draw) base)) = Good"
    by (simp add: check_signature_def client_lib_def sample_lib_def sample_key_def sample_draw_def)
  ultimately have "\<exists>ns. verify client_lib sample_cx r' (key_id_of sample_draw) sample_key (Some 3) session_world =
      (Inr (), session_world\<lparr>w_nonces := ns\<rparr>)"
    by (intro signed_request_accepted [OF r', of r' sample_draw])
      (simp_all add: same_request_def unsigned_request_def header_of_def sample_draw_def sample_cx_def
        MAX_FUTURE_SKEW_SECONDS_def FRESHNESS_WINDOW_SECONDS_def)
  then show ?thesis using r' draw(2) by auto
qed

theorem ended_session_logs_in_again_witness:
  "\<exists>p w'. verify_session sample_lib (sample_cx\<lparr>cx_now := 2000\<rparr>) sample_request session_world = (Inl (Http p), w') \<and>
    (\<forall>rp. shows_problem p rp \<longrightarrow> (\<exists>t. error_of_response rp = Some (Session_Expired t)))"
proof -
  have "get_keyid sample_lib sample_request ''session'' session_world = (Inr ''k1'', session_world)"
    by (simp add: get_keyid_def header_of_def lower_names sample_request_def parse_signature_input_def sample_lib_def
        read_label_def sample_inner_def has_prefix_def and_then_def lifting_def ret_def)
  then show ?thesis
    by (rule ended_session_logs_in_again) (simp add: session_world_def sample_session_def)
qed

end
