(* ===== verification/Trusted_Keys.thy ===== *)
theory Trusted_Keys
  imports Bastion_Tokens Registry Host_Files Signature
begin

text \<open>
  \<open>api/jwt_validator.py\<close> and \<open>api/endpoints/frps.py\<close>: a bastion asks the server whether a host may register. The
  keys of an issuer are fetched by clients that are kept per issuer; a fetch, from the cache of the library
  or fresh, is a parameter of each call, as are the registry and the clock, which a call reads once. What
  the JWT library reads in a token without checking it is an argument: the key id and the issuer, if it is text.
\<close>

definition issuer_suffix :: string where
  "issuer_suffix = ''/public/oidc''"

text \<open>The clients by issuer in the order of their creation, each with the time of its last forced refresh.\<close>

record trusted_keys =
  tk_issuer_prefix :: string
  tk_max_cached_issuers :: nat
  tk_min_forced_refresh_interval :: int
  tk_client_by_iss :: "(string \<times> int) list"

definition TrustedKeys :: "string \<Rightarrow> nat \<Rightarrow> int \<Rightarrow> trusted_keys" where
  "TrustedKeys prefix max_cached min_interval = \<lparr>tk_issuer_prefix = prefix, tk_max_cached_issuers = max_cached,
    tk_min_forced_refresh_interval = min_interval, tk_client_by_iss = []\<rparr>"

section \<open>The tenant of an issuer\<close>

text \<open>A text that \<open>uuid.UUID\<close> reads and prints unchanged.\<close>

definition canonical_uuid :: "string \<Rightarrow> bool" where
  "canonical_uuid s \<longleftrightarrow> length s = 36 \<and>
    list_all (\<lambda>(i, c). if i \<in> {8, 13, 18, 23 :: nat} then c = CHR ''-'' else c \<in> set ''0123456789abcdef'') (enumerate 0 s)"

definition extract_tenant_uuid :: "string \<Rightarrow> string \<Rightarrow> string option" where
  "extract_tenant_uuid issuer_prefix iss =
    (let prefix = issuer_prefix @ ''/'' in
     if \<not> has_prefix prefix iss \<or> \<not> ends_with iss issuer_suffix then None
     else let candidate = drop (length prefix) (take (length iss - length issuer_suffix) iss) in
       if candidate = [] \<or> CHR ''/'' \<in> set candidate then None
       else if \<not> canonical_uuid candidate then None else Some candidate)"

definition tenant_exists :: "string \<Rightarrow> registry_db \<Rightarrow> bool" where
  "tenant_exists tenant_uuid db = (case table_read_one tenant_table (\<lambda>r. tn_uuid r = tenant_uuid) db of
     None \<Rightarrow> False | Some tenant_row \<Rightarrow> tn_is_enabled tenant_row)"

section \<open>The clients\<close>

definition get_or_create_entry :: "int \<Rightarrow> string \<Rightarrow> trusted_keys \<Rightarrow> trusted_keys" where
  "get_or_create_entry now iss tk = (case map_of (tk_client_by_iss tk) iss of
     Some _ \<Rightarrow> tk
   | None \<Rightarrow>
       let clients = tk_client_by_iss tk @ [(iss, now)]
       in tk\<lparr>tk_client_by_iss := (if length clients > tk_max_cached_issuers tk then tl clients else clients)\<rparr>)"

definition allow_forced_refresh :: "int \<Rightarrow> string \<Rightarrow> trusted_keys \<Rightarrow> bool \<times> trusted_keys" where
  "allow_forced_refresh now iss tk = (case map_of (tk_client_by_iss tk) iss of
     None \<Rightarrow> (False, tk)
   | Some last_forced_refresh \<Rightarrow>
       if now - last_forced_refresh < tk_min_forced_refresh_interval tk then (False, tk)
       else (True, tk\<lparr>tk_client_by_iss := AList.update iss now (tk_client_by_iss tk)\<rparr>))"

record trusted_key =
  tru_issuer :: string
  tru_key :: string

record lookup_call =
  lk_token :: string
  lk_now :: int
  lk_registry :: registry_db
  lk_fetch :: "string \<Rightarrow> bool \<Rightarrow> (string \<times> string) list"

text \<open>The key, the clients afterwards, and the issuer whose keys were fetched afresh, if any.\<close>

definition lookup_issuer :: "lookup_call \<Rightarrow> string \<Rightarrow> string \<Rightarrow> trusted_keys \<Rightarrow> trusted_key option \<times> trusted_keys \<times> string option" where
  "lookup_issuer c iss kid tk =
    (case map_of (lk_fetch c iss False) kid of
       Some key \<Rightarrow> (Some \<lparr>tru_issuer = iss, tru_key = key\<rparr>, tk, None)
     | None \<Rightarrow> (case allow_forced_refresh (lk_now c) iss tk of
         (False, tk) \<Rightarrow> (None, tk, None)
       | (True, tk) \<Rightarrow> (map_option (\<lambda>key. \<lparr>tru_issuer = iss, tru_key = key\<rparr>) (map_of (lk_fetch c iss True) kid), tk, Some iss)))"

definition lookup_key ::
    "(string \<Rightarrow> (string option \<times> string option) option) \<Rightarrow> lookup_call \<Rightarrow> trusted_keys \<Rightarrow>
      trusted_key option \<times> trusted_keys \<times> string option" where
  "lookup_key unverified c tk = (case unverified (lk_token c) of
     None \<Rightarrow> (None, tk, None)
   | Some (None, _) \<Rightarrow> (None, tk, None)
   | Some (Some kid, None) \<Rightarrow> (None, tk, None)
   | Some (Some kid, Some iss) \<Rightarrow> (case extract_tenant_uuid (tk_issuer_prefix tk) iss of
       None \<Rightarrow> (None, tk, None)
     | Some tenant_uuid \<Rightarrow>
         if map_of (tk_client_by_iss tk) iss = None \<and> \<not> tenant_exists tenant_uuid (lk_registry c) then (None, tk, None)
         else lookup_issuer c iss kid (get_or_create_entry (lk_now c) iss tk)))"

section \<open>The plugin of the bastion\<close>

text \<open>
  The answer: to go on, to refuse with a reason, or to go on with the key that replaces the token. \<open>md5_hex\<close> is the
  digest of the text of the time stamp; a request to log in without a time stamp raises \<open>KeyError\<close>.
\<close>

datatype plugin_response = Unchanged | Refused string | Changed_Key string

definition frps_plugin_endpoint ::
    "jwt_lib \<Rightarrow> (string \<Rightarrow> (string option \<times> string option) option) \<Rightarrow> (json \<Rightarrow> string) \<Rightarrow> int \<Rightarrow> string \<Rightarrow>
      (string \<times> json) list \<Rightarrow> (string \<Rightarrow> lookup_call) \<Rightarrow> trusted_keys \<Rightarrow> (exn + plugin_response) \<times> trusted_keys" where
  "frps_plugin_endpoint jl unverified md5_hex clock op content call tk =
    (if op \<noteq> ''Login'' then (Inr Unchanged, tk)
     else case map_of content ''user'' of
       Some (JText user) \<Rightarrow> (case map_of content ''privilege_key'' of
           None \<Rightarrow> (Inr (Refused ''missing jwt''), tk)
         | Some (JText []) \<Rightarrow> (Inr (Refused ''missing jwt''), tk)
         | Some (JText jwt_token) \<Rightarrow> (case lookup_key unverified (call jwt_token) tk of
             (None, tk, _) \<Rightarrow> (Inr (Refused ''unknown issuer or invalid jwt''), tk)
           | (Some trusted, tk, _) \<Rightarrow>
               (case jw_decode jl jwt_token (tru_key trusted) (tru_issuer trusted) user [''sub'', ''name'', ''use''] clock of
                  None \<Rightarrow> (Inr (Refused ''invalid jwt''), tk)
                | Some payload \<Rightarrow>
                    if tc_use payload \<noteq> ''register'' then (Inr (Refused ''wrong token purpose''), tk)
                    else (case map_of content ''timestamp'' of
                        None \<Rightarrow> (Inl KeyError, tk)
                      | Some timestamp \<Rightarrow> (Inr (Changed_Key (md5_hex timestamp)), tk))))
         | Some v \<Rightarrow> (Inr (Refused (if v \<in> {JNull, JBool False, JInt 0, JList [], JObject []} then ''missing jwt'' else ''invalid jwt'')), tk))
     | _ \<Rightarrow> (Inr (Refused ''invalid user field''), tk))"

end
