(* ===== verification/Trusted_Safety.thy ===== *)
theory Trusted_Safety
  imports Trusted_Keys Relay_Safety Founding
begin

text \<open>
  Who may register at a bastion, and how often the server lets itself be made to fetch keys: the cache of clients
  stays within its limit, and an issuer is asked afresh at most once per interval whatever tokens come.
\<close>

section \<open>The clients\<close>

text \<open>No issuer has two clients, and none was used later than now.\<close>

definition clients_ok :: "int \<Rightarrow> trusted_keys \<Rightarrow> bool" where
  "clients_ok now tk \<longleftrightarrow> distinct (map fst (tk_client_by_iss tk)) \<and> length (tk_client_by_iss tk) \<le> tk_max_cached_issuers tk \<and>
    (\<forall>(iss, t)\<in>set (tk_client_by_iss tk). t \<le> now)"

definition settings :: "trusted_keys \<Rightarrow> string \<times> nat \<times> int" where
  "settings tk = (tk_issuer_prefix tk, tk_max_cached_issuers tk, tk_min_forced_refresh_interval tk)"

text \<open>
  What a call does to a client: it stays, it is dropped, or it is made or refreshed now, and when an issuer was asked
  afresh, its client is older than the interval.
\<close>

definition call_effect :: "int \<Rightarrow> trusted_keys \<Rightarrow> trusted_keys \<Rightarrow> string option \<Rightarrow> bool" where
  "call_effect now tk tk' forced \<longleftrightarrow> settings tk' = settings tk \<and>
    (\<forall>iss t. map_of (tk_client_by_iss tk') iss = Some t \<longrightarrow> map_of (tk_client_by_iss tk) iss = Some t \<or> t = now) \<and>
    (\<forall>iss. forced = Some iss \<longrightarrow> map_of (tk_client_by_iss tk') iss = Some now \<and>
      (\<forall>t. map_of (tk_client_by_iss tk) iss = Some t \<longrightarrow> tk_min_forced_refresh_interval tk \<le> now - t) \<and>
      (map_of (tk_client_by_iss tk) iss = None \<longrightarrow> tk_min_forced_refresh_interval tk \<le> 0))"

lemma map_of_tl: "distinct (map fst cs) \<Longrightarrow> map_of (tl cs) iss = Some t \<Longrightarrow> map_of cs iss = Some t"
  by (cases cs) (auto dest: map_of_SomeD simp: image_iff)

lemma create_effect:
  assumes "clients_ok now tk" and "0 < tk_max_cached_issuers tk"
  shows "clients_ok now (get_or_create_entry now iss tk)" and "call_effect now tk (get_or_create_entry now iss tk) None"
    and "\<exists>t. map_of (tk_client_by_iss (get_or_create_entry now iss tk)) iss = Some t \<and>
      (map_of (tk_client_by_iss tk) iss = Some t \<or> (map_of (tk_client_by_iss tk) iss = None \<and> t = now))"
proof -
  let ?cs = "tk_client_by_iss tk"
  have "clients_ok now (get_or_create_entry now iss tk) \<and> call_effect now tk (get_or_create_entry now iss tk) None \<and>
    (\<exists>t. map_of (tk_client_by_iss (get_or_create_entry now iss tk)) iss = Some t \<and>
      (map_of ?cs iss = Some t \<or> (map_of ?cs iss = None \<and> t = now)))"
  proof (cases "map_of ?cs iss")
    case None
    then have new: "iss \<notin> fst ` set ?cs" by (simp add: map_of_eq_None_iff)
    have d: "distinct (map fst (?cs @ [(iss, now)]))" using assms(1) new by (simp add: clients_ok_def)
    show ?thesis
    proof (cases "length (?cs @ [(iss, now)]) > tk_max_cached_issuers tk")
      case True
      then obtain c cs where cs: "?cs = c # cs" using assms by (cases ?cs) (auto simp: clients_ok_def)
      have "map_of (cs @ [(iss, now)]) x = Some t \<Longrightarrow> map_of ?cs x = Some t \<or> t = now" for x t
        using map_of_tl [OF d, of x t] cs new by (auto simp: map_add_Some_iff split: if_splits)
      then show ?thesis
        using None True assms(1) new cs d
        by (auto simp: get_or_create_entry_def clients_ok_def call_effect_def settings_def Let_def map_add_Some_iff)
    next
      case False
      then show ?thesis
        using None assms(1) d new by (auto simp: get_or_create_entry_def clients_ok_def call_effect_def settings_def Let_def map_add_Some_iff)
    qed
  qed (use assms in \<open>auto simp: get_or_create_entry_def call_effect_def\<close>)
  then show "clients_ok now (get_or_create_entry now iss tk)" and "call_effect now tk (get_or_create_entry now iss tk) None"
    and "\<exists>t. map_of (tk_client_by_iss (get_or_create_entry now iss tk)) iss = Some t \<and>
      (map_of ?cs iss = Some t \<or> (map_of ?cs iss = None \<and> t = now))" by blast+
qed

lemma update_members: "set (AList.update k v al) \<subseteq> insert (k, v) (set al)"
  by (induction al) auto

lemma update_length: "map_of al k = Some v \<Longrightarrow> length (AList.update k w al) = length al"
  by (metis domI dom_map_of_conv_image_fst length_map set_map update_keys)

lemma refresh_effect:
  assumes "clients_ok now tk" and "lookup_issuer c iss kid tk = (res, tk', forced)" and "lk_now c = now"
  shows "clients_ok now tk' \<and> settings tk' = settings tk \<and> (forced = None \<longrightarrow> tk' = tk) \<and>
    (\<forall>x. forced = Some x \<longrightarrow> x = iss \<and> tk_client_by_iss tk' = AList.update iss now (tk_client_by_iss tk) \<and>
      (\<exists>t. map_of (tk_client_by_iss tk) iss = Some t \<and> tk_min_forced_refresh_interval tk \<le> now - t))"
proof (cases "map_of (lk_fetch c iss False) kid = None \<and> fst (allow_forced_refresh now iss tk)")
  case True
  then obtain t where t: "map_of (tk_client_by_iss tk) iss = Some t" "tk_min_forced_refresh_interval tk \<le> now - t"
    by (auto simp: allow_forced_refresh_def split: option.splits if_splits)
  have run: "tk' = tk\<lparr>tk_client_by_iss := AList.update iss now (tk_client_by_iss tk)\<rparr>" "forced = Some iss"
    using True assms(2,3) t by (auto simp: lookup_issuer_def allow_forced_refresh_def)
  moreover have "clients_ok now tk'"
    using assms(1) run(1) update_members [of iss now "tk_client_by_iss tk"] update_length [OF t(1), of now]
    by (auto simp: clients_ok_def distinct_update)
  ultimately show ?thesis using t by (auto simp: settings_def)
next
  case False
  then have "tk' = tk \<and> forced = None"
    using assms(2,3) by (auto simp: lookup_issuer_def allow_forced_refresh_def split: option.splits if_splits)
  then show ?thesis using assms(1) by simp
qed

section \<open>How often keys are fetched\<close>

text \<open>The calls of a server, with the time of each and the issuer that it asked afresh.\<close>

fun lookups ::
    "(string \<Rightarrow> (string option \<times> string option) option) \<Rightarrow> trusted_keys \<Rightarrow> lookup_call list \<Rightarrow>
      (int \<times> string option) list \<times> trusted_keys" where
  "lookups unverified tk [] = ([], tk)"
| "lookups unverified tk (c # cs) = (case lookup_key unverified c tk of (res, tk', forced) \<Rightarrow>
     case lookups unverified tk' cs of (fs, tk'') \<Rightarrow> ((lk_now c, forced) # fs, tk''))"

lemma lookup_step:
  assumes "lookup_key unverified c tk = (res, tk', forced)" and "clients_ok (lk_now c) tk"
    and "0 < tk_max_cached_issuers tk" and "0 < tk_min_forced_refresh_interval tk"
  shows "clients_ok (lk_now c) tk' \<and> settings tk' = settings tk \<and>
    (\<forall>iss t. map_of (tk_client_by_iss tk') iss = Some t \<longrightarrow> map_of (tk_client_by_iss tk) iss = Some t \<or> t = lk_now c) \<and>
    (\<forall>iss. forced = Some iss \<longrightarrow> map_of (tk_client_by_iss tk') iss = Some (lk_now c) \<and>
      (\<exists>t. map_of (tk_client_by_iss tk) iss = Some t \<and> tk_min_forced_refresh_interval tk \<le> lk_now c - t))"
proof (cases "tk' = tk \<and> forced = None")
  case True
  then show ?thesis using assms(2) by simp
next
  case False
  then obtain issuer kid where l: "lookup_issuer c issuer kid (get_or_create_entry (lk_now c) issuer tk) = (res, tk', forced)"
    using assms(1) by (auto simp: lookup_key_def split: option.splits if_splits)
  note made = create_effect [OF assms(2,3), of issuer]
  note finished = refresh_effect [OF made(1) l refl]
  show ?thesis
  proof (cases forced)
    case None
    then have "tk' = get_or_create_entry (lk_now c) issuer tk" using finished by simp
    then show ?thesis using made(1,2) None by (auto simp: call_effect_def)
  next
    case (Some x)
    obtain t where t: "x = issuer" "map_of (tk_client_by_iss (get_or_create_entry (lk_now c) issuer tk)) issuer = Some t"
        "tk_min_forced_refresh_interval (get_or_create_entry (lk_now c) issuer tk) \<le> lk_now c - t"
        "tk_client_by_iss tk' = AList.update issuer (lk_now c) (tk_client_by_iss (get_or_create_entry (lk_now c) issuer tk))"
      using finished Some by blast
    have same: "tk_min_forced_refresh_interval (get_or_create_entry (lk_now c) issuer tk) = tk_min_forced_refresh_interval tk"
      using made(2) by (simp add: call_effect_def settings_def)
    have before: "map_of (tk_client_by_iss tk) issuer = Some t"
      using made(3) t(2,3) same assms(4) by auto
    have now: "map_of (tk_client_by_iss tk') =
        (map_of (tk_client_by_iss (get_or_create_entry (lk_now c) issuer tk)))(issuer \<mapsto> lk_now c)"
      using t(4) by (simp add: update_conv')
    have "clients_ok (lk_now c) tk'" using finished by simp
    moreover have "settings tk' = settings tk" using finished made(2) by (simp add: call_effect_def)
    moreover have "map_of (tk_client_by_iss tk) iss = Some u \<or> u = lk_now c" if "map_of (tk_client_by_iss tk') iss = Some u" for iss u
      using that made(2) by (cases "iss = issuer") (simp_all add: now call_effect_def)
    moreover have "map_of (tk_client_by_iss tk') issuer = Some (lk_now c)" by (simp add: now)
    moreover have "tk_min_forced_refresh_interval tk \<le> lk_now c - t" using t(3) same by simp
    ultimately show ?thesis using before Some t(1) by simp
  qed
qed

lemma clients_ok_later: "clients_ok now tk \<Longrightarrow> now \<le> later \<Longrightarrow> clients_ok later tk"
  by (fastforce simp: clients_ok_def)

lemma lookups_settings:
  assumes "lookups unverified tk cs = (fs, tk')" and "clients_ok now tk" and "\<forall>c\<in>set cs. now \<le> lk_now c"
    and "sorted (map lk_now cs)" and "0 < tk_max_cached_issuers tk" and "0 < tk_min_forced_refresh_interval tk"
  shows "length (tk_client_by_iss tk') \<le> tk_max_cached_issuers tk \<and>
    (\<forall>iss t0. (\<forall>t. map_of (tk_client_by_iss tk) iss = Some t \<longrightarrow> t0 \<le> t) \<and> t0 \<le> now \<longrightarrow>
      (\<forall>(a, f)\<in>set fs. f = Some iss \<longrightarrow> tk_min_forced_refresh_interval tk \<le> a - t0)) \<and>
    sorted_wrt (\<lambda>(a, f) (b, g). f \<noteq> None \<and> f = g \<longrightarrow> tk_min_forced_refresh_interval tk \<le> b - a) fs"
  using assms
proof (induction cs arbitrary: tk fs now)
  case Nil
  then show ?case by (simp add: clients_ok_def)
next
  case (Cons c cs)
  obtain res tk1 forced where l: "lookup_key unverified c tk = (res, tk1, forced)" by (rule prod_cases3)
  obtain fs1 where rest: "lookups unverified tk1 cs = (fs1, tk')" "fs = (lk_now c, forced) # fs1"
    using Cons.prems(1) l by (auto split: prod.splits)
  have ok: "clients_ok (lk_now c) tk" using clients_ok_later Cons.prems(2,3) by simp
  note all = lookup_step [OF l ok Cons.prems(5,6)]
  have step: "clients_ok (lk_now c) tk1" "settings tk1 = settings tk"
      "\<forall>iss t. map_of (tk_client_by_iss tk1) iss = Some t \<longrightarrow> map_of (tk_client_by_iss tk) iss = Some t \<or> t = lk_now c"
      "\<forall>iss. forced = Some iss \<longrightarrow> map_of (tk_client_by_iss tk1) iss = Some (lk_now c) \<and>
        (\<exists>t. map_of (tk_client_by_iss tk) iss = Some t \<and> tk_min_forced_refresh_interval tk \<le> lk_now c - t)"
    using all by simp_all
  have set': "tk_max_cached_issuers tk1 = tk_max_cached_issuers tk"
      "tk_min_forced_refresh_interval tk1 = tk_min_forced_refresh_interval tk"
    using step(2) by (simp_all add: settings_def)
  have later: "\<forall>c'\<in>set cs. lk_now c \<le> lk_now c'" "sorted (map lk_now cs)" using Cons.prems(4) by auto
  note IH = Cons.IH [OF rest(1) step(1) later, unfolded set', OF Cons.prems(5,6)]
  have after: "\<forall>(a, f)\<in>set fs1. f = Some iss \<longrightarrow> tk_min_forced_refresh_interval tk \<le> a - t0"
    if "\<forall>t. map_of (tk_client_by_iss tk1) iss = Some t \<longrightarrow> t0 \<le> t" "t0 \<le> lk_now c" for iss t0
    using IH that by blast
  have head: "\<forall>(a, f)\<in>set fs1. forced \<noteq> None \<and> forced = f \<longrightarrow> tk_min_forced_refresh_interval tk \<le> a - lk_now c"
  proof (cases forced)
    case (Some iss)
    have "map_of (tk_client_by_iss tk1) iss = Some (lk_now c)" using step(4) Some by simp
    then have "\<forall>(a, f)\<in>set fs1. f = Some iss \<longrightarrow> tk_min_forced_refresh_interval tk \<le> a - lk_now c"
      using after [of iss "lk_now c"] by simp
    then show ?thesis using Some by auto
  qed simp
  have since: "\<forall>(a, f)\<in>set fs. f = Some iss \<longrightarrow> tk_min_forced_refresh_interval tk \<le> a - t0"
    if t0: "\<forall>t. map_of (tk_client_by_iss tk) iss = Some t \<longrightarrow> t0 \<le> t" "t0 \<le> now" for iss t0
  proof -
    have now: "now \<le> lk_now c" using Cons.prems(3) by simp
    have "\<forall>t. map_of (tk_client_by_iss tk1) iss = Some t \<longrightarrow> t0 \<le> t" using step(3) t0 now by fastforce
    then have "\<forall>(a, f)\<in>set fs1. f = Some iss \<longrightarrow> tk_min_forced_refresh_interval tk \<le> a - t0" using after t0(2) now by simp
    moreover have "forced = Some iss \<longrightarrow> tk_min_forced_refresh_interval tk \<le> lk_now c - t0" using step(4) t0(1) by fastforce
    ultimately show ?thesis using rest(2) by simp
  qed
  have "length (tk_client_by_iss tk') \<le> tk_max_cached_issuers tk" using IH by simp
  moreover have "sorted_wrt (\<lambda>(a, f) (b, g). f \<noteq> None \<and> f = g \<longrightarrow> tk_min_forced_refresh_interval tk \<le> b - a) fs"
    using IH head rest(2) by (simp add: case_prod_beta')
  ultimately show ?case using since by (intro conjI allI impI) simp_all
qed

text \<open>
  C20. Nobody makes the server go round the cache of the keys as often as he likes. Whatever tokens bastions show, for
  whatever issuers, one after the other, an issuer is asked afresh at most once per interval, also when its client
  was dropped and made again in between; and the server never keeps more clients than its limit.
\<close>

theorem forced_refreshes_rare:
  assumes "lookups unverified (TrustedKeys base max_cached interval) cs = (fs, tk')" and "sorted (map lk_now cs)"
    and "0 < max_cached" and "0 < interval"
  shows "length (tk_client_by_iss tk') \<le> max_cached \<and>
    (\<forall>i j iss. i < j \<and> j < length fs \<and> snd (fs ! i) = Some iss \<and> snd (fs ! j) = Some iss \<longrightarrow>
      interval \<le> fst (fs ! j) - fst (fs ! i))"
proof (cases cs)
  case Nil
  then show ?thesis using assms(1) by (auto simp: TrustedKeys_def)
next
  case (Cons c cs')
  have "clients_ok (lk_now c) (TrustedKeys base max_cached interval)" by (simp add: clients_ok_def TrustedKeys_def)
  moreover have "\<forall>c'\<in>set cs. lk_now c \<le> lk_now c'" using assms(2) Cons by simp
  ultimately have "length (tk_client_by_iss tk') \<le> max_cached \<and>
      sorted_wrt (\<lambda>(a, f) (b, g). f \<noteq> None \<and> f = g \<longrightarrow> interval \<le> b - a) fs"
    using lookups_settings [OF assms(1) _ _ assms(2), of "lk_now c"] assms(3,4) by (simp add: TrustedKeys_def)
  then show ?thesis
    using sorted_wrt_nth_less [of "\<lambda>(a, f) (b, g). f \<noteq> None \<and> f = g \<longrightarrow> interval \<le> b - a" fs] by (fastforce split: prod.splits)
qed

section \<open>Who may register\<close>

lemma lookup_key_Some:
  assumes "lookup_key unverified c tk = (Some trusted, tk', forced)"
  shows "\<exists>kid tenant_uuid fresh. unverified (lk_token c) = Some (Some kid, Some (tru_issuer trusted)) \<and>
    extract_tenant_uuid (tk_issuer_prefix tk) (tru_issuer trusted) = Some tenant_uuid \<and>
    (map_of (tk_client_by_iss tk) (tru_issuer trusted) = None \<longrightarrow> tenant_exists tenant_uuid (lk_registry c)) \<and>
    map_of (lk_fetch c (tru_issuer trusted) fresh) kid = Some (tru_key trusted)"
  using assms
  by (auto simp: lookup_key_def lookup_issuer_def split: option.splits if_splits prod.splits bool.splits)

lemma registered:
  assumes "frps_plugin_endpoint jl unverified md5_hex clock op content call tk = (Inr (Changed_Key k), tk')"
  shows "\<exists>user token trusted forced payload timestamp. map_of content ''user'' = Some (JText user) \<and>
    map_of content ''privilege_key'' = Some (JText token) \<and>
    lookup_key unverified (call token) tk = (Some trusted, tk', forced) \<and>
    jw_decode jl token (tru_key trusted) (tru_issuer trusted) user [''sub'', ''name'', ''use''] clock = Some payload \<and>
    tc_use payload = ''register'' \<and> map_of content ''timestamp'' = Some timestamp \<and> k = md5_hex timestamp"
  using assms by (auto simp: frps_plugin_endpoint_def split: if_splits option.splits json.splits list.splits prod.splits)

text \<open>
  C19. A host registers at a bastion as itself only. When the bastion is told to let a client in that shows a token
  which the server gave out, then the token was asked for to register, by the identity whose name, with the label
  of its tenant, is the name that the client registers under; it is less than a minute old; its issuer is a
  tenant of this server, which was enabled when the keys were first looked for, and published the key that
  checked the token. A token to connect or to end a connection registers nobody.
\<close>

theorem host_registers_as_itself:
  assumes "jwt_documented jl"
    and "read_self_token_endpoint (generate_token jl cr cx) cx service hostname purpose connection_id w = (Inr token, w')"
    and "frps_plugin_endpoint jl unverified md5_hex clock op content call tk = (Inr (Changed_Key k), tk')"
    and "map_of content ''privilege_key'' = Some (JText token)"
  shows "purpose = Register \<and>
    (\<exists>me. fst (identity_read_self cx w) = Inr (Some me) \<and>
      map_of content ''user'' = Some (JText (i_name me @ ''-'' @ tenant_label jl cx))) \<and>
    clock < cx_now cx + 60 \<and>
    (\<exists>tenant_uuid kid key fresh. extract_tenant_uuid (tk_issuer_prefix tk) (token_issuer cx) = Some tenant_uuid \<and>
      (map_of (tk_client_by_iss tk) (token_issuer cx) = None \<longrightarrow> tenant_exists tenant_uuid (lk_registry (call token))) \<and>
      map_of (lk_fetch (call token) (token_issuer cx) fresh) kid = Some key)"
proof -
  obtain user trusted forced payload where r: "map_of content ''user'' = Some (JText user)"
      "lookup_key unverified (call token) tk = (Some trusted, tk', forced)"
      "jw_decode jl token (tru_key trusted) (tru_issuer trusted) user [''sub'', ''name'', ''use''] clock = Some payload"
      "tc_use payload = ''register''"
    using registered [OF assms(3)] assms(4) by auto
  obtain d cid w1 where s: "sign_token jl cr cx hostname (case purpose of Connect \<Rightarrow> ''connect'' | Register \<Rightarrow> ''register'') d cid w1 = (Inr token, w')"
    and mine: "purpose = Register \<Longrightarrow> \<exists>me. fst (identity_read_self cx w) = Inr (Some me) \<and> i_name me = hostname"
    using assms(2) by (auto simp: read_self_token_endpoint_def generate_token_def act_Inr reject_def
        split: if_splits option.splits token_purpose.splits)
  obtain c k' kid where c: "token = jw_encode jl c k' kid" "tc_iss c = token_issuer cx"
      "tc_aud c = hostname @ ''-'' @ tenant_label jl cx" "tc_exp c = cx_now cx + 60"
      "tc_use c = (case purpose of Connect \<Rightarrow> ''connect'' | Register \<Rightarrow> ''register'')"
    using signed_token [OF s] by blast
  have same: "payload = c" using decoded_encoded [OF assms(1)] r(3) c(1) by blast
  then have purpose: "purpose = Register" using r(4) c(5) by (cases purpose) simp_all
  have "clock < tc_exp c" "tc_iss c = tru_issuer trusted" "tc_aud c = user"
    using decoded [OF assms(1) r(3)] same by simp_all
  then show ?thesis
    using purpose mine [OF purpose] r(1) c(2-4) lookup_key_Some [OF r(2)] by fastforce
qed

section \<open>A sample\<close>

definition acme_uuid :: string where
  "acme_uuid = ''11111111-2222-3333-4444-555555555555''"

definition acme_registry :: registry_db where
  "acme_registry = \<lparr>rg_tenant = \<lparr>tb_rows = map (tn_uuid_update (\<lambda>_. acme_uuid)) (tb_rows (rg_tenant (es_registry (newborn None)))),
    tb_seq = 1\<rparr>\<rparr>"

definition acme_host :: request_ctx where
  "acme_host = ann_admin\<lparr>cx_tenant_uuid := acme_uuid\<rparr>"

definition acme_call :: "(string \<times> string) list \<Rightarrow> int \<Rightarrow> string \<Rightarrow> lookup_call" where
  "acme_call keys now token = \<lparr>lk_token = token, lk_now = now, lk_registry = acme_registry, lk_fetch = (\<lambda>_ _. keys)\<rparr>"

definition acme_unverified :: "string \<Rightarrow> (string option \<times> string option) option" where
  "acme_unverified token = Some (Some ''oidc'', Some (token_issuer acme_host))"

definition server_keys :: trusted_keys where
  "server_keys = TrustedKeys ''https://pf.example/pf/t'' 1 30"

theorem forced_refreshes_rare_witness:
  "let fs = fst (lookups acme_unverified server_keys [acme_call [] 0 ''t'', acme_call [] 40 ''t'', acme_call [] 50 ''t'', acme_call [] 75 ''t''])
   in map snd fs = [None, Some (token_issuer acme_host), None, Some (token_issuer acme_host)] \<and> 30 \<le> fst (fs ! 3) - fst (fs ! 1)"
proof -
  obtain fs tk' where run: "lookups acme_unverified server_keys
      [acme_call [] 0 ''t'', acme_call [] 40 ''t'', acme_call [] 50 ''t'', acme_call [] 75 ''t''] = (fs, tk')"
    by (rule prod.exhaust)
  have "map snd (fst (lookups acme_unverified server_keys
      [acme_call [] 0 ''t'', acme_call [] 40 ''t'', acme_call [] 50 ''t'', acme_call [] 75 ''t''])) =
    [None, Some (token_issuer acme_host), None, Some (token_issuer acme_host)]"
    by code_simp
  then have events: "map snd fs = [None, Some (token_issuer acme_host), None, Some (token_issuer acme_host)]"
    using run by simp
  then have four: "length fs = 4" using length_map [of snd fs] by simp
  moreover have "snd (fs ! 1) = map snd fs ! 1" "snd (fs ! 3) = map snd fs ! 3" using four by simp_all
  moreover have "(1 :: nat) < 3" by simp
  ultimately have "30 \<le> fst (fs ! 3) - fst (fs ! 1)"
    using forced_refreshes_rare [OF run [unfolded server_keys_def]] events by (simp add: acme_call_def)
  then show ?thesis using run events by simp
qed

lemma acme_token:
  "\<exists>c token. read_self_token_endpoint (generate_token sample_jwt plain_crypto acme_host) acme_host ''bastion'' ''ann'' Register None
      (token_world empty_table) = (Inr token, token_world empty_table) \<and> token = jw_encode sample_jwt c ''oidc'' ''oidc'' \<and>
    tc_use c = ''register'' \<and> tc_iss c = token_issuer acme_host \<and> tc_aud c = ''ann-'' @ tenant_label sample_jwt acme_host \<and>
    tc_exp c = 1060"
proof -
  have key: "get_private_key plain_crypto acme_host (token_world empty_table) = (Inr ''oidc'', token_world empty_table)"
    by code_simp
  obtain me where me: "identity_read_self acme_host (token_world empty_table) = (Inr (Some me), token_world empty_table)"
      "i_name me = ''ann''"
  proof -
    have "case fst (identity_read_self acme_host (token_world empty_table)) of Inr (Some me) \<Rightarrow> i_name me = ''ann'' | _ \<Rightarrow> False"
      by code_simp
    moreover obtain res w where run: "identity_read_self acme_host (token_world empty_table) = (res, w)" by (rule prod.exhaust)
    moreover have "w = token_world empty_table"
      using identity_read_self_keeps [of "\<lambda>s. s = token_world empty_table", THEN keepsD, OF run] by simp
    ultimately show ?thesis using that by (auto split: sum.splits option.splits)
  qed
  have "cx_now acme_host = 1000" by (simp add: acme_host_def ann_admin_def ann_def sample_cx_def)
  then show ?thesis
    using key me by (auto simp: read_self_token_endpoint_def generate_token_def sign_token_def act_defs sample_jwt_def
        plain_crypto_def)
qed

lemma acme_trusted:
  "\<exists>tk'. lookup_key acme_unverified (acme_call [(''oidc'', ''oidc'')] 1010 token) server_keys =
    (Some \<lparr>tru_issuer = token_issuer acme_host, tru_key = ''oidc''\<rparr>, tk', None)"
proof -
  have "extract_tenant_uuid ''https://pf.example/pf/t'' (token_issuer acme_host) = Some acme_uuid"
    by code_simp
  moreover have "tenant_exists acme_uuid acme_registry" by code_simp
  ultimately show ?thesis
    by (simp add: lookup_key_def acme_unverified_def server_keys_def TrustedKeys_def acme_call_def lookup_issuer_def)
qed

theorem host_registers_as_itself_witness:
  "\<exists>token w' tk'. read_self_token_endpoint (generate_token sample_jwt plain_crypto acme_host) acme_host ''bastion'' ''ann'' Register None
      (token_world empty_table) = (Inr token, w') \<and>
    frps_plugin_endpoint sample_jwt acme_unverified (\<lambda>_. ''digest'') 1010 ''Login''
      [(''user'', JText (''ann-'' @ tenant_label sample_jwt acme_host)), (''privilege_key'', JText token), (''timestamp'', JInt 1010)]
      (acme_call [(''oidc'', ''oidc'')] 1010) server_keys = (Inr (Changed_Key ''digest''), tk') \<and>
    (1010 :: int) < cx_now acme_host + 60"
proof -
  obtain c token where t: "read_self_token_endpoint (generate_token sample_jwt plain_crypto acme_host) acme_host ''bastion'' ''ann'' Register None
      (token_world empty_table) = (Inr token, token_world empty_table)" "token = jw_encode sample_jwt c ''oidc'' ''oidc''"
      "tc_use c = ''register''" "tc_iss c = token_issuer acme_host" "tc_aud c = ''ann-'' @ tenant_label sample_jwt acme_host"
      "tc_exp c = 1060"
    using acme_token by blast
  obtain tk' where k: "lookup_key acme_unverified (acme_call [(''oidc'', ''oidc'')] 1010 token) server_keys =
      (Some \<lparr>tru_issuer = token_issuer acme_host, tru_key = ''oidc''\<rparr>, tk', None)"
    using acme_trusted by blast
  have "token \<noteq> []" using t(2) by (simp add: sample_jwt_def claim_texts_def)
  then obtain x xs where x: "token = x # xs" by (cases token) simp_all
  have "jw_decode sample_jwt token ''oidc'' (token_issuer acme_host) (''ann-'' @ tenant_label sample_jwt acme_host)
      [''sub'', ''name'', ''use''] 1010 = Some c"
    using t(2,4-6) by (simp add: sample_jwt_run)
  then have run: "frps_plugin_endpoint sample_jwt acme_unverified (\<lambda>_. ''digest'') 1010 ''Login''
      [(''user'', JText (''ann-'' @ tenant_label sample_jwt acme_host)), (''privilege_key'', JText token), (''timestamp'', JInt 1010)]
      (acme_call [(''oidc'', ''oidc'')] 1010) server_keys = (Inr (Changed_Key ''digest''), tk')"
    using k t(3) unfolding x by (simp add: frps_plugin_endpoint_def)
  then have "(1010 :: int) < cx_now acme_host + 60"
    using host_registers_as_itself [OF sample_jwt_documented t(1) run] by simp
  then show ?thesis using t(1) run by blast
qed

end
