(* ===== verification/Spec2Isabelle.thy ===== *)
theory Spec2Isabelle
  imports Checkers Ssh_Listing Unix_Account Audit_Numbering Audit_Catalogue Grant_Removal_Safety
    Converter_Roundtrip Policy_Safety Identity_Endpoints Session_Endpoints Certificate_Safety Ssh_Wire
    Auth_Http_Sig Signature_Safety Spending
    Audit_Reading Retention_Safety Rotation_Safety Tenant_Safety Confinement
    Live_Reports Reaper_Events Login_Safety Oidc_Safety Frame_Safety Relay_Safety Reconnect
    Client_Safety Trusted_Safety
begin

text \<open>
  A verification library for ProvablyFine. Paths below are relative to \<open>src/src/provablyfine\<close>, and those of the
  client library to \<open>src/packages/provablyfine-client/src/provablyfine_client\<close>.

  \<^bold>\<open>The program.\<close> ProvablyFine gives out short-lived SSH certificates. A server keeps, for each tenant, a database of
  identities, tags, roles (lists of grants) and boundaries (ceilings and denied lists of grants). A request is
  signed with HTTP message signatures (\<open>signature.py\<close>); its signer is an account, an invitation or a session,
  and a session may take on one role. An endpoint asks the permission checkers (\<open>grant.py\<close>) whether the grants
  of the role, cut by the boundaries of the identity, allow it, reads and writes tables (\<open>orm.py\<close>, \<open>app_db.py\<close>)
  through the modules of \<open>api/model\<close>, and leaves entries in the audit log, all in one transaction
  (\<open>context.py\<close>, \<open>dependencies.py\<close>). For an SSH login the client asks for a certificate (\<open>endpoints/ssh.py\<close>): its
  principal is a username on a host, its options say what may be done, its extensions until when. It reaches
  the host through a bastion: the relay of the host (\<open>cli/pf/bastion_cli.py\<close>) keeps a connection to the bastion, over
  frp messages in WebSocket frames, after the server has told the bastion that the host is who it says
  (\<open>endpoints/frps.py\<close>, \<open>jwt_validator.py\<close>), and checks the token that the visitor got from the server
  (\<open>model/bastion.py\<close>, \<open>cli/token_verify.py\<close>). On the host, sshd asks \<open>pf openssh auth-principals\<close> whether the certificate
  opens the account, a PAM hook sets a timer, a reaper ends the session at its deadline or on request, and
  the events of sessions go back to the server through a spool. Jobs rotate keys and purge old records.

  \<^bold>\<open>Foundations.\<close> \<open>Prelude\<close>: actions \<open>'s \<Rightarrow> (exn + 'a) \<times> 's\<close> that can raise, with \<open>and_then\<close>, \<open>seq\<close>,
  \<open>for_each\<close> and \<open>collect\<close>, the rules \<open>keeps\<close> that carry an invariant through a composed action, Python's dictionaries
  as association lists in the order of insertion. \<open>Runs\<close>: a logic for actions that succeed. \<open>Decimal\<close>, \<open>Utils\<close>,
  \<open>Unix_Account\<close>: small routines of the server. \<open>Responses\<close>: problem documents and the exceptions. \<open>Tables\<close>,
  \<open>App_Db\<close>: \<open>orm.py\<close> and \<open>app_db.py\<close>; a table is the list of its rows with the counter of its key,
  and every row class is a record. What a statement does to it is the semantics of the database, which is assumed.
  \<open>Request\<close>: \<open>context.py\<close> and the transaction: a handler is an action over a
  \<open>world\<close> (database, work deferred to the end of the request, nonces, actions after the commit that were carried
  out) with a \<open>request_ctx\<close> as its argument.

  \<^bold>\<open>Policy.\<close> \<open>Grant_Model\<close> (\<open>model/grant.py\<close>), \<open>Grant_Checker\<close> and \<open>Checkers\<close> (\<open>grant.py\<close>): a permission is given exactly when
  every boundary passes and some grant of the role matches. \<open>Ssh_Decision\<close> is \<open>SSHChecker\<close> with its dictionaries;
  \<open>Ssh_Allowance\<close> states what it should compute, a lattice of bounded and unbounded sessions where roles are
  maxima and boundaries minima, and shows that both dictionaries refine it; \<open>Ssh_Listing\<close> is the enumeration
  of decisions. \<open>Model_Policy\<close>, \<open>Model_Identity\<close>, \<open>Model_Bastion\<close>, \<open>Model_Keys\<close>: the modules of those names in \<open>api/model\<close>.
  \<open>Grant_Removal\<close>, \<open>Grant_Removal_Safety\<close>: what happens to grants when an object that they name is deleted.
  \<open>Converters\<close>, \<open>Converter_Roundtrip\<close> (\<open>converters.py\<close>, \<open>schemas/grant.py\<close>): grants as clients see them.

  \<^bold>\<open>Endpoints.\<close> \<open>Endpoint_Base\<close>, \<open>Policy_Endpoints\<close>, \<open>Identity_Endpoints\<close>, \<open>Session_Endpoints\<close>, \<open>Certificate_Endpoints\<close>
  with \<open>Ssh_Cert\<close>, \<open>Auth_Config\<close>, \<open>Registry\<close>, \<open>Initialize\<close>: the routers of \<open>api/endpoints\<close>, each endpoint as a handler
  with its checks in the order of the code. \<open>Policy_Safety\<close>: nobody edits the policy that binds them.
  \<open>Certificate_Safety\<close>: a certificate grants what was decided, for no longer, and is recorded; one for forwarding does
  not exclude commands. \<open>Tenant_Safety\<close>, \<open>Confinement\<close>, \<open>Founding\<close>: tenants do
  not touch each other, a boundary on everybody holds for ever, and the first request of a tenant succeeds.

  \<^bold>\<open>Who is calling.\<close> \<open>Signature\<close>, \<open>Nonce_Store\<close>, \<open>Auth_Http_Sig\<close>, \<open>Oidc_Login\<close>: verification of requests and the logins.
  \<open>Signature_Safety\<close>, \<open>Oidc_Safety\<close>: a request acts for a session that is in force and proved its key, a signed
  request and a token of an identity provider work once. \<open>Client_Requests\<close>, \<open>Client_Safety\<close>: the client library signs what
  the server accepts and understands how it refuses. \<open>Spending\<close>: invitations, roles of sessions and serial
  numbers under every interleaving of statements.

  \<^bold>\<open>Records and jobs.\<close> \<open>Audit_Types\<close>, \<open>Audit_Catalogue\<close>, \<open>Audit_Log\<close>, \<open>Audit_Numbering\<close>, \<open>Paging\<close>, \<open>Audit_Paging\<close>, \<open>Audit_Reading\<close>:
  entries are written with the request that they describe, a request that fails before its commit is undone and one that
  fails after it (an email, a command to a host) is done, and who follows the cursors reads all of them.
  \<open>Retention\<close>, \<open>Retention_Safety\<close>: the purge. \<open>Rotation\<close>, \<open>Rotation_Safety\<close>: a key is always in force.

  \<^bold>\<open>The way to a host.\<close> \<open>Ssh_Buffer\<close>, \<open>Ssh_Wire\<close> (\<open>ssh/buffer.py\<close>, \<open>ssh/wire.py\<close>): values and messages of the SSH protocols.
  \<open>Frp_Frames\<close>, \<open>Frame_Safety\<close>: messages, cipher and frames between relay and bastion. \<open>Bastion_Tokens\<close>, \<open>Relay\<close>, \<open>Relay_Safety\<close>,
  \<open>Reconnect\<close>: what opens a tunnel and when it ends. \<open>Trusted_Keys\<close>, \<open>Trusted_Safety\<close>: who may register at a bastion.
  \<open>Host_Procs\<close>, \<open>Host_Files\<close>, \<open>Session_Reaper\<close>, \<open>Live_Events\<close>, \<open>Host_Login\<close>: the programs of a host, as state machines over
  the process table, the clock and the directories that they share. \<open>Reaper_Safety\<close>, \<open>Reaper_Events\<close>, \<open>Live_Order\<close>,
  \<open>Live_Reports\<close>, \<open>Login_Safety\<close>: whom the reaper signals, that sessions end as long as their record is there, that events
  arrive in order and at least once if they arrive, and that one that arrives again changes nothing.

  \<^bold>\<open>Interfaces.\<close> Locales state what one component relies on in another, and each is interpreted on the model:
  \<open>id_store\<close> (ids of rows), \<open>authorizer\<close> (boundaries take away, roles add), \<open>grant_rewriter\<close> (removal of grants, three
  modules), \<open>two_way\<close> (pairs of lookups of the converter), \<open>claiming\<close> (conditional updates under interleaving),
  \<open>rotating\<close> (stores of keys), and the transports of \<open>Ssh_Wire\<close>.

  \<^bold>\<open>Bounds.\<close> No fuel is used to hide that a loop ends: the loops of the code are recursions on their data or have a
  measure that is proved (batches of a purge delete a row, pages of a log advance, frames consume bytes).
  A sequence of retries or attempts is a list of what the environment answers, of any length; \<open>None\<close> then says that
  the loop has not ended with it. Numbers are unbounded as in Python, except where the code writes bytes
  (8-bit words in \<open>Ssh_Buffer\<close> and \<open>Frp_Frames\<close>). Times are in seconds on the server and in microseconds on hosts.

  \<^bold>\<open>Parameters.\<close> What is not in the repository is an argument, gathered in records of functions: \<open>crypto\<close> (encryption,
  thumbprints and parsing of keys), \<open>http_lib\<close> (structured fields, digests, signature primitives), \<open>jwt_lib\<close>, \<open>oidc_lib\<close>,
  \<open>auth_lib\<close>, \<open>audit_lib\<close>, \<open>json_codec\<close>, \<open>outside\<close> (mail and the way to a bastion) and the AES stream. A theorem that needs a documented behaviour of one (what is
  encoded decodes to itself) names it as a hypothesis, and its witness instantiates it.

  \<^bold>\<open>Decisions.\<close> A request reads the clock once and draws one random value. A column that holds grants holds grants:
  serialization by pydantic is the identity, and a request has passed its schema. COMMIT succeeds. Strings are their UTF-8
  bytes. A \<open>where\<close> clause is a predicate on rows. Concurrency is modelled where the code defends against it
  (\<open>Spending\<close>, \<open>Audit_Reading\<close>): as interleavings of statements, each on the committed state; elsewhere a
  request is one step. The operations of a program on its own files succeed; what others put in a directory is arbitrary.

  \<^bold>\<open>Not modelled.\<close> The wiring of the web framework, database engines, migrations and mail; the terminal interface and the
  commands that only parse arguments and print; the SSH agent and the process that holds keys in memory;
  Windows and macOS variants of the host programs; the encoding of keys over the cryptography library.
\<close>

end
